(* ===== verification/RingBuffer.thy ===== *)
theory RingBuffer
  imports Prelude
begin

text \<open>
  The two bounded in-memory histories of the runtime supervisor:
  \<open>MetricsBuffer\<close> (src/internal/service/metrics_buffer.go) and \<open>restartTracker\<close>
  (src/internal/service/restart_tracker.go).  Both are ring buffers over a Go slice with a
  write position and a count.  A Go panic (an index out of range, a division by zero, a
  negative slice length) is the value \<^const>\<open>None\<close>.

  The contract both promise is the locale \<open>bounded_history\<close>: the abstraction of a buffer is
  the list of the events it still holds, oldest first, and pushing appends an event and keeps
  the last \<open>capacity\<close> ones.  The locale is interpreted on both models.
\<close>

section \<open>The snapshot and event records\<close>

text \<open>The percentages are \<open>float64\<close>; no operation here computes with them, so their type is a
  parameter \<open>'f\<close> with a zero.\<close>

record 'f MetricsSnapshot =
  Timestamp :: string
  ResourceScope :: string
  Available :: bool
  CPUPercent :: 'f
  MemoryPercent :: 'f
  DiskPercent :: 'f

record RestartEvent =
  EvTimestamp :: string
  ExitCode :: int
  Attempt :: int
  MaxAttempts :: int

definition zeroMetricsSnapshot :: "'f::zero MetricsSnapshot" where
  "zeroMetricsSnapshot = \<lparr>Timestamp = '''', ResourceScope = '''', Available = False,
     CPUPercent = 0, MemoryPercent = 0, DiskPercent = 0\<rparr>"

definition zeroRestartEvent :: RestartEvent where
  "zeroRestartEvent = \<lparr>EvTimestamp = '''', ExitCode = 0, Attempt = 0, MaxAttempts = 0\<rparr>"

section \<open>MetricsBuffer\<close>

record 'f MetricsBuffer =
  mb_entries :: "'f MetricsSnapshot list"
  mb_head :: nat
  mb_count :: nat
  mb_capacity :: nat

definition NewMetricsBuffer :: "int \<Rightarrow> 'f::zero MetricsBuffer option" where
  "NewMetricsBuffer capacity =
     (if capacity < 0 then None
      else Some \<lparr>mb_entries = replicate (nat capacity) zeroMetricsSnapshot,
                 mb_head = 0, mb_count = 0, mb_capacity = nat capacity\<rparr>)"

definition mb_Push :: "'f MetricsBuffer \<Rightarrow> 'f MetricsSnapshot \<Rightarrow> 'f MetricsBuffer option" where
  "mb_Push mb snap =
     (if mb_head mb \<ge> length (mb_entries mb) \<or> mb_capacity mb = 0 then None
      else Some (mb\<lparr>mb_entries := (mb_entries mb)[mb_head mb := snap],
                    mb_head := (mb_head mb + 1) mod mb_capacity mb,
                    mb_count := (if mb_count mb < mb_capacity mb then mb_count mb + 1
                                 else mb_count mb)\<rparr>))"

text \<open>
  The index arithmetic \<open>(head - n + i + capacity) % capacity\<close> is on Go's signed integers; the
  dividend is non-negative whenever \<open>n \<le> count \<le> capacity\<close>, so Go's truncating remainder and
  \<open>mod\<close> agree.
\<close>

definition ring_index :: "nat \<Rightarrow> nat \<Rightarrow> nat \<Rightarrow> nat \<Rightarrow> nat" where
  "ring_index head n i capacity = nat ((int head - int n + int i + int capacity) mod int capacity)"

definition mb_Recent :: "'f MetricsBuffer \<Rightarrow> int \<Rightarrow> 'f MetricsSnapshot list option" where
  "mb_Recent mb n =
     (let n = (if n > int (mb_count mb) then int (mb_count mb) else n) in
      if n < 0 then None
      else those (map (\<lambda>i. let idx = ring_index (mb_head mb) (nat n) i (mb_capacity mb) in
                           if idx < length (mb_entries mb) then Some (mb_entries mb ! idx) else None)
                      [0..<nat n]))"

definition mb_Last :: "'f::zero MetricsBuffer \<Rightarrow> ('f MetricsSnapshot \<times> bool) option" where
  "mb_Last mb =
     (if mb_count mb = 0 then Some (zeroMetricsSnapshot, False)
      else let idx = nat ((int (mb_head mb) - 1 + int (mb_capacity mb)) mod int (mb_capacity mb)) in
           if idx < length (mb_entries mb) then Some (mb_entries mb ! idx, True) else None)"

section \<open>restartTracker\<close>

record restartTracker =
  rt_entries :: "RestartEvent list"
  rt_head :: nat
  rt_count :: nat
  rt_capacity :: nat

definition newRestartTracker :: "int \<Rightarrow> restartTracker option" where
  "newRestartTracker capacity =
     (if capacity < 0 then None
      else Some \<lparr>rt_entries = replicate (nat capacity) zeroRestartEvent,
                 rt_head = 0, rt_count = 0, rt_capacity = nat capacity\<rparr>)"

definition rt_push :: "restartTracker \<Rightarrow> RestartEvent \<Rightarrow> restartTracker option" where
  "rt_push rt evt =
     (if rt_head rt \<ge> length (rt_entries rt) \<or> rt_capacity rt = 0 then None
      else Some (rt\<lparr>rt_entries := (rt_entries rt)[rt_head rt := evt],
                    rt_head := (rt_head rt + 1) mod rt_capacity rt,
                    rt_count := (if rt_count rt < rt_capacity rt then rt_count rt + 1
                                 else rt_count rt)\<rparr>))"

definition rt_restartEvents :: "restartTracker \<Rightarrow> RestartEvent list option" where
  "rt_restartEvents rt =
     (let n = rt_count rt in
      those (map (\<lambda>i. let idx = ring_index (rt_head rt) n i (rt_capacity rt) in
                      if idx < length (rt_entries rt) then Some (rt_entries rt ! idx) else None)
                 [0..<n]))"

section \<open>Ring arithmetic\<close>

text \<open>The well-formed shapes of a ring, and the list of its live elements, oldest first.\<close>

definition ring_wf :: "'a list \<Rightarrow> nat \<Rightarrow> nat \<Rightarrow> nat \<Rightarrow> bool" where
  "ring_wf es h c cap \<longleftrightarrow> 0 < cap \<and> length es = cap \<and> h < cap \<and> c \<le> cap"

definition ring_live :: "'a list \<Rightarrow> nat \<Rightarrow> nat \<Rightarrow> nat \<Rightarrow> 'a list" where
  "ring_live es h n cap = map (\<lambda>i. es ! ((h + cap - n + i) mod cap)) [0..<n]"

lemma those_map_Some [simp]: "those (map (\<lambda>i. Some (f i)) xs) = Some (map f xs)"
  by (induction xs) auto

lemma ring_index_eq:
  assumes "n \<le> cap" "0 < cap"
  shows "ring_index h n i cap = (h + cap - n + i) mod cap"
proof -
  have "int h - int n + int i + int cap = int (h + cap - n + i)"
    using assms by simp
  then have "ring_index h n i cap = nat (int (h + cap - n + i) mod int cap)"
    by (simp only: ring_index_def)
  also have "\<dots> = (h + cap - n + i) mod cap"
    by (metis nat_int zmod_int)
  finally show ?thesis .
qed

lemma ring_index_lt: "0 < cap \<Longrightarrow> n \<le> cap \<Longrightarrow> ring_index h n i cap < cap"
  by (simp add: ring_index_eq)

lemma ring_live_length [simp]: "length (ring_live es h n cap) = n"
  by (simp add: ring_live_def)

lemma ring_live_read:
  assumes "ring_wf es h c cap" "n \<le> c"
  shows "those (map (\<lambda>i. let idx = ring_index h n i cap in
            if idx < length es then Some (es ! idx) else None) [0..<n]) = Some (ring_live es h n cap)"
  using assms by (simp add: ring_wf_def ring_index_eq ring_live_def Let_def)

lemma ring_mod_ne:
  fixes h cap d :: nat
  assumes "h < cap" "0 < d" "d < cap"
  shows "(h + cap - d) mod cap \<noteq> h"
proof (cases "d \<le> h")
  case True
  then have "(h + cap - d) mod cap = h - d"
    using assms by (simp add: mod_if)
  then show ?thesis using True assms by simp
next
  case False
  then have "(h + cap - d) mod cap = h + cap - d"
    using assms by simp
  then show ?thesis using assms by simp
qed

text \<open>The newest slot, read through the advanced head, is the one just written.\<close>

lemma ring_newest:
  assumes "h < (cap::nat)"
  shows "((h + 1) mod cap + cap - 1) mod cap = h"
  using assms by (cases "h + 1 = cap") auto

text \<open>A slot older than the newest keeps its index when the head advances.\<close>

lemma ring_shift:
  fixes h cap n i :: nat
  assumes "h < cap" "n \<le> cap" "0 < n" "i < n"
  shows "((h + 1) mod cap + cap - n + i) mod cap = (h + cap - (n - 1) + i) mod cap"
proof (cases "h + 1 = cap")
  case True
  have "h + cap - (n - 1) + i = cap + (cap - n + i)"
    using True assms by arith
  then have "(h + cap - (n - 1) + i) mod cap = (cap - n + i) mod cap"
    by (simp only: mod_add_self1)
  then show ?thesis using True assms by simp
next
  case False
  then show ?thesis using assms by simp
qed

lemma ring_live_push:
  assumes wf: "ring_wf es h c cap" and n: "n < cap" "n \<le> c"
  shows "ring_live (es[h := x]) ((h + 1) mod cap) (n + 1) cap = ring_live es h n cap @ [x]"
proof (rule nth_equalityI)
  show "length (ring_live (es[h := x]) ((h + 1) mod cap) (n + 1) cap) =
        length (ring_live es h n cap @ [x])" by simp
  fix i assume "i < length (ring_live (es[h := x]) ((h + 1) mod cap) (n + 1) cap)"
  then have i: "i < n + 1" by simp
  have hc: "h < cap" "length es = cap" using wf by (auto simp: ring_wf_def)
  have idx: "((h + 1) mod cap + cap - (n + 1) + i) mod cap = (h + cap - n + i) mod cap"
    using ring_shift [of h cap "n + 1" i] hc n i by simp
  show "ring_live (es[h := x]) ((h + 1) mod cap) (n + 1) cap ! i = (ring_live es h n cap @ [x]) ! i"
  proof (cases "i = n")
    case True
    then have "(h + cap - n + i) mod cap = h" using hc n by simp
    then show ?thesis
      unfolding ring_live_def using idx True hc i by (simp add: nth_append del: upt_Suc)
  next
    case False
    then have "(h + cap - (n - i)) mod cap \<noteq> h"
      using ring_mod_ne [of h cap "n - i"] hc n i by simp
    moreover have "h + cap - (n - i) = h + cap - n + i"
      using i n False by simp
    ultimately have "(h + cap - n + i) mod cap \<noteq> h" by simp
    then show ?thesis
      unfolding ring_live_def using idx False hc i by (simp add: nth_append del: upt_Suc)
  qed
qed

lemma ring_live_lastn:
  assumes "n \<le> c" "c \<le> cap"
  shows "ring_live es h n cap = lastn n (ring_live es h c cap)"
proof (rule nth_equalityI)
  show "length (ring_live es h n cap) = length (lastn n (ring_live es h c cap))"
    using assms by simp
  fix i assume "i < length (ring_live es h n cap)"
  then have i: "i < n" by simp
  have "h + cap - c + (c - n + i) = h + cap - n + i" and "c - n + i < c"
    using assms i by simp_all
  then have "ring_live es h c cap ! (c - n + i) = es ! ((h + cap - n + i) mod cap)"
    by (simp only: ring_live_def nth_map length_upt nth_upt diff_zero add_0)
  then show "ring_live es h n cap ! i = lastn n (ring_live es h c cap) ! i"
    using assms i by (simp add: lastn_def) (simp add: ring_live_def)
qed

lemma ring_push_step:
  assumes wf: "ring_wf es h c cap"
  defines "c' \<equiv> (if c < cap then c + 1 else c)"
  shows "ring_wf (es[h := x]) ((h + 1) mod cap) c' cap"
    and "ring_live (es[h := x]) ((h + 1) mod cap) c' cap = lastn cap (ring_live es h c cap @ [x])"
proof -
  have cap: "0 < cap" "c \<le> cap" using wf by (auto simp: ring_wf_def)
  show "ring_wf (es[h := x]) ((h + 1) mod cap) c' cap"
    using wf by (auto simp: ring_wf_def c'_def)
  show "ring_live (es[h := x]) ((h + 1) mod cap) c' cap = lastn cap (ring_live es h c cap @ [x])"
  proof (cases "c < cap")
    case True
    then show ?thesis
      using ring_live_push [OF wf, of c x] by (simp add: c'_def)
  next
    case False
    then have "c' = (cap - 1) + 1" "c = cap" using cap by (auto simp: c'_def)
    then show ?thesis
      using ring_live_push [OF wf, of "cap - 1" x] ring_live_lastn [of "cap - 1" cap cap es h] cap
      by (simp add: lastn_append_ge)
  qed
qed

section \<open>The contract of a bounded history\<close>

locale bounded_history =
  fixes invar :: "'b \<Rightarrow> bool"
    and capacity :: "'b \<Rightarrow> nat"
    and events :: "'b \<Rightarrow> 'a list"
    and push :: "'b \<Rightarrow> 'a \<Rightarrow> 'b option"
  assumes events_bound: "invar b \<Longrightarrow> length (events b) \<le> capacity b"
    and push_defined: "invar b \<Longrightarrow> \<exists>b'. push b x = Some b'"
    and push_invar: "invar b \<Longrightarrow> push b x = Some b' \<Longrightarrow> invar b'"
    and push_capacity: "push b x = Some b' \<Longrightarrow> capacity b' = capacity b"
    and push_events: "invar b \<Longrightarrow> push b x = Some b' \<Longrightarrow>
       events b' = lastn (capacity b) (events b @ [x])"
begin

lemma push_all_history:
  assumes "invar b"
  shows "\<exists>b'. foldl (\<lambda>s x. Option.bind s (\<lambda>b. push b x)) (Some b) xs = Some b' \<and> invar b' \<and>
              capacity b' = capacity b \<and> events b' = lastn (capacity b) (events b @ xs)"
  using assms
proof (induction xs arbitrary: b)
  case Nil
  then show ?case using events_bound by simp
next
  case (Cons x xs)
  obtain b1 where b1: "push b x = Some b1" using push_defined [OF Cons.prems] by blast
  have inv: "invar b1" and cap: "capacity b1 = capacity b"
    and ev: "events b1 = lastn (capacity b) (events b @ [x])"
    using push_invar [OF Cons.prems b1] push_capacity [OF b1] push_events [OF Cons.prems b1] by auto
  have "lastn (capacity b) (lastn (capacity b) (events b @ [x]) @ xs) =
        lastn (capacity b) (events b @ x # xs)"
    by (simp add: lastn_lastn_append)
  then show ?case using Cons.IH [OF inv] b1 cap ev by simp
qed

end

section \<open>Both buffers keep the contract\<close>

definition mb_invar :: "'f MetricsBuffer \<Rightarrow> bool" where
  "mb_invar mb \<longleftrightarrow> ring_wf (mb_entries mb) (mb_head mb) (mb_count mb) (mb_capacity mb)"

definition mb_events :: "'f MetricsBuffer \<Rightarrow> 'f MetricsSnapshot list" where
  "mb_events mb = ring_live (mb_entries mb) (mb_head mb) (mb_count mb) (mb_capacity mb)"

definition rt_invar :: "restartTracker \<Rightarrow> bool" where
  "rt_invar rt \<longleftrightarrow> ring_wf (rt_entries rt) (rt_head rt) (rt_count rt) (rt_capacity rt)"

definition rt_events :: "restartTracker \<Rightarrow> RestartEvent list" where
  "rt_events rt = ring_live (rt_entries rt) (rt_head rt) (rt_count rt) (rt_capacity rt)"

lemmas mb_defs = mb_invar_def mb_events_def mb_Push_def
lemmas rt_defs = rt_invar_def rt_events_def rt_push_def

interpretation metrics: bounded_history mb_invar mb_capacity mb_events mb_Push
proof
  fix b b' :: "'f MetricsBuffer" and x
  show "mb_invar b \<Longrightarrow> length (mb_events b) \<le> mb_capacity b"
    by (simp add: mb_defs ring_wf_def)
  show "mb_invar b \<Longrightarrow> \<exists>b'. mb_Push b x = Some b'"
    by (simp add: mb_defs ring_wf_def)
  show "mb_Push b x = Some b' \<Longrightarrow> mb_capacity b' = mb_capacity b"
    by (auto simp: mb_Push_def split: if_splits)
  assume inv: "mb_invar b" and p: "mb_Push b x = Some b'"
  note step = ring_push_step [OF inv [unfolded mb_invar_def], of x]
  show "mb_invar b'"
    using p step(1) by (auto simp: mb_defs split: if_splits)
  show "mb_events b' = lastn (mb_capacity b) (mb_events b @ [x])"
    using p step(2) by (auto simp: mb_defs split: if_splits)
qed

interpretation restarts: bounded_history rt_invar rt_capacity rt_events rt_push
proof
  fix b b' :: restartTracker and x
  show "rt_invar b \<Longrightarrow> length (rt_events b) \<le> rt_capacity b"
    by (simp add: rt_defs ring_wf_def)
  show "rt_invar b \<Longrightarrow> \<exists>b'. rt_push b x = Some b'"
    by (simp add: rt_defs ring_wf_def)
  show "rt_push b x = Some b' \<Longrightarrow> rt_capacity b' = rt_capacity b"
    by (auto simp: rt_push_def split: if_splits)
  assume inv: "rt_invar b" and p: "rt_push b x = Some b'"
  note step = ring_push_step [OF inv [unfolded rt_invar_def], of x]
  show "rt_invar b'"
    using p step(1) by (auto simp: rt_defs split: if_splits)
  show "rt_events b' = lastn (rt_capacity b) (rt_events b @ [x])"
    using p step(2) by (auto simp: rt_defs split: if_splits)
qed

lemma NewMetricsBuffer_spec:
  assumes "0 < capacity"
  shows "\<exists>b. NewMetricsBuffer capacity = Some b \<and> mb_invar b \<and> mb_events b = [] \<and>
             mb_capacity b = nat capacity"
  using assms by (simp add: NewMetricsBuffer_def mb_invar_def ring_wf_def mb_events_def ring_live_def)

lemma newRestartTracker_spec:
  assumes "0 < capacity"
  shows "\<exists>b. newRestartTracker capacity = Some b \<and> rt_invar b \<and> rt_events b = [] \<and>
             rt_capacity b = nat capacity"
  using assms by (simp add: newRestartTracker_def rt_invar_def ring_wf_def rt_events_def ring_live_def)

lemma mb_Recent_spec:
  assumes "mb_invar mb" "0 \<le> n"
  shows "mb_Recent mb n = Some (lastn (nat n) (mb_events mb))"
proof -
  let ?m = "nat (if n > int (mb_count mb) then int (mb_count mb) else n)"
  have m: "?m \<le> mb_count mb" "lastn (nat n) (mb_events mb) = lastn ?m (mb_events mb)"
    by (auto simp: mb_events_def)
  have wf: "ring_wf (mb_entries mb) (mb_head mb) (mb_count mb) (mb_capacity mb)"
    using assms by (simp add: mb_invar_def)
  have "ring_live (mb_entries mb) (mb_head mb) ?m (mb_capacity mb) = lastn ?m (mb_events mb)"
    unfolding mb_events_def by (rule ring_live_lastn [OF m(1)]) (use wf in \<open>simp add: ring_wf_def\<close>)
  then show ?thesis
    using assms(2) m(2) ring_live_read [OF wf m(1)] by (simp add: mb_Recent_def Let_def)
qed

lemma mb_Last_spec:
  assumes "mb_invar mb"
  shows "mb_Last mb = Some (if mb_events mb = [] then (zeroMetricsSnapshot, False)
                            else (last (mb_events mb), True))"
proof (cases "mb_count mb = 0")
  case True
  then show ?thesis by (simp add: mb_Last_def mb_events_def ring_live_def)
next
  case False
  have wf: "0 < mb_capacity mb" "length (mb_entries mb) = mb_capacity mb"
    "mb_head mb < mb_capacity mb" "mb_count mb \<le> mb_capacity mb"
    using assms by (auto simp: mb_invar_def ring_wf_def)
  have ne: "mb_events mb \<noteq> []" using False by (simp add: mb_events_def ring_live_def)
  have idx: "nat ((int (mb_head mb) - 1 + int (mb_capacity mb)) mod int (mb_capacity mb)) =
             (mb_head mb + mb_capacity mb - 1) mod mb_capacity mb"
    using ring_index_eq [of 1 "mb_capacity mb" "mb_head mb" 0] wf by (simp add: ring_index_def)
  have "last (mb_events mb) =
        mb_entries mb ! ((mb_head mb + mb_capacity mb - 1) mod mb_capacity mb)"
    using False wf by (simp add: mb_events_def ring_live_def last_map last_upt)
  then show ?thesis using False ne idx wf by (simp add: mb_Last_def Let_def)
qed

lemma rt_restartEvents_spec: "rt_invar rt \<Longrightarrow> rt_restartEvents rt = Some (rt_events rt)"
  unfolding rt_invar_def rt_restartEvents_def rt_events_def Let_def
  using ring_live_read [of "rt_entries rt" "rt_head rt" "rt_count rt" "rt_capacity rt" "rt_count rt"]
  by (simp add: Let_def)

section \<open>The histories the two buffers report\<close>

text \<open>C11. Whatever sequence of snapshots is pushed into a fresh metrics buffer of positive
  capacity, no push panics, \<open>Recent n\<close> returns the last \<open>n\<close> of the last \<open>capacity\<close> snapshots in
  chronological order, and \<open>Last\<close> returns the newest one (or reports that there is none).\<close>

theorem metrics_history:
  fixes xs :: "'f::zero MetricsSnapshot list"
  assumes "0 < c" "0 \<le> n"
  shows "\<exists>b. foldl (\<lambda>s x. Option.bind s (\<lambda>b. mb_Push b x)) (NewMetricsBuffer c) xs = Some b \<and>
             mb_Recent b n = Some (lastn (nat n) (lastn (nat c) xs)) \<and>
             mb_Last b = Some (if xs = [] then (zeroMetricsSnapshot, False) else (last xs, True))"
proof -
  obtain b0 :: "'f MetricsBuffer" where b0: "NewMetricsBuffer c = Some b0" "mb_invar b0"
    "mb_events b0 = []" "mb_capacity b0 = nat c"
    using NewMetricsBuffer_spec [OF assms(1)] by blast
  obtain b where b: "foldl (\<lambda>s x. Option.bind s (\<lambda>b. mb_Push b x)) (Some b0) xs = Some b" "mb_invar b"
    "mb_events b = lastn (nat c) xs"
    using metrics.push_all_history [OF b0(2), of xs] b0 by auto
  have "lastn (nat c) xs = [] \<longleftrightarrow> xs = []"
    using assms(1) by simp
  then show ?thesis
    using b b0 mb_Recent_spec [OF b(2) assms(2)] mb_Last_spec [OF b(2)] assms(1) by auto
qed

theorem metrics_history_witness:
  "\<exists>b. foldl (\<lambda>s x. Option.bind s (\<lambda>b. mb_Push b x)) (NewMetricsBuffer 1)
          [(zeroMetricsSnapshot :: int MetricsSnapshot), zeroMetricsSnapshot\<lparr>Available := True\<rparr>] = Some b \<and>
       mb_Recent b 5 = Some [zeroMetricsSnapshot\<lparr>Available := True\<rparr>]"
proof -
  let ?xs = "[(zeroMetricsSnapshot :: int MetricsSnapshot), zeroMetricsSnapshot\<lparr>Available := True\<rparr>]"
  have "lastn (nat 5) (lastn (nat 1) ?xs) = [zeroMetricsSnapshot\<lparr>Available := True\<rparr>]"
    by (simp add: lastn_def)
  then show ?thesis using metrics_history [of 1 5 ?xs] by auto
qed

text \<open>After any sequence of restarts, the restart tracker reports exactly the last
  \<open>capacity\<close> restart events, oldest first, and no push panics.\<close>

theorem restart_history:
  assumes "0 < c"
  shows "\<exists>b. foldl (\<lambda>s x. Option.bind s (\<lambda>b. rt_push b x)) (newRestartTracker c) xs = Some b \<and>
             rt_restartEvents b = Some (lastn (nat c) xs)"
proof -
  obtain b0 where b0: "newRestartTracker c = Some b0" "rt_invar b0" "rt_events b0 = []"
    "rt_capacity b0 = nat c"
    using newRestartTracker_spec [OF assms] by blast
  then show ?thesis
    using restarts.push_all_history [OF b0(2), of xs] rt_restartEvents_spec by auto
qed

theorem restart_history_witness:
  "\<exists>b. foldl (\<lambda>s x. Option.bind s (\<lambda>b. rt_push b x)) (newRestartTracker 1)
          [zeroRestartEvent, zeroRestartEvent\<lparr>ExitCode := 1\<rparr>] = Some b \<and>
       rt_restartEvents b = Some [zeroRestartEvent\<lparr>ExitCode := 1\<rparr>]"
proof -
  have "lastn (nat 1) [zeroRestartEvent, zeroRestartEvent\<lparr>ExitCode := 1\<rparr>] =
        [zeroRestartEvent\<lparr>ExitCode := 1\<rparr>]" by (simp add: lastn_def)
  then show ?thesis
    using restart_history [of 1 "[zeroRestartEvent, zeroRestartEvent\<lparr>ExitCode := 1\<rparr>]"] by auto
qed

end
