(* ===== verification/RateLimit.thy ===== *)
theory RateLimit
  imports Prelude
begin

text \<open>
  The credential throttle of src/internal/middleware/ratelimit.go: failed logins are counted
  per bucket (an IP or a normalised user name), six failures in a fifteen-minute window lock
  the bucket until the window ends, and the table is written to \<open>ratelimit.json\<close> so that a lock
  survives a restart.

  Times are integers in nanoseconds; the zero \<open>time.Time\<close> of \<open>LockedUntil\<close> is \<^const>\<open>None\<close>.
  \<open>time.Now()\<close> is an argument.  Where the code reads the clock twice (\<open>Check\<close> computes the
  remaining time with \<open>time.Until\<close>), the second reading is a second argument.  The JSON file
  is the field \<open>disk\<close>: the table a successful \<open>persist\<close> wrote last; whether a write succeeds
  is an argument, because its error is ignored.
\<close>

section \<open>State\<close>

definition maxAttempts :: int where "maxAttempts = 6"

definition windowDuration :: int where "windowDuration = 15 * 60 * 1000000000"

record attempt =
  Count :: int
  FirstAt :: int
  LockedUntil :: "int option"

record RateLimiter =
  attempts :: "string \<rightharpoonup> attempt"
  dataDir :: string
  disk :: "(string \<rightharpoonup> attempt) option"

section \<open>Bucket keys\<close>

definition AuthIPKey :: "string \<Rightarrow> string" where
  "AuthIPKey ip = ''auth-ip:'' @ ip"

definition NormalizeUsername :: "string \<Rightarrow> string" where
  "NormalizeUsername username = ToLower (TrimSpace username)"

definition AuthUserKey :: "string \<Rightarrow> string" where
  "AuthUserKey username = ''auth-user:'' @ ToLower (TrimSpace username)"

definition SetupUserKey :: "string \<Rightarrow> string" where
  "SetupUserKey username = ''setup-user:'' @ NormalizeUsername username"

section \<open>Operations\<close>

definition persist :: "bool \<Rightarrow> RateLimiter \<Rightarrow> RateLimiter" where
  "persist ok rl =
     (if dataDir rl = '''' then rl
      else if \<not> ok then rl
      else rl\<lparr>disk := Some (attempts rl)\<rparr>)"

definition load :: "RateLimiter \<Rightarrow> RateLimiter" where
  "load rl =
     (if dataDir rl = '''' then rl
      else case disk rl of None \<Rightarrow> rl | Some tab \<Rightarrow> rl\<lparr>attempts := tab\<rparr>)"

definition NewRateLimiter :: "string \<Rightarrow> (string \<rightharpoonup> attempt) option \<Rightarrow> RateLimiter" where
  "NewRateLimiter dir file = load \<lparr>attempts = Map.empty, dataDir = dir, disk = file\<rparr>"

text \<open>\<open>Check\<close> returns the limiter after the call, whether the bucket is blocked, and for how long.\<close>

definition Check :: "string \<Rightarrow> int \<Rightarrow> int \<Rightarrow> bool \<Rightarrow> RateLimiter \<Rightarrow> RateLimiter \<times> bool \<times> int" where
  "Check key now now2 ok rl =
     (case attempts rl key of
        None \<Rightarrow> (rl, False, 0)
      | Some a \<Rightarrow>
          if (case LockedUntil a of None \<Rightarrow> False | Some u \<Rightarrow> now < u)
          then (rl, True, the (LockedUntil a) - now2)
          else if now - FirstAt a > windowDuration
          then (rl\<lparr>attempts := (attempts rl)(key := None)\<rparr>, False, 0)
          else if Count a \<ge> maxAttempts
          then (persist ok (rl\<lparr>attempts := (attempts rl)(key \<mapsto>
                   a\<lparr>LockedUntil := Some (FirstAt a + windowDuration)\<rparr>)\<rparr>),
                True, FirstAt a + windowDuration - now2)
          else (rl, False, 0))"

definition Record :: "string \<Rightarrow> int \<Rightarrow> bool \<Rightarrow> RateLimiter \<Rightarrow> RateLimiter" where
  "Record key now ok rl =
     (let fresh = persist ok (rl\<lparr>attempts := (attempts rl)(key \<mapsto>
                    \<lparr>Count = 1, FirstAt = now, LockedUntil = None\<rparr>)\<rparr>) in
      case attempts rl key of
        None \<Rightarrow> fresh
      | Some a \<Rightarrow>
          if now - FirstAt a > windowDuration then fresh
          else let a = a\<lparr>Count := Count a + 1\<rparr>;
                   a = (if Count a \<ge> maxAttempts
                        then a\<lparr>LockedUntil := Some (FirstAt a + windowDuration)\<rparr> else a)
               in persist ok (rl\<lparr>attempts := (attempts rl)(key \<mapsto> a)\<rparr>))"

definition Reset :: "string \<Rightarrow> bool \<Rightarrow> RateLimiter \<Rightarrow> RateLimiter" where
  "Reset key ok rl = persist ok (rl\<lparr>attempts := (attempts rl)(key := None)\<rparr>)"

section \<open>The client address\<close>

text \<open>
  \<open>net.SplitHostPort\<close> is written out (its errors are \<^const>\<open>None\<close>); \<open>net.ParseIP\<close>,
  \<open>net.ParseCIDR\<close> and \<open>IPNet.Contains\<close> are the parameters \<open>parseIP\<close>, \<open>parseCIDR\<close> and
  \<open>contains\<close>.
\<close>

record http_request =
  RemoteAddr :: string
  ForwardedFor :: string

definition SplitHostPort :: "string \<Rightarrow> (string \<times> string) option" where
  "SplitHostPort hp =
     (case LastIndexByte hp (CHR '':'') of
        None \<Rightarrow> None
      | Some i \<Rightarrow>
          if hp ! 0 = CHR ''['' then
            (case IndexByte hp (CHR '']'') of
               None \<Rightarrow> None
             | Some e \<Rightarrow>
                 if e + 1 = length hp \<or> e + 1 \<noteq> i then None
                 else if CHR ''['' \<in> set (drop 1 hp) \<or> CHR '']'' \<in> set (drop (e + 1) hp) then None
                 else Some (take (e - 1) (drop 1 hp), drop (i + 1) hp))
          else
            if CHR '':'' \<in> set (take i hp) then None
            else if CHR ''['' \<in> set hp \<or> CHR '']'' \<in> set hp then None
            else Some (take i hp, drop (i + 1) hp))"

definition peerHost :: "string \<Rightarrow> string" where
  "peerHost remoteAddr =
     (case SplitHostPort remoteAddr of None \<Rightarrow> remoteAddr | Some (host, _) \<Rightarrow> host)"

definition ipInNets :: "(string \<Rightarrow> 'ip option) \<Rightarrow> ('net \<Rightarrow> 'ip \<Rightarrow> bool) \<Rightarrow> string \<Rightarrow> 'net list \<Rightarrow> bool" where
  "ipInNets parseIP contains ip nets =
     (case parseIP ip of None \<Rightarrow> False | Some parsed \<Rightarrow> \<exists>n\<in>set nets. contains n parsed)"

definition extractIP ::
    "(string \<Rightarrow> 'ip option) \<Rightarrow> ('net \<Rightarrow> 'ip \<Rightarrow> bool) \<Rightarrow> http_request \<Rightarrow> 'net list \<Rightarrow> string" where
  "extractIP parseIP contains r trusted =
     (let peer = peerHost (RemoteAddr r) in
      if trusted \<noteq> [] \<and> ipInNets parseIP contains peer trusted \<and> ForwardedFor r \<noteq> '''' then
        (let first = TrimSpace (hd (Split (ForwardedFor r) (CHR '','')))
         in if first \<noteq> '''' then first else peer)
      else peer)"

definition parseTrustedProxies :: "(string \<Rightarrow> 'net option) \<Rightarrow> string \<Rightarrow> 'net list" where
  "parseTrustedProxies parseCIDR s =
     List.map_filter
       (\<lambda>part0.
          let part = TrimSpace part0 in
          if part = '''' then None
          else let part = (if CHR ''/'' \<in> set part then part
                           else if CHR '':'' \<in> set part then part @ ''/128'' else part @ ''/32'')
               in parseCIDR part)
       (Split s (CHR '',''))"

section \<open>The invariant of the table\<close>

text \<open>A bucket holds at least one failure, and it is locked, until the end of its window, exactly
  when it holds six or more.\<close>

definition attempt_wf :: "attempt \<Rightarrow> bool" where
  "attempt_wf a \<longleftrightarrow> 1 \<le> Count a \<and>
     LockedUntil a = (if Count a \<ge> maxAttempts then Some (FirstAt a + windowDuration) else None)"

definition table_wf :: "(string \<rightharpoonup> attempt) \<Rightarrow> bool" where
  "table_wf tab \<longleftrightarrow> (\<forall>a\<in>ran tab. attempt_wf a)"

definition limiter_wf :: "RateLimiter \<Rightarrow> bool" where
  "limiter_wf rl \<longleftrightarrow> table_wf (attempts rl) \<and> (\<forall>tab. disk rl = Some tab \<longrightarrow> table_wf tab)"

lemma table_wf_empty [simp]: "table_wf Map.empty"
  by (simp add: table_wf_def)

lemma table_wf_upd [intro]: "table_wf tab \<Longrightarrow> attempt_wf a \<Longrightarrow> table_wf (tab(k \<mapsto> a))"
  by (auto simp: table_wf_def ran_def)

lemma table_wf_del [intro]: "table_wf tab \<Longrightarrow> table_wf (tab(k := None))"
  by (auto simp: table_wf_def ran_def split: if_splits)

lemma table_wfD: "table_wf tab \<Longrightarrow> tab k = Some a \<Longrightarrow> attempt_wf a"
  by (auto simp: table_wf_def ran_def)

lemma persist_simps [simp]:
  "attempts (persist ok rl) = attempts rl"
  "dataDir (persist ok rl) = dataDir rl"
  by (auto simp: persist_def)

lemma persist_wf [intro]: "limiter_wf rl \<Longrightarrow> limiter_wf (persist ok rl)"
  by (auto simp: limiter_wf_def persist_def)

lemma limiter_wf_attempts [intro]:
  "limiter_wf rl \<Longrightarrow> table_wf tab \<Longrightarrow> limiter_wf (rl\<lparr>attempts := tab\<rparr>)"
  by (auto simp: limiter_wf_def)

lemma Record_wf: "limiter_wf rl \<Longrightarrow> limiter_wf (Record key now ok rl)"
proof -
  assume wf: "limiter_wf rl"
  then have tab: "table_wf (attempts rl)" by (simp add: limiter_wf_def)
  have one: "attempt_wf \<lparr>Count = 1, FirstAt = now, LockedUntil = None\<rparr>"
    by (simp add: attempt_wf_def maxAttempts_def)
  show ?thesis
  proof (cases "attempts rl key")
    case None
    then show ?thesis using wf tab one by (auto simp: Record_def Let_def)
  next
    case (Some a)
    have "attempt_wf a" using table_wfD [OF tab Some] .
    then have "attempt_wf (let a = a\<lparr>Count := Count a + 1\<rparr> in
        if Count a \<ge> maxAttempts then a\<lparr>LockedUntil := Some (FirstAt a + windowDuration)\<rparr> else a)"
      by (auto simp: attempt_wf_def Let_def maxAttempts_def)
    then show ?thesis
      using Some wf tab one
      by (auto simp: Record_def Let_def intro!: persist_wf limiter_wf_attempts table_wf_upd)
  qed
qed

lemma Check_wf: "limiter_wf rl \<Longrightarrow> limiter_wf (fst (Check key now now2 ok rl))"
proof -
  assume wf: "limiter_wf rl"
  then have tab: "table_wf (attempts rl)" by (simp add: limiter_wf_def)
  have "attempts rl key = Some a \<Longrightarrow> Count a \<ge> maxAttempts \<Longrightarrow>
        attempt_wf (a\<lparr>LockedUntil := Some (FirstAt a + windowDuration)\<rparr>)" for a
    using table_wfD [OF tab] by (fastforce simp: attempt_wf_def)
  then show ?thesis
    using wf tab by (auto simp: Check_def split: option.splits)
qed

lemma Reset_wf: "limiter_wf rl \<Longrightarrow> limiter_wf (Reset key ok rl)"
  unfolding Reset_def by (intro persist_wf limiter_wf_attempts table_wf_del) (auto simp: limiter_wf_def)

lemma load_wf: "limiter_wf rl \<Longrightarrow> limiter_wf (load rl)"
  by (auto simp: load_def limiter_wf_def split: option.splits)

text \<open>The states the limiter can be in: one rule per call, and a process restart, which rebuilds
  the limiter from the file.\<close>

inductive limiter_reach :: "RateLimiter \<Rightarrow> bool" where
  new: "limiter_reach (NewRateLimiter dir None)"
| check: "limiter_reach rl \<Longrightarrow> limiter_reach (fst (Check key now now2 ok rl))"
| record_failure: "limiter_reach rl \<Longrightarrow> limiter_reach (Record key now ok rl)"
| reset: "limiter_reach rl \<Longrightarrow> limiter_reach (Reset key ok rl)"
| restart: "limiter_reach rl \<Longrightarrow> limiter_reach (NewRateLimiter (dataDir rl) (disk rl))"

lemma limiter_reach_wf: "limiter_reach rl \<Longrightarrow> limiter_wf rl"
proof (induction rule: limiter_reach.induct)
  case (new dir)
  then show ?case by (simp add: NewRateLimiter_def load_def limiter_wf_def)
next
  case (restart rl)
  then show ?case
    unfolding NewRateLimiter_def by (intro load_wf) (simp add: limiter_wf_def)
qed (auto intro: Check_wf Record_wf Reset_wf)

section \<open>Counting\<close>

text \<open>After \<open>n + 1\<close> failures in one window the bucket holds exactly this entry.\<close>

definition entry :: "int \<Rightarrow> nat \<Rightarrow> attempt" where
  "entry t0 n = \<lparr>Count = int n, FirstAt = t0,
     LockedUntil = (if int n \<ge> maxAttempts then Some (t0 + windowDuration) else None)\<rparr>"

lemma Record_first:
  "attempts rl key = None \<Longrightarrow> attempts (Record key t ok rl) = (attempts rl)(key \<mapsto> entry t 1)"
  by (simp add: Record_def Let_def entry_def maxAttempts_def)

lemma Record_next:
  assumes "attempts rl key = Some (entry t0 n)" "t - t0 \<le> windowDuration"
  shows "attempts (Record key t ok rl) = (attempts rl)(key \<mapsto> entry t0 (Suc n))"
  using assms by (auto simp: Record_def Let_def entry_def maxAttempts_def)

lemma Check_entry:
  assumes "attempts rl key = Some (entry t0 n)" "now - t0 \<le> windowDuration"
  shows "Check key now now2 ok rl =
     (if n < 6 then (rl, False, 0)
      else (fst (Check key now now2 ok rl), True, t0 + windowDuration - now2))"
    and "attempts (fst (Check key now now2 ok rl)) = attempts rl"
  using assms by (auto simp: Check_def entry_def maxAttempts_def fun_upd_idem)

lemma Check_expired:
  assumes "attempts rl key = Some (entry t0 n)" "now - t0 > windowDuration"
  shows "Check key now now2 ok rl = (rl\<lparr>attempts := (attempts rl)(key := None)\<rparr>, False, 0)"
  using assms by (auto simp: Check_def entry_def)

text \<open>One guess against a bucket, as the credential handlers make it: a blocked bucket is refused
  before the credentials are looked at, any other guess is admitted and its failure is recorded.\<close>

definition guess :: "string \<Rightarrow> int \<Rightarrow> RateLimiter \<Rightarrow> RateLimiter \<times> bool" where
  "guess key t rl =
     (case Check key t t True rl of
        (rl', blocked, _) \<Rightarrow> if blocked then (rl', False) else (Record key t True rl', True))"

fun guesses :: "string \<Rightarrow> int list \<Rightarrow> RateLimiter \<Rightarrow> RateLimiter \<times> nat" where
  "guesses key [] rl = (rl, 0)"
| "guesses key (t # ts) rl =
     (case guess key t rl of (rl', admitted) \<Rightarrow>
        case guesses key ts rl' of (rl'', n) \<Rightarrow> (rl'', n + (if admitted then 1 else 0)))"

lemma guess_entry:
  assumes "attempts rl key = Some (entry t0 n)" "t - t0 \<le> windowDuration"
  shows "attempts (fst (guess key t rl)) key = Some (entry t0 (if n < 6 then Suc n else n))"
    and "snd (guess key t rl) = (n < 6)"
  using Check_entry [OF assms, of t True] Record_next [OF assms] assms
  by (auto simp: guess_def split: prod.splits if_splits)

lemma guesses_entry:
  assumes "attempts rl key = Some (entry t0 n)" "\<forall>t\<in>set ts. t - t0 \<le> windowDuration"
  shows "snd (guesses key ts rl) = min (length ts) (6 - n)"
  using assms
proof (induction ts arbitrary: rl n)
  case (Cons t ts)
  have t: "t - t0 \<le> windowDuration" using Cons.prems by simp
  have "snd (guesses key ts (fst (guess key t rl))) = min (length ts) (6 - (if n < 6 then Suc n else n))"
    using Cons.IH guess_entry(1) [OF Cons.prems(1) t] Cons.prems(2) by simp
  then show ?case
    using guess_entry(2) [OF Cons.prems(1) t] by (auto split: prod.splits)
qed simp

lemma guess_first:
  assumes "attempts rl key = None"
  shows "attempts (fst (guess key t rl)) key = Some (entry t 1)" and "snd (guess key t rl)"
  using assms by (auto simp: guess_def Check_def Record_first)

section \<open>User name spellings\<close>

lemma lower_byte_space:
  assumes "p \<in> set unicode_spaces" "x \<in> set p"
  shows "lower_byte c = x \<longleftrightarrow> c = x"
proof -
  have x: "of_char x < (65::nat) \<or> (122::nat) < of_char x" and lx: "lower_byte x = x"
    using assms by (auto simp: unicode_spaces_def lower_byte_def)
  show ?thesis
  proof
    assume l: "lower_byte c = x"
    have "\<not> (65 \<le> (of_char c :: nat) \<and> (of_char c :: nat) \<le> 90)"
    proof
      assume r: "65 \<le> (of_char c :: nat) \<and> (of_char c :: nat) \<le> 90"
      then have "of_char x = (of_char c + 32 :: nat)"
        using l by (auto simp: lower_byte_def)
      then show False using x r by simp
    qed
    then show "c = x" using l by (auto simp: lower_byte_def split: if_splits)
  qed (simp add: lx)
qed

lemma HasPrefix_lower:
  assumes "\<And>x c. x \<in> set p \<Longrightarrow> lower_byte c = x \<longleftrightarrow> c = x"
  shows "HasPrefix (ToLower s) p \<longleftrightarrow> HasPrefix s p"
  using assms
proof (induction p arbitrary: s)
  case (Cons x p)
  then show ?case
    by (cases s) (auto simp: HasPrefix_def ToLower_def)
qed (simp add: HasPrefix_def)

lemma strip_front_lower:
  assumes "\<And>p x c. p \<in> set ps \<Longrightarrow> x \<in> set p \<Longrightarrow> lower_byte c = x \<longleftrightarrow> c = x"
  shows "strip_front ps (ToLower s) = ToLower (strip_front ps s)"
  using assms
proof (induction ps s rule: strip_front.induct)
  case (1 ps s)
  have pre: "\<And>p. p \<in> set ps \<Longrightarrow> HasPrefix (ToLower s) p \<longleftrightarrow> HasPrefix s p"
    using 1(2) by (intro HasPrefix_lower) blast
  then have eq: "find (\<lambda>p. p \<noteq> [] \<and> HasPrefix (ToLower s) p) ps = find (\<lambda>p. p \<noteq> [] \<and> HasPrefix s p) ps"
    by (intro find_cong) auto
  show ?case
  proof (cases "find (\<lambda>p. p \<noteq> [] \<and> HasPrefix s p) ps")
    case None
    then show ?thesis
      using eq by (simp add: strip_front.simps [of ps s] strip_front.simps [of ps "ToLower s"])
  next
    case (Some p)
    have "strip_front ps (ToLower (drop (length p) s)) = ToLower (strip_front ps (drop (length p) s))"
      using 1(1) [OF Some] 1(2) by blast
    then show ?thesis
      using eq Some
      by (simp add: strip_front.simps [of ps s] strip_front.simps [of ps "ToLower s"])
         (simp add: ToLower_def drop_map)
  qed
qed

lemma ToLower_rev: "ToLower (rev s) = rev (ToLower s)"
  by (simp add: ToLower_def rev_map)

lemma TrimSpace_lower: "TrimSpace (ToLower s) = ToLower (TrimSpace s)"
proof -
  have front: "strip_front unicode_spaces (ToLower s) = ToLower (strip_front unicode_spaces s)" for s
    by (intro strip_front_lower) (use lower_byte_space in blast)
  have rear: "strip_front (map rev unicode_spaces) (ToLower s) =
              ToLower (strip_front (map rev unicode_spaces) s)" for s
    by (intro strip_front_lower) (use lower_byte_space in fastforce)
  show ?thesis
    by (simp only: TrimSpace_def front rear ToLower_rev [symmetric])
qed

section \<open>Properties\<close>



text \<open>C10. In every reachable limiter a bucket is blocked exactly when it holds six or more
  failures and its window has not ended; the reported delay is the time left until the window
  ends.  So a bucket is never locked early and never stays locked for longer than the window.\<close>

theorem blocked_iff:
  assumes "limiter_reach rl"
  shows "fst (snd (Check key now now2 ok rl)) \<longleftrightarrow>
     (\<exists>a. attempts rl key = Some a \<and> 6 \<le> Count a \<and> now - FirstAt a \<le> windowDuration \<and>
          snd (snd (Check key now now2 ok rl)) = FirstAt a + windowDuration - now2)"
proof (cases "attempts rl key")
  case None
  then show ?thesis by (simp add: Check_def)
next
  case (Some a)
  have "attempt_wf a"
    using limiter_reach_wf [OF assms] table_wfD [of "attempts rl" key a] Some
    by (simp add: limiter_wf_def)
  then show ?thesis
    using Some by (auto simp: Check_def attempt_wf_def maxAttempts_def)
qed

theorem blocked_iff_witness:
  "limiter_reach (NewRateLimiter '''' None) \<and>
   \<not> fst (snd (Check ''auth-ip:10.0.0.1'' 5 5 True (NewRateLimiter '''' None)))"
proof -
  have r: "limiter_reach (NewRateLimiter '''' None)" by (rule limiter_reach.new)
  have "attempts (NewRateLimiter '''' None) ''auth-ip:10.0.0.1'' = None"
    by (simp add: NewRateLimiter_def load_def)
  then show ?thesis
    using r blocked_iff [OF r, of "''auth-ip:10.0.0.1''" 5 5 True] by simp
qed

text \<open>A recorded failure that reached the disk survives a restart: the limiter rebuilt from
  the file is the running one.\<close>

theorem lock_survives_restart:
  assumes "dataDir rl \<noteq> ''''" and "rl' = Record key now True rl"
  shows "NewRateLimiter (dataDir rl') (disk rl') = rl'"
proof -
  have "disk rl' = Some (attempts rl')" "dataDir rl' \<noteq> ''''"
    using assms by (auto simp: Record_def persist_def Let_def split: option.splits)
  then show ?thesis by (simp add: NewRateLimiter_def load_def)
qed

theorem lock_survives_restart_witness:
  "let rl' = Record ''auth-user:admin'' 7 True (NewRateLimiter ''/data'' None)
   in attempts (NewRateLimiter ''/data'' (disk rl')) ''auth-user:admin'' = Some (entry 7 1)"
proof -
  have d: "dataDir (NewRateLimiter ''/data'' None) = ''/data''"
    by (simp add: NewRateLimiter_def load_def)
  let ?rl' = "Record ''auth-user:admin'' 7 True (NewRateLimiter ''/data'' None)"
  have d': "dataDir ?rl' = ''/data''"
    by (simp add: NewRateLimiter_def load_def Record_def Let_def)
  have "NewRateLimiter (dataDir ?rl') (disk ?rl') = ?rl'"
    by (rule lock_survives_restart [OF _ refl]) (simp add: d)
  moreover have "attempts ?rl' ''auth-user:admin'' = Some (entry 7 1)"
    by (subst Record_first) (simp_all add: NewRateLimiter_def load_def)
  ultimately show ?thesis using d' by (simp add: Let_def)
qed

text \<open>All spellings of a user name that differ only in the case of ASCII letters share one
  bucket, so changing the spelling gives no fresh budget.\<close>

theorem user_key_case_insensitive:
  assumes "ToLower u = ToLower v"
  shows "AuthUserKey u = AuthUserKey v"
  using assms by (simp add: AuthUserKey_def flip: TrimSpace_lower)

theorem user_key_case_insensitive_witness: "AuthUserKey '' aDmin'' = AuthUserKey '' ADMIN''"
  by (rule user_key_case_insensitive) code_simp

text \<open>When the immediate peer is not inside a configured trusted network (in particular when
  no network is configured), the client address is the peer's, whatever \<open>X-Forwarded-For\<close>
  says.\<close>

theorem forwarded_for_ignored:
  assumes "\<not> ipInNets parseIP contains (peerHost (RemoteAddr r)) trusted"
  shows "extractIP parseIP contains (r\<lparr>ForwardedFor := spoofed\<rparr>) trusted = peerHost (RemoteAddr r)"
  using assms by (simp add: extractIP_def Let_def)

theorem forwarded_for_ignored_witness:
  "extractIP (\<lambda>s. Some s) (\<lambda>n i. n = i)
     (\<lparr>RemoteAddr = ''203.0.113.9:4711'', ForwardedFor = ''''\<rparr>\<lparr>ForwardedFor := ''10.0.0.1''\<rparr>)
     [''192.0.2.1''] = ''203.0.113.9''"
proof -
  have p: "peerHost ''203.0.113.9:4711'' = ''203.0.113.9''" by code_simp
  show ?thesis
    using forwarded_for_ignored [of "\<lambda>s. Some s" "\<lambda>n i. n = i"
        "\<lparr>RemoteAddr = ''203.0.113.9:4711'', ForwardedFor = ''''\<rparr>" "[''192.0.2.1'']" "''10.0.0.1''"]
    by (simp add: p ipInNets_def)
qed

end
