(* ===== verification/Errors.thy ===== *)
theory Errors
  imports Prelude
begin

text \<open>
  Go errors as values.  A sentinel (\<open>var ErrX = errors.New(..)\<close>) is a constructor of
  \<open>sentinel\<close>; \<open>fmt.Errorf\<close> without \<open>%w\<close> is \<open>ErrText\<close>, with one \<open>%w\<close> it is \<open>ErrWrap\<close>, with two, or
  \<open>errors.Join\<close>, it is \<open>ErrJoin\<close>.  The typed errors of the apply pipeline
  (src/internal/service/apply.go, apply_revision.go, apply_rollback.go) are constructors of
  their own.  \<open>errors_is\<close> is \<open>errors.Is\<close> for a sentinel target and \<open>errors_is_apply\<close> the
  \<open>errors.Is\<close> with an \<open>ApplyError\<close> target, following the \<open>Is\<close> and \<open>Unwrap\<close> methods.

  A Go panic is not an error value, but the pipeline has to say where one leaves it: it is the
  sentinel \<open>GoPanic\<close>, which no caller handles.

  The rendered texts are kept as labels; the \<open>Request\<close> echoed inside an \<open>ApplyError\<close> is left out
  (no code reads it back).
\<close>

datatype sentinel =
    ErrNotExist
  | ErrExist
  | IOErr string
  | CtxErr
  | ErrSourceRevisionMismatch
  | ErrApplyInFlight
  | ErrReadinessNotReady
  | ErrSettingsPathInvalid
  | ErrSettingsSymlinkRejected
  | ErrMirrorRejected
  | ErrSandboxTimeout
  | ErrSandboxHostAPI
  | ErrAdminAuthMissing
  | ErrAdminAuthPlaintextPassword
  | ErrUnsupportedAdapter
  | ErrAdapterUnitMissing
  | ErrSourceNotExports
  | ErrSandboxRuntime
  | ErrSandboxSyntax
  | ErrAlreadyConfigured
  | ErrUsernameExists
  | ErrUserNotFound
  | ErrCannotDeleteLastAdmin
  | ErrCannotDemoteLastAdmin
  | ErrInvalidUser
  | ErrMfaAlreadyEnrolled
  | ErrMfaNotEnrolled
  | ErrMfaInvalidCode
  | ErrMfaTokenInvalid
  | ErrMfaTokenExpired
  | ErrMfaTokenUsed
  | ErrMfaUserNotFound
  | ErrMfaInvalidPassword
  | ErrMfaPendingMissing
  | ErrMfaRecoveryCodeUsed
  | ErrMfaRecoveryNotFound
  | ErrEncryptionKeyRequired
  | ErrEnvMigrationStale
  | ErrEnvMigrationAlreadyDone
  | ErrInvalidBackupConfig
  | ErrBackupCorrupt
  | ErrVersionUndetectable
  | ErrUpdateUnsupportedForImage
  | ErrExternalRuntimeUnmanaged
  | ErrUpdateVerificationFailed
  | GoPanic

datatype ApplyStage =
    ApplyStageValidate
  | ApplyStageBackup
  | ApplyStageWrite
  | ApplyStageReconcile
  | ApplyStageAudit
  | ApplyStageRestart
  | ApplyStageReady
  | ApplyStageRollback

record SourceRevision =
  Fingerprint :: string
  Algorithm :: string
  CapturedAt :: string

datatype go_error =
    Sentinel sentinel
  | ErrText string
  | ErrWrap string go_error
  | ErrJoin go_error go_error
  | ApplyError ApplyStage go_error string
  | RevisionConflictError SourceRevision SourceRevision string
  | RollbackError ApplyStage go_error string

type_synonym 'a result = "go_error + 'a"

fun errors_is :: "go_error \<Rightarrow> sentinel \<Rightarrow> bool" where
  "errors_is (Sentinel s) t \<longleftrightarrow> s = t"
| "errors_is (ErrText _) t \<longleftrightarrow> False"
| "errors_is (ErrWrap _ e) t \<longleftrightarrow> errors_is e t"
| "errors_is (ErrJoin a b) t \<longleftrightarrow> errors_is a t \<or> errors_is b t"
| "errors_is (ApplyError _ cause _) t \<longleftrightarrow> errors_is cause t"
| "errors_is (RevisionConflictError _ _ _) t \<longleftrightarrow> t = ErrSourceRevisionMismatch"
| "errors_is (RollbackError _ cause _) t \<longleftrightarrow> errors_is cause t"

text \<open>\<open>(*ApplyError).Is\<close>: a target that is an \<open>ApplyError\<close> is matched by its stage.\<close>

fun errors_is_apply :: "go_error \<Rightarrow> ApplyStage \<Rightarrow> bool" where
  "errors_is_apply (Sentinel _) st \<longleftrightarrow> False"
| "errors_is_apply (ErrText _) st \<longleftrightarrow> False"
| "errors_is_apply (ErrWrap _ e) st \<longleftrightarrow> errors_is_apply e st"
| "errors_is_apply (ErrJoin a b) st \<longleftrightarrow> errors_is_apply a st \<or> errors_is_apply b st"
| "errors_is_apply (ApplyError s cause _) st \<longleftrightarrow> s = st \<or> errors_is_apply cause st"
| "errors_is_apply (RevisionConflictError _ _ _) st \<longleftrightarrow> False"
| "errors_is_apply (RollbackError _ cause _) st \<longleftrightarrow> errors_is_apply cause st"

text \<open>\<open>errors.As\<close> into a \<open>*RevisionConflictError\<close>.\<close>

fun as_conflict :: "go_error \<Rightarrow> (SourceRevision \<times> SourceRevision \<times> string) option" where
  "as_conflict (Sentinel _) = None"
| "as_conflict (ErrText _) = None"
| "as_conflict (ErrWrap _ e) = as_conflict e"
| "as_conflict (ErrJoin a b) = (case as_conflict a of Some x \<Rightarrow> Some x | None \<Rightarrow> as_conflict b)"
| "as_conflict (ApplyError _ cause _) = as_conflict cause"
| "as_conflict (RevisionConflictError l p q) = Some (l, p, q)"
| "as_conflict (RollbackError _ cause _) = as_conflict cause"

section \<open>Revisions\<close>

definition RevisionMatches :: "SourceRevision \<Rightarrow> SourceRevision \<Rightarrow> bool" where
  "RevisionMatches expected current =
     (if Fingerprint expected = '''' then True
      else if Algorithm expected \<noteq> '''' \<and> Algorithm current \<noteq> '''' \<and>
              Algorithm expected \<noteq> Algorithm current then False
      else Fingerprint expected = Fingerprint current)"

text \<open>\<open>FingerprintSource\<close>: the hash (\<open>crypto/sha256\<close> in hex) is the parameter \<open>sha\<close>, the capture
  time is an argument.\<close>

definition SourceRevisionAlgorithm :: string where
  "SourceRevisionAlgorithm = ''sha256''"

definition FingerprintSource :: "(string \<Rightarrow> string) \<Rightarrow> string \<Rightarrow> string \<Rightarrow> SourceRevision" where
  "FingerprintSource sha now content =
     \<lparr>Fingerprint = sha content, Algorithm = SourceRevisionAlgorithm, CapturedAt = now\<rparr>"

end
