(* ===== verification/FilePath.thy ===== *)
theory FilePath
  imports Prelude
begin

text \<open>
  The part of Go's \<open>path/filepath\<close> the settings pipeline uses (\<open>Clean\<close>, \<open>Dir\<close>, \<open>Base\<close>,
  \<open>Join\<close> on a slash-separated system), and the boundary check \<open>validateSettingsPath\<close> of
  src/internal/service/apply_atomic.go.
\<close>

abbreviation SLASH :: char where "SLASH \<equiv> CHR ''/''"

text \<open>\<open>filepath.Clean\<close>, on the list of components: empty and \<open>.\<close> components are dropped, a \<open>..\<close>
  removes the component before it, is dropped at the root, and is kept at the start of a
  relative path.\<close>

fun clean_comps :: "bool \<Rightarrow> string list \<Rightarrow> string list \<Rightarrow> string list" where
  "clean_comps rooted out [] = out"
| "clean_comps rooted out (c # cs) =
     (if c = '''' \<or> c = ''.'' then clean_comps rooted out cs
      else if c = ''..'' then
        (if out \<noteq> [] \<and> last out \<noteq> ''..'' then clean_comps rooted (butlast out) cs
         else if rooted then clean_comps rooted out cs
         else clean_comps rooted (out @ [c]) cs)
      else clean_comps rooted (out @ [c]) cs)"

definition Clean :: "string \<Rightarrow> string" where
  "Clean path =
     (let rooted = HasPrefix path ''/'';
          body = Join (clean_comps rooted [] (Split path SLASH)) ''/'' in
      if rooted then SLASH # body
      else if body = '''' then ''.'' else body)"

definition Dir :: "string \<Rightarrow> string" where
  "Dir path =
     (case LastIndexByte path SLASH of
        None \<Rightarrow> Clean ''''
      | Some i \<Rightarrow> Clean (take (i + 1) path))"

definition Base :: "string \<Rightarrow> string" where
  "Base path =
     (let p = TrimRight path [SLASH] in
      if path = '''' then ''.''
      else if p = '''' then ''/''
      else case LastIndexByte p SLASH of None \<Rightarrow> p | Some i \<Rightarrow> drop (i + 1) p)"

definition JoinPath :: "string list \<Rightarrow> string" where
  "JoinPath elems =
     (let es = filter (\<lambda>e. e \<noteq> '''') elems in
      if es = [] then '''' else Clean (Join es ''/''))"

text \<open>The boundary check: the path must be clean and hold no \<open>..\<close> component.  The two error
  branches of the code differ in their text only.\<close>

definition settings_path_ok :: "string \<Rightarrow> bool" where
  "settings_path_ok path \<longleftrightarrow> Clean path = path \<and> ''..'' \<notin> set (Split (Clean path) SLASH)"

section \<open>Walking up a path terminates\<close>

text \<open>The weight of a list of components: their bytes and one separator each.\<close>

definition weight :: "string list \<Rightarrow> nat" where
  "weight cs = sum_list (map (\<lambda>c. length c + 1) cs)"

lemma weight_simps [simp]:
  "weight [] = 0" "weight (c # cs) = length c + 1 + weight cs"
  "weight (cs @ ds) = weight cs + weight ds"
  by (simp_all add: weight_def)

lemma weight_butlast: "cs \<noteq> [] \<Longrightarrow> weight (butlast cs) \<le> weight cs"
  by (induction cs) auto

lemma clean_comps_weight:
  "weight (clean_comps rooted out cs) \<le> weight out + weight (filter (\<lambda>c. c \<noteq> '''') cs)"
proof (induction rooted out cs rule: clean_comps.induct)
  case (2 rooted out c cs)
  consider (skip) "c = '''' \<or> c = ''.''"
    | (pop) "c = ''..''" "out \<noteq> []" "last out \<noteq> ''..''"
    | (root) "c = ''..''" "\<not> (out \<noteq> [] \<and> last out \<noteq> ''..'')" "rooted"
    | (rel) "c = ''..''" "\<not> (out \<noteq> [] \<and> last out \<noteq> ''..'')" "\<not> rooted"
    | (name) "c \<noteq> ''''" "c \<noteq> ''.''" "c \<noteq> ''..''" by blast
  then show ?case
  proof cases
    case skip
    then show ?thesis using 2(1) by auto
  next
    case pop
    then show ?thesis using 2(2) weight_butlast [of out] by simp
  next
    case root
    then show ?thesis using 2(3) by (auto split: if_splits)
  next
    case rel
    then show ?thesis using 2(4) by (auto split: if_splits)
  next
    case name
    then show ?thesis using 2(5) by simp
  qed
qed simp

lemma Join_weight: "cs \<noteq> [] \<Longrightarrow> Suc (length (Join cs [c])) = weight cs"
  by (induction cs "[c]" rule: Join.induct) auto

lemma Split_weight: "weight (Split s c) = Suc (length s)"
  using Join_weight [of "Split s c" c] by simp

lemma Split_snoc_sep: "Split (s @ [c]) c = Split s c @ [[]]"
proof (induction s)
  case (Cons x s)
  then show ?case by (cases "Split s c") auto
qed simp

lemma LastIndexByte_Some:
  assumes "LastIndexByte s c = Some i"
  shows "i < length s" "s ! i = c" "c \<notin> set (drop (Suc i) s)"
proof -
  obtain j where j: "IndexByte (rev s) c = Some j" "i = length s - 1 - j"
    using assms by (auto simp: LastIndexByte_def)
  note f = IndexByte_Some [OF j(1)]
  show "i < length s" using f j by auto
  show "s ! i = c" using f j by (auto simp: rev_nth)
  have "drop (Suc i) s = rev (take j (rev s))"
    using f j by (simp add: rev_take Suc_diff_Suc)
  then show "c \<notin> set (drop (Suc i) s)" using f by simp
qed

lemma filter_weight: "weight (filter P cs) \<le> weight cs"
  by (induction cs) auto

lemma nonempty_weight: "weight (filter (\<lambda>c. c \<noteq> '''') (Split (s @ [SLASH]) SLASH)) \<le> Suc (length s)"
  using filter_weight [of "\<lambda>c. c \<noteq> ''''" "Split s SLASH"] by (simp add: Split_snoc_sep Split_weight)

lemma nonempty_weight_rooted:
  "weight (filter (\<lambda>c. c \<noteq> '''') (Split (SLASH # s @ [SLASH]) SLASH)) \<le> Suc (length s)"
  using filter_weight [of "\<lambda>c. c \<noteq> ''''" "Split s SLASH"] by (simp add: Split_snoc_sep Split_weight)

text \<open>\<open>Dir\<close> of a path is the path itself (the root), \<open>.\<close>, or a strictly shorter path.\<close>

lemma Clean_dir_shorter:
  assumes "s = r @ [SLASH]"
  shows "Clean s = ''.'' \<or> s = ''/'' \<or> length (Clean s) < length s"
proof -
  let ?k = "clean_comps (HasPrefix s ''/'') [] (Split s SLASH)"
  show ?thesis
  proof (cases "HasPrefix s ''/''")
    case True
    then obtain q where q: "s = SLASH # q" by (auto simp: HasPrefix_iff)
    show ?thesis
    proof (cases "q = []")
      case False
      then obtain m where m: "q = m @ [SLASH]" using assms q by (cases q rule: rev_cases) auto
      have "weight ?k \<le> Suc (length m)"
        using clean_comps_weight [of "HasPrefix s ''/''" "[]" "Split s SLASH"]
          nonempty_weight_rooted [of m] q m by simp
      then have "length (Join ?k ''/'') \<le> length m"
        using Join_weight [of ?k SLASH] by (cases "?k = []") auto
      then show ?thesis using True q m by (simp add: Clean_def Let_def)
    qed (use q in simp)
  next
    case False
    have "weight ?k \<le> Suc (length r)"
      using clean_comps_weight [of "HasPrefix s ''/''" "[]" "Split s SLASH"]
        nonempty_weight [of r] assms by simp
    then have "length (Join ?k ''/'') \<le> length r"
      using Join_weight [of ?k SLASH] by (cases "?k = []") auto
    then show ?thesis using False assms by (auto simp: Clean_def Let_def)
  qed
qed

lemma Dir_shorter: "Dir p \<noteq> p \<Longrightarrow> Dir p \<noteq> ''.'' \<Longrightarrow> length (Dir p) < length p"
proof (cases "LastIndexByte p SLASH")
  case None
  then show "Dir p \<noteq> p \<Longrightarrow> Dir p \<noteq> ''.'' \<Longrightarrow> length (Dir p) < length p"
    by (simp add: Dir_def Clean_def Let_def HasPrefix_def)
next
  case (Some i)
  assume ne: "Dir p \<noteq> p" "Dir p \<noteq> ''.''"
  note f = LastIndexByte_Some [OF Some]
  let ?s = "take (i + 1) p"
  have s: "?s = take i p @ [SLASH]" using f by (simp add: take_Suc_conv_app_nth)
  have d: "Dir p = Clean ?s" using Some by (simp add: Dir_def)
  have len: "length ?s \<le> length p" by simp
  from Clean_dir_shorter [OF s] show ?thesis
  proof (elim disjE)
    assume root: "?s = ''/''"
    then have "Clean ?s = ''/''" by (simp add: Clean_def Let_def HasPrefix_def)
    moreover have "p \<noteq> ''/''" using ne d calculation root by auto
    then have "1 < length p"
      using root f len by (cases p; cases "tl p") (auto split: if_splits)
    ultimately show ?thesis using d by simp
  qed (use ne d len in auto)
qed

section \<open>The last component\<close>

lemma last_Split_suffix: "c \<notin> set suf \<Longrightarrow> last (Split (a @ suf) c) = last (Split a c) @ suf"
proof (induction a)
  case Nil
  then show ?case by (simp add: Split_no_occ)
next
  case (Cons x a)
  obtain l ls where s: "Split a c = l # ls" by (cases "Split a c") auto
  obtain m ms where t: "Split (a @ suf) c = m # ms" by (cases "Split (a @ suf) c") auto
  have len: "length ms = length ls"
  proof -
    have n: "length (Split u c) = Suc (count_list u c)" for u
      by (induction u) (auto split: list.splits)
    have "count_list (a @ suf) c = count_list a c" using Cons.prems by (simp add: count_list_0_iff)
    then show ?thesis using n [of a] n [of "a @ suf"] s t by simp
  qed
  show ?case
  proof (cases "ls = []")
    case True
    then show ?thesis using Cons s t len by auto
  next
    case False
    then have "ms \<noteq> []" using len by auto
    then show ?thesis using Cons s t False by auto
  qed
qed

lemma clean_comps_snoc:
  "n \<noteq> '''' \<Longrightarrow> n \<noteq> ''.'' \<Longrightarrow> n \<noteq> ''..'' \<Longrightarrow> clean_comps rooted out (cs @ [n]) = clean_comps rooted out cs @ [n]"
  by (induction rooted out cs rule: clean_comps.induct) auto

lemma Join_snoc: "\<exists>pre. Join (cs @ [n]) sep = pre @ n"
  by (induction cs "sep" rule: Join.induct) auto

lemma Clean_suffix:
  assumes "SLASH \<notin> set suf" "2 < length suf"
  shows "\<exists>pre. Clean (a @ suf) = pre @ suf"
proof -
  obtain cs l where s: "Split (a @ suf) SLASH = cs @ [l]"
    using Split_nonempty [of "a @ suf" SLASH] by (metis rev_exhaust)
  have "l = last (Split a SLASH) @ suf" using last_Split_suffix [OF assms(1), of a] s by simp
  moreover from this have "l \<noteq> ''''" "l \<noteq> ''.''" "l \<noteq> ''..''"
    using assms(2) by (auto dest: arg_cong [of _ _ length])
  ultimately obtain pre where "Join (clean_comps (HasPrefix (a @ suf) ''/'') [] (cs @ [l])) ''/'' = pre @ suf"
    using Join_snoc [of "clean_comps (HasPrefix (a @ suf) ''/'') [] cs" l "''/''"]
    by (auto simp: clean_comps_snoc)
  moreover have "pre @ suf \<noteq> ''''" using assms(2) by auto
  ultimately show ?thesis
    by (cases "HasPrefix (a @ suf) ''/''") (auto simp: Clean_def Let_def s intro: exI [of _ "SLASH # pre"])
qed

end
