(* ===== verification/FileSystem.thy ===== *)
theory FileSystem
  imports Errors FilePath
begin

text \<open>
  The operating system as the settings pipeline sees it: a file system, random bytes and
  contexts.  Every system call can fail.  Which calls fail is decided by the oracle field
  \<open>faults\<close>: the \<open>n\<close>-th call fails (with an I/O error other than
  ``does not exist'' and ``exists'') iff \<open>faults n\<close> is not \<^const>\<open>None\<close>, and \<open>calls\<close> counts the calls made
  so far.  A theorem that does not restrict \<open>faults\<close> holds for every pattern of failures.  The
  counter is also the clock: a context is done from some call on.

  A call that fails changes no file, except \<open>Write\<close>, which may leave a prefix of the data
  (\<open>torn\<close>).  Directories and modes are not modelled: \<open>MkdirAll\<close>, \<open>Chmod\<close>, \<open>Sync\<close> and \<open>Close\<close> are
  fallible calls without an effect on the contents.
\<close>

record world =
  files :: "string \<rightharpoonup> string"
  links :: "string \<Rightarrow> bool"
  faults :: "nat \<Rightarrow> string option"
  torn :: "nat \<Rightarrow> nat"
  entropy :: "nat \<Rightarrow> nat \<Rightarrow> nat"
  calls :: nat

type_synonym ctx = "nat option"

definition ctx_Err :: "ctx \<Rightarrow> 'w world_scheme \<Rightarrow> go_error option" where
  "ctx_Err ctx w = (case ctx of None \<Rightarrow> None
     | Some d \<Rightarrow> if calls w \<ge> d then Some (Sentinel CtxErr) else None)"

text \<open>One system call without an effect.\<close>

definition tick :: "'w world_scheme \<Rightarrow> 'w world_scheme" where
  "tick w = w\<lparr>calls := Suc (calls w)\<rparr>"

definition sys_call :: "'w world_scheme \<Rightarrow> unit result \<times> 'w world_scheme" where
  "sys_call w = ((case faults w (calls w) of None \<Rightarrow> Inr () | Some e \<Rightarrow> Inl (Sentinel (IOErr e))), tick w)"

definition ReadFile :: "string \<Rightarrow> 'w world_scheme \<Rightarrow> string result \<times> 'w world_scheme" where
  "ReadFile path w =
     (case sys_call w of
        (Inl e, w) \<Rightarrow> (Inl e, w)
      | (Inr _, w) \<Rightarrow> (case files w path of
          None \<Rightarrow> (Inl (Sentinel ErrNotExist), w)
        | Some data \<Rightarrow> (Inr data, w)))"

definition Stat :: "string \<Rightarrow> 'w world_scheme \<Rightarrow> unit result \<times> 'w world_scheme" where
  "Stat path w =
     (case sys_call w of
        (Inl e, w) \<Rightarrow> (Inl e, w)
      | (Inr _, w) \<Rightarrow> (if files w path = None then (Inl (Sentinel ErrNotExist), w) else (Inr (), w)))"

text \<open>\<open>Lstat\<close> returns whether the path is a symbolic link.\<close>

definition Lstat :: "string \<Rightarrow> 'w world_scheme \<Rightarrow> bool result \<times> 'w world_scheme" where
  "Lstat path w =
     (case sys_call w of (Inl e, w) \<Rightarrow> (Inl e, w) | (Inr _, w) \<Rightarrow> (Inr (links w path), w))"

definition Remove :: "string \<Rightarrow> 'w world_scheme \<Rightarrow> unit result \<times> 'w world_scheme" where
  "Remove path w =
     (case sys_call w of
        (Inl e, w) \<Rightarrow> (Inl e, w)
      | (Inr _, w) \<Rightarrow> (if files w path = None then (Inl (Sentinel ErrNotExist), w)
                       else (Inr (), w\<lparr>files := (files w)(path := None)\<rparr>)))"

definition Rename :: "string \<Rightarrow> string \<Rightarrow> 'w world_scheme \<Rightarrow> unit result \<times> 'w world_scheme" where
  "Rename old new w =
     (case sys_call w of
        (Inl e, w) \<Rightarrow> (Inl e, w)
      | (Inr _, w) \<Rightarrow> (case files w old of
          None \<Rightarrow> (Inl (Sentinel ErrNotExist), w)
        | Some data \<Rightarrow>
            (Inr (), w\<lparr>files := ((files w)(old := None))(new := Some data),
                       links := (links w)(new := False)\<rparr>)))"

text \<open>\<open>OpenFile\<close> with \<open>O_WRONLY|O_CREATE|O_TRUNC|O_NOFOLLOW\<close>, and with
  \<open>O_WRONLY|O_CREATE|O_EXCL|O_NOFOLLOW\<close>.\<close>

definition OpenTrunc :: "string \<Rightarrow> 'w world_scheme \<Rightarrow> unit result \<times> 'w world_scheme" where
  "OpenTrunc path w =
     (case sys_call w of
        (Inl e, w) \<Rightarrow> (Inl e, w)
      | (Inr _, w) \<Rightarrow> (if links w path then (Inl (Sentinel (IOErr ''ELOOP'')), w)
                       else (Inr (), w\<lparr>files := (files w)(path \<mapsto> [])\<rparr>)))"

definition OpenExcl :: "string \<Rightarrow> 'w world_scheme \<Rightarrow> unit result \<times> 'w world_scheme" where
  "OpenExcl path w =
     (case sys_call w of
        (Inl e, w) \<Rightarrow> (Inl e, w)
      | (Inr _, w) \<Rightarrow> (if files w path \<noteq> None \<or> links w path then (Inl (Sentinel ErrExist), w)
                       else (Inr (), w\<lparr>files := (files w)(path \<mapsto> [])\<rparr>)))"

text \<open>\<open>Write\<close> to a file just opened: on failure a prefix may have reached it.\<close>

definition WriteTo :: "string \<Rightarrow> string \<Rightarrow> 'w world_scheme \<Rightarrow> unit result \<times> 'w world_scheme" where
  "WriteTo path data w =
     (case sys_call w of
        (Inl e, w') \<Rightarrow> (Inl e, w'\<lparr>files := (files w')(path \<mapsto> take (torn w (calls w)) data)\<rparr>)
      | (Inr _, w') \<Rightarrow> (Inr (), w'\<lparr>files := (files w')(path \<mapsto> data)\<rparr>))"

text \<open>\<open>hex.EncodeToString\<close> of the bytes a call to \<open>rand.Read\<close> delivers; \<open>entropy n i\<close> is the \<open>i\<close>-th
  byte of the \<open>n\<close>-th call.\<close>

definition hex_digit :: "nat \<Rightarrow> char" where
  "hex_digit n = ''0123456789abcdef'' ! (n mod 16)"

definition hex_encode :: "nat list \<Rightarrow> string" where
  "hex_encode bs = concat (map (\<lambda>b. [hex_digit (b div 16), hex_digit b]) bs)"

definition randomHex :: "nat \<Rightarrow> 'w world_scheme \<Rightarrow> string result \<times> 'w world_scheme" where
  "randomHex n w =
     (case sys_call w of
        (Inl e, w') \<Rightarrow> (Inl e, w')
      | (Inr _, w') \<Rightarrow> (Inr (hex_encode (map (\<lambda>i. entropy w (calls w) i) [0..<n])), w'))"

section \<open>Facts\<close>

lemma tick_simps [simp]:
  "files (tick w) = files w" "links (tick w) = links w" "faults (tick w) = faults w"
  "torn (tick w) = torn w" "entropy (tick w) = entropy w" "calls (tick w) = Suc (calls w)"
  by (simp_all add: tick_def)

lemma sys_call_cases [consumes 1, case_names fail ok]:
  assumes "sys_call w = (r, w')"
  obtains e where "r = Inl e" "w' = tick w" | "r = Inr ()" "w' = tick w"
  using assms by (auto simp: sys_call_def split: option.splits)

lemma sys_call_tick: "sys_call w = (r, w') \<Longrightarrow> w' = tick w"
  by (auto simp: sys_call_def)

text \<open>What each call does to the files, on success and on failure.\<close>

lemma sys_call_files: "sys_call w = (r, w') \<Longrightarrow> files w' = files w"
  by (auto simp: sys_call_def)

lemma ReadFile_post:
  "ReadFile path w = (r, w') \<Longrightarrow> files w' = files w \<and> (\<forall>d. r = Inr d \<longrightarrow> files w path = Some d) \<and>
     (r = Inl (Sentinel ErrNotExist) \<longrightarrow> files w path = None)"
  by (auto simp: ReadFile_def sys_call_def split: option.splits)

lemma Stat_post: "Stat path w = (r, w') \<Longrightarrow> files w' = files w \<and> (r = Inr () \<longrightarrow> files w path \<noteq> None)"
  by (auto simp: Stat_def sys_call_def split: option.splits if_splits)

lemma Lstat_post: "Lstat path w = (r, w') \<Longrightarrow> files w' = files w \<and> links w' = links w \<and>
     (\<forall>b. r = Inr b \<longrightarrow> b = links w path)"
  by (auto simp: Lstat_def sys_call_def split: option.splits)

lemma Remove_post:
  "Remove path w = (r, w') \<Longrightarrow>
     files w' = (if r = Inr () then (files w)(path := None) else files w)"
  by (auto simp: Remove_def sys_call_def split: option.splits if_splits)

lemma Rename_post:
  "Rename old new w = (r, w') \<Longrightarrow>
     (case r of Inl _ \<Rightarrow> files w' = files w
      | Inr _ \<Rightarrow> \<exists>d. files w old = Some d \<and> files w' = ((files w)(old := None))(new := Some d))"
  by (auto simp: Rename_def sys_call_def split: option.splits)

lemma OpenTrunc_post:
  "OpenTrunc path w = (r, w') \<Longrightarrow>
     files w' = (if r = Inr () then (files w)(path \<mapsto> []) else files w)"
  by (auto simp: OpenTrunc_def sys_call_def split: option.splits if_splits)

lemma OpenExcl_post:
  "OpenExcl path w = (r, w') \<Longrightarrow>
     (case r of Inl _ \<Rightarrow> files w' = files w
      | Inr _ \<Rightarrow> files w path = None \<and> files w' = (files w)(path \<mapsto> []))"
  by (auto simp: OpenExcl_def sys_call_def split: option.splits if_splits)

lemma WriteTo_post:
  "WriteTo path data w = (r, w') \<Longrightarrow>
     files w' = (files w)(path \<mapsto> (if r = Inr () then data else take (torn w (calls w)) data))"
  by (auto simp: WriteTo_def sys_call_def split: option.splits)

lemma hex_digit_set: "hex_digit n \<in> set ''0123456789abcdef''"
  unfolding hex_digit_def by (rule nth_mem) simp

lemma hex_encode_set: "set (hex_encode bs) \<subseteq> set ''0123456789abcdef''"
  using hex_digit_set unfolding hex_encode_def by (induction bs) auto

lemma hex_encode_length: "length (hex_encode bs) = 2 * length bs"
  by (induction bs) (auto simp: hex_encode_def)

text \<open>A token is a string of \<open>2 * n\<close> hexadecimal digits.\<close>

definition hex_token :: "nat \<Rightarrow> string \<Rightarrow> bool" where
  "hex_token n t \<longleftrightarrow> length t = 2 * n \<and> set t \<subseteq> set ''0123456789abcdef''"

lemma hex_token_encode [simp]: "hex_token n (hex_encode (map f [0..<n]))"
  unfolding hex_token_def by (rule conjI [OF _ hex_encode_set]) (simp add: hex_encode_length)

lemma randomHex_post:
  "randomHex n w = (r, w') \<Longrightarrow> files w' = files w \<and> (\<forall>t. r = Inr t \<longrightarrow> hex_token n t)"
  by (auto simp: randomHex_def sys_call_def split: option.splits)

text \<open>No call touches the state around the file system.\<close>

lemma more_tick [simp]: "world.more (tick w) = world.more w"
  by (simp add: tick_def)

lemma sys_call_more: "sys_call w = (r, w') \<Longrightarrow> world.more w' = world.more w"
  by (auto simp: sys_call_def)

lemma ReadFile_more: "ReadFile p w = (r, w') \<Longrightarrow> world.more w' = world.more w"
  by (auto simp: ReadFile_def dest!: sys_call_more split: prod.splits sum.splits option.splits)

lemma Stat_more: "Stat p w = (r, w') \<Longrightarrow> world.more w' = world.more w"
  by (auto simp: Stat_def dest!: sys_call_more split: prod.splits sum.splits if_splits)

lemma Lstat_more: "Lstat p w = (r, w') \<Longrightarrow> world.more w' = world.more w"
  by (auto simp: Lstat_def dest!: sys_call_more split: prod.splits sum.splits)

lemma Remove_more: "Remove p w = (r, w') \<Longrightarrow> world.more w' = world.more w"
  by (auto simp: Remove_def dest!: sys_call_more split: prod.splits sum.splits if_splits)

lemma Rename_more: "Rename p q w = (r, w') \<Longrightarrow> world.more w' = world.more w"
  by (auto simp: Rename_def dest!: sys_call_more split: prod.splits sum.splits option.splits)

lemma OpenTrunc_more: "OpenTrunc p w = (r, w') \<Longrightarrow> world.more w' = world.more w"
  by (auto simp: OpenTrunc_def dest!: sys_call_more split: prod.splits sum.splits if_splits)

lemma OpenExcl_more: "OpenExcl p w = (r, w') \<Longrightarrow> world.more w' = world.more w"
  by (auto simp: OpenExcl_def dest!: sys_call_more split: prod.splits sum.splits if_splits)

lemma WriteTo_more: "WriteTo p d w = (r, w') \<Longrightarrow> world.more w' = world.more w"
  by (auto simp: WriteTo_def dest!: sys_call_more split: prod.splits sum.splits)

lemma randomHex_more: "randomHex n w = (r, w') \<Longrightarrow> world.more w' = world.more w"
  by (auto simp: randomHex_def dest!: sys_call_more split: prod.splits sum.splits)

lemma snd_sys_call [simp]: "snd (sys_call w) = tick w"
  by (simp add: sys_call_def)

lemma OpenTrunc_full:
  "OpenTrunc path w = (r, w') \<Longrightarrow> world.more w' = world.more w \<and>
     files w' = (if r = Inr () then (files w)(path \<mapsto> []) else files w)"
  using OpenTrunc_post OpenTrunc_more by blast

lemma OpenExcl_full:
  "OpenExcl path w = (r, w') \<Longrightarrow> world.more w' = world.more w \<and>
     (case r of Inl _ \<Rightarrow> files w' = files w
      | Inr _ \<Rightarrow> files w path = None \<and> files w' = (files w)(path \<mapsto> []))"
  using OpenExcl_post OpenExcl_more by blast

lemma WriteTo_full:
  "WriteTo path data w = (r, w') \<Longrightarrow> world.more w' = world.more w \<and>
     (\<exists>d. files w' = (files w)(path \<mapsto> d) \<and> (r = Inr () \<longrightarrow> d = data))"
  using WriteTo_post [of path data w r w'] WriteTo_more [of path data w r w'] by auto

lemma randomHex_full:
  "randomHex n w = (r, w') \<Longrightarrow>
     files w' = files w \<and> world.more w' = world.more w \<and> (\<forall>t. r = Inr t \<longrightarrow> hex_token n t)"
  using randomHex_post randomHex_more by blast

lemma Stat_full:
  "Stat path w = (r, w') \<Longrightarrow> files w' = files w \<and> world.more w' = world.more w \<and>
     (r = Inr () \<longrightarrow> files w path \<noteq> None)"
  using Stat_post Stat_more by blast

lemma ReadFile_full:
  "ReadFile path w = (r, w') \<Longrightarrow> files w' = files w \<and> world.more w' = world.more w \<and>
     (\<forall>d. r = Inr d \<longrightarrow> files w path = Some d) \<and>
     (r = Inl (Sentinel ErrNotExist) \<longrightarrow> files w path = None)"
  using ReadFile_post ReadFile_more by blast

lemma links_keep:
  "sys_call w = (r, w') \<Longrightarrow> links w' = links w"
  "randomHex n w = (s, w') \<Longrightarrow> links w' = links w"
  "OpenTrunc p w = (r, w') \<Longrightarrow> links w' = links w"
  "WriteTo p d w = (r, w') \<Longrightarrow> links w' = links w"
  by (auto simp: sys_call_def randomHex_def OpenTrunc_def WriteTo_def split: option.splits if_splits)

lemmas fs_more = sys_call_more ReadFile_more Stat_more Lstat_more Remove_more Rename_more
  OpenTrunc_more OpenExcl_more WriteTo_more randomHex_more

lemmas fs_posts = sys_call_files ReadFile_post Stat_post Lstat_post Remove_post Rename_post
  OpenTrunc_post OpenExcl_post WriteTo_post randomHex_post

end
