(* ===== verification/JsonStore.thy ===== *)
theory JsonStore
  imports FileSystem
begin

text \<open>
  The generic JSON file store of src/internal/store/json_store.go.  A store keeps its document in
  decoded form: \<open>get\<close> reads the document out of the state (\<^const>\<open>None\<close> when the file is missing) and
  \<open>put\<close> is the effect of the rename that publishes a new one.  The marshalling of a value cannot fail
  and its text always decodes; the store's mutex makes every operation atomic.
\<close>

definition js_Exists :: "('w world_scheme \<Rightarrow> 'a option) \<Rightarrow> 'w world_scheme \<Rightarrow> bool \<times> 'w world_scheme" where
  "js_Exists get w = (case sys_call w of (Inl _, w) \<Rightarrow> (False, w) | (Inr _, w) \<Rightarrow> (get w \<noteq> None, w))"

definition js_Read :: "('w world_scheme \<Rightarrow> 'a option) \<Rightarrow> 'w world_scheme \<Rightarrow> 'a result \<times> 'w world_scheme" where
  "js_Read get w =
     (case sys_call w of
        (Inl e, w) \<Rightarrow> (Inl e, w)
      | (Inr _, w) \<Rightarrow> (case get w of None \<Rightarrow> (Inl (Sentinel ErrNotExist), w) | Some c \<Rightarrow> (Inr c, w)))"

text \<open>Open the temporary sibling, write, sync, close, rename, sync the directory.  An error of the
  write or the sync is joined with an error of the close; the directory sync is best effort.\<close>

definition js_Write :: "('a \<Rightarrow> 'w world_scheme \<Rightarrow> 'w world_scheme) \<Rightarrow> 'a \<Rightarrow> 'w world_scheme \<Rightarrow> unit result \<times> 'w world_scheme" where
  "js_Write put c w =
     (case sys_call w of
        (Inl e, w) \<Rightarrow> (Inl e, w)
      | (Inr _, w) \<Rightarrow>
          (case sys_call w of
             (Inl e, w) \<Rightarrow>
               (case sys_call w of (Inl ce, w) \<Rightarrow> (Inl (ErrJoin e ce), w) | (Inr _, w) \<Rightarrow> (Inl e, w))
           | (Inr _, w) \<Rightarrow>
               (case sys_call w of
                  (Inl e, w) \<Rightarrow>
                    (case sys_call w of (Inl ce, w) \<Rightarrow> (Inl (ErrJoin e ce), w) | (Inr _, w) \<Rightarrow> (Inl e, w))
                | (Inr _, w) \<Rightarrow>
                    (case sys_call w of
                       (Inl e, w) \<Rightarrow> (Inl e, w)
                     | (Inr _, w) \<Rightarrow>
                         (case sys_call w of
                            (Inl e, w) \<Rightarrow> (Inl e, w)
                          | (Inr _, w) \<Rightarrow>
                              (case sys_call (put c w) of
                                 (Inl _, w) \<Rightarrow> (Inr (), w)
                               | (Inr _, w) \<Rightarrow> (Inr (), snd (sys_call (snd (sys_call w))))))))))"

text \<open>\<open>Update\<close> with a callback that returns the new value and a result of its own (the variables
  the Go closures assign).  A missing file gives the callback the zero value.\<close>

definition js_Update ::
    "('w world_scheme \<Rightarrow> 'a option) \<Rightarrow> ('a \<Rightarrow> 'w world_scheme \<Rightarrow> 'w world_scheme) \<Rightarrow> 'a \<Rightarrow>
     ('a \<Rightarrow> ('a \<times> 'b) result) \<Rightarrow> 'w world_scheme \<Rightarrow> 'b result \<times> 'w world_scheme" where
  "js_Update get put zero fn w =
     (case js_Read get w of
        (Inl e, w) \<Rightarrow>
          if \<not> errors_is e ErrNotExist then (Inl e, w)
          else (case fn zero of
                  Inl e \<Rightarrow> (Inl e, w)
                | Inr (c, x) \<Rightarrow> (case js_Write put c w of (Inl e, w) \<Rightarrow> (Inl e, w) | (Inr _, w) \<Rightarrow> (Inr x, w)))
      | (Inr current, w) \<Rightarrow>
          (case fn current of
             Inl e \<Rightarrow> (Inl e, w)
           | Inr (c, x) \<Rightarrow> (case js_Write put c w of (Inl e, w) \<Rightarrow> (Inl e, w) | (Inr _, w) \<Rightarrow> (Inr x, w))))"

definition js_Delete :: "('w world_scheme \<Rightarrow> 'w world_scheme) \<Rightarrow> 'w world_scheme \<Rightarrow> unit result \<times> 'w world_scheme" where
  "js_Delete clear w =
     (case sys_call w of (Inl e, w) \<Rightarrow> (Inl e, w) | (Inr _, w) \<Rightarrow> (Inr (), clear w))"

section \<open>The contract of a store\<close>

text \<open>The laws of the slot a store keeps its document in: reading back gives the canonical form of
  what was published, and neither publishing nor a system call touches the rest of the state.\<close>

locale json_store =
  fixes get :: "'w world_scheme \<Rightarrow> 'a option"
    and put :: "'a \<Rightarrow> 'w world_scheme \<Rightarrow> 'w world_scheme"
    and clear :: "'w world_scheme \<Rightarrow> 'w world_scheme"
    and canon :: "'a \<Rightarrow> 'a"
    and rest :: "'w world_scheme \<Rightarrow> 'r"
  assumes get_put: "get (put c w) = Some (canon c)"
    and get_clear: "get (clear w) = None"
    and get_tick: "get (tick w) = get w"
    and rest_put: "rest (put c w) = rest w"
    and rest_clear: "rest (clear w) = rest w"
    and rest_tick: "rest (tick w) = rest w"
begin

lemma Exists_post: "js_Exists get w = (b, w') \<Longrightarrow> w' = tick w \<and> (b \<longrightarrow> get w \<noteq> None)"
  by (auto simp: js_Exists_def get_tick dest!: sys_call_tick split: prod.splits sum.splits)

lemma Read_post:
  "js_Read get w = (r, w') \<Longrightarrow> w' = tick w \<and> (\<forall>c. r = Inr c \<longrightarrow> get w = Some c) \<and>
     (\<forall>e. r = Inl e \<and> errors_is e ErrNotExist \<longrightarrow> get w = None)"
  by (auto simp: js_Read_def sys_call_def get_tick split: option.splits)

lemma Write_post:
  "js_Write put c w = (r, w') \<Longrightarrow> rest w' = rest w \<and> get w' = (if r = Inr () then Some (canon c) else get w)"
  unfolding js_Write_def
  by (auto simp: get_tick rest_tick get_put rest_put dest!: sys_call_tick split: prod.splits sum.splits)

lemma Delete_post:
  "js_Delete clear w = (r, w') \<Longrightarrow> rest w' = rest w \<and> get w' = (if r = Inr () then None else get w)"
  by (auto simp: js_Delete_def get_tick rest_tick get_clear rest_clear dest!: sys_call_tick
      split: prod.splits sum.splits)

text \<open>An update either leaves the document alone or publishes exactly what the callback computed
  from it.\<close>

lemma Update_post:
  assumes "js_Update get put zero fn w = (r, w')"
  shows "rest w' = rest w \<and>
     (case r of
        Inl _ \<Rightarrow> get w' = get w
      | Inr x \<Rightarrow> \<exists>c. fn (case get w of None \<Rightarrow> zero | Some d \<Rightarrow> d) = Inr (c, x) \<and> get w' = Some (canon c))"
proof -
  obtain r1 w1 where rd: "js_Read get w = (r1, w1)" by force
  note rd' = Read_post [OF rd]
  have w1: "get w1 = get w" "rest w1 = rest w" using rd' get_tick rest_tick by auto
  define cur where "cur = (case get w of None \<Rightarrow> zero | Some d \<Rightarrow> d)"
  have "(r, w') = (case r1 of
      Inl e \<Rightarrow> if \<not> errors_is e ErrNotExist then (Inl e, w1)
        else (case fn cur of Inl e \<Rightarrow> (Inl e, w1)
              | Inr (c, x) \<Rightarrow> (case js_Write put c w1 of (Inl e, w) \<Rightarrow> (Inl e, w) | (Inr _, w) \<Rightarrow> (Inr x, w)))
    | Inr _ \<Rightarrow> (case fn cur of Inl e \<Rightarrow> (Inl e, w1)
              | Inr (c, x) \<Rightarrow> (case js_Write put c w1 of (Inl e, w) \<Rightarrow> (Inl e, w) | (Inr _, w) \<Rightarrow> (Inr x, w))))"
    using assms rd rd' by (cases r1) (auto simp: js_Update_def cur_def split: if_splits)
  then have "(\<exists>e. r = Inl e) \<and> w' = w1 \<or>
      (\<exists>c x r2. fn cur = Inr (c, x) \<and> js_Write put c w1 = (r2, w') \<and>
         r = (case r2 of Inl e \<Rightarrow> Inl e | Inr _ \<Rightarrow> Inr x))"
    by (cases r1; cases "fn cur") (auto split: if_splits prod.splits sum.splits)
  then show ?thesis
  proof
    assume "(\<exists>e. r = Inl e) \<and> w' = w1"
    then show ?thesis using w1 by auto
  next
    assume "\<exists>c x r2. fn cur = Inr (c, x) \<and> js_Write put c w1 = (r2, w') \<and>
         r = (case r2 of Inl e \<Rightarrow> Inl e | Inr _ \<Rightarrow> Inr x)"
    then obtain c x r2 where x: "fn cur = Inr (c, x)" "js_Write put c w1 = (r2, w')"
        "r = (case r2 of Inl e \<Rightarrow> Inl e | Inr _ \<Rightarrow> Inr x)" by blast
    from Write_post [OF x(2)] show ?thesis using x(1,3) w1 by (cases r2) (auto simp: cur_def)
  qed
qed

text \<open>Without a failing call an update whose callback accepts the document succeeds.\<close>

lemma Update_succeeds:
  assumes "\<And>n. faults w n = None" "\<And>c w. faults (put c w) = faults w"
    and "fn (case get w of None \<Rightarrow> zero | Some d \<Rightarrow> d) = Inr (c, x)"
  shows "\<exists>w'. js_Update get put zero fn w = (Inr x, w') \<and> faults w' = faults w"
proof -
  have ok: "faults v = faults w \<Longrightarrow> sys_call v = (Inr (), tick v)" for v
    using assms(1) by (simp add: sys_call_def)
  have t: "faults (tick v) = faults w \<longleftrightarrow> faults v = faults w" for v by simp
  have "\<exists>w'. js_Write put c (tick w) = (Inr (), w') \<and> faults w' = faults w"
    by (simp add: js_Write_def ok assms(2))
  moreover have "js_Read get w = ((case get w of None \<Rightarrow> Inl (Sentinel ErrNotExist) | Some d \<Rightarrow> Inr d), tick w)"
    by (simp add: js_Read_def ok get_tick split: option.splits)
  ultimately show ?thesis
    using assms(3) by (cases "get w") (auto simp: js_Update_def)
qed

end

end
