(* ===== verification/GoText.thy ===== *)
theory GoText
  imports Prelude
begin

text \<open>
  Rendering of values by \<open>fmt\<close> and \<open>strconv\<close>: decimal integers, booleans, and the quoted strings
  of \<open>%q\<close>, with the UTF-8 decoding they rest on.  The table behind \<open>unicode.IsPrint\<close> is a
  parameter (\<open>is_print\<close>, on code points).
\<close>

section \<open>Numbers and booleans\<close>

definition digit_char :: "nat \<Rightarrow> char" where
  "digit_char d = ''0123456789'' ! (d mod 10)"

fun nat_text :: "nat \<Rightarrow> string" where
  "nat_text n = (if n < 10 then [digit_char n] else nat_text (n div 10) @ [digit_char n])"

declare nat_text.simps [simp del]

definition int_text :: "int \<Rightarrow> string" where
  "int_text i = (if i < 0 then CHR ''-'' # nat_text (nat (- i)) else nat_text (nat i))"

definition bool_text :: "bool \<Rightarrow> string" where
  "bool_text b = (if b then ''true'' else ''false'')"

text \<open>\<open>strconv.Atoi\<close> on a string of digits: out of the range of a 64-bit \<open>int\<close> it fails.\<close>

definition digits_value :: "string \<Rightarrow> nat" where
  "digits_value s = foldl (\<lambda>n c. n * 10 + (of_char c - 48)) 0 s"

definition Atoi_digits :: "string \<Rightarrow> int option" where
  "Atoi_digits s = (let n = digits_value s in if n < 2 ^ 63 then Some (int n) else None)"

lemma of_char_digit_char: "d < 10 \<Longrightarrow> of_char (digit_char d) = (48 + d :: nat)"
proof -
  assume "d < 10"
  then have "d \<in> {0,1,2,3,4,5,6,7,8,9}" by auto
  then show ?thesis by (auto simp: digit_char_def)
qed

lemma nat_text_dec: "c \<in> set (nat_text n) \<Longrightarrow> 48 \<le> (of_char c :: nat) \<and> (of_char c :: nat) \<le> 57"
proof (induction n rule: nat_text.induct)
  case (1 n)
  have "of_char (digit_char n) = (48 + n mod 10 :: nat)"
    using of_char_digit_char [of "n mod 10"] by (simp add: digit_char_def)
  then show ?case using 1 by (subst (asm) (2) nat_text.simps) (auto split: if_splits)
qed

lemma nat_text_nonempty [simp]: "nat_text n \<noteq> []"
  by (subst nat_text.simps) simp

lemma digits_value_nat_text [simp]: "digits_value (nat_text n) = n"
proof (induction n rule: nat_text.induct)
  case (1 n)
  have d: "of_char (digit_char n) = (48 + n mod 10 :: nat)"
    using of_char_digit_char [of "n mod 10"] by (simp add: digit_char_def)
  show ?case
  proof (cases "n < 10")
    case True
    then show ?thesis using d by (subst nat_text.simps) (simp add: digits_value_def)
  next
    case False
    then have "digits_value (nat_text n) = digits_value (nat_text (n div 10)) * 10 + n mod 10"
      by (subst nat_text.simps) (simp add: digits_value_def d)
    then show ?thesis using 1 False by simp
  qed
qed

lemma Atoi_int_text: "0 \<le> i \<Longrightarrow> i < 2 ^ 63 \<Longrightarrow> Atoi_digits (int_text i) = Some i"
  by (simp add: Atoi_digits_def int_text_def Let_def nat_less_iff)

section \<open>UTF-8\<close>

definition cont_byte :: "nat \<Rightarrow> bool" where "cont_byte b \<longleftrightarrow> 128 \<le> b \<and> b \<le> 191"

text \<open>\<open>utf8.DecodeRuneInString\<close> on a non-empty string: the code point and its width.  An invalid
  encoding is the replacement character with width 1.\<close>

definition bad_rune :: "nat \<times> nat" where "bad_rune = (0xFFFD, 1)"

fun decode2 :: "nat \<Rightarrow> nat list \<Rightarrow> nat \<times> nat" where
  "decode2 b0 (b1 # _) = (if cont_byte b1 then ((b0 - 192) * 64 + (b1 - 128), 2) else bad_rune)"
| "decode2 b0 _ = bad_rune"

fun decode3 :: "nat \<Rightarrow> nat list \<Rightarrow> nat \<times> nat" where
  "decode3 b0 (b1 # b2 # _) =
     (if cont_byte b1 \<and> cont_byte b2 \<and> (b0 = 224 \<longrightarrow> 160 \<le> b1) \<and> (b0 = 237 \<longrightarrow> b1 \<le> 159)
      then ((b0 - 224) * 4096 + (b1 - 128) * 64 + (b2 - 128), 3) else bad_rune)"
| "decode3 b0 _ = bad_rune"

fun decode4 :: "nat \<Rightarrow> nat list \<Rightarrow> nat \<times> nat" where
  "decode4 b0 (b1 # b2 # b3 # _) =
     (if cont_byte b1 \<and> cont_byte b2 \<and> cont_byte b3 \<and> (b0 = 240 \<longrightarrow> 144 \<le> b1) \<and> (b0 = 244 \<longrightarrow> b1 \<le> 143)
      then ((b0 - 240) * 262144 + (b1 - 128) * 4096 + (b2 - 128) * 64 + (b3 - 128), 4) else bad_rune)"
| "decode4 b0 _ = bad_rune"

definition decode_bytes :: "nat \<Rightarrow> nat list \<Rightarrow> nat \<times> nat" where
  "decode_bytes b0 bs =
     (if b0 < 128 then (b0, 1)
      else if 194 \<le> b0 \<and> b0 \<le> 223 then decode2 b0 bs
      else if 224 \<le> b0 \<and> b0 \<le> 239 then decode3 b0 bs
      else if 240 \<le> b0 \<and> b0 \<le> 244 then decode4 b0 bs
      else bad_rune)"

fun decode_rune :: "string \<Rightarrow> nat \<times> nat" where
  "decode_rune [] = (0xFFFD, 0)"
| "decode_rune (c # s) = decode_bytes (of_char c) (map of_char (take 3 s))"

lemma decode_n_width:
  "0 < snd (decode2 b bs)" "0 < snd (decode3 b bs)" "0 < snd (decode4 b bs)"
  by (cases "(b, bs)" rule: decode2.cases, simp_all add: bad_rune_def)
     (cases "(b, bs)" rule: decode3.cases, simp_all add: bad_rune_def,
      cases "(b, bs)" rule: decode4.cases, simp_all add: bad_rune_def)

lemma decode_rune_width: "s \<noteq> [] \<Longrightarrow> 0 < snd (decode_rune s)"
  by (cases s) (simp_all add: decode_bytes_def decode_n_width bad_rune_def)

lemma decode_rune_ascii: "(of_char c :: nat) < 128 \<Longrightarrow> decode_rune (c # s) = (of_char c, 1)"
  by (simp add: decode_bytes_def)

section \<open>Quoted strings\<close>

definition hex_nibble :: "nat \<Rightarrow> char" where
  "hex_nibble n = ''0123456789abcdef'' ! (n mod 16)"

fun hex_text :: "nat \<Rightarrow> nat \<Rightarrow> string" where
  "hex_text 0 v = []"
| "hex_text (Suc w) v = hex_text w (v div 16) @ [hex_nibble v]"

text \<open>\<open>appendEscapedRune\<close>: the text of one decoded code point, given its bytes.\<close>

definition quote_rune :: "(nat \<Rightarrow> bool) \<Rightarrow> nat \<Rightarrow> nat \<Rightarrow> string \<Rightarrow> string" where
  "quote_rune is_print rune width bytes =
     (if width = 1 \<and> rune = 0xFFFD then [BSL, CHR ''x''] @ hex_text 2 (of_char (hd bytes))
      else if rune = 34 \<or> rune = 92 then [BSL, char_of rune]
      else if is_print rune then bytes
      else if rune = 7 then [BSL, CHR ''a'']
      else if rune = 8 then [BSL, CHR ''b'']
      else if rune = 12 then [BSL, CHR ''f'']
      else if rune = 10 then [BSL, CHR ''n'']
      else if rune = 13 then [BSL, CHR ''r'']
      else if rune = 9 then [BSL, CHR ''t'']
      else if rune = 11 then [BSL, CHR ''v'']
      else if rune < 32 \<or> rune = 127 then [BSL, CHR ''x''] @ hex_text 2 rune
      else if rune < 65536 then [BSL, CHR ''u''] @ hex_text 4 rune
      else [BSL, CHR ''U''] @ hex_text 8 rune)"

function quote_body :: "(nat \<Rightarrow> bool) \<Rightarrow> string \<Rightarrow> string" where
  "quote_body is_print s =
     (if s = [] then []
      else let (rune, width) = decode_rune s in
        quote_rune is_print rune width (take width s) @ quote_body is_print (drop width s))"
  by pat_completeness auto
termination
proof (relation "measure (\<lambda>(p, s). length s)")
  fix is_print :: "nat \<Rightarrow> bool" and s :: string and x and rune width :: nat
  assume "s \<noteq> []" "x = decode_rune s" "(rune, width) = x"
  then have "0 < width" using decode_rune_width [of s] by (metis snd_conv)
  then show "((is_print, drop width s), (is_print, s)) \<in> measure (\<lambda>(p, s). length s)"
    using \<open>s \<noteq> []\<close> by simp
qed simp

declare quote_body.simps [simp del]

definition Quote :: "(nat \<Rightarrow> bool) \<Rightarrow> string \<Rightarrow> string" where
  "Quote is_print s = [DQ] @ quote_body is_print s @ [DQ]"

text \<open>The printable ASCII characters, the part of \<open>unicode.IsPrint\<close> every table agrees on.\<close>

definition ascii_print :: "nat \<Rightarrow> bool" where
  "ascii_print r \<longleftrightarrow> 32 \<le> r \<and> r < 127"

definition plain_char :: "char \<Rightarrow> bool" where
  "plain_char c \<longleftrightarrow> ascii_print (of_char c) \<and> c \<noteq> DQ \<and> c \<noteq> BSL"

lemma char_of_num:
  "of_char c = (34 :: nat) \<longleftrightarrow> c = DQ" "of_char c = (92 :: nat) \<longleftrightarrow> c = BSL"
proof -
  have "of_char DQ = (34 :: nat)" "of_char BSL = (92 :: nat)" by simp_all
  then show "of_char c = (34 :: nat) \<longleftrightarrow> c = DQ" "of_char c = (92 :: nat) \<longleftrightarrow> c = BSL"
    by (metis of_char_eq_iff)+
qed

lemma quote_body_plain:
  assumes "\<And>r. ascii_print r \<Longrightarrow> is_print r" "\<forall>c \<in> set s. plain_char c"
  shows "quote_body is_print s = s"
  using assms(2)
proof (induction s)
  case Nil
  then show ?case by (simp add: quote_body.simps)
next
  case (Cons c s)
  have n: "of_char c < (127 :: nat)" "is_print (of_char c)"
    using Cons.prems assms(1) by (auto simp: plain_char_def ascii_print_def)
  have q: "of_char c \<noteq> (34 :: nat)" "of_char c \<noteq> (92 :: nat)"
    using Cons.prems char_of_num [of c] by (simp_all add: plain_char_def)
  have "quote_rune is_print (of_char c) 1 [c] = [c]"
    using n q by (simp add: quote_rune_def)
  moreover have "decode_rune (c # s) = (of_char c, 1)" using n by (intro decode_rune_ascii) simp
  ultimately show ?case
    using Cons by (subst quote_body.simps) (simp del: decode_rune.simps)
qed

lemma Quote_plain:
  "(\<And>r. ascii_print r \<Longrightarrow> is_print r) \<Longrightarrow> \<forall>c \<in> set s. plain_char c \<Longrightarrow> Quote is_print s = [DQ] @ s @ [DQ]"
  by (simp add: Quote_def quote_body_plain)

end
