(* ===== verification/Json.thy ===== *)
theory Json
  imports Prelude GoText "HOL-Library.AList"
begin

text \<open>
  JSON values: what \<open>encoding/json\<close> decodes into an \<open>interface{}\<close> and what the settings sandbox
  exports.  An object is an association list with the keys in the order of the map; a number is
  the decimal \<open>m * 10 ^ e\<close> that \<open>strconv.FormatFloat (f, -1)\<close> prints for the float.
\<close>

datatype json =
    JNull
  | JBool bool
  | JNum int int
  | JStr string
  | JArr "json list"
  | JObj "(string \<times> json) list"

fun as_string :: "json \<Rightarrow> string option" where
  "as_string (JStr s) = Some s"
| "as_string _ = None"

fun as_bool :: "json \<Rightarrow> bool option" where
  "as_bool (JBool b) = Some b"
| "as_bool _ = None"

fun as_object :: "json \<Rightarrow> (string \<times> json) list option" where
  "as_object (JObj fs) = Some fs"
| "as_object _ = None"

fun as_array :: "json \<Rightarrow> json list option" where
  "as_array (JArr xs) = Some xs"
| "as_array _ = None"

text \<open>Reading a missing key of a Go map gives the zero value, \<open>nil\<close>.\<close>

definition field :: "(string \<times> json) list \<Rightarrow> string \<Rightarrow> json" where
  "field fs k = (case map_of fs k of None \<Rightarrow> JNull | Some v \<Rightarrow> v)"

text \<open>\<open>strconv.FormatFloat(v, 'f', -1, 64)\<close>.\<close>

definition float_text :: "int \<Rightarrow> int \<Rightarrow> string" where
  "float_text m e =
     (if e \<ge> 0 then int_text (m * 10 ^ nat e)
      else let k = nat (- e); digits = nat_text (nat \<bar>m\<bar>);
               padded = replicate (Suc k - length digits) (CHR ''0'') @ digits;
               cutp = length padded - k
           in (if m < 0 then ''-'' else '''') @ take cutp padded @ ''.'' @ drop cutp padded)"

text \<open>The conversion \<open>int(v)\<close> of a float: truncation towards zero.\<close>

definition float_int :: "int \<Rightarrow> int \<Rightarrow> int" where
  "float_int m e = (if e \<ge> 0 then m * 10 ^ nat e else sgn m * (\<bar>m\<bar> div 10 ^ nat (- e)))"

end
