(* ===== verification/ConfigModel.thy ===== *)
theory ConfigModel
  imports Json Errors
begin

text \<open>
  The structured configuration: src/internal/model/config.go, config_secrets.go and the pure
  functions of src/internal/service/config.go that combine, validate and restore configurations.

  A pointer field is an option value; a nil and an empty slice are both the empty list (the JSON
  form, which is what the store keeps, does not distinguish them).  \<open>interface{}\<close> fields are
  JSON values with \<^const>\<open>JNull\<close> for nil.
\<close>

section \<open>Data\<close>

record AdminAuthUser =
  Username :: string
  Password :: string
  Permissions :: string

record AdminAuth =
  aa_Type :: string
  aa_Users :: "AdminAuthUser list"
  aa_SessionExpiryTime :: int

record HTTPBasicAuth =
  ba_User :: string
  ba_Pass :: string

record HttpsConfig =
  hs_Key :: string
  hs_Cert :: string
  hs_CA :: string
  hs_Port :: int
  hs_Passphrase :: string

record FunctionLibrary =
  fl_Name :: string
  fl_Alias :: string
  fl_Version :: string

record EnvVar =
  ev_Key :: string
  ev_Value :: string
  ev_Type :: string
  ev_Description :: string
  ev_Encrypted :: bool
  ev_Source :: string

record AuthenticationSurfaces =
  as_AdminAuth :: "AdminAuth option"
  as_HTTPNodeAuth :: "HTTPBasicAuth option"
  as_HTTPStaticAuth :: "HTTPBasicAuth option"

record securitySurfacePresence =
  decodedFromJSON :: bool
  adminAuthAbsent :: bool
  httpNodeAuthAbsent :: bool
  httpStaticAuthAbsent :: bool

record NodeRedConfig =
  Port :: int
  UIPort :: int
  UIHost :: string
  HTTPAdminRoot :: string
  HTTPNodeRoot :: string
  FlowFile :: string
  UserDir :: string
  NodesDir :: string
  CredentialSecret :: string
  DisableEditor :: bool
  AdminAuthF :: "AdminAuth option"
  HTTPNodeAuth :: "HTTPBasicAuth option"
  HTTPStaticAuth :: "HTTPBasicAuth option"
  ProjectsEnabled :: bool
  LoggingF :: json
  RequireHttps :: bool
  Https :: "HttpsConfig option"
  EditorTheme :: json
  RuntimeState :: json
  Lang :: string
  FunctionLibraries :: "FunctionLibrary list"
  EnvVars :: "EnvVar list"
  SettingsPath :: string
  SettingsSource :: string
  Extra :: "(string \<times> json) list"
  presence :: securitySurfacePresence

definition zero_presence :: securitySurfacePresence where
  "zero_presence = \<lparr>decodedFromJSON = False, adminAuthAbsent = False, httpNodeAuthAbsent = False,
     httpStaticAuthAbsent = False\<rparr>"

definition zero_config :: NodeRedConfig where
  "zero_config = \<lparr>Port = 0, UIPort = 0, UIHost = '''', HTTPAdminRoot = '''', HTTPNodeRoot = '''',
     FlowFile = '''', UserDir = '''', NodesDir = '''', CredentialSecret = '''', DisableEditor = False,
     AdminAuthF = None, HTTPNodeAuth = None, HTTPStaticAuth = None, ProjectsEnabled = False,
     LoggingF = JNull, RequireHttps = False, Https = None, EditorTheme = JNull, RuntimeState = JNull,
     Lang = '''', FunctionLibraries = [], EnvVars = [], SettingsPath = '''', SettingsSource = '''',
     Extra = [], presence = zero_presence\<rparr>"

definition DefaultNodeRedConfig :: NodeRedConfig where
  "DefaultNodeRedConfig = zero_config\<lparr>FlowFile := ''flows.json'', UserDir := ''./data'', Port := 1880,
     UIPort := 1880, HTTPAdminRoot := ''/'', HTTPNodeRoot := ''/''\<rparr>"

definition AdminAuthCarried :: "NodeRedConfig \<Rightarrow> bool" where
  "AdminAuthCarried c \<longleftrightarrow> \<not> decodedFromJSON (presence c) \<or> \<not> adminAuthAbsent (presence c)"

definition HTTPNodeAuthCarried :: "NodeRedConfig \<Rightarrow> bool" where
  "HTTPNodeAuthCarried c \<longleftrightarrow> \<not> decodedFromJSON (presence c) \<or> \<not> httpNodeAuthAbsent (presence c)"

definition HTTPStaticAuthCarried :: "NodeRedConfig \<Rightarrow> bool" where
  "HTTPStaticAuthCarried c \<longleftrightarrow> \<not> decodedFromJSON (presence c) \<or> \<not> httpStaticAuthAbsent (presence c)"

section \<open>Write-only secrets\<close>

definition RedactedSecret :: string where
  "RedactedSecret = ''[redacted]''"

definition redactedSecretMarkers :: "string list" where
  "redactedSecretMarkers = ['''', RedactedSecret, ''[REDACTED]'', ''********'']"

definition IsRedactedSecret :: "string \<Rightarrow> bool" where
  "IsRedactedSecret value \<longleftrightarrow> value \<in> set redactedSecretMarkers"

definition RedactedSecrets :: "NodeRedConfig \<Rightarrow> NodeRedConfig" where
  "RedactedSecrets c =
     c\<lparr>CredentialSecret := '''',
       Https := map_option (\<lambda>h. h\<lparr>hs_Passphrase := ''''\<rparr>) (Https c)\<rparr>"

definition preserveWriteOnlySecrets :: "NodeRedConfig \<Rightarrow> NodeRedConfig \<Rightarrow> NodeRedConfig" where
  "preserveWriteOnlySecrets existing candidate =
     (let candidate = (if IsRedactedSecret (CredentialSecret candidate)
                       then candidate\<lparr>CredentialSecret := CredentialSecret existing\<rparr> else candidate)
      in case (Https candidate, Https existing) of
           (Some h, Some g) \<Rightarrow>
             if IsRedactedSecret (hs_Passphrase h)
             then candidate\<lparr>Https := Some (h\<lparr>hs_Passphrase := hs_Passphrase g\<rparr>)\<rparr> else candidate
         | _ \<Rightarrow> candidate)"

section \<open>Passwords\<close>

definition isBcryptHash :: "string \<Rightarrow> bool" where
  "isBcryptHash s \<longleftrightarrow> length s > 4 \<and>
     (HasPrefix s ''$2a$'' \<or> HasPrefix s ''$2b$'' \<or> HasPrefix s ''$2y$'')"

text \<open>An account without a password takes the password of the first existing account of that
  name.\<close>

definition inherit_password :: "AdminAuthUser list \<Rightarrow> AdminAuthUser \<Rightarrow> AdminAuthUser" where
  "inherit_password existing u =
     (if Password u \<noteq> '''' then u
      else case find (\<lambda>x. Username x = Username u) existing of
          None \<Rightarrow> u
        | Some x \<Rightarrow> u\<lparr>Password := Password x\<rparr>)"

definition preserveAdminAuthPasswords :: "NodeRedConfig \<Rightarrow> NodeRedConfig \<Rightarrow> NodeRedConfig" where
  "preserveAdminAuthPasswords existing candidate =
     (case (AdminAuthF candidate, AdminAuthF existing) of
        (Some a, Some b) \<Rightarrow>
          if aa_Users a = [] \<or> aa_Users b = [] then candidate
          else candidate\<lparr>AdminAuthF := Some (a\<lparr>aa_Users := map (inherit_password (aa_Users b)) (aa_Users a)\<rparr>)\<rparr>
      | _ \<Rightarrow> candidate)"

definition fill_password :: "AdminAuthUser list \<Rightarrow> AdminAuthUser \<Rightarrow> AdminAuthUser" where
  "fill_password source u =
     (if Password u \<noteq> '''' then u
      else case find (\<lambda>x. Username x = Username u \<and> Password x \<noteq> '''') source of
          None \<Rightarrow> u
        | Some x \<Rightarrow> u\<lparr>Password := Password x\<rparr>)"

definition fillAdminAuthPasswords :: "AdminAuth option \<Rightarrow> AdminAuth option \<Rightarrow> AdminAuth option" where
  "fillAdminAuthPasswords source candidate =
     (case (source, candidate) of
        (Some s, Some a) \<Rightarrow> Some (a\<lparr>aa_Users := map (fill_password (aa_Users s)) (aa_Users a)\<rparr>)
      | _ \<Rightarrow> candidate)"

text \<open>\<open>bcrypt\<close> stands for \<open>bcrypt.GenerateFromPassword\<close>; it can fail (a password of more than 72
  bytes).\<close>

fun upgrade_users ::
    "(string \<Rightarrow> string result) \<Rightarrow> AdminAuthUser list \<Rightarrow> AdminAuthUser list result" where
  "upgrade_users bcrypt [] = Inr []"
| "upgrade_users bcrypt (u # us) =
     (if Password u = '''' \<or> isBcryptHash (Password u)
      then (case upgrade_users bcrypt us of Inl e \<Rightarrow> Inl e | Inr us' \<Rightarrow> Inr (u # us'))
      else case bcrypt (Password u) of
          Inl e \<Rightarrow> Inl (ErrWrap (Username u) e)
        | Inr hash \<Rightarrow>
            (case upgrade_users bcrypt us of
               Inl e \<Rightarrow> Inl e | Inr us' \<Rightarrow> Inr (u\<lparr>Password := hash\<rparr> # us')))"

definition upgradePlaintextAdminAuthPasswords ::
    "(string \<Rightarrow> string result) \<Rightarrow> NodeRedConfig \<Rightarrow> NodeRedConfig result" where
  "upgradePlaintextAdminAuthPasswords bcrypt cfg =
     (case AdminAuthF cfg of
        None \<Rightarrow> Inr cfg
      | Some a \<Rightarrow>
          (case upgrade_users bcrypt (aa_Users a) of
             Inl e \<Rightarrow> Inl e
           | Inr us \<Rightarrow> Inr (cfg\<lparr>AdminAuthF := Some (a\<lparr>aa_Users := us\<rparr>)\<rparr>)))"

definition validateAdminAuthPasswords :: "NodeRedConfig \<Rightarrow> go_error option" where
  "validateAdminAuthPasswords cfg =
     (case AdminAuthF cfg of
        None \<Rightarrow> None
      | Some a \<Rightarrow>
          (case find (\<lambda>u. Password u \<noteq> '''' \<and> \<not> isBcryptHash (Password u)) (aa_Users a) of
             None \<Rightarrow> None
           | Some u \<Rightarrow> Some (ErrWrap (Username u) (Sentinel ErrAdminAuthPlaintextPassword))))"

section \<open>Security surfaces\<close>

record securitySurfaceFallbacks =
  fb_adminAuth :: "AdminAuth option"
  fb_httpNodeAuth :: "HTTPBasicAuth option"
  fb_httpStaticAuth :: "HTTPBasicAuth option"

definition no_fallbacks :: securitySurfaceFallbacks where
  "no_fallbacks = \<lparr>fb_adminAuth = None, fb_httpNodeAuth = None, fb_httpStaticAuth = None\<rparr>"

definition preserveBasicAuthSurface ::
    "HTTPBasicAuth option \<Rightarrow> HTTPBasicAuth option \<Rightarrow> bool \<Rightarrow> HTTPBasicAuth option \<Rightarrow> HTTPBasicAuth option" where
  "preserveBasicAuthSurface current fallback carried candidate =
     (if \<not> carried then
        (case current of Some c \<Rightarrow> Some c
         | None \<Rightarrow> (case fallback of Some f \<Rightarrow> Some f | None \<Rightarrow> candidate))
      else case candidate of
          None \<Rightarrow> None
        | Some a \<Rightarrow>
            if ba_Pass a \<noteq> '''' then Some a
            else case find (\<lambda>s. case s of None \<Rightarrow> False | Some x \<Rightarrow> ba_User x = ba_User a \<and> ba_Pass x \<noteq> '''')
                   [current, fallback] of
                Some (Some x) \<Rightarrow> Some (a\<lparr>ba_Pass := ba_Pass x\<rparr>)
              | _ \<Rightarrow> Some a)"

definition preserveSecuritySurfaces ::
    "NodeRedConfig \<Rightarrow> securitySurfaceFallbacks \<Rightarrow> NodeRedConfig \<Rightarrow> NodeRedConfig" where
  "preserveSecuritySurfaces current fallbacks candidate =
     (let candidate =
        (if AdminAuthCarried candidate
         then (let c = preserveAdminAuthPasswords current candidate in
               c\<lparr>AdminAuthF := fillAdminAuthPasswords (fb_adminAuth fallbacks) (AdminAuthF c)\<rparr>)
         else candidate\<lparr>AdminAuthF :=
                (case AdminAuthF current of Some a \<Rightarrow> Some a | None \<Rightarrow> fb_adminAuth fallbacks)\<rparr>);
        candidate = candidate\<lparr>HTTPNodeAuth :=
          preserveBasicAuthSurface (HTTPNodeAuth current) (fb_httpNodeAuth fallbacks)
            (HTTPNodeAuthCarried candidate) (HTTPNodeAuth candidate)\<rparr>
      in candidate\<lparr>HTTPStaticAuth :=
          preserveBasicAuthSurface (HTTPStaticAuth current) (fb_httpStaticAuth fallbacks)
            (HTTPStaticAuthCarried candidate) (HTTPStaticAuth candidate)\<rparr>)"

section \<open>Validation\<close>

definition validate_user :: "AdminAuthUser \<Rightarrow> go_error option" where
  "validate_user u =
     (if Username u = '''' then Some (ErrText ''username must not be empty'')
      else if Password u = '''' then Some (ErrText ''password must not be empty'')
      else if length (Username u) < 3 then Some (ErrText ''username must be at least 3 characters'')
      else if length (Password u) < 6 then Some (ErrText ''password must be at least 6 characters'')
      else if Permissions u \<noteq> ''*'' \<and> Permissions u \<noteq> ''read'' then Some (ErrText ''permissions'')
      else None)"

fun validate_users :: "AdminAuthUser list \<Rightarrow> go_error option" where
  "validate_users [] = None"
| "validate_users (u # us) = (case validate_user u of Some e \<Rightarrow> Some e | None \<Rightarrow> validate_users us)"

definition validateAdminAuth :: "AdminAuth \<Rightarrow> go_error option" where
  "validateAdminAuth auth =
     (if aa_Type auth = '''' then Some (ErrText ''adminAuth type must not be empty'')
      else if aa_Users auth = [] then Some (ErrText ''adminAuth must have at least one user'')
      else case validate_users (aa_Users auth) of
          Some e \<Rightarrow> Some e
        | None \<Rightarrow> if aa_SessionExpiryTime auth < 0
                  then Some (ErrText ''adminAuth sessionExpiryTime must not be negative'') else None)"

definition validateHTTPBasicAuth :: "string \<Rightarrow> HTTPBasicAuth option \<Rightarrow> go_error option" where
  "validateHTTPBasicAuth name auth =
     (case auth of
        None \<Rightarrow> None
      | Some a \<Rightarrow> if ba_User a = '''' then Some (ErrText (name @ '' user must not be empty''))
                  else if \<not> isBcryptHash (ba_Pass a) then Some (ErrText (name @ '' pass must be a bcrypt hash''))
                  else None)"

definition Validate :: "NodeRedConfig \<Rightarrow> go_error option" where
  "Validate cfg =
     (let port = (if Port cfg = 0 \<and> UIPort cfg > 0 then UIPort cfg else Port cfg) in
      if port < 1 \<or> port > 65535 then Some (ErrText ''port must be between 1 and 65535'')
      else if HTTPAdminRoot cfg = '''' then Some (ErrText ''httpAdminRoot cannot be empty'')
      else if HTTPNodeRoot cfg = '''' then Some (ErrText ''httpNodeRoot cannot be empty'')
      else case (case AdminAuthF cfg of None \<Rightarrow> None | Some a \<Rightarrow> validateAdminAuth a) of
          Some e \<Rightarrow> Some e
        | None \<Rightarrow>
            (case validateHTTPBasicAuth ''httpNodeAuth'' (HTTPNodeAuth cfg) of
               Some e \<Rightarrow> Some e
             | None \<Rightarrow> validateHTTPBasicAuth ''httpStaticAuth'' (HTTPStaticAuth cfg)))"

section \<open>Field-aware restore\<close>

text \<open>\<open>restoreUnchangedFields\<close> walks the exported fields by reflection.  \<open>keep\<close> is the comparison and
  assignment of one field; the two skip lists are written out as the fields each restore
  leaves alone.\<close>

definition keep :: "'a \<Rightarrow> 'a \<Rightarrow> 'a \<Rightarrow> 'a" where
  "keep live previous committed = (if live = committed then previous else live)"

definition structuredRestoreSkip :: "string list" where
  "structuredRestoreSkip = [''EnvVars'', ''FunctionLibraries'', ''RuntimeState'', ''SettingsPath'',
     ''SettingsSource'', ''Extra'']"

definition mirrorRestoreSkip :: "string list" where
  "mirrorRestoreSkip = [''FunctionLibraries'', ''RuntimeState'', ''SettingsPath'', ''SettingsSource'', ''Extra'']"

definition keep_unless :: "string list \<Rightarrow> string \<Rightarrow> 'a \<Rightarrow> 'a \<Rightarrow> 'a \<Rightarrow> 'a" where
  "keep_unless skip name live previous committed =
     (if name \<in> set skip then live else keep live previous committed)"

definition restoreUnchangedFields ::
    "NodeRedConfig \<Rightarrow> NodeRedConfig \<Rightarrow> NodeRedConfig \<Rightarrow> string list \<Rightarrow> NodeRedConfig" where
  "restoreUnchangedFields cur prev com skip =
     \<lparr>Port = keep_unless skip ''Port'' (Port cur) (Port prev) (Port com),
      UIPort = keep_unless skip ''UIPort'' (UIPort cur) (UIPort prev) (UIPort com),
      UIHost = keep_unless skip ''UIHost'' (UIHost cur) (UIHost prev) (UIHost com),
      HTTPAdminRoot = keep_unless skip ''HTTPAdminRoot'' (HTTPAdminRoot cur) (HTTPAdminRoot prev) (HTTPAdminRoot com),
      HTTPNodeRoot = keep_unless skip ''HTTPNodeRoot'' (HTTPNodeRoot cur) (HTTPNodeRoot prev) (HTTPNodeRoot com),
      FlowFile = keep_unless skip ''FlowFile'' (FlowFile cur) (FlowFile prev) (FlowFile com),
      UserDir = keep_unless skip ''UserDir'' (UserDir cur) (UserDir prev) (UserDir com),
      NodesDir = keep_unless skip ''NodesDir'' (NodesDir cur) (NodesDir prev) (NodesDir com),
      CredentialSecret = keep_unless skip ''CredentialSecret'' (CredentialSecret cur) (CredentialSecret prev) (CredentialSecret com),
      DisableEditor = keep_unless skip ''DisableEditor'' (DisableEditor cur) (DisableEditor prev) (DisableEditor com),
      AdminAuthF = keep_unless skip ''AdminAuth'' (AdminAuthF cur) (AdminAuthF prev) (AdminAuthF com),
      HTTPNodeAuth = keep_unless skip ''HTTPNodeAuth'' (HTTPNodeAuth cur) (HTTPNodeAuth prev) (HTTPNodeAuth com),
      HTTPStaticAuth = keep_unless skip ''HTTPStaticAuth'' (HTTPStaticAuth cur) (HTTPStaticAuth prev) (HTTPStaticAuth com),
      ProjectsEnabled = keep_unless skip ''ProjectsEnabled'' (ProjectsEnabled cur) (ProjectsEnabled prev) (ProjectsEnabled com),
      LoggingF = keep_unless skip ''Logging'' (LoggingF cur) (LoggingF prev) (LoggingF com),
      RequireHttps = keep_unless skip ''RequireHttps'' (RequireHttps cur) (RequireHttps prev) (RequireHttps com),
      Https = keep_unless skip ''Https'' (Https cur) (Https prev) (Https com),
      EditorTheme = keep_unless skip ''EditorTheme'' (EditorTheme cur) (EditorTheme prev) (EditorTheme com),
      RuntimeState = keep_unless skip ''RuntimeState'' (RuntimeState cur) (RuntimeState prev) (RuntimeState com),
      Lang = keep_unless skip ''Lang'' (Lang cur) (Lang prev) (Lang com),
      FunctionLibraries = keep_unless skip ''FunctionLibraries'' (FunctionLibraries cur) (FunctionLibraries prev) (FunctionLibraries com),
      EnvVars = keep_unless skip ''EnvVars'' (EnvVars cur) (EnvVars prev) (EnvVars com),
      SettingsPath = keep_unless skip ''SettingsPath'' (SettingsPath cur) (SettingsPath prev) (SettingsPath com),
      SettingsSource = keep_unless skip ''SettingsSource'' (SettingsSource cur) (SettingsSource prev) (SettingsSource com),
      Extra = keep_unless skip ''Extra'' (Extra cur) (Extra prev) (Extra com),
      presence = presence cur\<rparr>"

end
