(* ===== verification/ConfigPatch.thy ===== *)
theory ConfigPatch
  imports ConfigModel "HOL-Library.List_Lexorder" "HOL-Library.Char_ord"
begin

text \<open>
  The JSON form of the configuration (the marshalling methods of src/internal/model/config.go)
  and presence-aware patches (src/internal/model/config_patch.go and
  src/internal/service/config_patch.go).

  Decoding follows \<open>encoding/json\<close>: the entries of an object are visited in order, an entry is
  stored in the field of that name, or else in the field whose name differs only in (ASCII)
  case, null leaves a scalar unchanged and clears a pointer, a slice or an interface, and a
  value of the wrong type is an error.  A number literal \<open>m * 10 ^ e\<close> is an integer literal iff
  \<open>e = 0\<close>.
\<close>

section \<open>Encoding\<close>

definition str_field :: "string \<Rightarrow> string \<Rightarrow> (string \<times> json) list" where
  "str_field k s = (if s = '''' then [] else [(k, JStr s)])"

definition int_field :: "string \<Rightarrow> int \<Rightarrow> (string \<times> json) list" where
  "int_field k i = (if i = 0 then [] else [(k, JNum i 0)])"

definition bool_field :: "string \<Rightarrow> bool \<Rightarrow> (string \<times> json) list" where
  "bool_field k b = (if b then [(k, JBool True)] else [])"

definition opt_field :: "string \<Rightarrow> ('a \<Rightarrow> json) \<Rightarrow> 'a option \<Rightarrow> (string \<times> json) list" where
  "opt_field k enc v = (case v of None \<Rightarrow> [] | Some x \<Rightarrow> [(k, enc x)])"

definition any_field :: "string \<Rightarrow> json \<Rightarrow> (string \<times> json) list" where
  "any_field k j = (if j = JNull then [] else [(k, j)])"

definition list_field :: "string \<Rightarrow> ('a \<Rightarrow> json) \<Rightarrow> 'a list \<Rightarrow> (string \<times> json) list" where
  "list_field k enc xs = (if xs = [] then [] else [(k, JArr (map enc xs))])"

definition enc_user :: "AdminAuthUser \<Rightarrow> json" where
  "enc_user u = JObj [(''username'', JStr (Username u)), (''password'', JStr (Password u)),
     (''permissions'', JStr (Permissions u))]"

definition enc_admin :: "AdminAuth \<Rightarrow> json" where
  "enc_admin a = JObj ((''type'', JStr (aa_Type a)) # list_field ''users'' enc_user (aa_Users a) @
     int_field ''sessionExpiryTime'' (aa_SessionExpiryTime a))"

definition enc_basic :: "HTTPBasicAuth \<Rightarrow> json" where
  "enc_basic a = JObj [(''user'', JStr (ba_User a)), (''pass'', JStr (ba_Pass a))]"

definition enc_https :: "HttpsConfig \<Rightarrow> json" where
  "enc_https h = JObj (str_field ''key'' (hs_Key h) @ str_field ''cert'' (hs_Cert h) @
     str_field ''ca'' (hs_CA h) @ int_field ''port'' (hs_Port h) @ str_field ''passphrase'' (hs_Passphrase h))"

definition enc_lib :: "FunctionLibrary \<Rightarrow> json" where
  "enc_lib l = JObj ((''name'', JStr (fl_Name l)) # str_field ''alias'' (fl_Alias l) @
     str_field ''version'' (fl_Version l))"

definition enc_env :: "EnvVar \<Rightarrow> json" where
  "enc_env v = JObj ([(''key'', JStr (ev_Key v)), (''value'', JStr (ev_Value v)), (''type'', JStr (ev_Type v))] @
     str_field ''description'' (ev_Description v) @ bool_field ''encrypted'' (ev_Encrypted v) @
     str_field ''source'' (ev_Source v))"

definition MarshalJSON :: "NodeRedConfig \<Rightarrow> (string \<times> json) list" where
  "MarshalJSON c =
     int_field ''uiPort'' (UIPort c) @ str_field ''uiHost'' (UIHost c) @
     str_field ''httpAdminRoot'' (HTTPAdminRoot c) @ str_field ''httpNodeRoot'' (HTTPNodeRoot c) @
     str_field ''flowFile'' (FlowFile c) @ str_field ''userDir'' (UserDir c) @
     str_field ''nodesDir'' (NodesDir c) @ str_field ''credentialSecret'' (CredentialSecret c) @
     bool_field ''disableEditor'' (DisableEditor c) @ opt_field ''adminAuth'' enc_admin (AdminAuthF c) @
     opt_field ''httpNodeAuth'' enc_basic (HTTPNodeAuth c) @
     opt_field ''httpStaticAuth'' enc_basic (HTTPStaticAuth c) @
     bool_field ''projectsEnabled'' (ProjectsEnabled c) @ any_field ''logging'' (LoggingF c) @
     bool_field ''requireHttps'' (RequireHttps c) @ opt_field ''https'' enc_https (Https c) @
     any_field ''editorTheme'' (EditorTheme c) @ any_field ''runtimeState'' (RuntimeState c) @
     str_field ''lang'' (Lang c) @ list_field ''functionLibraries'' enc_lib (FunctionLibraries c) @
     list_field ''envVars'' enc_env (EnvVars c) @ str_field ''settingsPath'' (SettingsPath c) @
     str_field ''settingsSource'' (SettingsSource c) @ [(''port'', JNum (Port c) 0)]"

section \<open>Decoding\<close>

fun dec_str :: "json \<Rightarrow> string \<Rightarrow> string option" where
  "dec_str (JStr s) old = Some s"
| "dec_str JNull old = Some old"
| "dec_str _ old = None"

fun dec_int :: "json \<Rightarrow> int \<Rightarrow> int option" where
  "dec_int (JNum m e) old = (if e = 0 \<and> - (2 ^ 63) \<le> m \<and> m < 2 ^ 63 then Some m else None)"
| "dec_int JNull old = Some old"
| "dec_int _ old = None"

fun dec_bool :: "json \<Rightarrow> bool \<Rightarrow> bool option" where
  "dec_bool (JBool b) old = Some b"
| "dec_bool JNull old = Some old"
| "dec_bool _ old = None"

definition dec_any :: "json \<Rightarrow> json \<Rightarrow> json option" where
  "dec_any j old = Some j"

fun dec_ptr :: "(json \<Rightarrow> 'a \<Rightarrow> 'a option) \<Rightarrow> 'a \<Rightarrow> json \<Rightarrow> 'a option \<Rightarrow> 'a option option" where
  "dec_ptr dec zero JNull old = Some None"
| "dec_ptr dec zero j old = map_option Some (dec j (case old of None \<Rightarrow> zero | Some x \<Rightarrow> x))"

fun dec_elems :: "(json \<Rightarrow> 'a \<Rightarrow> 'a option) \<Rightarrow> 'a \<Rightarrow> json list \<Rightarrow> 'a list option" where
  "dec_elems dec zero [] = Some []"
| "dec_elems dec zero (j # js) =
     (case dec j zero of None \<Rightarrow> None
      | Some x \<Rightarrow> (case dec_elems dec zero js of None \<Rightarrow> None | Some xs \<Rightarrow> Some (x # xs)))"

fun dec_list :: "(json \<Rightarrow> 'a \<Rightarrow> 'a option) \<Rightarrow> 'a \<Rightarrow> json \<Rightarrow> 'a list \<Rightarrow> 'a list option" where
  "dec_list dec zero (JArr js) old = dec_elems dec zero js"
| "dec_list dec zero JNull old = Some []"
| "dec_list dec zero _ old = None"

text \<open>A struct is a list of field names with their setters.\<close>

type_synonym 'r setters = "(string \<times> (json \<Rightarrow> 'r \<Rightarrow> 'r option)) list"

definition setter_for :: "'r setters \<Rightarrow> string \<Rightarrow> (json \<Rightarrow> 'r \<Rightarrow> 'r option) option" where
  "setter_for ss k = (case map_of ss k of Some s \<Rightarrow> Some s
     | None \<Rightarrow> map_option snd (find (\<lambda>(n, _). ToLower n = ToLower k) ss))"

fun dec_fields :: "'r setters \<Rightarrow> (string \<times> json) list \<Rightarrow> 'r \<Rightarrow> 'r option" where
  "dec_fields ss [] r = Some r"
| "dec_fields ss ((k, j) # fs) r =
     (case setter_for ss k of
        None \<Rightarrow> dec_fields ss fs r
      | Some set_it \<Rightarrow> (case set_it j r of None \<Rightarrow> None | Some r' \<Rightarrow> dec_fields ss fs r'))"

fun dec_struct :: "'r setters \<Rightarrow> json \<Rightarrow> 'r \<Rightarrow> 'r option" where
  "dec_struct ss (JObj fs) r = dec_fields ss fs r"
| "dec_struct ss JNull r = Some r"
| "dec_struct ss _ r = None"

definition user_setters :: "AdminAuthUser setters" where
  "user_setters =
     [(''username'', \<lambda>j r. map_option (\<lambda>v. r\<lparr>Username := v\<rparr>) (dec_str j (Username r))),
      (''password'', \<lambda>j r. map_option (\<lambda>v. r\<lparr>Password := v\<rparr>) (dec_str j (Password r))),
      (''permissions'', \<lambda>j r. map_option (\<lambda>v. r\<lparr>Permissions := v\<rparr>) (dec_str j (Permissions r)))]"

definition zero_user :: AdminAuthUser where
  "zero_user = \<lparr>Username = '''', Password = '''', Permissions = ''''\<rparr>"

definition admin_setters :: "AdminAuth setters" where
  "admin_setters =
     [(''type'', \<lambda>j r. map_option (\<lambda>v. r\<lparr>aa_Type := v\<rparr>) (dec_str j (aa_Type r))),
      (''users'', \<lambda>j r. map_option (\<lambda>v. r\<lparr>aa_Users := v\<rparr>) (dec_list (dec_struct user_setters) zero_user j (aa_Users r))),
      (''sessionExpiryTime'', \<lambda>j r. map_option (\<lambda>v. r\<lparr>aa_SessionExpiryTime := v\<rparr>) (dec_int j (aa_SessionExpiryTime r)))]"

definition zero_admin :: AdminAuth where
  "zero_admin = \<lparr>aa_Type = '''', aa_Users = [], aa_SessionExpiryTime = 0\<rparr>"

definition basic_setters :: "HTTPBasicAuth setters" where
  "basic_setters =
     [(''user'', \<lambda>j r. map_option (\<lambda>v. r\<lparr>ba_User := v\<rparr>) (dec_str j (ba_User r))),
      (''pass'', \<lambda>j r. map_option (\<lambda>v. r\<lparr>ba_Pass := v\<rparr>) (dec_str j (ba_Pass r)))]"

definition zero_basic :: HTTPBasicAuth where
  "zero_basic = \<lparr>ba_User = '''', ba_Pass = ''''\<rparr>"

definition https_setters :: "HttpsConfig setters" where
  "https_setters =
     [(''key'', \<lambda>j r. map_option (\<lambda>v. r\<lparr>hs_Key := v\<rparr>) (dec_str j (hs_Key r))),
      (''cert'', \<lambda>j r. map_option (\<lambda>v. r\<lparr>hs_Cert := v\<rparr>) (dec_str j (hs_Cert r))),
      (''ca'', \<lambda>j r. map_option (\<lambda>v. r\<lparr>hs_CA := v\<rparr>) (dec_str j (hs_CA r))),
      (''port'', \<lambda>j r. map_option (\<lambda>v. r\<lparr>hs_Port := v\<rparr>) (dec_int j (hs_Port r))),
      (''passphrase'', \<lambda>j r. map_option (\<lambda>v. r\<lparr>hs_Passphrase := v\<rparr>) (dec_str j (hs_Passphrase r)))]"

definition zero_https :: HttpsConfig where
  "zero_https = \<lparr>hs_Key = '''', hs_Cert = '''', hs_CA = '''', hs_Port = 0, hs_Passphrase = ''''\<rparr>"

definition lib_setters :: "FunctionLibrary setters" where
  "lib_setters =
     [(''name'', \<lambda>j r. map_option (\<lambda>v. r\<lparr>fl_Name := v\<rparr>) (dec_str j (fl_Name r))),
      (''alias'', \<lambda>j r. map_option (\<lambda>v. r\<lparr>fl_Alias := v\<rparr>) (dec_str j (fl_Alias r))),
      (''version'', \<lambda>j r. map_option (\<lambda>v. r\<lparr>fl_Version := v\<rparr>) (dec_str j (fl_Version r)))]"

definition zero_lib :: FunctionLibrary where
  "zero_lib = \<lparr>fl_Name = '''', fl_Alias = '''', fl_Version = ''''\<rparr>"

definition env_setters :: "EnvVar setters" where
  "env_setters =
     [(''key'', \<lambda>j r. map_option (\<lambda>v. r\<lparr>ev_Key := v\<rparr>) (dec_str j (ev_Key r))),
      (''value'', \<lambda>j r. map_option (\<lambda>v. r\<lparr>ev_Value := v\<rparr>) (dec_str j (ev_Value r))),
      (''type'', \<lambda>j r. map_option (\<lambda>v. r\<lparr>ev_Type := v\<rparr>) (dec_str j (ev_Type r))),
      (''description'', \<lambda>j r. map_option (\<lambda>v. r\<lparr>ev_Description := v\<rparr>) (dec_str j (ev_Description r))),
      (''encrypted'', \<lambda>j r. map_option (\<lambda>v. r\<lparr>ev_Encrypted := v\<rparr>) (dec_bool j (ev_Encrypted r))),
      (''source'', \<lambda>j r. map_option (\<lambda>v. r\<lparr>ev_Source := v\<rparr>) (dec_str j (ev_Source r)))]"

definition zero_env :: EnvVar where
  "zero_env = \<lparr>ev_Key = '''', ev_Value = '''', ev_Type = '''', ev_Description = '''',
     ev_Encrypted = False, ev_Source = ''''\<rparr>"

definition config_setters :: "NodeRedConfig setters" where
  "config_setters =
     [(''port'', \<lambda>j r. map_option (\<lambda>v. r\<lparr>Port := v\<rparr>) (dec_int j (Port r))),
      (''uiPort'', \<lambda>j r. map_option (\<lambda>v. r\<lparr>UIPort := v\<rparr>) (dec_int j (UIPort r))),
      (''uiHost'', \<lambda>j r. map_option (\<lambda>v. r\<lparr>UIHost := v\<rparr>) (dec_str j (UIHost r))),
      (''httpAdminRoot'', \<lambda>j r. map_option (\<lambda>v. r\<lparr>HTTPAdminRoot := v\<rparr>) (dec_str j (HTTPAdminRoot r))),
      (''httpNodeRoot'', \<lambda>j r. map_option (\<lambda>v. r\<lparr>HTTPNodeRoot := v\<rparr>) (dec_str j (HTTPNodeRoot r))),
      (''flowFile'', \<lambda>j r. map_option (\<lambda>v. r\<lparr>FlowFile := v\<rparr>) (dec_str j (FlowFile r))),
      (''userDir'', \<lambda>j r. map_option (\<lambda>v. r\<lparr>UserDir := v\<rparr>) (dec_str j (UserDir r))),
      (''nodesDir'', \<lambda>j r. map_option (\<lambda>v. r\<lparr>NodesDir := v\<rparr>) (dec_str j (NodesDir r))),
      (''credentialSecret'', \<lambda>j r. map_option (\<lambda>v. r\<lparr>CredentialSecret := v\<rparr>) (dec_str j (CredentialSecret r))),
      (''disableEditor'', \<lambda>j r. map_option (\<lambda>v. r\<lparr>DisableEditor := v\<rparr>) (dec_bool j (DisableEditor r))),
      (''adminAuth'', \<lambda>j r. map_option (\<lambda>v. r\<lparr>AdminAuthF := v\<rparr>) (dec_ptr (dec_struct admin_setters) zero_admin j (AdminAuthF r))),
      (''httpNodeAuth'', \<lambda>j r. map_option (\<lambda>v. r\<lparr>HTTPNodeAuth := v\<rparr>) (dec_ptr (dec_struct basic_setters) zero_basic j (HTTPNodeAuth r))),
      (''httpStaticAuth'', \<lambda>j r. map_option (\<lambda>v. r\<lparr>HTTPStaticAuth := v\<rparr>) (dec_ptr (dec_struct basic_setters) zero_basic j (HTTPStaticAuth r))),
      (''projectsEnabled'', \<lambda>j r. map_option (\<lambda>v. r\<lparr>ProjectsEnabled := v\<rparr>) (dec_bool j (ProjectsEnabled r))),
      (''logging'', \<lambda>j r. map_option (\<lambda>v. r\<lparr>LoggingF := v\<rparr>) (dec_any j (LoggingF r))),
      (''requireHttps'', \<lambda>j r. map_option (\<lambda>v. r\<lparr>RequireHttps := v\<rparr>) (dec_bool j (RequireHttps r))),
      (''https'', \<lambda>j r. map_option (\<lambda>v. r\<lparr>Https := v\<rparr>) (dec_ptr (dec_struct https_setters) zero_https j (Https r))),
      (''editorTheme'', \<lambda>j r. map_option (\<lambda>v. r\<lparr>EditorTheme := v\<rparr>) (dec_any j (EditorTheme r))),
      (''runtimeState'', \<lambda>j r. map_option (\<lambda>v. r\<lparr>RuntimeState := v\<rparr>) (dec_any j (RuntimeState r))),
      (''lang'', \<lambda>j r. map_option (\<lambda>v. r\<lparr>Lang := v\<rparr>) (dec_str j (Lang r))),
      (''functionLibraries'', \<lambda>j r. map_option (\<lambda>v. r\<lparr>FunctionLibraries := v\<rparr>) (dec_list (dec_struct lib_setters) zero_lib j (FunctionLibraries r))),
      (''envVars'', \<lambda>j r. map_option (\<lambda>v. r\<lparr>EnvVars := v\<rparr>) (dec_list (dec_struct env_setters) zero_env j (EnvVars r))),
      (''settingsPath'', \<lambda>j r. map_option (\<lambda>v. r\<lparr>SettingsPath := v\<rparr>) (dec_str j (SettingsPath r))),
      (''settingsSource'', \<lambda>j r. map_option (\<lambda>v. r\<lparr>SettingsSource := v\<rparr>) (dec_str j (SettingsSource r)))]"

definition hasJSONKey :: "(string \<times> json) list \<Rightarrow> string \<Rightarrow> bool" where
  "hasJSONKey raw key \<longleftrightarrow> map_of raw key \<noteq> None"

text \<open>Decoding an object into a fresh configuration; \<^const>\<open>None\<close> is a decoding error.\<close>

definition UnmarshalJSON :: "(string \<times> json) list \<Rightarrow> NodeRedConfig option" where
  "UnmarshalJSON raw =
     (case dec_fields config_setters raw zero_config of
        None \<Rightarrow> None
      | Some c \<Rightarrow>
          (let c = (if UIPort c > 0 \<and> Port c = 0 then c\<lparr>Port := UIPort c\<rparr> else c) in
           Some (c\<lparr>presence := \<lparr>decodedFromJSON = True,
             adminAuthAbsent = \<not> hasJSONKey raw ''adminAuth'',
             httpNodeAuthAbsent = \<not> hasJSONKey raw ''httpNodeAuth'',
             httpStaticAuthAbsent = \<not> hasJSONKey raw ''httpStaticAuth''\<rparr>\<rparr>)))"

section \<open>Patches\<close>

text \<open>A patch is the object of the request body.\<close>

type_synonym ConfigPatch = "(string \<times> json) list"

definition NewConfigPatch :: "(string \<times> json) list \<Rightarrow> ConfigPatch" where
  "NewConfigPatch fs = fs"

definition patch_Keys :: "ConfigPatch \<Rightarrow> string list" where
  "patch_Keys p = sort (remdups (map fst p))"

definition patch_IsEmpty :: "ConfigPatch \<Rightarrow> bool" where
  "patch_IsEmpty p \<longleftrightarrow> p = []"

fun isJSONObject :: "json \<Rightarrow> bool" where
  "isJSONObject (JObj _) = True"
| "isJSONObject _ = False"

function mergeJSONValue :: "json \<Rightarrow> json \<Rightarrow> json"
and merge_fields :: "(string \<times> json) list \<Rightarrow> (string \<times> json) list \<Rightarrow> (string \<times> json) list" where
  "mergeJSONValue live patch =
     (case (live, patch) of (JObj lf, JObj pf) \<Rightarrow> JObj (merge_fields lf pf) | _ \<Rightarrow> patch)"
| "merge_fields lf [] = lf"
| "merge_fields lf ((name, v) # pf) =
     merge_fields (AList.update name (mergeJSONValue (field lf name) v) lf) pf"
  by pat_completeness auto
termination
  by (relation "measure (\<lambda>x. case x of Inl (l, p) \<Rightarrow> size p | Inr (lf, pf) \<Rightarrow> size_list (size_prod (\<lambda>_. 0) size) pf)")
     (auto split: json.splits)

declare mergeJSONValue.simps [simp del]

definition configJSONFields :: "NodeRedConfig \<Rightarrow> (string \<times> json) list" where
  "configJSONFields cfg = MarshalJSON cfg"

definition overlay :: "(string \<times> json) list \<Rightarrow> ConfigPatch \<Rightarrow> (string \<times> json) list" where
  "overlay base patch =
     fold (\<lambda>name b. AList.update name (mergeJSONValue (field b name) (field patch name)) b)
       (patch_Keys patch) base"

definition MergePatch :: "NodeRedConfig \<Rightarrow> ConfigPatch \<Rightarrow> NodeRedConfig result" where
  "MergePatch base patch =
     (if patch_IsEmpty patch then Inr base
      else
        let fs = overlay (configJSONFields base) patch;
            fs = (case map_of patch ''port'' of
                        Some _ \<Rightarrow> fs
                      | None \<Rightarrow> (case map_of patch ''uiPort'' of
                          None \<Rightarrow> fs | Some uiPort \<Rightarrow> AList.update ''port'' uiPort fs))
        in case UnmarshalJSON (sort_key fst fs) of
             None \<Rightarrow> Inl (ErrText ''decode merged configuration'')
           | Some out \<Rightarrow> Inr out)"

end
