(* ===== verification/ConfigStore.thy ===== *)
theory ConfigStore
  imports JsonStore ConfigPatch
begin

text \<open>
  The persisted configuration: src/internal/store/json_store.go at the type of the configuration.
  The document is kept in decoded form: writing \<open>c\<close> stores \<open>stored c\<close>, what decoding the JSON text
  of \<open>c\<close> gives.  The store's mutex makes every operation atomic.
\<close>

record svc_world = world +
  cfg_file :: "NodeRedConfig option"

definition stored :: "NodeRedConfig \<Rightarrow> NodeRedConfig" where
  "stored c = c\<lparr>Extra := [],
     Port := (if UIPort c > 0 \<and> Port c = 0 then UIPort c else Port c),
     presence := \<lparr>decodedFromJSON = True, adminAuthAbsent = (AdminAuthF c = None),
       httpNodeAuthAbsent = (HTTPNodeAuth c = None), httpStaticAuthAbsent = (HTTPStaticAuth c = None)\<rparr>\<rparr>"

text \<open>The rename that publishes a document.\<close>

definition publish_cfg :: "NodeRedConfig \<Rightarrow> 'w svc_world_scheme \<Rightarrow> 'w svc_world_scheme" where
  "publish_cfg c w = w\<lparr>cfg_file := Some (stored c)\<rparr>"

definition store_Exists :: "'w svc_world_scheme \<Rightarrow> bool \<times> 'w svc_world_scheme" where
  "store_Exists w = js_Exists cfg_file w"

definition store_Read :: "'w svc_world_scheme \<Rightarrow> NodeRedConfig result \<times> 'w svc_world_scheme" where
  "store_Read w = js_Read cfg_file w"

definition store_write :: "NodeRedConfig \<Rightarrow> 'w svc_world_scheme \<Rightarrow> unit result \<times> 'w svc_world_scheme" where
  "store_write c w = js_Write publish_cfg c w"

definition store_Update ::
    "(NodeRedConfig \<Rightarrow> (NodeRedConfig \<times> 'a) result) \<Rightarrow> 'w svc_world_scheme \<Rightarrow> 'a result \<times> 'w svc_world_scheme" where
  "store_Update fn w = js_Update cfg_file publish_cfg zero_config fn w"

definition store_Delete :: "'w svc_world_scheme \<Rightarrow> unit result \<times> 'w svc_world_scheme" where
  "store_Delete w = js_Delete (\<lambda>w. w\<lparr>cfg_file := None\<rparr>) w"

section \<open>What the operations do\<close>

lemma tick_svc [simp]: "cfg_file (tick w) = cfg_file w" "svc_world.more (tick w) = svc_world.more w"
  by (simp_all add: tick_def)

lemma cfg_files [simp]: "files (w\<lparr>cfg_file := x\<rparr>) = files w" "links (w\<lparr>cfg_file := x\<rparr>) = links w"
  by simp_all

text \<open>\<open>same_fs\<close>: the two states have the same files and the same state around the store.\<close>

definition same_fs :: "'w svc_world_scheme \<Rightarrow> 'w svc_world_scheme \<Rightarrow> bool" where
  "same_fs w w' \<longleftrightarrow> files w' = files w \<and> links w' = links w \<and> svc_world.more w' = svc_world.more w"

lemma same_fs_refl [simp]: "same_fs w w" by (simp add: same_fs_def)

lemma same_fs_trans: "same_fs a b \<Longrightarrow> same_fs b c \<Longrightarrow> same_fs a c" by (simp add: same_fs_def)

lemma same_fs_tick [simp]: "same_fs (tick w) w' = same_fs w w'" "same_fs w (tick w') = same_fs w w'"
  by (simp_all add: same_fs_def)

lemma same_fs_cfg [simp]: "same_fs w (w'\<lparr>cfg_file := x\<rparr>) = same_fs w w'"
  by (simp add: same_fs_def)

interpretation cfg: json_store cfg_file publish_cfg "\<lambda>w. w\<lparr>cfg_file := None\<rparr>" stored
    "\<lambda>w. (files w, links w, svc_world.more w)"
  by unfold_locales (simp_all add: publish_cfg_def)

lemma store_Exists_post:
  "store_Exists w = (b, w') \<Longrightarrow> w' = tick w \<and> (b \<longrightarrow> cfg_file w \<noteq> None)"
  unfolding store_Exists_def by (rule cfg.Exists_post)

lemma store_Read_post:
  "store_Read w = (r, w') \<Longrightarrow> w' = tick w \<and> (\<forall>c. r = Inr c \<longrightarrow> cfg_file w = Some c) \<and>
     (r = Inl (Sentinel ErrNotExist) \<longrightarrow> cfg_file w = None)"
  unfolding store_Read_def by (drule cfg.Read_post) auto

lemma store_write_post:
  "store_write c w = (r, w') \<Longrightarrow> same_fs w w' \<and>
     cfg_file w' = (if r = Inr () then Some (stored c) else cfg_file w)"
  unfolding store_write_def by (drule cfg.Write_post) (simp add: same_fs_def)

lemma store_Delete_post:
  "store_Delete w = (r, w') \<Longrightarrow> same_fs w w' \<and> cfg_file w' = (if r = Inr () then None else cfg_file w)"
  unfolding store_Delete_def by (drule cfg.Delete_post) (simp add: same_fs_def)

text \<open>An update either leaves the document alone or publishes exactly what the callback computed
  from it.\<close>

definition update_post ::
    "(NodeRedConfig \<Rightarrow> (NodeRedConfig \<times> 'a) result) \<Rightarrow> 'w svc_world_scheme \<Rightarrow> 'a result \<Rightarrow> 'w svc_world_scheme \<Rightarrow> bool" where
  "update_post fn w r w' \<longleftrightarrow> same_fs w w' \<and>
     (case r of
        Inl _ \<Rightarrow> cfg_file w' = cfg_file w
      | Inr x \<Rightarrow> \<exists>c. fn (case cfg_file w of None \<Rightarrow> zero_config | Some d \<Rightarrow> d) = Inr (c, x) \<and>
                  cfg_file w' = Some (stored c))"

lemma store_Update_post: "store_Update fn w = (r, w') \<Longrightarrow> update_post fn w r w'"
  unfolding store_Update_def by (drule cfg.Update_post) (simp add: update_post_def same_fs_def)

lemmas store_calls = store_Exists_def store_Read_def js_Exists_def js_Read_def

end
