(* ===== verification/JsScan.thy ===== *)
theory JsScan
  imports Prelude
begin

text \<open>
  The JavaScript scanners of the source-preserving patchers: the token scanner of
  src/internal/service/logging_scan.go, and the line and brace scanner of config.go
  (\<open>findTopLevelBlock\<close> and its helpers).

  Offsets are byte offsets; Go's \<open>-1\<close> is \<^const>\<open>None\<close>.  Loops over offsets are recursive functions
  whose measure is the rest of the src.  The two mutually recursive scanners of template
  literals carry fuel; \<open>template_fuel\<close> shows that the fuel given is enough.
\<close>

section \<open>Characters, comments and quoted literals\<close>

definition isJSSpace :: "char \<Rightarrow> bool" where
  "isJSSpace c \<longleftrightarrow> c = SP \<or> c = TAB \<or> c = NL \<or> c = CR"

definition isJSIdentifierStart :: "char \<Rightarrow> bool" where
  "isJSIdentifierStart c = (let n = (of_char c :: nat) in
     c = CHR ''_'' \<or> c = CHR ''$'' \<or> 97 \<le> n \<and> n \<le> 122 \<or> 65 \<le> n \<and> n \<le> 90)"

definition isJSIdentifierPart :: "char \<Rightarrow> bool" where
  "isJSIdentifierPart c \<longleftrightarrow>
     isJSIdentifierStart c \<or> (let n = (of_char c :: nat) in 48 \<le> n \<and> n \<le> 57)"

text \<open>The test \<open>text[i] == '/' && i+1 < len(text) && text[i+1] == c\<close>.\<close>

definition comment_at :: "string \<Rightarrow> nat \<Rightarrow> char \<Rightarrow> bool" where
  "comment_at src i c \<longleftrightarrow>
     i < length src \<and> src ! i = CHR ''/'' \<and> i + 1 < length src \<and> src ! (i + 1) = c"

definition skipJSLineComment :: "string \<Rightarrow> nat \<Rightarrow> nat" where
  "skipJSLineComment src i =
     (case IndexByte (drop i src) NL of Some idx \<Rightarrow> i + idx + 1 | None \<Rightarrow> length src)"

definition skipJSBlockComment :: "string \<Rightarrow> nat \<Rightarrow> nat" where
  "skipJSBlockComment src i =
     (case Index (drop (i + 2) src) ''*/'' of Some idx \<Rightarrow> i + 2 + idx + 2 | None \<Rightarrow> length src)"

lemma skipJSLineComment_gt: "i < length src \<Longrightarrow> i < skipJSLineComment src i"
  by (auto simp: skipJSLineComment_def split: option.splits)

lemma skipJSBlockComment_gt: "i < length src \<Longrightarrow> i < skipJSBlockComment src i"
  by (auto simp: skipJSBlockComment_def split: option.splits)

lemma skipJSLineComment_le: "skipJSLineComment src i \<le> max i (length src)"
  by (auto simp: skipJSLineComment_def dest: IndexByte_Some split: option.splits)

lemma skipJSBlockComment_le: "skipJSBlockComment src i \<le> max i (length src)"
  by (auto simp: skipJSBlockComment_def dest!: Index_Some split: option.splits)

function skipJSSpaceAndComments :: "string \<Rightarrow> nat \<Rightarrow> nat" where
  "skipJSSpaceAndComments src i =
     (if i < length src then
        if isJSSpace (src ! i) then skipJSSpaceAndComments src (i + 1)
        else if comment_at src i (CHR ''/'') then skipJSSpaceAndComments src (skipJSLineComment src i)
        else if comment_at src i (CHR ''*'') then skipJSSpaceAndComments src (skipJSBlockComment src i)
        else i
      else i)"
  by pat_completeness auto
termination
  by (relation "measure (\<lambda>(t, i). length t - i)")
     (auto dest: skipJSLineComment_gt skipJSBlockComment_gt intro!: diff_less_mono2)

declare skipJSSpaceAndComments.simps [simp del]

text \<open>The loop of \<open>skipJSQuoted\<close>, at offset \<open>j\<close>.\<close>

function quoted_from :: "string \<Rightarrow> nat \<Rightarrow> char \<Rightarrow> nat option" where
  "quoted_from src j quote =
     (if j < length src then
        if src ! j = BSL then quoted_from src (j + 2) quote
        else if src ! j = quote then Some (j + 1)
        else quoted_from src (j + 1) quote
      else None)"
  by pat_completeness auto
termination by (relation "measure (\<lambda>(t, j, q). length t - j)") auto

declare quoted_from.simps [simp del]

definition skipJSQuoted :: "string \<Rightarrow> nat \<Rightarrow> char \<Rightarrow> nat option" where
  "skipJSQuoted src i quote = quoted_from src (i + 1) quote"

lemma quoted_from_bounds: "quoted_from src j q = Some e \<Longrightarrow> j < e \<and> e \<le> length src"
proof (induction src j q rule: quoted_from.induct)
  case (1 t j quote)
  have "j < length t" using 1(3) by (subst (asm) quoted_from.simps) (auto split: if_splits)
  consider "t ! j = BSL" | "t ! j \<noteq> BSL" "t ! j = quote" | "t ! j \<noteq> BSL" "t ! j \<noteq> quote" by blast
  then show ?case
    using 1 \<open>j < length t\<close> by cases (auto simp: quoted_from.simps [of t j])
qed

lemma skipJSQuoted_bounds: "skipJSQuoted src i q = Some e \<Longrightarrow> i + 1 < e \<and> e \<le> length src"
  by (auto simp: skipJSQuoted_def dest: quoted_from_bounds)

section \<open>Template literals\<close>

fun template_from :: "nat \<Rightarrow> string \<Rightarrow> nat \<Rightarrow> nat option"
and braces_from :: "nat \<Rightarrow> string \<Rightarrow> nat \<Rightarrow> int \<Rightarrow> nat option" where
  "template_from 0 src j = None"
| "template_from (Suc n) src j =
     (if j < length src then
        if src ! j = BSL then template_from n src (j + 2)
        else if src ! j = BQ then Some (j + 1)
        else if src ! j = CHR ''$'' \<and> j + 1 < length src \<and> src ! (j + 1) = CHR ''{''
        then (case braces_from n src (j + 1) 0 of None \<Rightarrow> None | Some e \<Rightarrow> template_from n src e)
        else template_from n src (j + 1)
      else None)"
| "braces_from 0 src j depth = None"
| "braces_from (Suc n) src j depth =
     (if j < length src then
        if src ! j = SQ \<or> src ! j = DQ
        then (case skipJSQuoted src j (src ! j) of None \<Rightarrow> None | Some e \<Rightarrow> braces_from n src e depth)
        else if src ! j = BQ
        then (case template_from n src (j + 1) of None \<Rightarrow> None | Some e \<Rightarrow> braces_from n src e depth)
        else if src ! j = CHR ''{'' then braces_from n src (j + 1) (depth + 1)
        else if src ! j = CHR ''}''
        then (if depth - 1 = 0 then Some (j + 1) else braces_from n src (j + 1) (depth - 1))
        else braces_from n src (j + 1) depth
      else None)"

definition skipJSTemplate :: "string \<Rightarrow> nat \<Rightarrow> nat option" where
  "skipJSTemplate src i = template_from (Suc (length src)) src (i + 1)"

definition skipJSBraces :: "string \<Rightarrow> nat \<Rightarrow> nat option" where
  "skipJSBraces src openIdx = braces_from (Suc (length src)) src openIdx 0"

lemma template_bounds_aux:
  "(\<forall>j e. template_from n src j = Some e \<longrightarrow> j < e \<and> e \<le> length src) \<and>
   (\<forall>j d e. braces_from n src j d = Some e \<longrightarrow> j < e \<and> e \<le> length src)"
proof (induction n)
  case (Suc n)
  then have ih: "template_from n src j = Some e \<Longrightarrow> j < e \<and> e \<le> length src"
    "braces_from n src j d = Some e \<Longrightarrow> j < e \<and> e \<le> length src" for j d e
    by blast+
  show ?case
    by (auto split: if_splits option.splits dest!: ih skipJSQuoted_bounds)
qed simp

lemmas template_bounds = template_bounds_aux [THEN conjunct1, rule_format]
lemmas braces_bounds = template_bounds_aux [THEN conjunct2, rule_format]

text \<open>More fuel than the rest of the text changes nothing.\<close>

lemma template_fuel:
  "(\<forall>j. length src < n + j \<longrightarrow> template_from n src j = template_from (Suc n) src j) \<and>
   (\<forall>j d. length src < n + j \<longrightarrow> braces_from n src j d = braces_from (Suc n) src j d)"
proof (induction n)
  case (Suc n)
  have t: "length src < n + j \<Longrightarrow> template_from (Suc n) src j = template_from n src j"
    and b: "length src < n + j \<Longrightarrow> braces_from (Suc n) src j d = braces_from n src j d" for j d
    using Suc by auto
  have "template_from (Suc n) src j = template_from (Suc (Suc n)) src j" if l: "length src < Suc n + j" for j
  proof (cases "j < length src")
    case True
    have "braces_from n src (j + 1) 0 = Some e \<Longrightarrow> length src < n + e" for e
      using braces_bounds [of n src "j + 1" 0 e] l by auto
    then show ?thesis
      using True l t [of "j + 2"] t [of "j + 1"] b [of "j + 1" 0] t
      by (subst (1 2) template_from.simps(2)) (simp del: template_from.simps braces_from.simps split: option.splits)
  qed simp
  moreover have "braces_from (Suc n) src j d = braces_from (Suc (Suc n)) src j d"
    if l: "length src < Suc n + j" for j d
  proof (cases "j < length src")
    case True
    have q: "skipJSQuoted src j c = Some e \<Longrightarrow> length src < n + e"
      "template_from n src (j + 1) = Some e \<Longrightarrow> length src < n + e" for e c
      using skipJSQuoted_bounds [of src j c e] template_bounds [of n src "j + 1" e] l by auto
    then show ?thesis
      using True l t [of "j + 1"] b
      by (subst (1 2) braces_from.simps(2)) (simp del: template_from.simps braces_from.simps split: option.splits)
  qed simp
  ultimately show ?case by blast
qed simp

lemma template_fuel_enough:
  "length src < n + j \<Longrightarrow> template_from (n + k) src j = template_from n src j"
  "length src < n + j \<Longrightarrow> braces_from (n + k) src j d = braces_from n src j d"
proof (induction k)
  case (Suc k)
  {
    case 1
    then show ?case using Suc template_fuel [of src "n + k"] by auto
  next
    case 2
    then show ?case using Suc template_fuel [of src "n + k"] by auto
  }
qed auto

section \<open>Values, keys and entries\<close>

fun trimJSTrailingSpace :: "string \<Rightarrow> nat \<Rightarrow> nat" where
  "trimJSTrailingSpace src 0 = 0"
| "trimJSTrailingSpace src (Suc k) =
     (if isJSSpace (src ! k) then trimJSTrailingSpace src k else Suc k)"

text \<open>The loop of \<open>scanJSValueEnd\<close>, at offset \<open>i\<close> and nesting depth \<open>depth\<close>.\<close>

function value_end_from :: "string \<Rightarrow> nat \<Rightarrow> nat \<Rightarrow> nat" where
  "value_end_from src i depth =
     (if i < length src then
        let c = src ! i in
        if c = SQ \<or> c = DQ
        then (case skipJSQuoted src i c of None \<Rightarrow> length src | Some e \<Rightarrow> value_end_from src e depth)
        else if c = BQ
        then (case skipJSTemplate src i of None \<Rightarrow> length src | Some e \<Rightarrow> value_end_from src e depth)
        else if comment_at src i (CHR ''/'') then value_end_from src (skipJSLineComment src i) depth
        else if comment_at src i (CHR ''*'') then value_end_from src (skipJSBlockComment src i) depth
        else if c = CHR ''{'' \<or> c = CHR ''['' \<or> c = CHR ''('' then value_end_from src (i + 1) (depth + 1)
        else if c = CHR ''}'' \<or> c = CHR '']'' \<or> c = CHR '')''
        then (if depth = 0 then i else value_end_from src (i + 1) (depth - 1))
        else if c = CHR '','' \<and> depth = 0 then trimJSTrailingSpace src i
        else value_end_from src (i + 1) depth
      else trimJSTrailingSpace src (length src))"
  by pat_completeness auto
termination
  by (relation "measure (\<lambda>(t, i, d). length t - i)")
     (auto dest!: skipJSQuoted_bounds template_bounds
        simp: skipJSTemplate_def skipJSLineComment_gt skipJSBlockComment_gt
        simp del: template_from.simps intro!: diff_less_mono2)

declare value_end_from.simps [simp del]

definition scanJSValueEnd :: "string \<Rightarrow> nat \<Rightarrow> nat" where
  "scanJSValueEnd src i = value_end_from src i 0"

function ident_end :: "string \<Rightarrow> nat \<Rightarrow> nat" where
  "ident_end src j =
     (if j < length src \<and> isJSIdentifierPart (src ! j) then ident_end src (j + 1) else j)"
  by pat_completeness auto
termination by (relation "measure (\<lambda>(t, j). length t - j)") auto

declare ident_end.simps [simp del]

definition scanJSObjectKey :: "string \<Rightarrow> nat \<Rightarrow> (string \<times> nat) option" where
  "scanJSObjectKey src i =
     (if i \<ge> length src then None
      else let c = src ! i in
        if c = SQ \<or> c = DQ
        then (case skipJSQuoted src i c of
                None \<Rightarrow> None
              | Some e \<Rightarrow> Some (take (e - 1 - (i + 1)) (drop (i + 1) src), e))
        else if isJSIdentifierStart c
        then Some (take (ident_end src i - i) (drop i src), ident_end src i)
        else None)"

function skip_spaces :: "string \<Rightarrow> nat \<Rightarrow> nat" where
  "skip_spaces src i = (if i < length src \<and> isJSSpace (src ! i) then skip_spaces src (i + 1) else i)"
  by pat_completeness auto
termination by (relation "measure (\<lambda>(t, j). length t - j)") auto

declare skip_spaces.simps [simp del]

record jsObjectEntry =
  e_key :: string
  e_start :: nat
  valueStart :: nat
  valueEnd :: nat
  commaEnd :: nat

text \<open>One round of \<open>scanJSObjectEntries\<close> that does not start at a separator or a comment: the
  entry found at offset \<open>i\<close>, if any, and the offset to continue at.\<close>

definition scan_entry :: "string \<Rightarrow> nat \<Rightarrow> jsObjectEntry option \<times> nat" where
  "scan_entry body i =
     (case scanJSObjectKey body i of
        None \<Rightarrow> (None, i + 1)
      | Some (key, nxt) \<Rightarrow>
          (let colon = skipJSSpaceAndComments body nxt in
           if colon \<ge> length body \<or> body ! colon \<noteq> CHR '':'' then (None, nxt)
           else
             let vs = skipJSSpaceAndComments body (colon + 1);
                 ve = scanJSValueEnd body vs;
                 probe = skip_spaces body ve;
                 ce = (if probe < length body \<and> body ! probe = CHR '','' then probe + 1 else ve)
             in (Some \<lparr>e_key = key, e_start = i, valueStart = vs, valueEnd = ve, commaEnd = ce\<rparr>, ce)))"

section \<open>Progress of the scanners\<close>

lemma skipJSSpaceAndComments_ge: "i \<le> skipJSSpaceAndComments src i"
proof (induction src i rule: skipJSSpaceAndComments.induct)
  case (1 t i)
  then show ?case
    by (subst skipJSSpaceAndComments.simps)
       (use skipJSLineComment_gt [of i t] skipJSBlockComment_gt [of i t] in auto)
qed

lemma skip_spaces_ge: "i \<le> skip_spaces src i"
proof (induction src i rule: skip_spaces.induct)
  case (1 t i)
  then show ?case by (subst skip_spaces.simps) auto
qed

lemma ident_end_ge: "i \<le> ident_end src i"
proof (induction src i rule: ident_end.induct)
  case (1 t i)
  then show ?case by (subst ident_end.simps) auto
qed

lemma ident_end_gt: "i < length src \<Longrightarrow> isJSIdentifierStart (src ! i) \<Longrightarrow> i < ident_end src i"
  using ident_end_ge [of "i + 1" src] by (subst ident_end.simps) (auto simp: isJSIdentifierPart_def)

lemma scanJSObjectKey_gt: "scanJSObjectKey src i = Some (k, n) \<Longrightarrow> i < n"
  by (auto simp: scanJSObjectKey_def Let_def ident_end_gt dest!: skipJSQuoted_bounds
      split: if_splits option.splits)

lemma trim_bounds:
  "trimJSTrailingSpace src e \<le> e"
  "p < e \<Longrightarrow> \<not> isJSSpace (src ! p) \<Longrightarrow> p < trimJSTrailingSpace src e"
  by (induction e) (auto simp: less_Suc_eq)

text \<open>A value ends after every significant byte that precedes it: the scan never runs backwards
  past the colon.\<close>

lemma skipJSTemplate_bounds: "skipJSTemplate src i = Some e \<Longrightarrow> i + 1 < e \<and> e \<le> length src"
  unfolding skipJSTemplate_def by (rule template_bounds)

lemma value_end_step:
  assumes "i < length src"
  shows "value_end_from src i depth \<in> {length src, i, trimJSTrailingSpace src i} \<or>
     (\<exists>j d. i < j \<and> value_end_from src i depth = value_end_from src j d)"
proof -
  let ?c = "src ! i"
  note unfold = value_end_from.simps [of src i depth]
  consider "?c = SQ \<or> ?c = DQ" | "?c = BQ" | "?c \<noteq> SQ" "?c \<noteq> DQ" "?c \<noteq> BQ" by blast
  then show ?thesis
  proof cases
    case 1
    then have eq: "value_end_from src i depth =
      (case skipJSQuoted src i ?c of None \<Rightarrow> length src | Some e \<Rightarrow> value_end_from src e depth)"
      using assms by (subst unfold) simp
    show ?thesis
    proof (cases "skipJSQuoted src i ?c")
      case (Some e)
      then have "i < e" using skipJSQuoted_bounds [OF Some] by simp
      then show ?thesis using eq Some by auto
    qed (simp add: eq)
  next
    case 2
    then have eq: "value_end_from src i depth =
      (case skipJSTemplate src i of None \<Rightarrow> length src | Some e \<Rightarrow> value_end_from src e depth)"
      using assms by (subst unfold) simp
    show ?thesis
    proof (cases "skipJSTemplate src i")
      case (Some e)
      then have "i < e" using skipJSTemplate_bounds [OF Some] by simp
      then show ?thesis using eq Some by auto
    qed (simp add: eq)
  next
    case 3
    have gt: "i < skipJSLineComment src i" "i < skipJSBlockComment src i" "i < i + 1"
      using assms skipJSLineComment_gt skipJSBlockComment_gt by auto
    have "\<exists>j \<in> {skipJSLineComment src i, skipJSBlockComment src i, i + 1}. \<exists>d.
        value_end_from src i depth \<in> {i, trimJSTrailingSpace src i, value_end_from src j d}"
      using assms 3 by (subst unfold) (auto simp: Let_def)
    then show ?thesis using gt by blast
  qed
qed

lemma value_end_gt:
  "p < i \<Longrightarrow> p < length src \<Longrightarrow> \<not> isJSSpace (src ! p) \<Longrightarrow> p < value_end_from src i depth"
proof (induction "length src - i" arbitrary: i depth rule: less_induct)
  case less
  show ?case
  proof (cases "i < length src")
    case False
    then show ?thesis
      using trim_bounds(2) [of p "length src" src] less.prems by (simp add: value_end_from.simps [of src i])
  next
    case True
    then consider "value_end_from src i depth \<in> {length src, i, trimJSTrailingSpace src i}"
      | j d where "i < j" "value_end_from src i depth = value_end_from src j d"
      using value_end_step [OF True, of depth] by blast
    then show ?thesis
    proof cases
      case 1
      then show ?thesis using less.prems trim_bounds(2) [of p i src] by auto
    next
      case 2
      then show ?thesis using less.hyps [of j d] less.prems True by simp
    qed
  qed
qed

lemma scan_entry_progress: "i < length body \<Longrightarrow> i < snd (scan_entry body i)"
proof (cases "scanJSObjectKey body i")
  case (Some kn)
  obtain key nxt where k: "scanJSObjectKey body i = Some (key, nxt)" using Some by (cases kn) auto
  let ?c = "skipJSSpaceAndComments body nxt"
  let ?v = "skipJSSpaceAndComments body (?c + 1)"
  have i: "i < nxt" "nxt \<le> ?c" using scanJSObjectKey_gt [OF k] skipJSSpaceAndComments_ge by auto
  show ?thesis
  proof (cases "?c \<ge> length body \<or> body ! ?c \<noteq> CHR '':''")
    case False
    then have "?c < scanJSValueEnd body ?v"
      using skipJSSpaceAndComments_ge [of "?c + 1" body]
      unfolding scanJSValueEnd_def by (intro value_end_gt) (auto simp: isJSSpace_def)
    then show ?thesis
      using i False k skip_spaces_ge [of "scanJSValueEnd body ?v" body]
      by (auto simp: scan_entry_def Let_def)
  qed (use i k in \<open>auto simp: scan_entry_def Let_def\<close>)
qed (simp add: scan_entry_def)

section \<open>The entries of an object literal\<close>

function scan_entries_from :: "string \<Rightarrow> nat \<Rightarrow> jsObjectEntry list" where
  "scan_entries_from body i =
     (if i < length body then
        if body ! i = CHR '','' \<or> isJSSpace (body ! i) then scan_entries_from body (i + 1)
        else if comment_at body i (CHR ''/'') then scan_entries_from body (skipJSLineComment body i)
        else if comment_at body i (CHR ''*'') then scan_entries_from body (skipJSBlockComment body i)
        else case fst (scan_entry body i) of
               None \<Rightarrow> scan_entries_from body (snd (scan_entry body i))
             | Some e \<Rightarrow> e # scan_entries_from body (snd (scan_entry body i))
      else [])"
  by pat_completeness auto
termination
  by (relation "measure (\<lambda>(b, i). length b - i)")
     (auto simp: skipJSLineComment_gt skipJSBlockComment_gt scan_entry_progress intro!: diff_less_mono2)

declare scan_entries_from.simps [simp del]

definition scanJSObjectEntries :: "string \<Rightarrow> jsObjectEntry list" where
  "scanJSObjectEntries body = scan_entries_from body 0"

definition firstJSEntryByKey :: "jsObjectEntry list \<Rightarrow> string \<Rightarrow> jsObjectEntry option" where
  "firstJSEntryByKey entries key = find (\<lambda>e. e_key e = key) entries"

section \<open>Edits\<close>

record jsEdit =
  ed_start :: nat
  ed_end :: nat
  ed_text :: string

definition apply_edit :: "jsEdit \<Rightarrow> string option \<Rightarrow> string option" where
  "apply_edit e p = (case p of None \<Rightarrow> None
     | Some s \<Rightarrow> if ed_start e \<le> length s \<and> ed_end e \<le> length s
                then Some (take (ed_start e) s @ ed_text e @ drop (ed_end e) s) else None)"

text \<open>The outer option is a panic of the slice expressions.\<close>

definition applyJSEdits :: "string \<Rightarrow> jsEdit list \<Rightarrow> (string \<times> bool) option" where
  "applyJSEdits region edits =
     (if edits = [] then Some (region, False)
      else map_option (\<lambda>s. (s, True))
        (fold apply_edit (rev (sort_key (\<lambda>e. ed_start e) (rev edits))) (Some region)))"

definition leadingWhitespaceEnd :: "string \<Rightarrow> nat \<Rightarrow> nat" where
  "leadingWhitespaceEnd s lineStart =
     lineStart + length (takeWhile (\<lambda>c. c = SP \<or> c = TAB) (drop lineStart s))"

definition jsLineIndent :: "string \<Rightarrow> nat \<Rightarrow> string" where
  "jsLineIndent src offset =
     (let line = (case LastIndexByte (take offset src) NL of
                    None \<Rightarrow> take offset src | Some i \<Rightarrow> drop (i + 1) (take offset src))
      in take (leadingWhitespaceEnd line 0) line)"

definition jsIndentOf :: "string \<Rightarrow> string" where
  "jsIndentOf src =
     (let line = (case LastIndexByte src NL of None \<Rightarrow> src | Some i \<Rightarrow> drop (i + 1) src)
      in take (leadingWhitespaceEnd line 0) line)"

text \<open>The text to insert and the range it replaces; \<^const>\<open>None\<close> when there is nothing to insert.\<close>

definition insertJSEntries :: "string \<Rightarrow> jsObjectEntry list \<Rightarrow> string list \<Rightarrow> (string \<times> nat \<times> nat) option" where
  "insertJSEntries body entries literals =
     (if literals = [] then None
      else let core = TrimRight body [SP, TAB, CR, NL] in
        if entries = [] then
          (if NL \<notin> set body then Some ('' '' @ Join literals '', '' @ '' '', 0, length body)
           else let closing = jsIndentOf body; indent = closing @ ''  '' in
             Some ([NL] @ indent @ Join literals ('','' @ [NL] @ indent) @ '','' @ [NL] @ closing, 0, length body))
        else if NL \<in> set body then
          (let indent = jsLineIndent body (e_start (last entries));
               ins = [NL] @ indent @ Join literals ('','' @ [NL] @ indent) @ '',''
           in Some (if HasSuffix core '','' then ins else '','' @ ins, length core, length core))
        else Some ((if HasSuffix core '','' then '' '' else '', '') @ Join literals '', '', length core, length core))"

section \<open>Braces and top-level blocks\<close>

text \<open>The loop of \<open>findMatchingBrace\<close>: the offset of the closing brace.  The second result of the
  source, the offset just past it, is one more.\<close>

function matching_from :: "string \<Rightarrow> nat \<Rightarrow> int \<Rightarrow> char option \<Rightarrow> nat option" where
  "matching_from content i depth inString =
     (if i < length content then
        let c = content ! i in
        case inString of
          Some q \<Rightarrow>
            if c = BSL \<and> i + 1 < length content then matching_from content (i + 2) depth (Some q)
            else if c = q then matching_from content (i + 1) depth None
            else matching_from content (i + 1) depth (Some q)
        | None \<Rightarrow>
            if c = SQ \<or> c = DQ \<or> c = BQ then matching_from content (i + 1) depth (Some c)
            else if comment_at content i (CHR ''/'')
            then (case IndexByte (drop i content) NL of
                    None \<Rightarrow> None | Some nl \<Rightarrow> matching_from content (i + nl + 1) depth None)
            else if comment_at content i (CHR ''*'')
            then (case Index (drop i content) ''*/'' of
                    None \<Rightarrow> None | Some e \<Rightarrow> matching_from content (i + e + 2) depth None)
            else if c = CHR ''{'' then matching_from content (i + 1) (depth + 1) None
            else if c = CHR ''}''
            then (if depth - 1 = 0 then Some i else matching_from content (i + 1) (depth - 1) None)
            else matching_from content (i + 1) depth None
      else None)"
  by pat_completeness auto
termination
  by (relation "measure (\<lambda>(t, i, d, q). length t - i)") (auto intro!: diff_less_mono2)

declare matching_from.simps [simp del]

definition findMatchingBrace :: "string \<Rightarrow> nat \<Rightarrow> nat option" where
  "findMatchingBrace content openIdx = matching_from content openIdx 0 None"

definition jsObjectBody :: "string \<Rightarrow> string option" where
  "jsObjectBody src =
     (let trimmed = TrimSpace src in
      if \<not> HasPrefix trimmed ''{'' then None
      else case findMatchingBrace trimmed 0 of
          None \<Rightarrow> None
        | Some closeIdx \<Rightarrow> slice trimmed 1 closeIdx)"

definition jsBlockBody :: "string \<Rightarrow> string option" where
  "jsBlockBody src =
     (case Index src ''{'' of
        None \<Rightarrow> None
      | Some open \<Rightarrow>
          (case findMatchingBrace src open of
             None \<Rightarrow> None
           | Some closeIdx \<Rightarrow> slice src (open + 1) closeIdx))"

definition blank_at :: "string \<Rightarrow> nat \<Rightarrow> bool" where
  "blank_at s i \<longleftrightarrow> i < length s \<and> (s ! i = SP \<or> s ! i = TAB)"

function key_line_from :: "string \<Rightarrow> string \<Rightarrow> nat \<Rightarrow> bool \<Rightarrow> (nat \<times> nat) option" where
  "key_line_from content needle i atLineStart =
     (if i + length needle \<le> length content \<and> i < length content then
        let j = leadingWhitespaceEnd content i in
        if atLineStart \<and> j + length needle \<le> length content \<and>
           take (length needle) (drop j content) = needle
        then Some (i, j)
        else key_line_from content needle (i + 1) (content ! i = NL)
      else None)"
  by pat_completeness auto
termination by (relation "measure (\<lambda>(c, n, i, b). length c - i)") auto

declare key_line_from.simps [simp del]

text \<open>The needle is never empty.\<close>

definition indexOfKeyAtLineStart :: "string \<Rightarrow> string \<Rightarrow> nat \<Rightarrow> (nat \<times> nat) option" where
  "indexOfKeyAtLineStart content needle from =
     key_line_from content needle from (from = 0 \<and> \<not> blank_at content 0)"

function consumeLineEnd :: "string \<Rightarrow> nat \<Rightarrow> nat" where
  "consumeLineEnd content endIdx =
     (if endIdx < length content \<and>
         (content ! endIdx = SP \<or> content ! endIdx = TAB \<or> content ! endIdx = CHR '','')
      then consumeLineEnd content (endIdx + 1) else endIdx)"
  by pat_completeness auto
termination by (relation "measure (\<lambda>(c, i). length c - i)") auto

declare consumeLineEnd.simps [simp del]

definition findTopLevelBlock :: "string \<Rightarrow> string \<Rightarrow> (nat \<times> nat) option" where
  "findTopLevelBlock content key =
     (case indexOfKeyAtLineStart content (key @ '':'') 0 of
        None \<Rightarrow> None
      | Some (lineStart, keyStart) \<Rightarrow>
          (let after = leadingWhitespaceEnd content (keyStart + length (key @ '':'')) in
           if after \<ge> length content then None
           else if content ! after = CHR ''{''
           then (case findMatchingBrace content after of
                   None \<Rightarrow> None
                 | Some closeIdx \<Rightarrow> Some (lineStart, consumeLineEnd content (closeIdx + 1)))
           else (case IndexByte (drop after content) NL of
                   None \<Rightarrow> Some (lineStart, length content)
                 | Some lineEnd \<Rightarrow> Some (lineStart, after + lineEnd))))"

end
