(* ===== verification/Regex.thy ===== *)
theory Regex
  imports Prelude
begin

text \<open>
  The part of Go's package \<open>regexp\<close> the configuration code uses: leftmost-first matching with
  capture groups, the search functions, and \<open>ReplaceAllString\<close> with its \<open>$\<close>-templates.  A
  pattern of the source is written as a value of \<open>re\<close>; \<open>rmatch\<close> lists the ways a pattern
  matches at an offset in the order of preference, so the first element is the match Go reports.

  The patterns of the source only mention ASCII classes, so matching bytes instead of code
  points gives the same offsets.
\<close>

datatype re =
    Eps
  | Cls "char \<Rightarrow> bool"
  | Seq re re
  | Alt re re
  | Star re
  | Grp nat re
  | LineStart
  | LineEnd
  | TextEnd
  | WordB

type_synonym caps = "(nat \<times> nat \<times> nat) list"

definition is_word :: "char \<Rightarrow> bool" where
  "is_word c = (let n = (of_char c :: nat) in
     48 \<le> n \<and> n \<le> 57 \<or> 65 \<le> n \<and> n \<le> 90 \<or> n = 95 \<or> 97 \<le> n \<and> n \<le> 122)"

definition is_space :: "char \<Rightarrow> bool" where
  "is_space c \<longleftrightarrow> c \<in> {TAB, NL, CHR 0x0C, CR, SP}"

definition is_dec :: "char \<Rightarrow> bool" where
  "is_dec c = (let n = (of_char c :: nat) in 48 \<le> n \<and> n \<le> 57)"

definition word_at :: "string \<Rightarrow> nat \<Rightarrow> bool" where
  "word_at s i \<longleftrightarrow> i < length s \<and> is_word (s ! i)"

text \<open>Greedy repetition with at most \<open>n\<close> non-empty iterations.\<close>

fun star_loop :: "(nat \<Rightarrow> caps \<Rightarrow> (nat \<times> caps) list) \<Rightarrow> nat \<Rightarrow> nat \<Rightarrow> caps \<Rightarrow> (nat \<times> caps) list" where
  "star_loop f 0 i cs = [(i, cs)]"
| "star_loop f (Suc n) i cs =
     concat (map (\<lambda>(j, cs'). if i < j then star_loop f n j cs' else []) (f i cs)) @ [(i, cs)]"

primrec rmatch :: "re \<Rightarrow> string \<Rightarrow> nat \<Rightarrow> caps \<Rightarrow> (nat \<times> caps) list" where
  "rmatch Eps s i cs = [(i, cs)]"
| "rmatch (Cls P) s i cs = (if i < length s \<and> P (s ! i) then [(Suc i, cs)] else [])"
| "rmatch (Seq a b) s i cs = concat (map (\<lambda>(j, cs'). rmatch b s j cs') (rmatch a s i cs))"
| "rmatch (Alt a b) s i cs = rmatch a s i cs @ rmatch b s i cs"
| "rmatch (Star r) s i cs = star_loop (\<lambda>i cs. rmatch r s i cs) (length s - i) i cs"
| "rmatch (Grp g r) s i cs = map (\<lambda>(j, cs'). (j, (g, i, j) # cs')) (rmatch r s i cs)"
| "rmatch LineStart s i cs = (if i = 0 \<or> i \<le> length s \<and> s ! (i - 1) = NL then [(i, cs)] else [])"
| "rmatch LineEnd s i cs = (if i = length s \<or> i < length s \<and> s ! i = NL then [(i, cs)] else [])"
| "rmatch TextEnd s i cs = (if i = length s then [(i, cs)] else [])"
| "rmatch WordB s i cs =
     (if (0 < i \<and> word_at s (i - 1)) \<noteq> word_at s i then [(i, cs)] else [])"

section \<open>Patterns\<close>

definition Lit :: "string \<Rightarrow> re" where
  "Lit s = foldr (\<lambda>c r. Seq (Cls (\<lambda>x. x = c)) r) s Eps"

definition Opt :: "re \<Rightarrow> re" where "Opt r = Alt r Eps"

definition Plus :: "re \<Rightarrow> re" where "Plus r = Seq r (Star r)"

definition Spaces :: re where "Spaces = Star (Cls is_space)"

definition NoneOf :: "char list \<Rightarrow> re" where "NoneOf cs = Cls (\<lambda>x. x \<notin> set cs)"

definition OneOf :: "char list \<Rightarrow> re" where "OneOf cs = Cls (\<lambda>x. x \<in> set cs)"

fun seqs :: "re list \<Rightarrow> re" where
  "seqs [] = Eps"
| "seqs [r] = r"
| "seqs (r # rs) = Seq r (seqs rs)"

section \<open>Searching\<close>

record match_result =
  m_start :: nat
  m_end :: nat
  m_caps :: caps

fun find_from :: "nat \<Rightarrow> re \<Rightarrow> string \<Rightarrow> nat \<Rightarrow> match_result option" where
  "find_from 0 r s i =
     (case rmatch r s i [] of [] \<Rightarrow> None | (j, cs) # _ \<Rightarrow> Some \<lparr>m_start = i, m_end = j, m_caps = cs\<rparr>)"
| "find_from (Suc n) r s i =
     (case rmatch r s i [] of
        [] \<Rightarrow> find_from n r s (Suc i)
      | (j, cs) # _ \<Rightarrow> Some \<lparr>m_start = i, m_end = j, m_caps = cs\<rparr>)"

definition FindIndex :: "re \<Rightarrow> string \<Rightarrow> match_result option" where
  "FindIndex r s = find_from (length s) r s 0"

definition MatchString :: "re \<Rightarrow> string \<Rightarrow> bool" where
  "MatchString r s \<longleftrightarrow> FindIndex r s \<noteq> None"

text \<open>The text of a capture group; a group that did not participate is empty.\<close>

definition group_range :: "match_result \<Rightarrow> nat \<Rightarrow> (nat \<times> nat) option" where
  "group_range m g = map_of (m_caps m) g"

definition group :: "string \<Rightarrow> match_result \<Rightarrow> nat \<Rightarrow> string" where
  "group s m g = (if g = 0 then take (m_end m - m_start m) (drop (m_start m) s)
     else case group_range m g of None \<Rightarrow> [] | Some (a, b) \<Rightarrow> take (b - a) (drop a s))"

definition FindSubmatch :: "re \<Rightarrow> string \<Rightarrow> (nat \<Rightarrow> string) option" where
  "FindSubmatch r s = map_option (group s) (FindIndex r s)"

text \<open>All non-overlapping matches; no pattern of the source matches the empty string.\<close>

fun find_all :: "nat \<Rightarrow> re \<Rightarrow> string \<Rightarrow> nat \<Rightarrow> match_result list" where
  "find_all 0 r s i = []"
| "find_all (Suc n) r s i =
     (if length s < i then []
      else case find_from (length s - i) r s i of
          None \<Rightarrow> []
        | Some m \<Rightarrow> m # find_all n r s (if m_start m < m_end m then m_end m else Suc (m_end m)))"

definition FindAll :: "re \<Rightarrow> string \<Rightarrow> match_result list" where
  "FindAll r s = find_all (Suc (length s)) r s 0"

section \<open>Replacing\<close>

text \<open>\<open>Regexp.expand\<close>: \<open>$$\<close> is a dollar sign, \<open>$name\<close> and \<open>${name}\<close> are groups; the source uses no
  named groups, so a name that is not a number expands to nothing.  \<open>alnum\<close> tells which bytes
  belong to a name (ASCII letters, digits and the underscore are all the source relies on).\<close>

fun num_of :: "nat \<Rightarrow> string \<Rightarrow> nat option" where
  "num_of acc [] = Some acc"
| "num_of acc (c # cs) =
     (if \<not> is_dec c \<or> acc \<ge> 100000000 then None else num_of (acc * 10 + (of_char c - 48)) cs)"

definition extract_name :: "string \<Rightarrow> (nat option \<times> string) option" where
  "extract_name str =
     (let brace = (str \<noteq> [] \<and> hd str = CHR ''{'');
          body = (if brace then tl str else str);
          name = takeWhile is_word body;
          rest = dropWhile is_word body;
          num = (if hd name = CHR ''0'' \<and> 1 < length name then None else num_of 0 name)
      in if name = [] then None
         else if brace then (if rest \<noteq> [] \<and> hd rest = CHR ''}'' then Some (num, tl rest) else None)
         else Some (num, rest))"

lemma extract_name_shorter: "extract_name t = Some (n, r) \<Longrightarrow> length r < Suc (length t)"
proof -
  assume a: "extract_name t = Some (n, r)"
  have "length (dropWhile is_word u) \<le> length u" for u by (simp add: length_dropWhile_le)
  from this [of t] this [of "tl t"] a show ?thesis
    by (auto simp: extract_name_def Let_def split: if_splits)
qed

function expand :: "string \<Rightarrow> (nat \<Rightarrow> string) \<Rightarrow> string" where
  "expand [] g = []"
| "expand (c # t) g =
     (if c \<noteq> CHR ''$'' then c # expand t g
      else if t \<noteq> [] \<and> hd t = CHR ''$'' then CHR ''$'' # expand (tl t) g
      else case extract_name t of
          None \<Rightarrow> CHR ''$'' # expand t g
        | Some (num, rest) \<Rightarrow> (case num of None \<Rightarrow> [] | Some n \<Rightarrow> g n) @ expand rest g)"
  by pat_completeness auto
termination
  by (relation "measure (\<lambda>(t, g). length t)") (auto dest: extract_name_shorter)

fun replace_spans :: "string \<Rightarrow> string \<Rightarrow> match_result list \<Rightarrow> nat \<Rightarrow> string" where
  "replace_spans s repl [] pos = drop pos s"
| "replace_spans s repl (m # ms) pos =
     take (m_start m - pos) (drop pos s) @ expand repl (group s m) @ replace_spans s repl ms (m_end m)"

definition ReplaceAll :: "re \<Rightarrow> string \<Rightarrow> string \<Rightarrow> string" where
  "ReplaceAll r s repl = replace_spans s repl (FindAll r s) 0"

section \<open>Facts\<close>

lemma expand_literal: "CHR ''$'' \<notin> set t \<Longrightarrow> expand t g = t"
  by (induction t) auto

lemma ReplaceAll_no_match: "\<not> MatchString r s \<Longrightarrow> ReplaceAll r s repl = s"
  by (simp add: MatchString_def FindIndex_def ReplaceAll_def FindAll_def)

end
