(* ===== verification/SourcePatch.thy ===== *)
theory SourcePatch
  imports JsScan Regex Errors GoText
begin

text \<open>
  Source-preserving edits of settings.js: src/internal/service/source_patch.go, and the append and
  replace helpers of config.go.  An edit names a top-level key; its entry is located by the
  scanner of \<open>JsScan\<close> and replaced in place, or a new entry is inserted.

  \<open>detectIndent\<close> iterates over a Go map: \<open>ord\<close> is the order in which the runtime visits the keys.
\<close>

section \<open>Managed keys\<close>

definition managedSettingKeys :: "string list" where
  "managedSettingKeys =
     [''uiPort'', ''uiHost'', ''httpAdminRoot'', ''httpNodeRoot'', ''httpStatic'', ''flowFile'',
      ''flowFilePretty'', ''userDir'', ''nodesDir'', ''lang'', ''disableEditor'', ''projectsEnabled'',
      ''adminAuth'', ''httpNodeAuth'', ''httpStaticAuth'', ''editorTheme'', ''logging'',
      ''runtimeState'', ''credentialSecret'', ''functionGlobalContext'', ''env'', ''https'']"

definition IsManagedSettingKey :: "string \<Rightarrow> bool" where
  "IsManagedSettingKey key \<longleftrightarrow> key \<in> set managedSettingKeys"

section \<open>Insertion points\<close>

definition closing_line_re :: re where
  "closing_line_re = seqs [LineStart, Star (OneOf [SP, TAB]), Lit ''}'', Star (OneOf [SP, TAB]), LineEnd]"

definition findModuleExportsClosingBrace :: "string \<Rightarrow> nat option" where
  "findModuleExportsClosingBrace content = map_option m_start (FindIndex closing_line_re content)"

definition indents :: "string \<Rightarrow> string list" where
  "indents content =
     filter (\<lambda>i. i \<noteq> [])
       (map (\<lambda>line. take (leadingWhitespaceEnd line 0) line)
         (filter (\<lambda>line. TrimSpace line \<noteq> '''') (Split content NL)))"

fun best_indent :: "(string \<Rightarrow> nat) \<Rightarrow> string list \<Rightarrow> string \<Rightarrow> nat \<Rightarrow> string" where
  "best_indent counts [] best bestN = best"
| "best_indent counts (i # is) best bestN =
     (if counts i > bestN then best_indent counts is i (counts i) else best_indent counts is best bestN)"

definition detectIndent :: "(string list \<Rightarrow> string list) \<Rightarrow> string \<Rightarrow> string" where
  "detectIndent ord content =
     (let is = indents content;
          best = best_indent (\<lambda>i. count_list is i) (ord (remdups is)) '''' 0
      in if best = '''' then ''  '' else best)"

section \<open>Edits\<close>

definition existingScalarEquals :: "string \<Rightarrow> string \<Rightarrow> bool" where
  "existingScalarEquals segment value =
     (case Index segment '':'' of
        None \<Rightarrow> False
      | Some colon \<Rightarrow>
          TrimRight (TrimSuffix (TrimRight (TrimLeft (drop (colon + 1) segment) [SP, TAB]) [SP, TAB]) '','')
            [SP, TAB] = value)"

text \<open>The slices of the source are within bounds: \<open>findTopLevelBlock_bounds\<close> below.\<close>

definition ApplyScalarEdit ::
    "(string list \<Rightarrow> string list) \<Rightarrow> string \<Rightarrow> string \<Rightarrow> string \<Rightarrow> string \<times> bool" where
  "ApplyScalarEdit ord content key value =
     (case findTopLevelBlock content key of
        None \<Rightarrow>
          (case findModuleExportsClosingBrace content of
             None \<Rightarrow> (content, False)
           | Some idx \<Rightarrow>
               (take idx content @ detectIndent ord content @ key @ '': '' @ value @ '','' @ [NL]
                @ drop idx content, True))
      | Some (start, end) \<Rightarrow>
          if existingScalarEquals (take (end - start) (drop start content)) value then (content, True)
          else
            let indent = take (leadingWhitespaceEnd content start - start) (drop start content) in
            (take start content @ indent @ key @ '': '' @ value @ '','' @ drop end content, True))"

definition ApplyBlockEdit ::
    "(string list \<Rightarrow> string list) \<Rightarrow> string \<Rightarrow> string \<Rightarrow> string \<Rightarrow> string \<times> bool" where
  "ApplyBlockEdit ord content key blockContent =
     (case findTopLevelBlock content key of
        None \<Rightarrow>
          (case findModuleExportsClosingBrace content of
             None \<Rightarrow> (content, False)
           | Some idx \<Rightarrow>
               (take idx content @ [NL] @ detectIndent ord content @ TrimLeft blockContent [SP, TAB]
                @ drop idx content, True))
      | Some (start, end) \<Rightarrow> (take start content @ blockContent @ drop end content, True))"

record SourceEdit =
  se_Key :: string
  se_Value :: string
  se_Block :: string
  se_IsBlock :: bool

record SourcePatchResult =
  spr_Content :: string
  spr_Inserted :: "string list"
  spr_Replaced :: "string list"

fun source_patch_loop ::
    "(string list \<Rightarrow> string list) \<Rightarrow> string \<Rightarrow> SourceEdit list \<Rightarrow> SourcePatchResult \<Rightarrow> SourcePatchResult result" where
  "source_patch_loop ord original [] r = Inr r"
| "source_patch_loop ord original (edit # edits) r =
     (let current = spr_Content r;
          existed = (findTopLevelBlock current (se_Key edit) \<noteq> None);
          (patched, ok) = (if se_IsBlock edit then ApplyBlockEdit ord current (se_Key edit) (se_Block edit)
                           else ApplyScalarEdit ord current (se_Key edit) (se_Value edit))
      in if \<not> ok then Inl (ErrWrap (se_Key edit) (Sentinel ErrSourceNotExports))
         else source_patch_loop ord original edits
           (if existed then r\<lparr>spr_Content := patched, spr_Replaced := spr_Replaced r @ [se_Key edit]\<rparr>
            else r\<lparr>spr_Content := patched, spr_Inserted := spr_Inserted r @ [se_Key edit]\<rparr>))"

text \<open>On failure the source returns the original content beside the error.\<close>

definition SourcePatch ::
    "(string list \<Rightarrow> string list) \<Rightarrow> string \<Rightarrow> SourceEdit list \<Rightarrow> SourcePatchResult \<times> go_error option" where
  "SourcePatch ord content edits =
     (let r0 = \<lparr>spr_Content = content, spr_Inserted = [], spr_Replaced = []\<rparr> in
      case source_patch_loop ord content edits r0 of
        Inl e \<Rightarrow> (r0, Some e)
      | Inr r \<Rightarrow> (r, None))"

definition extractTopLevelBlockContent :: "string \<Rightarrow> string \<Rightarrow> string" where
  "extractTopLevelBlockContent content key =
     (case findTopLevelBlock content key of
        None \<Rightarrow> ''''
      | Some (start, end) \<Rightarrow> TrimRight (TrimSpace (take (end - start) (drop start content))) '','')"

section \<open>The helpers of config.go\<close>

definition ensureCommaTerminated :: "string \<Rightarrow> string" where
  "ensureCommaTerminated content =
     (let trimmed = TrimRight content [SP, TAB] in
      if trimmed = '''' then content
      else if last trimmed \<in> {CHR '','', CHR ''{'', CHR ''[''} then content
      else trimmed @ '','' @ drop (length trimmed) content)"

definition closing_brace_re :: re where
  "closing_brace_re = seqs [Lit [NL], Spaces, Lit ''}'', Grp 1 (Opt (Lit '';'')), Spaces, TextEnd]"

definition appendPropertyBeforeClosingBrace :: "string \<Rightarrow> string \<Rightarrow> string" where
  "appendPropertyBeforeClosingBrace content entry =
     (case FindIndex closing_brace_re content of
        None \<Rightarrow> content
      | Some m \<Rightarrow>
          ensureCommaTerminated (take (m_start m) content) @ [NL] @ entry @ ''}'' @
          (if group_range m 1 \<noteq> None then '';'' else '''') @ [NL])"

definition scalar_line_re :: "string \<Rightarrow> re" where
  "scalar_line_re key =
     seqs [LineStart, Spaces, Lit key, Spaces, Lit '':'', Spaces, Star (NoneOf [CHR '','', NL]),
       Opt (Lit '',''), Spaces, LineEnd]"

definition replaceScalarKey :: "string \<Rightarrow> string \<Rightarrow> string \<Rightarrow> string" where
  "replaceScalarKey content key value =
     (if MatchString (scalar_line_re key) content
      then ReplaceAll (scalar_line_re key) content (''  '' @ key @ '': '' @ value @ '','')
      else appendPropertyBeforeClosingBrace content (''  '' @ key @ '': '' @ value @ '','' @ [NL]))"

definition array_re :: "string \<Rightarrow> re list \<Rightarrow> re" where
  "array_re key tail_re =
     seqs ([LineStart, Spaces, Lit key, Spaces, Lit '':'', Spaces, Lit ''['', Star (NoneOf [CHR '']'']),
       Lit '']'', Opt (Lit '',''), Spaces] @ tail_re)"

definition replaceArrayKey :: "string \<Rightarrow> string \<Rightarrow> string \<Rightarrow> string" where
  "replaceArrayKey content key arrayContent =
     (if MatchString (array_re key [LineEnd]) content
      then ReplaceAll (array_re key [LineEnd]) content arrayContent
      else appendPropertyBeforeClosingBrace content (arrayContent @ [NL]))"

definition removeArrayKey :: "string \<Rightarrow> string \<Rightarrow> string" where
  "removeArrayKey content key = ReplaceAll (array_re key [Opt (Lit [NL])]) content ''''"

definition removeObjectKey :: "string \<Rightarrow> string \<Rightarrow> string" where
  "removeObjectKey content key =
     (case findTopLevelBlock content key of
        None \<Rightarrow> content
      | Some (start, end) \<Rightarrow> take start content @ drop end content)"

definition replaceBlockKey :: "string \<Rightarrow> string \<Rightarrow> string \<Rightarrow> string" where
  "replaceBlockKey content key blockContent =
     (case findTopLevelBlock content key of
        None \<Rightarrow> appendPropertyBeforeClosingBrace content (blockContent @ [NL])
      | Some (start, end) \<Rightarrow> take start content @ blockContent @ drop end content)"

definition http_static_re :: re where
  "http_static_re = seqs [LineStart, Spaces, Lit ''httpStatic'', Spaces, Lit '':'']"

definition ensureHTTPStatic :: "(nat \<Rightarrow> bool) \<Rightarrow> string \<Rightarrow> string \<Rightarrow> string" where
  "ensureHTTPStatic is_print content relDir =
     (if MatchString http_static_re content then content
      else appendPropertyBeforeClosingBrace content (''  httpStatic: '' @ Quote is_print relDir @ '','' @ [NL]))"

end
