(* ===== verification/Logging.thy ===== *)
theory Logging
  imports SourcePatch Json "HOL-Library.Monad_Syntax" "HOL-Library.List_Lexorder" "HOL-Library.Char_ord"
begin

text \<open>
  The logging block of settings.js: src/internal/service/logging.go.  The model of the block maps a
  handler name to its properties; the renderer writes it from scratch, the patcher edits an
  existing block in place, and the parser reads it back.

  A slice expression of the patcher can be out of range; \<^const>\<open>None\<close> is that panic.
\<close>

section \<open>The model of the block\<close>

definition managedLoggingHandlers :: "string list" where
  "managedLoggingHandlers = [''console'', ''internal'']"

definition loggingProperties :: "string list" where
  "loggingProperties = [''level'', ''metrics'', ''audit'']"

type_synonym props = "(string \<times> json) list"
type_synonym loggingModel = "(string \<times> props) list"

definition loggingPropertiesOf :: "json \<Rightarrow> props option" where
  "loggingPropertiesOf raw = as_object raw"

fun logging_entries :: "(string \<times> json) list \<Rightarrow> loggingModel" where
  "logging_entries [] = []"
| "logging_entries ((name, raw) # fs) =
     (case loggingPropertiesOf raw of
        None \<Rightarrow> logging_entries fs
      | Some ps \<Rightarrow> (name, ps) # logging_entries fs)"

definition newLoggingModel :: "json \<Rightarrow> loggingModel" where
  "newLoggingModel value = (case as_object value of None \<Rightarrow> [] | Some fs \<Rightarrow> logging_entries fs)"

definition logging_value :: "loggingModel \<Rightarrow> json" where
  "logging_value m = JObj (map (\<lambda>(name, ps). (name, JObj ps)) m)"

definition isManagedLoggingHandler :: "string \<Rightarrow> bool" where
  "isManagedLoggingHandler name \<longleftrightarrow> name \<in> set managedLoggingHandlers"

definition handlerNames :: "loggingModel \<Rightarrow> string list" where
  "handlerNames m =
     filter (\<lambda>n. map_of m n \<noteq> None) managedLoggingHandlers @
     sort (filter (\<lambda>n. \<not> isManagedLoggingHandler n) (remdups (map fst m)))"

definition defaultConsoleHandler :: props where
  "defaultConsoleHandler = [(''level'', JStr ''info''), (''metrics'', JBool False), (''audit'', JBool False)]"

definition defaultLoggingModel :: loggingModel where
  "defaultLoggingModel = [(''console'', defaultConsoleHandler)]"

definition withDefaultConsoleHandler :: "loggingModel \<Rightarrow> loggingModel" where
  "withDefaultConsoleHandler logging =
     (if map_of logging ''console'' \<noteq> None then logging
      else logging @ [(''console'', defaultConsoleHandler)])"

definition loggingModelOrDefault :: "json \<Rightarrow> loggingModel" where
  "loggingModelOrDefault value =
     (let logging = newLoggingModel value in if logging = [] then defaultLoggingModel else logging)"

section \<open>Literals\<close>

text \<open>\<open>strings.Builder.WriteRune\<close>: the UTF-8 encoding of a code point.\<close>

definition encode_rune :: "nat \<Rightarrow> string" where
  "encode_rune r =
     (let r = (if 0xD800 \<le> r \<and> r \<le> 0xDFFF \<or> r > 0x10FFFF then 0xFFFD else r) in
      map char_of
       (if r < 0x80 then [r]
        else if r < 0x800 then [0xC0 + r div 64, 0x80 + r mod 64]
        else if r < 0x10000 then [0xE0 + r div 4096, 0x80 + r div 64 mod 64, 0x80 + r mod 64]
        else [0xF0 + r div 262144, 0x80 + r div 4096 mod 64, 0x80 + r div 64 mod 64, 0x80 + r mod 64]))"

definition quote_js_rune :: "nat \<Rightarrow> string" where
  "quote_js_rune r =
     (if r = 92 then [BSL, BSL]
      else if r = 39 then [BSL, SQ]
      else if r = 10 then [BSL, CHR ''n'']
      else if r = 13 then [BSL, CHR ''r'']
      else if r = 9 then [BSL, CHR ''t'']
      else if r < 32 then [BSL, CHR ''u''] @ hex_text 4 r
      else encode_rune r)"

function quote_js_body :: "string \<Rightarrow> string" where
  "quote_js_body s =
     (if s = [] then []
      else quote_js_rune (fst (decode_rune s)) @ quote_js_body (drop (snd (decode_rune s)) s))"
  by pat_completeness auto
termination
  by (relation "measure length") (auto simp: decode_rune_width)

declare quote_js_body.simps [simp del]

definition quoteJSString :: "string \<Rightarrow> string" where
  "quoteJSString value = [SQ] @ quote_js_body value @ [SQ]"

definition hex_value :: "char \<Rightarrow> nat option" where
  "hex_value c = (let n = (of_char c :: nat) in
     if 48 \<le> n \<and> n \<le> 57 then Some (n - 48)
     else if 97 \<le> n \<and> n \<le> 102 then Some (n - 87)
     else if 65 \<le> n \<and> n \<le> 70 then Some (n - 55)
     else None)"

fun hex4 :: "nat \<Rightarrow> string \<Rightarrow> nat option" where
  "hex4 acc [] = Some acc"
| "hex4 acc (c # cs) = (case hex_value c of None \<Rightarrow> None | Some d \<Rightarrow> hex4 (acc * 16 + d) cs)"

function unescapeJSString :: "string \<Rightarrow> string" where
  "unescapeJSString [] = []"
| "unescapeJSString [c] = [c]"
| "unescapeJSString (c # d # s) =
     (if c \<noteq> BSL then c # unescapeJSString (d # s)
      else if d = CHR ''n'' then NL # unescapeJSString s
      else if d = CHR ''r'' then CR # unescapeJSString s
      else if d = CHR ''t'' then TAB # unescapeJSString s
      else if d = CHR ''b'' then CHR 0x08 # unescapeJSString s
      else if d = CHR ''f'' then CHR 0x0C # unescapeJSString s
      else if d = CHR ''0'' then CHR 0x00 # unescapeJSString s
      else if d = CHR ''u'' \<and> 4 \<le> length s
      then (case hex4 0 (take 4 s) of
              None \<Rightarrow> CHR ''u'' # unescapeJSString s
            | Some code \<Rightarrow> encode_rune code @ unescapeJSString (drop 4 s))
      else d # unescapeJSString s)"
  by pat_completeness auto
termination by (relation "measure length") auto

definition parseJSString :: "string \<Rightarrow> string option" where
  "parseJSString raw =
     (let trimmed = TrimSpace raw in
      if length trimmed < 2 then None
      else let quote = hd trimmed in
        if quote \<noteq> SQ \<and> quote \<noteq> DQ then None
        else if last trimmed \<noteq> quote then None
        else Some (unescapeJSString (butlast (tl trimmed))))"

definition parseJSBool :: "string \<Rightarrow> bool option" where
  "parseJSBool raw =
     (if TrimSpace raw = ''true'' then Some True
      else if TrimSpace raw = ''false'' then Some False else None)"

definition loggingLiteral :: "string \<Rightarrow> json \<Rightarrow> string option" where
  "loggingLiteral property value =
     (if property = ''level''
      then (case as_string value of None \<Rightarrow> None
            | Some level \<Rightarrow> if level = '''' then None else Some (quoteJSString level))
      else if property = ''metrics'' \<or> property = ''audit'' then map_option bool_text (as_bool value)
      else None)"

section \<open>Rendering\<close>

definition handler_parts :: "props \<Rightarrow> string list" where
  "handler_parts ps =
     List.map_filter (\<lambda>property.
       case map_of ps property of None \<Rightarrow> None
       | Some v \<Rightarrow> map_option (\<lambda>l. property @ '': '' @ l) (loggingLiteral property v)) loggingProperties"

definition renderLoggingHandler :: "string \<Rightarrow> props \<Rightarrow> string" where
  "renderLoggingHandler name ps =
     (let parts = handler_parts ps in
      if parts = [] then '''' else name @ '': { '' @ Join parts '', '' @ '' }'')"

definition renderLoggingBlock :: "loggingModel \<Rightarrow> string" where
  "renderLoggingBlock logging =
     (let logging = withDefaultConsoleHandler logging;
          rendered = filter (\<lambda>e. e \<noteq> '''')
            (map (\<lambda>name. renderLoggingHandler name (the (map_of logging name))) (handlerNames logging));
          entries = map (\<lambda>e. ''    '' @ e @ '','') rendered
      in if entries = [] then '''' else ''  logging: {'' @ [NL] @ Join entries [NL] @ [NL] @ ''  },'')"

section \<open>Patching\<close>

definition loggingPropertyEqual :: "string \<Rightarrow> string \<Rightarrow> json \<Rightarrow> bool" where
  "loggingPropertyEqual property source value =
     (if property = ''level''
      then (case parseJSString source of None \<Rightarrow> False | Some level \<Rightarrow> as_string value = Some level)
      else if property = ''metrics'' \<or> property = ''audit''
      then (case parseJSBool source of None \<Rightarrow> False | Some flag \<Rightarrow> as_bool value = Some flag)
      else False)"

text \<open>The loop of \<open>mergeLoggingHandlerValue\<close> over the properties: the edits and the entries to
  insert.\<close>

fun merge_props :: "string \<Rightarrow> jsObjectEntry list \<Rightarrow> props \<Rightarrow> string list \<Rightarrow> (jsEdit list \<times> string list) option" where
  "merge_props body entries ps [] = Some ([], [])"
| "merge_props body entries ps (property # rest) =
     (case map_of ps property of
        None \<Rightarrow> merge_props body entries ps rest
      | Some v \<Rightarrow>
          (case loggingLiteral property v of
             None \<Rightarrow> merge_props body entries ps rest
           | Some literal \<Rightarrow>
               (case firstJSEntryByKey entries property of
                  None \<Rightarrow> do {
                    (edits, ins) \<leftarrow> merge_props body entries ps rest;
                    Some (edits, (property @ '': '' @ literal) # ins) }
                | Some entry \<Rightarrow> do {
                    current \<leftarrow> slice body (valueStart entry) (valueEnd entry);
                    (edits, ins) \<leftarrow> merge_props body entries ps rest;
                    Some (if loggingPropertyEqual property current v then (edits, ins)
                          else (\<lparr>ed_start = valueStart entry, ed_end = valueEnd entry, ed_text = literal\<rparr> # edits, ins)) })))"

definition insertion_edit :: "string \<Rightarrow> jsObjectEntry list \<Rightarrow> string list \<Rightarrow> jsEdit list" where
  "insertion_edit body entries ins =
     (case insertJSEntries body entries ins of
        None \<Rightarrow> []
      | Some (t, s, e) \<Rightarrow> [\<lparr>ed_start = s, ed_end = e, ed_text = t\<rparr>])"

definition mergeLoggingHandlerValue :: "string \<Rightarrow> string \<Rightarrow> props \<Rightarrow> (string \<times> bool) option" where
  "mergeLoggingHandlerValue name value ps =
     (case jsObjectBody value of
        None \<Rightarrow>
          (let rendered = renderLoggingHandler name ps in
           Some (if rendered = '''' then (value, False) else (rendered, True)))
      | Some body \<Rightarrow>
          (let entries = scanJSObjectEntries body in
           do {
             (edits, ins) \<leftarrow> merge_props body entries ps loggingProperties;
             (merged, changed) \<leftarrow> applyJSEdits body (edits @ insertion_edit body entries ins);
             Some (if changed then (''{'' @ merged @ ''}'', True) else (value, False))
           }))"

fun patch_handlers :: "string \<Rightarrow> jsObjectEntry list \<Rightarrow> loggingModel \<Rightarrow> string list \<Rightarrow> (jsEdit list \<times> string list) option" where
  "patch_handlers body entries logging [] = Some ([], [])"
| "patch_handlers body entries logging (name # names) =
     (let ps = the (map_of logging name) in
      if ps = [] then patch_handlers body entries logging names
      else case firstJSEntryByKey entries name of
        None \<Rightarrow>
          (let rendered = renderLoggingHandler name ps in
           do {
             (edits, ins) \<leftarrow> patch_handlers body entries logging names;
             Some (edits, if rendered = '''' then ins else rendered # ins)
           })
      | Some entry \<Rightarrow> do {
          current \<leftarrow> slice body (valueStart entry) (valueEnd entry);
          (merged, ok) \<leftarrow> mergeLoggingHandlerValue name current ps;
          (edits, ins) \<leftarrow> patch_handlers body entries logging names;
          Some (if \<not> ok \<or> merged = current then (edits, ins)
                else (\<lparr>ed_start = valueStart entry, ed_end = valueEnd entry, ed_text = merged\<rparr> # edits, ins)) })"

definition patchLoggingBody :: "string \<Rightarrow> loggingModel \<Rightarrow> (string \<times> bool) option" where
  "patchLoggingBody body logging =
     (let entries = scanJSObjectEntries body;
          sourceConsole = (firstJSEntryByKey entries ''console'' \<noteq> None);
          modelConsole = (case map_of logging ''console'' of None \<Rightarrow> False
                          | Some ps \<Rightarrow> renderLoggingHandler ''console'' ps \<noteq> '''')
      in do {
        (edits, ins) \<leftarrow> patch_handlers body entries logging (handlerNames logging);
        let ins = (if \<not> sourceConsole \<and> \<not> modelConsole
                   then ins @ [renderLoggingHandler ''console'' defaultConsoleHandler] else ins);
        applyJSEdits body (edits @ insertion_edit body entries ins)
      })"

definition patchLoggingEntry :: "string \<Rightarrow> loggingModel \<Rightarrow> (string \<times> bool) option" where
  "patchLoggingEntry entry logging =
     (case jsBlockBody entry of
        None \<Rightarrow> Some (entry, False)
      | Some body \<Rightarrow> do {
          (newBody, changed) \<leftarrow> patchLoggingBody body logging;
          Some (if \<not> changed then (entry, False)
                else case Index entry ''{'' of
                    None \<Rightarrow> (entry, False)
                  | Some open \<Rightarrow>
                      (case findMatchingBrace entry open of
                         None \<Rightarrow> (entry, False)
                       | Some closeIdx \<Rightarrow> (take (open + 1) entry @ newBody @ drop closeIdx entry, True)))
        })"

definition loggingBlockEntry :: "string \<Rightarrow> string option" where
  "loggingBlockEntry content =
     (case findTopLevelBlock content ''logging'' of
        None \<Rightarrow> None
      | Some (start, end) \<Rightarrow> slice content start end)"

definition patchLoggingBlock :: "string \<Rightarrow> loggingModel \<Rightarrow> string option" where
  "patchLoggingBlock content logging =
     (if logging = [] then Some content
      else case loggingBlockEntry content of
        None \<Rightarrow>
          (let block = renderLoggingBlock logging in
           Some (if block = '''' then content
                 else appendPropertyBeforeClosingBrace content (block @ [NL])))
      | Some entry \<Rightarrow> do {
          (patched, changed) \<leftarrow> patchLoggingEntry entry logging;
          Some (if \<not> changed then content
                else case findTopLevelBlock content ''logging'' of
                    None \<Rightarrow> patched @ content
                  | Some (start, end) \<Rightarrow> take start content @ patched @ drop end content)
        })"

definition patchLoggingSettings :: "string \<Rightarrow> json \<Rightarrow> string option" where
  "patchLoggingSettings content value =
     (let logging = newLoggingModel value in
      if logging = [] then
        (if loggingBlockEntry content \<noteq> None then Some content
         else patchLoggingBlock content defaultLoggingModel)
      else patchLoggingBlock content logging)"

section \<open>Parsing\<close>

fun parse_props :: "string \<Rightarrow> jsObjectEntry list \<Rightarrow> props \<Rightarrow> props option" where
  "parse_props inner [] ps = Some ps"
| "parse_props inner (property # rest) ps = do {
     raw \<leftarrow> slice inner (valueStart property) (valueEnd property);
     parse_props inner rest
       (if e_key property = ''level''
        then (case parseJSString raw of None \<Rightarrow> ps | Some l \<Rightarrow> AList.update ''level'' (JStr l) ps)
        else if e_key property = ''metrics'' \<or> e_key property = ''audit''
        then (case parseJSBool raw of None \<Rightarrow> ps | Some b \<Rightarrow> AList.update (e_key property) (JBool b) ps)
        else ps)
   }"

fun parse_handlers :: "string \<Rightarrow> jsObjectEntry list \<Rightarrow> loggingModel \<Rightarrow> loggingModel option" where
  "parse_handlers body [] m = Some m"
| "parse_handlers body (child # rest) m = do {
     value \<leftarrow> slice body (valueStart child) (valueEnd child);
     ps \<leftarrow> (case jsObjectBody value of
             None \<Rightarrow> Some []
           | Some inner \<Rightarrow> parse_props inner (scanJSObjectEntries inner) []);
     parse_handlers body rest (AList.update (e_key child) ps m)
   }"

definition parseLoggingBlock :: "string \<Rightarrow> loggingModel option" where
  "parseLoggingBlock content =
     (case loggingBlockEntry content of
        None \<Rightarrow> Some []
      | Some entry \<Rightarrow>
          (case jsBlockBody entry of
             None \<Rightarrow> Some []
           | Some body \<Rightarrow> parse_handlers body (scanJSObjectEntries body) []))"

end
