(* ===== verification/Sandbox.thy ===== *)
theory Sandbox
  imports ConfigModel
begin

text \<open>
  Inspecting settings.js by running it: src/internal/service/settings_sandbox.go and
  settings_export.go.  The JavaScript engine (goja) is a parameter: \<open>goja globals script\<close> is the
  outcome of running the script with accessors that throw on the blocked globals.  What the code
  does with the value of \<open>module.exports\<close> is modelled.

  A JavaScript value carries the results of its conversions (\<open>String()\<close> and \<open>ToInteger()\<close>), and an
  object its own enumerable properties in order.
\<close>

datatype jsval =
    Undefined
  | Null
  | Prim string int
  | Object "(string \<times> jsval) list" string int

datatype goja_result =
    CompileError
  | Interrupted
  | Threw go_error
  | Finished jsval "json option option"

text \<open>In \<open>Finished exports encoded\<close>, \<open>encoded\<close> is the outcome of \<open>JSON.stringify(exports)\<close>: the outer
  \<^const>\<open>None\<close> is an exception, the inner one \<open>undefined\<close>.\<close>

type_synonym engine = "string list \<Rightarrow> string \<Rightarrow> goja_result"

fun js_String :: "jsval \<Rightarrow> string" where
  "js_String Undefined = ''undefined''"
| "js_String Null = ''null''"
| "js_String (Prim s _) = s"
| "js_String (Object _ s _) = s"

fun js_ToInteger :: "jsval \<Rightarrow> int" where
  "js_ToInteger Undefined = 0"
| "js_ToInteger Null = 0"
| "js_ToInteger (Prim _ n) = n"
| "js_ToInteger (Object _ _ n) = n"

fun js_props :: "jsval \<Rightarrow> (string \<times> jsval) list" where
  "js_props (Object ps _ _) = ps"
| "js_props _ = []"

definition js_Get :: "jsval \<Rightarrow> string \<Rightarrow> jsval" where
  "js_Get v name = (case map_of (js_props v) name of None \<Rightarrow> Undefined | Some x \<Rightarrow> x)"

definition js_nil :: "jsval \<Rightarrow> bool" where
  "js_nil v \<longleftrightarrow> v = Undefined \<or> v = Null"

definition blocked_globals :: "string list" where
  "blocked_globals = [''require'', ''process'', ''Buffer'', ''globalThis'', ''global'', ''setTimeout'',
     ''setInterval'', ''fetch'']"

definition reconcileBlockedGlobals :: "string list" where
  "reconcileBlockedGlobals = [''require'', ''process'', ''Buffer'', ''globalThis'', ''global'', ''setTimeout'',
     ''setInterval'', ''fetch'']"

definition wrapped_source :: "string \<Rightarrow> string" where
  "wrapped_source content = ''var module = { exports: {} };'' @ [NL] @
     ''var exports = module.exports;'' @ [NL] @ content @ [NL]"

section \<open>The authentication surfaces\<close>

definition readStringProp :: "jsval \<Rightarrow> string \<Rightarrow> string" where
  "readStringProp obj name = (let v = js_Get obj name in if js_nil v then '''' else js_String v)"

definition extractHTTPBasicAuth :: "jsval \<Rightarrow> HTTPBasicAuth option" where
  "extractHTTPBasicAuth value =
     (if js_nil value then None
      else let user = readStringProp value ''user''; pass = readStringProp value ''pass'' in
        if user = '''' \<or> pass = '''' then None else Some \<lparr>ba_User = user, ba_Pass = pass\<rparr>)"

definition extract_user :: "jsval \<Rightarrow> AdminAuthUser option" where
  "extract_user userVal =
     (if js_nil userVal then None
      else let username = readStringProp userVal ''username''; password = readStringProp userVal ''password'' in
        if username = '''' \<or> password = '''' then None
        else Some \<lparr>Username = username, Password = password, Permissions = readStringProp userVal ''permissions''\<rparr>)"

definition extractAdminAuth :: "jsval \<Rightarrow> AdminAuth result" where
  "extractAdminAuth exports =
     (if js_nil exports then Inl (Sentinel ErrAdminAuthMissing)
      else let adminAuth = js_Get exports ''adminAuth'' in
        if js_nil adminAuth then Inl (Sentinel ErrAdminAuthMissing)
        else let typ = readStringProp adminAuth ''type''; expiry = js_Get adminAuth ''sessionExpiryTime'';
                 users = js_Get adminAuth ''users'' in
          if typ = '''' then Inl (ErrWrap ''missing type'' (Sentinel ErrAdminAuthMissing))
          else Inr \<lparr>aa_Type = typ,
                    aa_Users = (if js_nil users then []
                                else List.map_filter (\<lambda>(_, u). extract_user u) (js_props users)),
                    aa_SessionExpiryTime = (if js_nil expiry then 0 else js_ToInteger expiry)\<rparr>)"

definition extractAuthenticationSurfaces :: "jsval \<Rightarrow> AuthenticationSurfaces result" where
  "extractAuthenticationSurfaces exports =
     (case extractAdminAuth exports of
        Inl e \<Rightarrow>
          if \<not> errors_is e ErrAdminAuthMissing then Inl e
          else if js_nil exports then Inl (Sentinel ErrAdminAuthMissing)
          else let node = extractHTTPBasicAuth (js_Get exports ''httpNodeAuth'');
                   stat = extractHTTPBasicAuth (js_Get exports ''httpStaticAuth'') in
            if node = None \<and> stat = None then Inl (Sentinel ErrAdminAuthMissing)
            else Inr \<lparr>as_AdminAuth = None, as_HTTPNodeAuth = node, as_HTTPStaticAuth = stat\<rparr>
      | Inr a \<Rightarrow>
          Inr \<lparr>as_AdminAuth = Some a,
               as_HTTPNodeAuth = extractHTTPBasicAuth (js_Get exports ''httpNodeAuth''),
               as_HTTPStaticAuth = extractHTTPBasicAuth (js_Get exports ''httpStaticAuth'')\<rparr>)"

definition ParseAuthenticationSurfacesViaSandbox :: "engine \<Rightarrow> string \<Rightarrow> AuthenticationSurfaces result" where
  "ParseAuthenticationSurfacesViaSandbox goja content =
     (if content = '''' then Inl (Sentinel ErrAdminAuthMissing)
      else case goja blocked_globals (wrapped_source content) of
          CompileError \<Rightarrow> Inl (Sentinel ErrSandboxSyntax)
        | Interrupted \<Rightarrow> Inl (ErrWrap ''script did not terminate'' (Sentinel ErrSandboxTimeout))
        | Threw e \<Rightarrow> Inl (ErrJoin (Sentinel ErrSandboxRuntime) e)
        | Finished exports _ \<Rightarrow> extractAuthenticationSurfaces exports)"

definition ParseAdminAuthViaSandbox :: "engine \<Rightarrow> string \<Rightarrow> AdminAuth result" where
  "ParseAdminAuthViaSandbox goja content =
     (case ParseAuthenticationSurfacesViaSandbox goja content of
        Inl e \<Rightarrow> Inl e
      | Inr s \<Rightarrow> (case as_AdminAuth s of None \<Rightarrow> Inl (Sentinel ErrAdminAuthMissing) | Some a \<Rightarrow> Inr a))"

definition parseAuthenticationSurfacesFromJS :: "engine \<Rightarrow> string \<Rightarrow> AuthenticationSurfaces option result" where
  "parseAuthenticationSurfacesFromJS goja content =
     (case ParseAuthenticationSurfacesViaSandbox goja content of
        Inl e \<Rightarrow> if errors_is e ErrAdminAuthMissing \<or> errors_is e ErrSandboxHostAPI then Inr None else Inl e
      | Inr s \<Rightarrow>
          (case as_AdminAuth s of
             Some a \<Rightarrow> Inr (Some (if aa_Type a \<noteq> ''credentials'' then s\<lparr>as_AdminAuth := None\<rparr> else s))
           | None \<Rightarrow> Inr (Some s)))"

section \<open>The exported object\<close>

definition exportSettingsObject :: "engine \<Rightarrow> string \<Rightarrow> (string \<times> json) list result" where
  "exportSettingsObject goja content =
     (if content = '''' then Inl (ErrWrap ''empty source'' (Sentinel ErrSandboxSyntax))
      else case goja reconcileBlockedGlobals (wrapped_source content) of
          CompileError \<Rightarrow> Inl (Sentinel ErrSandboxSyntax)
        | Interrupted \<Rightarrow> Inl (ErrWrap ''script did not terminate'' (Sentinel ErrSandboxTimeout))
        | Threw e \<Rightarrow> Inl (ErrJoin (Sentinel ErrSandboxRuntime) e)
        | Finished exports encoded \<Rightarrow>
            if js_nil exports then Inr []
            else case encoded of
                None \<Rightarrow> Inl (Sentinel ErrSandboxRuntime)
              | Some None \<Rightarrow> Inr []
              | Some (Some j) \<Rightarrow>
                  (case as_object j of
                     None \<Rightarrow> Inl (Sentinel ErrSandboxRuntime)
                   | Some fs \<Rightarrow> Inr fs))"

end
