(* ===== verification/ConfigText.thy ===== *)
theory ConfigText
  imports Logging Sandbox
begin

text \<open>
  Writing a configuration as settings.js and reading it back: the renderers
  (\<open>generateSettingsJS\<close>, \<open>patchSettingsJS\<close> and the block renderers) and the parsers
  (\<open>parseConfigFromContent\<close> and its helpers) of src/internal/service/config.go.  \<open>P\<close> is the table
  of printable code points behind \<open>%q\<close>.  \<^const>\<open>None\<close> from a patcher or a parser is a panic of the
  logging code.
\<close>

section \<open>Block renderers\<close>

definition line :: "string \<Rightarrow> string" where
  "line s = s @ [NL]"

definition renderHttpsBlock :: "(nat \<Rightarrow> bool) \<Rightarrow> NodeRedConfig \<Rightarrow> string" where
  "renderHttpsBlock P cfg =
     (case Https cfg of
        None \<Rightarrow> ''''
      | Some h \<Rightarrow>
          (let read = (\<lambda>name v. if v = '''' then []
                 else [''    '' @ name @ '': require('' @ [SQ] @ ''fs'' @ [SQ] @ '').readFileSync('' @ Quote P v @ ''),'']);
               parts = read ''key'' (hs_Key h) @ read ''cert'' (hs_Cert h) @ read ''ca'' (hs_CA h) @
                 (if hs_Port h > 0 then [''    port: '' @ int_text (hs_Port h) @ '',''] else []) @
                 (if hs_Passphrase h \<noteq> '''' then [''    passphrase: '' @ Quote P (hs_Passphrase h) @ '',''] else [])
           in if parts = [] then ''''
              else ''  https: {'' @ [NL] @ Join parts [NL] @ [NL] @ ''  },''))"

definition nodeRedEnvType :: "string \<Rightarrow> string" where
  "nodeRedEnvType typ = (if typ = ''number'' then ''num'' else if typ = ''boolean'' then ''bool'' else ''str'')"

definition rendered_env :: "EnvVar list \<Rightarrow> (string \<times> string \<times> string) list" where
  "rendered_env vs =
     List.map_filter (\<lambda>v.
       let typ = (if ev_Type v = '''' \<or> ev_Type v = ''plain'' then ''string'' else ev_Type v) in
       if ev_Key v = '''' \<or> ev_Encrypted v \<or> typ = ''secret'' then None
       else Some (ev_Key v, ev_Value v, nodeRedEnvType typ)) vs"

fun env_entries :: "(nat \<Rightarrow> bool) \<Rightarrow> (string \<times> string \<times> string) list \<Rightarrow> string" where
  "env_entries P [] = []"
| "env_entries P ((k, v, t) # vs) =
     line ''    {'' @ line (''      name: '' @ Quote P k @ '','') @
     line (''      value: '' @ Quote P v @ '','') @ line (''      type: '' @ Quote P t) @
     line (if vs = [] then ''    }'' else ''    },'') @ env_entries P vs"

definition renderEnvBlock :: "(nat \<Rightarrow> bool) \<Rightarrow> NodeRedConfig \<Rightarrow> string" where
  "renderEnvBlock P cfg =
     (let vars = rendered_env (EnvVars cfg) in
      if vars = [] then '''' else line ''  env: ['' @ env_entries P vars @ ''  ],'')"

fun user_entries :: "(nat \<Rightarrow> bool) \<Rightarrow> AdminAuthUser list \<Rightarrow> string" where
  "user_entries P [] = []"
| "user_entries P (u # us) =
     line ''      {'' @ line (''        username: '' @ Quote P (Username u) @ '','') @
     line (''        password: '' @ Quote P (Password u) @ '','') @
     line (''        permissions: '' @ Quote P (Permissions u)) @
     line (if us = [] then ''      }'' else ''      },'') @ user_entries P us"

definition renderAdminAuthBlock :: "(nat \<Rightarrow> bool) \<Rightarrow> NodeRedConfig \<Rightarrow> string" where
  "renderAdminAuthBlock P cfg =
     (case AdminAuthF cfg of
        None \<Rightarrow> ''  adminAuth: null,''
      | Some a \<Rightarrow>
          if aa_Users a = [] then ''  adminAuth: null,''
          else line ''  adminAuth: {'' @ line (''    type: '' @ Quote P (aa_Type a) @ '','') @
            line ''    users: ['' @ user_entries P (aa_Users a) @ line ''    ],'' @
            (if aa_SessionExpiryTime a > 0
             then line (''    sessionExpiryTime: '' @ int_text (aa_SessionExpiryTime a) @ '','') else []) @
            ''  },'')"

definition renderHTTPBasicAuthBlock :: "(nat \<Rightarrow> bool) \<Rightarrow> string \<Rightarrow> HTTPBasicAuth option \<Rightarrow> string" where
  "renderHTTPBasicAuthBlock P name auth =
     (case auth of
        None \<Rightarrow> ''''
      | Some a \<Rightarrow> ''  '' @ name @ '': { user: '' @ Quote P (ba_User a) @ '', pass: '' @ Quote P (ba_Pass a) @ '' },'')"

section \<open>The editor theme\<close>

definition stringLit :: "(nat \<Rightarrow> bool) \<Rightarrow> json \<Rightarrow> string option" where
  "stringLit P v = map_option (Quote P) (as_string v)"

definition boolLit :: "json \<Rightarrow> string option" where
  "boolLit v = map_option bool_text (as_bool v)"

fun intLit :: "json \<Rightarrow> string option" where
  "intLit (JNum m e) = Some (int_text (float_int m e))"
| "intLit _ = None"

definition lit_part :: "string \<Rightarrow> string option \<Rightarrow> string list" where
  "lit_part name l = (case l of None \<Rightarrow> [] | Some s \<Rightarrow> [name @ '': '' @ s])"

definition strings_part :: "(nat \<Rightarrow> bool) \<Rightarrow> string \<Rightarrow> json \<Rightarrow> string list" where
  "strings_part P name v =
     (case v of
        JStr s \<Rightarrow> if s = '''' then [] else [name @ '': '' @ Quote P s]
      | JArr xs \<Rightarrow>
          (let quoted = List.map_filter (stringLit P) xs in
           if quoted = [] then [] else [name @ '': ['' @ Join quoted '', '' @ '']''])
      | _ \<Rightarrow> [])"

definition group_line :: "string \<Rightarrow> string list \<Rightarrow> string" where
  "group_line name parts =
     (if parts = [] then [] else line (''    '' @ name @ '': { '' @ Join parts '', '' @ '' },''))"

definition theme_group :: "(string \<times> json) list \<Rightarrow> string \<Rightarrow> ((string \<times> json) list \<Rightarrow> string) \<Rightarrow> string" where
  "theme_group theme name f = (case as_object (field theme name) of None \<Rightarrow> [] | Some g \<Rightarrow> f g)"

definition image_line :: "(nat \<Rightarrow> bool) \<Rightarrow> string \<Rightarrow> string \<Rightarrow> (string \<times> json) list \<Rightarrow> string" where
  "image_line P name prop g =
     (case stringLit P (field g prop) of
        None \<Rightarrow> []
      | Some s \<Rightarrow> if s = [DQ, DQ] then [] else line (''    '' @ name @ '': { '' @ prop @ '': '' @ s @ '' },''))"

definition code_editor_parts :: "(nat \<Rightarrow> bool) \<Rightarrow> (string \<times> json) list \<Rightarrow> string list" where
  "code_editor_parts P ce =
     lit_part ''lib'' (stringLit P (field ce ''lib'')) @
     (case as_object (field ce ''options'') of
        None \<Rightarrow> []
      | Some opts \<Rightarrow>
          (let optParts = lit_part ''theme'' (stringLit P (field opts ''theme'')) @
                          lit_part ''fontSize'' (intLit (field opts ''fontSize''))
           in if optParts = [] then [] else [''options: { '' @ Join optParts '', '' @ '' }'']))"

definition theme_projects :: "NodeRedConfig \<Rightarrow> (string \<times> json) list \<Rightarrow> bool" where
  "theme_projects cfg theme =
     (case as_object (field theme ''projects'') of
        None \<Rightarrow> ProjectsEnabled cfg
      | Some p \<Rightarrow> (case as_bool (field p ''enabled'') of None \<Rightarrow> ProjectsEnabled cfg | Some b \<Rightarrow> b))"

definition renderEditorThemeBlock :: "(nat \<Rightarrow> bool) \<Rightarrow> NodeRedConfig \<Rightarrow> string" where
  "renderEditorThemeBlock P cfg =
     (let theme = (case as_object (EditorTheme cfg) of None \<Rightarrow> [] | Some t \<Rightarrow> t);
          L = (\<lambda>g name. lit_part name (stringLit P (field g name)))
      in if theme = []
         then line ''  editorTheme: {'' @ line (''    projects: { enabled: '' @ bool_text (ProjectsEnabled cfg) @ '' },'') @ ''  },''
         else
           line ''  editorTheme: {'' @
           theme_group theme ''page'' (\<lambda>g. group_line ''page'' (L g ''title'' @ L g ''favicon'' @ strings_part P ''css'' (field g ''css''))) @
           theme_group theme ''header'' (\<lambda>g. group_line ''header'' (L g ''title'' @ L g ''image'' @ L g ''url'')) @
           theme_group theme ''deployButton'' (\<lambda>g. group_line ''deployButton'' (L g ''type'' @ L g ''label'' @ L g ''icon'')) @
           theme_group theme ''login'' (image_line P ''login'' ''image'') @
           theme_group theme ''logout'' (image_line P ''logout'' ''redirect'') @
           theme_group theme ''palette'' (\<lambda>g. group_line ''palette''
             (lit_part ''editable'' (boolLit (field g ''editable'')) @ strings_part P ''catalogues'' (field g ''catalogues''))) @
           line (''    projects: { enabled: '' @ bool_text (theme_projects cfg theme) @ '' },'') @
           theme_group theme ''codeEditor'' (\<lambda>g. group_line ''codeEditor'' (code_editor_parts P g)) @
           (case boolLit (field theme ''userMenu'') of None \<Rightarrow> [] | Some b \<Rightarrow> line (''    userMenu: '' @ b @ '','')) @
           (case boolLit (field theme ''tours'') of None \<Rightarrow> [] | Some b \<Rightarrow> line (''    tours: '' @ b @ '','')) @
           ''  },'')"

section \<open>Whole documents\<close>

definition generateSettingsJS :: "(nat \<Rightarrow> bool) \<Rightarrow> NodeRedConfig \<Rightarrow> string" where
  "generateSettingsJS P cfg =
     (let str = (\<lambda>k v. line (''  '' @ k @ '': '' @ Quote P v @ '',''));
          opt = (\<lambda>k v. if v = '''' then [] else str k v);
          env = renderEnvBlock P cfg;
          logging = renderLoggingBlock (loggingModelOrDefault (LoggingF cfg))
      in
      line ''module.exports = {'' @
      line (''  uiPort: '' @ int_text (Port cfg) @ '','') @
      opt ''uiHost'' (UIHost cfg) @
      str ''httpAdminRoot'' (HTTPAdminRoot cfg) @
      str ''httpNodeRoot'' (HTTPNodeRoot cfg) @
      opt ''flowFile'' (FlowFile cfg) @
      opt ''userDir'' (UserDir cfg) @
      opt ''nodesDir'' (NodesDir cfg) @
      line (''  disableEditor: '' @ bool_text (DisableEditor cfg) @ '','') @
      line (''  projectsEnabled: '' @ bool_text (ProjectsEnabled cfg) @ '','') @
      opt ''lang'' (Lang cfg) @
      (if env = '''' then [] else line env) @
      line (renderAdminAuthBlock P cfg) @
      (if HTTPNodeAuth cfg = None then [] else line (renderHTTPBasicAuthBlock P ''httpNodeAuth'' (HTTPNodeAuth cfg))) @
      (if HTTPStaticAuth cfg = None then [] else line (renderHTTPBasicAuthBlock P ''httpStaticAuth'' (HTTPStaticAuth cfg))) @
      line ''  editorTheme: {'' @
      line (''    projects: { enabled: '' @ bool_text (ProjectsEnabled cfg) @ '' },'') @
      line ''  },'' @
      (if logging = '''' then [] else line logging) @
      line ''}'')"

definition renderSettingsJS :: "(nat \<Rightarrow> bool) \<Rightarrow> NodeRedConfig \<Rightarrow> string" where
  "renderSettingsJS P cfg = generateSettingsJS P cfg"

definition patchSettingsJS :: "(nat \<Rightarrow> bool) \<Rightarrow> string \<Rightarrow> NodeRedConfig \<Rightarrow> string option" where
  "patchSettingsJS P existingContent cfg =
     (let set_str = (\<lambda>k v c. replaceScalarKey c k (Quote P v));
          set_opt = (\<lambda>k v c. if v = '''' then c else replaceScalarKey c k (Quote P v));
          set_bool = (\<lambda>k b c. replaceScalarKey c k (bool_text b));
          c = existingContent;
          c = replaceScalarKey c ''uiPort'' (int_text (Port cfg));
          c = set_opt ''uiHost'' (UIHost cfg) c;
          c = set_str ''httpAdminRoot'' (HTTPAdminRoot cfg) c;
          c = set_str ''httpNodeRoot'' (HTTPNodeRoot cfg) c;
          c = set_opt ''flowFile'' (FlowFile cfg) c;
          c = set_opt ''userDir'' (UserDir cfg) c;
          c = set_opt ''nodesDir'' (NodesDir cfg) c;
          c = set_bool ''disableEditor'' (DisableEditor cfg) c;
          c = set_bool ''projectsEnabled'' (ProjectsEnabled cfg) c;
          c = set_opt ''lang'' (Lang cfg) c;
          c = (if CredentialSecret cfg = '''' then c
               else if CredentialSecret cfg = ''false'' then replaceScalarKey c ''credentialSecret'' ''false''
               else set_str ''credentialSecret'' (CredentialSecret cfg) c);
          c = set_bool ''requireHttps'' (RequireHttps cfg) c;
          c = (let block = renderHttpsBlock P cfg in
               if block \<noteq> '''' then replaceBlockKey c ''https'' block else removeObjectKey c ''https'');
          c = (let block = renderEnvBlock P cfg in
               if block \<noteq> '''' then replaceArrayKey c ''env'' block else removeArrayKey c ''env'');
          c = (if AdminAuthF cfg = None then c else replaceBlockKey c ''adminAuth'' (renderAdminAuthBlock P cfg));
          c = (if HTTPNodeAuth cfg = None then c
               else replaceBlockKey c ''httpNodeAuth'' (renderHTTPBasicAuthBlock P ''httpNodeAuth'' (HTTPNodeAuth cfg)));
          c = (if HTTPStaticAuth cfg = None then c
               else replaceBlockKey c ''httpStaticAuth'' (renderHTTPBasicAuthBlock P ''httpStaticAuth'' (HTTPStaticAuth cfg)));
          c = replaceBlockKey c ''editorTheme'' (renderEditorThemeBlock P cfg)
      in map_option (\<lambda>c. ensureHTTPStatic P c ''uploads'') (patchLoggingSettings c (LoggingF cfg)))"

section \<open>Parsers\<close>

definition key_value_re :: "string \<Rightarrow> re \<Rightarrow> re" where
  "key_value_re key v = seqs [Lit key, Spaces, Lit '':'', Spaces, v]"

definition bool_re :: re where
  "bool_re = Grp 1 (Alt (Lit ''true'') (Lit ''false''))"

definition quotes :: re where "quotes = OneOf [SQ, DQ]"

definition parseStringFromJS :: "string \<Rightarrow> string \<Rightarrow> string \<Rightarrow> string" where
  "parseStringFromJS content key fallback =
     (case FindSubmatch (key_value_re key (seqs [quotes, Grp 1 (Plus (NoneOf [SQ, DQ])), quotes])) content of
        None \<Rightarrow> fallback | Some m \<Rightarrow> m 1)"

definition parseIntFromJS :: "string \<Rightarrow> string \<Rightarrow> int \<Rightarrow> int" where
  "parseIntFromJS content key fallback =
     (case FindSubmatch (key_value_re key (Grp 1 (Plus (Cls is_dec)))) content of
        None \<Rightarrow> fallback
      | Some m \<Rightarrow> (case Atoi_digits (m 1) of None \<Rightarrow> fallback | Some n \<Rightarrow> n))"

definition parseBoolFromJS :: "string \<Rightarrow> string \<Rightarrow> bool \<Rightarrow> bool" where
  "parseBoolFromJS content key fallback =
     (case FindSubmatch (key_value_re key bool_re) content of None \<Rightarrow> fallback | Some m \<Rightarrow> m 1 = ''true'')"

definition nested_projects_re :: re where
  "nested_projects_re =
     seqs [Lit ''editorTheme'', Spaces, Lit '':'', Spaces, Lit ''{'', Star (NoneOf [CHR ''}'']),
       Lit ''projects'', Spaces, Lit '':'', Spaces, Lit ''{'', Star (NoneOf [CHR ''}'']),
       Lit ''enabled'', Spaces, Lit '':'', Spaces, bool_re]"

definition parseProjectsEnabledFromJS :: "string \<Rightarrow> bool \<Rightarrow> bool" where
  "parseProjectsEnabledFromJS content fallback =
     (case FindSubmatch (key_value_re ''projectsEnabled'' bool_re) content of
        Some m \<Rightarrow> m 1 = ''true''
      | None \<Rightarrow>
          (case FindSubmatch nested_projects_re content of
             Some m \<Rightarrow> m 1 = ''true''
           | None \<Rightarrow> fallback))"

definition parseCredentialSecretFromJS :: "string \<Rightarrow> string" where
  "parseCredentialSecretFromJS content =
     (case FindSubmatch (key_value_re ''credentialSecret''
             (Alt (seqs [Lit [SQ], Grp 1 (Star (NoneOf [SQ])), Lit [SQ]])
                  (seqs [Lit [DQ], Grp 2 (Star (NoneOf [DQ])), Lit [DQ]]))) content of
        Some m \<Rightarrow> if m 1 \<noteq> '''' then m 1 else m 2
      | None \<Rightarrow> if MatchString (key_value_re ''credentialSecret'' (Lit ''false'')) content then ''false'' else '''')"

definition word_group :: re where "word_group = Grp 1 (Plus (Cls is_word))"

definition read_file_re :: re where
  "read_file_re =
     seqs [word_group, Spaces, Lit '':'', Spaces, Lit ''require('', quotes, Lit ''fs'', quotes,
       Lit '').readFileSync('', quotes, Grp 2 (Plus (NoneOf [SQ, DQ])), quotes, Lit '')'']"

definition quoted_scalar_re :: re where
  "quoted_scalar_re = seqs [word_group, Spaces, Lit '':'', Spaces, quotes, Grp 2 (Plus (NoneOf [SQ, DQ])), quotes]"

definition https_path :: "string \<Rightarrow> match_result \<Rightarrow> HttpsConfig \<Rightarrow> HttpsConfig" where
  "https_path body m h =
     (let k = group body m 1; v = group body m 2 in
      if k = ''key'' then h\<lparr>hs_Key := v\<rparr> else if k = ''cert'' then h\<lparr>hs_Cert := v\<rparr>
      else if k = ''ca'' then h\<lparr>hs_CA := v\<rparr> else h)"

definition parseHttpsBlockFromJS :: "string \<Rightarrow> HttpsConfig option" where
  "parseHttpsBlockFromJS content =
     (case findTopLevelBlock content ''https'' of
        None \<Rightarrow> None
      | Some (start, end) \<Rightarrow>
          (let body = take (end - start) (drop start content);
               h = fold (https_path body) (FindAll read_file_re body)
                     \<lparr>hs_Key = '''', hs_Cert = '''', hs_CA = '''', hs_Port = 0, hs_Passphrase = ''''\<rparr>;
               h = fold (\<lambda>m h. if group body m 1 = ''passphrase'' then h\<lparr>hs_Passphrase := group body m 2\<rparr> else h)
                     (FindAll quoted_scalar_re body) h;
               h = h\<lparr>hs_Port := parseIntFromJS body ''port'' 0\<rparr>
           in if hs_Key h = '''' \<and> hs_Cert h = '''' \<and> hs_CA h = '''' \<and> hs_Port h = 0 \<and> hs_Passphrase h = ''''
              then None else Some h))"

definition parseConfigFromContent :: "engine \<Rightarrow> string \<Rightarrow> NodeRedConfig result" where
  "parseConfigFromContent goja content =
     (let d = DefaultNodeRedConfig;
          port = parseIntFromJS content ''uiPort'' (parseIntFromJS content ''port'' (Port d));
          cfg = d\<lparr>Port := port, UIPort := port,
            UIHost := parseStringFromJS content ''uiHost'' (UIHost d),
            HTTPAdminRoot := parseStringFromJS content ''httpAdminRoot'' (HTTPAdminRoot d),
            HTTPNodeRoot := parseStringFromJS content ''httpNodeRoot'' (HTTPNodeRoot d),
            FlowFile := parseStringFromJS content ''flowFile'' (FlowFile d),
            UserDir := parseStringFromJS content ''userDir'' (UserDir d),
            NodesDir := parseStringFromJS content ''nodesDir'' (NodesDir d),
            Lang := parseStringFromJS content ''lang'' (Lang d),
            DisableEditor := parseBoolFromJS content ''disableEditor'' (DisableEditor d),
            ProjectsEnabled := parseProjectsEnabledFromJS content (ProjectsEnabled d),
            CredentialSecret := parseCredentialSecretFromJS content,
            RequireHttps := parseBoolFromJS content ''requireHttps'' False,
            Https := parseHttpsBlockFromJS content\<rparr>
      in case parseLoggingBlock content of
           None \<Rightarrow> Inl (Sentinel GoPanic)
         | Some logging \<Rightarrow>
             (let cfg = (if logging = [] then cfg else cfg\<lparr>LoggingF := logging_value logging\<rparr>) in
              case parseAuthenticationSurfacesFromJS goja content of
                Inl e \<Rightarrow> Inl e
              | Inr None \<Rightarrow> Inr cfg
              | Inr (Some s) \<Rightarrow>
                  Inr (cfg\<lparr>AdminAuthF := as_AdminAuth s, HTTPNodeAuth := as_HTTPNodeAuth s,
                           HTTPStaticAuth := as_HTTPStaticAuth s\<rparr>)))"

end
