(* ===== verification/Reconcile.thy ===== *)
theory Reconcile
  imports ConfigText
begin

text \<open>
  Re-deriving the structured mirror from an applied settings.js: the pure part of
  src/internal/service/config_reconcile.go.  \<open>exported\<close> is the sandbox export of the source, or
  \<^const>\<open>None\<close> when the source could not be evaluated.  \<open>sprint\<close> is \<open>fmt.Sprint\<close> on arrays and objects.
\<close>

definition reconcilableSourceKeys :: "string list" where
  "reconcilableSourceKeys =
     [''uiPort'', ''port'', ''uiHost'', ''httpAdminRoot'', ''httpNodeRoot'', ''flowFile'', ''userDir'',
      ''nodesDir'', ''lang'', ''disableEditor'', ''projectsEnabled'', ''credentialSecret'', ''requireHttps'',
      ''https'', ''adminAuth'', ''httpNodeAuth'', ''httpStaticAuth'', ''editorTheme'', ''env'', ''logging'']"

definition ident_start :: "char \<Rightarrow> bool" where
  "ident_start c = (let n = (of_char c :: nat) in
     65 \<le> n \<and> n \<le> 90 \<or> 97 \<le> n \<and> n \<le> 122 \<or> c = CHR ''_'' \<or> c = CHR ''$'')"

definition sourceKeyPattern :: re where
  "sourceKeyPattern =
     seqs [WordB, Grp 1 (Seq (Cls ident_start) (Star (Cls (\<lambda>c. ident_start c \<or> is_dec c)))), Spaces, Lit '':'']"

definition declaredSourceKeys :: "string \<Rightarrow> (string \<times> json) list option \<Rightarrow> string list" where
  "declaredSourceKeys content exported =
     (case exported of
        Some fs \<Rightarrow> filter (\<lambda>k. map_of fs k \<noteq> None) reconcilableSourceKeys
      | None \<Rightarrow> map (\<lambda>m. group content m 1) (FindAll sourceKeyPattern content))"

section \<open>Environment variables\<close>

definition envTypeFromSource :: "string \<Rightarrow> string" where
  "envTypeFromSource kind =
     (if kind = ''str'' \<or> kind = ''string'' then ''string''
      else if kind = ''num'' \<or> kind = ''number'' then ''number''
      else if kind = ''bool'' \<or> kind = ''boolean'' then ''boolean''
      else if kind = ''secret'' then ''secret''
      else ''string'')"

fun envValueType :: "json \<Rightarrow> string" where
  "envValueType (JBool _) = ''boolean''"
| "envValueType (JNum _ _) = ''number''"
| "envValueType _ = ''string''"

fun envValueString :: "(json \<Rightarrow> string) \<Rightarrow> json \<Rightarrow> string" where
  "envValueString sprint (JStr s) = s"
| "envValueString sprint (JBool b) = bool_text b"
| "envValueString sprint (JNum m e) = float_text m e"
| "envValueString sprint JNull = ''''"
| "envValueString sprint v = sprint v"

definition new_env :: "string \<Rightarrow> string \<Rightarrow> string \<Rightarrow> EnvVar" where
  "new_env k v t = \<lparr>ev_Key = k, ev_Value = v, ev_Type = t, ev_Description = '''', ev_Encrypted = False,
     ev_Source = ''''\<rparr>"

definition env_entry :: "(json \<Rightarrow> string) \<Rightarrow> json \<Rightarrow> EnvVar option" where
  "env_entry sprint entry =
     (case as_object entry of
        None \<Rightarrow> None
      | Some fs \<Rightarrow>
          (case as_string (field fs ''name'') of
             None \<Rightarrow> None
           | Some name \<Rightarrow>
               if name = '''' then None
               else Some (new_env name
                 (case as_string (field fs ''value'') of
                    Some t \<Rightarrow> t | None \<Rightarrow> envValueString sprint (field fs ''value''))
                 (case as_string (field fs ''type'') of
                    Some kind \<Rightarrow> envTypeFromSource kind | None \<Rightarrow> envValueType (field fs ''value'')))))"

definition envVarsFromSource :: "(json \<Rightarrow> string) \<Rightarrow> json \<Rightarrow> EnvVar list" where
  "envVarsFromSource sprint value =
     (case value of
        JObj block \<Rightarrow>
          map (\<lambda>key. new_env key (envValueString sprint (field block key)) (envValueType (field block key)))
            (sort (remdups (map fst block)))
      | JArr block \<Rightarrow> List.map_filter (env_entry sprint) block
      | _ \<Rightarrow> [])"

text \<open>The position of a key: Go's \<open>index\<close> map holds the last one when \<open>current\<close> repeats a key.\<close>

definition adopt :: "EnvVar \<Rightarrow> EnvVar \<Rightarrow> EnvVar" where
  "adopt existing v =
     (if ev_Encrypted existing \<or> ev_Type existing = ''secret'' then existing
      else existing\<lparr>ev_Value := ev_Value v,
                    ev_Type := (if ev_Type v \<noteq> '''' then ev_Type v else ev_Type existing)\<rparr>)"

fun adopt_last :: "EnvVar \<Rightarrow> EnvVar list \<Rightarrow> EnvVar list option" where
  "adopt_last v [] = None"
| "adopt_last v (x # xs) =
     (case adopt_last v xs of
        Some xs' \<Rightarrow> Some (x # xs')
      | None \<Rightarrow> if ev_Key x = ev_Key v then Some (adopt x v # xs) else None)"

definition merge_env :: "EnvVar \<Rightarrow> EnvVar list \<Rightarrow> EnvVar list" where
  "merge_env v merged = (case adopt_last v merged of None \<Rightarrow> merged @ [v] | Some m \<Rightarrow> m)"

definition mergeEnvVars :: "EnvVar list \<Rightarrow> EnvVar list \<Rightarrow> EnvVar list" where
  "mergeEnvVars current source = fold merge_env source current"

section \<open>The merge\<close>

definition reconcileConfigWithSource ::
    "(json \<Rightarrow> string) \<Rightarrow> NodeRedConfig \<Rightarrow> NodeRedConfig \<Rightarrow> string \<Rightarrow> (string \<times> json) list option \<Rightarrow> NodeRedConfig" where
  "reconcileConfigWithSource sprint current parsed content exported =
     (let declared = (\<lambda>k. k \<in> set (declaredSourceKeys content exported)) in
      current\<lparr>
        Port := (if declared ''uiPort'' \<or> declared ''port'' then Port parsed else Port current),
        UIPort := (if declared ''uiPort'' \<or> declared ''port'' then UIPort parsed else UIPort current),
        UIHost := (if declared ''uiHost'' then UIHost parsed else UIHost current),
        HTTPAdminRoot := (if declared ''httpAdminRoot'' then HTTPAdminRoot parsed else HTTPAdminRoot current),
        HTTPNodeRoot := (if declared ''httpNodeRoot'' then HTTPNodeRoot parsed else HTTPNodeRoot current),
        FlowFile := (if declared ''flowFile'' then FlowFile parsed else FlowFile current),
        UserDir := (if declared ''userDir'' then UserDir parsed else UserDir current),
        NodesDir := (if declared ''nodesDir'' then NodesDir parsed else NodesDir current),
        Lang := (if declared ''lang'' then Lang parsed else Lang current),
        DisableEditor := (if declared ''disableEditor'' then DisableEditor parsed else DisableEditor current),
        ProjectsEnabled := (if declared ''projectsEnabled'' then ProjectsEnabled parsed else ProjectsEnabled current),
        CredentialSecret := (if declared ''credentialSecret'' then CredentialSecret parsed else CredentialSecret current),
        RequireHttps := (if declared ''requireHttps'' then RequireHttps parsed else RequireHttps current),
        Https := (if declared ''https'' then Https parsed else Https current),
        LoggingF := (if declared ''logging'' then LoggingF parsed else LoggingF current),
        AdminAuthF := (if declared ''adminAuth'' then AdminAuthF parsed else AdminAuthF current),
        HTTPNodeAuth := (if declared ''httpNodeAuth'' then HTTPNodeAuth parsed else HTTPNodeAuth current),
        HTTPStaticAuth := (if declared ''httpStaticAuth'' then HTTPStaticAuth parsed else HTTPStaticAuth current),
        EditorTheme := (case exported of
            None \<Rightarrow> EditorTheme current
          | Some fs \<Rightarrow> if declared ''editorTheme''
                      then (case map_of fs ''editorTheme'' of None \<Rightarrow> EditorTheme current | Some v \<Rightarrow> v)
                      else EditorTheme current),
        EnvVars := (case exported of
            None \<Rightarrow> EnvVars current
          | Some fs \<Rightarrow> if declared ''env''
                      then (case map_of fs ''env'' of
                              None \<Rightarrow> EnvVars current
                            | Some v \<Rightarrow> mergeEnvVars (EnvVars current) (envVarsFromSource sprint v))
                      else EnvVars current)\<rparr>)"

section \<open>Properties of the environment merge\<close>

lemma adopt_last_keys: "adopt_last v xs = Some ys \<Longrightarrow> map ev_Key ys = map ev_Key xs"
  by (induction xs arbitrary: ys) (auto simp: adopt_def split: option.splits if_splits)

lemma adopt_last_None: "adopt_last v xs = None \<longleftrightarrow> ev_Key v \<notin> ev_Key ` set xs"
  by (induction xs) (auto split: option.splits)

lemma adopt_last_protected:
  "adopt_last v xs = Some ys \<Longrightarrow> x \<in> set xs \<Longrightarrow> ev_Encrypted x \<or> ev_Type x = ''secret'' \<Longrightarrow> x \<in> set ys"
  by (induction xs arbitrary: ys) (auto simp: adopt_def split: option.splits if_splits)

lemma merge_env_protected:
  "x \<in> set xs \<Longrightarrow> ev_Encrypted x \<or> ev_Type x = ''secret'' \<Longrightarrow> x \<in> set (merge_env v xs)"
  by (auto simp: merge_env_def dest: adopt_last_protected split: option.splits)

lemma merge_env_keys:
  "map ev_Key (merge_env v xs) = (if ev_Key v \<in> ev_Key ` set xs then map ev_Key xs else map ev_Key xs @ [ev_Key v])"
  by (auto simp: merge_env_def adopt_last_None dest: adopt_last_keys split: option.splits)
     (metis adopt_last_None image_eqI option.distinct(1))+

end
