(* ===== verification/AtomicWrite.thy ===== *)
theory AtomicWrite
  imports FileSystem
begin

text \<open>
  Replacing settings.js and keeping recovery points: src/internal/service/apply_atomic.go
  (temporary sibling, symlink checks, rename, directory sync), apply_snapshot.go (exclusive,
  collision-resistant snapshots), and the file helpers of apply.go and apply_rollback.go.

  Every function takes the world and returns a result and the world after it.  The deferred
  cleanup of \<open>AtomicWriteSettings\<close> runs on every return after the temporary file was written and
  before it was published.
\<close>

section \<open>Boundary checks\<close>

definition validateSettingsPath :: "string \<Rightarrow> go_error option" where
  "validateSettingsPath path =
     (let cleaned = Clean path in
      if cleaned \<noteq> path then Some (ErrWrap ''is not clean'' (Sentinel ErrSettingsPathInvalid))
      else if ''..'' \<in> set (Split cleaned SLASH)
      then Some (ErrWrap ''contains traversal component'' (Sentinel ErrSettingsPathInvalid))
      else None)"

definition assertNotSymlink :: "string \<Rightarrow> 'w world_scheme \<Rightarrow> unit result \<times> 'w world_scheme" where
  "assertNotSymlink path w =
     (case Lstat path w of
        (Inl e, w) \<Rightarrow> if errors_is e ErrNotExist then (Inr (), w) else (Inl (ErrWrap ''lstat'' e), w)
      | (Inr link, w) \<Rightarrow> if link then (Inl (ErrWrap path (Sentinel ErrSettingsSymlinkRejected)), w)
                         else (Inr (), w))"

function assertParentsNotSymlink :: "string \<Rightarrow> 'w world_scheme \<Rightarrow> unit result \<times> 'w world_scheme" where
  "assertParentsNotSymlink current w =
     (let parent = Dir current in
      if parent = current \<or> parent = '''' \<or> parent = ''.'' then (Inr (), w)
      else case assertNotSymlink parent w of
          (Inl e, w) \<Rightarrow> (Inl (ErrWrap ''parent'' (Sentinel ErrSettingsSymlinkRejected)), w)
        | (Inr _, w) \<Rightarrow> assertParentsNotSymlink parent w)"
  by pat_completeness auto
termination
  by (relation "measure (\<lambda>(p, w). length p)") (auto intro: Dir_shorter)

declare assertParentsNotSymlink.simps [simp del]

definition assertDestinationNotSymlink :: "string \<Rightarrow> 'w world_scheme \<Rightarrow> unit result \<times> 'w world_scheme" where
  "assertDestinationNotSymlink path w =
     (case assertNotSymlink path w of
        (Inl e, w) \<Rightarrow> (Inl e, w)
      | (Inr _, w) \<Rightarrow> assertParentsNotSymlink path w)"

section \<open>The atomic write\<close>

definition syncParentDir :: "'w world_scheme \<Rightarrow> unit result \<times> 'w world_scheme" where
  "syncParentDir w =
     (case sys_call w of
        (Inl e, w) \<Rightarrow> (Inl e, w)
      | (Inr _, w) \<Rightarrow> (case sys_call w of (r, w) \<Rightarrow> (r, snd (sys_call w))))"

definition writeSettingsTmp :: "string \<Rightarrow> string \<Rightarrow> 'w world_scheme \<Rightarrow> string result \<times> 'w world_scheme" where
  "writeSettingsTmp path content w =
     (case randomHex 8 w of
        (Inl e, w) \<Rightarrow> (Inl (ErrWrap ''generate tmp suffix'' e), w)
      | (Inr suffix, w) \<Rightarrow>
          (let tmpPath = path @ ''.apply-'' @ suffix in
           case OpenTrunc tmpPath w of
             (Inl e, w) \<Rightarrow> (Inl (ErrWrap ''open tmp'' e), w)
           | (Inr _, w) \<Rightarrow>
               (case WriteTo tmpPath content w of
                  (Inl e, w) \<Rightarrow> (Inl (ErrWrap ''write tmp'' e), snd (sys_call w))
                | (Inr _, w) \<Rightarrow>
                    (case sys_call w of
                       (Inl e, w) \<Rightarrow> (Inl (ErrWrap ''fsync tmp'' e), snd (sys_call w))
                     | (Inr _, w) \<Rightarrow>
                         (case sys_call w of
                            (Inl e, w) \<Rightarrow> (Inl (ErrWrap ''close tmp'' e), w)
                          | (Inr _, w) \<Rightarrow> (Inr tmpPath, w))))))"

text \<open>The part of \<open>AtomicWriteSettings\<close> after the temporary file was written; \<open>publish\<close> is the part
  after the checks.\<close>

definition publishSettings :: "string \<Rightarrow> string \<Rightarrow> 'w world_scheme \<Rightarrow> unit result \<times> 'w world_scheme" where
  "publishSettings tmpPath path w =
     (case Rename tmpPath path w of
        (Inl e, w) \<Rightarrow> (Inl (ErrWrap ''rename tmp'' e), snd (Remove tmpPath w))
      | (Inr _, w) \<Rightarrow>
          (case syncParentDir w of
             (Inl e, w) \<Rightarrow> (Inl (ErrWrap ''fsync parent dir'' e), w)
           | (Inr _, w) \<Rightarrow>
               (case sys_call w of
                  (Inl e, w) \<Rightarrow> (Inl (ErrWrap ''chmod'' e), w)
                | (Inr _, w) \<Rightarrow> (Inr (), w))))"

definition AtomicWriteSettings ::
    "ctx \<Rightarrow> string \<Rightarrow> string \<Rightarrow> 'w world_scheme \<Rightarrow> unit result \<times> 'w world_scheme" where
  "AtomicWriteSettings ctx path content w =
     (if path = '''' then (Inl (ErrWrap ''path is empty'' (Sentinel ErrSettingsPathInvalid)), w)
      else case validateSettingsPath path of
        Some e \<Rightarrow> (Inl e, w)
      | None \<Rightarrow>
          (case sys_call w of
             (Inl e, w) \<Rightarrow> (Inl (ErrWrap ''create parent dir'' e), w)
           | (Inr _, w) \<Rightarrow>
               (case writeSettingsTmp path content w of
                  (Inl e, w) \<Rightarrow> (Inl e, w)
                | (Inr tmpPath, w) \<Rightarrow>
                    (case ctx_Err ctx w of
                       Some e \<Rightarrow> (Inl e, snd (Remove tmpPath w))
                     | None \<Rightarrow>
                         (case assertDestinationNotSymlink path w of
                            (Inl e, w) \<Rightarrow> (Inl e, snd (Remove tmpPath w))
                          | (Inr _, w) \<Rightarrow> publishSettings tmpPath path w)))))"

section \<open>Snapshots\<close>

definition settingsSnapshotAttempts :: nat where "settingsSnapshotAttempts = 8"

definition settingsSnapshotTokenBytes :: nat where "settingsSnapshotTokenBytes = 6"

text \<open>The time stamp arrives formatted (\<open>20060102-150405\<close>).\<close>

definition settingsSnapshotName :: "string \<Rightarrow> 'w world_scheme \<Rightarrow> string result \<times> 'w world_scheme" where
  "settingsSnapshotName stamp w =
     (case randomHex settingsSnapshotTokenBytes w of
        (Inl e, w) \<Rightarrow> (Inl (ErrWrap ''generate snapshot token'' e), w)
      | (Inr token, w) \<Rightarrow> (Inr (''settings-'' @ stamp @ ''-'' @ token @ ''.js.bak''), w))"

definition writeFileExclusive :: "string \<Rightarrow> string \<Rightarrow> 'w world_scheme \<Rightarrow> unit result \<times> 'w world_scheme" where
  "writeFileExclusive path data w =
     (case OpenExcl path w of
        (Inl e, w) \<Rightarrow> (Inl (ErrWrap ''create'' e), w)
      | (Inr _, w) \<Rightarrow>
          (case WriteTo path data w of
             (Inl e, w) \<Rightarrow> (Inl (ErrWrap ''write'' e), snd (Remove path (snd (sys_call w))))
           | (Inr _, w) \<Rightarrow>
               (case sys_call w of
                  (Inl e, w) \<Rightarrow> (Inl (ErrWrap ''fsync'' e), snd (Remove path (snd (sys_call w))))
                | (Inr _, w) \<Rightarrow>
                    (case sys_call w of
                       (Inl e, w) \<Rightarrow> (Inl (ErrWrap ''close'' e), snd (Remove path w))
                     | (Inr _, w) \<Rightarrow>
                         (case syncParentDir w of
                            (Inl e, w) \<Rightarrow> (Inl (ErrWrap ''fsync dir'' e), w)
                          | (Inr _, w) \<Rightarrow> (Inr (), w))))))"

definition createSnapshotFile :: "string \<Rightarrow> string \<Rightarrow> 'w world_scheme \<Rightarrow> unit result \<times> 'w world_scheme" where
  "createSnapshotFile target data w = writeFileExclusive target data w"

fun snapshot_attempts ::
    "nat \<Rightarrow> string \<Rightarrow> string \<Rightarrow> string \<Rightarrow> go_error \<Rightarrow> 'w world_scheme \<Rightarrow> string result \<times> 'w world_scheme" where
  "snapshot_attempts 0 dir stamp data lastErr w =
     (Inl (ErrWrap ''create settings snapshot'' lastErr), w)"
| "snapshot_attempts (Suc n) dir stamp data lastErr w =
     (case settingsSnapshotName stamp w of
        (Inl e, w) \<Rightarrow> (Inl e, w)
      | (Inr fileName, w) \<Rightarrow>
          (let target = JoinPath [dir, fileName] in
           case createSnapshotFile target data w of
             (Inl e, w) \<Rightarrow> if \<not> errors_is e ErrExist then (Inl e, w)
                           else snapshot_attempts n dir stamp data e w
           | (Inr _, w) \<Rightarrow> (Inr target, w)))"

definition writeSettingsSnapshot ::
    "string \<Rightarrow> string \<Rightarrow> string \<Rightarrow> 'w world_scheme \<Rightarrow> string result \<times> 'w world_scheme" where
  "writeSettingsSnapshot dir stamp data w =
     (if dir = '''' then (Inl (ErrText ''create settings snapshot: backup directory is empty''), w)
      else case sys_call w of
          (Inl e, w) \<Rightarrow> (Inl (ErrWrap ''create backup dir'' e), w)
        | (Inr _, w) \<Rightarrow>
            snapshot_attempts settingsSnapshotAttempts dir stamp data (ErrText ''nil'') w)"

section \<open>Restoring\<close>

definition restoreSourceBytes ::
    "ctx \<Rightarrow> string \<Rightarrow> string \<Rightarrow> bool \<Rightarrow> 'w world_scheme \<Rightarrow> unit result \<times> 'w world_scheme" where
  "restoreSourceBytes ctx path previous existed w =
     (if \<not> existed then
        (case Remove path w of
           (Inl e, w) \<Rightarrow> if \<not> errors_is e ErrNotExist then (Inl e, w) else (Inr (), w)
         | (Inr _, w) \<Rightarrow> (Inr (), w))
      else AtomicWriteSettings ctx path previous w)"

definition restoreSnapshotContext ::
    "ctx \<Rightarrow> string \<Rightarrow> string \<Rightarrow> 'w world_scheme \<Rightarrow> unit result \<times> 'w world_scheme" where
  "restoreSnapshotContext ctx backupPath activePath w =
     (case validateSettingsPath backupPath of
        Some e \<Rightarrow> (Inl e, w)
      | None \<Rightarrow>
          (case validateSettingsPath activePath of
             Some e \<Rightarrow> (Inl e, w)
           | None \<Rightarrow>
               (case ReadFile backupPath w of
                  (Inl e, w) \<Rightarrow> (Inl (ErrWrap ''read backup'' e), w)
                | (Inr data, w) \<Rightarrow> AtomicWriteSettings ctx activePath data w)))"

definition copyFileExclusive :: "string \<Rightarrow> string \<Rightarrow> 'w world_scheme \<Rightarrow> unit result \<times> 'w world_scheme" where
  "copyFileExclusive src dst w =
     (case Stat src w of
        (Inl e, w) \<Rightarrow> if errors_is e ErrNotExist then (Inr (), w) else (Inl (ErrWrap ''stat'' e), w)
      | (Inr _, w) \<Rightarrow>
          (case sys_call w of
             (Inl e, w) \<Rightarrow> (Inl (ErrWrap ''mkdir'' e), w)
           | (Inr _, w) \<Rightarrow>
               (case ReadFile src w of
                  (Inl e, w) \<Rightarrow> (Inl (ErrWrap ''read'' e), w)
                | (Inr data, w) \<Rightarrow> writeFileExclusive dst data w)))"

definition failedSiblingPath :: "string \<Rightarrow> string \<Rightarrow> 'w world_scheme \<Rightarrow> string result \<times> 'w world_scheme" where
  "failedSiblingPath activePath stamp w =
     (case randomHex settingsSnapshotTokenBytes w of
        (Inl e, w) \<Rightarrow> (Inl (ErrWrap ''generate failed sibling token'' e), w)
      | (Inr token, w) \<Rightarrow> (Inr (activePath @ ''.failed-'' @ stamp @ ''-'' @ token), w))"

section \<open>What the operations leave behind\<close>

lemmas fs_splits = prod.splits sum.splits option.splits if_splits

lemma assertNotSymlink_post:
  "assertNotSymlink path w = (r, w') \<Longrightarrow>
     files w' = files w \<and> world.more w' = world.more w \<and> links w' = links w \<and>
     (r = Inr () \<longrightarrow> \<not> links w path)"
  by (auto simp: assertNotSymlink_def Lstat_def sys_call_def split: fs_splits)

lemma assertParentsNotSymlink_post:
  "assertParentsNotSymlink p w = (r, w') \<Longrightarrow>
     files w' = files w \<and> world.more w' = world.more w \<and> links w' = links w"
proof (induction p w arbitrary: r w' rule: assertParentsNotSymlink.induct)
  case (1 current w)
  show ?case
  proof (cases "Dir current = current \<or> Dir current = '''' \<or> Dir current = ''.''")
    case True
    then show ?thesis using 1(2) by (auto simp: assertParentsNotSymlink.simps [of current] Let_def)
  next
    case False
    obtain r1 w1 where a: "assertNotSymlink (Dir current) w = (r1, w1)" by force
    note post = assertNotSymlink_post [OF a]
    show ?thesis
    proof (cases r1)
      case (Inl e)
      then show ?thesis
        using False a post 1(2) by (auto simp: assertParentsNotSymlink.simps [of current] Let_def)
    next
      case (Inr u)
      have "assertParentsNotSymlink (Dir current) w1 = (r, w')"
        using False a Inr 1(2) by (simp add: assertParentsNotSymlink.simps [of current] Let_def)
      from 1(1) [OF refl False a [symmetric] Inr this] post show ?thesis by simp
    qed
  qed
qed

lemma assertDestinationNotSymlink_post:
  "assertDestinationNotSymlink path w = (r, w') \<Longrightarrow>
     files w' = files w \<and> world.more w' = world.more w \<and> (r = Inr () \<longrightarrow> \<not> links w path)"
  by (auto simp: assertDestinationNotSymlink_def dest!: assertNotSymlink_post
      assertParentsNotSymlink_post split: fs_splits)

lemma ex_hex_token: "\<exists>t. hex_token n t"
  by (rule exI, rule hex_token_encode)

lemma Remove_snd:
  "world.more (snd (Remove t w)) = world.more w"
  "p \<noteq> t \<Longrightarrow> files (snd (Remove t w)) p = files w p"
  using Remove_post [of t w "fst (Remove t w)" "snd (Remove t w)"]
    Remove_more [of t w "fst (Remove t w)" "snd (Remove t w)"] by auto

lemma syncParentDir_post:
  "syncParentDir w = (r, w') \<Longrightarrow> files w' = files w \<and> world.more w' = world.more w"
  by (auto simp: syncParentDir_def sys_call_def split: fs_splits)

lemma writeSettingsTmp_post:
  assumes "writeSettingsTmp path content w = (r, w')"
  shows "world.more w' = world.more w \<and>
     (\<exists>tok. hex_token 8 tok \<and> (\<forall>p. p \<noteq> path @ ''.apply-'' @ tok \<longrightarrow> files w' p = files w p) \<and>
        (\<forall>t. r = Inr t \<longrightarrow> t = path @ ''.apply-'' @ tok \<and> files w' t = Some content))"
proof -
  obtain r1 w1 where h: "randomHex 8 w = (r1, w1)" by force
  note h' = randomHex_post [OF h] randomHex_more [OF h]
  show ?thesis
  proof (cases r1)
    case (Inl e)
    then show ?thesis using assms h h' ex_hex_token by (auto simp: writeSettingsTmp_def)
  next
    case (Inr tok)
    let ?t = "path @ ''.apply-'' @ tok"
    have "world.more w' = world.more w1 \<and> (\<forall>p. p \<noteq> ?t \<longrightarrow> files w' p = files w1 p) \<and>
          (\<forall>t. r = Inr t \<longrightarrow> t = ?t \<and> files w' t = Some content)"
      using assms h Inr unfolding writeSettingsTmp_def Let_def
      by (auto dest!: OpenTrunc_full WriteTo_full sys_call_tick split: prod.splits sum.splits)
    then show ?thesis using h' Inr by (intro conjI exI [of _ tok]) auto
  qed
qed

lemma tmp_ne_path [simp]: "path @ ''.apply-'' @ tok \<noteq> path"
  by simp

lemma publishSettings_post:
  assumes "publishSettings tmp path w = (r, w')" "files w tmp = Some content" "tmp \<noteq> path"
  shows "world.more w' = world.more w \<and> (\<forall>p. p \<noteq> path \<and> p \<noteq> tmp \<longrightarrow> files w' p = files w p) \<and>
     (files w' path = files w path \<or> files w' path = Some content) \<and>
     (r = Inr () \<longrightarrow> files w' path = Some content \<and> files w' tmp = None)"
proof -
  obtain r1 w1 where n: "Rename tmp path w = (r1, w1)" by force
  note n' = Rename_post [OF n] Rename_more [OF n]
  show ?thesis
  proof (cases r1)
    case (Inl e)
    then have "r = Inl (ErrWrap ''rename tmp'' e)" "w' = snd (Remove tmp w1)"
      using assms(1) n by (auto simp: publishSettings_def)
    then show ?thesis using Inl n' assms(3) by (auto simp: Remove_snd)
  next
    case (Inr u)
    then have "files w' = files w1 \<and> world.more w' = world.more w1"
      using assms(1) n
      by (auto simp: publishSettings_def dest!: syncParentDir_post sys_call_tick
          split: prod.splits sum.splits)
    then show ?thesis using Inr n' assms(2,3) by auto
  qed
qed

text \<open>
  The contract of the atomic write, for every pattern of failing calls: the live file holds the
  old bytes or all of the new ones, a successful call published the new ones, and apart from
  the live path only the temporary sibling can differ.
\<close>

definition atomic_post ::
    "string \<Rightarrow> string \<Rightarrow> unit result \<Rightarrow> 'w world_scheme \<Rightarrow> 'w world_scheme \<Rightarrow> bool" where
  "atomic_post path content r w w' \<longleftrightarrow>
     world.more w' = world.more w \<and>
     (files w' path = files w path \<or> files w' path = Some content) \<and>
     (r = Inr () \<longrightarrow> files w' path = Some content) \<and>
     (\<exists>tok. hex_token 8 tok \<and>
        (\<forall>p. p \<noteq> path \<and> p \<noteq> path @ ''.apply-'' @ tok \<longrightarrow> files w' p = files w p))"

lemma atomic_post_unchanged:
  assumes "files w' = files w" "world.more w' = world.more w" "r \<noteq> Inr ()"
  shows "atomic_post path content r w w'"
  using assms ex_hex_token [of 8] unfolding atomic_post_def by auto

lemma AtomicWriteSettings_post:
  assumes "AtomicWriteSettings ctx path content w = (r, w')"
  shows "atomic_post path content r w w'"
proof (cases "path = '''' \<or> validateSettingsPath path \<noteq> None \<or> faults w (calls w) \<noteq> None")
  case True
  then show ?thesis
    using assms by (intro atomic_post_unchanged)
      (auto simp: AtomicWriteSettings_def sys_call_def split: fs_splits)
next
  case False
  obtain r1 w1 where t: "writeSettingsTmp path content (tick w) = (r1, w1)" by force
  obtain tok where tok: "hex_token 8 tok" "world.more w1 = world.more w"
    "\<And>p. p \<noteq> path @ ''.apply-'' @ tok \<Longrightarrow> files w1 p = files w p"
    "\<And>t. r1 = Inr t \<Longrightarrow> t = path @ ''.apply-'' @ tok \<and> files w1 t = Some content"
    using writeSettingsTmp_post [OF t] by auto
  have rest: "(r, w') = (case r1 of Inl e \<Rightarrow> (Inl e, w1)
      | Inr tmpPath \<Rightarrow> (case ctx_Err ctx w1 of
            Some e \<Rightarrow> (Inl e, snd (Remove tmpPath w1))
          | None \<Rightarrow> (case assertDestinationNotSymlink path w1 of
               (Inl e, w) \<Rightarrow> (Inl e, snd (Remove tmpPath w))
             | (Inr _, w) \<Rightarrow> publishSettings tmpPath path w)))"
    using assms False t by (auto simp: AtomicWriteSettings_def sys_call_def split: sum.splits)
  show ?thesis
  proof (cases r1)
    case (Inl e)
    then show ?thesis using rest tok unfolding atomic_post_def by auto
  next
    case (Inr tmp)
    then have tmp: "tmp = path @ ''.apply-'' @ tok" "files w1 tmp = Some content" "tmp \<noteq> path"
      using tok(4) [OF Inr] by auto
    obtain r2 w2 where s: "assertDestinationNotSymlink path w1 = (r2, w2)" by force
    note s' = assertDestinationNotSymlink_post [OF s]

    have "world.more w' = world.more w1 \<and> (\<forall>p. p \<noteq> path \<and> p \<noteq> tmp \<longrightarrow> files w' p = files w1 p) \<and>
        (files w' path = files w1 path \<or> files w' path = Some content) \<and>
        (r = Inr () \<longrightarrow> files w' path = Some content)"
    proof (cases "ctx_Err ctx w1")
      case None
      show ?thesis
      proof (cases r2)
        case (Inl e)
        then show ?thesis using rest Inr None s s' tmp(3) by (auto simp: Remove_snd)
      next
        case (Inr u)
        then have "publishSettings tmp path w2 = (r, w')"
          using rest \<open>r1 = Inr tmp\<close> None s by simp
        from publishSettings_post [OF this] tmp s' show ?thesis by auto
      qed
    qed (use rest Inr tmp(3) in \<open>auto simp: Remove_snd\<close>)
    then show ?thesis
      unfolding atomic_post_def using tok tmp by (metis tmp_ne_path)
  qed
qed

section \<open>Snapshots never overwrite\<close>

text \<open>An operation that only creates: what was there stays there.\<close>

definition preserves :: "'w world_scheme \<Rightarrow> 'w world_scheme \<Rightarrow> bool" where
  "preserves w w' \<longleftrightarrow> world.more w' = world.more w \<and> (\<forall>p d. files w p = Some d \<longrightarrow> files w' p = Some d)"

lemma preserves_refl [simp]: "preserves w w"
  by (simp add: preserves_def)

lemma preserves_trans: "preserves u v \<Longrightarrow> preserves v w \<Longrightarrow> preserves u w"
  by (simp add: preserves_def)

lemma preserves_same: "files w' = files w \<Longrightarrow> world.more w' = world.more w \<Longrightarrow> preserves w w'"
  by (simp add: preserves_def)

text \<open>A file written exclusively is new, and only it differs.\<close>

lemma writeFileExclusive_post:
  assumes "writeFileExclusive path data w = (r, w')"
  shows "world.more w' = world.more w \<and> (\<forall>p. p \<noteq> path \<longrightarrow> files w' p = files w p) \<and>
     (files w path \<noteq> None \<longrightarrow> files w' = files w \<and> r \<noteq> Inr ()) \<and>
     (r = Inr () \<longrightarrow> files w path = None \<and> files w' path = Some data)"
proof -
  obtain r1 w1 where o1: "OpenExcl path w = (r1, w1)" by force
  note o1' = OpenExcl_full [OF o1]
  show ?thesis
  proof (cases r1)
    case (Inl e)
    then show ?thesis using assms o1 o1' by (auto simp: writeFileExclusive_def)
  next
    case (Inr u)
    then show ?thesis
      using assms o1 o1' unfolding writeFileExclusive_def
      by (auto dest!: WriteTo_full sys_call_tick syncParentDir_post
          simp: Remove_snd split: prod.splits sum.splits)
  qed
qed

lemma writeFileExclusive_preserves:
  "writeFileExclusive path data w = (r, w') \<Longrightarrow> preserves w w'"
  using writeFileExclusive_post [of path data w r w'] unfolding preserves_def
  by (metis option.distinct(1))

lemma settingsSnapshotName_post:
  "settingsSnapshotName stamp w = (r, w') \<Longrightarrow>
     files w' = files w \<and> world.more w' = world.more w \<and>
     (\<forall>n. r = Inr n \<longrightarrow> (\<exists>tok. hex_token settingsSnapshotTokenBytes tok \<and>
        n = ''settings-'' @ stamp @ ''-'' @ tok @ ''.js.bak''))"
  unfolding settingsSnapshotName_def
  by (auto dest!: randomHex_full split: prod.splits sum.splits)

lemma snapshot_attempts_post:
  assumes "snapshot_attempts n dir stamp data lastErr w = (r, w')"
  shows "preserves w w' \<and>
     (\<forall>t. r = Inr t \<longrightarrow> files w t = None \<and> files w' t = Some data \<and>
        (\<exists>tok. hex_token settingsSnapshotTokenBytes tok \<and>
           t = JoinPath [dir, ''settings-'' @ stamp @ ''-'' @ tok @ ''.js.bak'']))"
  using assms
proof (induction n arbitrary: lastErr w)
  case (Suc n)
  obtain r1 w1 where n1: "settingsSnapshotName stamp w = (r1, w1)" by force
  note n1' = settingsSnapshotName_post [OF n1]
  show ?case
  proof (cases r1)
    case (Inl e)
    then show ?thesis using Suc.prems n1 n1' by (auto intro: preserves_same)
  next
    case (Inr name)
    let ?t = "JoinPath [dir, name]"
    obtain r2 w2 where c: "writeFileExclusive ?t data w1 = (r2, w2)" by force
    note c' = writeFileExclusive_post [OF c] writeFileExclusive_preserves [OF c]
    have pres: "preserves w w2" using c'(2) n1' by (simp add: preserves_def)
    show ?thesis
    proof (cases r2)
      case (Inr u)
      then show ?thesis
        using Suc.prems n1 n1' \<open>r1 = Inr name\<close> c c'(1) pres by (auto simp: createSnapshotFile_def)
    next
      case (Inl e)
      show ?thesis
      proof (cases "errors_is e ErrExist")
        case True
        then have step: "snapshot_attempts n dir stamp data e w2 = (r, w')"
          using Suc.prems n1 \<open>r1 = Inr name\<close> c Inl by (simp add: createSnapshotFile_def)
        have old: "files w2 t = None \<Longrightarrow> files w t = None" for t
          using pres unfolding preserves_def by (cases "files w t") auto
        note ih = Suc.IH [OF step]
        then show ?thesis using preserves_trans [OF pres] old by auto
      next
        case False
        then show ?thesis
          using Suc.prems n1 \<open>r1 = Inr name\<close> c Inl pres by (auto simp: createSnapshotFile_def)
      qed
    qed
  qed
qed auto

lemma writeSettingsSnapshot_post:
  assumes "writeSettingsSnapshot dir stamp data w = (r, w')"
  shows "preserves w w' \<and>
     (\<forall>t. r = Inr t \<longrightarrow> files w t = None \<and> files w' t = Some data \<and>
        (\<exists>tok. hex_token settingsSnapshotTokenBytes tok \<and>
           t = JoinPath [dir, ''settings-'' @ stamp @ ''-'' @ tok @ ''.js.bak'']))"
proof (cases "dir = '''' \<or> faults w (calls w) \<noteq> None")
  case True
  then show ?thesis
    using assms
    by (cases "dir = ''''") (auto simp: writeSettingsSnapshot_def sys_call_def intro!: preserves_same)
next
  case False
  then have "snapshot_attempts settingsSnapshotAttempts dir stamp data (ErrText ''nil'') (tick w) = (r, w')"
    using assms by (simp add: writeSettingsSnapshot_def sys_call_def)
  from snapshot_attempts_post [OF this] show ?thesis
    by (auto simp: preserves_def)
qed

text \<open>A snapshot is never confused with a temporary sibling: one ends in \<open>.js.bak\<close>, the other in a
  hexadecimal digit.\<close>

lemma snapshot_path_suffix:
  assumes "dir \<noteq> ''''"
  shows "\<exists>pre. JoinPath [dir, name @ ''.js.bak''] = pre @ ''.js.bak''"
  using assms Clean_suffix [of "''.js.bak''" "dir @ ''/'' @ name"] by (simp add: JoinPath_def)

lemma bak_not_tmp:
  assumes "hex_token n tok" "0 < n"
  shows "pre @ ''.js.bak'' \<noteq> path @ ''.apply-'' @ tok"
proof
  assume eq: "pre @ ''.js.bak'' = path @ ''.apply-'' @ tok"
  have ne: "tok \<noteq> []" using assms by (auto simp: hex_token_def)
  then have "last tok \<in> set ''0123456789abcdef''"
    using assms(1) last_in_set [of tok] by (auto simp: hex_token_def simp del: set_simps)
  moreover have "last (path @ ''.apply-'' @ tok) = CHR ''k''" unfolding eq [symmetric] by simp
  ultimately show False using ne by auto
qed

lemma copyFileExclusive_post:
  assumes "copyFileExclusive src dst w = (r, w')"
  shows "preserves w w' \<and> (\<forall>p. p \<noteq> dst \<longrightarrow> files w' p = files w p)"
proof -
  have "(files w' = files w \<and> world.more w' = world.more w) \<or>
      (\<exists>data v. writeFileExclusive dst data v = (r, w') \<and> files v = files w \<and> world.more v = world.more w)"
    using assms unfolding copyFileExclusive_def
    by (auto dest!: Stat_full sys_call_tick ReadFile_full split: prod.splits sum.splits if_splits)
  then show ?thesis
  proof (elim disjE exE conjE)
    fix data v assume v: "writeFileExclusive dst data v = (r, w')" "files v = files w" "world.more v = world.more w"
    show ?thesis
      using writeFileExclusive_post [OF v(1)] writeFileExclusive_preserves [OF v(1)] v(2,3)
      by (simp add: preserves_def)
  qed (simp add: preserves_same)
qed

section \<open>Symbolic links are refused\<close>

text \<open>The directories \<open>assertParentsNotSymlink\<close> visits.\<close>

function ancestors :: "string \<Rightarrow> string list" where
  "ancestors p =
     (if Dir p = p \<or> Dir p = '''' \<or> Dir p = ''.'' then [] else Dir p # ancestors (Dir p))"
  by pat_completeness auto
termination
  by (relation "measure length") (auto intro: Dir_shorter)

declare ancestors.simps [simp del]

lemma writeSettingsTmp_links: "writeSettingsTmp path content w = (r, w') \<Longrightarrow> links w' = links w"
  unfolding writeSettingsTmp_def Let_def
  by (auto dest!: links_keep split: prod.splits sum.splits)

lemma assertParentsNotSymlink_links:
  assumes "q \<in> set (ancestors p)" "links w q" "assertParentsNotSymlink p w = (r, w')"
  shows "r \<noteq> Inr ()"
  using assms
proof (induction p w arbitrary: r w' rule: assertParentsNotSymlink.induct)
  case (1 current w)
  have step: "\<not> (Dir current = current \<or> Dir current = '''' \<or> Dir current = ''.'')"
    using 1(2) by (subst (asm) ancestors.simps) (auto split: if_splits)
  obtain r1 w1 where a: "assertNotSymlink (Dir current) w = (r1, w1)" by force
  note post = assertNotSymlink_post [OF a]
  show ?case
  proof (cases r1)
    case (Inl e)
    then show ?thesis
      using step a 1(4) by (auto simp: assertParentsNotSymlink.simps [of current] Let_def)
  next
    case (Inr u)
    have rec: "assertParentsNotSymlink (Dir current) w1 = (r, w')"
      using step a Inr 1(4) by (simp add: assertParentsNotSymlink.simps [of current] Let_def)
    have "q \<noteq> Dir current" "links w1 q" using post Inr 1(3) by auto
    then have "q \<in> set (ancestors (Dir current))"
      using 1(2) step by (subst (asm) ancestors.simps) auto
    from 1(1) [OF refl step a [symmetric] Inr this \<open>links w1 q\<close> rec] show ?thesis .
  qed
qed

lemma assertDestinationNotSymlink_links:
  assumes "q \<in> set (path # ancestors path)" "links w q"
  shows "fst (assertDestinationNotSymlink path w) \<noteq> Inr ()"
proof -
  obtain r1 w1 where a: "assertNotSymlink path w = (r1, w1)" by force
  note post = assertNotSymlink_post [OF a]
  show ?thesis
  proof (cases r1)
    case (Inr u)
    then have "q \<in> set (ancestors path)" "links w1 q" using assms post by auto
    then have "fst (assertParentsNotSymlink path w1) \<noteq> Inr ()"
      using assertParentsNotSymlink_links by (metis prod.collapse)
    then show ?thesis using a Inr by (simp add: assertDestinationNotSymlink_def)
  qed (use a in \<open>simp add: assertDestinationNotSymlink_def\<close>)
qed

section \<open>Without faults the write succeeds\<close>

definition healthy :: "'w world_scheme \<Rightarrow> bool" where
  "healthy w \<longleftrightarrow> faults w = (\<lambda>_. None) \<and> links w = (\<lambda>_. False)"

lemma healthy_tick [simp]: "healthy (tick w) = healthy w"
  by (simp add: healthy_def)

lemma healthy_files [simp]: "healthy (w\<lparr>files := f\<rparr>) = healthy w"
  by (simp add: healthy_def)

lemma healthy_sys_call: "healthy w \<Longrightarrow> sys_call w = (Inr (), tick w)"
  by (simp add: healthy_def sys_call_def)

lemma healthy_assertNotSymlink: "healthy w \<Longrightarrow> assertNotSymlink p w = (Inr (), tick w)"
  by (simp add: assertNotSymlink_def Lstat_def healthy_sys_call) (simp add: healthy_def)

lemma healthy_assertParents:
  "healthy w \<Longrightarrow> \<exists>w'. assertParentsNotSymlink p w = (Inr (), w') \<and> healthy w' \<and> files w' = files w"
proof (induction p w rule: assertParentsNotSymlink.induct)
  case (1 current w)
  show ?case
  proof (cases "Dir current = current \<or> Dir current = '''' \<or> Dir current = ''.''")
    case True
    then show ?thesis using 1(2) by (auto simp: assertParentsNotSymlink.simps [of current] Let_def)
  next
    case False
    note a = healthy_assertNotSymlink [OF 1(2), of "Dir current"]
    from 1(1) [OF refl False a [symmetric] refl] 1(2) show ?thesis
      using False a by (simp add: assertParentsNotSymlink.simps [of current] Let_def)
  qed
qed

lemma healthy_Rename:
  "healthy w \<Longrightarrow> files w old = Some d \<Longrightarrow>
     \<exists>w'. Rename old new w = (Inr (), w') \<and> healthy w' \<and> files w' = ((files w)(old := None))(new := Some d)"
  by (simp add: Rename_def healthy_sys_call) (simp add: healthy_def fun_eq_iff)

lemma healthy_randomHex:
  "healthy w \<Longrightarrow> \<exists>t. randomHex n w = (Inr t, tick w)"
  by (simp add: randomHex_def healthy_sys_call)

lemma healthy_OpenTrunc:
  "healthy w \<Longrightarrow> OpenTrunc p w = (Inr (), (tick w)\<lparr>files := (files w)(p \<mapsto> [])\<rparr>)"
  by (simp add: OpenTrunc_def healthy_sys_call) (simp add: healthy_def)

lemma healthy_WriteTo:
  "healthy w \<Longrightarrow> WriteTo p d w = (Inr (), (tick w)\<lparr>files := (files w)(p \<mapsto> d)\<rparr>)"
  by (simp add: WriteTo_def healthy_sys_call)

lemma healthy_writeSettingsTmp:
  assumes "healthy w"
  shows "\<exists>tok w1. writeSettingsTmp path content w = (Inr (path @ ''.apply-'' @ tok), w1) \<and>
     healthy w1 \<and> files w1 (path @ ''.apply-'' @ tok) = Some content"
proof -
  obtain tok where "randomHex 8 w = (Inr tok, tick w)" using healthy_randomHex [OF assms] by blast
  then show ?thesis
    using assms
    by (simp add: writeSettingsTmp_def Let_def healthy_OpenTrunc healthy_WriteTo healthy_sys_call)
qed

lemma healthy_AtomicWrite:
  assumes "healthy w" "path \<noteq> ''''" "validateSettingsPath path = None"
  shows "\<exists>w'. AtomicWriteSettings None path content w = (Inr (), w') \<and> healthy w' \<and> files w' path = Some content"
proof -
  obtain tok w1 where t: "writeSettingsTmp path content (tick w) = (Inr (path @ ''.apply-'' @ tok), w1)"
    "healthy w1" "files w1 (path @ ''.apply-'' @ tok) = Some content"
    using healthy_writeSettingsTmp [of "tick w" path content] assms(1) by auto
  obtain w2 where d: "assertDestinationNotSymlink path w1 = (Inr (), w2)" "healthy w2" "files w2 = files w1"
    using healthy_assertParents [of "tick w1" path] t(2)
    by (auto simp: assertDestinationNotSymlink_def healthy_assertNotSymlink)
  obtain w3 where n: "Rename (path @ ''.apply-'' @ tok) path w2 = (Inr (), w3)" "healthy w3"
    "files w3 path = Some content"
    using healthy_Rename [OF d(2), of "path @ ''.apply-'' @ tok" content path] t(3) d(3) by auto
  show ?thesis
    using assms t d n
    by (simp add: AtomicWriteSettings_def healthy_sys_call ctx_Err_def publishSettings_def
        syncParentDir_def)
qed

section \<open>Properties\<close>

text \<open>C7. For every pattern of failing system calls and every cancellation point, an atomic write
  leaves the live settings file with its old bytes or with all of the new ones, never with a
  mixture; a reported success means the new bytes are live; and no other file changes except a
  temporary sibling named after the live path.\<close>

theorem atomic_write_all_or_nothing:
  assumes "AtomicWriteSettings ctx path content w = (r, w')"
  shows "files w' path \<in> {files w path, Some content} \<and>
     (r = Inr () \<longrightarrow> files w' path = Some content) \<and>
     (\<exists>tok. \<forall>p. p \<noteq> path \<and> p \<noteq> path @ ''.apply-'' @ tok \<longrightarrow> files w' p = files w p)"
  using AtomicWriteSettings_post [OF assms] unfolding atomic_post_def by blast

definition sample_world :: world where
  "sample_world = \<lparr>files = [''/data/settings.js'' \<mapsto> ''old''], links = (\<lambda>_. False),
     faults = (\<lambda>_. None), torn = (\<lambda>_. 0), entropy = (\<lambda>_ _. 0), calls = 0\<rparr>"

theorem atomic_write_all_or_nothing_witness:
  "files (snd (AtomicWriteSettings None ''/data/settings.js'' ''new''
     (sample_world\<lparr>faults := (\<lambda>n. if n = 8 then Some ''ENOSPC'' else None)\<rparr>))) ''/data/settings.js''
   \<in> {Some ''old'', Some ''new''}"
  using atomic_write_all_or_nothing [OF prod.collapse [symmetric],
      of None "''/data/settings.js''" "''new''"
        "sample_world\<lparr>faults := (\<lambda>n. if n = 8 then Some ''ENOSPC'' else None)\<rparr>"]
  by (simp add: sample_world_def)

text \<open>With no failing call and no symbolic link, a write to a clean path succeeds and publishes
  the content.\<close>

theorem atomic_write_succeeds:
  assumes "healthy w" "path \<noteq> ''''" "validateSettingsPath path = None"
  shows "\<exists>w'. AtomicWriteSettings None path content w = (Inr (), w') \<and> files w' path = Some content"
  using healthy_AtomicWrite [OF assms] by blast

theorem atomic_write_succeeds_witness:
  "\<exists>w'. AtomicWriteSettings None ''/data/settings.js'' ''new'' sample_world = (Inr (), w') \<and>
        files w' ''/data/settings.js'' = Some ''new''"
  by (rule atomic_write_succeeds) (simp_all add: healthy_def sample_world_def, code_simp)

text \<open>If the destination or one of its parent directories is a symbolic link, the write is
  refused and the destination keeps its bytes.\<close>

theorem atomic_write_refuses_symlink:
  assumes "q \<in> set (path # ancestors path)" "links w q"
    and "AtomicWriteSettings ctx path content w = (r, w')"
  shows "r \<noteq> Inr () \<and> files w' path = files w path"
proof (cases "path = '''' \<or> validateSettingsPath path \<noteq> None \<or> faults w (calls w) \<noteq> None")
  case True
  then show ?thesis using assms(3) by (auto simp: AtomicWriteSettings_def sys_call_def split: fs_splits)
next
  case False
  obtain r1 w1 where t: "writeSettingsTmp path content (tick w) = (r1, w1)" by force
  have l: "links w1 q" using writeSettingsTmp_links [OF t] assms(2) by simp
  have f: "files w1 path = files w path" using writeSettingsTmp_post [OF t] by fastforce
  obtain r2 w2 where a: "assertDestinationNotSymlink path w1 = (r2, w2)" by force
  have "r2 \<noteq> Inr ()" using assertDestinationNotSymlink_links [OF assms(1) l] a by simp
  then obtain e where d: "assertDestinationNotSymlink path w1 = (Inl e, w2)" "files w2 = files w1"
    using a assertDestinationNotSymlink_post [OF a] by (cases r2) auto
  have "\<And>t. r1 = Inr t \<Longrightarrow> t \<noteq> path" using writeSettingsTmp_post [OF t] by fastforce
  then show ?thesis
    using assms(3) False t d f
    by (auto simp: AtomicWriteSettings_def sys_call_def Remove_snd split: sum.splits option.splits)
qed

theorem atomic_write_refuses_symlink_witness:
  "fst (AtomicWriteSettings None ''/data/settings.js'' ''new''
     (sample_world\<lparr>links := (\<lambda>p. p = ''/data'')\<rparr>)) \<noteq> Inr ()"
proof -
  have a: "''/data'' \<in> set (''/data/settings.js'' # ancestors ''/data/settings.js'')" by code_simp
  show ?thesis
    using atomic_write_refuses_symlink [OF a _ prod.collapse [symmetric],
        where w = "sample_world\<lparr>links := (\<lambda>p. p = ''/data'')\<rparr>"] by simp
qed

text \<open>Writing a settings snapshot never changes an existing file, whatever call fails; when it
  succeeds, the snapshot is a file that did not exist before and holds exactly the given
  bytes.  Two snapshots therefore never share a file.\<close>

theorem snapshot_never_overwrites:
  assumes "writeSettingsSnapshot dir stamp data w = (r, w')"
  shows "(\<forall>p d. files w p = Some d \<longrightarrow> files w' p = Some d) \<and>
     (\<forall>t. r = Inr t \<longrightarrow> files w t = None \<and> files w' t = Some data)"
  using writeSettingsSnapshot_post [OF assms] unfolding preserves_def by auto

theorem snapshot_never_overwrites_witness:
  "files (snd (writeSettingsSnapshot ''/data/backups'' ''20260101-000000'' ''bytes'' sample_world))
     ''/data/settings.js'' = Some ''old''"
  using snapshot_never_overwrites [OF prod.collapse [symmetric],
      where dir = "''/data/backups''" and stamp = "''20260101-000000''" and data = "''bytes''" and w = sample_world]
  by (simp add: sample_world_def)

end
