(* ===== verification/ConfigService.thy ===== *)
theory ConfigService
  imports ConfigStore Reconcile AtomicWrite
begin

text \<open>
  The stateful part of src/internal/service/config.go and config_reconcile.go: reading the live
  settings.js, committing structured configurations and patches, reconciling the mirror after a
  raw apply, restoring it, and the direct save paths.

  \<open>platform\<close> collects what the code gets from outside: the host detection result (settings path
  and source, fixed during a transaction), the data directory, the clock, the JavaScript engine,
  bcrypt, SHA-256, the Unicode table, \<open>fmt.Sprint\<close>, when the recovery timeout fires, and whether an audit
  hook is wired.
\<close>

record platform =
  pf_path :: string
  pf_source :: string
  pf_dataDir :: string
  pf_now :: string
  pf_stamp :: string
  pf_goja :: engine
  pf_bcrypt :: "string \<Rightarrow> string result"
  pf_sha :: "string \<Rightarrow> string"
  pf_print :: "nat \<Rightarrow> bool"
  pf_sprint :: "json \<Rightarrow> string"
  pf_recovery :: "nat \<Rightarrow> nat option"
  pf_audit :: bool

record SettingsDocument =
  doc_Path :: string
  doc_Content :: string
  doc_Revision :: SourceRevision
  doc_BackupPath :: string

section \<open>Reading\<close>

definition GetRawSettings :: "platform \<Rightarrow> 'w svc_world_scheme \<Rightarrow> SettingsDocument result \<times> 'w svc_world_scheme" where
  "GetRawSettings P w =
     (let doc = (\<lambda>content. \<lparr>doc_Path = pf_path P, doc_Content = content,
            doc_Revision = FingerprintSource (pf_sha P) (pf_now P) content, doc_BackupPath = ''''\<rparr>) in
      case ReadFile (pf_path P) w of
        (Inl e, w) \<Rightarrow> if errors_is e ErrNotExist
                      then (Inr (doc (renderSettingsJS (pf_print P) DefaultNodeRedConfig)), w)
                      else (Inl e, w)
      | (Inr content, w) \<Rightarrow> (Inr (doc content), w))"

definition parseConfig :: "platform \<Rightarrow> string \<Rightarrow> NodeRedConfig result" where
  "parseConfig P content = parseConfigFromContent (pf_goja P) content"

definition decorateConfig :: "platform \<Rightarrow> NodeRedConfig \<Rightarrow> NodeRedConfig" where
  "decorateConfig P cfg = cfg\<lparr>SettingsPath := pf_path P, SettingsSource := pf_source P\<rparr>"

definition readFromSettingsFile :: "platform \<Rightarrow> 'w svc_world_scheme \<Rightarrow> NodeRedConfig option result \<times> 'w svc_world_scheme" where
  "readFromSettingsFile P w =
     (case GetRawSettings P w of
        (Inl _, w) \<Rightarrow> (Inr None, w)
      | (Inr doc, w) \<Rightarrow>
          if doc_Content doc = '''' then (Inr None, w)
          else (case parseConfig P (doc_Content doc) of
                  Inl e \<Rightarrow> (Inl e, w) | Inr cfg \<Rightarrow> (Inr (Some cfg), w)))"

definition Get :: "platform \<Rightarrow> 'w svc_world_scheme \<Rightarrow> NodeRedConfig result \<times> 'w svc_world_scheme" where
  "Get P w =
     (case store_Exists w of
        (True, w) \<Rightarrow>
          (case store_Read w of (Inl e, w) \<Rightarrow> (Inl e, w) | (Inr cfg, w) \<Rightarrow> (Inr (decorateConfig P cfg), w))
      | (False, w) \<Rightarrow>
          (case readFromSettingsFile P w of
             (Inl e, w) \<Rightarrow> (Inl e, w)
           | (Inr (Some cfg), w) \<Rightarrow> (Inr (decorateConfig P cfg), w)
           | (Inr None, w) \<Rightarrow> (Inr (decorateConfig P DefaultNodeRedConfig), w)))"

definition patchBase :: "platform \<Rightarrow> 'w svc_world_scheme \<Rightarrow> (NodeRedConfig \<times> bool) result \<times> 'w svc_world_scheme" where
  "patchBase P w =
     (case store_Exists w of
        (True, w) \<Rightarrow>
          (case store_Read w of
             (Inl e, w) \<Rightarrow> (Inl (ErrWrap ''read persisted configuration'' e), w)
           | (Inr cfg, w) \<Rightarrow> (Inr (cfg, True), w))
      | (False, w) \<Rightarrow>
          (case readFromSettingsFile P w of
             (Inl e, w) \<Rightarrow> (Inl e, w)
           | (Inr (Some cfg), w) \<Rightarrow> (Inr (cfg, False), w)
           | (Inr None, w) \<Rightarrow> (Inr (DefaultNodeRedConfig, False), w)))"

definition PreviewStructuredPatch :: "platform \<Rightarrow> ConfigPatch \<Rightarrow> 'w svc_world_scheme \<Rightarrow> NodeRedConfig result \<times> 'w svc_world_scheme" where
  "PreviewStructuredPatch P patch w =
     (case patchBase P w of
        (Inl e, w) \<Rightarrow> (Inl e, w)
      | (Inr (base, _), w) \<Rightarrow> (MergePatch base patch, w))"

text \<open>The only \<^const>\<open>Inl\<close> of \<open>securityFallbacks\<close> is a panic of the parser.\<close>

definition securityFallbacks ::
    "platform \<Rightarrow> NodeRedConfig option \<Rightarrow> 'w svc_world_scheme \<Rightarrow> securitySurfaceFallbacks result \<times> 'w svc_world_scheme" where
  "securityFallbacks P cfg w =
     (case cfg of
        None \<Rightarrow> (Inr no_fallbacks, w)
      | Some c \<Rightarrow>
          if AdminAuthCarried c \<and> HTTPNodeAuthCarried c \<and> HTTPStaticAuthCarried c then (Inr no_fallbacks, w)
          else
            (let (r, w) = store_Read w;
                 persisted = (case r of Inl _ \<Rightarrow> zero_config | Inr p \<Rightarrow> p);
                 needAdmin = (\<not> AdminAuthCarried c \<and> AdminAuthF persisted = None);
                 needNode = (\<not> HTTPNodeAuthCarried c \<and> HTTPNodeAuth persisted = None);
                 needStatic = (\<not> HTTPStaticAuthCarried c \<and> HTTPStaticAuth persisted = None)
             in if \<not> needAdmin \<and> \<not> needNode \<and> \<not> needStatic then (Inr no_fallbacks, w)
                else case GetRawSettings P w of
                    (Inl _, w) \<Rightarrow> (Inr no_fallbacks, w)
                  | (Inr doc, w) \<Rightarrow>
                      if doc_Content doc = '''' then (Inr no_fallbacks, w)
                      else (case parseConfig P (doc_Content doc) of
                              Inl e \<Rightarrow> (if e = Sentinel GoPanic then Inl e else Inr no_fallbacks, w)
                            | Inr parsed \<Rightarrow>
                                (Inr \<lparr>fb_adminAuth = (if needAdmin then AdminAuthF parsed else None),
                                  fb_httpNodeAuth = (if needNode then HTTPNodeAuth parsed else None),
                                  fb_httpStaticAuth = (if needStatic then HTTPStaticAuth parsed else None)\<rparr>, w))))"

text \<open>\<open>renderSettings\<close>; \<^const>\<open>None\<close> is a panic of the logging patcher.\<close>

definition renderSettings :: "platform \<Rightarrow> NodeRedConfig \<Rightarrow> 'w svc_world_scheme \<Rightarrow> string option \<times> 'w svc_world_scheme" where
  "renderSettings P cfg w =
     (let path = (if pf_path P = '''' then JoinPath [pf_dataDir P, ''settings.js''] else pf_path P) in
      case ReadFile path w of
        (Inl _, w) \<Rightarrow> (Some (generateSettingsJS (pf_print P) cfg), w)
      | (Inr existing, w) \<Rightarrow>
          if TrimSpace existing = '''' then (Some (generateSettingsJS (pf_print P) cfg), w)
          else (patchSettingsJS (pf_print P) existing cfg, w))"

section \<open>Structured commits\<close>

record StructuredApplyInput =
  sa_Previous :: NodeRedConfig
  sa_Committed :: NodeRedConfig
  sa_Content :: string
  sa_Live :: SettingsDocument
  sa_BackupDir :: string

definition settings_backup_dir :: "platform \<Rightarrow> string" where
  "settings_backup_dir P = JoinPath [pf_dataDir P, ''backups'', ''settings'']"

text \<open>The part of the update callback after the candidate was formed.\<close>

definition finish_candidate :: "platform \<Rightarrow> NodeRedConfig \<Rightarrow> NodeRedConfig \<Rightarrow> NodeRedConfig \<Rightarrow> NodeRedConfig result" where
  "finish_candidate P current existing candidate =
     (let c = preserveWriteOnlySecrets existing (preserveAdminAuthPasswords existing candidate) in
      case upgradePlaintextAdminAuthPasswords (pf_bcrypt P) c of
        Inl e \<Rightarrow> Inl e
      | Inr c \<Rightarrow>
          (case validateAdminAuthPasswords c of
             Some e \<Rightarrow> Inl e
           | None \<Rightarrow>
               (case Validate c of
                  Some e \<Rightarrow> Inl e
                | None \<Rightarrow>
                    Inr (decorateConfig P (c\<lparr>EnvVars := EnvVars current,
                      FunctionLibraries := FunctionLibraries current,
                      RuntimeState := RuntimeState current, SettingsPath := SettingsPath current,
                      SettingsSource := SettingsSource current\<rparr>)))))"

text \<open>
  The update callback of \<open>commitStructured\<close>: the committed configuration and the captured previous
  one.  The source hashes passwords in place; when the candidate shares the admin surface with
  the current document (the payload omitted it, or the patch is empty) the captured previous
  configuration shares it too.
\<close>

definition commit_callback ::
    "platform \<Rightarrow> NodeRedConfig option \<Rightarrow> ConfigPatch option \<Rightarrow> NodeRedConfig \<Rightarrow> bool \<Rightarrow>
     securitySurfaceFallbacks \<Rightarrow> NodeRedConfig \<Rightarrow> (NodeRedConfig \<times> NodeRedConfig \<times> NodeRedConfig) result" where
  "commit_callback P full patch base hasBase fallbacks current =
     (let formed =
        (case patch of
           Some p \<Rightarrow>
             (case MergePatch (if hasBase then current else base) p of
                Inl e \<Rightarrow> Inl e
              | Inr merged \<Rightarrow> Inr (merged, base, hasBase \<and> patch_IsEmpty p))
         | None \<Rightarrow>
             (case full of
                None \<Rightarrow> Inl (Sentinel GoPanic)
              | Some f \<Rightarrow> Inr (preserveSecuritySurfaces current fallbacks f, current,
                               \<not> AdminAuthCarried f \<and> AdminAuthF current \<noteq> None)))
      in case formed of
           Inl e \<Rightarrow> Inl e
         | Inr (candidate, existing, shared) \<Rightarrow>
             (case finish_candidate P current existing candidate of
                Inl e \<Rightarrow> Inl e
              | Inr c \<Rightarrow>
                  Inr (c, if shared then current\<lparr>AdminAuthF := AdminAuthF c\<rparr> else current, c)))"

definition commitStructured ::
    "platform \<Rightarrow> NodeRedConfig option \<Rightarrow> ConfigPatch option \<Rightarrow> 'w svc_world_scheme \<Rightarrow>
     StructuredApplyInput result \<times> 'w svc_world_scheme" where
  "commitStructured P full patch w =
     (case GetRawSettings P w of
        (Inl e, w) \<Rightarrow> (Inl e, w)
      | (Inr live, w) \<Rightarrow>
          (case patchBase P w of
             (Inl e, w) \<Rightarrow> (Inl e, w)
           | (Inr (base, hasBase), w) \<Rightarrow>
               (case securityFallbacks P full w of
                  (Inl e, w) \<Rightarrow> (Inl e, w)
                | (Inr fallbacks, w) \<Rightarrow>
                    (case store_Update (commit_callback P full patch base hasBase fallbacks) w of
                       (Inl e, w) \<Rightarrow> (Inl e, w)
                     | (Inr (previous, committed), w) \<Rightarrow>
                         (case renderSettings P committed w of
                            (None, w) \<Rightarrow> (Inl (Sentinel GoPanic), w)
                          | (Some content, w) \<Rightarrow>
                              (Inr \<lparr>sa_Previous = previous, sa_Committed = committed, sa_Content = content,
                                    sa_Live = live, sa_BackupDir = settings_backup_dir P\<rparr>, w))))))"

definition CommitStructured :: "platform \<Rightarrow> NodeRedConfig \<Rightarrow> 'w svc_world_scheme \<Rightarrow> StructuredApplyInput result \<times> 'w svc_world_scheme" where
  "CommitStructured P cfg w = commitStructured P (Some cfg) None w"

definition CommitStructuredPatch :: "platform \<Rightarrow> ConfigPatch \<Rightarrow> 'w svc_world_scheme \<Rightarrow> StructuredApplyInput result \<times> 'w svc_world_scheme" where
  "CommitStructuredPatch P patch w = commitStructured P None (Some patch) w"

definition RestoreStructured :: "StructuredApplyInput \<Rightarrow> 'w svc_world_scheme \<Rightarrow> unit result \<times> 'w svc_world_scheme" where
  "RestoreStructured state w =
     store_Update (\<lambda>current. Inr (restoreUnchangedFields current (sa_Previous state) (sa_Committed state)
       structuredRestoreSkip, ())) w"

section \<open>Reconciliation\<close>

record MirrorSnapshot =
  ms_Existed :: bool
  ms_Previous :: NodeRedConfig
  ms_Committed :: NodeRedConfig

definition reconcile_callback ::
    "platform \<Rightarrow> string \<Rightarrow> NodeRedConfig \<Rightarrow> (string \<times> json) list option \<Rightarrow> bool \<Rightarrow> NodeRedConfig \<Rightarrow>
     (NodeRedConfig \<times> NodeRedConfig \<times> NodeRedConfig) result" where
  "reconcile_callback P content parsed exported existed current =
     (let base = (if existed then current else parsed);
          candidate = reconcileConfigWithSource (pf_sprint P) base parsed content exported
      in case Validate candidate of
           Some e \<Rightarrow> Inl (ErrJoin (Sentinel ErrMirrorRejected) e)
         | None \<Rightarrow> (let c = decorateConfig P candidate in Inr (c, current, c)))"

definition ReconcileRawSettings :: "platform \<Rightarrow> string \<Rightarrow> 'w svc_world_scheme \<Rightarrow> MirrorSnapshot result \<times> 'w svc_world_scheme" where
  "ReconcileRawSettings P content w =
     (case parseConfig P content of
        Inl e \<Rightarrow> (Inl e, w)
      | Inr parsed \<Rightarrow>
          (let exported = (case exportSettingsObject (pf_goja P) content of Inl _ \<Rightarrow> None | Inr fs \<Rightarrow> Some fs);
               (existed, w) = store_Exists w
           in case store_Update (reconcile_callback P content parsed exported existed) w of
                (Inl e, w) \<Rightarrow> (Inl e, w)
              | (Inr (previous, committed), w) \<Rightarrow>
                  (Inr \<lparr>ms_Existed = existed, ms_Previous = previous, ms_Committed = committed\<rparr>, w)))"

definition RestoreMirror :: "MirrorSnapshot \<Rightarrow> 'w svc_world_scheme \<Rightarrow> unit result \<times> 'w svc_world_scheme" where
  "RestoreMirror snapshot w =
     (if \<not> ms_Existed snapshot then store_Delete w
      else store_Update (\<lambda>current. Inr (restoreUnchangedFields current (ms_Previous snapshot)
             (ms_Committed snapshot) mirrorRestoreSkip, ())) w)"

section \<open>The direct save paths\<close>

text \<open>\<open>os.WriteFile\<close>: create or truncate in place, write, close.\<close>

definition WriteFile :: "string \<Rightarrow> string \<Rightarrow> 'w world_scheme \<Rightarrow> unit result \<times> 'w world_scheme" where
  "WriteFile path data w =
     (case sys_call w of
        (Inl e, w) \<Rightarrow> (Inl e, w)
      | (Inr _, w) \<Rightarrow>
          (case WriteTo path data (w\<lparr>files := (files w)(path \<mapsto> [])\<rparr>) of
             (Inl e, w) \<Rightarrow> (Inl e, snd (sys_call w))
           | (Inr _, w) \<Rightarrow> sys_call w))"

definition backupSettingsFile :: "platform \<Rightarrow> string \<Rightarrow> 'w svc_world_scheme \<Rightarrow> string result \<times> 'w svc_world_scheme" where
  "backupSettingsFile P path w =
     (case Stat path w of
        (Inl e, w) \<Rightarrow> if errors_is e ErrNotExist then (Inr '''', w) else (Inl e, w)
      | (Inr _, w) \<Rightarrow>
          (case ReadFile path w of
             (Inl e, w) \<Rightarrow> (Inl e, w)
           | (Inr data, w) \<Rightarrow> writeSettingsSnapshot (settings_backup_dir P) (pf_stamp P) data w))"

text \<open>A failed write of settings.js by \<open>os.WriteFile\<close> may leave a torn file; only a failed
  reconciliation restores the previous bytes.\<close>

definition writeSettingsFile ::
    "platform \<Rightarrow> string \<Rightarrow> bool \<Rightarrow> 'w svc_world_scheme \<Rightarrow> SettingsDocument result \<times> 'w svc_world_scheme" where
  "writeSettingsFile P content syncStore w =
     (let path = (if pf_path P = '''' then JoinPath [pf_dataDir P, ''settings.js''] else pf_path P) in
      case sys_call w of
        (Inl e, w) \<Rightarrow> (Inl e, w)
      | (Inr _, w) \<Rightarrow>
          (let (previous, w) = ReadFile path w in
           case backupSettingsFile P path w of
             (Inl e, w) \<Rightarrow> (Inl e, w)
           | (Inr backupPath, w) \<Rightarrow>
               (case WriteFile path content w of
                  (Inl e, w) \<Rightarrow> (Inl e, w)
                | (Inr _, w) \<Rightarrow>
                    (case sys_call w of
                       (Inl e, w) \<Rightarrow> (Inl e, w)
                     | (Inr _, w) \<Rightarrow>
                         (let doc = \<lparr>doc_Path = path, doc_Content = content,
                                doc_Revision = \<lparr>Fingerprint = '''', Algorithm = '''', CapturedAt = ''''\<rparr>,
                                doc_BackupPath = backupPath\<rparr>
                          in if \<not> syncStore then (Inr doc, w)
                             else case ReconcileRawSettings P content w of
                                 (Inr _, w) \<Rightarrow> (Inr doc, w)
                               | (Inl e, w) \<Rightarrow>
                                   if e = Sentinel GoPanic then (Inl e, w)
                                   else (case restoreSourceBytes None path
                                           (case previous of Inl _ \<Rightarrow> '''' | Inr d \<Rightarrow> d)
                                           (case previous of Inl _ \<Rightarrow> False | Inr _ \<Rightarrow> True) w of
                                           (Inl re, w) \<Rightarrow> (Inl (ErrJoin e re), w)
                                         | (Inr _, w) \<Rightarrow> (Inl e, w)))))))"

definition SaveRawSettingsWithRevision ::
    "platform \<Rightarrow> string \<Rightarrow> SourceRevision \<Rightarrow> 'w svc_world_scheme \<Rightarrow> SettingsDocument result \<times> 'w svc_world_scheme" where
  "SaveRawSettingsWithRevision P content expected w =
     (case GetRawSettings P w of
        (Inl e, w) \<Rightarrow> (Inl e, w)
      | (Inr live, w) \<Rightarrow>
          if \<not> RevisionMatches expected (doc_Revision live) then (Inl (Sentinel ErrSourceRevisionMismatch), w)
          else (case parseConfig P content of
                  Inl e \<Rightarrow> (Inl e, w)
                | Inr parsed \<Rightarrow>
                    (case validateAdminAuthPasswords parsed of
                       Some e \<Rightarrow> (Inl e, w)
                     | None \<Rightarrow>
                         (case writeSettingsFile P content True w of
                            (Inl e, w) \<Rightarrow> (Inl e, w)
                          | (Inr doc, w) \<Rightarrow>
                              (Inr (doc\<lparr>doc_Revision := FingerprintSource (pf_sha P) (pf_now P) (doc_Content doc)\<rparr>), w)))))"

definition SaveRawSettings :: "platform \<Rightarrow> string \<Rightarrow> 'w svc_world_scheme \<Rightarrow> SettingsDocument result \<times> 'w svc_world_scheme" where
  "SaveRawSettings P content w =
     SaveRawSettingsWithRevision P content \<lparr>Fingerprint = '''', Algorithm = '''', CapturedAt = ''''\<rparr> w"

definition save_callback ::
    "platform \<Rightarrow> NodeRedConfig \<Rightarrow> securitySurfaceFallbacks \<Rightarrow> NodeRedConfig \<Rightarrow> (NodeRedConfig \<times> NodeRedConfig) result" where
  "save_callback P cfg fallbacks current =
     (let c = preserveWriteOnlySecrets current
                (preserveSecuritySurfaces current fallbacks (preserveAdminAuthPasswords current cfg)) in
      case upgradePlaintextAdminAuthPasswords (pf_bcrypt P) c of
        Inl e \<Rightarrow> Inl e
      | Inr c \<Rightarrow>
          (case validateAdminAuthPasswords c of
             Some e \<Rightarrow> Inl e
           | None \<Rightarrow>
               (case Validate c of
                  Some e \<Rightarrow> Inl e
                | None \<Rightarrow> (let c = decorateConfig P c in Inr (c, c)))))"

definition Save :: "platform \<Rightarrow> NodeRedConfig \<Rightarrow> 'w svc_world_scheme \<Rightarrow> unit result \<times> 'w svc_world_scheme" where
  "Save P cfg w =
     (case securityFallbacks P (Some cfg) w of
        (Inl e, w) \<Rightarrow> (Inl e, w)
      | (Inr fallbacks, w) \<Rightarrow>
          (case store_Update (save_callback P cfg fallbacks) w of
             (Inl e, w) \<Rightarrow> (Inl e, w)
           | (Inr committed, w) \<Rightarrow>
               (case renderSettings P committed w of
                  (None, w) \<Rightarrow> (Inl (Sentinel GoPanic), w)
                | (Some content, w) \<Rightarrow>
                    (case writeSettingsFile P content False w of
                       (Inl e, w) \<Rightarrow> (Inl (ErrWrap ''config JSON committed but settings.js update failed'' e), w)
                     | (Inr _, w) \<Rightarrow> (Inr (), w)))))"

end
