(* ===== verification/RedactDiff.thy ===== *)
theory RedactDiff
  imports Prelude "HOL-Library.List_Lexorder" "HOL-Library.Char_ord"
begin

text \<open>
  Redaction of settings documents for the audit log: src/internal/service/apply_diff.go.  The
  redactor is line based: a line that starts with a secret-shaped key loses its value, and the
  following lines are replaced as long as the braces the key opened are not balanced.

  The main result is non-interference: two documents that differ only inside the values of
  secret-shaped keys have the same redaction, so neither the redacted document nor a diff
  computed from it can reveal which of the two was applied.
\<close>

definition secretSettingKeys :: "string list" where
  "secretSettingKeys = [''credentialSecret'', ''functionGlobalContext'', ''adminAuth'',
     ''httpNodeAuth'', ''httpStaticAuth'', ''https'']"

definition dashboardSecretSettingKeys :: "string list" where
  "dashboardSecretSettingKeys = [''dashboard'']"

definition secretSettingKeySet :: "string list" where
  "secretSettingKeySet = secretSettingKeys @ dashboardSecretSettingKeys"

definition IsSecretSettingKey :: "string \<Rightarrow> bool" where
  "IsSecretSettingKey key \<longleftrightarrow> key \<in> set secretSettingKeys"

definition httpsPassphraseField :: string where
  "httpsPassphraseField = ''passphrase''"

definition braceDelta :: "string \<Rightarrow> int" where
  "braceDelta line = int (CountByte line (CHR ''{'')) - int (CountByte line (CHR ''}''))"

section \<open>Finding the key of a line\<close>

definition is_letter :: "char \<Rightarrow> bool" where
  "is_letter c = (let n = (of_char c :: nat) in
     65 \<le> n \<and> n \<le> 90 \<or> 97 \<le> n \<and> n \<le> 122 \<or> c = CHR ''_'' \<or> c = CHR ''$'')"

definition is_digit :: "char \<Rightarrow> bool" where
  "is_digit c = (let n = (of_char c :: nat) in 48 \<le> n \<and> n \<le> 57)"

text \<open>The loop of \<open>keyInLine\<close>; \<open>seen\<close> is the identifier read so far.\<close>

fun key_scan :: "string \<Rightarrow> string \<Rightarrow> string option" where
  "key_scan seen [] = None"
| "key_scan seen (c # cs) =
     (if seen = [] \<and> is_letter c then key_scan (seen @ [c]) cs
      else if seen \<noteq> [] \<and> (is_letter c \<or> is_digit c) then key_scan (seen @ [c]) cs
      else if c = CHR '':'' then Some seen
      else None)"

definition keyInLine :: "string \<Rightarrow> string option" where
  "keyInLine line =
     (let trimmed = TrimLeft line [SP, TAB] in
      if trimmed = [] then None
      else if Index trimmed ''//'' = Some 0 then None
      else key_scan [] trimmed)"

section \<open>Redacting lines\<close>

definition redactTopLevelLine :: "string \<Rightarrow> string \<Rightarrow> string" where
  "redactTopLevelLine line key =
     (case Index line (key @ '':'') of
        None \<Rightarrow> line
      | Some idx \<Rightarrow>
          take (idx + length key + 1) line @ '' [redacted]'' @
          (if HasSuffix (TrimRight line [SP, TAB]) '','' then '','' else ''''))"

definition redactHttpsPassphrase :: "string \<Rightarrow> string" where
  "redactHttpsPassphrase line =
     (let needle = httpsPassphraseField @ '':'' in
      case Index line needle of
        None \<Rightarrow> line
      | Some idx \<Rightarrow>
          (case Index line ''//'' of
             Some cidx \<Rightarrow> if cidx < idx then line
                          else take (idx + length needle) line @ '' [redacted]''
           | None \<Rightarrow> take (idx + length needle) line @ '' [redacted]''))"

text \<open>The loop of \<open>RedactSettingsContent\<close> over the lines; the first argument is
  \<open>redactingDepth\<close>.\<close>

fun redact_lines :: "int \<Rightarrow> string list \<Rightarrow> string list" where
  "redact_lines depth [] = []"
| "redact_lines depth (line # ls) =
     (if depth > 0 then ''  [redacted]'' # redact_lines (depth + braceDelta line) ls
      else case keyInLine line of
          None \<Rightarrow> line # redact_lines depth ls
        | Some key \<Rightarrow>
            if key \<in> set secretSettingKeySet
            then redactTopLevelLine line key # redact_lines (braceDelta line) ls
            else (if key = ''https'' then redactHttpsPassphrase line else line)
                 # redact_lines depth ls)"

definition RedactSettingsContent :: "string \<Rightarrow> string" where
  "RedactSettingsContent content =
     (if content = '''' then '''' else Join (redact_lines 0 (Split content NL)) [NL])"

section \<open>The diff\<close>

text \<open>The loop over the new lines; the first argument is the key set of \<open>beforeSet\<close>.\<close>

fun diff_after :: "string list \<Rightarrow> string list \<Rightarrow> string list \<times> string list" where
  "diff_after before [] = ([], before)"
| "diff_after before (l # ls) =
     (if l \<in> set before
      then (let (out, rest) = diff_after (removeAll l before) ls in ((''  '' @ l) # out, rest))
      else (let (out, rest) = diff_after before ls in ((''+ '' @ l) # out, rest)))"

definition diff_lines :: "string list \<Rightarrow> string list \<Rightarrow> string list" where
  "diff_lines before after =
     (let (out, rest) = diff_after (remdups before) after in
      out @ map (\<lambda>l. ''- '' @ l) (sort rest))"

definition RedactDiff :: "string \<Rightarrow> string \<Rightarrow> string" where
  "RedactDiff before after =
     (let before = RedactSettingsContent before; after = RedactSettingsContent after in
      if before = after then ''''
      else concat (map (\<lambda>l. l @ [NL]) (diff_lines (Split before NL) (Split after NL))))"

section \<open>What redaction hides\<close>

text \<open>
  Two lists of lines agree up to secrets: line by line they are equal, or both start with the
  same secret-shaped key at the same indentation (and open the same number of braces, and agree
  on a trailing comma), or both lie inside such a value.
\<close>

definition same_secret_line :: "string \<Rightarrow> string \<Rightarrow> bool" where
  "same_secret_line l m \<longleftrightarrow>
     (\<exists>key \<in> set secretSettingKeySet. \<exists>pre rest rest'.
        l = pre @ key @ '':'' @ rest \<and> m = pre @ key @ '':'' @ rest' \<and>
        set pre \<subseteq> {SP, TAB} \<and> braceDelta l = braceDelta m \<and>
        HasSuffix (TrimRight l [SP, TAB]) '','' = HasSuffix (TrimRight m [SP, TAB]) '','')"

fun agree_up_to_secrets :: "int \<Rightarrow> string list \<Rightarrow> string list \<Rightarrow> bool" where
  "agree_up_to_secrets depth [] ms \<longleftrightarrow> ms = []"
| "agree_up_to_secrets depth (l # ls) [] \<longleftrightarrow> False"
| "agree_up_to_secrets depth (l # ls) (m # ms) \<longleftrightarrow>
     (if depth > 0 then braceDelta l = braceDelta m \<and> agree_up_to_secrets (depth + braceDelta l) ls ms
      else if l = m
      then agree_up_to_secrets
             (case keyInLine l of None \<Rightarrow> depth
              | Some key \<Rightarrow> if key \<in> set secretSettingKeySet then braceDelta l else depth) ls ms
      else same_secret_line l m \<and> agree_up_to_secrets (braceDelta l) ls ms)"

lemma key_scan_ident:
  "(\<forall>c \<in> set k. is_letter c \<or> is_digit c) \<Longrightarrow> seen \<noteq> [] \<or> (k \<noteq> [] \<and> is_letter (hd k)) \<Longrightarrow>
     key_scan seen (k @ CHR '':'' # r) = Some (seen @ k)"
proof (induction k arbitrary: seen)
  case Nil
  then show ?case by (simp add: is_letter_def is_digit_def)
next
  case (Cons c k)
  have "key_scan seen ((c # k) @ CHR '':'' # r) = key_scan (seen @ [c]) (k @ CHR '':'' # r)"
    using Cons.prems by (cases seen) auto
  also have "\<dots> = Some ((seen @ [c]) @ k)" using Cons.prems by (intro Cons.IH) auto
  finally show ?case by simp
qed

lemma secret_key_chars:
  assumes "key \<in> set secretSettingKeySet"
  shows "key \<noteq> []" "is_letter (hd key)" "\<forall>c \<in> set key. is_letter c \<or> is_digit c"
    "hd key \<notin> {SP, TAB}" "hd key \<noteq> CHR ''/''"
  using assms
  by (auto simp: secretSettingKeySet_def secretSettingKeys_def dashboardSecretSettingKeys_def
      is_letter_def)

lemma TrimLeft_prefix:
  "set pre \<subseteq> set cut_set \<Longrightarrow> s \<noteq> [] \<Longrightarrow> hd s \<notin> set cut_set \<Longrightarrow> TrimLeft (pre @ s) cut_set = s"
  by (induction pre) (auto simp: TrimLeft_def dropWhile_eq_self_iff)

lemma keyInLine_secret:
  assumes "key \<in> set secretSettingKeySet" "set pre \<subseteq> {SP, TAB}"
  shows "keyInLine (pre @ key @ '':'' @ rest) = Some key"
proof -
  note k = secret_key_chars [OF assms(1)]
  have t: "TrimLeft (pre @ key @ '':'' @ rest) [SP, TAB] = key @ '':'' @ rest"
    using k assms(2) by (intro TrimLeft_prefix) auto
  have "Index (key @ '':'' @ rest) ''//'' \<noteq> Some 0"
    using k(1,5) by (cases key) (auto simp: HasPrefix_def dest: sym split: option.splits)
  moreover have "key_scan [] (key @ '':'' @ rest) = Some key"
    using key_scan_ident [of key "[]" rest] k by simp
  ultimately show ?thesis using k(1) by (simp add: keyInLine_def Let_def t [simplified])
qed

lemma Index_after_blanks:
  assumes "set pre \<subseteq> A" "p \<noteq> []" "hd p \<notin> A"
  shows "Index (pre @ p @ s) p = Some (length pre)"
  using assms
proof (induction pre)
  case Nil
  then show ?case by (cases p) (auto simp: HasPrefix_def)
next
  case (Cons c pre)
  then have "\<not> HasPrefix ((c # pre) @ p @ s) p" by (cases p) (auto simp: HasPrefix_def)
  then show ?case using Cons by simp
qed

lemma redactTopLevelLine_secret:
  assumes "key \<in> set secretSettingKeySet" "set pre \<subseteq> {SP, TAB}"
  shows "redactTopLevelLine (pre @ key @ '':'' @ rest) key =
     pre @ key @ '': [redacted]'' @
     (if HasSuffix (TrimRight (pre @ key @ '':'' @ rest) [SP, TAB]) '','' then '','' else '''')"
proof -
  have "Index (pre @ (key @ '':'') @ rest) (key @ '':'') = Some (length pre)"
    using secret_key_chars [OF assms(1)] assms(2) by (intro Index_after_blanks [where A = "{SP, TAB}"]) auto
  then show ?thesis by (simp add: redactTopLevelLine_def)
qed

lemma redact_lines_agree:
  "agree_up_to_secrets depth ls ms \<Longrightarrow> redact_lines depth ls = redact_lines depth ms"
proof (induction depth ls ms rule: agree_up_to_secrets.induct)
  case (3 depth l ls m ms)
  show ?case
  proof (cases "depth > 0 \<or> l = m")
    case True
    then show ?thesis using 3 by (auto split: option.splits)
  next
    case False
    then have ag: "same_secret_line l m" "agree_up_to_secrets (braceDelta l) ls ms"
      using "3.prems" by auto
    then obtain key pre rest rest' where k: "key \<in> set secretSettingKeySet"
      "l = pre @ key @ '':'' @ rest" "m = pre @ key @ '':'' @ rest'" "set pre \<subseteq> {SP, TAB}"
      "braceDelta l = braceDelta m"
      "HasSuffix (TrimRight l [SP, TAB]) '','' = HasSuffix (TrimRight m [SP, TAB]) '',''"
      unfolding same_secret_line_def by blast
    have "keyInLine l = Some key" "keyInLine m = Some key" "redactTopLevelLine l key = redactTopLevelLine m key"
      using keyInLine_secret [OF k(1,4)] redactTopLevelLine_secret [OF k(1,4)] k(2,3,6) by simp_all
    then show ?thesis using 3(3) [OF _ _ ag(2)] False k(1,5) by auto
  qed
qed auto

section \<open>What the diff shows\<close>

lemma diff_after_Cons [simp]:
  "diff_after b (l # ls) =
     (if l \<in> set b
      then ((''  '' @ l) # fst (diff_after (removeAll l b) ls), snd (diff_after (removeAll l b) ls))
      else ((''+ '' @ l) # fst (diff_after b ls), snd (diff_after b ls)))"
  by (simp add: Let_def case_prod_beta)

declare diff_after.simps(2) [simp del]

lemma diff_after_out: "map (drop 2) (fst (diff_after b ls)) = ls"
  by (induction ls arbitrary: b) simp_all

lemma diff_after_marks:
  "x \<in> set (fst (diff_after b ls)) \<Longrightarrow> take 2 x = ''  '' \<or> take 2 x = ''+ ''"
  by (induction ls arbitrary: b) (auto split: if_splits)

lemma diff_after_rest: "set (snd (diff_after b ls)) = set b - set ls"
  by (induction ls arbitrary: b) auto

lemma diff_after_distinct: "distinct b \<Longrightarrow> distinct (snd (diff_after b ls))"
  by (induction ls arbitrary: b) (auto simp: distinct_removeAll)

section \<open>Properties\<close>



text \<open>The diff is faithful to the redacted documents: it is empty exactly when they are equal;
  otherwise its leading lines, without their two-character marks, are all the lines of the new
  document in order, and the lines marked ``- '' are the old lines missing from the new
  document, each once and sorted.\<close>

theorem diff_replays_new_document:
  "(RedactDiff before after = '''' \<longleftrightarrow>
      RedactSettingsContent before = RedactSettingsContent after) \<and>
   (\<exists>out rest. diff_lines old new = out @ map (\<lambda>l. ''- '' @ l) rest \<and> map (drop 2) out = new \<and>
      (\<forall>x \<in> set out. take 2 x = ''  '' \<or> take 2 x = ''+ '') \<and>
      sorted rest \<and> distinct rest \<and> set rest = set old - set new)"
proof
  have "concat (map (\<lambda>l. l @ [NL]) (diff_lines (Split x NL) (Split y NL))) \<noteq> ''''" for x y
  proof -
    have "map (drop 2) (fst (diff_after (remdups (Split x NL)) (Split y NL))) \<noteq> []"
      unfolding diff_after_out by simp
    then have "fst (diff_after (remdups (Split x NL)) (Split y NL)) \<noteq> []" by auto
    then show ?thesis
      by (cases "fst (diff_after (remdups (Split x NL)) (Split y NL))")
         (simp_all add: diff_lines_def case_prod_beta)
  qed
  then show "RedactDiff before after = '''' \<longleftrightarrow>
      RedactSettingsContent before = RedactSettingsContent after"
    by (simp add: RedactDiff_def Let_def)
next
  obtain out rest where d: "diff_after (remdups old) new = (out, rest)" by force
  note facts = diff_after_out [of "remdups old" new] diff_after_marks [of _ "remdups old" new]
    diff_after_rest [of "remdups old" new] diff_after_distinct [of "remdups old" new]
  show "\<exists>out rest. diff_lines old new = out @ map (\<lambda>l. ''- '' @ l) rest \<and> map (drop 2) out = new \<and>
      (\<forall>x \<in> set out. take 2 x = ''  '' \<or> take 2 x = ''+ '') \<and>
      sorted rest \<and> distinct rest \<and> set rest = set old - set new"
    using facts d by (intro exI [of _ out] exI [of _ "sort rest"]) (simp add: diff_lines_def)
qed

theorem diff_replays_new_document_witness:
  "RedactDiff ''a'' ''b'' \<noteq> ''''"
  using diff_replays_new_document [of "''a''" "''b''"]
  by (simp add: RedactSettingsContent_def keyInLine_def TrimLeft_def HasPrefix_def is_letter_def Let_def)

end
