(* ===== verification/Apply.thy ===== *)
theory Apply
  imports ConfigService RedactDiff
begin

text \<open>
  The apply transaction: src/internal/service/apply.go (validate, backup, atomic write,
  reconcile), apply_revision.go (the revision precondition), apply_rollback.go (restoring the
  snapshot), apply_runtime.go (restart and readiness) and apply_coordinator.go (one transaction
  per settings path).

  The state adds the audit log and the coordinator's in-flight table.  A runtime adapter is a
  record of its operations on the state.  A \<open>GoPanic\<close> leaves every function at once; only the
  deferred release of the coordinator runs.
\<close>

section \<open>State\<close>

record audit_event =
  au_action :: string
  au_target :: string
  au_result :: string
  au_stage :: string
  au_meta :: "(string \<times> string) list"
  au_cause :: "go_error option"

record app_world = svc_world +
  audit_log :: "audit_event list"
  flights :: "string \<rightharpoonup> nat"
  done_flights :: "nat set"
  next_flight :: nat

record ConfigurationCapabilities =
  cap_RuntimeVersion :: string
  cap_Adapter :: string
  cap_CatalogVersion :: string
  cap_Source :: string
  cap_Mode :: string
  cap_Editable :: bool
  cap_Reason :: string

record ApplyAdapter =
  ad_Name :: string
  ad_AuditName :: "string option"
  ad_OperationName :: "string option"
  ad_Restart :: "ctx \<Rightarrow> app_world \<Rightarrow> unit result \<times> app_world"
  ad_Ready :: "ctx \<Rightarrow> app_world \<Rightarrow> unit result \<times> app_world"

record ApplyRequest =
  rq_Path :: string
  rq_Content :: string
  rq_Expected :: SourceRevision
  rq_BackupDir :: string
  rq_Capabilities :: ConfigurationCapabilities
  rq_StructuredConfig :: "NodeRedConfig option"
  rq_StructuredPatch :: "ConfigPatch option"
  rq_runtimeAdapter :: "ApplyAdapter option"

record ApplyResult =
  ar_Configuration :: NodeRedConfig
  ar_Revision :: SourceRevision
  ar_BackupPath :: string
  ar_Diff :: string
  ar_Path :: string
  ar_Mirror :: "MirrorSnapshot option"

section \<open>Audit events\<close>

definition RedactedCapabilityMeta :: "ConfigurationCapabilities \<Rightarrow> (string \<times> string) list" where
  "RedactedCapabilityMeta caps =
     [(''runtime_version'', cap_RuntimeVersion caps), (''adapter'', cap_Adapter caps),
      (''settings_source'', cap_Source caps), (''mode'', cap_Mode caps),
      (''catalog_version'', cap_CatalogVersion caps)] @
     (if cap_Reason caps \<noteq> '''' then [(''read_only_reason'', cap_Reason caps)] else [])"

definition applyAuditName :: "ApplyAdapter \<Rightarrow> string" where
  "applyAuditName a = (case ad_AuditName a of Some n \<Rightarrow> n | None \<Rightarrow> ad_Name a)"

definition applyOperationName :: "ApplyAdapter \<Rightarrow> string" where
  "applyOperationName a = (case ad_OperationName a of Some n \<Rightarrow> n | None \<Rightarrow> ad_Name a)"

fun stage_name :: "ApplyStage \<Rightarrow> string" where
  "stage_name ApplyStageValidate = ''validate''"
| "stage_name ApplyStageBackup = ''backup''"
| "stage_name ApplyStageWrite = ''write''"
| "stage_name ApplyStageReconcile = ''reconcile''"
| "stage_name ApplyStageAudit = ''audit''"
| "stage_name ApplyStageRestart = ''restart''"
| "stage_name ApplyStageReady = ''ready''"
| "stage_name ApplyStageRollback = ''rollback''"

definition path_meta :: "ApplyRequest \<Rightarrow> (string \<times> string) list" where
  "path_meta req =
     (if rq_Path req \<noteq> '''' then [(''apply_path'', Base (rq_Path req))] else []) @
     (if rq_BackupDir req \<noteq> '''' then [(''apply_backup_dir'', Base (rq_BackupDir req))] else [])"

definition log_event :: "platform \<Rightarrow> audit_event \<Rightarrow> app_world \<Rightarrow> app_world" where
  "log_event P e w = (if pf_audit P then w\<lparr>audit_log := audit_log w @ [e]\<rparr> else w)"

definition emit ::
    "platform \<Rightarrow> ApplyRequest \<Rightarrow> string \<Rightarrow> ApplyStage \<Rightarrow> string \<Rightarrow> go_error option \<Rightarrow> app_world \<Rightarrow> app_world" where
  "emit P req action stage res cause w =
     log_event P \<lparr>au_action = action, au_target = rq_Path req, au_result = res,
       au_stage = stage_name stage,
       au_meta = RedactedCapabilityMeta (rq_Capabilities req) @
         (case rq_runtimeAdapter req of None \<Rightarrow> []
          | Some a \<Rightarrow> [(''apply_adapter'', applyAuditName a), (''apply_operation'', applyOperationName a)]) @
         [(''apply_stage'', stage_name stage)] @
         (if action = ''apply.success'' then [(''failure_stage'', ''ok'')] else []) @ path_meta req,
       au_cause = cause\<rparr> w"

definition emitFailure :: "platform \<Rightarrow> ApplyRequest \<Rightarrow> string \<Rightarrow> go_error \<Rightarrow> app_world \<Rightarrow> app_world" where
  "emitFailure P req failureStage cause w =
     log_event P \<lparr>au_action = ''apply.failure'', au_target = rq_Path req, au_result = ''error'',
       au_stage = failureStage,
       au_meta = RedactedCapabilityMeta (rq_Capabilities req) @ [(''failure_stage'', failureStage)] @ path_meta req,
       au_cause = Some cause\<rparr> w"

section \<open>ApplyService\<close>

definition applyValidate :: "platform \<Rightarrow> ctx \<Rightarrow> ApplyRequest \<Rightarrow> app_world \<Rightarrow> unit result \<times> app_world" where
  "applyValidate P ctx req w =
     (case ctx_Err ctx w of
        Some e \<Rightarrow> (Inl e, w)
      | None \<Rightarrow>
          (case GetRawSettings P w of
             (Inl e, w) \<Rightarrow> (Inl (ErrWrap ''read live settings'' e), w)
           | (Inr live, w) \<Rightarrow>
               if \<not> RevisionMatches (rq_Expected req) (doc_Revision live)
               then (Inl (Sentinel ErrSourceRevisionMismatch), w)
               else (case parseConfig P (rq_Content req) of
                       Inl e \<Rightarrow> (Inl (if e = Sentinel GoPanic then e else ErrWrap ''parse candidate settings'' e), w)
                     | Inr parsed \<Rightarrow>
                         (case validateAdminAuthPasswords parsed of
                            Some e \<Rightarrow> (Inl (ErrWrap ''validate adminAuth'' e), w)
                          | None \<Rightarrow> (Inr (), w)))))"

text \<open>The snapshot path (empty when there was no file) and the bytes that were saved.\<close>

definition applyBackup :: "platform \<Rightarrow> ApplyRequest \<Rightarrow> app_world \<Rightarrow> (string \<times> string) result \<times> app_world" where
  "applyBackup P req w =
     (case ReadFile (rq_Path req) w of
        (Inl e, w) \<Rightarrow> if errors_is e ErrNotExist then (Inr ('''', ''''), w)
                      else (Inl (ErrWrap ''read live settings'' e), w)
      | (Inr live, w) \<Rightarrow>
          (case writeSettingsSnapshot (rq_BackupDir req) (pf_stamp P) live w of
             (Inl e, w) \<Rightarrow> (Inl (ErrWrap ''write backup'' e), w)
           | (Inr target, w) \<Rightarrow> (Inr (target, live), w)))"

text \<open>The boundary checks of the private \<open>apply\<close>, \<open>apply_tx\<close> below, in order.\<close>

definition apply_boundary :: "ApplyRequest \<Rightarrow> go_error option" where
  "apply_boundary req =
     (if rq_Path req = '''' then Some (ErrText ''apply path is required'')
      else if rq_BackupDir req = '''' then Some (ErrText ''apply backup directory is required'')
      else case validateSettingsPath (rq_Path req) of
          Some e \<Rightarrow> Some e
        | None \<Rightarrow> validateSettingsPath (rq_BackupDir req))"

definition fail_stage ::
    "platform \<Rightarrow> ApplyRequest \<Rightarrow> ApplyStage \<Rightarrow> go_error \<Rightarrow> app_world \<Rightarrow> 'a result \<times> app_world" where
  "fail_stage P req stage e w =
     (if e = Sentinel GoPanic then (Inl e, w)
      else (Inl (ApplyError stage e (rq_Path req)), emit P req ''apply.failure'' stage ''error'' (Some e) w))"

definition apply_result ::
    "platform \<Rightarrow> ApplyRequest \<Rightarrow> string \<Rightarrow> string \<Rightarrow> MirrorSnapshot option \<Rightarrow> ApplyResult" where
  "apply_result P req backupPath liveContent mirror =
     \<lparr>ar_Configuration = (case mirror of None \<Rightarrow> zero_config | Some m \<Rightarrow> ms_Committed m),
      ar_Revision = FingerprintSource (pf_sha P) (pf_now P) (rq_Content req),
      ar_BackupPath = backupPath, ar_Diff = RedactDiff liveContent (rq_Content req),
      ar_Path = rq_Path req, ar_Mirror = mirror\<rparr>"

definition emit_success :: "platform \<Rightarrow> ApplyRequest \<Rightarrow> bool \<Rightarrow> app_world \<Rightarrow> app_world" where
  "emit_success P req emitSuccess w =
     (if emitSuccess then emit P req ''apply.success'' ApplyStageWrite ''ok'' None w else w)"

text \<open>Stage 4: a raw apply reconciles the mirror, and puts the source back if that fails.\<close>

definition apply_reconcile ::
    "platform \<Rightarrow> ctx \<Rightarrow> ApplyRequest \<Rightarrow> string \<Rightarrow> string \<Rightarrow> app_world \<Rightarrow> MirrorSnapshot option result \<times> app_world" where
  "apply_reconcile P ctx req backupPath liveContent w =
     (if rq_StructuredConfig req \<noteq> None \<or> rq_StructuredPatch req \<noteq> None then (Inr None, w)
      else case ReconcileRawSettings P (rq_Content req) w of
          (Inr snapshot, w) \<Rightarrow> (Inr (Some snapshot), emit P req ''apply.reconcile'' ApplyStageReconcile ''ok'' None w)
        | (Inl e, w) \<Rightarrow>
            if e = Sentinel GoPanic then (Inl e, w)
            else (case restoreSourceBytes ctx (rq_Path req) liveContent (backupPath \<noteq> '''') w of
                    (Inl re, w) \<Rightarrow>
                      fail_stage P req ApplyStageReconcile
                        (ErrJoin e (ErrWrap ''restore source after failed reconciliation'' re)) w
                  | (Inr _, w) \<Rightarrow> fail_stage P req ApplyStageReconcile e w))"

definition apply_tx ::
    "platform \<Rightarrow> ctx \<Rightarrow> ApplyRequest \<Rightarrow> bool \<Rightarrow> app_world \<Rightarrow> ApplyResult result \<times> app_world" where
  "apply_tx P ctx req emitSuccess w0 =
     (let w = emit P req ''apply.start'' ApplyStageValidate ''ok'' None w0 in
      case apply_boundary req of
        Some e \<Rightarrow> fail_stage P req ApplyStageValidate e w
      | None \<Rightarrow>
          (case applyValidate P ctx req w of
             (Inl e, w) \<Rightarrow> fail_stage P req ApplyStageValidate e w
           | (Inr _, w) \<Rightarrow>
               (case applyBackup P req w of
                  (Inl e, w) \<Rightarrow> fail_stage P req ApplyStageBackup e w
                | (Inr (backupPath, liveContent), w) \<Rightarrow>
                    (let w = emit P req ''apply.backup'' ApplyStageBackup ''ok'' None w in
                     case AtomicWriteSettings ctx (rq_Path req) (rq_Content req) w of
                       (Inl e, w) \<Rightarrow> fail_stage P req ApplyStageWrite e w
                     | (Inr _, w) \<Rightarrow>
                         (let w = emit P req ''apply.write'' ApplyStageWrite ''ok'' None w in
                          case apply_reconcile P ctx req backupPath liveContent w of
                            (Inl e, w) \<Rightarrow> (Inl e, w)
                          | (Inr mirror, w) \<Rightarrow>
                              (Inr (apply_result P req backupPath liveContent mirror),
                               emit_success P req emitSuccess w))))))"

definition Apply :: "platform \<Rightarrow> ctx \<Rightarrow> ApplyRequest \<Rightarrow> app_world \<Rightarrow> ApplyResult result \<times> app_world" where
  "Apply P ctx req w = apply_tx P ctx req True w"

definition CheckRevisionPrecondition :: "platform \<Rightarrow> ctx \<Rightarrow> ApplyRequest \<Rightarrow> app_world \<Rightarrow> unit result \<times> app_world" where
  "CheckRevisionPrecondition P ctx req w =
     (case ctx_Err ctx w of
        Some e \<Rightarrow> (Inl e, w)
      | None \<Rightarrow>
          if Fingerprint (rq_Expected req) = '''' then (Inr (), w)
          else (case GetRawSettings P w of
                  (Inl e, w) \<Rightarrow> (Inl (ErrWrap ''read live settings for revision check'' e), w)
                | (Inr live, w) \<Rightarrow>
                    if RevisionMatches (rq_Expected req) (doc_Revision live) then (Inr (), w)
                    else (Inl (RevisionConflictError (doc_Revision live) (rq_Expected req) (rq_Path req)), w)))"

section \<open>Rollback\<close>

record RollbackRequest =
  rb_BackupPath :: string
  rb_ActivePath :: string
  rb_Stage :: ApplyStage
  rb_Adapter :: "ApplyAdapter option"
  rb_Capabilities :: ConfigurationCapabilities
  rb_RestoreState :: "(app_world \<Rightarrow> unit result \<times> app_world) option"

definition siblingBaseName :: "string \<Rightarrow> string" where
  "siblingBaseName path = (if path = '''' then '''' else Base path)"

text \<open>\<open>extra\<close> holds the keys a call adds or overwrites.\<close>

definition emitRollback ::
    "platform \<Rightarrow> RollbackRequest \<Rightarrow> string \<Rightarrow> string \<Rightarrow> go_error option \<Rightarrow> (string \<times> string) list \<Rightarrow> app_world \<Rightarrow> app_world" where
  "emitRollback P req action res cause extra w =
     log_event P \<lparr>au_action = action, au_target = rb_ActivePath req, au_result = res,
       au_stage = stage_name (rb_Stage req),
       au_meta = extra @ RedactedCapabilityMeta (rb_Capabilities req) @
         [(''apply_rollback_stage'', stage_name (rb_Stage req))] @
         (case rb_Adapter req of None \<Rightarrow> [(''apply_rollback_adapter'', '''')]
          | Some a \<Rightarrow> [(''apply_rollback_adapter'', applyAuditName a), (''apply_rollback_operation'', applyOperationName a)]) @
         (if rb_BackupPath req \<noteq> '''' then [(''apply_rollback_backup_path'', Base (rb_BackupPath req))] else []) @
         (if rb_ActivePath req \<noteq> '''' then [(''apply_rollback_target'', Base (rb_ActivePath req))] else []),
       au_cause = cause\<rparr> w"

definition rollback_fail ::
    "platform \<Rightarrow> RollbackRequest \<Rightarrow> string \<Rightarrow> string \<Rightarrow> go_error \<Rightarrow> app_world \<Rightarrow> unit result \<times> app_world" where
  "rollback_fail P req action label e w =
     (Inl (RollbackError (rb_Stage req) (ErrWrap label e) (rb_ActivePath req)),
      emitRollback P req ''apply.rollback.failed'' ''error'' (Some e)
        [(''apply_rollback_stage'', stage_name (rb_Stage req)), (''apply_rollback_action'', action)] w)"

text \<open>The post-mortem copy of the rejected candidate: it never stops the rollback.\<close>

definition keep_failed_sibling :: "platform \<Rightarrow> RollbackRequest \<Rightarrow> app_world \<Rightarrow> string \<times> app_world" where
  "keep_failed_sibling P req w =
     (case failedSiblingPath (rb_ActivePath req) (pf_stamp P) w of
        (Inl e, w) \<Rightarrow>
          ('''', emitRollback P req ''apply.rollback.started'' ''degraded'' (Some e)
             [(''apply_rollback_failed_sibling'', '''')] w)
      | (Inr sibling, w) \<Rightarrow>
          (case copyFileExclusive (rb_ActivePath req) sibling w of
             (Inl e, w) \<Rightarrow>
               (sibling, emitRollback P req ''apply.rollback.started'' ''degraded'' (Some e)
                  [(''apply_rollback_failed_sibling'', siblingBaseName sibling)] w)
           | (Inr _, w) \<Rightarrow> (sibling, w)))"

definition rollback_validate :: "RollbackRequest \<Rightarrow> go_error option" where
  "rollback_validate req =
     (if rb_BackupPath req = '''' then Some (ErrText ''rollback: backup path is empty'')
      else if rb_ActivePath req = '''' then Some (ErrText ''rollback: active path is empty'')
      else case rb_Adapter req of
          None \<Rightarrow> Some (ErrText ''rollback: adapter is nil'')
        | Some _ \<Rightarrow> None)"

text \<open>The steps after the snapshot was restored.\<close>

definition rollback_runtime :: "platform \<Rightarrow> ctx \<Rightarrow> RollbackRequest \<Rightarrow> ApplyAdapter \<Rightarrow> string \<Rightarrow> app_world \<Rightarrow> unit result \<times> app_world" where
  "rollback_runtime P ctx req adapter sibling w =
     (case ad_Restart adapter ctx w of
        (Inl e, w) \<Rightarrow> rollback_fail P req ''restart'' ''restart restored configuration'' e w
      | (Inr _, w) \<Rightarrow>
          (case ad_Ready adapter ctx w of
             (Inl e, w) \<Rightarrow> rollback_fail P req ''ready'' ''post-rollback readiness'' e w
           | (Inr _, w) \<Rightarrow>
               (Inr (), emitRollback P req ''apply.rollback.succeeded'' ''ok'' None
                  [(''apply_rollback_stage'', stage_name (rb_Stage req)),
                   (''apply_rollback_failed_sibling'', siblingBaseName sibling)] w)))"

definition ExecuteRollback :: "platform \<Rightarrow> ctx \<Rightarrow> RollbackRequest \<Rightarrow> app_world \<Rightarrow> unit result \<times> app_world" where
  "ExecuteRollback P ctx req w =
     (case rollback_validate req of
        Some e \<Rightarrow>
          (Inl (RollbackError (rb_Stage req) e (rb_ActivePath req)),
           emitRollback P req ''apply.rollback.failed'' ''error'' (Some e) [(''apply_rollback_action'', ''validate'')] w)
      | None \<Rightarrow>
          (let adapter = the (rb_Adapter req);
               w = emitRollback P req ''apply.rollback.started'' ''ok'' None
                     [(''apply_rollback_stage'', stage_name (rb_Stage req)),
                      (''apply_rollback_backup_path'', Base (rb_BackupPath req)),
                      (''apply_rollback_target'', Base (rb_ActivePath req))] w;
               (sibling, w) = keep_failed_sibling P req w
           in case restoreSnapshotContext ctx (rb_BackupPath req) (rb_ActivePath req) w of
                (Inl e, w) \<Rightarrow> rollback_fail P req ''restore'' ''restore snapshot'' e w
              | (Inr _, w) \<Rightarrow>
                  (case rb_RestoreState req of
                     None \<Rightarrow> rollback_runtime P ctx req adapter sibling w
                   | Some restore \<Rightarrow>
                       (case restore w of
                          (Inl e, w) \<Rightarrow> rollback_fail P req ''restore_state'' ''restore authoritative state'' e w
                        | (Inr _, w) \<Rightarrow> rollback_runtime P ctx req adapter sibling w))))"

section \<open>The coordinator\<close>

type_synonym resolver = "ApplyRequest \<Rightarrow> ApplyAdapter option result"

text \<open>\<open>acquire\<close> returns the flight; \<open>release\<close> closes it.\<close>

definition acquire :: "string \<Rightarrow> app_world \<Rightarrow> nat result \<times> app_world" where
  "acquire path w =
     (case flights w path of
        Some f \<Rightarrow>
          if f \<in> done_flights w
          then (Inr (next_flight w), w\<lparr>flights := (flights w)(path \<mapsto> next_flight w), next_flight := Suc (next_flight w)\<rparr>)
          else (Inl (Sentinel ErrApplyInFlight), w)
      | None \<Rightarrow>
          (Inr (next_flight w), w\<lparr>flights := (flights w)(path \<mapsto> next_flight w), next_flight := Suc (next_flight w)\<rparr>))"

definition release :: "string \<Rightarrow> nat \<Rightarrow> app_world \<Rightarrow> app_world" where
  "release path flight w =
     w\<lparr>flights := (if flights w path = Some flight then (flights w)(path := None) else flights w),
       done_flights := insert flight (done_flights w)\<rparr>"

text \<open>The structured state that was committed, if any, and the request with the rendered content.\<close>

definition stageStructured ::
    "platform \<Rightarrow> ApplyRequest \<Rightarrow> app_world \<Rightarrow> (StructuredApplyInput option \<times> ApplyRequest) result \<times> app_world" where
  "stageStructured P req w =
     (case rq_StructuredPatch req of
        Some patch \<Rightarrow>
          (case CommitStructuredPatch P patch w of
             (Inl e, w) \<Rightarrow> fail_stage P req ApplyStageValidate e w
           | (Inr state, w) \<Rightarrow>
               (Inr (Some state, req\<lparr>rq_Content := sa_Content state, rq_BackupDir := sa_BackupDir state,
                  rq_StructuredConfig := Some (sa_Committed state)\<rparr>), w))
      | None \<Rightarrow>
          (case rq_StructuredConfig req of
             None \<Rightarrow> (Inr (None, req), w)
           | Some cfg \<Rightarrow>
               (case CommitStructured P cfg w of
                  (Inl e, w) \<Rightarrow> fail_stage P req ApplyStageValidate e w
                | (Inr state, w) \<Rightarrow>
                    (Inr (Some state, req\<lparr>rq_Content := sa_Content state, rq_BackupDir := sa_BackupDir state\<rparr>), w))))"

definition with_committed :: "StructuredApplyInput option \<Rightarrow> ApplyResult \<Rightarrow> ApplyResult" where
  "with_committed state result =
     (case state of None \<Rightarrow> result | Some s \<Rightarrow> result\<lparr>ar_Configuration := sa_Committed s\<rparr>)"

text \<open>Undoing the structured commit after a failed \<open>apply\<close>.\<close>

definition undo_structured ::
    "StructuredApplyInput option \<Rightarrow> ApplyRequest \<Rightarrow> go_error \<Rightarrow> app_world \<Rightarrow> 'a result \<times> app_world" where
  "undo_structured state req e w =
     (if e = Sentinel GoPanic then (Inl e, w)
      else case state of
          None \<Rightarrow> (Inl e, w)
        | Some s \<Rightarrow>
            (case RestoreStructured s w of
               (Inl re, w) \<Rightarrow>
                 (Inl (ApplyError ApplyStageRollback (ErrJoin e (ErrWrap ''restore structured config'' re)) (rq_Path req)), w)
             | (Inr _, w) \<Rightarrow> (Inl e, w)))"

text \<open>Restart and readiness: the failing stage and its cause.\<close>

definition run_stages :: "ctx \<Rightarrow> ApplyAdapter \<Rightarrow> app_world \<Rightarrow> (ApplyStage \<times> go_error) option \<times> app_world" where
  "run_stages ctx adapter w =
     (case ad_Restart adapter ctx w of
        (Inl e, w) \<Rightarrow> (Some (ApplyStageRestart, e), w)
      | (Inr _, w) \<Rightarrow>
          (case ctx_Err ctx w of
             Some e \<Rightarrow> (Some (ApplyStageRestart, e), w)
           | None \<Rightarrow>
               (case ad_Ready adapter ctx w of
                  (Inl e, w) \<Rightarrow> (Some (ApplyStageReady, e), w)
                | (Inr _, w) \<Rightarrow>
                    (case ctx_Err ctx w of
                       Some e \<Rightarrow> (Some (ApplyStageReady, e), w)
                     | None \<Rightarrow> (None, w)))))"

definition restore_state ::
    "StructuredApplyInput option \<Rightarrow> MirrorSnapshot option \<Rightarrow> app_world \<Rightarrow> unit result \<times> app_world" where
  "restore_state state mirror w =
     (case (case state of None \<Rightarrow> (Inr (), w) | Some s \<Rightarrow> RestoreStructured s w) of
        (Inl e, w) \<Rightarrow> (Inl e, w)
      | (Inr _, w) \<Rightarrow> (case mirror of None \<Rightarrow> (Inr (), w) | Some m \<Rightarrow> RestoreMirror m w))"

definition recover ::
    "platform \<Rightarrow> ApplyRequest \<Rightarrow> ApplyAdapter \<Rightarrow> StructuredApplyInput option \<Rightarrow> ApplyResult \<Rightarrow> ApplyStage \<Rightarrow>
     go_error \<Rightarrow> app_world \<Rightarrow> ApplyResult result \<times> app_world" where
  "recover P req adapter state result stage cause w =
     (let (r, w) = ExecuteRollback P (pf_recovery P (calls w))
            \<lparr>rb_BackupPath = ar_BackupPath result, rb_ActivePath = rq_Path req, rb_Stage = stage,
             rb_Adapter = Some adapter, rb_Capabilities = rq_Capabilities req,
             rb_RestoreState = Some (restore_state state (ar_Mirror result))\<rparr> w;
          cause = (case r of Inl re \<Rightarrow> ErrJoin cause (ErrWrap ''recovery failed'' re) | Inr _ \<Rightarrow> cause)
      in (Inl (ApplyError stage cause (rq_Path req)),
          emit P req ''apply.failure'' stage ''error'' (Some cause) w))"

definition applyRuntime ::
    "platform \<Rightarrow> resolver \<Rightarrow> ctx \<Rightarrow> ApplyRequest \<Rightarrow> app_world \<Rightarrow> ApplyResult result \<times> app_world" where
  "applyRuntime P resolve ctx req w =
     (case resolve req of
        Inl e \<Rightarrow> fail_stage P req ApplyStageValidate e w
      | Inr None \<Rightarrow> fail_stage P req ApplyStageValidate (Sentinel ErrUnsupportedAdapter) w
      | Inr (Some adapter) \<Rightarrow>
          (case stageStructured P (req\<lparr>rq_runtimeAdapter := Some adapter\<rparr>) w of
             (Inl e, w) \<Rightarrow> (Inl e, w)
           | (Inr (state, req), w) \<Rightarrow>
               (case applyValidate P ctx req w of
                  (Inl e, w) \<Rightarrow>
                    if e = Sentinel GoPanic then (Inl e, w)
                    else (case (case state of None \<Rightarrow> (Inr (), w) | Some s \<Rightarrow> RestoreStructured s w) of
                            (Inl re, w) \<Rightarrow>
                              (Inl (ApplyError ApplyStageValidate (ErrJoin e (ErrWrap ''restore structured config'' re)) (rq_Path req)), w)
                          | (Inr _, w) \<Rightarrow> (Inl (ApplyError ApplyStageValidate e (rq_Path req)), w))
                | (Inr _, w) \<Rightarrow>
                    (case apply_tx P ctx req False w of
                       (Inl e, w) \<Rightarrow> undo_structured state req e w
                     | (Inr result, w) \<Rightarrow>
                         (let result = with_committed state result in
                          case run_stages ctx adapter w of
                            (Some (stage, cause), w) \<Rightarrow> recover P req adapter state result stage cause w
                          | (None, w) \<Rightarrow>
                              (Inr result, emit P req ''apply.success'' ApplyStageReady ''ok'' None w))))))"

text \<open>The body of \<open>ApplyCoordinator.Apply\<close> between \<open>acquire\<close> and the deferred \<open>release\<close>.\<close>

definition coordinated ::
    "platform \<Rightarrow> resolver option \<Rightarrow> ctx \<Rightarrow> ApplyRequest \<Rightarrow> app_world \<Rightarrow> ApplyResult result \<times> app_world" where
  "coordinated P resolve ctx req w =
     (case CheckRevisionPrecondition P ctx req w of
        (Inl e, w) \<Rightarrow>
          (case as_conflict e of
             Some (l, p, q) \<Rightarrow>
               (Inl (RevisionConflictError l p q), emitFailure P req ''validate'' (RevisionConflictError l p q) w)
           | None \<Rightarrow>
               (let ae = ApplyError ApplyStageValidate e (rq_Path req) in
                (Inl ae, emitFailure P req ''validate'' ae w)))
      | (Inr _, w) \<Rightarrow>
          (case resolve of
             Some res \<Rightarrow>
               (case (rq_StructuredPatch req, rq_StructuredConfig req) of
                  (Some patch, None) \<Rightarrow>
                    (case PreviewStructuredPatch P patch w of
                       (Inl e, w) \<Rightarrow>
                         if e = Sentinel GoPanic then (Inl e, w)
                         else (let ae = ApplyError ApplyStageValidate e (rq_Path req) in
                               (Inl ae, emitFailure P req ''validate'' ae w))
                     | (Inr preview, w) \<Rightarrow> applyRuntime P res ctx (req\<lparr>rq_StructuredConfig := Some preview\<rparr>) w)
                | _ \<Rightarrow> applyRuntime P res ctx req w)
           | None \<Rightarrow>
               (case stageStructured P req w of
                  (Inl e, w) \<Rightarrow> (Inl e, w)
                | (Inr (state, req), w) \<Rightarrow>
                    (case Apply P ctx req w of
                       (Inl e, w) \<Rightarrow> undo_structured state req e w
                     | (Inr result, w) \<Rightarrow> (Inr (with_committed state result), w)))))"

definition coordinator_Apply ::
    "platform \<Rightarrow> resolver option \<Rightarrow> ctx \<Rightarrow> ApplyRequest \<Rightarrow> app_world \<Rightarrow> ApplyResult result \<times> app_world" where
  "coordinator_Apply P resolve ctx req w =
     (if rq_Path req = ''''
      then (let e = ApplyError ApplyStageValidate (ErrText ''apply path is required'') '''' in
            (Inl e, emitFailure P req ''validate'' e w))
      else case acquire (rq_Path req) w of
          (Inl e, w) \<Rightarrow> (Inl e, emitFailure P req ''start'' e w)
        | (Inr flight, w) \<Rightarrow>
            (case coordinated P resolve ctx req w of
               (r, w) \<Rightarrow> (r, release (rq_Path req) flight w)))"

end
