(* ===== verification/ApplySafety.thy ===== *)
theory ApplySafety
  imports Apply
begin

text \<open>
  What an apply transaction leaves behind, for every pattern of failing system calls, every
  cancellation point and every JavaScript engine: which bytes are live, what the mirror holds,
  which recovery points exist, and what the audit log says.
\<close>

section \<open>Frames\<close>

text \<open>The part of the state the file-system calls do not see.\<close>

definition core :: "app_world \<Rightarrow> NodeRedConfig option \<times> (string \<rightharpoonup> nat) \<times> nat set \<times> nat" where
  "core w = (cfg_file w, flights w, done_flights w, next_flight w)"

definition slots :: "app_world \<Rightarrow> (string \<rightharpoonup> nat) \<times> nat set \<times> nat" where
  "slots w = (flights w, done_flights w, next_flight w)"

lemma core_slots: "core w = (cfg_file w, slots w)"
  by (simp add: core_def slots_def)

lemma more_core:
  "world.more w' = world.more w \<Longrightarrow> core w' = core w \<and> audit_log w' = audit_log w"
  by (cases w; cases w') (simp add: core_def)

lemma more_cfg: "world.more w' = world.more (w :: 'a svc_world_scheme) \<Longrightarrow> cfg_file w' = cfg_file w"
  by (cases w; cases w') simp

lemma core_cfg: "core w' = core w \<Longrightarrow> cfg_file w' = cfg_file w"
  by (simp add: core_def)

lemma emit_frame [simp]:
  "files (emit P req a s r c w) = files w" "core (emit P req a s r c w) = core w"
  "links (emit P req a s r c w) = links w" "calls (emit P req a s r c w) = calls w"
  "cfg_file (emit P req a s r c w) = cfg_file w" "slots (emit P req a s r c w) = slots w"
  "faults (emit P req a s r c w) = faults w"
  by (simp_all add: emit_def log_event_def core_def slots_def)

lemma emitRollback_frame [simp]:
  "files (emitRollback P rb a r c x w) = files w" "core (emitRollback P rb a r c x w) = core w"
  by (simp_all add: emitRollback_def log_event_def core_def)

lemma emitFailure_frame [simp]:
  "files (emitFailure P req s c w) = files w" "core (emitFailure P req s c w) = core w"
  by (simp_all add: emitFailure_def log_event_def core_def)

lemma fail_stage_frame:
  "fail_stage P req s e w = (r, w') \<Longrightarrow> files w' = files w \<and> core w' = core w \<and> (\<exists>e'. r = Inl e') \<and>
     (e \<noteq> Sentinel GoPanic \<longrightarrow> r = Inl (ApplyError s e (rq_Path req)))"
  by (auto simp: fail_stage_def split: if_splits)

lemma emit_success_frame [simp]:
  "files (emit_success P req b w) = files w" "core (emit_success P req b w) = core w"
  by (simp_all add: emit_success_def)

section \<open>The stages\<close>

lemma GetRawSettings_post:
  "GetRawSettings P w = (r, w') \<Longrightarrow> files w' = files w \<and> world.more w' = world.more w \<and>
     (\<forall>d. r = Inr d \<longrightarrow> doc_Content d =
        (case files w (pf_path P) of Some c \<Rightarrow> c | None \<Rightarrow> renderSettingsJS (pf_print P) DefaultNodeRedConfig) \<and>
        doc_Revision d = FingerprintSource (pf_sha P) (pf_now P) (doc_Content d))"
proof -
  assume g: "GetRawSettings P w = (r, w')"
  obtain r1 w1 where rd: "ReadFile (pf_path P) w = (r1, w1)" by force
  note post = ReadFile_full [OF rd]
  have ne: "r1 = Inl e \<Longrightarrow> errors_is e ErrNotExist \<Longrightarrow> files w (pf_path P) = None" for e
    using rd by (auto simp: ReadFile_def sys_call_def split: option.splits)
  show ?thesis
    using g rd post ne by (cases r1) (auto simp: GetRawSettings_def Let_def split: if_splits)
qed

lemma applyValidate_post:
  "applyValidate P ctx req w = (r, w') \<Longrightarrow> files w' = files w \<and> world.more w' = world.more w"
  unfolding applyValidate_def
  by (auto dest!: GetRawSettings_post split: option.splits prod.splits sum.splits if_splits)

lemma CheckRevisionPrecondition_post:
  "CheckRevisionPrecondition P ctx req w = (r, w') \<Longrightarrow> files w' = files w \<and> world.more w' = world.more w"
  unfolding CheckRevisionPrecondition_def
  by (auto dest!: GetRawSettings_post split: option.splits prod.splits sum.splits if_splits)

text \<open>The snapshot of an existing file is a new file with its bytes; without a file there is no
  snapshot.\<close>

definition snapshot_of :: "string \<Rightarrow> string option \<Rightarrow> string \<Rightarrow> bool" where
  "snapshot_of b old live \<longleftrightarrow>
     (case old of None \<Rightarrow> b = '''' \<and> live = '''' | Some d \<Rightarrow> b \<noteq> '''' \<and> live = d)"

text \<open>The snapshots' suffix keeps them apart from the temporary siblings.\<close>

definition backup_name :: "string \<Rightarrow> bool" where
  "backup_name b \<longleftrightarrow> (\<exists>pre. b = pre @ ''.js.bak'')"

lemma backup_not_tmp: "backup_name b \<Longrightarrow> hex_token 8 tok \<Longrightarrow> b \<noteq> path @ ''.apply-'' @ tok"
  using bak_not_tmp [of 8 tok _ path] by (auto simp: backup_name_def)

lemma backup_nonempty: "backup_name b \<Longrightarrow> b \<noteq> ''''"
  by (auto simp: backup_name_def)

lemma applyBackup_post:
  assumes "applyBackup P req w = (r, w')"
  shows "preserves w w' \<and> files w' (rq_Path req) = files w (rq_Path req)"
    and "\<And>b live. r = Inr (b, live) \<Longrightarrow> snapshot_of b (files w (rq_Path req)) live \<and> preserves w w' \<and>
       (b = '''' \<longrightarrow> files w' = files w) \<and>
       (b \<noteq> '''' \<longrightarrow> files w b = None \<and> files w' b = Some live \<and>
          backup_name b)"
proof -
  obtain r1 w1 where rd: "ReadFile (rq_Path req) w = (r1, w1)" by force
  note rd' = ReadFile_full [OF rd]
  have ne: "r1 = Inl e \<Longrightarrow> errors_is e ErrNotExist \<Longrightarrow> files w (rq_Path req) = None" for e
    using rd by (auto simp: ReadFile_def sys_call_def split: option.splits)
  have "preserves w w' \<and> files w' (rq_Path req) = files w (rq_Path req) \<and>
    (\<forall>b live. r = Inr (b, live) \<longrightarrow> snapshot_of b (files w (rq_Path req)) live \<and>
       (b = '''' \<longrightarrow> files w' = files w) \<and>
       (b \<noteq> '''' \<longrightarrow> files w b = None \<and> files w' b = Some live \<and>
          backup_name b))"
  proof (cases r1)
    case (Inl e)
    then show ?thesis
      using assms rd rd' ne by (auto simp: applyBackup_def preserves_def snapshot_of_def split: if_splits)
  next
    case (Inr live)
    obtain r2 w2 where s: "writeSettingsSnapshot (rq_BackupDir req) (pf_stamp P) live w1 = (r2, w2)" by force
    note s' = writeSettingsSnapshot_post [OF s]
    have old: "files w (rq_Path req) = Some live" using rd' Inr by simp
    have pres: "preserves w w2" using s' rd' by (simp add: preserves_def)
    show ?thesis
    proof (cases r2)
      case (Inl e)
      then show ?thesis
        using assms rd Inr s pres old by (auto simp: applyBackup_def preserves_def)
    next
      case (Inr t)
      then have dir: "rq_BackupDir req \<noteq> ''''" using s by (auto simp: writeSettingsSnapshot_def split: if_splits)
      obtain tok where t: "files w t = None" "files w2 t = Some live"
        "t = JoinPath [rq_BackupDir req, (''settings-'' @ pf_stamp P @ ''-'' @ tok) @ ''.js.bak'']"
        using s' Inr rd' by auto
      have bn: "backup_name t"
        unfolding t(3) backup_name_def using snapshot_path_suffix [OF dir] by blast
      note ne' = backup_nonempty [OF bn]
      then show ?thesis
        using assms rd \<open>r1 = Inr live\<close> s Inr pres old t(1,2) ne' bn
        by (auto simp: applyBackup_def preserves_def snapshot_of_def)
    qed
  qed
  then show "preserves w w' \<and> files w' (rq_Path req) = files w (rq_Path req)"
    and "\<And>b live. r = Inr (b, live) \<Longrightarrow> snapshot_of b (files w (rq_Path req)) live \<and> preserves w w' \<and>
       (b = '''' \<longrightarrow> files w' = files w) \<and>
       (b \<noteq> '''' \<longrightarrow> files w b = None \<and> files w' b = Some live \<and>
          backup_name b)"
    by blast+
qed

lemma same_fs_app:
  "same_fs (w :: app_world) w' \<Longrightarrow> files w' = files w \<and> audit_log w' = audit_log w \<and> flights w' = flights w \<and>
     done_flights w' = done_flights w \<and> next_flight w' = next_flight w"
  by (cases w; cases w') (simp add: same_fs_def)

text \<open>The mirror after a reconciliation: unchanged on failure, otherwise the committed document,
  with the previous one captured.\<close>

definition mirror_post :: "app_world \<Rightarrow> MirrorSnapshot \<Rightarrow> app_world \<Rightarrow> bool" where
  "mirror_post w m w' \<longleftrightarrow>
     cfg_file w' = Some (stored (ms_Committed m)) \<and>
     ms_Previous m = (case cfg_file w of None \<Rightarrow> zero_config | Some c \<Rightarrow> c) \<and>
     (ms_Existed m \<longrightarrow> cfg_file w \<noteq> None \<and>
        FunctionLibraries (ms_Committed m) = FunctionLibraries (ms_Previous m) \<and>
        RuntimeState (ms_Committed m) = RuntimeState (ms_Previous m) \<and>
        (UIPort (ms_Committed m) > 0 \<and> Port (ms_Committed m) = 0 \<longrightarrow>
           UIPort (ms_Previous m) > 0 \<and> Port (ms_Previous m) = 0))"

lemma parseConfig_ports: "parseConfig P content = Inr c \<Longrightarrow> Port c = UIPort c"
  by (auto simp: parseConfig_def parseConfigFromContent_def Let_def split: option.splits sum.splits)

lemma reconcile_fields:
  "FunctionLibraries (reconcileConfigWithSource sp cur par content ex) = FunctionLibraries cur"
  "RuntimeState (reconcileConfigWithSource sp cur par content ex) = RuntimeState cur"
  "(Port (reconcileConfigWithSource sp cur par content ex), UIPort (reconcileConfigWithSource sp cur par content ex))
     \<in> {(Port cur, UIPort cur), (Port par, UIPort par)}"
  by (simp_all add: reconcileConfigWithSource_def Let_def)

lemma decorate_fields:
  "FunctionLibraries (decorateConfig P c) = FunctionLibraries c" "RuntimeState (decorateConfig P c) = RuntimeState c"
  "Port (decorateConfig P c) = Port c" "UIPort (decorateConfig P c) = UIPort c"
  by (simp_all add: decorateConfig_def)

lemma reconcile_callback_post:
  assumes "reconcile_callback P content parsed ex existed current = Inr (c, previous, committed)"
    "Port parsed = UIPort parsed"
  shows "committed = c \<and> previous = current \<and> (existed \<longrightarrow>
     FunctionLibraries c = FunctionLibraries current \<and> RuntimeState c = RuntimeState current \<and>
     (UIPort c > 0 \<and> Port c = 0 \<longrightarrow> UIPort current > 0 \<and> Port current = 0))"
proof -
  let ?rc = "reconcileConfigWithSource (pf_sprint P) current parsed content ex"
  have p: "(Port ?rc, UIPort ?rc) \<in> {(Port current, UIPort current), (Port parsed, UIPort parsed)}"
    by (rule reconcile_fields(3))
  show ?thesis
    using assms p
    by (cases existed; cases "Validate ?rc"; cases "Validate (reconcileConfigWithSource (pf_sprint P) parsed parsed content ex)")
      (auto simp: reconcile_callback_def Let_def reconcile_fields(1,2) decorate_fields)
qed

lemma ReconcileRawSettings_post:
  assumes "ReconcileRawSettings P content (w :: app_world) = (r, w')"
  shows "same_fs w w' \<and> (case r of Inl _ \<Rightarrow> cfg_file w' = cfg_file w | Inr m \<Rightarrow> mirror_post w m w')"
proof (cases "parseConfig P content")
  case (Inl e)
  then show ?thesis using assms by (auto simp: ReconcileRawSettings_def)
next
  case (Inr parsed)
  let ?ex = "case exportSettingsObject (pf_goja P) content of Inl _ \<Rightarrow> None | Inr fs \<Rightarrow> Some fs"
  obtain b w1 where ex: "store_Exists w = (b, w1)" by force
  note ex' = store_Exists_post [OF ex]
  obtain r2 w2 where u: "store_Update (reconcile_callback P content parsed ?ex b) w1 = (r2, w2)" by force
  note u' = store_Update_post [OF u]
  have rec: "(r, w') = (case r2 of Inl e \<Rightarrow> (Inl e, w2)
     | Inr (previous, committed) \<Rightarrow>
         (Inr \<lparr>ms_Existed = b, ms_Previous = previous, ms_Committed = committed\<rparr>, w2))"
    using assms Inr ex u by (auto simp: ReconcileRawSettings_def Let_def split: sum.splits)
  have "same_fs w w2" using u' ex' by (simp add: update_post_def)
  show ?thesis
  proof (cases r2)
    case (Inl e)
    then show ?thesis using rec u' ex' \<open>same_fs w w2\<close> by (simp add: update_post_def)
  next
    case (Inr pc)
    obtain previous committed where pc: "pc = (previous, committed)" by force
    then obtain c where c: "reconcile_callback P content parsed ?ex b
        (case cfg_file w1 of None \<Rightarrow> zero_config | Some d \<Rightarrow> d) = Inr (c, previous, committed)"
      "cfg_file w2 = Some (stored c)"
      using u' Inr by (auto simp: update_post_def)
    from reconcile_callback_post [OF this(1) parseConfig_ports [OF \<open>parseConfig P content = Inr parsed\<close>]]
    show ?thesis
      using rec Inr pc c(2) ex' \<open>same_fs w w2\<close> by (auto simp: mirror_post_def)
  qed
qed

lemma restoreSourceBytes_post:
  assumes "restoreSourceBytes ctx path previous existed w = (r, w')"
  shows "world.more w' = world.more w \<and>
     files w' path \<in> {files w path, if existed then Some previous else None} \<and>
     (r = Inr () \<longrightarrow> files w' path = (if existed then Some previous else None)) \<and>
     (\<exists>tok. hex_token 8 tok \<and> (\<forall>p. p \<noteq> path \<and> p \<noteq> path @ ''.apply-'' @ tok \<longrightarrow> files w' p = files w p))"
proof (cases existed)
  case True
  then have "AtomicWriteSettings ctx path previous w = (r, w')" using assms by (simp add: restoreSourceBytes_def)
  from AtomicWriteSettings_post [OF this] show ?thesis using True by (auto simp: atomic_post_def)
next
  case False
  obtain r1 w1 where d: "Remove path w = (r1, w1)" by force
  note d' = Remove_post [OF d] Remove_more [OF d]
  have "r1 = Inl e \<Longrightarrow> errors_is e ErrNotExist \<Longrightarrow> files w path = None" for e
    using d by (auto simp: Remove_def sys_call_def split: option.splits if_splits)
  then show ?thesis
    using assms False d d' ex_hex_token [of 8]
    by (cases r1) (auto simp: restoreSourceBytes_def split: if_splits)
qed

section \<open>The transaction\<close>

text \<open>Paths that are neither the live file nor one of its temporary siblings.\<close>

definition bystander :: "string \<Rightarrow> string \<Rightarrow> bool" where
  "bystander path p \<longleftrightarrow> p \<noteq> path \<and> (\<forall>tok. hex_token 8 tok \<longrightarrow> p \<noteq> path @ ''.apply-'' @ tok)"

lemma apply_reconcile_post:
  assumes "apply_reconcile P ctx req b live w = (r, w')"
  shows "(\<forall>p. bystander (rq_Path req) p \<longrightarrow> files w' p = files w p) \<and>
     (case r of
        Inr None \<Rightarrow> (rq_StructuredConfig req \<noteq> None \<or> rq_StructuredPatch req \<noteq> None) \<and>
                    files w' = files w \<and> core w' = core w
      | Inr (Some m) \<Rightarrow> files w' = files w \<and> mirror_post w m w' \<and> slots w' = slots w \<and>
          rq_StructuredConfig req = None \<and> rq_StructuredPatch req = None
      | Inl e \<Rightarrow> core w' = core w \<and>
          files w' (rq_Path req) \<in> {files w (rq_Path req), if b \<noteq> '''' then Some live else None} \<and>
          (e \<noteq> Sentinel GoPanic \<longrightarrow> (\<exists>c. e = ApplyError ApplyStageReconcile c (rq_Path req) \<and>
             (files w' (rq_Path req) = (if b \<noteq> '''' then Some live else None) \<or>
              (\<exists>a re. c = ErrJoin a (ErrWrap ''restore source after failed reconciliation'' re))))))"
proof (cases "rq_StructuredConfig req \<noteq> None \<or> rq_StructuredPatch req \<noteq> None")
  case True
  then show ?thesis using assms by (auto simp: apply_reconcile_def)
next
  case False
  obtain r1 w1 where rc: "ReconcileRawSettings P (rq_Content req) w = (r1, w1)" by force
  note rc' = ReconcileRawSettings_post [OF rc]
  have fs: "files w1 = files w" and more: "slots w1 = slots w"
    using rc' same_fs_app by (auto simp: slots_def)
  show ?thesis
  proof (cases r1)
    case (Inr m)
    then show ?thesis
      using assms False rc rc' fs more by (auto simp: apply_reconcile_def mirror_post_def)
  next
    case (Inl e)
    then have core1: "core w1 = core w" using rc' more by (simp add: core_slots)
    show ?thesis
    proof (cases "e = Sentinel GoPanic")
      case True
      then show ?thesis using assms False rc Inl fs core1 by (auto simp: apply_reconcile_def)
    next
      case np: False
      obtain r2 w2 where rs: "restoreSourceBytes ctx (rq_Path req) live (b \<noteq> '''') w1 = (r2, w2)" by force
      note rs' = restoreSourceBytes_post [OF rs]
      have core2: "core w2 = core w" using rs' more_core core1 by metis
      have by2: "bystander (rq_Path req) p \<Longrightarrow> files w2 p = files w p" for p
        using rs' fs by (auto simp: bystander_def)
      show ?thesis
      proof (cases r2)
        case (Inl re)
        let ?c = "ErrJoin e (ErrWrap ''restore source after failed reconciliation'' re)"
        have "(r, w') = (Inl (ApplyError ApplyStageReconcile ?c (rq_Path req)),
            emit P req ''apply.failure'' ApplyStageReconcile ''error'' (Some ?c) w2)"
          using assms False rc \<open>r1 = Inl e\<close> np rs Inl by (simp add: apply_reconcile_def fail_stage_def)
        then show ?thesis using rs' core2 by2 fs by simp
      next
        case (Inr u)
        have "(r, w') = (Inl (ApplyError ApplyStageReconcile e (rq_Path req)),
            emit P req ''apply.failure'' ApplyStageReconcile ''error'' (Some e) w2)"
          using assms False rc \<open>r1 = Inl e\<close> np rs Inr by (simp add: apply_reconcile_def fail_stage_def)
        then show ?thesis using rs' core2 by2 Inr by simp
      qed
    qed
  qed
qed

text \<open>The contract of the transaction.\<close>

definition tx_post :: "ApplyRequest \<Rightarrow> app_world \<Rightarrow> ApplyResult result \<Rightarrow> app_world \<Rightarrow> bool" where
  "tx_post req w r w' \<longleftrightarrow>
     (\<forall>p d. bystander (rq_Path req) p \<and> files w p = Some d \<longrightarrow> files w' p = Some d) \<and>
     slots w' = slots w \<and>
     (case r of
        Inr res \<Rightarrow> files w' (rq_Path req) = Some (rq_Content req) \<and>
          (case files w (rq_Path req) of
             None \<Rightarrow> ar_BackupPath res = ''''
           | Some d \<Rightarrow> ar_BackupPath res \<noteq> '''' \<and> files w (ar_BackupPath res) = None \<and>
               files w' (ar_BackupPath res) = Some d \<and> backup_name (ar_BackupPath res) \<and>
               ar_BackupPath res \<noteq> rq_Path req) \<and>
          (case ar_Mirror res of
             None \<Rightarrow> (rq_StructuredConfig req \<noteq> None \<or> rq_StructuredPatch req \<noteq> None) \<and> cfg_file w' = cfg_file w
           | Some m \<Rightarrow> rq_StructuredConfig req = None \<and> rq_StructuredPatch req = None \<and> mirror_post w m w')
      | Inl e \<Rightarrow> cfg_file w' = cfg_file w \<and>
          files w' (rq_Path req) \<in> {files w (rq_Path req), Some (rq_Content req)} \<and>
          (e \<noteq> Sentinel GoPanic \<longrightarrow> (\<exists>st c. e = ApplyError st c (rq_Path req) \<and>
             st \<in> {ApplyStageValidate, ApplyStageBackup, ApplyStageWrite, ApplyStageReconcile} \<and>
             (st \<in> {ApplyStageValidate, ApplyStageBackup} \<longrightarrow> files w' (rq_Path req) = files w (rq_Path req)) \<and>
             (st = ApplyStageReconcile \<longrightarrow> files w' (rq_Path req) = files w (rq_Path req) \<or>
                (\<exists>a re. c = ErrJoin a (ErrWrap ''restore source after failed reconciliation'' re))))))"

text \<open>The beginning of the transaction, up to the snapshot, changes neither the live file nor any
  other existing file.\<close>

lemma tx_post_early:
  assumes "fail_stage P req st e v = (r, w')" "preserves w0 v" "world.more v = world.more w0"
    "files w0 = files w" "core w0 = core w" "files v (rq_Path req) = files w (rq_Path req)"
    "st \<in> {ApplyStageValidate, ApplyStageBackup}"
  shows "tx_post req w r w'"
proof -
  note f = fail_stage_frame [OF assms(1)]
  have "core w' = core w" using f assms(3,5) more_core by metis
  moreover have "\<forall>p d. files w p = Some d \<longrightarrow> files w' p = Some d"
    using assms(2,4) f by (auto simp: preserves_def)
  moreover have "\<exists>e'. r = Inl e' \<and> (e' \<noteq> Sentinel GoPanic \<longrightarrow> e' = ApplyError st e (rq_Path req))"
    using assms(1) by (auto simp: fail_stage_def split: if_splits)
  ultimately show ?thesis
    using f assms(6,7) by (auto simp: tx_post_def core_slots)
qed

lemma apply_write_post:
  assumes aw: "AtomicWriteSettings ctx (rq_Path req) (rq_Content req) w2 = (r3, w3)"
    and b: "snapshot_of b (files w (rq_Path req)) live"
      "b \<noteq> '''' \<Longrightarrow> files w b = None \<and> files w2 b = Some live \<and>
          backup_name b"
    and pres: "\<And>p d. files w p = Some d \<Longrightarrow> files w2 p = Some d" "core w2 = core w"
      "files w2 (rq_Path req) = files w (rq_Path req)"
    and rest: "(r, w') = (case r3 of Inl e \<Rightarrow> fail_stage P req ApplyStageWrite e w3
       | Inr _ \<Rightarrow> (case apply_reconcile P ctx req b live (emit P req ''apply.write'' ApplyStageWrite ''ok'' None w3) of
            (Inl e, w) \<Rightarrow> (Inl e, w)
          | (Inr mirror, w) \<Rightarrow> (Inr (apply_result P req b live mirror), emit_success P req es w)))"
  shows "tx_post req w r w'"
proof -
  note aw' = AtomicWriteSettings_post [OF aw, unfolded atomic_post_def]
  have core3: "core w3 = core w" using aw' more_core pres(2) by metis
  have by3: "bystander (rq_Path req) p \<Longrightarrow> files w3 p = files w2 p" for p
    using aw' by (auto simp: bystander_def)
  have live3: "files w3 (rq_Path req) \<in> {files w (rq_Path req), Some (rq_Content req)}"
    using aw' pres(3) by auto
  have bb: "b \<noteq> '''' \<Longrightarrow> bystander (rq_Path req) b"
    using b backup_not_tmp [of b _ "rq_Path req"] by (auto simp: bystander_def snapshot_of_def split: option.splits)
  show ?thesis
  proof (cases r3)
    case (Inl e)
    then have fl: "fail_stage P req ApplyStageWrite e w3 = (r, w')" using rest by simp
    note f = fail_stage_frame [OF fl]
    have "\<exists>e'. r = Inl e' \<and> (e' \<noteq> Sentinel GoPanic \<longrightarrow> e' = ApplyError ApplyStageWrite e (rq_Path req))"
      using fl by (auto simp: fail_stage_def split: if_splits)
    then show ?thesis
      using f by3 pres(1) core3 live3 by (auto simp: tx_post_def core_slots)
  next
    case (Inr u)
    have new: "files w3 (rq_Path req) = Some (rq_Content req)" using aw' Inr by simp
    obtain r4 w4 where rc: "apply_reconcile P ctx req b live
        (emit P req ''apply.write'' ApplyStageWrite ''ok'' None w3) = (r4, w4)" by force
    note rc' = apply_reconcile_post [OF rc]
    have keep4: "bystander (rq_Path req) p \<Longrightarrow> files w p = Some d \<Longrightarrow> files w4 p = Some d" for p d
      using rc' by3 pres(1) by auto
    have old: "(if b \<noteq> '''' then Some live else None) = files w (rq_Path req)"
      using b(1) by (auto simp: snapshot_of_def split: option.splits)
    show ?thesis
    proof (cases r4)
      case (Inl e)
      then have rw: "r = Inl e" "w' = w4" using rest \<open>r3 = Inr u\<close> rc by auto
      show ?thesis
        unfolding tx_post_def rw using rc' Inl keep4 core3 new old by (auto simp: core_slots)
    next
      case (Inr mir)
      then have rw: "r = Inr (apply_result P req b live mir)" "w' = emit_success P req es w4"
        using rest \<open>r3 = Inr u\<close> rc by auto
      have w4: "files w4 = files w3" "slots w4 = slots w"
        using rc' Inr core3 by (cases mir; simp add: core_slots)+
      have snap: "case files w (rq_Path req) of None \<Rightarrow> b = ''''
          | Some d \<Rightarrow> b \<noteq> '''' \<and> files w b = None \<and> files w3 b = Some d \<and> backup_name b \<and> b \<noteq> rq_Path req"
        using b bb by3 by (auto simp: snapshot_of_def bystander_def split: option.splits)
      have mirr: "case mir of
             None \<Rightarrow> (rq_StructuredConfig req \<noteq> None \<or> rq_StructuredPatch req \<noteq> None) \<and> cfg_file w4 = cfg_file w
           | Some m \<Rightarrow> rq_StructuredConfig req = None \<and> rq_StructuredPatch req = None \<and> mirror_post w m w4"
        using rc' Inr core3 by (cases mir) (auto simp: core_slots mirror_post_def)
      have es: "cfg_file w' = cfg_file w4" "slots w' = slots w4" "files w' = files w4"
        using rw(2) by (auto simp: emit_success_def)
      show ?thesis
        unfolding tx_post_def rw(1) using snap mirr es w4 keep4 new
        by (auto simp: apply_result_def mirror_post_def split: option.splits)
    qed
  qed
qed

lemma apply_tx_post:
  assumes "apply_tx P ctx req es w = (r, w')"
  shows "tx_post req w r w'"
proof -
  let ?w0 = "emit P req ''apply.start'' ApplyStageValidate ''ok'' None w"
  have w0: "files ?w0 = files w" "core ?w0 = core w" by simp_all
  show ?thesis
  proof (cases "apply_boundary req")
    case (Some e)
    then have "fail_stage P req ApplyStageValidate e ?w0 = (r, w')"
      using assms by (simp add: apply_tx_def)
    then show ?thesis by (rule tx_post_early [where ?w0.0 = ?w0]) auto
  next
    case None
    obtain r1 w1 where v: "applyValidate P ctx req ?w0 = (r1, w1)" by force
    note v' = applyValidate_post [OF v]
    show ?thesis
    proof (cases r1)
      case (Inl e)
      then have "fail_stage P req ApplyStageValidate e w1 = (r, w')"
        using assms None v by (simp add: apply_tx_def)
      then show ?thesis by (rule tx_post_early [where ?w0.0 = ?w0]) (use v' in \<open>auto intro: preserves_same\<close>)
    next
      case (Inr u)
      obtain r2 w2 where bk: "applyBackup P req w1 = (r2, w2)" by force
      note bk' = applyBackup_post [OF bk]
      have pres: "preserves ?w0 w2" "world.more w2 = world.more ?w0"
        using bk'(1) v' by (auto simp: preserves_def)
      show ?thesis
      proof (cases r2)
        case (Inl e)
        then have "fail_stage P req ApplyStageBackup e w2 = (r, w')"
          using assms None v Inr bk by (simp add: apply_tx_def)
        then show ?thesis by (rule tx_post_early [where ?w0.0 = ?w0]) (use pres bk'(1) v' in auto)
      next
        case (Inr bl)
        obtain b live where bl: "bl = (b, live)" by force
        let ?w2 = "emit P req ''apply.backup'' ApplyStageBackup ''ok'' None w2"
        obtain r3 w3 where aw: "AtomicWriteSettings ctx (rq_Path req) (rq_Content req) ?w2 = (r3, w3)" by force
        note bl' = bk'(2) [OF Inr [unfolded bl]]
        show ?thesis
        proof (rule apply_write_post [OF aw, of b w live])
          show "snapshot_of b (files w (rq_Path req)) live" using bl' v' by simp
          show "files w b = None \<and> files ?w2 b = Some live \<and>
              backup_name b" if "b \<noteq> ''''"
            using bl' v' that by simp
          show "files ?w2 p = Some d" if "files w p = Some d" for p d
            using pres(1) that by (simp add: preserves_def)
          show "core ?w2 = core w" using more_core [OF pres(2)] by simp
          show "files ?w2 (rq_Path req) = files w (rq_Path req)" using bk'(1) v' by simp
          show "(r, w') = (case r3 of Inl e \<Rightarrow> fail_stage P req ApplyStageWrite e w3
             | Inr _ \<Rightarrow> (case apply_reconcile P ctx req b live (emit P req ''apply.write'' ApplyStageWrite ''ok'' None w3) of
                  (Inl e, w) \<Rightarrow> (Inl e, w)
                | (Inr mirror, w) \<Rightarrow> (Inr (apply_result P req b live mirror), emit_success P req es w)))"
            using assms None v \<open>r1 = Inr u\<close> bk Inr bl aw by (simp add: apply_tx_def Let_def split: sum.splits)
        qed
      qed
    qed
  qed
qed

end
