(* ===== verification/Commits.thy ===== *)
theory Commits
  imports ConfigService
begin

text \<open>
  What the structured commit and the direct save (src/internal/service/config.go) may put into the
  store: only validated configurations with hashed passwords, with the secrets and the surfaces a
  payload left out.
\<close>

section \<open>Frames\<close>

lemma same_fs_more: "files w' = files w \<Longrightarrow> links w' = links w \<Longrightarrow> svc_world.more w' = svc_world.more w \<Longrightarrow> same_fs w w'"
  by (simp add: same_fs_def)

lemma ReadFile_tick: "ReadFile p w = (r, w') \<Longrightarrow> w' = tick w"
  by (auto simp: ReadFile_def sys_call_def split: option.splits)

lemma GetRawSettings_tick: "GetRawSettings P w = (r, w') \<Longrightarrow> w' = tick w"
  by (auto simp: GetRawSettings_def Let_def dest!: ReadFile_tick split: prod.splits sum.splits if_splits)

lemma patchBase_frame:
  "patchBase P w = (r, w') \<Longrightarrow> same_fs w w' \<and> cfg_file w' = cfg_file w \<and>
     (\<forall>b. r = Inr (b, True) \<longrightarrow> cfg_file w = Some b)"
  unfolding patchBase_def readFromSettingsFile_def
  by (auto dest!: store_Exists_post store_Read_post GetRawSettings_tick
      split: prod.splits sum.splits option.splits if_splits bool.splits)

lemma securityFallbacks_frame:
  "securityFallbacks P c w = (r, w') \<Longrightarrow> same_fs w w' \<and> cfg_file w' = cfg_file w"
proof -
  assume f: "securityFallbacks P c w = (r, w')"
  obtain r1 w1 where rd: "store_Read w = (r1, w1)" by force
  obtain r2 w2 where g: "GetRawSettings P w1 = (r2, w2)" by force
  have "w' \<in> {w, w1, w2}"
    using f rd g by (cases c; cases r2) (simp_all add: securityFallbacks_def Let_def split: if_splits sum.splits)
  then show ?thesis using store_Read_post [OF rd] GetRawSettings_tick [OF g] by auto
qed

lemma renderSettings_tick: "renderSettings P c w = (r, w') \<Longrightarrow> w' = tick w"
  unfolding renderSettings_def Let_def
  by (auto dest!: ReadFile_tick split: prod.splits sum.splits if_splits)

text \<open>The outcome of a structured commit.\<close>

definition commit_post ::
    "platform \<Rightarrow> NodeRedConfig option \<Rightarrow> ConfigPatch option \<Rightarrow> 'w svc_world_scheme \<Rightarrow> StructuredApplyInput result \<Rightarrow>
     'w svc_world_scheme \<Rightarrow> bool" where
  "commit_post P full patch w r w' \<longleftrightarrow> same_fs w w' \<and>
     (case r of
        Inl e \<Rightarrow> e \<noteq> Sentinel GoPanic \<longrightarrow> cfg_file w' = cfg_file w
      | Inr s \<Rightarrow> cfg_file w' = Some (stored (sa_Committed s)) \<and>
          (\<exists>base hasBase fb. (hasBase \<longrightarrow> cfg_file w = Some base) \<and>
             commit_callback P full patch base hasBase fb (case cfg_file w of None \<Rightarrow> zero_config | Some c \<Rightarrow> c) =
             Inr (sa_Committed s, sa_Previous s, sa_Committed s)))"

lemma commit_callback_committed:
  "commit_callback P full patch base hasBase fb cur = Inr (c, p, q) \<Longrightarrow> q = c"
  by (auto simp: commit_callback_def Let_def split: option.splits sum.splits prod.splits)

lemma commitStructured_post:
  assumes "commitStructured P full patch w = (r, w')"
  shows "commit_post P full patch w r w'"
proof -
  obtain r1 w1 where g: "GetRawSettings P w = (r1, w1)" by force
  note g' = GetRawSettings_tick [OF g]
  show ?thesis
  proof (cases r1)
    case (Inl e)
    then show ?thesis using assms g g' by (auto simp: commitStructured_def commit_post_def)
  next
    case (Inr live)
    obtain r2 w2 where b: "patchBase P w1 = (r2, w2)" by force
    note b' = patchBase_frame [OF b]
    show ?thesis
    proof (cases r2)
      case (Inl e)
      then show ?thesis using assms g g' Inr b b' by (auto simp: commitStructured_def commit_post_def)
    next
      case (Inr bh)
      obtain base hasBase where bh: "bh = (base, hasBase)" by force
      obtain r3 w3 where f: "securityFallbacks P full w2 = (r3, w3)" by force
      note f' = securityFallbacks_frame [OF f]
      have w3: "same_fs w w3" "cfg_file w3 = cfg_file w" using g' b' f' same_fs_trans by auto
      show ?thesis
      proof (cases r3)
        case (Inl e)
        then show ?thesis using assms g \<open>r1 = Inr live\<close> b Inr bh f w3 by (auto simp: commitStructured_def commit_post_def)
      next
        case (Inr fb)
        obtain r4 w4 where u: "store_Update (commit_callback P full patch base hasBase fb) w3 = (r4, w4)" by force
        note u' = store_Update_post [OF u, unfolded update_post_def]
        have w4: "same_fs w w4" using u' w3 same_fs_trans by blast
        show ?thesis
        proof (cases r4)
          case (Inl e)
          then show ?thesis
            using assms g \<open>r1 = Inr live\<close> b \<open>r2 = Inr bh\<close> bh f Inr u u' w3 w4
            by (auto simp: commitStructured_def commit_post_def)
        next
          case (Inr pc)
          obtain previous committed where pc: "pc = (previous, committed)" by force
          obtain c where c: "commit_callback P full patch base hasBase fb
              (case cfg_file w of None \<Rightarrow> zero_config | Some d \<Rightarrow> d) = Inr (c, previous, committed)"
            "cfg_file w4 = Some (stored c)" "c = committed"
            using u' Inr pc w3 by (auto dest: commit_callback_committed)
          obtain t w5 where n: "renderSettings P committed w4 = (t, w5)" by force
          note n' = renderSettings_tick [OF n]
          have "(r, w') = (case t of None \<Rightarrow> (Inl (Sentinel GoPanic), w5)
             | Some content \<Rightarrow> (Inr \<lparr>sa_Previous = previous, sa_Committed = committed, sa_Content = content,
                                    sa_Live = live, sa_BackupDir = settings_backup_dir P\<rparr>, w5))"
            using assms g \<open>r1 = Inr live\<close> b \<open>r2 = Inr bh\<close> bh f \<open>r3 = Inr fb\<close> u Inr pc n
            by (simp add: commitStructured_def split: option.splits)
          moreover have "hasBase \<longrightarrow> cfg_file w = Some base" using b' \<open>r2 = Inr bh\<close> bh g' by auto
          ultimately show ?thesis
            using c w4 n' by (cases t) (auto simp: commit_post_def)
        qed
      qed
    qed
  qed
qed

lemma more_svc: "world.more w' = world.more w \<Longrightarrow> cfg_file w' = cfg_file (w :: 'w svc_world_scheme)"
  by (cases w; cases w') simp

lemma writeSettingsFile_store:
  assumes "writeSettingsFile P content False (w :: 'w svc_world_scheme) = (r, w')"
  shows "cfg_file w' = cfg_file w"
proof -
  have sys: "sys_call v = (x, v') \<Longrightarrow> cfg_file v' = cfg_file v" for v v' :: "'w svc_world_scheme" and x
    by (auto dest: sys_call_tick)
  have wt: "WriteTo p d v = (x, v') \<Longrightarrow> cfg_file v' = cfg_file v" for p d x and v v' :: "'w svc_world_scheme"
    by (auto simp: WriteTo_def dest!: sys split: prod.splits sum.splits)
  have wf: "WriteFile p d v = (x, v') \<Longrightarrow> cfg_file v' = cfg_file v" for p d x and v v' :: "'w svc_world_scheme"
    unfolding WriteFile_def by (auto dest!: wt sys split: prod.splits sum.splits)
  have bk: "backupSettingsFile P p v = (x, v') \<Longrightarrow> cfg_file v' = cfg_file v" for p x and v v' :: "'w svc_world_scheme"
  proof -
    assume b: "backupSettingsFile P p v = (x, v')"
    obtain r1 v1 where 1: "Stat p v = (r1, v1)" by force
    obtain r2 v2 where 2: "ReadFile p v1 = (r2, v2)" by force
    have "v' = v1 \<or> v' = v2 \<or> (\<exists>d. writeSettingsSnapshot (settings_backup_dir P) (pf_stamp P) d v2 = (x, v'))"
      using b by (cases r1; cases r2) (auto simp: backupSettingsFile_def 1 2 split: if_splits)
    moreover have "cfg_file v1 = cfg_file v" using 1 Stat_full [OF 1] more_svc by blast
    ultimately show ?thesis
      using ReadFile_tick [OF 2] writeSettingsSnapshot_post [of "settings_backup_dir P" "pf_stamp P" _ v2 x v'] more_svc [of v' v2]
      by (auto simp: preserves_def)
  qed
  let ?path = "if pf_path P = '''' then JoinPath [pf_dataDir P, ''settings.js''] else pf_path P"
  obtain r1 w1 where 1: "sys_call w = (r1, w1)" by force
  obtain r2 w2 where 2: "ReadFile ?path w1 = (r2, w2)" by force
  obtain r3 w3 where 3: "backupSettingsFile P ?path w2 = (r3, w3)" by force
  obtain r4 w4 where 4: "WriteFile ?path content w3 = (r4, w4)" by force
  obtain r5 w5 where 5: "sys_call w4 = (r5, w5)" by force
  have "w' \<in> {w1, w3, w4, w5}"
    using assms unfolding writeSettingsFile_def Let_def 1
    by (cases r1; cases r3; cases r4; cases r5) (simp_all add: 2 3 4 5)
  then show ?thesis using sys [OF 1] ReadFile_tick [OF 2] bk [OF 3] wf [OF 4] sys [OF 5] by auto
qed

section \<open>Sound configurations\<close>

definition sound_config :: "NodeRedConfig \<Rightarrow> bool" where
  "sound_config c \<longleftrightarrow> Validate c = None \<and>
     (case AdminAuthF c of None \<Rightarrow> True | Some a \<Rightarrow> list_all (\<lambda>u. isBcryptHash (Password u)) (aa_Users a)) \<and>
     (case HTTPNodeAuth c of None \<Rightarrow> True | Some b \<Rightarrow> isBcryptHash (ba_Pass b)) \<and>
     (case HTTPStaticAuth c of None \<Rightarrow> True | Some b \<Rightarrow> isBcryptHash (ba_Pass b))"

lemma sound_config_iff:
  "sound_config c \<longleftrightarrow> Validate c = None \<and>
     (\<forall>a. AdminAuthF c = Some a \<longrightarrow> (\<forall>u\<in>set (aa_Users a). isBcryptHash (Password u))) \<and>
     (\<forall>b. HTTPNodeAuth c = Some b \<or> HTTPStaticAuth c = Some b \<longrightarrow> isBcryptHash (ba_Pass b))"
  by (auto simp: sound_config_def list_all_iff split: option.splits)

lemma validate_users_passwords: "validate_users us = None \<Longrightarrow> u \<in> set us \<Longrightarrow> Password u \<noteq> ''''"
  by (induction us) (auto simp: validate_user_def split: option.splits if_splits)

lemma Validate_parts:
  assumes "Validate c = None"
  shows "AdminAuthF c = Some a \<Longrightarrow> validate_users (aa_Users a) = None"
    "HTTPNodeAuth c = Some b \<Longrightarrow> isBcryptHash (ba_Pass b)" "HTTPStaticAuth c = Some b \<Longrightarrow> isBcryptHash (ba_Pass b)"
  using assms
  by (auto simp: Validate_def Let_def validateAdminAuth_def validateHTTPBasicAuth_def split: if_splits option.splits)

lemma sound_configI:
  assumes "Validate c = None" "validateAdminAuthPasswords c = None"
  shows "sound_config c"
  using Validate_parts [OF assms(1)] assms validate_users_passwords
  by (fastforce simp: sound_config_iff validateAdminAuthPasswords_def find_None_iff split: option.splits)

lemma Validate_cong:
  assumes "Port c = Port d" "UIPort c = UIPort d" "HTTPAdminRoot c = HTTPAdminRoot d" "HTTPNodeRoot c = HTTPNodeRoot d"
   "AdminAuthF c = AdminAuthF d" "HTTPNodeAuth c = HTTPNodeAuth d" "HTTPStaticAuth c = HTTPStaticAuth d"
  shows "Validate c = Validate d"
  unfolding Validate_def assms ..

lemma sound_stored: "sound_config (stored c) = sound_config c"
proof -
  have "Validate (stored c) = Validate c"
    unfolding Validate_def by (simp add: stored_def Let_def cong: option.case_cong)
  then show ?thesis by (simp add: sound_config_iff) (simp add: stored_def)
qed

text \<open>The owner's fields a commit may not touch.\<close>

definition same_owner_state :: "NodeRedConfig \<Rightarrow> NodeRedConfig \<Rightarrow> bool" where
  "same_owner_state c d \<longleftrightarrow> EnvVars c = EnvVars d \<and> FunctionLibraries c = FunctionLibraries d \<and> RuntimeState c = RuntimeState d"

lemma finish_candidate_post:
  assumes "finish_candidate P current existing candidate = Inr c"
  shows "sound_config c \<and> same_owner_state c current \<and>
     (\<exists>d. upgradePlaintextAdminAuthPasswords (pf_bcrypt P)
        (preserveWriteOnlySecrets existing (preserveAdminAuthPasswords existing candidate)) = Inr d \<and>
        c = decorateConfig P (d\<lparr>EnvVars := EnvVars current, FunctionLibraries := FunctionLibraries current,
                      RuntimeState := RuntimeState current, SettingsPath := SettingsPath current,
                      SettingsSource := SettingsSource current\<rparr>))"
proof -
  obtain d where d: "upgradePlaintextAdminAuthPasswords (pf_bcrypt P)
        (preserveWriteOnlySecrets existing (preserveAdminAuthPasswords existing candidate)) = Inr d"
    "validateAdminAuthPasswords d = None" "Validate d = None"
    "c = decorateConfig P (d\<lparr>EnvVars := EnvVars current, FunctionLibraries := FunctionLibraries current,
                      RuntimeState := RuntimeState current, SettingsPath := SettingsPath current,
                      SettingsSource := SettingsSource current\<rparr>)"
    using assms by (auto simp: finish_candidate_def Let_def split: sum.splits option.splits)
  have "Validate c = Validate d" by (rule Validate_cong) (simp_all add: d(4) decorateConfig_def)
  moreover have "validateAdminAuthPasswords c = validateAdminAuthPasswords d"
    by (simp add: validateAdminAuthPasswords_def d(4) decorateConfig_def)
  ultimately have "sound_config c" using d(2,3) sound_configI by simp
  then show ?thesis using d(1,4) by (auto simp: same_owner_state_def decorateConfig_def)
qed

lemma commit_callback_post:
  assumes "commit_callback P full patch base hasBase fb cur = Inr (c, p, q)"
  shows "sound_config c \<and> same_owner_state c cur \<and> same_owner_state p cur"
  using assms finish_candidate_post
  by (auto simp: commit_callback_def Let_def same_owner_state_def split: option.splits sum.splits if_splits prod.splits)


section \<open>Saves\<close>

lemma save_callback_post: "save_callback P cfg fb cur = Inr (c, q) \<Longrightarrow> sound_config c \<and> q = c"
proof -
  assume "save_callback P cfg fb cur = Inr (c, q)"
  then obtain d where d: "validateAdminAuthPasswords d = None" "Validate d = None" "c = decorateConfig P d" "q = c"
    by (auto simp: save_callback_def Let_def split: sum.splits option.splits)
  have "Validate c = Validate d" by (rule Validate_cong) (simp_all add: d(3) decorateConfig_def)
  moreover have "validateAdminAuthPasswords c = validateAdminAuthPasswords d"
    by (simp add: validateAdminAuthPasswords_def d(3) decorateConfig_def)
  ultimately show ?thesis using d sound_configI by simp
qed

section \<open>The fields a payload leaves out\<close>

lemma upgrade_users_hashed:
  "\<forall>u\<in>set us. isBcryptHash (Password u) \<Longrightarrow> upgrade_users bcrypt us = Inr us"
  by (induction us) auto

lemma upgrade_frame:
  "upgradePlaintextAdminAuthPasswords bcrypt c = Inr d \<Longrightarrow> \<exists>a. d = c\<lparr>AdminAuthF := a\<rparr> \<and>
     (\<forall>x. AdminAuthF c = Some x \<and> (\<forall>u\<in>set (aa_Users x). isBcryptHash (Password u)) \<longrightarrow> a = Some x)"
  by (cases "AdminAuthF c"; intro exI [of _ "AdminAuthF d"])
    (auto simp: upgradePlaintextAdminAuthPasswords_def upgrade_users_hashed split: sum.splits)

lemma inherit_hashed: "isBcryptHash (Password u) \<Longrightarrow> inherit_password us u = u"
  by (auto simp: inherit_password_def isBcryptHash_def)

lemma preserveAdminAuthPasswords_frame:
  "\<exists>a. preserveAdminAuthPasswords e c = c\<lparr>AdminAuthF := a\<rparr> \<and>
     (\<forall>x. AdminAuthF c = Some x \<and> (\<forall>u\<in>set (aa_Users x). isBcryptHash (Password u)) \<longrightarrow> a = Some x)"
proof -
  have id: "\<forall>u\<in>set us. isBcryptHash (Password u) \<Longrightarrow> map (inherit_password vs) us = us" for us vs
    by (induction us) (auto simp: inherit_hashed)
  show ?thesis
    by (intro exI [of _ "AdminAuthF (preserveAdminAuthPasswords e c)"]; cases "AdminAuthF c"; cases "AdminAuthF e")
      (auto simp: preserveAdminAuthPasswords_def id)
qed

lemma preserveWriteOnlySecrets_frame:
  "\<exists>h. preserveWriteOnlySecrets e c = c\<lparr>CredentialSecret :=
     (if IsRedactedSecret (CredentialSecret c) then CredentialSecret e else CredentialSecret c), Https := h\<rparr>"
  by (intro exI [of _ "Https (preserveWriteOnlySecrets e c)"]; cases "Https c"; cases "Https e")
    (simp_all add: preserveWriteOnlySecrets_def Let_def)

text \<open>The chain from the candidate to the committed configuration.\<close>

lemma finish_candidate_fields:
  assumes "finish_candidate P current existing candidate = Inr c"
  shows "CredentialSecret c = (if IsRedactedSecret (CredentialSecret candidate) then CredentialSecret existing
       else CredentialSecret candidate) \<and>
     HTTPNodeAuth c = HTTPNodeAuth candidate \<and> HTTPStaticAuth c = HTTPStaticAuth candidate \<and>
     Port c = Port candidate \<and> UIPort c = UIPort candidate \<and>
     (\<forall>x. AdminAuthF candidate = Some x \<and> (\<forall>u\<in>set (aa_Users x). isBcryptHash (Password u)) \<longrightarrow> AdminAuthF c = Some x)"
proof -
  obtain a where a: "preserveAdminAuthPasswords existing candidate = candidate\<lparr>AdminAuthF := a\<rparr>"
    "\<forall>x. AdminAuthF candidate = Some x \<and> (\<forall>u\<in>set (aa_Users x). isBcryptHash (Password u)) \<longrightarrow> a = Some x"
    using preserveAdminAuthPasswords_frame by blast
  obtain h where h: "preserveWriteOnlySecrets existing (candidate\<lparr>AdminAuthF := a\<rparr>) =
      (candidate\<lparr>AdminAuthF := a\<rparr>)\<lparr>CredentialSecret := (if IsRedactedSecret (CredentialSecret candidate)
         then CredentialSecret existing else CredentialSecret candidate), Https := h\<rparr>"
    using preserveWriteOnlySecrets_frame [of existing "candidate\<lparr>AdminAuthF := a\<rparr>"] by (auto cong: if_cong)
  obtain d where d: "upgradePlaintextAdminAuthPasswords (pf_bcrypt P)
        (preserveWriteOnlySecrets existing (preserveAdminAuthPasswords existing candidate)) = Inr d"
    and c: "c = decorateConfig P (d\<lparr>EnvVars := EnvVars current, FunctionLibraries := FunctionLibraries current,
                      RuntimeState := RuntimeState current, SettingsPath := SettingsPath current,
                      SettingsSource := SettingsSource current\<rparr>)"
    using finish_candidate_post [OF assms] by blast
  obtain b where b: "d = (preserveWriteOnlySecrets existing (candidate\<lparr>AdminAuthF := a\<rparr>))\<lparr>AdminAuthF := b\<rparr>"
    "\<forall>x. a = Some x \<and> (\<forall>u\<in>set (aa_Users x). isBcryptHash (Password u)) \<longrightarrow> b = Some x"
    using upgrade_frame [OF d] a(1) h by auto
  show ?thesis
    unfolding c using a(2) b(2) by (auto simp: decorateConfig_def b(1) h)
qed

lemma preserveSecuritySurfaces_fields:
  "CredentialSecret (preserveSecuritySurfaces cur fb f) = CredentialSecret f"
  "Port (preserveSecuritySurfaces cur fb f) = Port f" "UIPort (preserveSecuritySurfaces cur fb f) = UIPort f"
  "\<not> AdminAuthCarried f \<Longrightarrow> AdminAuthF cur = Some a \<Longrightarrow> AdminAuthF (preserveSecuritySurfaces cur fb f) = Some a"
  "\<not> HTTPNodeAuthCarried f \<Longrightarrow> HTTPNodeAuth cur = Some b \<Longrightarrow> HTTPNodeAuth (preserveSecuritySurfaces cur fb f) = Some b"
  "\<not> HTTPStaticAuthCarried f \<Longrightarrow> HTTPStaticAuth cur = Some b \<Longrightarrow> HTTPStaticAuth (preserveSecuritySurfaces cur fb f) = Some b"
proof -
  obtain p where p: "preserveAdminAuthPasswords cur f = f\<lparr>AdminAuthF := p\<rparr>"
    using preserveAdminAuthPasswords_frame [of cur f] by blast
  note defs = preserveSecuritySurfaces_def p Let_def HTTPNodeAuthCarried_def HTTPStaticAuthCarried_def
    preserveBasicAuthSurface_def
  show "CredentialSecret (preserveSecuritySurfaces cur fb f) = CredentialSecret f"
    "Port (preserveSecuritySurfaces cur fb f) = Port f" "UIPort (preserveSecuritySurfaces cur fb f) = UIPort f"
    by (simp_all add: defs)
  show "AdminAuthF (preserveSecuritySurfaces cur fb f) = Some a" if "\<not> AdminAuthCarried f" "AdminAuthF cur = Some a"
    using that by (simp add: defs)
  show "HTTPNodeAuth (preserveSecuritySurfaces cur fb f) = Some b" if "\<not> HTTPNodeAuthCarried f" "HTTPNodeAuth cur = Some b"
    using that by (simp add: defs)
  show "HTTPStaticAuth (preserveSecuritySurfaces cur fb f) = Some b" if "\<not> HTTPStaticAuthCarried f" "HTTPStaticAuth cur = Some b"
    using that by (simp add: defs)
qed

lemma commit_callback_full:
  assumes "commit_callback P (Some f) None base hasBase fb cur = Inr (c, p, q)"
  shows "finish_candidate P cur cur (preserveSecuritySurfaces cur fb f) = Inr c \<and>
     (p = cur \<or> p = cur\<lparr>AdminAuthF := AdminAuthF c\<rparr> \<and> \<not> AdminAuthCarried f \<and> AdminAuthF cur \<noteq> None)"
  using assms by (auto simp: commit_callback_def Let_def split: sum.splits if_splits)

section \<open>Properties\<close>

text \<open>On a healthy disk a commit whose candidate is accepted goes through.\<close>

lemma healthy_ReadFile:
  "healthy w \<Longrightarrow> ReadFile p w = ((case files w p of None \<Rightarrow> Inl (Sentinel ErrNotExist) | Some d \<Rightarrow> Inr d), tick w)"
  by (auto simp: ReadFile_def healthy_sys_call split: option.splits)

lemma healthy_cfg [simp]: "healthy (w\<lparr>cfg_file := c\<rparr>) = healthy w"
  by (simp add: healthy_def)

lemma healthy_store_Update:
  assumes "healthy w" "fn (case cfg_file w of None \<Rightarrow> zero_config | Some c \<Rightarrow> c) = Inr (c, x)"
  shows "\<exists>w'. store_Update fn w = (Inr x, w') \<and> healthy w'"
proof -
  obtain w' where w': "store_Update fn w = (Inr x, w')" "faults w' = faults w"
    using cfg.Update_succeeds [of w fn zero_config c x] assms
    by (auto simp: healthy_def store_Update_def publish_cfg_def)
  then show ?thesis
    using store_Update_post [OF w'(1)] assms(1) by (auto simp: healthy_def update_post_def same_fs_def)
qed

lemma healthy_commit:
  assumes h: "healthy w" and f: "files w (pf_path P) = None" "pf_path P \<noteq> ''''" and cur: "cfg_file w = Some cur"
    and fb: "\<not> AdminAuthCarried f \<longrightarrow> AdminAuthF cur \<noteq> None" "\<not> HTTPNodeAuthCarried f \<longrightarrow> HTTPNodeAuth cur \<noteq> None"
      "\<not> HTTPStaticAuthCarried f \<longrightarrow> HTTPStaticAuth cur \<noteq> None"
    and cb: "commit_callback P (Some f) None cur True no_fallbacks cur = Inr x"
  shows "\<exists>s w'. commitStructured P (Some f) None w = (Inr s, w')"
proof -
  obtain c p q where x: "x = (c, p, q)" by (cases x) auto
  obtain d where g: "GetRawSettings P w = (Inr d, tick w)"
    using h f(1) by (auto simp: GetRawSettings_def healthy_ReadFile)
  have b: "patchBase P (tick w) = (Inr (cur, True), tick (tick (tick w)))"
    using h cur by (simp add: patchBase_def store_calls healthy_sys_call)
  obtain w1 where s: "securityFallbacks P (Some f) (tick (tick (tick w))) = (Inr no_fallbacks, w1)" "healthy w1"
      "cfg_file w1 = Some cur" "files w1 = files w"
  proof (cases "AdminAuthCarried f \<and> HTTPNodeAuthCarried f \<and> HTTPStaticAuthCarried f")
    case True
    then show ?thesis using that [of "tick (tick (tick w))"] h cur by (simp add: securityFallbacks_def)
  next
    case False
    have "store_Read (tick (tick (tick w))) = (Inr cur, tick (tick (tick (tick w))))"
      using h cur by (simp add: store_calls healthy_sys_call)
    moreover have "(AdminAuthCarried f \<or> (\<exists>y. AdminAuthF cur = Some y)) \<and>
        (HTTPNodeAuthCarried f \<or> (\<exists>y. HTTPNodeAuth cur = Some y)) \<and>
        (HTTPStaticAuthCarried f \<or> (\<exists>y. HTTPStaticAuth cur = Some y))" using fb by auto
    ultimately show ?thesis
      using that [of "tick (tick (tick (tick w)))"] False h cur by (simp add: securityFallbacks_def Let_def)
  qed
  obtain w2 where u: "store_Update (commit_callback P (Some f) None cur True no_fallbacks) w1 = (Inr (p, q), w2)" "healthy w2"
    using healthy_store_Update [of w1 "commit_callback P (Some f) None cur True no_fallbacks" c "(p, q)"] s cb x by auto
  have "files w2 = files w" using store_Update_post [OF u(1)] s(4) by (simp add: update_post_def same_fs_def)
  then have "\<exists>t. renderSettings P q w2 = (Some t, tick w2)"
    using u(2) f by (simp add: renderSettings_def healthy_ReadFile)
  then show ?thesis using g b s u by (auto simp: commitStructured_def)
qed

text \<open>A concrete platform and store.\<close>

definition sample_platform :: platform where
  "sample_platform = \<lparr>pf_path = ''/d/s.js'', pf_source = ''native'', pf_dataDir = ''/d'', pf_now = ''t'',
     pf_stamp = ''0'', pf_goja = (\<lambda>_ _. Finished Undefined (Some None)), pf_bcrypt = Inr, pf_sha = (\<lambda>s. s),
     pf_print = (\<lambda>n. True), pf_sprint = (\<lambda>_. ''''), pf_recovery = (\<lambda>_. None), pf_audit = False\<rparr>"

definition sample_hash :: string where "sample_hash = ''$2a$10''"

definition sample_current :: NodeRedConfig where
  "sample_current = DefaultNodeRedConfig\<lparr>CredentialSecret := ''k'',
     AdminAuthF := Some \<lparr>aa_Type = ''credentials'', aa_Users = [\<lparr>Username = ''root'', Password = sample_hash,
       Permissions = ''*''\<rparr>], aa_SessionExpiryTime = 0\<rparr>,
     HTTPNodeAuth := Some \<lparr>ba_User = ''n'', ba_Pass = sample_hash\<rparr>,
     HTTPStaticAuth := Some \<lparr>ba_User = ''s'', ba_Pass = sample_hash\<rparr>\<rparr>"

definition sample_payload :: NodeRedConfig where
  "sample_payload = DefaultNodeRedConfig\<lparr>Port := 1881, UIPort := 1881, presence := \<lparr>decodedFromJSON = True,
     adminAuthAbsent = True, httpNodeAuthAbsent = True, httpStaticAuthAbsent = True\<rparr>\<rparr>"

definition sample_store :: svc_world where
  "sample_store = \<lparr>files = Map.empty, links = (\<lambda>_. False), faults = (\<lambda>_. None), torn = (\<lambda>_. 0),
     entropy = (\<lambda>_ _. 0), calls = 0, cfg_file = Some sample_current\<rparr>"

lemma sample_callback:
  "(case commit_callback sample_platform (Some sample_payload) None sample_current True no_fallbacks sample_current of
      Inl _ \<Rightarrow> False | Inr _ \<Rightarrow> True)"
  by code_simp

lemma sample_commit:
  obtains s w' where "commitStructured sample_platform (Some sample_payload) None sample_store = (Inr s, w')"
proof -
  have "AdminAuthF sample_current \<noteq> None \<and> HTTPNodeAuth sample_current \<noteq> None \<and> HTTPStaticAuth sample_current \<noteq> None"
    by (simp add: sample_current_def)
  then show thesis
    using healthy_commit [of sample_store sample_platform sample_current sample_payload] sample_callback that
    by (auto simp: healthy_def sample_store_def sample_platform_def split: sum.splits)
qed

text \<open>C4. Every configuration a structured commit publishes, from a full payload or from a patch, passes
  validation and holds only bcrypt hashes on all three authentication surfaces; the commit changes
  no file but the store, and a commit that fails leaves the store alone.\<close>

theorem commit_is_sound:
  assumes "commitStructured P full patch w = (r, w')"
  shows "files w' = files w \<and>
     (case r of
        Inr s \<Rightarrow> cfg_file w' = Some (stored (sa_Committed s)) \<and> sound_config (stored (sa_Committed s))
      | Inl e \<Rightarrow> e \<noteq> Sentinel GoPanic \<longrightarrow> cfg_file w' = cfg_file w)"
  using commitStructured_post [OF assms] commit_callback_post
  by (fastforce simp: commit_post_def same_fs_def sound_stored split: sum.splits)

theorem commit_is_sound_witness:
  "\<exists>s w'. commitStructured sample_platform (Some sample_payload) None sample_store = (Inr s, w') \<and>
     cfg_file w' = Some (stored (sa_Committed s)) \<and> sound_config (stored (sa_Committed s))"
proof -
  obtain s w' where c: "commitStructured sample_platform (Some sample_payload) None sample_store = (Inr s, w')"
    by (rule sample_commit)
  then show ?thesis using commit_is_sound [OF c] by auto
qed

text \<open>The direct save publishes only validated configurations with hashed passwords, whatever the
  fate of settings.js.\<close>

theorem save_is_sound:
  assumes "Save P cfg w = (r, w')"
  shows "cfg_file w' = cfg_file w \<or> (\<exists>c. cfg_file w' = Some c \<and> sound_config c)"
proof -
  obtain r1 w1 where f: "securityFallbacks P (Some cfg) w = (r1, w1)" by force
  note f' = securityFallbacks_frame [OF f]
  show ?thesis
  proof (cases r1)
    case (Inl e)
    then show ?thesis using assms f f' by (auto simp: Save_def)
  next
    case (Inr fb)
    obtain r2 w2 where u: "store_Update (save_callback P cfg fb) w1 = (r2, w2)" by force
    note u' = store_Update_post [OF u, unfolded update_post_def]
    have w2: "cfg_file w2 = cfg_file w \<or> (\<exists>c. cfg_file w2 = Some c \<and> sound_config c)"
      using u' f' save_callback_post by (fastforce simp: sound_stored split: sum.splits)
    have "cfg_file w' = cfg_file w2"
    proof (cases r2)
      case (Inl e)
      then show ?thesis using assms f Inr u by (auto simp: Save_def)
    next
      case (Inr c)
      obtain t w3 where n: "renderSettings P c w2 = (t, w3)" by force
      note n' = renderSettings_tick [OF n]
      show ?thesis
      proof (cases t)
        case None
        then show ?thesis using assms f \<open>r1 = Inr fb\<close> u Inr n n' by (auto simp: Save_def)
      next
        case (Some content)
        obtain r4 w4 where wr: "writeSettingsFile P content False w3 = (r4, w4)" by force
        have "w' = w4"
          using assms f \<open>r1 = Inr fb\<close> u Inr n Some wr by (auto simp: Save_def split: sum.splits)
        then show ?thesis using writeSettingsFile_store [OF wr] n' by simp
      qed
    qed
    then show ?thesis using w2 by simp
  qed
qed


theorem save_is_sound_witness:
  "let w' = snd (Save sample_platform sample_payload sample_store) in
   cfg_file w' = Some sample_current \<or> (\<exists>c. cfg_file w' = Some c \<and> sound_config c)"
  using save_is_sound [OF prod.collapse [symmetric], of sample_platform sample_payload sample_store]
  by (simp add: Let_def sample_store_def)

text \<open>C5. A full payload that leaves the credential secret empty or redacted keeps the stored one; a
  payload that omits an authentication surface keeps the stored surface; and no payload changes the
  environment variables, the function libraries or the runtime state, which other services own.\<close>

theorem omitted_fields_survive:
  assumes "commitStructured P (Some f) None w = (Inr s, w')" "cfg_file w = Some cur" "sound_config cur"
  shows "CredentialSecret (sa_Committed s) =
       (if IsRedactedSecret (CredentialSecret f) then CredentialSecret cur else CredentialSecret f) \<and>
     (\<not> AdminAuthCarried f \<and> AdminAuthF cur \<noteq> None \<longrightarrow> AdminAuthF (sa_Committed s) = AdminAuthF cur) \<and>
     (\<not> HTTPNodeAuthCarried f \<and> HTTPNodeAuth cur \<noteq> None \<longrightarrow> HTTPNodeAuth (sa_Committed s) = HTTPNodeAuth cur) \<and>
     (\<not> HTTPStaticAuthCarried f \<and> HTTPStaticAuth cur \<noteq> None \<longrightarrow> HTTPStaticAuth (sa_Committed s) = HTTPStaticAuth cur) \<and>
     same_owner_state (sa_Committed s) cur"
proof -
  obtain base hasBase fb where cb: "commit_callback P (Some f) None base hasBase fb cur =
      Inr (sa_Committed s, sa_Previous s, sa_Committed s)"
    using commitStructured_post [OF assms(1)] assms(2) by (auto simp: commit_post_def)
  note fin = commit_callback_full [OF cb, THEN conjunct1]
  note fields = finish_candidate_fields [OF fin] and surf = preserveSecuritySurfaces_fields [where cur = cur and fb = fb and f = f]
  have "AdminAuthF (sa_Committed s) = AdminAuthF cur" if "\<not> AdminAuthCarried f" "AdminAuthF cur = Some a" for a
  proof -
    have "AdminAuthF (preserveSecuritySurfaces cur fb f) = Some a" using surf(4) that by simp
    moreover have "\<forall>u\<in>set (aa_Users a). isBcryptHash (Password u)" using assms(3) that(2) by (simp add: sound_config_iff)
    ultimately show ?thesis using fields that(2) by simp
  qed
  moreover have "HTTPNodeAuth (sa_Committed s) = HTTPNodeAuth cur" if "\<not> HTTPNodeAuthCarried f" "HTTPNodeAuth cur = Some b" for b
    using fields surf(5) [OF that] that(2) by simp
  moreover have "HTTPStaticAuth (sa_Committed s) = HTTPStaticAuth cur" if "\<not> HTTPStaticAuthCarried f" "HTTPStaticAuth cur = Some b" for b
    using fields surf(6) [OF that] that(2) by simp
  moreover have "CredentialSecret (sa_Committed s) =
       (if IsRedactedSecret (CredentialSecret f) then CredentialSecret cur else CredentialSecret f)"
    using fields surf(1) by simp
  ultimately show ?thesis using finish_candidate_post [OF fin] by blast
qed

theorem omitted_fields_survive_witness:
  "\<exists>s w'. commitStructured sample_platform (Some sample_payload) None sample_store = (Inr s, w') \<and>
     CredentialSecret (sa_Committed s) = ''k'' \<and> AdminAuthF (sa_Committed s) = AdminAuthF sample_current"
proof -
  obtain s w' where c: "commitStructured sample_platform (Some sample_payload) None sample_store = (Inr s, w')"
    by (rule sample_commit)
  have "sound_config sample_current" by code_simp
  moreover have "\<not> AdminAuthCarried sample_payload" "IsRedactedSecret (CredentialSecret sample_payload)" by code_simp+
  ultimately show ?thesis
    using omitted_fields_survive [OF c, of sample_current] c by (simp add: sample_store_def) (simp add: sample_current_def)
qed

end
