(* ===== verification/RollbackSafety.thy ===== *)
theory RollbackSafety
  imports ApplySafety Commits
begin

text \<open>
  Recovery of the coordinated transaction (src/internal/service/apply_rollback.go,
  apply_runtime.go and apply_coordinator.go): which configuration is live after a failed restart or
  readiness check, what the structured mirror holds, and when a recovery cannot happen.
\<close>

section \<open>Runtime adapters\<close>

text \<open>A quiet adapter restarts and probes Node-RED without touching settings.js, the settings
  snapshots or NRCC's own state; it may change any other file.\<close>

definition quiet :: "string \<Rightarrow> (app_world \<Rightarrow> 'a \<times> app_world) \<Rightarrow> bool" where
  "quiet path f \<longleftrightarrow> (\<forall>w. core (snd (f w)) = core w \<and>
     (\<forall>p. p = path \<or> backup_name p \<longrightarrow> files (snd (f w)) p = files w p))"

definition quiet_adapter :: "string \<Rightarrow> ApplyAdapter \<Rightarrow> bool" where
  "quiet_adapter path a \<longleftrightarrow> (\<forall>ctx. quiet path (ad_Restart a ctx) \<and> quiet path (ad_Ready a ctx))"

lemma quiet_step:
  "quiet path f \<Longrightarrow> f w = (r, w') \<Longrightarrow>
     core w' = core w \<and> files w' path = files w path \<and> (\<forall>p. backup_name p \<longrightarrow> files w' p = files w p)"
  unfolding quiet_def by (metis snd_conv)

lemma run_stages_post:
  assumes "quiet_adapter path a" "run_stages ctx a w = (r, w')"
  shows "core w' = core w \<and> files w' path = files w path \<and> (\<forall>p. backup_name p \<longrightarrow> files w' p = files w p)"
proof -
  obtain r1 w1 where s: "ad_Restart a ctx w = (r1, w1)" by force
  obtain r2 w2 where y: "ad_Ready a ctx w1 = (r2, w2)" by force
  have q: "quiet path (ad_Restart a ctx)" "quiet path (ad_Ready a ctx)"
    using assms(1) by (auto simp: quiet_adapter_def)
  have "w' = w1 \<or> w' = w2"
    using assms(2) s y by (auto simp: run_stages_def split: sum.splits option.splits)
  then show ?thesis
    using quiet_step [OF q(1) s] quiet_step [OF q(2) y] by auto
qed

section \<open>Rollback\<close>

lemma restoreSnapshotContext_post:
  assumes "restoreSnapshotContext ctx b path w = (r, w')"
  shows "world.more w' = world.more w \<and> (\<forall>p. bystander path p \<longrightarrow> files w' p = files w p) \<and>
     files w' path \<in> {files w path, files w b} \<and>
     (r = Inr () \<longrightarrow> files w b \<noteq> None \<and> files w' path = files w b)"
proof (cases "validateSettingsPath b = None \<and> validateSettingsPath path = None")
  case False
  then show ?thesis
    using assms by (auto simp: restoreSnapshotContext_def split: option.splits)
next
  case True
  obtain r1 w1 where rd: "ReadFile b w = (r1, w1)" by force
  note rd' = ReadFile_full [OF rd]
  show ?thesis
  proof (cases r1)
    case (Inl e)
    then show ?thesis using assms True rd rd' by (auto simp: restoreSnapshotContext_def)
  next
    case (Inr d)
    then have "AtomicWriteSettings ctx path d w1 = (r, w')"
      using assms True rd by (simp add: restoreSnapshotContext_def)
    from AtomicWriteSettings_post [OF this] show ?thesis
      using rd' Inr unfolding atomic_post_def bystander_def by auto
  qed
qed

lemma keep_failed_sibling_post:
  assumes "keep_failed_sibling P req w = (s, w')"
  shows "core w' = core w \<and> (\<forall>p d. files w p = Some d \<longrightarrow> files w' p = Some d)"
proof -
  obtain r1 w1 where f: "failedSiblingPath (rb_ActivePath req) (pf_stamp P) w = (r1, w1)" by force
  have f': "files w1 = files w" "world.more w1 = world.more w"
    using f unfolding failedSiblingPath_def
    by (auto dest!: randomHex_full split: prod.splits sum.splits)
  show ?thesis
  proof (cases r1)
    case (Inl e)
    then show ?thesis
      using assms f f' more_core [of w1 w] by (auto simp: keep_failed_sibling_def)
  next
    case (Inr sib)
    obtain r2 w2 where c: "copyFileExclusive (rb_ActivePath req) sib w1 = (r2, w2)" by force
    note c' = copyFileExclusive_post [OF c]
    have "core w2 = core w" using c' f' more_core [of w2 w] by (simp add: preserves_def)
    moreover have "core w' = core w2 \<and> files w' = files w2"
      using assms f Inr c by (cases r2) (auto simp: keep_failed_sibling_def)
    ultimately show ?thesis using c' f' by (auto simp: preserves_def)
  qed
qed

lemma rollback_fail_post:
  "rollback_fail P req a l e w = (r, w') \<Longrightarrow> files w' = files w \<and> core w' = core w \<and> r \<noteq> Inr ()"
  by (auto simp: rollback_fail_def)

lemma rollback_runtime_post:
  assumes "quiet_adapter path a" "rollback_runtime P ctx req a sib w = (r, w')"
  shows "core w' = core w \<and> files w' path = files w path"
proof -
  obtain r1 w1 where s: "ad_Restart a ctx w = (r1, w1)" by force
  obtain r2 w2 where y: "ad_Ready a ctx w1 = (r2, w2)" by force
  have q: "quiet path (ad_Restart a ctx)" "quiet path (ad_Ready a ctx)"
    using assms(1) by (auto simp: quiet_adapter_def)
  note s' = quiet_step [OF q(1) s] and y' = quiet_step [OF q(2) y]
  have "(files w' = files w1 \<and> core w' = core w1) \<or> (files w' = files w2 \<and> core w' = core w2)"
    using assms(2) s y by (auto simp: rollback_runtime_def rollback_fail_def split: sum.splits)
  then show ?thesis using s' y' by auto
qed

text \<open>The contract of a rollback whose state restoration only touches the store: on success the
  snapshot's bytes are live and the restoration has run; on failure the live bytes are the
  candidate's or the snapshot's.\<close>

definition store_only :: "(app_world \<Rightarrow> unit result \<times> app_world) \<Rightarrow> bool" where
  "store_only f \<longleftrightarrow> (\<forall>w. files (snd (f w)) = files w \<and> slots (snd (f w)) = slots w)"

definition rollback_post :: "RollbackRequest \<Rightarrow> (app_world \<Rightarrow> unit result \<times> app_world) \<Rightarrow> app_world \<Rightarrow> unit result \<Rightarrow> app_world \<Rightarrow> bool" where
  "rollback_post req f w r w' \<longleftrightarrow> slots w' = slots w \<and>
     files w' (rb_ActivePath req) \<in> {files w (rb_ActivePath req), files w (rb_BackupPath req)} \<and>
     (r = Inr () \<longrightarrow> files w (rb_BackupPath req) \<noteq> None \<and>
        files w' (rb_ActivePath req) = files w (rb_BackupPath req) \<and>
        (\<exists>v v'. f v = (Inr (), v') \<and> cfg_file v = cfg_file w \<and> cfg_file w' = cfg_file v'))"

lemma rollback_after_sibling:
  assumes "quiet_adapter (rb_ActivePath req) a" "store_only f"
    "restoreSnapshotContext ctx (rb_BackupPath req) (rb_ActivePath req) w1 = (r2, w2)"
    "(r, w') = (case r2 of
        Inl e \<Rightarrow> rollback_fail P req ''restore'' ''restore snapshot'' e w2
      | Inr _ \<Rightarrow> (case f w2 of
          (Inl e, w) \<Rightarrow> rollback_fail P req ''restore_state'' ''restore authoritative state'' e w
        | (Inr _, w) \<Rightarrow> rollback_runtime P ctx req a sib w))"
  shows "rollback_post req f w1 r w'"
proof -
  note rs = restoreSnapshotContext_post [OF assms(3)]
  have core2: "core w2 = core w1" using rs more_core by blast
  show ?thesis
  proof (cases r2)
    case (Inl e)
    then have "rollback_fail P req ''restore'' ''restore snapshot'' e w2 = (r, w')" using assms(4) by simp
    from rollback_fail_post [OF this] show ?thesis
      using rs core2 by (auto simp: rollback_post_def core_slots)
  next
    case (Inr u)
    obtain r3 w3 where f: "f w2 = (r3, w3)" by force
    have w3: "files w3 = files w2" "slots w3 = slots w2"
      using assms(2) f by (metis store_only_def snd_conv)+
    have "core w' = core w3 \<and> files w' (rb_ActivePath req) = files w3 (rb_ActivePath req) \<and>
        (r = Inr () \<longrightarrow> r3 = Inr ())"
      using assms(4) Inr f rollback_fail_post [of P req _ _ _ w3 r w'] rollback_runtime_post [OF assms(1), of P ctx req sib w3 r w']
      by (cases r3) auto
    then show ?thesis
      using rs core2 w3 f Inr by (auto simp: rollback_post_def core_slots)
  qed
qed

lemma ExecuteRollback_post:
  assumes "ExecuteRollback P ctx req w = (r, w')" "rb_Adapter req = Some a" "rb_RestoreState req = Some f"
    "quiet_adapter (rb_ActivePath req) a" "store_only f"
    "files w (rb_ActivePath req) = Some new" "rb_BackupPath req \<noteq> '''' \<Longrightarrow> files w (rb_BackupPath req) = Some old"
  shows "rollback_post req f w r w' \<and> (rb_BackupPath req = '''' \<longrightarrow> files w' = files w \<and> core w' = core w \<and>
     r = Inl (RollbackError (rb_Stage req) (ErrText ''rollback: backup path is empty'') (rb_ActivePath req)))"
proof (cases "rollback_validate req")
  case (Some e)
  then have "r = Inl (RollbackError (rb_Stage req) e (rb_ActivePath req)) \<and> files w' = files w \<and> core w' = core w"
    using assms(1) by (auto simp: ExecuteRollback_def)
  then show ?thesis using Some by (auto simp: rollback_post_def core_slots rollback_validate_def)
next
  case None
  define v where "v = emitRollback P req ''apply.rollback.started'' ''ok'' None
                     [(''apply_rollback_stage'', stage_name (rb_Stage req)),
                      (''apply_rollback_backup_path'', Base (rb_BackupPath req)),
                      (''apply_rollback_target'', Base (rb_ActivePath req))] w"
  have v: "files v = files w" "core v = core w" by (simp_all add: v_def)
  obtain sib w1 where k: "keep_failed_sibling P req v = (sib, w1)" by force
  note k' = keep_failed_sibling_post [OF k]
  obtain r2 w2 where rs: "restoreSnapshotContext ctx (rb_BackupPath req) (rb_ActivePath req) w1 = (r2, w2)" by force
  have b: "rb_BackupPath req \<noteq> ''''" using None by (auto simp: rollback_validate_def split: if_splits)
  have "(r, w') = (case r2 of
        Inl e \<Rightarrow> rollback_fail P req ''restore'' ''restore snapshot'' e w2
      | Inr _ \<Rightarrow> (case f w2 of
          (Inl e, w) \<Rightarrow> rollback_fail P req ''restore_state'' ''restore authoritative state'' e w
        | (Inr _, w) \<Rightarrow> rollback_runtime P ctx req a sib w))"
    using assms(1-3) None k rs by (simp add: ExecuteRollback_def Let_def v_def [symmetric] split: sum.splits)
  from rollback_after_sibling [OF assms(4,5) rs this] have "rollback_post req f w1 r w'" .
  moreover have "files w1 (rb_ActivePath req) = files w (rb_ActivePath req)"
    "files w1 (rb_BackupPath req) = files w (rb_BackupPath req)" "core w1 = core w"
    using k' v assms(6) assms(7) [OF b] by auto
  ultimately show ?thesis using b by (auto simp: rollback_post_def core_slots)
qed

section \<open>Restoring the structured state\<close>

lemma RestoreStructured_frame: "RestoreStructured s (w :: app_world) = (r, w') \<Longrightarrow> same_fs w w'"
  unfolding RestoreStructured_def by (drule store_Update_post) (simp add: update_post_def)

lemma RestoreMirror_frame: "RestoreMirror m (w :: app_world) = (r, w') \<Longrightarrow> same_fs w w'"
  unfolding RestoreMirror_def
  by (auto dest!: store_Update_post store_Delete_post simp: update_post_def split: if_splits)

lemma restore_state_frame: "restore_state s m (w :: app_world) = (r, w') \<Longrightarrow> same_fs w w'"
  unfolding restore_state_def
  by (auto dest!: RestoreStructured_frame RestoreMirror_frame intro: same_fs_trans split: option.splits sum.splits prod.splits)

lemma restore_state_store_only: "store_only (restore_state s m)"
  unfolding store_only_def
proof
  fix w :: app_world
  have "same_fs w (snd (restore_state s m w))"
    by (rule restore_state_frame) (rule prod.collapse [symmetric])
  from same_fs_app [OF this]
  show "files (snd (restore_state s m w)) = files w \<and> slots (snd (restore_state s m w)) = slots w"
    by (simp add: slots_def)
qed

text \<open>What a document says apart from where it was read from.\<close>

definition undecorated :: "NodeRedConfig \<Rightarrow> NodeRedConfig" where
  "undecorated c = c\<lparr>SettingsPath := '''', SettingsSource := ''''\<rparr>"

lemma undecorated_eqI:
  "c = d\<lparr>SettingsPath := a, SettingsSource := b\<rparr> \<Longrightarrow> undecorated c = undecorated d"
  by (simp add: undecorated_def)

lemma stored_idem: "stored (stored c) = stored c"
  by (simp add: stored_def)

lemma stored_fixed:
  assumes "stored c = c"
  shows "Extra c = []" "UIPort c > 0 \<Longrightarrow> Port c \<noteq> 0"
    "presence c = \<lparr>decodedFromJSON = True, adminAuthAbsent = (AdminAuthF c = None),
       httpNodeAuthAbsent = (HTTPNodeAuth c = None), httpStaticAuthAbsent = (HTTPStaticAuth c = None)\<rparr>"
  using arg_cong [OF assms, of Extra] arg_cong [OF assms, of Port] arg_cong [OF assms, of presence]
  by (auto simp: stored_def split: if_splits)

text \<open>The undo of a commit: the fields a restoration does not own have to be the previous ones.\<close>

lemma restore_mirror_eq:
  assumes "FunctionLibraries com = FunctionLibraries prev" "RuntimeState com = RuntimeState prev"
    "\<not> (0 < UIPort com \<and> Port com = 0)"
  shows "stored (restoreUnchangedFields (stored com) prev com mirrorRestoreSkip) =
      (stored prev)\<lparr>SettingsPath := SettingsPath com, SettingsSource := SettingsSource com\<rparr>"
  using assms
  by (cases com; cases prev)
    (simp add: stored_def restoreUnchangedFields_def keep_unless_def keep_def mirrorRestoreSkip_def, blast)

lemma restore_structured_eq:
  assumes "FunctionLibraries com = FunctionLibraries prev" "RuntimeState com = RuntimeState prev"
    "EnvVars com = EnvVars prev" "\<not> (0 < UIPort com \<and> Port com = 0)"
  shows "stored (restoreUnchangedFields (stored com) prev com structuredRestoreSkip) =
      (stored prev)\<lparr>SettingsPath := SettingsPath com, SettingsSource := SettingsSource com\<rparr>"
  using assms
  by (cases com; cases prev)
    (simp add: stored_def restoreUnchangedFields_def keep_unless_def keep_def structuredRestoreSkip_def, blast)

lemma restore_undoes_commit:
  assumes skip: "skip = mirrorRestoreSkip \<or> skip = structuredRestoreSkip \<and> EnvVars com = EnvVars prev"
    and own: "FunctionLibraries com = FunctionLibraries prev" "RuntimeState com = RuntimeState prev"
    and port: "UIPort com > 0 \<Longrightarrow> Port com \<noteq> 0"
  shows "undecorated (stored (restoreUnchangedFields (stored com) prev com skip)) = undecorated (stored prev)"
  using skip restore_mirror_eq [OF own] restore_structured_eq [OF own] port
  by (intro undecorated_eqI) auto

lemma RestoreMirror_undo:
  assumes "mirror_post w m v" "\<And>c. cfg_file w = Some c \<Longrightarrow> stored c = c" "cfg_file v' = cfg_file v"
    "RestoreMirror m v' = (Inr (), v'')"
  shows "if ms_Existed m then map_option undecorated (cfg_file v'') = map_option undecorated (cfg_file w)
     else cfg_file v'' = None"
proof (cases "ms_Existed m")
  case False
  then have "store_Delete v' = (Inr (), v'')" using assms(4) by (simp add: RestoreMirror_def)
  from store_Delete_post [OF this] show ?thesis using False by simp
next
  case True
  then obtain c where c: "cfg_file w = Some c" "ms_Previous m = c" "stored c = c"
    using assms(1,2) by (auto simp: mirror_post_def)
  have "store_Update (\<lambda>cur. Inr (restoreUnchangedFields cur (ms_Previous m) (ms_Committed m) mirrorRestoreSkip, ())) v' =
      (Inr (), v'')" using assms(4) True by (simp add: RestoreMirror_def)
  from store_Update_post [OF this]
  have "cfg_file v'' = Some (stored (restoreUnchangedFields (stored (ms_Committed m)) c (ms_Committed m) mirrorRestoreSkip))"
    using assms(1,3) c by (auto simp: update_post_def mirror_post_def)
  moreover have "UIPort (ms_Committed m) > 0 \<Longrightarrow> Port (ms_Committed m) \<noteq> 0"
    using assms(1) True c stored_fixed(2) [OF c(3)] by (auto simp: mirror_post_def)
  ultimately show ?thesis
    using restore_undoes_commit [of mirrorRestoreSkip "ms_Committed m" c] assms(1) c True
    by (simp add: mirror_post_def)
qed

section \<open>Recovery\<close>

lemma recover_post:
  assumes "recover P req a state result stage cause w = (r, w')" "quiet_adapter (rq_Path req) a"
    "files w (rq_Path req) = Some new"
    "ar_BackupPath result \<noteq> '''' \<Longrightarrow> files w (ar_BackupPath result) = Some old"
  shows "\<exists>c. r = Inl (ApplyError stage c (rq_Path req)) \<and> slots w' = slots w \<and>
     files w' (rq_Path req) \<in> {Some new, files w (ar_BackupPath result)} \<and>
     (c = cause \<and> ar_BackupPath result \<noteq> '''' \<and> files w' (rq_Path req) = Some old \<and>
        (\<exists>v v'. restore_state state (ar_Mirror result) v = (Inr (), v') \<and> cfg_file v = cfg_file w \<and>
           cfg_file w' = cfg_file v') \<or>
      (\<exists>re. c = ErrJoin cause (ErrWrap ''recovery failed'' re))) \<and>
     (ar_BackupPath result = '''' \<longrightarrow> files w' = files w \<and> core w' = core w \<and>
        c = ErrJoin cause (ErrWrap ''recovery failed''
          (RollbackError stage (ErrText ''rollback: backup path is empty'') (rq_Path req))))"
proof -
  let ?rb = "\<lparr>rb_BackupPath = ar_BackupPath result, rb_ActivePath = rq_Path req, rb_Stage = stage,
             rb_Adapter = Some a, rb_Capabilities = rq_Capabilities req,
             rb_RestoreState = Some (restore_state state (ar_Mirror result))\<rparr>"
  obtain r1 w1 where x: "ExecuteRollback P (pf_recovery P (calls w)) ?rb w = (r1, w1)" by force
  have x': "rollback_post ?rb (restore_state state (ar_Mirror result)) w r1 w1 \<and>
    (ar_BackupPath result = '''' \<longrightarrow> files w1 = files w \<and> core w1 = core w \<and>
      r1 = Inl (RollbackError stage (ErrText ''rollback: backup path is empty'') (rq_Path req)))"
    using ExecuteRollback_post [OF x, of a "restore_state state (ar_Mirror result)" new old] assms(2-4)
      restore_state_store_only by simp
  define c where "c = (case r1 of Inl re \<Rightarrow> ErrJoin cause (ErrWrap ''recovery failed'' re) | Inr _ \<Rightarrow> cause)"
  have rw: "r = Inl (ApplyError stage c (rq_Path req))"
      "w' = emit P req ''apply.failure'' stage ''error'' (Some c) w1"
    using assms(1) x by (auto simp: recover_def c_def Let_def)
  show ?thesis
    using x' assms(3,4) unfolding rw
    by (intro exI [of _ c]) (cases r1; cases "ar_BackupPath result = ''''"; auto simp: rollback_post_def c_def)
qed

section \<open>Raw transactions\<close>

text \<open>The errors that announce that the previous configuration may not be live: a panic, a failed
  write, and a recovery that failed itself.\<close>

fun unrecovered :: "go_error \<Rightarrow> bool" where
  "unrecovered (Sentinel GoPanic) = True"
| "unrecovered (ApplyError ApplyStageWrite c p) = True"
| "unrecovered (ApplyError ApplyStageReconcile (ErrJoin a (ErrWrap l e)) p) =
     (l = ''restore source after failed reconciliation'')"
| "unrecovered (ApplyError ApplyStageRestart (ErrJoin a (ErrWrap l e)) p) = (l = ''recovery failed'')"
| "unrecovered (ApplyError ApplyStageReady (ErrJoin a (ErrWrap l e)) p) = (l = ''recovery failed'')"
| "unrecovered _ = False"

definition raw_outcome :: "ApplyRequest \<Rightarrow> app_world \<Rightarrow> ApplyResult result \<Rightarrow> app_world \<Rightarrow> bool" where
  "raw_outcome req w r w' \<longleftrightarrow>
     (case r of
        Inr res \<Rightarrow> files w' (rq_Path req) = Some (rq_Content req) \<and>
          cfg_file w' = Some (stored (ar_Configuration res)) \<and>
          (case files w (rq_Path req) of
             None \<Rightarrow> ar_BackupPath res = ''''
           | Some d \<Rightarrow> files w (ar_BackupPath res) = None \<and> files w' (ar_BackupPath res) = Some d)
      | Inl e \<Rightarrow> files w' (rq_Path req) \<in> {files w (rq_Path req), Some (rq_Content req)} \<and>
          (\<not> unrecovered e \<longrightarrow> files w' (rq_Path req) = files w (rq_Path req) \<and>
             (cfg_file w' = None \<or>
              map_option undecorated (cfg_file w') = map_option undecorated (cfg_file w))))"

lemma raw_outcome_unchanged:
  "files w' = files w \<Longrightarrow> core w' = core w \<Longrightarrow> raw_outcome req w (Inl e) w'"
  by (simp add: raw_outcome_def core_slots)

lemma raw_outcome_cong:
  assumes "files v = files w" "cfg_file v = cfg_file w"
  shows "raw_outcome req v r w' = raw_outcome req w r w'"
  unfolding raw_outcome_def assms ..

lemma tx_post_cong:
  assumes "files v = files w" "core v = core w"
  shows "tx_post req v r w' = tx_post req w r w'"
proof -
  have c: "cfg_file v = cfg_file w" "slots v = slots w" using assms(2) by (simp_all add: core_slots)
  show ?thesis unfolding tx_post_def mirror_post_def assms(1) c ..
qed

lemma tx_raw_failure: "tx_post req w (Inl e) w' \<Longrightarrow> raw_outcome req w (Inl e) w'"
  by (cases "e = Sentinel GoPanic") (auto simp: tx_post_def raw_outcome_def)

lemma run_stages_stage: "run_stages ctx a w = (Some (s, e), w') \<Longrightarrow> s \<in> {ApplyStageRestart, ApplyStageReady}"
  by (auto simp: run_stages_def split: sum.splits option.splits prod.splits)

lemma raw_runtime_stages:
  assumes tx: "tx_post req w (Inr res) w1" "rq_StructuredConfig req = None" "rq_StructuredPatch req = None"
    and q: "quiet_adapter (rq_Path req) a" and cfg: "\<And>c. cfg_file w = Some c \<Longrightarrow> stored c = c"
    and conf: "\<And>m. ar_Mirror res = Some m \<Longrightarrow> ar_Configuration res = ms_Committed m"
    and run: "run_stages ctx a w1 = (f, w2)"
    and rest: "(r, w') = (case f of
       Some (stage, cause) \<Rightarrow> recover P req a None res stage cause w2
     | None \<Rightarrow> (Inr res, emit P req ''apply.success'' ApplyStageReady ''ok'' None w2))"
  shows "raw_outcome req w r w'"
proof -
  note rs = run_stages_post [OF q run]
  obtain m where m: "ar_Mirror res = Some m" "mirror_post w m w1"
    using tx by (auto simp: tx_post_def split: option.splits)
  have live: "files w1 (rq_Path req) = Some (rq_Content req)" using tx(1) by (simp add: tx_post_def)
  have snap: "case files w (rq_Path req) of None \<Rightarrow> ar_BackupPath res = ''''
     | Some d \<Rightarrow> ar_BackupPath res \<noteq> '''' \<and> files w (ar_BackupPath res) = None \<and> files w2 (ar_BackupPath res) = Some d"
    using tx(1) rs by (auto simp: tx_post_def split: option.splits)
  show ?thesis
  proof (cases f)
    case None
    then show ?thesis
      using rest live snap rs m conf
      by (auto simp: raw_outcome_def core_slots mirror_post_def split: option.splits)
  next
    case (Some sc)
    obtain stage cause where sc: "sc = (stage, cause)" by force
    have rec: "recover P req a None res stage cause w2 = (r, w')" using rest Some sc by simp
    have stg: "stage \<in> {ApplyStageRestart, ApplyStageReady}" using run_stages_stage run Some sc by blast
    obtain c where c: "r = Inl (ApplyError stage c (rq_Path req))"
      "files w' (rq_Path req) \<in> {Some (rq_Content req), files w2 (ar_BackupPath res)}"
      "c = cause \<and> ar_BackupPath res \<noteq> '''' \<and> files w' (rq_Path req) = files w (rq_Path req) \<and>
        (\<exists>v v'. restore_state None (ar_Mirror res) v = (Inr (), v') \<and> cfg_file v = cfg_file w2 \<and>
           cfg_file w' = cfg_file v') \<or>
       (\<exists>re. c = ErrJoin cause (ErrWrap ''recovery failed'' re))"
      "ar_BackupPath res = '''' \<longrightarrow> files w' = files w2"
      using recover_post [OF rec q, of "rq_Content req" "the (files w (rq_Path req))"] rs live snap
      by (auto split: option.splits)
    have ends: "files w' (rq_Path req) \<in> {files w (rq_Path req), Some (rq_Content req)}"
      using c(2,4) snap rs live by (auto split: option.splits)
    show ?thesis
    proof (cases "unrecovered (ApplyError stage c (rq_Path req))")
      case True
      then show ?thesis using c(1) ends by (simp add: raw_outcome_def)
    next
      case False
      then have live': "files w' (rq_Path req) = files w (rq_Path req)"
        and ex: "\<exists>v v'. restore_state None (ar_Mirror res) v = (Inr (), v') \<and> cfg_file v = cfg_file w2 \<and>
           cfg_file w' = cfg_file v'"
        using c(3) stg by auto
      from ex obtain v v' where "restore_state None (ar_Mirror res) v = (Inr (), v')" "cfg_file v = cfg_file w2"
        "cfg_file w' = cfg_file v'" by blast
      then have v: "RestoreMirror m v = (Inr (), v')" "cfg_file v = cfg_file w1" "cfg_file w' = cfg_file v'"
        using m(1) rs by (simp_all add: restore_state_def core_slots)
      then show ?thesis
        using RestoreMirror_undo [OF m(2) cfg v(2,1)] c(1) live' by (auto simp: raw_outcome_def split: if_splits)
    qed
  qed
qed

lemma apply_tx_configuration:
  "apply_tx P ctx req es w = (Inr res, w') \<Longrightarrow> ar_Mirror res = Some m \<Longrightarrow> ar_Configuration res = ms_Committed m"
  by (auto simp: apply_tx_def Let_def fail_stage_def apply_result_def
      split: option.splits prod.splits sum.splits if_splits)


lemma applyRuntime_raw:
  assumes "applyRuntime P res ctx req w = (r, w')" "rq_StructuredConfig req = None" "rq_StructuredPatch req = None"
    and q: "\<And>a. res req = Inr (Some a) \<Longrightarrow> quiet_adapter (rq_Path req) a"
    and cfg: "\<And>c. cfg_file w = Some c \<Longrightarrow> stored c = c"
  shows "raw_outcome req w r w'"
proof (cases "\<exists>a. res req = Inr (Some a)")
  case False
  then have "\<exists>e. fail_stage P req ApplyStageValidate e w = (r, w')"
    using assms(1) by (auto simp: applyRuntime_def split: sum.splits option.splits)
  then obtain e where "fail_stage P req ApplyStageValidate e w = (r, w')" by blast
  from fail_stage_frame [OF this] show ?thesis using raw_outcome_unchanged by auto
next
  case True
  then obtain a where a: "res req = Inr (Some a)" by blast
  define rq where "rq = req\<lparr>rq_runtimeAdapter := Some a\<rparr>"
  have rq: "rq_Path rq = rq_Path req" "rq_Content rq = rq_Content req" "rq_StructuredConfig rq = None"
    "rq_StructuredPatch rq = None"
    using assms(2,3) by (simp_all add: rq_def)
  have out: "raw_outcome rq w r w' = raw_outcome req w r w'" unfolding raw_outcome_def rq ..
  have st: "stageStructured P rq w = (Inr (None, rq), w)" by (simp add: stageStructured_def rq)
  obtain r1 w1 where v: "applyValidate P ctx rq w = (r1, w1)" by force
  note v' = applyValidate_post [OF v]
  have c1: "core w1 = core w" using v' more_core by blast
  show ?thesis
  proof (cases r1)
    case (Inl e)
    then have "w' = w1 \<and> (\<exists>e'. r = Inl e')"
      using assms(1) a st v by (auto simp: applyRuntime_def rq_def [symmetric] split: if_splits)
    then show ?thesis using v' c1 raw_outcome_unchanged by blast
  next
    case (Inr u)
    obtain r2 w2 where tx: "apply_tx P ctx rq False w1 = (r2, w2)" by force
    have tx': "tx_post rq w r2 w2"
      using apply_tx_post [OF tx] tx_post_cong [of w1 w] v' c1 by simp
    show ?thesis
    proof (cases r2)
      case (Inl e)
      then have "r = Inl e" "w' = w2"
        using assms(1) a st v Inr tx by (auto simp: applyRuntime_def undo_structured_def rq_def [symmetric] split: if_splits)
      then show ?thesis using tx' Inl tx_raw_failure out by blast
    next
      case (Inr result)
      obtain f w3 where run: "run_stages ctx a w2 = (f, w3)" by force
      have "(r, w') = (case f of
          Some (stage, cause) \<Rightarrow> recover P rq a None result stage cause w3
        | None \<Rightarrow> (Inr result, emit P rq ''apply.success'' ApplyStageReady ''ok'' None w3))"
        using assms(1) a st v \<open>r1 = Inr u\<close> tx Inr run
        by (simp add: applyRuntime_def rq_def [symmetric] with_committed_def split: option.splits)
      from raw_runtime_stages [OF tx' [unfolded Inr] rq(3,4) _ cfg _ run this] show ?thesis
        using q [OF a] rq(1) out apply_tx_configuration [OF tx [unfolded Inr]] by simp
    qed
  qed
qed

lemma acquire_frame:
  "acquire path w = (r, w') \<Longrightarrow> files w' = files w \<and> cfg_file w' = cfg_file w"
  by (auto simp: acquire_def split: option.splits if_splits)

lemma release_frame [simp]: "files (release path f w) = files w" "cfg_file (release path f w) = cfg_file w"
  by (simp_all add: release_def)



text \<open>A concrete setting: a healthy disk with a settings.js, and an adapter whose restart fails.\<close>

definition sample_app :: app_world where
  "sample_app = \<lparr>files = [''/d/s.js'' \<mapsto> ''x''], links = (\<lambda>_. False), faults = (\<lambda>_. None),
     torn = (\<lambda>_. 0), entropy = (\<lambda>_ _. 0), calls = 0, cfg_file = None, audit_log = [],
     flights = Map.empty, done_flights = {}, next_flight = 0\<rparr>"

definition sample_caps :: ConfigurationCapabilities where
  "sample_caps = \<lparr>cap_RuntimeVersion = '''', cap_Adapter = '''', cap_CatalogVersion = '''', cap_Source = '''',
     cap_Mode = '''', cap_Editable = True, cap_Reason = ''''\<rparr>"

definition sample_request :: ApplyRequest where
  "sample_request = \<lparr>rq_Path = ''/d/s.js'', rq_Content = ''y'',
     rq_Expected = \<lparr>Fingerprint = '''', Algorithm = '''', CapturedAt = ''''\<rparr>, rq_BackupDir = ''/d/b'',
     rq_Capabilities = sample_caps, rq_StructuredConfig = None, rq_StructuredPatch = None,
     rq_runtimeAdapter = None\<rparr>"

definition broken_restart :: ApplyAdapter where
  "broken_restart = \<lparr>ad_Name = ''native'', ad_AuditName = None, ad_OperationName = None,
     ad_Restart = (\<lambda>_ w. (Inl (ErrText ''exit 1''), w)), ad_Ready = (\<lambda>_ w. (Inr (), w))\<rparr>"

lemma broken_restart_quiet: "quiet_adapter path broken_restart"
  by (simp add: quiet_adapter_def quiet_def broken_restart_def)


end
