(* ===== verification/ApplyLive.thy ===== *)
theory ApplyLive
  imports RollbackSafety
begin

text \<open>
  Liveness of the apply transaction: on a disk whose calls succeed, a valid candidate is applied.
\<close>

section \<open>Calls that succeed\<close>

lemma healthy_audit [simp]: "healthy (w\<lparr>audit_log := l\<rparr>) = healthy w"
  by (simp add: healthy_def)

lemma healthy_emit [simp]: "healthy (emit P req a s r c w) = healthy w"
  by (simp add: emit_def log_event_def)

lemma healthy_emit_success [simp]: "healthy (emit_success P req b w) = healthy w"
  by (simp add: emit_success_def)

lemma healthy_writeFileExclusive:
  assumes "healthy w" "files w p = None"
  shows "\<exists>w'. writeFileExclusive p d w = (Inr (), w') \<and> healthy w'"
proof -
  have "OpenExcl p w = (Inr (), (tick w)\<lparr>files := (files w)(p \<mapsto> [])\<rparr>)"
    using assms by (simp add: OpenExcl_def healthy_sys_call) (simp add: healthy_def)
  then show ?thesis
    using assms by (simp add: writeFileExclusive_def healthy_WriteTo healthy_sys_call syncParentDir_def)
qed

lemma healthy_snapshot:
  assumes "healthy w" "dir \<noteq> ''''"
    "\<And>tok. files w (JoinPath [dir, ''settings-'' @ stamp @ ''-'' @ tok @ ''.js.bak'']) = None"
  shows "\<exists>t w'. writeSettingsSnapshot dir stamp d w = (Inr t, w') \<and> healthy w'"
proof -
  obtain tok where t: "randomHex settingsSnapshotTokenBytes (tick w) = (Inr tok, tick (tick w))"
    using healthy_randomHex [of "tick w"] assms(1) by auto
  let ?p = "JoinPath [dir, ''settings-'' @ stamp @ ''-'' @ tok @ ''.js.bak'']"
  obtain w' where "writeFileExclusive ?p d (tick (tick w)) = (Inr (), w')" "healthy w'"
    using healthy_writeFileExclusive [of "tick (tick w)" ?p d] assms by auto
  then show ?thesis
    using t assms(1,2) unfolding settingsSnapshotAttempts_def
    by (simp add: writeSettingsSnapshot_def healthy_sys_call settingsSnapshotName_def createSnapshotFile_def
        numeral_eq_Suc Let_def settingsSnapshotAttempts_def)
qed

section \<open>The transaction\<close>

text \<open>A candidate the code accepts: it passes the boundary checks, the revision precondition, the
  validation and the reconciliation.\<close>

definition live_content :: "platform \<Rightarrow> app_world \<Rightarrow> string" where
  "live_content P w =
     (case files w (pf_path P) of Some c \<Rightarrow> c | None \<Rightarrow> renderSettingsJS (pf_print P) DefaultNodeRedConfig)"

definition acceptable :: "platform \<Rightarrow> ApplyRequest \<Rightarrow> app_world \<Rightarrow> bool" where
  "acceptable P req w \<longleftrightarrow> apply_boundary req = None \<and>
     RevisionMatches (rq_Expected req) (FingerprintSource (pf_sha P) (pf_now P) (live_content P w)) \<and>
     (\<exists>parsed x. parseConfig P (rq_Content req) = Inr parsed \<and> validateAdminAuthPasswords parsed = None \<and>
        reconcile_callback P (rq_Content req) parsed
          (case exportSettingsObject (pf_goja P) (rq_Content req) of Inl _ \<Rightarrow> None | Inr fs \<Rightarrow> Some fs)
          (cfg_file w \<noteq> None) (case cfg_file w of None \<Rightarrow> zero_config | Some c \<Rightarrow> c) = Inr x)"

lemma healthy_GetRawSettings:
  "healthy w \<Longrightarrow> \<exists>d. GetRawSettings P w = (Inr d, tick w) \<and>
     doc_Revision d = FingerprintSource (pf_sha P) (pf_now P) (live_content P w)"
  by (auto simp: GetRawSettings_def healthy_ReadFile live_content_def Let_def split: option.splits)

lemma healthy_applyValidate:
  assumes "healthy w" "acceptable P req w"
  shows "applyValidate P None req w = (Inr (), tick w)"
proof -
  obtain d where "GetRawSettings P w = (Inr d, tick w)"
    "doc_Revision d = FingerprintSource (pf_sha P) (pf_now P) (live_content P w)"
    using healthy_GetRawSettings [OF assms(1)] by blast
  then show ?thesis using assms(2) by (auto simp: applyValidate_def ctx_Err_def acceptable_def)
qed

lemma healthy_applyBackup:
  assumes "healthy w" "rq_BackupDir req \<noteq> ''''"
    "\<And>tok. files w (JoinPath [rq_BackupDir req, ''settings-'' @ pf_stamp P @ ''-'' @ tok @ ''.js.bak'']) = None"
  shows "\<exists>b live w'. applyBackup P req w = (Inr (b, live), w') \<and> healthy w'"
proof (cases "files w (rq_Path req)")
  case None
  then show ?thesis using assms(1) by (simp add: applyBackup_def healthy_ReadFile)
next
  case (Some d)
  then show ?thesis
    using assms healthy_snapshot [of "tick w" "rq_BackupDir req" "pf_stamp P" d]
    by (auto simp: applyBackup_def healthy_ReadFile)
qed

lemma healthy_reconcile:
  assumes "healthy w" "acceptable P req v" "cfg_file w = cfg_file v"
  shows "\<exists>m w'. apply_reconcile P None req b live w = (Inr m, w') \<and> healthy w'"
proof -
  obtain parsed x where x: "parseConfig P (rq_Content req) = Inr parsed"
     "reconcile_callback P (rq_Content req) parsed
          (case exportSettingsObject (pf_goja P) (rq_Content req) of Inl _ \<Rightarrow> None | Inr fs \<Rightarrow> Some fs)
          (cfg_file w \<noteq> None) (case cfg_file w of None \<Rightarrow> zero_config | Some c \<Rightarrow> c) = Inr x"
    using assms(2,3) by (auto simp: acceptable_def)
  obtain c p q where cpq: "x = (c, p, q)" by (cases x) auto
  have "store_Exists w = (cfg_file w \<noteq> None, tick w)" using assms(1) by (simp add: store_calls healthy_sys_call)
  moreover obtain w' where "store_Update (reconcile_callback P (rq_Content req) parsed
          (case exportSettingsObject (pf_goja P) (rq_Content req) of Inl _ \<Rightarrow> None | Inr fs \<Rightarrow> Some fs)
          (cfg_file w \<noteq> None)) (tick w) = (Inr (p, q), w')" "healthy w'"
    using healthy_store_Update [of "tick w" _ c "(p, q)"] x(2) assms(1) cpq by auto
  ultimately show ?thesis
    using x(1) assms(1) by (simp add: apply_reconcile_def ReconcileRawSettings_def Let_def)
qed

lemma apply_tx_succeeds:
  assumes h: "healthy w" and acc: "acceptable P req w"
    and fresh: "\<And>tok. files w (JoinPath [rq_BackupDir req, ''settings-'' @ pf_stamp P @ ''-'' @ tok @ ''.js.bak'']) = None"
  shows "\<exists>res w'. apply_tx P None req es w = (Inr res, w') \<and> healthy w'"
proof -
  have bd: "apply_boundary req = None" using acc by (simp add: acceptable_def)
  then have ok: "rq_Path req \<noteq> ''''" "rq_BackupDir req \<noteq> ''''" "validateSettingsPath (rq_Path req) = None"
    by (auto simp: apply_boundary_def split: if_splits option.splits)
  let ?w0 = "emit P req ''apply.start'' ApplyStageValidate ''ok'' None w"
  have acc0: "acceptable P req ?w0" using acc by (simp add: acceptable_def live_content_def)
  have v: "applyValidate P None req ?w0 = (Inr (), tick ?w0)"
    using healthy_applyValidate acc0 h by simp
  obtain b live w1 where b: "applyBackup P req (tick ?w0) = (Inr (b, live), w1)" "healthy w1"
    using healthy_applyBackup [of "tick ?w0" req P] h ok(2) fresh by auto
  let ?w1 = "emit P req ''apply.backup'' ApplyStageBackup ''ok'' None w1"
  obtain w2 where aw: "AtomicWriteSettings None (rq_Path req) (rq_Content req) ?w1 = (Inr (), w2)" "healthy w2"
    using healthy_AtomicWrite [of ?w1 "rq_Path req" "rq_Content req"] b(2) ok by auto
  let ?w2 = "emit P req ''apply.write'' ApplyStageWrite ''ok'' None w2"
  have "world.more w2 = world.more ?w1" using AtomicWriteSettings_post [OF aw(1)] by (simp add: atomic_post_def)
  moreover have "world.more w1 = world.more (tick ?w0)" using applyBackup_post(1) [OF b(1)] by (simp add: preserves_def)
  ultimately have "cfg_file ?w2 = cfg_file w" using more_core [of w2 ?w1] more_core [of w1 "tick ?w0"] by (simp add: core_slots)
  then obtain m w3 where "apply_reconcile P None req b live ?w2 = (Inr m, w3)" "healthy w3"
    using healthy_reconcile [OF _ acc, of ?w2 b live] aw(2) by auto
  then show ?thesis
    using bd v b aw by (simp add: apply_tx_def Let_def)
qed


section \<open>Properties\<close>

lemma sample_parse: "parseConfig sample_platform ''y'' = Inr DefaultNodeRedConfig"
  by code_simp

lemma sample_declared: "declaredSourceKeys ''y'' (Some []) = []"
  by code_simp

lemma sample_reconcile:
  "\<exists>x. reconcile_callback sample_platform ''y'' DefaultNodeRedConfig (Some []) False zero_config = Inr x"
proof -
  have "reconcileConfigWithSource sp DefaultNodeRedConfig DefaultNodeRedConfig ''y'' (Some []) = DefaultNodeRedConfig" for sp
    unfolding reconcileConfigWithSource_def Let_def sample_declared by simp
  moreover have "Validate DefaultNodeRedConfig = None" by code_simp
  ultimately show ?thesis by (simp add: reconcile_callback_def Let_def)
qed

lemma sample_acceptable:
  assumes "cfg_file w = None"
  shows "acceptable sample_platform sample_request w"
proof -
  have "apply_boundary sample_request = None" by code_simp
  moreover have "RevisionMatches (rq_Expected sample_request) x" for x
    by (simp add: RevisionMatches_def sample_request_def)
  moreover have "exportSettingsObject (pf_goja sample_platform) ''y'' = Inr []" by code_simp
  moreover have "validateAdminAuthPasswords DefaultNodeRedConfig = None" by code_simp
  moreover have "rq_Content sample_request = ''y''" by (simp add: sample_request_def)
  ultimately show ?thesis
    using sample_parse sample_reconcile assms by (simp add: acceptable_def)
qed

text \<open>C3. On a disk whose calls succeed, a raw candidate that passes validation, the revision
  precondition and reconciliation is applied: the call returns a result, the candidate is live and
  the previous file is kept in a snapshot.\<close>

theorem apply_succeeds:
  assumes "healthy w" "acceptable P req w" "rq_StructuredConfig req = None" "rq_StructuredPatch req = None"
    and "\<And>tok. files w (JoinPath [rq_BackupDir req, ''settings-'' @ pf_stamp P @ ''-'' @ tok @ ''.js.bak'']) = None"
  shows "\<exists>res w'. Apply P None req w = (Inr res, w') \<and> files w' (rq_Path req) = Some (rq_Content req) \<and>
     cfg_file w' = Some (stored (ar_Configuration res)) \<and>
     (\<forall>d. files w (rq_Path req) = Some d \<longrightarrow> files w' (ar_BackupPath res) = Some d)"
proof -
  obtain res w' where tx: "apply_tx P None req True w = (Inr res, w')"
    using apply_tx_succeeds [OF assms(1,2,5)] by blast
  show ?thesis
    using apply_tx_post [OF tx] tx assms(3,4) apply_tx_configuration [OF tx]
    by (auto simp: Apply_def tx_post_def mirror_post_def split: option.splits)
qed

lemma sample_fresh:
  "files (sample_app\<lparr>files := f\<rparr>) = f"
  "[''/d/s.js'' \<mapsto> d] (JoinPath [''/d/b'', ''settings-0-'' @ tok @ ''.js.bak'']) = None"
proof -
  obtain pre where "JoinPath [''/d/b'', (''settings-0-'' @ tok) @ ''.js.bak''] = pre @ ''.js.bak''"
    using snapshot_path_suffix [of "''/d/b''" "''settings-0-'' @ tok"] by auto
  then have "last (JoinPath [''/d/b'', ''settings-0-'' @ tok @ ''.js.bak'']) = CHR ''k''" by simp
  then have "JoinPath [''/d/b'', ''settings-0-'' @ tok @ ''.js.bak''] \<noteq> ''/d/s.js''" by auto
  then show "[''/d/s.js'' \<mapsto> d] (JoinPath [''/d/b'', ''settings-0-'' @ tok @ ''.js.bak'']) = None" by simp
qed simp

theorem apply_succeeds_witness:
  "\<exists>res w'. Apply sample_platform None sample_request sample_app = (Inr res, w') \<and>
     files w' ''/d/s.js'' = Some ''y''"
proof -
  have "healthy sample_app" by (simp add: healthy_def sample_app_def)
  moreover have "acceptable sample_platform sample_request sample_app"
    by (rule sample_acceptable) (simp add: sample_app_def)
  moreover have "files sample_app (JoinPath [rq_BackupDir sample_request,
      ''settings-'' @ pf_stamp sample_platform @ ''-'' @ tok @ ''.js.bak'']) = None" for tok
    using sample_fresh(2) [of "''x''" tok] by (simp add: sample_app_def sample_request_def sample_platform_def)
  ultimately show ?thesis
    using apply_succeeds [of sample_app sample_platform sample_request]
    by (fastforce simp: sample_request_def)
qed


text \<open>A raw transaction that fails at a runtime stage has published its candidate and gone through
  \<open>recover\<close>.\<close>

lemma applyRuntime_failure_inv:
  assumes "applyRuntime P res ctx req w = (Inl (ApplyError st c p), w')" "st \<in> {ApplyStageRestart, ApplyStageReady}"
    "rq_StructuredConfig req = None" "rq_StructuredPatch req = None"
  obtains a rq result v w2 cause where "res req = Inr (Some a)" "rq = req\<lparr>rq_runtimeAdapter := Some a\<rparr>"
    "tx_post rq w (Inr result) v" "run_stages ctx a v = (Some (st, cause), w2)"
    "recover P rq a None result st cause w2 = (Inl (ApplyError st c p), w')"
proof -
  obtain a where a: "res req = Inr (Some a)"
    using assms(1,2) by (auto simp: applyRuntime_def fail_stage_def split: sum.splits option.splits if_splits)
  define rq where "rq = req\<lparr>rq_runtimeAdapter := Some a\<rparr>"
  have st: "stageStructured P rq w = (Inr (None, rq), w)" using assms(3,4) by (simp add: stageStructured_def rq_def)
  obtain r1 w1 where v: "applyValidate P ctx rq w = (r1, w1)" by force
  note v' = applyValidate_post [OF v]
  have c1: "core w1 = core w" using v' more_core by blast
  obtain u where u: "r1 = Inr u"
    using assms(1,2) a st v
    by (cases r1) (auto simp: applyRuntime_def rq_def [symmetric] split: if_splits)
  obtain r2 w2 where tx: "apply_tx P ctx rq False w1 = (r2, w2)" by force
  have tx': "tx_post rq w r2 w2" using apply_tx_post [OF tx] tx_post_cong [of w1 w] v' c1 by simp
  obtain result where r2: "r2 = Inr result"
  proof (cases r2)
    case (Inl e)
    then have "e = ApplyError st c p"
      using assms(1) a st v u tx by (auto simp: applyRuntime_def undo_structured_def rq_def [symmetric] split: if_splits)
    then show ?thesis using tx' Inl assms(2) by (auto simp: tx_post_def)
  qed auto
  obtain f w3 where run: "run_stages ctx a w2 = (f, w3)" by force
  have fin: "(Inl (ApplyError st c p), w') = (case f of
          Some (stage, cause) \<Rightarrow> recover P rq a None result stage cause w3
        | None \<Rightarrow> (Inr result, emit P rq ''apply.success'' ApplyStageReady ''ok'' None w3))"
    using assms(1) a st v u tx r2 run
    by (simp add: applyRuntime_def rq_def [symmetric] with_committed_def split: option.splits)
  then obtain stage cause where sc: "f = Some (stage, cause)" by (cases f) auto
  have "stage = st" using fin sc by (auto simp: recover_def Let_def split: prod.splits)
  then show ?thesis
    using that [OF a rq_def tx' [unfolded r2]] run sc fin by simp
qed

lemma coordinator_failure_inv:
  assumes "coordinator_Apply P (Some res) ctx req w = (Inl (ApplyError st c p), w')" "st \<in> {ApplyStageRestart, ApplyStageReady}"
    "rq_StructuredConfig req = None" "rq_StructuredPatch req = None"
  obtains v v' fl where "files v = files w" "cfg_file v = cfg_file w"
    "applyRuntime P res ctx req v = (Inl (ApplyError st c p), v')" "w' = release (rq_Path req) fl v'"
proof -
  have ne: "rq_Path req \<noteq> ''''" using assms(1,2) by (auto simp: coordinator_Apply_def Let_def)
  obtain r0 w0 where aq: "acquire (rq_Path req) w = (r0, w0)" by force
  note aq' = acquire_frame [OF aq]
  have "r0 \<noteq> Inl (ApplyError st c p)"
    using aq by (auto simp: acquire_def split: option.splits if_splits)
  then obtain fl where fl: "r0 = Inr fl"
    using assms(1) ne aq by (cases r0) (auto simp: coordinator_Apply_def)
  obtain r1 w1 where co: "coordinated P (Some res) ctx req w0 = (r1, w1)" by force
  have rw: "r1 = Inl (ApplyError st c p)" "w' = release (rq_Path req) fl w1"
    using assms(1) ne aq fl co by (auto simp: coordinator_Apply_def)
  obtain r2 w2 where ck: "CheckRevisionPrecondition P ctx req w0 = (r2, w2)" by force
  note ck' = CheckRevisionPrecondition_post [OF ck]
  have c2: "files w2 = files w" "cfg_file w2 = cfg_file w"
    using ck' aq' more_core [of w2 w0] by (auto simp: core_slots)
  have "applyRuntime P res ctx req w2 = (r1, w1)"
    using co ck rw assms(2-4) by (cases r2) (auto simp: coordinated_def Let_def split: option.splits)
  then show ?thesis using that [OF c2 _ rw(2)] rw(1) by simp
qed

text \<open>C6. When there was no settings file before a raw apply (so no snapshot exists) and Node-RED then
  fails to restart or to become ready, recovery always fails on the empty snapshot path: the
  rejected candidate stays the live settings file and its mirror stays committed.\<close>

theorem first_apply_not_rolled_back:
  assumes "coordinator_Apply P (Some res) ctx req w = (Inl (ApplyError st c p), w')"
    and "st \<in> {ApplyStageRestart, ApplyStageReady}"
    and "rq_StructuredConfig req = None" "rq_StructuredPatch req = None"
    and "\<And>a. res req = Inr (Some a) \<Longrightarrow> quiet_adapter (rq_Path req) a"
    and "files w (rq_Path req) = None"
  shows "files w' (rq_Path req) = Some (rq_Content req) \<and> cfg_file w' \<noteq> None \<and>
     (\<exists>cause. c = ErrJoin cause (ErrWrap ''recovery failed''
        (RollbackError st (ErrText ''rollback: backup path is empty'') (rq_Path req))))"
proof -
  obtain v v' fl where v: "files v = files w" "cfg_file v = cfg_file w"
    "applyRuntime P res ctx req v = (Inl (ApplyError st c p), v')" "w' = release (rq_Path req) fl v'"
    using coordinator_failure_inv [OF assms(1-4)] by blast
  obtain a rq result u w2 cause where i: "res req = Inr (Some a)" "rq = req\<lparr>rq_runtimeAdapter := Some a\<rparr>"
    "tx_post rq v (Inr result) u" "run_stages ctx a u = (Some (st, cause), w2)"
    "recover P rq a None result st cause w2 = (Inl (ApplyError st c p), v')"
    using applyRuntime_failure_inv [OF v(3) assms(2-4)] by metis
  have q: "quiet_adapter (rq_Path rq) a" using assms(5) i by simp
  note rs = run_stages_post [OF q i(4)]
  have u: "files w2 (rq_Path rq) = Some (rq_Content rq)" "ar_BackupPath result = ''''" "cfg_file w2 \<noteq> None"
    using i(3) rs assms(3,4,6) v(1) i(2)
    by (auto simp: tx_post_def core_slots mirror_post_def split: option.splits)
  show ?thesis
    using recover_post [OF i(5) q u(1)] u v(4) i(2) by (auto simp: core_slots)
qed

lemma acceptable_adapter: "acceptable P (req\<lparr>rq_runtimeAdapter := x\<rparr>) w = acceptable P req w"
  by (simp add: acceptable_def apply_boundary_def cong: option.case_cong)

lemma sample_first_apply:
  obtains c p where "fst (coordinator_Apply sample_platform (Some (\<lambda>_. Inr (Some broken_restart))) None
     sample_request (sample_app\<lparr>files := Map.empty\<rparr>)) = Inl (ApplyError ApplyStageRestart c p)"
proof -
  let ?w = "(sample_app\<lparr>files := Map.empty\<rparr>)\<lparr>flights := [''/d/s.js'' \<mapsto> 0], next_flight := 1\<rparr>"
  let ?rq = "sample_request\<lparr>rq_runtimeAdapter := Some broken_restart\<rparr>"
  have ck: "CheckRevisionPrecondition sample_platform None sample_request ?w = (Inr (), ?w)"
    by (simp add: CheckRevisionPrecondition_def ctx_Err_def sample_request_def)
  have h: "healthy ?w" by (simp add: healthy_def sample_app_def)
  have acc: "acceptable sample_platform ?rq (tick ?w)" "acceptable sample_platform ?rq ?w"
    by (simp_all add: acceptable_adapter sample_acceptable sample_app_def)
  have "applyValidate sample_platform None ?rq ?w = (Inr (), tick ?w)"
    by (rule healthy_applyValidate [OF h acc(2)])
  moreover obtain result w2 where "apply_tx sample_platform None ?rq False (tick ?w) = (Inr result, w2)"
    using apply_tx_succeeds [OF _ acc(1), of False] h by (auto simp: sample_app_def)
  ultimately have rt: "\<exists>c p. fst (applyRuntime sample_platform (\<lambda>_. Inr (Some broken_restart)) None sample_request ?w) =
      Inl (ApplyError ApplyStageRestart c p)"
    by (simp add: applyRuntime_def stageStructured_def sample_request_def run_stages_def broken_restart_def
        recover_def Let_def split: prod.splits)
  have rq: "rq_Path sample_request = ''/d/s.js''" "rq_StructuredPatch sample_request = None"
    by (simp_all add: sample_request_def)
  have "acquire ''/d/s.js'' (sample_app\<lparr>files := Map.empty\<rparr>) = (Inr 0, ?w)"
    by (simp add: acquire_def sample_app_def)
  moreover have "coordinated sample_platform (Some (\<lambda>_. Inr (Some broken_restart))) None sample_request ?w =
      applyRuntime sample_platform (\<lambda>_. Inr (Some broken_restart)) None sample_request ?w"
    using ck by (simp add: coordinated_def rq)
  ultimately have "fst (coordinator_Apply sample_platform (Some (\<lambda>_. Inr (Some broken_restart))) None
     sample_request (sample_app\<lparr>files := Map.empty\<rparr>)) =
     fst (applyRuntime sample_platform (\<lambda>_. Inr (Some broken_restart)) None sample_request ?w)"
    by (simp add: coordinator_Apply_def rq split: prod.splits)
  then show thesis using that rt by auto
qed

theorem first_apply_not_rolled_back_witness:
  "files (snd (coordinator_Apply sample_platform (Some (\<lambda>_. Inr (Some broken_restart))) None
     sample_request (sample_app\<lparr>files := Map.empty\<rparr>))) ''/d/s.js'' = Some ''y''"
proof -
  let ?r = "coordinator_Apply sample_platform (Some (\<lambda>_. Inr (Some broken_restart))) None
     sample_request (sample_app\<lparr>files := Map.empty\<rparr>)"
  obtain c p where "fst ?r = Inl (ApplyError ApplyStageRestart c p)" by (rule sample_first_apply)
  then have "?r = (Inl (ApplyError ApplyStageRestart c p), snd ?r)" by (metis prod.collapse)
  from first_apply_not_rolled_back [OF this] show ?thesis
    by (simp add: sample_request_def broken_restart_quiet)
qed

end
