(* ===== verification/SingleFlight.thy ===== *)
theory SingleFlight
  imports RollbackSafety
begin

text \<open>
  The coordinator's in-flight table (src/internal/service/apply_coordinator.go): at most one
  transaction per settings path, for every interleaving of requests, and the slot is given back
  whatever the transaction does.
\<close>

section \<open>The contract of a slot table\<close>

text \<open>What the coordinator relies on: a free key is granted, a held key is refused without a change,
  and releasing a held key frees exactly that key.\<close>

locale slot_table =
  fixes acq :: "'k \<Rightarrow> 's \<Rightarrow> ('e + 'h) \<times> 's"
    and rel :: "'k \<Rightarrow> 'h \<Rightarrow> 's \<Rightarrow> 's"
    and holder :: "'s \<Rightarrow> 'k \<Rightarrow> 'h option"
    and inv :: "'s \<Rightarrow> bool"
  assumes acq_free: "inv s \<Longrightarrow> holder s k = None \<Longrightarrow>
      \<exists>h s'. acq k s = (Inr h, s') \<and> inv s' \<and> holder s' = (holder s)(k \<mapsto> h)"
    and acq_held: "inv s \<Longrightarrow> holder s k = Some h \<Longrightarrow> \<exists>e. acq k s = (Inl e, s)"
    and rel_held: "inv s \<Longrightarrow> holder s k = Some h \<Longrightarrow>
      inv (rel k h s) \<and> holder (rel k h s) = (holder s)(k := None)"
begin

lemma acq_iff: "inv s \<Longrightarrow> (\<exists>h. fst (acq k s) = Inr h) \<longleftrightarrow> holder s k = None"
  using acq_free [of s k] acq_held [of s k] by (cases "holder s k") fastforce+

lemma acq_step:
  assumes "inv s" "acq k s = (Inr h, s')"
  shows "inv s' \<and> holder s k = None \<and> holder s' = (holder s)(k \<mapsto> h)"
  using assms acq_free [of s k] acq_held [of s k] by (cases "holder s k") auto

lemma acq_fail: "inv s \<Longrightarrow> acq k s = (Inl e, s') \<Longrightarrow> s' = s \<and> holder s k \<noteq> None"
  using acq_free [of s k] acq_held [of s k] by (cases "holder s k") auto

lemma again_after_release:
  assumes "inv s" "acq k s = (Inr h, s')" "inv s''" "holder s'' = holder s'"
  shows "\<exists>h' t. acq k (rel k h s'') = (Inr h', t)"
proof -
  have "holder s'' k = Some h" using acq_step [OF assms(1,2)] assms(4) by simp
  then have "inv (rel k h s'')" "holder (rel k h s'') k = None" using rel_held [OF assms(3)] by auto
  then show ?thesis using acq_free by blast
qed

end

section \<open>The coordinator's table\<close>

definition flight_holder :: "app_world \<Rightarrow> string \<Rightarrow> nat option" where
  "flight_holder w p = (case flights w p of Some f \<Rightarrow> if f \<in> done_flights w then None else Some f | None \<Rightarrow> None)"

definition flight_inv :: "app_world \<Rightarrow> bool" where
  "flight_inv w \<longleftrightarrow> (\<forall>f\<in>done_flights w. f < next_flight w) \<and> (\<forall>p f. flights w p = Some f \<longrightarrow> f < next_flight w) \<and>
     (\<forall>p q f. flights w p = Some f \<and> flights w q = Some f \<longrightarrow> p = q)"

lemma flight_inv_slots: "slots w' = slots w \<Longrightarrow> flight_inv w' = flight_inv w \<and> flight_holder w' = flight_holder w"
  by (auto simp: slots_def flight_inv_def flight_holder_def fun_eq_iff split: option.splits)

lemma acquire_free:
  assumes "flight_inv w" "flight_holder w p = None"
  shows "\<exists>h w'. acquire p w = (Inr h, w') \<and> flight_inv w' \<and> flight_holder w' = (flight_holder w)(p \<mapsto> h)"
proof -
  let ?w = "w\<lparr>flights := (flights w)(p \<mapsto> next_flight w), next_flight := Suc (next_flight w)\<rparr>"
  have "acquire p w = (Inr (next_flight w), ?w)"
    using assms(2) by (auto simp: acquire_def flight_holder_def split: option.splits if_splits)
  moreover have "flight_inv ?w" using assms(1) by (force simp: flight_inv_def)
  moreover have "flight_holder ?w = (flight_holder w)(p \<mapsto> next_flight w)"
    using assms(1) by (auto simp: flight_inv_def flight_holder_def fun_eq_iff split: option.splits)
  ultimately show ?thesis by blast
qed

lemma acquire_held:
  "flight_holder w p = Some h \<Longrightarrow> acquire p w = (Inl (Sentinel ErrApplyInFlight), w)"
  by (auto simp: acquire_def flight_holder_def split: option.splits if_splits)

lemma release_held:
  assumes "flight_inv w" "flight_holder w p = Some h"
  shows "flight_inv (release p h w) \<and> flight_holder (release p h w) = (flight_holder w)(p := None)"
proof -
  have p: "flights w p = Some h" using assms(2) by (auto simp: flight_holder_def split: option.splits if_splits)
  have "flights w q = Some h \<Longrightarrow> q = p" for q using assms(1) p by (auto simp: flight_inv_def)
  then show ?thesis
    using assms(1) p
    by (auto simp: flight_inv_def release_def flight_holder_def fun_eq_iff split: option.splits)
qed

interpretation coord: slot_table acquire release flight_holder flight_inv
  by unfold_locales (use acquire_free acquire_held release_held in blast)+

section \<open>Interleavings\<close>

text \<open>\<open>schedule R w\<close>: requests, refusals, transaction bodies and returns, in any order and for any
  number of paths, have led to \<open>w\<close> with the transactions \<open>R\<close> running.  A body may change everything
  but the table (\<open>coordinated_slots\<close>).\<close>

inductive schedule :: "(string \<times> nat) set \<Rightarrow> app_world \<Rightarrow> bool" where
  idle: "flights w = Map.empty \<Longrightarrow> done_flights w = {} \<Longrightarrow> schedule {} w"
| start: "schedule R w \<Longrightarrow> acquire p w = (Inr f, w') \<Longrightarrow> schedule (insert (p, f) R) w'"
| refuse: "schedule R w \<Longrightarrow> acquire p w = (Inl e, w') \<Longrightarrow> schedule R w'"
| work: "schedule R w \<Longrightarrow> slots w' = slots w \<Longrightarrow> schedule R w'"
| finish: "schedule R w \<Longrightarrow> (p, f) \<in> R \<Longrightarrow> schedule (R - {(p, f)}) (release p f w)"

lemma schedule_inv:
  "schedule R w \<Longrightarrow> flight_inv w \<and> (\<forall>p f. (p, f) \<in> R \<longleftrightarrow> flight_holder w p = Some f)"
proof (induction rule: schedule.induct)
  case (idle w)
  then show ?case by (simp add: flight_inv_def flight_holder_def)
next
  case (start R w p f w')
  then show ?case using coord.acq_step [of w p f w'] by auto
next
  case (refuse R w p e w')
  then show ?case using coord.acq_fail [of w p e w'] by auto
next
  case (work R w w')
  then show ?case using flight_inv_slots by metis
next
  case (finish R w p f)
  then show ?case using release_held [of w p f] by auto
qed

text \<open>C2. For every interleaving of apply requests, at most one transaction runs per settings path;
  a request for a path is refused exactly while one is running there, and a refusal changes
  nothing.\<close>

theorem single_flight:
  assumes "schedule R w"
  shows "((p, f) \<in> R \<and> (p, g) \<in> R \<longrightarrow> f = g) \<and>
     ((\<exists>h. fst (acquire p w) = Inr h) \<longleftrightarrow> (\<forall>h. (p, h) \<notin> R)) \<and>
     ((p, f) \<in> R \<longrightarrow> acquire p w = (Inl (Sentinel ErrApplyInFlight), w))"
proof -
  note i = schedule_inv [OF assms]
  have "(\<exists>h. fst (acquire p w) = Inr h) \<longleftrightarrow> flight_holder w p = None"
    using coord.acq_iff i by blast
  then show ?thesis using i acquire_held [of w p] by auto
qed

theorem single_flight_witness:
  "acquire ''/d/s.js'' (snd (acquire ''/d/t.js'' (snd (acquire ''/d/s.js'' sample_app)))) =
     (Inl (Sentinel ErrApplyInFlight), snd (acquire ''/d/t.js'' (snd (acquire ''/d/s.js'' sample_app))))"
proof -
  have "schedule {} sample_app" by (rule schedule.idle) (simp_all add: sample_app_def)
  then have "schedule {(''/d/s.js'', 0)} (snd (acquire ''/d/s.js'' sample_app))"
    by (rule schedule.start) (simp add: acquire_def sample_app_def)
  then have "schedule {(''/d/t.js'', 1), (''/d/s.js'', 0)} (snd (acquire ''/d/t.js'' (snd (acquire ''/d/s.js'' sample_app))))"
    by (rule schedule.start) (simp add: acquire_def sample_app_def)
  from single_flight [OF this, of "''/d/s.js''" 0] show ?thesis by simp
qed

end
