(* ===== verification/Auth.thy ===== *)
theory Auth
  imports JsonStore Json RateLimit
begin

text \<open>
  Accounts, access tokens and refresh sessions: src/internal/service/auth.go and password.go over
  the records of src/internal/model/user.go and mfa.go.

  \<open>auth_env\<close> collects what the code gets from outside: bcrypt, SHA-256 in hex, the JWT and TOTP
  libraries, the UUID generator and the RFC 3339 formatter.  A generator takes the number of the
  system call it draws its randomness at.  \<open>clock\<close> is \<open>time.Now()\<close> in nanoseconds.
\<close>

section \<open>Data\<close>

definition RoleAdmin :: string where "RoleAdmin = ''admin''"

definition RoleViewer :: string where "RoleViewer = ''viewer''"

record CCUser =
  u_ID :: string
  u_Username :: string
  u_PasswordHash :: string
  u_Role :: string
  u_CreatedAt :: string
  u_UpdatedAt :: string

record Claims =
  cl_UserID :: string
  cl_Username :: string
  cl_Role :: string
  cl_ExpiresAt :: int
  cl_IssuedAt :: int

record RefreshSession =
  s_ID :: string
  s_UserID :: string
  s_ExpiresAt :: int
  s_Revoked :: bool
  s_CreatedAt :: int

record RecoveryCode =
  rc_Hash :: string
  rc_UsedAt :: string

record MfaEnrollment =
  me_UserID :: string
  me_Secret :: string
  me_EnrolledAt :: string
  me_UpdatedAt :: string
  me_Pending :: bool
  me_RecoveryCodes :: "RecoveryCode list"

text \<open>\<open>pendingMfa\<close>; nothing in the service ever sets its flag \<open>used\<close>.\<close>

record pendingMfa =
  pm_userID :: string
  pm_username :: string
  pm_expiresAt :: int
  pm_used :: bool

record SetupToken =
  st_Raw :: string
  st_CreatedAt :: "int option"

record log_entry =
  le_actor :: string
  le_action :: string
  le_target :: string
  le_result :: string
  le_meta :: "(string \<times> string) list"

record auth_world = world +
  clock :: int
  users_file :: "CCUser list option"
  sessions_file :: "RefreshSession list option"
  mfa_file :: "MfaEnrollment list option"
  pendingTokens :: "string \<rightharpoonup> pendingMfa"
  setup_file :: "SetupToken option"
  throttle :: RateLimiter
  logins :: "bool list"
  trail :: "log_entry list"

datatype jwt_method = SigningMethodHMAC | OtherMethod string

record auth_env =
  ae_secret :: string
  ae_sha :: "string \<Rightarrow> string"
  ae_hash :: "nat \<Rightarrow> string \<Rightarrow> string result"
  ae_compare :: "string \<Rightarrow> string \<Rightarrow> bool"
  ae_cost :: "string \<Rightarrow> int option"
  ae_sign :: "string \<Rightarrow> (string \<times> json) list \<Rightarrow> string result"
  ae_jwt :: "(jwt_method \<Rightarrow> string result) \<Rightarrow> int \<Rightarrow> string \<Rightarrow> (bool \<times> (string \<times> json) list) result"
  ae_totp :: "int \<Rightarrow> string \<Rightarrow> string \<Rightarrow> bool"
  ae_totp_key :: "nat \<Rightarrow> string \<Rightarrow> (string \<times> string) result"
  ae_uuid :: "nat \<Rightarrow> string"
  ae_iso :: "int \<Rightarrow> string"

definition Unix :: "int \<Rightarrow> int" where "Unix t = t div 1000000000"

definition NowISO8601 :: "auth_env \<Rightarrow> 'w auth_world_scheme \<Rightarrow> string" where
  "NowISO8601 E w = ae_iso E (clock w)"

section \<open>Passwords\<close>

definition ProductionBcryptCost :: int where "ProductionBcryptCost = 12"

definition MinPasswordLen :: nat where "MinPasswordLen = 8"

definition MaxPasswordLen :: nat where "MaxPasswordLen = 72"

definition commonPasswords :: "string list" where
  "commonPasswords =
     [''password'', ''12345678'', ''123456789'', ''1234567890'', ''qwerty123'', ''password1'', ''iloveyou'', ''admin123'',
      ''welcome1'', ''monkey123'', ''dragon12'', ''master12'', ''letmein1'', ''football'', ''baseball'', ''shadow12'',
      ''trustno1'', ''sunshine'', ''princess'', ''starwars'', ''whatever'', ''qwertyui'', ''passw0rd'', ''abcdefgh'',
      ''12341234'', ''11111111'', ''00000000'', ''password123'', ''admin1234'', ''changeme'', ''testtest'', ''qwerty12'']"

definition ValidatePassword :: "string \<Rightarrow> go_error option" where
  "ValidatePassword password =
     (if length password < MinPasswordLen then Some (ErrText ''password must be at least 8 characters'')
      else if length password > MaxPasswordLen then Some (ErrText ''password must be at most 72 characters'')
      else if ToLower password \<in> set commonPasswords
      then Some (ErrText ''password is too common, please choose a stronger one'')
      else None)"

definition NeedsRehash :: "auth_env \<Rightarrow> string \<Rightarrow> bool" where
  "NeedsRehash E hash = (case ae_cost E hash of None \<Rightarrow> False | Some cost \<Rightarrow> cost < ProductionBcryptCost)"

definition VerifyPassword :: "auth_env \<Rightarrow> string \<Rightarrow> string \<Rightarrow> bool" where
  "VerifyPassword E hash password = ae_compare E hash password"

definition HashPassword :: "auth_env \<Rightarrow> string \<Rightarrow> 'w auth_world_scheme \<Rightarrow> string result \<times> 'w auth_world_scheme" where
  "HashPassword E password w = (ae_hash E (calls w) password, tick w)"

section \<open>Access tokens\<close>

definition AccessTokenLifetime :: int where "AccessTokenLifetime = 15 * 60 * 1000000000"

definition RefreshTokenLifetime :: int where "RefreshTokenLifetime = 7 * 24 * 60 * 60 * 1000000000"

definition GenerateToken :: "auth_env \<Rightarrow> CCUser \<Rightarrow> int \<Rightarrow> string result" where
  "GenerateToken E user now =
     ae_sign E (ae_secret E)
       [(''userId'', JStr (u_ID user)), (''username'', JStr (u_Username user)), (''role'', JStr (u_Role user)),
        (''exp'', JNum (Unix (now + AccessTokenLifetime)) 0), (''iat'', JNum (Unix now) 0)]"

definition signing_key :: "auth_env \<Rightarrow> jwt_method \<Rightarrow> string result" where
  "signing_key E m =
     (case m of SigningMethodHMAC \<Rightarrow> Inr (ae_secret E) | OtherMethod alg \<Rightarrow> Inl (ErrText ''unexpected signing method''))"

fun as_float :: "json \<Rightarrow> int option" where
  "as_float (JNum m e) = Some (float_int m e)"
| "as_float _ = None"

definition VerifyToken :: "auth_env \<Rightarrow> int \<Rightarrow> string \<Rightarrow> Claims result" where
  "VerifyToken E now tokenStr =
     (case ae_jwt E (signing_key E) now tokenStr of
        Inl e \<Rightarrow> Inl e
      | Inr (valid, claims) \<Rightarrow>
          if \<not> valid then Inl (ErrText ''invalid token'')
          else case as_string (field claims ''userId'') of
              None \<Rightarrow> Inl (ErrText ''invalid token claims: userId'')
            | Some userID \<Rightarrow>
                (case as_string (field claims ''username'') of
                   None \<Rightarrow> Inl (ErrText ''invalid token claims: username'')
                 | Some username \<Rightarrow>
                     (case as_string (field claims ''role'') of
                        None \<Rightarrow> Inl (ErrText ''invalid token claims: role'')
                      | Some role \<Rightarrow>
                          (case as_float (field claims ''exp'') of
                             None \<Rightarrow> Inl (ErrText ''invalid token claims: exp'')
                           | Some ex \<Rightarrow>
                               (case as_float (field claims ''iat'') of
                                  None \<Rightarrow> Inl (ErrText ''invalid token claims: iat'')
                                | Some iat \<Rightarrow>
                                    Inr \<lparr>cl_UserID = userID, cl_Username = username, cl_Role = role,
                                         cl_ExpiresAt = ex, cl_IssuedAt = iat\<rparr>)))))"

section \<open>The account store\<close>

definition put_users :: "CCUser list \<Rightarrow> 'w auth_world_scheme \<Rightarrow> 'w auth_world_scheme" where
  "put_users us w = w\<lparr>users_file := Some us\<rparr>"

definition put_sessions :: "RefreshSession list \<Rightarrow> 'w auth_world_scheme \<Rightarrow> 'w auth_world_scheme" where
  "put_sessions ss w = w\<lparr>sessions_file := Some ss\<rparr>"

definition put_mfa :: "MfaEnrollment list \<Rightarrow> 'w auth_world_scheme \<Rightarrow> 'w auth_world_scheme" where
  "put_mfa es w = w\<lparr>mfa_file := Some es\<rparr>"

abbreviation users_Update ::
    "(CCUser list \<Rightarrow> (CCUser list \<times> 'a) result) \<Rightarrow> 'w auth_world_scheme \<Rightarrow> 'a result \<times> 'w auth_world_scheme" where
  "users_Update \<equiv> js_Update users_file put_users []"

abbreviation sessions_Update ::
    "(RefreshSession list \<Rightarrow> (RefreshSession list \<times> 'a) result) \<Rightarrow> 'w auth_world_scheme \<Rightarrow> 'a result \<times> 'w auth_world_scheme" where
  "sessions_Update \<equiv> js_Update sessions_file put_sessions []"

abbreviation mfa_Update ::
    "(MfaEnrollment list \<Rightarrow> (MfaEnrollment list \<times> 'a) result) \<Rightarrow> 'w auth_world_scheme \<Rightarrow> 'a result \<times> 'w auth_world_scheme" where
  "mfa_Update \<equiv> js_Update mfa_file put_mfa []"

definition GetUserByUsername :: "string \<Rightarrow> 'w auth_world_scheme \<Rightarrow> CCUser option \<times> 'w auth_world_scheme" where
  "GetUserByUsername username w =
     (case js_Read users_file w of
        (Inl _, w) \<Rightarrow> (None, w) | (Inr us, w) \<Rightarrow> (find (\<lambda>u. u_Username u = username) us, w))"

definition GetUserByID :: "string \<Rightarrow> 'w auth_world_scheme \<Rightarrow> CCUser option \<times> 'w auth_world_scheme" where
  "GetUserByID uid w =
     (case js_Read users_file w of
        (Inl _, w) \<Rightarrow> (None, w) | (Inr us, w) \<Rightarrow> (find (\<lambda>u. u_ID u = uid) us, w))"

definition GetAllUsers :: "'w auth_world_scheme \<Rightarrow> CCUser list result \<times> 'w auth_world_scheme" where
  "GetAllUsers w = js_Read users_file w"

definition admins :: "CCUser list \<Rightarrow> nat" where
  "admins us = length (filter (\<lambda>u. u_Role u = RoleAdmin) us)"

definition CountAdmins :: "'w auth_world_scheme \<Rightarrow> nat \<times> 'w auth_world_scheme" where
  "CountAdmins w = (case GetAllUsers w of (Inl _, w) \<Rightarrow> (0, w) | (Inr us, w) \<Rightarrow> (admins us, w))"

definition create_user :: "CCUser \<Rightarrow> CCUser list \<Rightarrow> (CCUser list \<times> unit) result" where
  "create_user user us =
     (if \<exists>u\<in>set us. u_Username u = u_Username user then Inl (Sentinel ErrUsernameExists)
      else Inr (us @ [user], ()))"

definition CreateUser :: "CCUser option \<Rightarrow> 'w auth_world_scheme \<Rightarrow> unit result \<times> 'w auth_world_scheme" where
  "CreateUser user w =
     (case user of None \<Rightarrow> (Inl (Sentinel ErrInvalidUser), w) | Some u \<Rightarrow> users_Update (create_user u) w)"

definition bootstrap_admin :: "CCUser option \<Rightarrow> CCUser list \<Rightarrow> (CCUser list \<times> unit) result" where
  "bootstrap_admin user us =
     (if us \<noteq> [] then Inl (Sentinel ErrAlreadyConfigured)
      else case user of
          None \<Rightarrow> Inl (Sentinel ErrInvalidUser)
        | Some u \<Rightarrow>
            if u_ID u = '''' \<or> u_Username u = '''' \<or> u_PasswordHash u = '''' then Inl (Sentinel ErrInvalidUser)
            else Inr (us @ [u\<lparr>u_Role := RoleAdmin\<rparr>], ()))"

definition BootstrapFirstAdmin :: "CCUser option \<Rightarrow> 'w auth_world_scheme \<Rightarrow> unit result \<times> 'w auth_world_scheme" where
  "BootstrapFirstAdmin user w = users_Update (bootstrap_admin user) w"

fun update_user :: "string \<Rightarrow> (CCUser \<Rightarrow> CCUser result) \<Rightarrow> CCUser list \<Rightarrow> (CCUser list \<times> unit) result" where
  "update_user uid mutate [] = Inl (Sentinel ErrUserNotFound)"
| "update_user uid mutate (u # us) =
     (if u_ID u = uid then (case mutate u of Inl e \<Rightarrow> Inl e | Inr u' \<Rightarrow> Inr (u' # us, ()))
      else case update_user uid mutate us of Inl e \<Rightarrow> Inl e | Inr (us', x) \<Rightarrow> Inr (u # us', x))"

definition UpdateUser :: "string \<Rightarrow> (CCUser \<Rightarrow> CCUser result) option \<Rightarrow> 'w auth_world_scheme \<Rightarrow> unit result \<times> 'w auth_world_scheme" where
  "UpdateUser uid mutate w =
     (case mutate of None \<Rightarrow> (Inl (ErrText ''nil user mutation''), w) | Some m \<Rightarrow> users_Update (update_user uid m) w)"

text \<open>The first index whose user has the id, as the loops of the source compute it.\<close>

fun index_of :: "('a \<Rightarrow> bool) \<Rightarrow> 'a list \<Rightarrow> nat option" where
  "index_of P [] = None"
| "index_of P (x # xs) = (if P x then Some 0 else map_option Suc (index_of P xs))"

definition delete_user :: "string \<Rightarrow> bool \<Rightarrow> CCUser list \<Rightarrow> (CCUser list \<times> CCUser) result" where
  "delete_user uid preserveLastAdmin us =
     (case index_of (\<lambda>u. u_ID u = uid) us of
        None \<Rightarrow> Inl (Sentinel ErrUserNotFound)
      | Some i \<Rightarrow>
          if preserveLastAdmin \<and> u_Role (us ! i) = RoleAdmin \<and> admins us \<le> 1
          then Inl (Sentinel ErrCannotDeleteLastAdmin)
          else Inr (take i us @ drop (Suc i) us, us ! i))"

definition deleteUser :: "string \<Rightarrow> bool \<Rightarrow> 'w auth_world_scheme \<Rightarrow> CCUser result \<times> 'w auth_world_scheme" where
  "deleteUser uid preserveLastAdmin w = users_Update (delete_user uid preserveLastAdmin) w"

definition DeleteUser :: "string \<Rightarrow> 'w auth_world_scheme \<Rightarrow> unit result \<times> 'w auth_world_scheme" where
  "DeleteUser uid w = (case deleteUser uid False w of (Inl e, w) \<Rightarrow> (Inl e, w) | (Inr _, w) \<Rightarrow> (Inr (), w))"

definition DeleteUserWithPolicy :: "string \<Rightarrow> 'w auth_world_scheme \<Rightarrow> CCUser result \<times> 'w auth_world_scheme" where
  "DeleteUserWithPolicy uid w = deleteUser uid True w"

definition update_role :: "string \<Rightarrow> string \<Rightarrow> string \<Rightarrow> CCUser list \<Rightarrow> (CCUser list \<times> CCUser) result" where
  "update_role uid role updatedAt us =
     (case index_of (\<lambda>u. u_ID u = uid) us of
        None \<Rightarrow> Inl (Sentinel ErrUserNotFound)
      | Some i \<Rightarrow>
          if role = RoleViewer \<and> u_Role (us ! i) = RoleAdmin \<and> admins us \<le> 1
          then Inl (Sentinel ErrCannotDemoteLastAdmin)
          else let u = (us ! i)\<lparr>u_Role := role, u_UpdatedAt := updatedAt\<rparr> in Inr (us[i := u], u))"

definition UpdateUserRole :: "string \<Rightarrow> string \<Rightarrow> string \<Rightarrow> 'w auth_world_scheme \<Rightarrow> CCUser result \<times> 'w auth_world_scheme" where
  "UpdateUserRole uid role updatedAt w = users_Update (update_role uid role updatedAt) w"

section \<open>Refresh sessions\<close>

definition hashRefreshToken :: "auth_env \<Rightarrow> string \<Rightarrow> string" where
  "hashRefreshToken E token = ae_sha E token"

definition CountActiveRefreshSessions :: "'w auth_world_scheme \<Rightarrow> nat \<times> 'w auth_world_scheme" where
  "CountActiveRefreshSessions w =
     (case js_Read sessions_file w of
        (Inl _, w) \<Rightarrow> (0, w)
      | (Inr ss, w) \<Rightarrow> (length (filter (\<lambda>s. \<not> s_Revoked s \<and> \<not> s_ExpiresAt s \<le> Unix (clock w)) ss), w))"

definition CreateRefreshSession :: "auth_env \<Rightarrow> string \<Rightarrow> 'w auth_world_scheme \<Rightarrow> string result \<times> 'w auth_world_scheme" where
  "CreateRefreshSession E userID w =
     (case randomHex 32 w of
        (Inl e, w) \<Rightarrow> (Inl (ErrWrap ''generate refresh token'' e), w)
      | (Inr token, w) \<Rightarrow>
          (let session = \<lparr>s_ID = hashRefreshToken E token, s_UserID = userID,
                 s_ExpiresAt = Unix (clock w + RefreshTokenLifetime), s_Revoked = False, s_CreatedAt = Unix (clock w)\<rparr>
           in case sessions_Update (\<lambda>ss. Inr (ss @ [session], ())) w of
                (Inl e, w) \<Rightarrow> (Inl (ErrWrap ''persist refresh session'' e), w)
              | (Inr _, w) \<Rightarrow> (Inr token, w)))"

definition check_session :: "string \<Rightarrow> int \<Rightarrow> RefreshSession list \<Rightarrow> RefreshSession result" where
  "check_session tokenHash now ss =
     (case find (\<lambda>s. s_ID s = tokenHash) ss of
        None \<Rightarrow> Inl (ErrText ''refresh token not found'')
      | Some s \<Rightarrow>
          if s_Revoked s then Inl (ErrText ''refresh token revoked'')
          else if now > s_ExpiresAt s then Inl (ErrText ''refresh token expired'')
          else Inr s)"

definition ValidateRefreshSession :: "auth_env \<Rightarrow> string \<Rightarrow> 'w auth_world_scheme \<Rightarrow> RefreshSession result \<times> 'w auth_world_scheme" where
  "ValidateRefreshSession E token w =
     (case js_Read sessions_file w of
        (Inl e, w) \<Rightarrow> (Inl (ErrWrap ''read sessions'' e), w)
      | (Inr ss, w) \<Rightarrow> (check_session (hashRefreshToken E token) (Unix (clock w)) ss, w))"

fun revoke_session :: "string \<Rightarrow> RefreshSession list \<Rightarrow> (RefreshSession list \<times> unit) result" where
  "revoke_session tokenHash [] = Inl (ErrText ''refresh token not found'')"
| "revoke_session tokenHash (s # ss) =
     (if s_ID s = tokenHash then Inr (s\<lparr>s_Revoked := True\<rparr> # ss, ())
      else case revoke_session tokenHash ss of Inl e \<Rightarrow> Inl e | Inr (ss', x) \<Rightarrow> Inr (s # ss', x))"

definition RevokeRefreshSession :: "auth_env \<Rightarrow> string \<Rightarrow> 'w auth_world_scheme \<Rightarrow> unit result \<times> 'w auth_world_scheme" where
  "RevokeRefreshSession E token w = sessions_Update (revoke_session (hashRefreshToken E token)) w"

definition revoke_user :: "string \<Rightarrow> RefreshSession list \<Rightarrow> RefreshSession list" where
  "revoke_user userID ss = map (\<lambda>s. if s_UserID s = userID then s\<lparr>s_Revoked := True\<rparr> else s) ss"

definition RevokeUserSessions :: "string \<Rightarrow> 'w auth_world_scheme \<Rightarrow> unit result \<times> 'w auth_world_scheme" where
  "RevokeUserSessions userID w = sessions_Update (\<lambda>ss. Inr (revoke_user userID ss, ())) w"

definition prune_keep :: "int \<Rightarrow> RefreshSession \<Rightarrow> bool" where
  "prune_keep now s =
     (let cutoff = Unix (now - 24 * 60 * 60 * 1000000000) in
      \<not> (s_Revoked s \<and> s_ExpiresAt s < cutoff) \<and>
      \<not> (\<not> s_Revoked s \<and> Unix now > s_ExpiresAt s \<and> s_ExpiresAt s < cutoff))"

definition PruneSessions :: "'w auth_world_scheme \<Rightarrow> unit result \<times> 'w auth_world_scheme" where
  "PruneSessions w = sessions_Update (\<lambda>ss. Inr (filter (prune_keep (clock w)) ss, ())) w"

section \<open>The stores meet their contract\<close>

lemma tick_auth [simp]:
  "clock (tick w) = clock w" "users_file (tick w) = users_file w" "sessions_file (tick w) = sessions_file w"
  "mfa_file (tick w) = mfa_file w" "pendingTokens (tick w) = pendingTokens w" "setup_file (tick w) = setup_file w"
  "throttle (tick w) = throttle w" "logins (tick w) = logins w" "trail (tick w) = trail w" "auth_world.more (tick w) = auth_world.more w"
  by (simp_all add: tick_def)

interpretation users: json_store users_file put_users "\<lambda>w. w\<lparr>users_file := None\<rparr>" "\<lambda>us. us"
    "\<lambda>w. (files w, clock w, sessions_file w, mfa_file w, pendingTokens w, setup_file w, throttle w, logins w, trail w, auth_world.more w)"
  by unfold_locales (simp_all add: put_users_def)

interpretation sessions: json_store sessions_file put_sessions "\<lambda>w. w\<lparr>sessions_file := None\<rparr>" "\<lambda>ss. ss"
    "\<lambda>w. (files w, clock w, users_file w, mfa_file w, pendingTokens w, setup_file w, throttle w, logins w, trail w, auth_world.more w)"
  by unfold_locales (simp_all add: put_sessions_def)

interpretation mfa: json_store mfa_file put_mfa "\<lambda>w. w\<lparr>mfa_file := None\<rparr>" "\<lambda>es. es"
    "\<lambda>w. (files w, clock w, users_file w, sessions_file w, pendingTokens w, setup_file w, throttle w, logins w, trail w, auth_world.more w)"
  by unfold_locales (simp_all add: put_mfa_def)

end
