(* ===== verification/Mfa.thy ===== *)
theory Mfa
  imports AuthSafety
begin

text \<open>
  The second factor: src/internal/service/mfa.go.  The enrolments are a JSON store; the login
  challenges are the in-memory table \<^const>\<open>pendingTokens\<close>.  TOTP validation and key generation are
  parameters of \<^typ>\<open>auth_env\<close>.
\<close>

section \<open>Constants and helpers\<close>

definition MfaAccountPrefix :: string where "MfaAccountPrefix = ''user:''"

definition MfaRecoveryCodeCount :: nat where "MfaRecoveryCodeCount = 10"

definition MfaRecoveryCodeLength :: nat where "MfaRecoveryCodeLength = 4"

definition MfaTokenTTL :: int where "MfaTokenTTL = 5 * 60 * 1000000000"

definition MfaOtpDigits :: nat where "MfaOtpDigits = 6"

text \<open>\<open>^[0-9a-f]{4}-[0-9a-f]{4}-[0-9a-f]{4}$\<close>.\<close>

definition recoveryCodePattern :: "string \<Rightarrow> bool" where
  "recoveryCodePattern s \<longleftrightarrow>
     length s = 14 \<and> hex_token 2 (take 4 s) \<and> s ! 4 = CHR ''-'' \<and> hex_token 2 (take 4 (drop 5 s)) \<and> s ! 9 = CHR ''-'' \<and>
     hex_token 2 (drop 10 s)"

definition findEnrollment :: "MfaEnrollment list \<Rightarrow> string \<Rightarrow> MfaEnrollment option" where
  "findEnrollment es userID = find (\<lambda>e. me_UserID e = userID) es"

definition hasActiveEnrollment :: "MfaEnrollment list \<Rightarrow> string \<Rightarrow> bool" where
  "hasActiveEnrollment es userID \<longleftrightarrow> findEnrollment es userID \<noteq> None"

definition accountNameFor :: "string \<Rightarrow> string" where
  "accountNameFor userID = MfaAccountPrefix @ userID"

definition validCodeFormat :: "string \<Rightarrow> bool" where
  "validCodeFormat code \<longleftrightarrow> length code = MfaOtpDigits \<and> (\<forall>c\<in>set code. c \<in> set ''0123456789'')"

definition normalizeRecoveryCode :: "string \<Rightarrow> string" where
  "normalizeRecoveryCode code = ToLower (TrimSpace code)"

text \<open>An assignment through the pointer \<open>findEnrollment\<close> returns: the first row of the user.\<close>

fun on_row ::
    "string \<Rightarrow> go_error \<Rightarrow> (MfaEnrollment \<Rightarrow> MfaEnrollment result) \<Rightarrow> MfaEnrollment list \<Rightarrow> MfaEnrollment list result" where
  "on_row userID missing f [] = Inl missing"
| "on_row userID missing f (e # es) =
     (if me_UserID e = userID then (case f e of Inl x \<Rightarrow> Inl x | Inr e' \<Rightarrow> Inr (e' # es))
      else case on_row userID missing f es of Inl x \<Rightarrow> Inl x | Inr es' \<Rightarrow> Inr (e # es'))"

section \<open>Random material\<close>

definition rand_Read :: "nat \<Rightarrow> 'w world_scheme \<Rightarrow> nat list result \<times> 'w world_scheme" where
  "rand_Read n w =
     (case sys_call w of
        (Inl e, w') \<Rightarrow> (Inl e, w')
      | (Inr _, w') \<Rightarrow> (Inr (map (\<lambda>i. entropy w (calls w) i mod 256) [0..<n]), w'))"

definition byte_bits :: "nat \<Rightarrow> bool list" where
  "byte_bits b = map (\<lambda>i. odd (b div 2 ^ (7 - i))) [0..<8]"

definition bits_value :: "bool list \<Rightarrow> nat" where
  "bits_value bs = foldl (\<lambda>n b. 2 * n + (if b then 1 else 0)) 0 bs"

text \<open>\<open>base32.StdEncoding.WithPadding(base32.NoPadding).EncodeToString\<close>: five bits a character, the
  last group filled up with zeros.\<close>

function base32_groups :: "bool list \<Rightarrow> string" where
  "base32_groups bs =
     (if bs = [] then ''''
      else ''ABCDEFGHIJKLMNOPQRSTUVWXYZ234567'' ! bits_value (take 5 (bs @ replicate 4 False)) # base32_groups (drop 5 bs))"
  by pat_completeness auto
termination by (relation "measure length") auto

declare base32_groups.simps [simp del]

definition base32_encode :: "nat list \<Rightarrow> string" where
  "base32_encode bytes = base32_groups (concat (map byte_bits bytes))"

text \<open>Three groups of four of the hexadecimal digits of seven random bytes.\<close>

definition recovery_code :: "nat list \<Rightarrow> string" where
  "recovery_code buf =
     (let hexStr = hex_encode buf; n = MfaRecoveryCodeLength in
      ToLower (take n hexStr @ ''-'' @ take n (drop n hexStr) @ ''-'' @ take n (drop (2 * n) hexStr)))"

text \<open>The loop draws until ten different codes are there; \<open>seen\<close> is the set of the codes drawn.  A
  generator that only repeats itself keeps it running for ever (\<^const>\<open>None\<close>).\<close>

partial_function (option) recovery_loop ::
    "auth_env \<Rightarrow> string list \<Rightarrow> RecoveryCode list \<Rightarrow> 'w auth_world_scheme \<Rightarrow>
     ((string list \<times> RecoveryCode list) result \<times> 'w auth_world_scheme) option" where
  "recovery_loop E display hashes w =
     (if length display < MfaRecoveryCodeCount then
        (case rand_Read (MfaRecoveryCodeLength * 3 div 2 + 1) w of
           (Inl e, w) \<Rightarrow> Some (Inl (ErrWrap ''rand'' e), w)
         | (Inr buf, w) \<Rightarrow>
             if recovery_code buf \<in> set display then recovery_loop E display hashes w
             else case HashPassword E (recovery_code buf) w of
                 (Inl e, w) \<Rightarrow> Some (Inl (ErrWrap ''bcrypt'' e), w)
               | (Inr hash, w) \<Rightarrow>
                   recovery_loop E (display @ [recovery_code buf]) (hashes @ [\<lparr>rc_Hash = hash, rc_UsedAt = ''''\<rparr>]) w)
      else Some (Inr (display, hashes), w))"

definition generateRecoveryCodes ::
    "auth_env \<Rightarrow> 'w auth_world_scheme \<Rightarrow> ((string list \<times> RecoveryCode list) result \<times> 'w auth_world_scheme) option" where
  "generateRecoveryCodes E w = recovery_loop E [] [] w"

section \<open>Enrolment\<close>

definition begin_enrollment :: "MfaEnrollment \<Rightarrow> MfaEnrollment list \<Rightarrow> (MfaEnrollment list \<times> unit) result" where
  "begin_enrollment candidate es =
     (if hasActiveEnrollment es (me_UserID candidate) then Inl (Sentinel ErrMfaAlreadyEnrolled)
      else case index_of (\<lambda>e. me_UserID e = me_UserID candidate) es of
          Some i \<Rightarrow> Inr (es[i := candidate], ())
        | None \<Rightarrow> Inr (es @ [candidate], ()))"

definition BeginEnrollment ::
    "auth_env \<Rightarrow> string \<Rightarrow> 'w auth_world_scheme \<Rightarrow> (string \<times> string) result \<times> 'w auth_world_scheme" where
  "BeginEnrollment E userID w =
     (case GetUserByID userID w of
        (None, w) \<Rightarrow> (Inl (Sentinel ErrMfaUserNotFound), w)
      | (Some _, w) \<Rightarrow>
          (case ae_totp_key E (calls w) (accountNameFor userID) of
             Inl e \<Rightarrow> (Inl (ErrWrap ''generate totp key'' e), tick w)
           | Inr (secret, url) \<Rightarrow>
               (let w = tick w;
                    candidate = \<lparr>me_UserID = userID, me_Secret = secret, me_EnrolledAt = '''',
                      me_UpdatedAt = NowISO8601 E w, me_Pending = True, me_RecoveryCodes = []\<rparr>
                in case mfa_Update (begin_enrollment candidate) w of
                     (Inl e, w) \<Rightarrow>
                       if errors_is e ErrMfaAlreadyEnrolled then (Inl (Sentinel ErrMfaAlreadyEnrolled), w)
                       else (Inl (ErrWrap ''persist pending enrollment'' e), w)
                   | (Inr _, w) \<Rightarrow> (Inr (secret, url), w))))"

definition confirm_row :: "auth_env \<Rightarrow> int \<Rightarrow> string \<Rightarrow> string \<Rightarrow> RecoveryCode list \<Rightarrow> MfaEnrollment \<Rightarrow> MfaEnrollment result" where
  "confirm_row E t code now hashes row =
     (if me_Secret row = '''' then Inl (Sentinel ErrMfaPendingMissing)
      else if \<not> me_Pending row then Inl (Sentinel ErrMfaAlreadyEnrolled)
      else if \<not> ae_totp E t code (me_Secret row) then Inl (Sentinel ErrMfaInvalidCode)
      else Inr (row\<lparr>me_Pending := False, me_EnrolledAt := now, me_UpdatedAt := now, me_RecoveryCodes := hashes\<rparr>))"

definition with_unit :: "'a result \<Rightarrow> ('a \<times> unit) result" where
  "with_unit r = (case r of Inl e \<Rightarrow> Inl e | Inr x \<Rightarrow> Inr (x, ()))"

definition ConfirmEnrollment ::
    "auth_env \<Rightarrow> string \<Rightarrow> string \<Rightarrow> 'w auth_world_scheme \<Rightarrow> (string list result \<times> 'w auth_world_scheme) option" where
  "ConfirmEnrollment E userID code w =
     (if \<not> validCodeFormat code then Some (Inl (Sentinel ErrMfaInvalidCode), w)
      else case generateRecoveryCodes E w of
          None \<Rightarrow> None
        | Some (Inl e, w) \<Rightarrow> Some (Inl (ErrWrap ''generate recovery codes'' e), w)
        | Some (Inr (codes, hashes), w) \<Rightarrow>
            (case mfa_Update
                    (\<lambda>es. with_unit (on_row userID (Sentinel ErrMfaPendingMissing)
                       (confirm_row E (clock w) code (NowISO8601 E w) hashes) es)) w of
               (Inl e, w) \<Rightarrow>
                 if errors_is e ErrMfaPendingMissing \<or> errors_is e ErrMfaAlreadyEnrolled \<or> errors_is e ErrMfaInvalidCode
                 then Some (Inl e, w) else Some (Inl (ErrWrap ''commit enrollment'' e), w)
             | (Inr _, w) \<Rightarrow> Some (Inr codes, w)))"

definition disable_enrollment :: "string \<Rightarrow> MfaEnrollment list \<Rightarrow> (MfaEnrollment list \<times> unit) result" where
  "disable_enrollment targetUserID es =
     (case index_of (\<lambda>e. me_UserID e = targetUserID) es of
        None \<Rightarrow> Inl (Sentinel ErrMfaNotEnrolled)
      | Some i \<Rightarrow> Inr (take i es @ drop (Suc i) es, ()))"

definition Disable ::
    "auth_env \<Rightarrow> string \<Rightarrow> string \<Rightarrow> string \<Rightarrow> bool \<Rightarrow> 'w auth_world_scheme \<Rightarrow> unit result \<times> 'w auth_world_scheme" where
  "Disable E actingID targetUserID password actingIsAdmin w =
     (case GetUserByID actingID w of
        (None, w) \<Rightarrow> (Inl (Sentinel ErrMfaUserNotFound), w)
      | (Some actor, w) \<Rightarrow>
          if \<not> VerifyPassword E (u_PasswordHash actor) password then (Inl (Sentinel ErrMfaInvalidPassword), w)
          else if actingID \<noteq> targetUserID \<and> \<not> actingIsAdmin
          then (Inl (ErrText ''forbidden: only admin can disable another user's MFA''), w)
          else case mfa_Update (disable_enrollment targetUserID) w of
              (Inl e, w) \<Rightarrow>
                if errors_is e ErrMfaNotEnrolled then (Inl (Sentinel ErrMfaNotEnrolled), w)
                else (Inl (ErrWrap ''persist disabled enrollment'' e), w)
            | (Inr _, w) \<Rightarrow> (Inr (), w))"

record MfaStatusResponse =
  ms_Enabled :: bool
  ms_RecoveryCodesRemaining :: nat

definition unused_codes :: "RecoveryCode list \<Rightarrow> nat" where
  "unused_codes cs = length (filter (\<lambda>c. rc_UsedAt c = '''') cs)"

definition mfa_Status :: "string \<Rightarrow> 'w auth_world_scheme \<Rightarrow> MfaStatusResponse result \<times> 'w auth_world_scheme" where
  "mfa_Status userID w =
     (let off = \<lparr>ms_Enabled = False, ms_RecoveryCodesRemaining = 0\<rparr> in
      case js_Read mfa_file w of
        (Inl e, w) \<Rightarrow> if errors_is e ErrNotExist then (Inr off, w) else (Inl (ErrWrap ''read MFA store'' e), w)
      | (Inr es, w) \<Rightarrow>
          (case findEnrollment es userID of
             None \<Rightarrow> (Inr off, w)
           | Some row \<Rightarrow>
               if me_Pending row then (Inr off, w)
               else (Inr \<lparr>ms_Enabled = True, ms_RecoveryCodesRemaining = unused_codes (me_RecoveryCodes row)\<rparr>, w)))"

definition IsEnrolled :: "string \<Rightarrow> 'w auth_world_scheme \<Rightarrow> bool \<times> 'w auth_world_scheme" where
  "IsEnrolled userID w =
     (case js_Read mfa_file w of
        (Inl _, w) \<Rightarrow> (False, w)
      | (Inr es, w) \<Rightarrow> (case findEnrollment es userID of None \<Rightarrow> False | Some row \<Rightarrow> \<not> me_Pending row, w))"

section \<open>Challenges and codes\<close>

definition IssueMfaToken :: "string \<Rightarrow> 'w auth_world_scheme \<Rightarrow> string result \<times> 'w auth_world_scheme" where
  "IssueMfaToken userID w =
     (case GetUserByID userID w of
        (None, w) \<Rightarrow> (Inl (Sentinel ErrMfaUserNotFound), w)
      | (Some user, w) \<Rightarrow>
          (case rand_Read 32 w of
             (Inl e, w) \<Rightarrow> (Inl (ErrWrap ''generate mfa token'' e), w)
           | (Inr raw, w) \<Rightarrow>
               (Inr (base32_encode raw),
                w\<lparr>pendingTokens := (pendingTokens w)(base32_encode raw \<mapsto>
                   \<lparr>pm_userID = userID, pm_username = u_Username user, pm_expiresAt = clock w + MfaTokenTTL,
                    pm_used = False\<rparr>)\<rparr>)))"

fun use_code :: "auth_env \<Rightarrow> string \<Rightarrow> string \<Rightarrow> RecoveryCode list \<Rightarrow> RecoveryCode list result" where
  "use_code E code now [] = Inl (Sentinel ErrMfaRecoveryNotFound)"
| "use_code E code now (c # cs) =
     (if \<not> ae_compare E (rc_Hash c) code
      then (case use_code E code now cs of Inl e \<Rightarrow> Inl e | Inr cs' \<Rightarrow> Inr (c # cs'))
      else if rc_UsedAt c \<noteq> '''' then Inl (Sentinel ErrMfaRecoveryCodeUsed)
      else Inr (c\<lparr>rc_UsedAt := now\<rparr> # cs))"

definition consume_row :: "auth_env \<Rightarrow> string \<Rightarrow> string \<Rightarrow> MfaEnrollment \<Rightarrow> MfaEnrollment result" where
  "consume_row E code now row =
     (case use_code E code now (me_RecoveryCodes row) of
        Inl e \<Rightarrow> Inl e | Inr cs \<Rightarrow> Inr (row\<lparr>me_RecoveryCodes := cs\<rparr>))"

definition ConsumeRecoveryCode ::
    "auth_env \<Rightarrow> string \<Rightarrow> string \<Rightarrow> 'w auth_world_scheme \<Rightarrow> bool result \<times> 'w auth_world_scheme" where
  "ConsumeRecoveryCode E userID code w =
     (case mfa_Update (\<lambda>es. with_unit (on_row userID (Sentinel ErrMfaNotEnrolled)
             (consume_row E (normalizeRecoveryCode code) (NowISO8601 E w)) es)) w of
        (Inl e, w) \<Rightarrow>
          if errors_is e ErrMfaRecoveryNotFound then (Inr False, w)
          else if errors_is e ErrMfaNotEnrolled \<or> errors_is e ErrMfaRecoveryCodeUsed then (Inl e, w)
          else (Inl (ErrWrap ''persist recovery code use'' e), w)
      | (Inr _, w) \<Rightarrow> (Inr True, w))"

definition VerifyTotp :: "auth_env \<Rightarrow> string \<Rightarrow> string \<Rightarrow> 'w auth_world_scheme \<Rightarrow> bool \<times> 'w auth_world_scheme" where
  "VerifyTotp E userID code w =
     (case js_Read mfa_file w of
        (Inl _, w) \<Rightarrow> (False, w)
      | (Inr es, w) \<Rightarrow>
          (case findEnrollment es userID of
             None \<Rightarrow> (False, w)
           | Some row \<Rightarrow> if me_Pending row then (False, w) else (ae_totp E (clock w) code (me_Secret row), w)))"

definition verifyCodeForUser ::
    "auth_env \<Rightarrow> string \<Rightarrow> string \<Rightarrow> 'w auth_world_scheme \<Rightarrow> string result \<times> 'w auth_world_scheme" where
  "verifyCodeForUser E userID code w =
     (if recoveryCodePattern code then
        (case ConsumeRecoveryCode E userID code w of
           (Inl e, w) \<Rightarrow> (Inl e, w)
         | (Inr ok, w) \<Rightarrow> if \<not> ok then (Inl (Sentinel ErrMfaInvalidCode), w) else (Inr ''recovery'', w))
      else if \<not> validCodeFormat code then (Inl (Sentinel ErrMfaInvalidCode), w)
      else case VerifyTotp E userID code w of
          (ok, w) \<Rightarrow> if \<not> ok then (Inl (Sentinel ErrMfaInvalidCode), w) else (Inr ''totp'', w))"

definition VerifyAndIssueSession ::
    "auth_env \<Rightarrow> string \<Rightarrow> string \<Rightarrow> 'w auth_world_scheme \<Rightarrow> (CCUser \<times> string) result \<times> 'w auth_world_scheme" where
  "VerifyAndIssueSession E token code w =
     (case pendingTokens w token of
        None \<Rightarrow> (Inl (Sentinel ErrMfaTokenInvalid), w)
      | Some p \<Rightarrow>
          if pm_used p then (Inl (Sentinel ErrMfaTokenUsed), w)
          else let w' = w\<lparr>pendingTokens := (pendingTokens w)(token := None)\<rparr> in
            if clock w > pm_expiresAt p then (Inl (Sentinel ErrMfaTokenExpired), w')
            else case GetUserByID (pm_userID p) w' of
                (None, w) \<Rightarrow> (Inl (Sentinel ErrMfaUserNotFound), w)
              | (Some user, w) \<Rightarrow>
                  (case verifyCodeForUser E (pm_userID p) (TrimSpace code) w of
                     (Inl e, w) \<Rightarrow> (Inl e, w) | (Inr m, w) \<Rightarrow> (Inr (user, m), w)))"

definition LookupUsernameByMfaToken :: "string \<Rightarrow> 'w auth_world_scheme \<Rightarrow> string" where
  "LookupUsernameByMfaToken token w =
     (case pendingTokens w token of
        None \<Rightarrow> ''''
      | Some p \<Rightarrow> if pm_used p \<or> clock w > pm_expiresAt p then '''' else pm_username p)"

end
