(* ===== verification/SetupState.thy ===== *)
theory SetupState
  imports Mfa
begin

text \<open>
  The one-time setup token: src/internal/setup/token.go.  The token file is kept in decoded form
  (\<^const>\<open>setup_file\<close>); \<open>st_CreatedAt\<close> is \<^const>\<open>None\<close> for Go's zero time.
\<close>

definition hex_char :: "char \<Rightarrow> bool" where
  "hex_char c \<longleftrightarrow> c \<in> set ''0123456789abcdefABCDEF''"

text \<open>\<open>hex.DecodeString\<close> accepts the text and delivers 32 bytes.\<close>

definition validateToken :: "SetupToken \<Rightarrow> go_error option" where
  "validateToken token =
     (if \<not> (length (st_Raw token) = 64 \<and> list_all hex_char (st_Raw token))
      then Some (ErrText ''setup token must be 256-bit hexadecimal'')
      else if st_CreatedAt token = None then Some (ErrText ''setup token creation time is required'')
      else None)"

definition setup_GenerateToken :: "'w auth_world_scheme \<Rightarrow> SetupToken result \<times> 'w auth_world_scheme" where
  "setup_GenerateToken w =
     (case randomHex 32 w of
        (Inl e, w) \<Rightarrow> (Inl e, w)
      | (Inr raw, w) \<Rightarrow> (Inr \<lparr>st_Raw = raw, st_CreatedAt = Some (clock w)\<rparr>, w))"

definition ReadTokenFile :: "'w auth_world_scheme \<Rightarrow> SetupToken result \<times> 'w auth_world_scheme" where
  "ReadTokenFile w =
     (case js_Read setup_file w of
        (Inl e, w) \<Rightarrow> (Inl e, w)
      | (Inr token, w) \<Rightarrow> (case validateToken token of Some e \<Rightarrow> (Inl e, w) | None \<Rightarrow> (Inr token, w)))"

text \<open>Make the directory, create the temporary file, set its mode, encode, sync, close, rename; the
  temporary file is removed in any case.\<close>

fun calls_then :: "nat \<Rightarrow> ('w world_scheme \<Rightarrow> 'a result \<times> 'w world_scheme) \<Rightarrow> 'w world_scheme \<Rightarrow> 'a result \<times> 'w world_scheme" where
  "calls_then 0 k w = k w"
| "calls_then (Suc n) k w = (case sys_call w of (Inl e, w) \<Rightarrow> (Inl e, w) | (Inr _, w) \<Rightarrow> calls_then n k w)"

definition rename_token :: "SetupToken \<Rightarrow> 'w auth_world_scheme \<Rightarrow> unit result \<times> 'w auth_world_scheme" where
  "rename_token token w =
     (case sys_call w of
        (Inl e, w) \<Rightarrow> (Inl e, tick w) | (Inr _, w) \<Rightarrow> (Inr (), tick (w\<lparr>setup_file := Some token\<rparr>)))"

definition WriteTokenFile :: "SetupToken \<Rightarrow> 'w auth_world_scheme \<Rightarrow> unit result \<times> 'w auth_world_scheme" where
  "WriteTokenFile token w =
     (case validateToken token of
        Some e \<Rightarrow> (Inl e, w)
      | None \<Rightarrow> calls_then 6 (rename_token token) w)"

definition ConsumeTokenFile :: "'w auth_world_scheme \<Rightarrow> unit result \<times> 'w auth_world_scheme" where
  "ConsumeTokenFile w =
     (case sys_call w of
        (Inl e, w) \<Rightarrow> (Inl e, w) | (Inr _, w) \<Rightarrow> (Inr (), w\<lparr>setup_file := None\<rparr>))"

definition EnsureTokenFile :: "bool \<Rightarrow> 'w auth_world_scheme \<Rightarrow> SetupToken result \<times> 'w auth_world_scheme" where
  "EnsureTokenFile configured w =
     (case ReadTokenFile w of
        (Inr token, w) \<Rightarrow> (Inr token, w)
      | (Inl e, w) \<Rightarrow>
          if \<not> errors_is e ErrNotExist then (Inl e, w)
          else if configured then (Inr \<lparr>st_Raw = '''', st_CreatedAt = None\<rparr>, w)
          else case setup_GenerateToken w of
              (Inl e, w) \<Rightarrow> (Inl e, w)
            | (Inr token, w) \<Rightarrow>
                (case WriteTokenFile token w of (Inl e, w) \<Rightarrow> (Inl e, w) | (Inr _, w) \<Rightarrow> (Inr token, w)))"

lemma hex_token_valid: "hex_token 32 t \<Longrightarrow> validateToken \<lparr>st_Raw = t, st_CreatedAt = Some c\<rparr> = None"
proof -
  assume t: "hex_token 32 t"
  have "set ''0123456789abcdef'' \<subseteq> Collect hex_char" by (simp add: hex_char_def)
  then have "set t \<subseteq> Collect hex_char" using t unfolding hex_token_def by blast
  then have "list_all hex_char t" by (auto simp: list_all_iff)
  then show ?thesis using t by (simp add: hex_token_def validateToken_def)
qed

end
