(* ===== verification/AuthHandler.thy ===== *)
theory AuthHandler
  imports SetupState "HOL-Library.Word"
begin

text \<open>
  The HTTP surface of authentication: src/internal/handler/auth.go, mfa.go and decode.go, the
  middleware of src/internal/middleware/auth.go, require_admin.go and require_self_or_admin.go, and
  the \<open>/api/auth\<close> routes of src/internal/server/server.go.

  A handler maps a request and the state to a response and the state.  \<open>http_meta\<close> is the part of
  the request that is not the body: \<open>rq_ip\<close> is what \<open>ExtractIP\<close> returns for it (see \<^const>\<open>extractIP\<close>).
  A body is what the JSON decoder made of it.  A response keeps the status, the error code, the data
  and the cookie; the messages and the time stamp are left out.  The server always wires in the
  limiter, the MFA service and the metrics, so the nil checks of the handlers are not repeated.
\<close>

unbundle bit_operations_syntax

section \<open>Requests and responses\<close>

record http_meta =
  rq_ip :: string
  rq_tls :: bool
  rq_proto :: string
  rq_auth :: string
  rq_reset :: string
  rq_cookie :: "string option"
  rq_id :: string

datatype 'b decoded = Decoded 'b | TooLarge | Malformed

record credentials =
  cr_Username :: string
  cr_Password :: string

record CreateUserRequest =
  cu_Username :: string
  cu_Password :: string
  cu_Role :: string

record MfaDisableRequest =
  md_Password :: string
  md_UserID :: string

record MfaVerifyRequest =
  mv_MfaToken :: string
  mv_Code :: string

record cookie =
  ck_Value :: string
  ck_Path :: string
  ck_Secure :: bool
  ck_MaxAge :: int

record CCUserPublic =
  p_ID :: string
  p_Username :: string
  p_Role :: string
  p_CreatedAt :: string
  p_UpdatedAt :: string

datatype payload =
    NoData
  | AuthResponse string CCUserPublic
  | MfaLoginResponse string
  | StatusResponse bool
  | UserData CCUserPublic
  | MeData CCUserPublic MfaStatusResponse
  | UserListResponse "CCUserPublic list"
  | SuccessData
  | MfaEnrollBeginResponse string string
  | MfaEnrollConfirmResponse "string list" nat
  | MfaStatusData MfaStatusResponse

record response =
  rs_status :: nat
  rs_code :: string
  rs_data :: payload
  rs_cookie :: "cookie option"
  rs_retry :: "int option"

definition RespondJSON :: "nat \<Rightarrow> payload \<Rightarrow> response" where
  "RespondJSON status d = \<lparr>rs_status = status, rs_code = '''', rs_data = d, rs_cookie = None, rs_retry = None\<rparr>"

definition RespondError :: "nat \<Rightarrow> string \<Rightarrow> response" where
  "RespondError status code = \<lparr>rs_status = status, rs_code = code, rs_data = NoData, rs_cookie = None, rs_retry = None\<rparr>"

definition RespondTooManyRequests :: "int \<Rightarrow> response" where
  "RespondTooManyRequests retryAfter =
     \<lparr>rs_status = 429, rs_code = ''RATE_LIMITED'', rs_data = NoData, rs_cookie = None,
      rs_retry = Some (sgn retryAfter * (\<bar>retryAfter\<bar> div 1000000000))\<rparr>"

text \<open>\<open>DecodeJSON\<close>: the decoded body or the response it has written.\<close>

definition DecodeJSON :: "'b decoded \<Rightarrow> response + 'b" where
  "DecodeJSON b =
     (case b of
        Decoded x \<Rightarrow> Inr x
      | TooLarge \<Rightarrow> Inl (RespondError 413 '''')
      | Malformed \<Rightarrow> Inl (RespondError 400 ''INVALID_REQUEST''))"

definition public :: "CCUser \<Rightarrow> CCUserPublic" where
  "public u = \<lparr>p_ID = u_ID u, p_Username = u_Username u, p_Role = u_Role u, p_CreatedAt = u_CreatedAt u,
     p_UpdatedAt = u_UpdatedAt u\<rparr>"

section \<open>The services the handlers share\<close>

definition succeeded :: "'a result \<Rightarrow> bool" where
  "succeeded r = (case r of Inl _ \<Rightarrow> False | Inr _ \<Rightarrow> True)"

text \<open>The limiter persists its table with one write, which may fail.\<close>

definition limiter_Check :: "string \<Rightarrow> 'w auth_world_scheme \<Rightarrow> (bool \<times> int) \<times> 'w auth_world_scheme" where
  "limiter_Check key w =
     (case sys_call w of
        (r, w) \<Rightarrow> (case Check key (clock w) (clock w) (succeeded r) (throttle w) of
                     (rl, verdict) \<Rightarrow> (verdict, w\<lparr>throttle := rl\<rparr>)))"

definition limiter_Record :: "string \<Rightarrow> 'w auth_world_scheme \<Rightarrow> 'w auth_world_scheme" where
  "limiter_Record key w =
     (case sys_call w of (r, w) \<Rightarrow> w\<lparr>throttle := Record key (clock w) (succeeded r) (throttle w)\<rparr>)"

definition limiter_Reset :: "string \<Rightarrow> 'w auth_world_scheme \<Rightarrow> 'w auth_world_scheme" where
  "limiter_Reset key w =
     (case sys_call w of (r, w) \<Rightarrow> w\<lparr>throttle := Reset key (succeeded r) (throttle w)\<rparr>)"

definition audit_Log ::
    "string \<Rightarrow> string \<Rightarrow> string \<Rightarrow> string \<Rightarrow> (string \<times> string) list \<Rightarrow> 'w auth_world_scheme \<Rightarrow> 'w auth_world_scheme" where
  "audit_Log actor action target res meta w =
     w\<lparr>trail := trail w @ [\<lparr>le_actor = actor, le_action = action, le_target = target, le_result = res, le_meta = meta\<rparr>]\<rparr>"

definition RecordLoginAttempt :: "bool \<Rightarrow> 'w auth_world_scheme \<Rightarrow> 'w auth_world_scheme" where
  "RecordLoginAttempt ok w = w\<lparr>logins := logins w @ [ok]\<rparr>"

section \<open>Cookies\<close>

definition isSecureRequest :: "http_meta \<Rightarrow> bool" where
  "isSecureRequest r \<longleftrightarrow> rq_tls r \<or> ToLower (rq_proto r) = ''https''"

definition shouldEmitSecureCookie :: "bool \<Rightarrow> http_meta \<Rightarrow> bool" where
  "shouldEmitSecureCookie nrcc_tls r \<longleftrightarrow> isSecureRequest r \<or> nrcc_tls"

definition refresh_cookie :: "string \<Rightarrow> string \<Rightarrow> bool \<Rightarrow> cookie" where
  "refresh_cookie token path secure =
     \<lparr>ck_Value = token, ck_Path = path, ck_Secure = secure, ck_MaxAge = RefreshTokenLifetime div 1000000000\<rparr>"

definition setRefreshCookieWithSecure ::
    "auth_env \<Rightarrow> string \<Rightarrow> bool \<Rightarrow> 'w auth_world_scheme \<Rightarrow> cookie result \<times> 'w auth_world_scheme" where
  "setRefreshCookieWithSecure E userID secure w =
     (case CreateRefreshSession E userID w of
        (Inl e, w) \<Rightarrow> (Inl e, w) | (Inr token, w) \<Rightarrow> (Inr (refresh_cookie token ''/'' secure), w))"

definition setRefreshCookie :: "auth_env \<Rightarrow> http_meta \<Rightarrow> string \<Rightarrow> 'w auth_world_scheme \<Rightarrow> cookie result \<times> 'w auth_world_scheme" where
  "setRefreshCookie E r userID w = setRefreshCookieWithSecure E userID (isSecureRequest r) w"

definition setSetupRefreshCookie ::
    "auth_env \<Rightarrow> bool \<Rightarrow> http_meta \<Rightarrow> string \<Rightarrow> 'w auth_world_scheme \<Rightarrow> cookie result \<times> 'w auth_world_scheme" where
  "setSetupRefreshCookie E nrcc_tls r userID w = setRefreshCookieWithSecure E userID (shouldEmitSecureCookie nrcc_tls r) w"

definition setRefreshCookieFor :: "auth_env \<Rightarrow> http_meta \<Rightarrow> string \<Rightarrow> 'w auth_world_scheme \<Rightarrow> cookie result \<times> 'w auth_world_scheme" where
  "setRefreshCookieFor E r userID w =
     (case CreateRefreshSession E userID w of
        (Inl e, w) \<Rightarrow> (Inl e, w) | (Inr token, w) \<Rightarrow> (Inr (refresh_cookie token ''/api/auth'' (isSecureRequest r)), w))"

definition clearRefreshCookie :: "http_meta \<Rightarrow> cookie" where
  "clearRefreshCookie r = \<lparr>ck_Value = '''', ck_Path = ''/'', ck_Secure = isSecureRequest r, ck_MaxAge = -1\<rparr>"

text \<open>The stripe of locks a refresh takes: 32-bit FNV-1a of the address.\<close>

definition refreshLockStripes :: "32 word" where "refreshLockStripes = 64"

definition refreshLockIndex :: "string \<Rightarrow> 32 word" where
  "refreshLockIndex ip =
     foldl (\<lambda>hash c. (hash XOR of_nat (of_char c)) * 16777619) 2166136261 ip mod refreshLockStripes"

section \<open>Setup, login and refresh\<close>

text \<open>The tail of every handler that signs a user in: the access token, then the refresh cookie.\<close>

definition sign_in ::
    "auth_env \<Rightarrow> CCUser \<Rightarrow> ('w auth_world_scheme \<Rightarrow> cookie result \<times> 'w auth_world_scheme) \<Rightarrow> 'w auth_world_scheme \<Rightarrow>
     (response + (string \<times> cookie)) \<times> 'w auth_world_scheme" where
  "sign_in E user set_cookie w =
     (case GenerateToken E user (clock w) of
        Inl _ \<Rightarrow> (Inl (RespondError 500 ''TOKEN_ERROR''), w)
      | Inr token \<Rightarrow>
          (case set_cookie w of
             (Inl _, w) \<Rightarrow> (Inl (RespondError 500 ''REFRESH_SESSION_ERROR''), w)
           | (Inr ck, w) \<Rightarrow> (Inr (token, ck), w)))"

definition auth_ok :: "nat \<Rightarrow> string \<Rightarrow> CCUser \<Rightarrow> cookie \<Rightarrow> response" where
  "auth_ok status token user ck = (RespondJSON status (AuthResponse token (public user)))\<lparr>rs_cookie := Some ck\<rparr>"

definition setup_ip_key :: "http_meta \<Rightarrow> string" where
  "setup_ip_key r = ''setup-ip:'' @ rq_ip r"

definition respondAlreadyConfigured :: "http_meta \<Rightarrow> string \<Rightarrow> 'w auth_world_scheme \<Rightarrow> response \<times> 'w auth_world_scheme" where
  "respondAlreadyConfigured r username w =
     (RespondError 409 ''ALREADY_CONFIGURED'',
      limiter_Record (SetupUserKey username) (limiter_Record (setup_ip_key r) w))"

text \<open>The recovery branch of \<open>Setup\<close>: on a configured system the token file must match the header.\<close>

definition setup_authorised :: "http_meta \<Rightarrow> bool \<Rightarrow> 'w auth_world_scheme \<Rightarrow> bool \<times> 'w auth_world_scheme" where
  "setup_authorised r configured w =
     (if \<not> configured then (True, w)
      else case ReadTokenFile w of
          (Inl _, w) \<Rightarrow> (False, w) | (Inr token, w) \<Rightarrow> (rq_reset r = st_Raw token, w))"

definition setup_create ::
    "auth_env \<Rightarrow> bool \<Rightarrow> http_meta \<Rightarrow> bool \<Rightarrow> string \<Rightarrow> string \<Rightarrow> 'w auth_world_scheme \<Rightarrow> response \<times> 'w auth_world_scheme" where
  "setup_create E nrcc_tls r configured username password w =
     (case HashPassword E password w of
        (Inl _, w) \<Rightarrow> (RespondError 500 ''HASH_ERROR'', w)
      | (Inr hash, w) \<Rightarrow>
          (let user = \<lparr>u_ID = ae_uuid E (calls w), u_Username = username, u_PasswordHash = hash, u_Role = RoleAdmin,
                 u_CreatedAt = NowISO8601 E w, u_UpdatedAt = NowISO8601 E w\<rparr>; w = tick w
           in case (if configured then CreateUser (Some user) w else BootstrapFirstAdmin (Some user) w) of
                (Inl e, w) \<Rightarrow>
                  if errors_is e ErrAlreadyConfigured then respondAlreadyConfigured r username w
                  else (RespondError 500 ''CREATE_ERROR'', w)
              | (Inr _, w) \<Rightarrow>
                  (case sign_in E user (setSetupRefreshCookie E nrcc_tls r (u_ID user)) w of
                     (Inl resp, w) \<Rightarrow> (resp, w)
                   | (Inr (token, ck), w) \<Rightarrow>
                       (let w = (if configured then snd (ConsumeTokenFile w) else w);
                            w = limiter_Reset (SetupUserKey username) (limiter_Reset (setup_ip_key r) w);
                            w = audit_Log username ''SYSTEM_SETUP'' '''' ''ok'' [] w
                        in (auth_ok 201 token user ck, w)))))"

definition handle_Setup ::
    "auth_env \<Rightarrow> bool \<Rightarrow> http_meta \<Rightarrow> credentials decoded \<Rightarrow> 'w auth_world_scheme \<Rightarrow> response \<times> 'w auth_world_scheme" where
  "handle_Setup E nrcc_tls r body w =
     (case limiter_Check (setup_ip_key r) w of
        ((True, retry), w) \<Rightarrow> (RespondTooManyRequests retry, w)
      | ((False, _), w) \<Rightarrow>
          (case DecodeJSON body of
             Inl resp \<Rightarrow> (resp, w)
           | Inr req \<Rightarrow>
               (let username = ToLower (TrimSpace (cr_Username req)); password = cr_Password req in
                if username = '''' \<or> password = '''' then (RespondError 400 ''INVALID_REQUEST'', w)
                else case limiter_Check (SetupUserKey username) w of
                    ((True, retry), w) \<Rightarrow> (RespondTooManyRequests retry, w)
                  | ((False, _), w) \<Rightarrow>
                      if ValidatePassword password \<noteq> None then (RespondError 400 ''WEAK_PASSWORD'', w)
                      else let (users, w) = GetAllUsers w in
                        (case users of
                           Inl e \<Rightarrow>
                             if \<not> errors_is e ErrNotExist then (RespondError 500 ''CREATE_ERROR'', w)
                             else setup_create E nrcc_tls r False username password w
                         | Inr us \<Rightarrow>
                             (case setup_authorised r (us \<noteq> []) w of
                                (False, w) \<Rightarrow> respondAlreadyConfigured r username w
                              | (True, w) \<Rightarrow> setup_create E nrcc_tls r (us \<noteq> []) username password w)))))"

definition rehash :: "string \<Rightarrow> string \<Rightarrow> CCUser \<Rightarrow> CCUser result" where
  "rehash hash now u = Inr (u\<lparr>u_PasswordHash := hash, u_UpdatedAt := now\<rparr>)"

text \<open>A stored hash of too low a cost is replaced, if everything about that works.\<close>

definition maybe_rehash :: "auth_env \<Rightarrow> string \<Rightarrow> CCUser \<Rightarrow> 'w auth_world_scheme \<Rightarrow> CCUser \<times> 'w auth_world_scheme" where
  "maybe_rehash E password user w =
     (if NeedsRehash E (u_PasswordHash user) then
        (case HashPassword E password w of
           (Inl _, w) \<Rightarrow> (user, w)
         | (Inr newHash, w) \<Rightarrow>
             (let now = NowISO8601 E w in
              case UpdateUser (u_ID user) (Some (rehash newHash now)) w of
                (Inl _, w) \<Rightarrow> (user, w)
              | (Inr _, w) \<Rightarrow> (user\<lparr>u_PasswordHash := newHash, u_UpdatedAt := now\<rparr>, w)))
      else (user, w))"

definition login_failed :: "http_meta \<Rightarrow> string \<Rightarrow> string \<Rightarrow> 'w auth_world_scheme \<Rightarrow> response \<times> 'w auth_world_scheme" where
  "login_failed r username reason w =
     (RespondError 401 ''AUTH_FAILED'',
      audit_Log username ''LOGIN'' '''' ''fail'' [(''reason'', reason)]
        (RecordLoginAttempt False
          (limiter_Record (AuthUserKey username) (limiter_Record (AuthIPKey (rq_ip r)) w))))"

text \<open>What follows a correct password.\<close>

definition login_accepted ::
    "auth_env \<Rightarrow> http_meta \<Rightarrow> string \<Rightarrow> string \<Rightarrow> CCUser \<Rightarrow> 'w auth_world_scheme \<Rightarrow> response \<times> 'w auth_world_scheme" where
  "login_accepted E r username password user w =
     (let w = limiter_Reset (AuthUserKey username) (limiter_Reset (AuthIPKey (rq_ip r)) w);
          (user, w) = maybe_rehash E password user w;
          (enrolled, w) = IsEnrolled (u_ID user) w
      in if enrolled then
           (case IssueMfaToken (u_ID user) w of
              (Inl _, w) \<Rightarrow> (RespondError 500 ''MFA_TOKEN_ERROR'', w)
            | (Inr mfaToken, w) \<Rightarrow>
                (RespondJSON 200 (MfaLoginResponse mfaToken),
                 audit_Log username ''LOGIN'' '''' ''ok'' [(''stage'', ''password''), (''mfa'', ''required'')]
                   (RecordLoginAttempt True w)))
         else case sign_in E user (setRefreshCookie E r (u_ID user)) w of
             (Inl resp, w) \<Rightarrow> (resp, w)
           | (Inr (token, ck), w) \<Rightarrow>
               (auth_ok 200 token user ck, audit_Log username ''LOGIN'' '''' ''ok'' [] (RecordLoginAttempt True w)))"

definition handle_Login ::
    "auth_env \<Rightarrow> http_meta \<Rightarrow> credentials decoded \<Rightarrow> 'w auth_world_scheme \<Rightarrow> response \<times> 'w auth_world_scheme" where
  "handle_Login E r body w =
     (case limiter_Check (AuthIPKey (rq_ip r)) w of
        ((True, retry), w) \<Rightarrow> (RespondTooManyRequests retry, w)
      | ((False, _), w) \<Rightarrow>
          (case DecodeJSON body of
             Inl resp \<Rightarrow> (resp, w)
           | Inr req \<Rightarrow>
               if cr_Username req = '''' \<or> cr_Password req = '''' then (RespondError 400 ''INVALID_REQUEST'', w)
               else case limiter_Check (AuthUserKey (cr_Username req)) w of
                   ((True, retry), w) \<Rightarrow> (RespondTooManyRequests retry, w)
                 | ((False, _), w) \<Rightarrow>
                     (case GetUserByUsername (cr_Username req) w of
                        (None, w) \<Rightarrow> login_failed r (cr_Username req) ''unknown_user'' w
                      | (Some user, w) \<Rightarrow>
                          if \<not> VerifyPassword E (u_PasswordHash user) (cr_Password req)
                          then login_failed r (cr_Username req) ''bad_password'' w
                          else login_accepted E r (cr_Username req) (cr_Password req) user w)))"

definition refresh_key :: "http_meta \<Rightarrow> string" where
  "refresh_key r = ''refresh-ip:'' @ rq_ip r"

text \<open>The rotation: everything after the session has been validated.\<close>

definition refresh_rotate ::
    "auth_env \<Rightarrow> http_meta \<Rightarrow> string \<Rightarrow> RefreshSession \<Rightarrow> 'w auth_world_scheme \<Rightarrow> response \<times> 'w auth_world_scheme" where
  "refresh_rotate E r value sess w =
     (case RevokeRefreshSession E value w of
        (Inl _, w) \<Rightarrow> (RespondError 500 ''REFRESH_REVOKE_ERROR'', w)
      | (Inr _, w) \<Rightarrow>
          (case GetUserByID (s_UserID sess) w of
             (None, w) \<Rightarrow> ((RespondError 401 ''USER_NOT_FOUND'')\<lparr>rs_cookie := Some (clearRefreshCookie r)\<rparr>, w)
           | (Some user, w) \<Rightarrow>
               (case sign_in E user (setRefreshCookie E r (u_ID user)) w of
                  (Inl resp, w) \<Rightarrow> (resp, w)
                | (Inr (token, ck), w) \<Rightarrow> (auth_ok 200 token user ck, limiter_Reset (refresh_key r) w))))"

definition handle_Refresh :: "auth_env \<Rightarrow> http_meta \<Rightarrow> 'w auth_world_scheme \<Rightarrow> response \<times> 'w auth_world_scheme" where
  "handle_Refresh E r w =
     (case limiter_Check (refresh_key r) w of
        ((True, retry), w) \<Rightarrow> ((RespondTooManyRequests retry)\<lparr>rs_code := ''''\<rparr>, w)
      | ((False, _), w) \<Rightarrow>
          (case rq_cookie r of
             None \<Rightarrow> (RespondError 401 ''NO_REFRESH_TOKEN'', limiter_Record (refresh_key r) w)
           | Some value \<Rightarrow>
               if value = '''' then (RespondError 401 ''NO_REFRESH_TOKEN'', limiter_Record (refresh_key r) w)
               else case ValidateRefreshSession E value w of
                   (Inl _, w) \<Rightarrow>
                     ((RespondError 401 ''INVALID_REFRESH'')\<lparr>rs_cookie := Some (clearRefreshCookie r)\<rparr>,
                      limiter_Record (refresh_key r) w)
                 | (Inr sess, w) \<Rightarrow> refresh_rotate E r value sess w))"

definition handle_Logout :: "auth_env \<Rightarrow> http_meta \<Rightarrow> 'w auth_world_scheme \<Rightarrow> response \<times> 'w auth_world_scheme" where
  "handle_Logout E r w =
     (let done_resp = (RespondJSON 200 SuccessData)\<lparr>rs_cookie := Some (clearRefreshCookie r)\<rparr> in
      case rq_cookie r of
        None \<Rightarrow> (done_resp, w)
      | Some value \<Rightarrow>
          if value = '''' then (done_resp, w)
          else case RevokeRefreshSession E value w of
              (Inl _, w) \<Rightarrow> (RespondError 500 ''LOGOUT_ERROR'', w) | (Inr _, w) \<Rightarrow> (done_resp, w))"

section \<open>Accounts\<close>

definition handle_GetStatus :: "'w auth_world_scheme \<Rightarrow> response \<times> 'w auth_world_scheme" where
  "handle_GetStatus w =
     (case GetAllUsers w of
        (Inl _, w) \<Rightarrow> (RespondJSON 200 (StatusResponse False), w)
      | (Inr us, w) \<Rightarrow> (RespondJSON 200 (StatusResponse (us \<noteq> [])), w))"

definition handle_GetMe :: "Claims \<Rightarrow> 'w auth_world_scheme \<Rightarrow> response \<times> 'w auth_world_scheme" where
  "handle_GetMe claims w =
     (case GetUserByID (cl_UserID claims) w of
        (None, w) \<Rightarrow> (RespondError 404 ''NOT_FOUND'', w)
      | (Some user, w) \<Rightarrow>
          (case mfa_Status (u_ID user) w of
             (Inl _, w) \<Rightarrow> (RespondJSON 200 (MeData (public user) \<lparr>ms_Enabled = False, ms_RecoveryCodesRemaining = 0\<rparr>), w)
           | (Inr s, w) \<Rightarrow> (RespondJSON 200 (MeData (public user) s), w)))"

definition handle_GetUsers :: "'w auth_world_scheme \<Rightarrow> response \<times> 'w auth_world_scheme" where
  "handle_GetUsers w =
     (case GetAllUsers w of
        (Inl _, w) \<Rightarrow> (RespondError 500 ''FETCH_ERROR'', w)
      | (Inr us, w) \<Rightarrow> (RespondJSON 200 (UserListResponse (map public us)), w))"

definition handle_CreateUser ::
    "auth_env \<Rightarrow> Claims \<Rightarrow> CreateUserRequest decoded \<Rightarrow> 'w auth_world_scheme \<Rightarrow> response \<times> 'w auth_world_scheme" where
  "handle_CreateUser E claims body w =
     (case DecodeJSON body of
        Inl resp \<Rightarrow> (resp, w)
      | Inr req \<Rightarrow>
          if cu_Username req = '''' \<or> cu_Password req = '''' then (RespondError 400 ''INVALID_REQUEST'', w)
          else if cu_Role req \<noteq> RoleAdmin \<and> cu_Role req \<noteq> RoleViewer then (RespondError 400 ''INVALID_REQUEST'', w)
          else if ValidatePassword (cu_Password req) \<noteq> None then (RespondError 400 ''WEAK_PASSWORD'', w)
          else case HashPassword E (cu_Password req) w of
              (Inl _, w) \<Rightarrow> (RespondError 500 ''HASH_ERROR'', w)
            | (Inr hash, w) \<Rightarrow>
                (let newUser = \<lparr>u_ID = ae_uuid E (calls w), u_Username = cu_Username req, u_PasswordHash = hash,
                       u_Role = cu_Role req, u_CreatedAt = NowISO8601 E w, u_UpdatedAt = NowISO8601 E w\<rparr>
                 in case CreateUser (Some newUser) (tick w) of
                      (Inl e, w) \<Rightarrow>
                        if errors_is e ErrUsernameExists then (RespondError 409 ''USERNAME_EXISTS'', w)
                        else (RespondError 500 ''CREATE_ERROR'', w)
                    | (Inr _, w) \<Rightarrow>
                        (RespondJSON 201 (UserData (public newUser)),
                         audit_Log (cl_Username claims) ''USER_CREATE'' (cu_Username req) ''ok'' [(''role'', cu_Role req)] w)))"

definition handle_DeleteUser :: "Claims \<Rightarrow> http_meta \<Rightarrow> 'w auth_world_scheme \<Rightarrow> response \<times> 'w auth_world_scheme" where
  "handle_DeleteUser claims r w =
     (if rq_id r = '''' then (RespondError 400 ''INVALID_REQUEST'', w)
      else if rq_id r = cl_UserID claims then (RespondError 400 ''CANNOT_DELETE_SELF'', w)
      else case DeleteUserWithPolicy (rq_id r) w of
          (Inl e, w) \<Rightarrow>
            if errors_is e ErrUserNotFound then (RespondError 404 ''NOT_FOUND'', w)
            else if errors_is e ErrCannotDeleteLastAdmin then (RespondError 403 ''CANNOT_DELETE_LAST_ADMIN'', w)
            else (RespondError 500 ''DELETE_ERROR'', w)
        | (Inr user, w) \<Rightarrow>
            (RespondJSON 200 SuccessData, audit_Log (cl_Username claims) ''USER_DELETE'' (u_Username user) ''ok'' [] w))"

text \<open>The closure of \<open>ChangePassword\<close> also remembers the name of the account it changed.\<close>

fun change_password :: "string \<Rightarrow> string \<Rightarrow> string \<Rightarrow> CCUser list \<Rightarrow> (CCUser list \<times> string) result" where
  "change_password uid hash now [] = Inl (Sentinel ErrUserNotFound)"
| "change_password uid hash now (u # us) =
     (if u_ID u = uid then Inr (u\<lparr>u_PasswordHash := hash, u_UpdatedAt := now\<rparr> # us, u_Username u)
      else case change_password uid hash now us of Inl e \<Rightarrow> Inl e | Inr (us', x) \<Rightarrow> Inr (u # us', x))"

definition handle_ChangePassword ::
    "auth_env \<Rightarrow> Claims \<Rightarrow> http_meta \<Rightarrow> string decoded \<Rightarrow> 'w auth_world_scheme \<Rightarrow> response \<times> 'w auth_world_scheme" where
  "handle_ChangePassword E claims r body w =
     (if rq_id r = '''' then (RespondError 400 ''INVALID_REQUEST'', w)
      else case DecodeJSON body of
          Inl resp \<Rightarrow> (resp, w)
        | Inr password \<Rightarrow>
            if password = '''' then (RespondError 400 ''INVALID_REQUEST'', w)
            else if ValidatePassword password \<noteq> None then (RespondError 400 ''WEAK_PASSWORD'', w)
            else case HashPassword E password w of
                (Inl _, w) \<Rightarrow> (RespondError 500 ''HASH_ERROR'', w)
              | (Inr hash, w) \<Rightarrow>
                  (case users_Update (change_password (rq_id r) hash (NowISO8601 E w)) w of
                     (Inl e, w) \<Rightarrow>
                       if errors_is e ErrUserNotFound then (RespondError 404 ''NOT_FOUND'', w)
                       else (RespondError 500 ''UPDATE_ERROR'', w)
                   | (Inr username, w) \<Rightarrow>
                       (RespondJSON 200 SuccessData,
                        audit_Log (cl_Username claims) ''PASSWORD_CHANGE'' username ''ok'' [] w)))"

definition handle_UpdateUser ::
    "auth_env \<Rightarrow> Claims \<Rightarrow> http_meta \<Rightarrow> string option decoded \<Rightarrow> 'w auth_world_scheme \<Rightarrow> response \<times> 'w auth_world_scheme" where
  "handle_UpdateUser E claims r body w =
     (if rq_id r = '''' then (RespondError 400 ''INVALID_REQUEST'', w)
      else case DecodeJSON body of
          Inl resp \<Rightarrow> (resp, w)
        | Inr None \<Rightarrow> (RespondError 400 ''INVALID_REQUEST'', w)
        | Inr (Some role) \<Rightarrow>
            if role \<noteq> RoleAdmin \<and> role \<noteq> RoleViewer then (RespondError 400 ''INVALID_REQUEST'', w)
            else if rq_id r = cl_UserID claims \<and> role \<noteq> RoleAdmin then (RespondError 400 ''CANNOT_CHANGE_OWN_ROLE'', w)
            else case UpdateUserRole (rq_id r) role (NowISO8601 E w) w of
                (Inl e, w) \<Rightarrow>
                  if errors_is e ErrUserNotFound then (RespondError 404 ''NOT_FOUND'', w)
                  else if errors_is e ErrCannotDemoteLastAdmin then (RespondError 403 ''CANNOT_DEMOTE_LAST_ADMIN'', w)
                  else (RespondError 500 ''UPDATE_ERROR'', w)
              | (Inr user, w) \<Rightarrow>
                  (RespondJSON 200 (UserData (public user)),
                   audit_Log (cl_Username claims) ''USER_UPDATE'' (u_Username user) ''ok'' [(''role'', u_Role user)] w))"

section \<open>The second factor\<close>

definition handle_Enroll :: "auth_env \<Rightarrow> Claims \<Rightarrow> 'w auth_world_scheme \<Rightarrow> response \<times> 'w auth_world_scheme" where
  "handle_Enroll E claims w =
     (case BeginEnrollment E (cl_UserID claims) w of
        (Inl e, w) \<Rightarrow>
          if errors_is e ErrMfaAlreadyEnrolled then (RespondError 409 ''MFA_ALREADY_ENROLLED'', w)
          else if errors_is e ErrMfaUserNotFound then (RespondError 404 ''NOT_FOUND'', w)
          else (RespondError 500 ''MFA_ENROLL_ERROR'', w)
      | (Inr (secret, url), w) \<Rightarrow>
          (RespondJSON 200 (MfaEnrollBeginResponse secret url),
           audit_Log (cl_Username claims) ''MFA_ENROLL'' (cl_Username claims) ''ok'' [(''phase'', ''begin'')] w))"

text \<open>\<^const>\<open>None\<close> when the generation of the recovery codes never ends.\<close>

definition handle_EnrollConfirm ::
    "auth_env \<Rightarrow> Claims \<Rightarrow> string decoded \<Rightarrow> 'w auth_world_scheme \<Rightarrow> (response \<times> 'w auth_world_scheme) option" where
  "handle_EnrollConfirm E claims body w =
     (case DecodeJSON body of
        Inl resp \<Rightarrow> Some (resp, w)
      | Inr code \<Rightarrow>
          if TrimSpace code = '''' then Some (RespondError 400 ''INVALID_REQUEST'', w)
          else case ConfirmEnrollment E (cl_UserID claims) code w of
              None \<Rightarrow> None
            | Some (Inl e, w) \<Rightarrow> Some
                (if errors_is e ErrMfaInvalidCode
                 then (RespondError 400 ''INVALID_CODE'',
                       audit_Log (cl_Username claims) ''MFA_ENROLL'' (cl_Username claims) ''fail''
                         [(''phase'', ''confirm''), (''reason'', ''bad_code'')] w)
                 else if errors_is e ErrMfaAlreadyEnrolled then (RespondError 409 ''MFA_ALREADY_ENROLLED'', w)
                 else if errors_is e ErrMfaPendingMissing then (RespondError 400 ''MFA_NOT_ENROLLING'', w)
                 else (RespondError 500 ''MFA_ENROLL_ERROR'', w))
            | Some (Inr codes, w) \<Rightarrow> Some
                (RespondJSON 200 (MfaEnrollConfirmResponse codes (length codes)),
                 audit_Log (cl_Username claims) ''MFA_ENROLL'' (cl_Username claims) ''ok'' [(''phase'', ''confirm'')] w))"

text \<open>\<open>strings.HasPrefix(err.Error(), "forbidden")\<close>: the text an error starts with.\<close>

fun err_prefix :: "go_error \<Rightarrow> string" where
  "err_prefix (ErrText s) = s"
| "err_prefix (ErrWrap s _) = s"
| "err_prefix _ = ''''"

definition handle_Disable ::
    "auth_env \<Rightarrow> Claims \<Rightarrow> MfaDisableRequest decoded \<Rightarrow> 'w auth_world_scheme \<Rightarrow> response \<times> 'w auth_world_scheme" where
  "handle_Disable E claims body w =
     (case DecodeJSON body of
        Inl resp \<Rightarrow> (resp, w)
      | Inr req \<Rightarrow>
          if md_Password req = '''' then (RespondError 400 ''INVALID_REQUEST'', w)
          else let target = (if md_UserID req \<noteq> '''' \<and> md_UserID req \<noteq> cl_UserID claims then md_UserID req else cl_UserID claims) in
            (case Disable E (cl_UserID claims) target (md_Password req) (cl_Role claims = RoleAdmin) w of
               (Inl e, w) \<Rightarrow>
                 if errors_is e ErrMfaInvalidPassword
                 then (RespondError 401 ''INVALID_PASSWORD'',
                       audit_Log (cl_Username claims) ''MFA_DISABLE'' target ''fail'' [(''reason'', ''bad_password'')] w)
                 else if errors_is e ErrMfaNotEnrolled then (RespondError 409 ''MFA_NOT_ENROLLED'', w)
                 else if errors_is e ErrMfaUserNotFound then (RespondError 404 ''NOT_FOUND'', w)
                 else if HasPrefix (err_prefix e) ''forbidden'' then (RespondError 403 ''FORBIDDEN'', w)
                 else (RespondError 500 ''MFA_DISABLE_ERROR'', w)
             | (Inr _, w) \<Rightarrow>
                 (RespondJSON 200 SuccessData, audit_Log (cl_Username claims) ''MFA_DISABLE'' target ''ok'' [] w)))"

definition handle_MfaStatus :: "Claims \<Rightarrow> 'w auth_world_scheme \<Rightarrow> response \<times> 'w auth_world_scheme" where
  "handle_MfaStatus claims w =
     (case mfa_Status (cl_UserID claims) w of
        (Inl _, w) \<Rightarrow> (RespondError 500 ''MFA_STATUS_ERROR'', w) | (Inr s, w) \<Rightarrow> (RespondJSON 200 (MfaStatusData s), w))"

definition verify_failed :: "http_meta \<Rightarrow> string \<Rightarrow> go_error \<Rightarrow> 'w auth_world_scheme \<Rightarrow> response \<times> 'w auth_world_scheme" where
  "verify_failed r username e w =
     (let fail = (\<lambda>code reason w. (RespondError 401 code,
            audit_Log username ''MFA_VERIFY'' username ''fail'' [(''reason'', reason)] w)) in
      if errors_is e ErrMfaTokenInvalid then fail ''MFA_TOKEN_INVALID'' ''bad_token'' w
      else if errors_is e ErrMfaTokenExpired then fail ''MFA_TOKEN_EXPIRED'' ''expired'' w
      else if errors_is e ErrMfaTokenUsed then fail ''MFA_TOKEN_INVALID'' ''used'' w
      else if errors_is e ErrMfaInvalidCode then
        fail ''INVALID_CODE'' ''bad_code''
          (limiter_Record (AuthIPKey (rq_ip r)) (if username \<noteq> '''' then limiter_Record (AuthUserKey username) w else w))
      else if errors_is e ErrMfaUserNotFound then (RespondError 401 ''USER_NOT_FOUND'', w)
      else (RespondError 500 ''MFA_VERIFY_ERROR'', w))"

definition verify_accepted ::
    "auth_env \<Rightarrow> http_meta \<Rightarrow> string \<Rightarrow> CCUser \<Rightarrow> string \<Rightarrow> 'w auth_world_scheme \<Rightarrow> response \<times> 'w auth_world_scheme" where
  "verify_accepted E r username user meth w =
     (let w = limiter_Reset (AuthIPKey (rq_ip r)) w;
          w = (if username \<noteq> '''' then limiter_Reset (AuthUserKey username) w else w)
      in case sign_in E user (setRefreshCookieFor E r (u_ID user)) w of
           (Inl resp, w) \<Rightarrow> (resp, w)
         | (Inr (token, ck), w) \<Rightarrow>
             (let w = audit_Log (u_Username user) ''MFA_VERIFY'' (u_Username user) ''ok'' [(''method'', meth)] w;
                  w = (if meth = ''recovery''
                       then audit_Log (u_Username user) ''MFA_RECOVERY_USE'' (u_Username user) ''ok'' [] w else w)
              in (auth_ok 200 token user ck, w)))"

definition handle_Verify ::
    "auth_env \<Rightarrow> http_meta \<Rightarrow> MfaVerifyRequest decoded \<Rightarrow> 'w auth_world_scheme \<Rightarrow> response \<times> 'w auth_world_scheme" where
  "handle_Verify E r body w =
     (case limiter_Check (AuthIPKey (rq_ip r)) w of
        ((True, retry), w) \<Rightarrow> (RespondTooManyRequests retry, w)
      | ((False, _), w) \<Rightarrow>
          (case DecodeJSON body of
             Inl resp \<Rightarrow> (resp, w)
           | Inr req \<Rightarrow>
               if mv_MfaToken req = '''' \<or> mv_Code req = '''' then (RespondError 400 ''INVALID_REQUEST'', w)
               else let username = LookupUsernameByMfaToken (mv_MfaToken req) w;
                        (verdict, w) = (if username \<noteq> '''' then limiter_Check (AuthUserKey username) w else ((False, 0), w))
                    in if fst verdict then (RespondTooManyRequests (snd verdict), w)
                       else case VerifyAndIssueSession E (mv_MfaToken req) (mv_Code req) w of
                           (Inl e, w) \<Rightarrow> verify_failed r username e w
                         | (Inr (user, meth), w) \<Rightarrow> verify_accepted E r username user meth w))"

section \<open>Middleware and routes\<close>

text \<open>\<open>Auth\<close>: the claims of a valid bearer token, or the response 401.\<close>

definition Auth_claims :: "auth_env \<Rightarrow> int \<Rightarrow> http_meta \<Rightarrow> response + Claims" where
  "Auth_claims E now r =
     (if \<not> HasPrefix (rq_auth r) ''Bearer '' then Inl (RespondError 401 ''UNAUTHORIZED'')
      else case VerifyToken E now (TrimPrefix (rq_auth r) ''Bearer '') of
          Inl _ \<Rightarrow> Inl (RespondError 401 ''UNAUTHORIZED'') | Inr claims \<Rightarrow> Inr claims)"

definition RequireAdmin :: "Claims \<Rightarrow> response option" where
  "RequireAdmin claims = (if cl_Role claims \<noteq> RoleAdmin then Some (RespondError 403 ''FORBIDDEN'') else None)"

definition RequireSelfOrAdmin :: "string option \<Rightarrow> Claims \<Rightarrow> response option" where
  "RequireSelfOrAdmin target claims =
     (if cl_Role claims = RoleAdmin then None
      else case target of
          None \<Rightarrow> Some (RespondError 403 ''FORBIDDEN'')
        | Some t \<Rightarrow> if t = '''' \<or> cl_UserID claims \<noteq> t then Some (RespondError 403 ''FORBIDDEN'') else None)"

definition changePasswordTarget :: "http_meta \<Rightarrow> string option" where
  "changePasswordTarget r = (if rq_id r = '''' then None else Some (rq_id r))"

text \<open>The requests of \<open>/api/auth\<close>.  \<open>MfaDisableReq\<close> carries, beside the decoded body, what decoding
  only \<open>userId\<close> from the same bytes gives (\<open>mfaDisableTarget\<close>).\<close>

datatype auth_request =
    StatusReq
  | SetupReq "credentials decoded"
  | LoginReq "credentials decoded"
  | RefreshReq
  | MfaVerifyReq "MfaVerifyRequest decoded"
  | MeReq
  | LogoutReq
  | UsersReq
  | CreateUserReq "CreateUserRequest decoded"
  | DeleteUserReq
  | UpdateUserReq "string option decoded"
  | ChangePasswordReq "string decoded"
  | EnrollReq
  | EnrollConfirmReq "string decoded"
  | MfaDisableReq "MfaDisableRequest decoded" "string option"
  | MfaStatusReq

definition guarded ::
    "response option \<Rightarrow> ('w auth_world_scheme \<Rightarrow> response \<times> 'w auth_world_scheme) \<Rightarrow> 'w auth_world_scheme \<Rightarrow>
     (response \<times> 'w auth_world_scheme) option" where
  "guarded g h w = Some (case g of Some resp \<Rightarrow> (resp, w) | None \<Rightarrow> h w)"

definition serve_protected ::
    "auth_env \<Rightarrow> http_meta \<Rightarrow> auth_request \<Rightarrow> Claims \<Rightarrow> 'w auth_world_scheme \<Rightarrow> (response \<times> 'w auth_world_scheme) option" where
  "serve_protected E r q claims w =
     (case q of
        MeReq \<Rightarrow> Some (handle_GetMe claims w)
      | LogoutReq \<Rightarrow> Some (handle_Logout E r w)
      | UsersReq \<Rightarrow> guarded (RequireAdmin claims) handle_GetUsers w
      | CreateUserReq b \<Rightarrow> guarded (RequireAdmin claims) (handle_CreateUser E claims b) w
      | DeleteUserReq \<Rightarrow> guarded (RequireAdmin claims) (handle_DeleteUser claims r) w
      | UpdateUserReq b \<Rightarrow> guarded (RequireAdmin claims) (handle_UpdateUser E claims r b) w
      | ChangePasswordReq b \<Rightarrow> guarded (RequireSelfOrAdmin (changePasswordTarget r) claims) (handle_ChangePassword E claims r b) w
      | EnrollReq \<Rightarrow> Some (handle_Enroll E claims w)
      | EnrollConfirmReq b \<Rightarrow> handle_EnrollConfirm E claims b w
      | MfaDisableReq b target \<Rightarrow> guarded (RequireSelfOrAdmin target claims) (handle_Disable E claims b) w
      | _ \<Rightarrow> Some (handle_MfaStatus claims w))"

definition serve ::
    "auth_env \<Rightarrow> bool \<Rightarrow> http_meta \<Rightarrow> auth_request \<Rightarrow> 'w auth_world_scheme \<Rightarrow> (response \<times> 'w auth_world_scheme) option" where
  "serve E nrcc_tls r q w =
     (case q of
        StatusReq \<Rightarrow> Some (handle_GetStatus w)
      | SetupReq b \<Rightarrow> Some (handle_Setup E nrcc_tls r b w)
      | LoginReq b \<Rightarrow> Some (handle_Login E r b w)
      | RefreshReq \<Rightarrow> Some (handle_Refresh E r w)
      | MfaVerifyReq b \<Rightarrow> Some (handle_Verify E r b w)
      | _ \<Rightarrow> (case Auth_claims E (clock w) r of Inl resp \<Rightarrow> Some (resp, w) | Inr claims \<Rightarrow> serve_protected E r q claims w))"

end
