(* ===== verification/MfaSafety.thy ===== *)
theory MfaSafety
  imports Mfa
begin

text \<open>
  What the second factor guarantees: a challenge is used up by the first attempt to answer it, a
  recovery code by the first time it is accepted, and the codes handed out at enrolment are ten
  different, well-formed ones.
\<close>

section \<open>Frames\<close>

lemma GetUserByID_post:
  "GetUserByID uid (w :: auth_world) = (r, w') \<Longrightarrow> w' = tick w \<and>
     (\<forall>u. r = Some u \<longrightarrow> (\<exists>us. users_file w = Some us \<and> u \<in> set us \<and> u_ID u = uid))"
proof -
  assume a: "GetUserByID uid w = (r, w')"
  obtain q v where q: "js_Read users_file w = (q, v)" by force
  from users.Read_post [OF q] a q show ?thesis
    by (cases q) (auto simp: GetUserByID_def find_Some_iff)
qed

lemma IsEnrolled_post:
  "IsEnrolled uid (w :: auth_world) = (b, w') \<Longrightarrow> w' = tick w \<and>
     (b \<longrightarrow> (\<exists>es row. mfa_file w = Some es \<and> findEnrollment es uid = Some row \<and> \<not> me_Pending row))"
proof -
  assume a: "IsEnrolled uid w = (b, w')"
  obtain q v where q: "js_Read mfa_file w = (q, v)" by force
  from mfa.Read_post [OF q] a q show ?thesis
    by (cases q) (auto simp: IsEnrolled_def split: option.splits)
qed

lemma VerifyTotp_post:
  "VerifyTotp E uid code (w :: auth_world) = (b, w') \<Longrightarrow> w' = tick w \<and>
     (b \<longrightarrow> (\<exists>es row. mfa_file w = Some es \<and> findEnrollment es uid = Some row \<and> \<not> me_Pending row \<and>
        ae_totp E (clock w) code (me_Secret row)))"
proof -
  assume a: "VerifyTotp E uid code w = (b, w')"
  obtain q v where q: "js_Read mfa_file w = (q, v)" by force
  from mfa.Read_post [OF q] a q show ?thesis
    by (cases q) (auto simp: VerifyTotp_def split: option.splits if_splits)
qed

lemma rand_Read_post:
  "rand_Read n w = (r, w') \<Longrightarrow> w' = tick w \<and> (\<forall>bs. r = Inr bs \<longrightarrow> length bs = n)"
  by (auto simp: rand_Read_def dest!: sys_call_tick split: prod.splits sum.splits)

section \<open>Recovery codes are generated well\<close>

lemma lower_hex: "c \<in> set ''0123456789abcdef'' \<Longrightarrow> lower_byte c = c"
  by (auto simp: lower_byte_def)

lemma ToLower_hex: "hex_token n s \<Longrightarrow> ToLower s = s"
  unfolding ToLower_def hex_token_def by (rule map_idI) (use lower_hex in blast)

lemma hex_token_part:
  assumes "hex_token m s" "n + 4 \<le> 2 * m"
  shows "hex_token 2 (take 4 (drop n s))"
  using assms unfolding hex_token_def
  by (intro conjI subset_trans [OF set_take_subset] subset_trans [OF set_drop_subset]) simp_all

lemma hex_token_encode': "hex_token (length bs) (hex_encode bs)"
  unfolding hex_token_def by (rule conjI [OF _ hex_encode_set]) (simp add: hex_encode_length)

lemma recovery_code_eq:
  assumes "length buf = 7"
  defines "h \<equiv> hex_encode buf"
  shows "recovery_code buf = take 4 h @ ''-'' @ take 4 (drop 4 h) @ ''-'' @ take 4 (drop 8 h)"
    and "hex_token 2 (take 4 h)" "hex_token 2 (take 4 (drop 4 h))" "hex_token 2 (take 4 (drop 8 h))"
proof -
  have t: "hex_token 7 h" unfolding h_def using hex_token_encode' [of buf] assms(1) by simp
  show 1: "hex_token 2 (take 4 h)" "hex_token 2 (take 4 (drop 4 h))" "hex_token 2 (take 4 (drop 8 h))"
    using hex_token_part [OF t, of 0] hex_token_part [OF t, of 4] hex_token_part [OF t, of 8] by simp_all
  have "ToLower (a @ ''-'' @ b @ ''-'' @ c) = ToLower a @ ''-'' @ ToLower b @ ''-'' @ ToLower c" for a b c
    by (simp add: ToLower_def lower_byte_def)
  then show "recovery_code buf = take 4 h @ ''-'' @ take 4 (drop 4 h) @ ''-'' @ take 4 (drop 8 h)"
    using 1 [THEN ToLower_hex] unfolding recovery_code_def Let_def MfaRecoveryCodeLength_def h_def by simp
qed

lemma recovery_code_pattern: "length buf = 7 \<Longrightarrow> recoveryCodePattern (recovery_code buf)"
proof -
  assume l: "length buf = 7"
  obtain a b c where e: "recovery_code buf = a @ ''-'' @ b @ ''-'' @ c" "hex_token 2 a" "hex_token 2 b" "hex_token 2 c"
    using recovery_code_eq [OF l] by blast
  moreover have "length a = 4" "length b = 4" "length c = 4" using e by (simp_all add: hex_token_def)
  ultimately show ?thesis unfolding recoveryCodePattern_def e(1) by (simp add: nth_append)
qed

lemma recovery_loop_post:
  assumes "recovery_loop E display hashes w = Some (r, w')"
    and "distinct display" "\<forall>c\<in>set display. recoveryCodePattern c" "length display \<le> MfaRecoveryCodeCount"
    and "length hashes = length display" "\<forall>h\<in>set hashes. rc_UsedAt h = ''''"
  shows "\<forall>codes hs. r = Inr (codes, hs) \<longrightarrow> length codes = MfaRecoveryCodeCount \<and> distinct codes \<and>
     (\<forall>c\<in>set codes. recoveryCodePattern c) \<and> length hs = length codes \<and> (\<forall>h\<in>set hs. rc_UsedAt h = '''')"
  using assms
proof (induction E display hashes w "(r, w')" rule: recovery_loop.raw_induct [rotated, consumes 1])
  case (1 loop E display hashes w)
  show ?case
  proof (cases "length display < MfaRecoveryCodeCount")
    case False
    then show ?thesis using 1(2-) by auto
  next
    case True
    obtain r1 w1 where rd: "rand_Read 7 w = (r1, w1)" by force
    show ?thesis
    proof (cases r1)
      case (Inl e)
      then show ?thesis using 1(2) True rd by (auto simp: MfaRecoveryCodeLength_def)
    next
      case (Inr buf)
      note code = recovery_code_pattern [of buf] rand_Read_post [OF rd]
      show ?thesis
      proof (cases "recovery_code buf \<in> set display")
        case dup: True
        then have "loop E display hashes w1 = Some (r, w')"
          using 1(2) True rd Inr by (simp add: MfaRecoveryCodeLength_def)
        from 1(1) [OF this] 1(3-) show ?thesis by blast
      next
        case new: False
        obtain r2 w2 where hs: "HashPassword E (recovery_code buf) w1 = (r2, w2)" by force
        show ?thesis
        proof (cases r2)
          case (Inl e)
          then show ?thesis using 1(2) True rd Inr new hs by (auto simp: MfaRecoveryCodeLength_def)
        next
          case (Inr h)
          then have "loop E (display @ [recovery_code buf]) (hashes @ [\<lparr>rc_Hash = h, rc_UsedAt = ''''\<rparr>]) w2 = Some (r, w')"
            using 1(2) True rd \<open>r1 = Inr buf\<close> new hs by (simp add: MfaRecoveryCodeLength_def)
          from 1(1) [OF this] 1(3-) new True code \<open>r1 = Inr buf\<close> show ?thesis by (auto simp: Suc_le_eq)
        qed
      qed
    qed
  qed
qed

text \<open>The code the \<open>m\<close>-th system call of a world would deliver.\<close>

definition code_at :: "(nat \<Rightarrow> nat \<Rightarrow> nat) \<Rightarrow> nat \<Rightarrow> string" where
  "code_at en m = recovery_code (map (\<lambda>i. en m i mod 256) [0..<7])"

text \<open>The generator does not get stuck on fewer than ten codes.\<close>

definition varied :: "(nat \<Rightarrow> nat \<Rightarrow> nat) \<Rightarrow> bool" where
  "varied en \<longleftrightarrow> (\<forall>S n. finite S \<longrightarrow> card S < MfaRecoveryCodeCount \<longrightarrow> (\<exists>m\<ge>n. code_at en m \<notin> S))"

lemma recovery_loop_step:
  assumes "faults w = (\<lambda>_. None)" "length display < MfaRecoveryCodeCount"
  shows "recovery_loop E display hashes w =
    (if code_at (entropy w) (calls w) \<in> set display then recovery_loop E display hashes (tick w)
     else case ae_hash E (Suc (calls w)) (code_at (entropy w) (calls w)) of
         Inl e \<Rightarrow> Some (Inl (ErrWrap ''bcrypt'' e), tick (tick w))
       | Inr h \<Rightarrow> recovery_loop E (display @ [code_at (entropy w) (calls w)])
                   (hashes @ [\<lparr>rc_Hash = h, rc_UsedAt = ''''\<rparr>]) (tick (tick w)))"
proof -
  have "rand_Read 7 w = (Inr (map (\<lambda>i. entropy w (calls w) i mod 256) [0..<7]), tick w)"
    using assms(1) by (simp add: rand_Read_def sys_call_def)
  then show ?thesis
    using assms(2) by (subst recovery_loop.simps)
      (simp add: MfaRecoveryCodeLength_def code_at_def [symmetric] HashPassword_def split: sum.split)
qed

lemma recovery_loop_returns:
  assumes "faults (w :: auth_world) = (\<lambda>_. None)" "varied (entropy w)" "\<And>n p. \<exists>h. ae_hash E n p = Inr h"
  shows "\<exists>codes hs w'. recovery_loop E display hashes w = Some (Inr (codes, hs), w') \<and> faults w' = faults w"
  using assms(1,2)
proof (induction "MfaRecoveryCodeCount - length display" arbitrary: display hashes w)
  case 0
  then show ?case by (subst recovery_loop.simps) simp
next
  case (Suc k)
  note outer = Suc.hyps(1) and k = Suc.hyps(2)
  have lt: "length display < MfaRecoveryCodeCount" using k by simp
  have "card (set display) < MfaRecoveryCodeCount" using lt card_length le_less_trans by blast
  then obtain m where m: "calls w \<le> m" "code_at (entropy w) m \<notin> set display"
    using Suc.prems(2) unfolding varied_def by blast
  have "calls v \<le> m \<Longrightarrow> faults v = faults w \<Longrightarrow> entropy v = entropy w \<Longrightarrow>
      \<exists>codes hs w'. recovery_loop E display hashes v = Some (Inr (codes, hs), w') \<and> faults w' = faults w" for v :: auth_world
  proof (induction "m - calls v" arbitrary: v)
    case 0
    then have v: "calls v = m" "faults v = (\<lambda>_. None)" using Suc.prems(1) by simp_all
    obtain h where h: "ae_hash E (Suc m) (code_at (entropy w) m) = Inr h" using assms(3) by blast
    have "k = MfaRecoveryCodeCount - length (display @ [code_at (entropy w) m])" using k by simp
    from outer [OF this, of "tick (tick v)" "hashes @ [\<lparr>rc_Hash = h, rc_UsedAt = ''''\<rparr>]"] show ?case
      using recovery_loop_step [OF v(2) lt, of E hashes] 0 v m(2) h Suc.prems by simp
  next
    case (Suc d)
    obtain h where h: "ae_hash E (Suc (calls v)) (code_at (entropy w) (calls v)) = Inr h" using assms(3) by blast
    have v: "faults v = (\<lambda>_. None)" using Suc \<open>faults w = (\<lambda>_. None)\<close> by simp
    show ?case
    proof (cases "code_at (entropy w) (calls v) \<in> set display")
      case True
      then show ?thesis using Suc.hyps(1) [of "tick v"] Suc.hyps(2) Suc.prems recovery_loop_step [OF v lt, of E hashes] by simp
    next
      case False
      have "k = MfaRecoveryCodeCount - length (display @ [code_at (entropy w) (calls v)])" using k by simp
      from outer [OF this, of "tick (tick v)" "hashes @ [\<lparr>rc_Hash = h, rc_UsedAt = ''''\<rparr>]"]
      show ?thesis
        using recovery_loop_step [OF v lt, of E hashes] False h Suc.prems \<open>varied (entropy w)\<close> v by simp
    qed
  qed
  from this [of w] m(1) show ?case by simp
qed

lemma generateRecoveryCodes_post:
  "generateRecoveryCodes E w = Some (Inr (codes, hs), w') \<Longrightarrow> length codes = MfaRecoveryCodeCount \<and> distinct codes \<and>
     (\<forall>c\<in>set codes. recoveryCodePattern c) \<and> length hs = length codes \<and> unused_codes hs = MfaRecoveryCodeCount"
  using recovery_loop_post [of E "[]" "[]" w "Inr (codes, hs)" w']
  by (simp add: generateRecoveryCodes_def unused_codes_def)

section \<open>Challenges are used once\<close>

text \<open>No challenge is marked as used: the code never sets the mark.\<close>

definition fresh_table :: "(string \<rightharpoonup> pendingMfa) \<Rightarrow> bool" where
  "fresh_table tab \<longleftrightarrow> (\<forall>t p. tab t = Some p \<longrightarrow> \<not> pm_used p)"

lemma fresh_table_del [simp]: "fresh_table tab \<Longrightarrow> fresh_table (tab(t := None))"
  by (simp add: fresh_table_def)

lemma fresh_table_upd [simp]: "fresh_table tab \<Longrightarrow> \<not> pm_used p \<Longrightarrow> fresh_table (tab(t \<mapsto> p))"
  by (simp add: fresh_table_def)

lemma mfa_Update_frame:
  "mfa_Update fn (w :: auth_world) = (r, w') \<Longrightarrow> pendingTokens w' = pendingTokens w \<and> users_file w' = users_file w \<and>
     sessions_file w' = sessions_file w \<and> clock w' = clock w"
  using mfa.Update_post [of "[]" fn w r w'] by simp

lemma ConsumeRecoveryCode_Update:
  "ConsumeRecoveryCode E uid code (w :: auth_world) = (r, w') \<Longrightarrow>
   \<exists>q. mfa_Update (\<lambda>es. with_unit (on_row uid (Sentinel ErrMfaNotEnrolled)
             (consume_row E (normalizeRecoveryCode code) (NowISO8601 E w)) es)) w = (q, w') \<and> (r = Inr True \<longleftrightarrow> q = Inr ())"
  by (auto simp: ConsumeRecoveryCode_def split: prod.splits sum.splits if_splits)

lemma verifyCodeForUser_frame:
  assumes "verifyCodeForUser E uid code (w :: auth_world) = (r, w')"
  shows "pendingTokens w' = pendingTokens w \<and> users_file w' = users_file w \<and> sessions_file w' = sessions_file w \<and> clock w' = clock w"
proof (cases "recoveryCodePattern code")
  case True
  obtain q v where c: "ConsumeRecoveryCode E uid code w = (q, v)" by force
  then have "w' = v" using assms True by (cases q) (auto simp: verifyCodeForUser_def split: if_splits)
  moreover obtain q' where "mfa_Update (\<lambda>es. with_unit (on_row uid (Sentinel ErrMfaNotEnrolled)
             (consume_row E (normalizeRecoveryCode code) (NowISO8601 E w)) es)) w = (q', v)"
    using ConsumeRecoveryCode_Update [OF c] by blast
  from mfa_Update_frame [OF this] calculation show ?thesis by simp
next
  case False
  obtain b v where t: "VerifyTotp E uid code w = (b, v)" by force
  then have "w' = w \<or> w' = tick w"
    using assms False VerifyTotp_post [OF t] by (auto simp: verifyCodeForUser_def split: if_splits)
  then show ?thesis by auto
qed

lemma VerifyAndIssueSession_pending:
  assumes "VerifyAndIssueSession E tok code (w :: auth_world) = (r, w')" "fresh_table (pendingTokens w)"
  shows "pendingTokens w' = (pendingTokens w)(tok := None)"
proof (cases "pendingTokens w tok")
  case None
  then show ?thesis using assms by (auto simp: VerifyAndIssueSession_def)
next
  case (Some p)
  define v where "v = w\<lparr>pendingTokens := (pendingTokens w)(tok := None)\<rparr>"
  have u: "\<not> pm_used p" using assms(2) Some by (simp add: fresh_table_def)
  obtain g v1 where g: "GetUserByID (pm_userID p) v = (g, v1)" by force
  obtain q v2 where q: "verifyCodeForUser E (pm_userID p) (TrimSpace code) v1 = (q, v2)" by force
  have "w' \<in> {v, v1, v2}"
    using assms(1) Some u g q by (cases g; cases q) (auto simp: VerifyAndIssueSession_def v_def [symmetric] split: if_splits)
  moreover have "pendingTokens v1 = pendingTokens v" using GetUserByID_post [OF g] by simp
  moreover have "pendingTokens v2 = pendingTokens v1" using verifyCodeForUser_frame [OF q] by simp
  ultimately show ?thesis by (auto simp: v_def)
qed

lemma IssueMfaToken_post:
  assumes "IssueMfaToken uid (w :: auth_world) = (r, w')"
  shows "case r of
      Inl _ \<Rightarrow> pendingTokens w' = pendingTokens w
    | Inr tok \<Rightarrow> \<exists>u us. users_file w = Some us \<and> u \<in> set us \<and> u_ID u = uid \<and>
        pendingTokens w' = (pendingTokens w)(tok \<mapsto>
          \<lparr>pm_userID = uid, pm_username = u_Username u, pm_expiresAt = clock w + MfaTokenTTL, pm_used = False\<rparr>)"
    and "users_file w' = users_file w \<and> sessions_file w' = sessions_file w \<and> mfa_file w' = mfa_file w \<and> clock w' = clock w"
proof -
  obtain g v1 where g: "GetUserByID uid w = (g, v1)" by force
  note g' = GetUserByID_post [OF g]
  obtain q v2 where q: "rand_Read 32 v1 = (q, v2)" by force
  note q' = rand_Read_post [OF q]
  show "case r of
      Inl _ \<Rightarrow> pendingTokens w' = pendingTokens w
    | Inr tok \<Rightarrow> \<exists>u us. users_file w = Some us \<and> u \<in> set us \<and> u_ID u = uid \<and>
        pendingTokens w' = (pendingTokens w)(tok \<mapsto>
          \<lparr>pm_userID = uid, pm_username = u_Username u, pm_expiresAt = clock w + MfaTokenTTL, pm_used = False\<rparr>)"
    using assms g g' q q' by (cases g; cases q) (auto simp: IssueMfaToken_def)
  show "users_file w' = users_file w \<and> sessions_file w' = sessions_file w \<and> mfa_file w' = mfa_file w \<and> clock w' = clock w"
    using assms g g' q q' by (cases g; cases q) (auto simp: IssueMfaToken_def)
qed

text \<open>What may happen to the challenge table once the challenge \<open>tok\<close> is gone: challenges with other
  tokens, answers, and everything that leaves the table alone.\<close>

inductive challenge_steps :: "auth_env \<Rightarrow> string \<Rightarrow> auth_world \<Rightarrow> auth_world \<Rightarrow> bool" for E tok where
  stay: "challenge_steps E tok w w"
| issue: "challenge_steps E tok w v \<Longrightarrow> IssueMfaToken uid v = (r, v') \<Longrightarrow> r \<noteq> Inr tok \<Longrightarrow> challenge_steps E tok w v'"
| verify: "challenge_steps E tok w v \<Longrightarrow> VerifyAndIssueSession E t code v = (r, v') \<Longrightarrow> challenge_steps E tok w v'"
| other: "challenge_steps E tok w v \<Longrightarrow> pendingTokens v' = pendingTokens v \<Longrightarrow> challenge_steps E tok w v'"

lemma challenge_steps_gone:
  "challenge_steps E tok w v \<Longrightarrow> pendingTokens w tok = None \<Longrightarrow> fresh_table (pendingTokens w) \<Longrightarrow>
   pendingTokens v tok = None \<and> fresh_table (pendingTokens v)"
proof (induction rule: challenge_steps.induct)
  case (issue w v uid r v')
  then show ?case using IssueMfaToken_post(1) [OF issue(2)] by (cases r) (auto simp: fresh_table_def split: if_splits)
next
  case (verify w v t code r v')
  then show ?case using VerifyAndIssueSession_pending [OF verify(2)] by (auto simp: fresh_table_def split: if_splits)
qed auto

text \<open>C16. A login challenge can be answered once: whatever the answer was, later answers to the same
  challenge are refused, whatever happens in between, as long as the generator does not repeat the
  token.\<close>

theorem challenge_single_use:
  assumes "fresh_table (pendingTokens w)" "VerifyAndIssueSession E tok code w = (r, w')"
    and "challenge_steps E tok w' v"
  shows "VerifyAndIssueSession E tok code' v = (Inl (Sentinel ErrMfaTokenInvalid), v)"
proof -
  have "pendingTokens w' = (pendingTokens w)(tok := None)" using VerifyAndIssueSession_pending [OF assms(2,1)] .
  then have "pendingTokens v tok = None"
    using challenge_steps_gone [OF assms(3)] assms(1) by simp
  then show ?thesis by (simp add: VerifyAndIssueSession_def)
qed

definition sample_challenge :: auth_world where
  "sample_challenge = sample_auth\<lparr>users_file := Some [sample_user],
     pendingTokens := [''T'' \<mapsto> \<lparr>pm_userID = ''u1'', pm_username = ''ada'', pm_expiresAt = 5, pm_used = False\<rparr>]\<rparr>"

theorem challenge_single_use_witness:
  "fst (VerifyAndIssueSession sample_auth_env ''T'' ''000000''
     (snd (VerifyAndIssueSession sample_auth_env ''T'' ''123456'' sample_challenge))) = Inl (Sentinel ErrMfaTokenInvalid)"
proof -
  have f: "fresh_table (pendingTokens sample_challenge)" by (simp add: fresh_table_def sample_challenge_def)
  show ?thesis
    using challenge_single_use [OF f prod.collapse [symmetric] challenge_steps.stay, of sample_auth_env "''T''" "''000000''" "''123456''"]
    by simp
qed

section \<open>Recovery codes are used once\<close>

text \<open>The entry the code belongs to is the first one that matches, and it has been used.\<close>

definition spent :: "auth_env \<Rightarrow> string \<Rightarrow> RecoveryCode list \<Rightarrow> bool" where
  "spent E code cs \<longleftrightarrow> (case find (\<lambda>c. ae_compare E (rc_Hash c) code) cs of None \<Rightarrow> False | Some c \<Rightarrow> rc_UsedAt c \<noteq> '''')"

lemma spent_Cons [simp]:
  "spent E code (c # cs) \<longleftrightarrow> (if ae_compare E (rc_Hash c) code then rc_UsedAt c \<noteq> '''' else spent E code cs)"
  by (simp add: spent_def)

lemma use_code_spent: "spent E code cs \<Longrightarrow> use_code E code now cs = Inl (Sentinel ErrMfaRecoveryCodeUsed)"
  by (induction cs) (auto simp: spent_def split: if_splits)

lemma use_code_spends:
  "use_code E code now cs = Inr cs' \<Longrightarrow> now \<noteq> '''' \<Longrightarrow> spent E code cs' \<and> unused_codes cs = Suc (unused_codes cs')"
  by (induction cs arbitrary: cs') (auto simp: unused_codes_def split: if_splits sum.splits)

lemma use_code_keeps: "use_code E code' now cs = Inr cs' \<Longrightarrow> now \<noteq> '''' \<Longrightarrow> spent E code cs \<Longrightarrow> spent E code cs'"
  by (induction cs arbitrary: cs') (auto split: if_splits sum.splits)

text \<open>A committed enrolment in which the code is spent.\<close>

definition spent_row :: "auth_env \<Rightarrow> string \<Rightarrow> string \<Rightarrow> MfaEnrollment list \<Rightarrow> bool" where
  "spent_row E uid code es \<longleftrightarrow> (case findEnrollment es uid of
     None \<Rightarrow> False | Some row \<Rightarrow> \<not> me_Pending row \<and> spent E code (me_RecoveryCodes row))"

lemma spent_row_Cons [simp]:
  "spent_row E uid code (e # es) \<longleftrightarrow>
     (if me_UserID e = uid then \<not> me_Pending e \<and> spent E code (me_RecoveryCodes e) else spent_row E uid code es)"
  by (simp add: spent_row_def findEnrollment_def)

lemma on_row_spent:
  assumes "on_row u m f es = Inr es'"
    and "\<And>e e'. f e = Inr e' \<Longrightarrow> me_UserID e' = me_UserID e \<and>
      (\<not> me_Pending e \<and> spent E code (me_RecoveryCodes e) \<longrightarrow> \<not> me_Pending e' \<and> spent E code (me_RecoveryCodes e'))"
  shows "spent_row E uid code es \<Longrightarrow> spent_row E uid code es'"
  using assms(1)
proof (induction es arbitrary: es')
  case (Cons e es)
  show ?case
  proof (cases "me_UserID e = u")
    case True
    then obtain e' where "f e = Inr e'" "es' = e' # es" using Cons.prems(2) by (auto split: sum.splits)
    then show ?thesis using assms(2) [of e e'] Cons.prems(1) by (auto split: if_splits)
  next
    case False
    then obtain es1 where "on_row u m f es = Inr es1" "es' = e # es1" using Cons.prems(2) by (auto split: sum.splits)
    then show ?thesis using Cons.IH [of es1] Cons.prems(1) by (auto split: if_splits)
  qed
qed simp

lemma begin_spent: "begin_enrollment c es = Inr (es', x) \<Longrightarrow> spent_row E uid code es \<Longrightarrow> spent_row E uid code es'"
proof -
  assume b: "begin_enrollment c es = Inr (es', x)" and s: "spent_row E uid code es"
  have n: "find (\<lambda>e. me_UserID e = me_UserID c) es = None"
    using b by (auto simp: begin_enrollment_def hasActiveEnrollment_def findEnrollment_def split: if_splits)
  then have "index_of (\<lambda>e. me_UserID e = me_UserID c) es = None" by (simp add: find_None_iff index_of_None)
  then have "es' = es @ [c]" using b by (auto simp: begin_enrollment_def split: if_splits)
  moreover have "find P (xs @ ys) = (case find P xs of None \<Rightarrow> find P ys | Some x \<Rightarrow> Some x)" for P :: "MfaEnrollment \<Rightarrow> bool" and xs ys
    by (induction xs) auto
  ultimately show ?thesis using s by (auto simp: spent_row_def findEnrollment_def split: option.splits)
qed

lemma disable_spent:
  "disable_enrollment t es = Inr (es', x) \<Longrightarrow> t \<noteq> uid \<Longrightarrow> spent_row E uid code es \<Longrightarrow> spent_row E uid code es'"
proof (induction es arbitrary: es')
  case (Cons e es)
  show ?case
  proof (cases "me_UserID e = t")
    case True
    then show ?thesis using Cons.prems by (auto simp: disable_enrollment_def)
  next
    case False
    then obtain i where i: "index_of (\<lambda>e. me_UserID e = t) es = Some i" "es' = e # take i es @ drop (Suc i) es"
      using Cons.prems(1) by (auto simp: disable_enrollment_def split: option.splits)
    then have "disable_enrollment t es = Inr (take i es @ drop (Suc i) es, ())" by (simp add: disable_enrollment_def)
    then show ?thesis using Cons.IH [of "take i es @ drop (Suc i) es"] Cons.prems(2,3) i(2) by auto
  qed
qed (simp add: spent_row_def findEnrollment_def)

definition spent_file :: "auth_env \<Rightarrow> string \<Rightarrow> string \<Rightarrow> auth_world \<Rightarrow> bool" where
  "spent_file E uid code w \<longleftrightarrow> (\<exists>es. mfa_file w = Some es \<and> spent_row E uid code es)"

lemma mfa_Update_spent:
  assumes "mfa_Update fn (w :: auth_world) = (r, w')" "spent_file E uid code w"
    and "\<And>es es' x. fn es = Inr (es', x) \<Longrightarrow> spent_row E uid code es \<Longrightarrow> spent_row E uid code es'"
  shows "spent_file E uid code w'"
  using mfa.Update_post [OF assms(1)] assms(2,3) by (auto simp: spent_file_def split: sum.splits)

text \<open>The operations on the enrolments, except disabling the second factor of the user \<open>uid\<close>.\<close>

inductive mfa_steps :: "auth_env \<Rightarrow> string \<Rightarrow> auth_world \<Rightarrow> auth_world \<Rightarrow> bool" for E uid where
  stay: "mfa_steps E uid w w"
| enrol: "mfa_steps E uid w v \<Longrightarrow> BeginEnrollment E u v = (r, v') \<Longrightarrow> mfa_steps E uid w v'"
| confirm: "mfa_steps E uid w v \<Longrightarrow> ConfirmEnrollment E u code v = Some (r, v') \<Longrightarrow> mfa_steps E uid w v'"
| disable: "mfa_steps E uid w v \<Longrightarrow> t \<noteq> uid \<Longrightarrow> Disable E a t pw adm v = (r, v') \<Longrightarrow> mfa_steps E uid w v'"
| consume: "mfa_steps E uid w v \<Longrightarrow> ConsumeRecoveryCode E u code v = (r, v') \<Longrightarrow> mfa_steps E uid w v'"
| other: "mfa_steps E uid w v \<Longrightarrow> mfa_file v' = mfa_file v \<Longrightarrow> mfa_steps E uid w v'"

lemma spent_file_eq: "mfa_file w' = mfa_file w \<Longrightarrow> spent_file E uid code w' = spent_file E uid code w"
  by (simp add: spent_file_def)

lemma BeginEnrollment_spent:
  assumes "BeginEnrollment E u w = (r, w')" "spent_file E uid code w"
  shows "spent_file E uid code w'"
proof -
  obtain g v where g: "GetUserByID u w = (g, v)" by force
  have v: "spent_file E uid code v" "spent_file E uid code (tick v)"
    using GetUserByID_post [OF g] assms(2) by (simp_all add: spent_file_def)
  have "w' = v \<or> w' = tick v \<or> (\<exists>c q. mfa_Update (begin_enrollment c) (tick v) = (q, w'))"
    using assms(1) g
    by (cases g; cases "ae_totp_key E (calls v) (accountNameFor u)") (auto simp: BeginEnrollment_def Let_def split: prod.splits sum.splits if_splits)
  then show ?thesis using v mfa_Update_spent [where w = "tick v"] begin_spent by metis
qed

lemma Disable_spent:
  assumes "Disable E a t pw adm w = (r, w')" "t \<noteq> uid" "spent_file E uid code w"
  shows "spent_file E uid code w'"
proof -
  obtain g v where g: "GetUserByID a w = (g, v)" by force
  have v: "spent_file E uid code v" using GetUserByID_post [OF g] assms(3) by (simp add: spent_file_def)
  have "w' = v \<or> (\<exists>q. mfa_Update (disable_enrollment t) v = (q, w'))"
    using assms(1) g by (cases g) (auto simp: Disable_def split: prod.splits sum.splits if_splits)
  then show ?thesis using v mfa_Update_spent [where w = v] disable_spent [OF _ assms(2)] by metis
qed

lemma recovery_loop_file:
  assumes "recovery_loop E display hashes w = Some (r, w')"
  shows "mfa_file w' = mfa_file w \<and> clock w' = clock w"
  using assms
proof (induction E display hashes w "(r, w')" rule: recovery_loop.raw_induct [rotated, consumes 1])
  case (1 loop E display hashes w)
  obtain r1 w1 where rd: "rand_Read (MfaRecoveryCodeLength * 3 div 2 + 1) w = (r1, w1)" by force
  have w1: "mfa_file w1 = mfa_file w" "clock w1 = clock w" using rand_Read_post [OF rd] by auto
  show ?case
    using 1(2) rd w1 1(1) [of E display hashes w1] 1(1) [of E _ _ "tick w1"]
    by (auto simp: HashPassword_def split: if_splits sum.splits)
qed

lemma with_unit_Inr: "with_unit r = Inr (x, u) \<longleftrightarrow> r = Inr x"
  by (cases r) (auto simp: with_unit_def)

lemma confirm_row_spent:
  "confirm_row E t code' now hs e = Inr e' \<Longrightarrow> me_UserID e' = me_UserID e \<and>
     (\<not> me_Pending e \<and> spent E code (me_RecoveryCodes e) \<longrightarrow> \<not> me_Pending e' \<and> spent E code (me_RecoveryCodes e'))"
  by (auto simp: confirm_row_def split: if_splits)

lemma consume_row_spent:
  "consume_row E code' now e = Inr e' \<Longrightarrow> now \<noteq> '''' \<Longrightarrow> me_UserID e' = me_UserID e \<and>
     (\<not> me_Pending e \<and> spent E code (me_RecoveryCodes e) \<longrightarrow> \<not> me_Pending e' \<and> spent E code (me_RecoveryCodes e'))"
  by (auto simp: consume_row_def use_code_keeps split: sum.splits)

lemma ConfirmEnrollment_spent:
  assumes "ConfirmEnrollment E u code' w = Some (r, w')" "spent_file E uid code w"
  shows "spent_file E uid code w'"
proof -
  have "w' = w \<or> (\<exists>q v. generateRecoveryCodes E w = Some (q, v) \<and> (w' = v \<or>
      (\<exists>hs p. mfa_Update (\<lambda>es. with_unit (on_row u (Sentinel ErrMfaPendingMissing)
                       (confirm_row E (clock v) code' (NowISO8601 E v) hs) es)) v = (p, w'))))"
    using assms(1) by (auto simp: ConfirmEnrollment_def split: if_splits option.splits sum.splits prod.splits)
  then consider "w' = w" | q v where "generateRecoveryCodes E w = Some (q, v)" "w' = v"
    | q v hs p where "generateRecoveryCodes E w = Some (q, v)" "mfa_Update (\<lambda>es. with_unit (on_row u (Sentinel ErrMfaPendingMissing)
                       (confirm_row E (clock v) code' (NowISO8601 E v) hs) es)) v = (p, w')"
    by blast
  then show ?thesis
  proof cases
    case 1
    then show ?thesis using assms(2) by simp
  next
    case 2
    then show ?thesis using assms(2) recovery_loop_file spent_file_eq by (metis generateRecoveryCodes_def)
  next
    case 3
    have "spent_file E uid code v" using 3(1) assms(2) recovery_loop_file spent_file_eq by (metis generateRecoveryCodes_def)
    from mfa_Update_spent [OF 3(2) this] show ?thesis
      by (simp add: with_unit_Inr) (use on_row_spent confirm_row_spent in blast)
  qed
qed

lemma ConsumeRecoveryCode_spent:
  assumes "ConsumeRecoveryCode E u code' w = (r, w')" "spent_file E uid code w" "\<And>t. ae_iso E t \<noteq> ''''"
  shows "spent_file E uid code w'"
proof -
  obtain q where "mfa_Update (\<lambda>es. with_unit (on_row u (Sentinel ErrMfaNotEnrolled)
             (consume_row E (normalizeRecoveryCode code') (NowISO8601 E w)) es)) w = (q, w')"
    using ConsumeRecoveryCode_Update [OF assms(1)] by blast
  from mfa_Update_spent [OF this assms(2)] show ?thesis
    by (simp add: with_unit_Inr) (use on_row_spent consume_row_spent assms(3) in \<open>simp add: NowISO8601_def, blast\<close>)
qed

lemma mfa_steps_spent:
  "mfa_steps E uid w v \<Longrightarrow> (\<And>t. ae_iso E t \<noteq> '''') \<Longrightarrow> spent_file E uid code w \<Longrightarrow> spent_file E uid code v"
proof (induction rule: mfa_steps.induct)
  case (other w v v')
  then show ?case using spent_file_eq by blast
qed (blast intro: BeginEnrollment_spent Disable_spent ConfirmEnrollment_spent ConsumeRecoveryCode_spent)+

lemma ConsumeRecoveryCode_rejected:
  assumes "spent_file E uid (normalizeRecoveryCode code) w"
  shows "\<exists>e. fst (ConsumeRecoveryCode E uid code w) = Inl e"
proof -
  let ?f = "consume_row E (normalizeRecoveryCode code) (NowISO8601 E w)"
  obtain es where es: "mfa_file w = Some es" "spent_row E uid (normalizeRecoveryCode code) es"
    using assms by (auto simp: spent_file_def)
  have on: "on_row uid (Sentinel ErrMfaNotEnrolled) ?f es = Inl (Sentinel ErrMfaRecoveryCodeUsed)"
    using es(2) by (induction es) (auto simp: spent_row_def findEnrollment_def consume_row_def use_code_spent split: if_splits)
  obtain r w' where u: "mfa_Update (\<lambda>es. with_unit (on_row uid (Sentinel ErrMfaNotEnrolled) ?f es)) w = (r, w')" by force
  obtain q v where rd: "js_Read mfa_file w = (q, v)" by force
  have "r = Inl (Sentinel ErrMfaRecoveryCodeUsed) \<or> (\<exists>e. r = Inl e \<and> q = Inl e \<and> \<not> errors_is e ErrNotExist)"
    using u rd mfa.Read_post [OF rd] es(1) on by (cases q) (auto simp: js_Update_def with_unit_def split: if_splits)
  then show ?thesis
    using u rd mfa.Read_post [OF rd] es(1)
    by (auto simp: ConsumeRecoveryCode_def js_Read_def sys_call_def split: option.splits)
qed

text \<open>C15. Accepting a recovery code uses up exactly one code, and the same code is not accepted again:
  not after any sequence of enrolment operations, unless the user's second factor is disabled in
  between.  The formatted time is never empty.\<close>

theorem recovery_code_single_use:
  assumes "ConsumeRecoveryCode E uid code w = (Inr True, w')" "\<And>t. ae_iso E t \<noteq> ''''"
    and "mfa_file w = Some es" "findEnrollment es uid = Some row" "\<not> me_Pending row"
    and "mfa_steps E uid w' v" "normalizeRecoveryCode code' = normalizeRecoveryCode code"
  shows "(\<exists>es' row'. mfa_file w' = Some es' \<and> findEnrollment es' uid = Some row' \<and>
      unused_codes (me_RecoveryCodes row) = Suc (unused_codes (me_RecoveryCodes row'))) \<and>
    (\<exists>e. fst (ConsumeRecoveryCode E uid code' v) = Inl e)"
proof -
  let ?f = "consume_row E (normalizeRecoveryCode code) (NowISO8601 E w)"
  have "mfa_Update (\<lambda>es. with_unit (on_row uid (Sentinel ErrMfaNotEnrolled) ?f es)) w = (Inr (), w')"
    using ConsumeRecoveryCode_Update [OF assms(1)] by auto
  from mfa.Update_post [OF this] assms(3) obtain es' where
    es': "mfa_file w' = Some es'" "on_row uid (Sentinel ErrMfaNotEnrolled) ?f es = Inr es'" by (auto simp: with_unit_Inr)
  have "on_row uid m ?f xs = Inr ys \<Longrightarrow> findEnrollment xs uid = Some row \<Longrightarrow>
      \<exists>row'. ?f row = Inr row' \<and> findEnrollment ys uid = Some row'" for m xs ys
    by (induction xs arbitrary: ys)
      (auto simp: findEnrollment_def consume_row_def split: if_splits sum.splits)
  from this [OF es'(2) assms(4)] obtain row' where row': "?f row = Inr row'" "findEnrollment es' uid = Some row'" by blast
  then obtain cs where cs: "use_code E (normalizeRecoveryCode code) (NowISO8601 E w) (me_RecoveryCodes row) = Inr cs"
    "row' = row\<lparr>me_RecoveryCodes := cs\<rparr>" by (auto simp: consume_row_def split: sum.splits)
  have sp: "spent E (normalizeRecoveryCode code) cs" "unused_codes (me_RecoveryCodes row) = Suc (unused_codes cs)"
    using use_code_spends [OF cs(1)] assms(2) by (auto simp: NowISO8601_def)
  have "\<exists>es' row'. mfa_file w' = Some es' \<and> findEnrollment es' uid = Some row' \<and>
      unused_codes (me_RecoveryCodes row) = Suc (unused_codes (me_RecoveryCodes row'))"
    using es'(1) row'(2) cs(2) sp(2) by auto
  moreover have "spent_file E uid (normalizeRecoveryCode code) w'"
    using es'(1) row'(2) cs(2) sp(1) assms(5) by (auto simp: spent_file_def spent_row_def)
  then have "spent_file E uid (normalizeRecoveryCode code) v" by (rule mfa_steps_spent [OF assms(6,2)])
  ultimately show ?thesis using ConsumeRecoveryCode_rejected [of E uid code' v] assms(7) by simp
qed

definition sample_row :: MfaEnrollment where
  "sample_row = \<lparr>me_UserID = ''u1'', me_Secret = ''123456'', me_EnrolledAt = ''t'', me_UpdatedAt = ''t'', me_Pending = False,
     me_RecoveryCodes = [\<lparr>rc_Hash = ''ha'', rc_UsedAt = ''''\<rparr>, \<lparr>rc_Hash = ''hb'', rc_UsedAt = ''''\<rparr>]\<rparr>"

definition sample_mfa :: auth_world where
  "sample_mfa = sample_auth\<lparr>users_file := Some [sample_user], mfa_file := Some [sample_row]\<rparr>"

lemma normalize_b: "normalizeRecoveryCode ''b'' = ''b''"
  by code_simp

theorem recovery_code_single_use_witness:
  "fst (ConsumeRecoveryCode sample_auth_env ''u1'' ''b'' sample_mfa) = Inr True \<and>
   (\<exists>e. fst (ConsumeRecoveryCode sample_auth_env ''u1'' ''b''
     (snd (ConsumeRecoveryCode sample_auth_env ''u1'' ''b'' sample_mfa))) = Inl e)"
proof
  let ?w = "snd (ConsumeRecoveryCode sample_auth_env ''u1'' ''b'' sample_mfa)"
  show ok: "fst (ConsumeRecoveryCode sample_auth_env ''u1'' ''b'' sample_mfa) = Inr True"
    by (simp add: ConsumeRecoveryCode_def normalize_b js_Update_def js_Read_def js_Write_def sys_call_def with_unit_def consume_row_def
        sample_mfa_def sample_auth_def sample_row_def sample_auth_env_def tick_def put_mfa_def NowISO8601_def)
  have c: "ConsumeRecoveryCode sample_auth_env ''u1'' ''b'' sample_mfa = (Inr True, ?w)" using ok by (simp add: prod_eq_iff)
  show "\<exists>e. fst (ConsumeRecoveryCode sample_auth_env ''u1'' ''b'' ?w) = Inl e"
    by (rule recovery_code_single_use [OF c _ _ _ _ mfa_steps.stay, of "[sample_row]" sample_row, THEN conjunct2])
      (simp_all add: sample_auth_env_def sample_mfa_def sample_row_def findEnrollment_def)
qed

text \<open>An enrolment that was begun and never confirmed blocks the user's enrolment: another begin
  is refused and leaves the pending secret in place.\<close>

theorem pending_enrolment_blocks:
  assumes "mfa_file (w :: auth_world) = Some es" "findEnrollment es uid = Some row" "me_Pending row"
    and "BeginEnrollment E uid w = (r, w')"
  shows "(\<exists>e. r = Inl e) \<and> mfa_file w' = Some es"
proof -
  obtain g v where g: "GetUserByID uid w = (g, v)" by force
  note v = GetUserByID_post [OF g]
  have blocked: "begin_enrollment c es = Inl (Sentinel ErrMfaAlreadyEnrolled)" if "me_UserID c = uid" for c
    using assms(2) that by (simp add: begin_enrollment_def hasActiveEnrollment_def)
  have upd: "(\<exists>e. q = Inl e) \<and> mfa_file v' = Some es"
    if "mfa_Update (begin_enrollment c) (tick v) = (q, v')" "me_UserID c = uid" for c q v'
    using mfa.Update_post [OF that(1)] v assms(1) blocked [OF that(2)] by (cases q) auto
  show ?thesis
  proof (cases g)
    case None
    then show ?thesis using assms(1,4) g v by (auto simp: BeginEnrollment_def)
  next
    case (Some u)
    show ?thesis
    proof (cases "ae_totp_key E (calls v) (accountNameFor uid)")
      case (Inl e)
      then show ?thesis using assms(1,4) g v Some by (auto simp: BeginEnrollment_def)
    next
      case (Inr key)
      define c where "c = \<lparr>me_UserID = uid, me_Secret = fst key, me_EnrolledAt = '''',
        me_UpdatedAt = NowISO8601 E (tick v), me_Pending = True, me_RecoveryCodes = []\<rparr>"
      obtain q v' where q: "mfa_Update (begin_enrollment c) (tick v) = (q, v')" by force
      have "w' = v'" "(\<exists>e. q = Inl e) \<Longrightarrow> \<exists>e. r = Inl e"
        using assms(4) g Some Inr q by (cases key; cases q; auto simp: BeginEnrollment_def c_def Let_def split: if_splits)+
      then show ?thesis using upd [OF q] by (simp add: c_def)
    qed
  qed
qed

definition sample_pending :: auth_world where
  "sample_pending = sample_auth\<lparr>users_file := Some [sample_user], mfa_file := Some [sample_row\<lparr>me_Pending := True\<rparr>]\<rparr>"

theorem pending_enrolment_blocks_witness:
  "(\<exists>e. fst (BeginEnrollment sample_auth_env ''u1'' sample_pending) = Inl e) \<and>
   mfa_file (snd (BeginEnrollment sample_auth_env ''u1'' sample_pending)) = Some [sample_row\<lparr>me_Pending := True\<rparr>]"
  by (rule pending_enrolment_blocks [of sample_pending _ "''u1''" "sample_row\<lparr>me_Pending := True\<rparr>", OF _ _ _ prod.collapse [symmetric]])
    (simp_all add: sample_pending_def findEnrollment_def sample_row_def)

text \<open>C20. The generation of recovery codes ends as soon as the generator is not stuck on fewer than ten
  codes and nothing fails, and it hands out ten different codes of the documented shape, all
  unused.\<close>

theorem recovery_codes_generated:
  assumes "faults (w :: auth_world) = (\<lambda>_. None)" "varied (entropy w)" "\<And>n p. \<exists>h. ae_hash E n p = Inr h"
  shows "\<exists>codes hs w'. generateRecoveryCodes E w = Some (Inr (codes, hs), w') \<and> length codes = 10 \<and> distinct codes \<and>
     (\<forall>c\<in>set codes. recoveryCodePattern c) \<and> length hs = 10 \<and> unused_codes hs = 10"
proof -
  obtain codes hs w' where "generateRecoveryCodes E w = Some (Inr (codes, hs), w')"
    using recovery_loop_returns [OF assms, of "[]" "[]"] unfolding generateRecoveryCodes_def by blast
  then show ?thesis using generateRecoveryCodes_post [of E w codes hs w'] by (simp add: MfaRecoveryCodeCount_def)
qed

lemma hd_code_at: "hd (code_at en m) = hex_digit (en m 0 mod 256 div 16)"
proof -
  let ?b = "map (\<lambda>i. en m i mod 256) [0..<7]"
  have "hd (hex_encode ?b) = hex_digit (en m 0 mod 256 div 16)" "hex_encode ?b \<noteq> []"
    by (simp_all add: hex_encode_def upt_conv_Cons)
  then show ?thesis unfolding code_at_def by (subst recovery_code_eq(1)) (auto simp: hd_append)
qed

lemma hex_digit_inj: "a < 16 \<Longrightarrow> b < 16 \<Longrightarrow> hex_digit a = hex_digit b \<Longrightarrow> a = b"
  unfolding hex_digit_def by (subst (asm) nth_eq_iff_index_eq) simp_all

lemma sample_varied: "varied (entropy sample_auth)"
  unfolding varied_def
proof (intro allI impI)
  fix S :: "string set" and n :: nat
  assume S: "finite S" "card S < MfaRecoveryCodeCount"
  let ?c = "code_at (entropy sample_auth)"
  have "inj_on ?c {n..<n + 10}"
  proof (rule inj_onI)
    fix a b assume ab: "a \<in> {n..<n + 10}" "b \<in> {n..<n + 10}" "?c a = ?c b"
    have "hd (?c m) = hex_digit (m mod 16)" for m
      unfolding hd_code_at by (simp add: sample_auth_def mult_mod_right [of 16 m 16, simplified, symmetric])
    then have "a mod 16 = b mod 16" using ab(3) hex_digit_inj [of "a mod 16" "b mod 16"] by (metis mod_less_divisor zero_less_numeral)
    note eq = this
    have le: "x = y" if "x mod 16 = y mod 16" "x \<le> y" "y - x < 16" for x y :: nat
      using that mod_eq_dvd_iff_nat [of x y 16] dvd_imp_le [of 16 "y - x"] by fastforce
    have d: "b - a < 16" "a - b < 16" using ab(1,2) by auto
    show "a = b"
    proof (cases "a \<le> b")
      case True
      show ?thesis by (rule le [OF eq True d(1)])
    next
      case False
      show ?thesis by (rule le [OF eq [symmetric] _ d(2), symmetric]) (use False in linarith)
    qed
  qed
  then have "card (?c ` {n..<n + 10}) = 10" by (simp add: card_image)
  then have "\<not> ?c ` {n..<n + 10} \<subseteq> S"
    using S(2) card_mono [OF S(1), of "?c ` {n..<n + 10}"] unfolding MfaRecoveryCodeCount_def by linarith
  then show "\<exists>m\<ge>n. ?c m \<notin> S" by (meson atLeastLessThan_iff image_subsetI)
qed

theorem recovery_codes_generated_witness:
  "\<exists>codes hs w'. generateRecoveryCodes sample_auth_env sample_auth = Some (Inr (codes, hs), w') \<and> length codes = 10 \<and>
     distinct codes \<and> (\<forall>c\<in>set codes. recoveryCodePattern c) \<and> length hs = 10 \<and> unused_codes hs = 10"
  by (rule recovery_codes_generated [OF _ sample_varied]) (simp_all add: sample_auth_def sample_auth_env_def)

end
