(* ===== verification/AuthFlow.thy ===== *)
theory AuthFlow
  imports AuthHandler MfaSafety
begin

text \<open>
  What the \<open>/api/auth\<close> routes guarantee together.  Every handler is shown to be a sequence of
  service steps (\<open>svc\<close>); invariants of the stores are then proved once, on the steps.
\<close>

section \<open>Service steps\<close>

text \<open>A step changes at most one store, and changes the account list only in ways that keep an
  administrator and unique names.  Only the login handler opens challenges, so opening one is not a
  step.\<close>

definition same_stores :: "auth_world \<Rightarrow> auth_world \<Rightarrow> bool" where
  "same_stores w w' \<longleftrightarrow> users_file w' = users_file w \<and> sessions_file w' = sessions_file w \<and> mfa_file w' = mfa_file w \<and>
     pendingTokens w' = pendingTokens w \<and> clock w' = clock w"

inductive svc :: "auth_world \<Rightarrow> auth_world \<Rightarrow> bool" where
  refl: "svc w w"
| quiet: "svc w0 w \<Longrightarrow> same_stores w w' \<Longrightarrow> svc w0 w'"
| users: "svc w0 w \<Longrightarrow> same_stores w (w'\<lparr>users_file := users_file w\<rparr>) \<Longrightarrow>
    (\<And>us. users_file w = Some us \<Longrightarrow> accounts_ok us \<Longrightarrow> \<exists>us'. users_file w' = Some us' \<and> accounts_ok us') \<Longrightarrow> svc w0 w'"
| sessions: "svc w0 w \<Longrightarrow> same_stores w (w'\<lparr>sessions_file := sessions_file w\<rparr>) \<Longrightarrow> svc w0 w'"
| mfa: "svc w0 w \<Longrightarrow> same_stores w (w'\<lparr>mfa_file := mfa_file w\<rparr>) \<Longrightarrow> svc w0 w'"
| answer: "svc w0 w \<Longrightarrow> svc w0 (w\<lparr>pendingTokens := (pendingTokens w)(t := None)\<rparr>)"

lemma svc_trans: "svc v w \<Longrightarrow> svc u v \<Longrightarrow> svc u w"
  by (induction rule: svc.induct) (auto intro: svc.intros)

lemma svc_keeps_ok:
  "svc w0 w \<Longrightarrow> users_file w0 = Some us \<Longrightarrow> accounts_ok us \<Longrightarrow> \<exists>us. users_file w = Some us \<and> accounts_ok us"
  by (induction rule: svc.induct) (auto simp: same_stores_def)

lemma svc_pending:
  "svc w0 w \<Longrightarrow> pendingTokens w t = Some p \<Longrightarrow> pendingTokens w0 t = Some p"
  by (induction rule: svc.induct) (auto simp: same_stores_def split: if_splits)

lemma svc_clock: "svc w0 w \<Longrightarrow> clock w = clock w0"
  by (induction rule: svc.induct) (auto simp: same_stores_def)

named_theorems svc_intro

declare svc.refl [svc_intro]

lemma same_stores_tick [simp]: "same_stores w (tick w)"
  by (simp add: same_stores_def)

lemma svc_tick [svc_intro]: "svc w0 w \<Longrightarrow> svc w0 (tick w)"
  by (erule svc.quiet) simp

lemma svc_audit [svc_intro]: "svc w0 w \<Longrightarrow> svc w0 (audit_Log a b c d m w)"
  by (rule svc.quiet) (simp_all add: same_stores_def audit_Log_def)

lemma svc_logins [svc_intro]: "svc w0 w \<Longrightarrow> svc w0 (RecordLoginAttempt b w)"
  by (rule svc.quiet) (simp_all add: same_stores_def RecordLoginAttempt_def)

lemma svc_Record [svc_intro]: "svc w0 w \<Longrightarrow> svc w0 (limiter_Record k w)"
  by (rule svc.quiet) (simp_all add: same_stores_def limiter_Record_def sys_call_def)

lemma svc_Reset [svc_intro]: "svc w0 w \<Longrightarrow> svc w0 (limiter_Reset k w)"
  by (rule svc.quiet) (simp_all add: same_stores_def limiter_Reset_def sys_call_def)

lemma svc_Check [svc_intro]: "limiter_Check k w = (v, w') \<Longrightarrow> svc w0 w \<Longrightarrow> svc w0 w'"
  by (erule svc.quiet) (auto simp: same_stores_def limiter_Check_def sys_call_def split: prod.splits)

lemma svc_users_Read: "js_Read users_file w = (r, w') \<Longrightarrow> svc w0 w \<Longrightarrow> svc w0 w'"
  using users.Read_post [of w r w'] svc_tick by blast

lemma svc_sessions_Read: "js_Read sessions_file w = (r, w') \<Longrightarrow> svc w0 w \<Longrightarrow> svc w0 w'"
  using sessions.Read_post [of w r w'] svc_tick by blast

lemma svc_mfa_Read: "js_Read mfa_file w = (r, w') \<Longrightarrow> svc w0 w \<Longrightarrow> svc w0 w'"
  using mfa.Read_post [of w r w'] svc_tick by blast

lemma svc_users_Update:
  assumes "users_Update fn w = (r, w')" "svc w0 w" "\<And>us us' x. accounts_ok us \<Longrightarrow> fn us = Inr (us', x) \<Longrightarrow> accounts_ok us'"
  shows "svc w0 w'"
proof (rule svc.users [OF assms(2)])
  show "same_stores w (w'\<lparr>users_file := users_file w\<rparr>)"
    using users.Update_post [OF assms(1)] by (simp add: same_stores_def)
  show "\<exists>us'. users_file w' = Some us' \<and> accounts_ok us'" if "users_file w = Some us" "accounts_ok us" for us
    using users_Update_ok [OF assms(1) that] assms(3) that(2) by blast
qed

lemma svc_sessions_Update: "sessions_Update fn w = (r, w') \<Longrightarrow> svc w0 w \<Longrightarrow> svc w0 w'"
  using svc.sessions [of w0 w w'] sessions.Update_post [of "[]" fn w r w'] by (simp add: same_stores_def)

lemma svc_mfa_Update: "mfa_Update fn w = (r, w') \<Longrightarrow> svc w0 w \<Longrightarrow> svc w0 w'"
  using svc.mfa [of w0 w w'] mfa.Update_post [of "[]" fn w r w'] by (simp add: same_stores_def)

section \<open>The services take service steps\<close>

lemma svc_GetUserByID [svc_intro]: "GetUserByID i w = (r, w') \<Longrightarrow> svc w0 w \<Longrightarrow> svc w0 w'"
  using GetUserByID_post [of i w r w'] svc_tick by blast

lemma svc_GetUserByUsername [svc_intro]: "GetUserByUsername i w = (r, w') \<Longrightarrow> svc w0 w \<Longrightarrow> svc w0 w'"
  by (auto simp: GetUserByUsername_def split: prod.splits sum.splits intro: svc_users_Read)

lemma svc_GetAllUsers [svc_intro]: "GetAllUsers w = (r, w') \<Longrightarrow> svc w0 w \<Longrightarrow> svc w0 w'"
  unfolding GetAllUsers_def by (rule svc_users_Read)

lemma svc_HashPassword [svc_intro]: "HashPassword E p w = (r, w') \<Longrightarrow> svc w0 w \<Longrightarrow> svc w0 w'"
  by (auto simp: HashPassword_def intro: svc_tick)

lemma svc_CreateUser [svc_intro]: "CreateUser u w = (r, w') \<Longrightarrow> svc w0 w \<Longrightarrow> svc w0 w'"
  by (cases u) (auto simp: CreateUser_def elim!: svc_users_Update create_user_ok)

lemma svc_Bootstrap [svc_intro]: "BootstrapFirstAdmin u w = (r, w') \<Longrightarrow> svc w0 w \<Longrightarrow> svc w0 w'"
  unfolding BootstrapFirstAdmin_def by (erule svc_users_Update) (use bootstrap_ok in blast)+

lemma svc_Delete [svc_intro]: "DeleteUserWithPolicy u w = (r, w') \<Longrightarrow> svc w0 w \<Longrightarrow> svc w0 w'"
  unfolding DeleteUserWithPolicy_def deleteUser_def by (erule svc_users_Update) (use delete_user_ok in blast)+

lemma svc_Role [svc_intro]:
  "UpdateUserRole u role t w = (r, w') \<Longrightarrow> role = RoleAdmin \<or> role = RoleViewer \<Longrightarrow> svc w0 w \<Longrightarrow> svc w0 w'"
  unfolding UpdateUserRole_def by (erule svc_users_Update) (use update_role_ok in blast)+

lemma svc_UpdateUser:
  "UpdateUser u (Some m) w = (r, w') \<Longrightarrow> keeps_identity m \<Longrightarrow> svc w0 w \<Longrightarrow> svc w0 w'"
  unfolding UpdateUser_def option.case
  by (erule svc_users_Update) (use update_user_frame in \<open>auto simp: accounts_ok_def\<close>)

lemma svc_rehash [svc_intro]: "maybe_rehash E p u w = (r, w') \<Longrightarrow> svc w0 w \<Longrightarrow> svc w0 w'"
proof -
  have k: "keeps_identity (rehash h t)" for h t by (auto simp: keeps_identity_def rehash_def)
  assume "maybe_rehash E p u w = (r, w')" "svc w0 w"
  then show ?thesis
    by (auto simp: maybe_rehash_def Let_def split: if_splits prod.splits sum.splits
        intro: svc_UpdateUser [OF _ k] svc_HashPassword)
qed

lemma change_password_frame:
  "change_password i h t us = Inr (us', x) \<Longrightarrow> map u_Username us' = map u_Username us \<and> admins us' = admins us"
  by (induction us arbitrary: us') (auto split: if_splits sum.splits)

lemma svc_change_password [svc_intro]: "users_Update (change_password i h t) w = (r, w') \<Longrightarrow> svc w0 w \<Longrightarrow> svc w0 w'"
  by (erule svc_users_Update) (use change_password_frame in \<open>auto simp: accounts_ok_def\<close>)

lemma svc_CreateRefreshSession: "CreateRefreshSession E u w = (r, w') \<Longrightarrow> svc w0 w \<Longrightarrow> svc w0 w'"
proof -
  assume c: "CreateRefreshSession E u w = (r, w')" and s: "svc w0 w"
  obtain q v where q: "randomHex 32 w = (q, v)" by force
  then have "v = tick w" by (auto simp: randomHex_def dest!: sys_call_tick split: prod.splits sum.splits)
  then have "svc w0 v" using s by (simp add: svc_tick)
  then show ?thesis
    using c q by (auto simp: CreateRefreshSession_def Let_def split: prod.splits sum.splits intro: svc_sessions_Update)
qed

lemma svc_cookie [svc_intro]:
  "setRefreshCookieWithSecure E u b w = (r, w') \<Longrightarrow> svc w0 w \<Longrightarrow> svc w0 w'"
  "setRefreshCookieFor E m u w = (r, w') \<Longrightarrow> svc w0 w \<Longrightarrow> svc w0 w'"
  by (auto simp: setRefreshCookieWithSecure_def setRefreshCookieFor_def split: prod.splits sum.splits
      intro: svc_CreateRefreshSession)

lemma svc_Validate [svc_intro]: "ValidateRefreshSession E t w = (r, w') \<Longrightarrow> svc w0 w \<Longrightarrow> svc w0 w'"
  by (auto simp: ValidateRefreshSession_def split: prod.splits sum.splits intro: svc_sessions_Read)

lemma svc_Revoke [svc_intro]: "RevokeRefreshSession E t w = (r, w') \<Longrightarrow> svc w0 w \<Longrightarrow> svc w0 w'"
  unfolding RevokeRefreshSession_def by (rule svc_sessions_Update)

lemma svc_ReadToken [svc_intro]: "ReadTokenFile w = (r, w') \<Longrightarrow> svc w0 w \<Longrightarrow> svc w0 w'"
  by (erule svc.quiet)
    (auto simp: same_stores_def ReadTokenFile_def js_Read_def sys_call_def split: prod.splits sum.splits option.splits)

lemma svc_Consume [svc_intro]: "svc w0 w \<Longrightarrow> svc w0 (snd (ConsumeTokenFile w))"
  by (erule svc.quiet) (auto simp: same_stores_def ConsumeTokenFile_def sys_call_def split: option.splits)

lemma svc_Enrolled [svc_intro]: "IsEnrolled u w = (r, w') \<Longrightarrow> svc w0 w \<Longrightarrow> svc w0 w'"
  using IsEnrolled_post [of u w r w'] svc_tick by blast

lemma svc_Status [svc_intro]: "mfa_Status u w = (r, w') \<Longrightarrow> svc w0 w \<Longrightarrow> svc w0 w'"
  by (auto simp: mfa_Status_def Let_def split: prod.splits sum.splits option.splits if_splits intro: svc_mfa_Read)

lemma svc_Begin [svc_intro]: "BeginEnrollment E u w = (r, w') \<Longrightarrow> svc w0 w \<Longrightarrow> svc w0 w'"
  by (auto simp: BeginEnrollment_def Let_def split: prod.splits sum.splits option.splits if_splits
      intro: svc_mfa_Update svc_GetUserByID svc_tick)

lemma svc_loop: "recovery_loop E d h w = Some (r, w') \<Longrightarrow> svc w0 w \<Longrightarrow> svc w0 w'"
proof (induction E d h w "(r, w')" rule: recovery_loop.raw_induct [rotated, consumes 1])
  case (1 loop E d h w)
  obtain r1 w1 where rd: "rand_Read (MfaRecoveryCodeLength * 3 div 2 + 1) w = (r1, w1)" by force
  have w1: "svc w0 w1" using rand_Read_post [OF rd] 1(3) by (simp add: svc_tick)
  show ?case
    using 1(2) rd w1 svc_tick [OF w1] 1(3) 1(1) [of E d h w1] 1(1) [of E _ _ "tick w1"]
    by (auto simp: HashPassword_def split: if_splits sum.splits)
qed

lemma svc_Confirm [svc_intro]: "ConfirmEnrollment E u c w = Some (r, w') \<Longrightarrow> svc w0 w \<Longrightarrow> svc w0 w'"
  by (auto simp: ConfirmEnrollment_def generateRecoveryCodes_def split: prod.splits sum.splits option.splits if_splits
      intro: svc_mfa_Update svc_loop)

lemma svc_Disable [svc_intro]: "Disable E a t p b w = (r, w') \<Longrightarrow> svc w0 w \<Longrightarrow> svc w0 w'"
  by (auto simp: Disable_def split: prod.splits sum.splits option.splits if_splits intro: svc_mfa_Update svc_GetUserByID)

lemma svc_verifyCode: "verifyCodeForUser E u c w = (r, w') \<Longrightarrow> svc w0 w \<Longrightarrow> svc w0 w'"
  by (auto simp: verifyCodeForUser_def ConsumeRecoveryCode_def VerifyTotp_def
      split: prod.splits sum.splits option.splits if_splits intro: svc_mfa_Update svc_mfa_Read)


section \<open>The handlers take service steps\<close>

text \<open>A calculus for the nested cases of the handlers, read backwards: \<open>svc_flow\<close> follows the control
  flow, \<open>svc_op\<close> passes a service call.\<close>

lemma svc_case:
  "svc w0 w \<Longrightarrow> svc w0 (snd (x, w))"
  "svc w0 (snd p) \<Longrightarrow> (\<And>r v. svc w0 v \<Longrightarrow> svc w0 (snd (g r v))) \<Longrightarrow> svc w0 (snd (case p of (r, v) \<Rightarrow> g r v))"
  by (auto split: prod.splits)

lemma svc_choice:
  "(\<And>a b. svc w0 (snd (h a b))) \<Longrightarrow> svc w0 (snd (case q of (a, b) \<Rightarrow> h a b))"
  "(\<And>e. svc w0 (snd (f1 e))) \<Longrightarrow> (\<And>x. svc w0 (snd (f2 x))) \<Longrightarrow> svc w0 (snd (case s of Inl e \<Rightarrow> f1 e | Inr x \<Rightarrow> f2 x))"
  "svc w0 (snd n) \<Longrightarrow> (\<And>x. svc w0 (snd (f2 x))) \<Longrightarrow> svc w0 (snd (case o1 of None \<Rightarrow> n | Some x \<Rightarrow> f2 x))"
  "svc w0 (snd n) \<Longrightarrow> svc w0 (snd m) \<Longrightarrow> svc w0 (snd (case b of True \<Rightarrow> n | False \<Rightarrow> m))"
  "svc w0 (snd n) \<Longrightarrow> svc w0 (snd m) \<Longrightarrow> svc w0 (snd (if b then n else m))"
  "svc w0 v \<Longrightarrow> svc w0 v' \<Longrightarrow> svc w0 (if b then v else v')"
  by (auto split: prod.splits sum.splits option.splits bool.splits)

lemmas svc_flow = svc_case svc_choice

lemmas svc_done = svc_tick svc_audit svc_logins svc_Record svc_Reset svc_Consume svc.answer

lemmas svc_calls = svc_Check svc_GetUserByID svc_GetUserByUsername svc_GetAllUsers svc_HashPassword svc_CreateUser svc_Bootstrap
  svc_Delete svc_rehash svc_change_password svc_CreateRefreshSession svc_cookie svc_Validate svc_Revoke svc_ReadToken
  svc_Enrolled svc_Status svc_Begin svc_Disable svc_verifyCode

lemmas svc_op = svc_calls [OF prod.collapse [symmetric]]

lemma svc_VerifyAndIssue: "svc w0 w \<Longrightarrow> svc w0 (snd (VerifyAndIssueSession E t c w))"
  unfolding VerifyAndIssueSession_def Let_def by (assumption | rule svc_flow svc_done svc_op)+

lemma svc_sign_in:
  "svc w0 w \<Longrightarrow> (\<And>v. svc w0 v \<Longrightarrow> svc w0 (snd (f v))) \<Longrightarrow> svc w0 (snd (sign_in E u f w))"
  unfolding sign_in_def by (assumption | rule svc_flow svc_op)+

lemma svc_already: "svc w0 w \<Longrightarrow> svc w0 (snd (respondAlreadyConfigured r u w))"
  unfolding respondAlreadyConfigured_def by (assumption | rule svc_flow svc_done)+

lemma svc_setup_create: "svc w0 w \<Longrightarrow> svc w0 (snd (setup_create E b r c u p w))"
  unfolding setup_create_def Let_def setSetupRefreshCookie_def
  by (assumption | rule svc_flow svc_done svc_op svc_already svc_sign_in)+

lemma svc_authorised: "svc w0 w \<Longrightarrow> svc w0 (snd (setup_authorised r c w))"
  unfolding setup_authorised_def by (assumption | rule svc_flow svc_op)+

lemma svc_Setup: "svc w0 w \<Longrightarrow> svc w0 (snd (handle_Setup E b r body w))"
  unfolding handle_Setup_def Let_def
  by (assumption | rule svc_flow svc_op svc_setup_create svc_already svc_authorised)+

lemma svc_Refresh: "svc w0 w \<Longrightarrow> svc w0 (snd (handle_Refresh E r w))"
  unfolding handle_Refresh_def refresh_rotate_def setRefreshCookie_def
  by (assumption | rule svc_flow svc_done svc_op svc_sign_in)+

lemma svc_Logout: "svc w0 w \<Longrightarrow> svc w0 (snd (handle_Logout E r w))"
  unfolding handle_Logout_def Let_def by (assumption | rule svc_flow svc_op)+

lemma svc_Verify: "svc w0 w \<Longrightarrow> svc w0 (snd (handle_Verify E r body w))"
  unfolding handle_Verify_def verify_failed_def verify_accepted_def Let_def
  by (assumption | rule svc_flow svc_done svc_op svc_sign_in svc_VerifyAndIssue)+

lemma svc_accounts:
  "svc w0 w \<Longrightarrow> svc w0 (snd (handle_GetStatus w))"
  "svc w0 w \<Longrightarrow> svc w0 (snd (handle_GetMe claims w))"
  "svc w0 w \<Longrightarrow> svc w0 (snd (handle_GetUsers w))"
  "svc w0 w \<Longrightarrow> svc w0 (snd (handle_CreateUser E claims body1 w))"
  "svc w0 w \<Longrightarrow> svc w0 (snd (handle_DeleteUser claims r w))"
  "svc w0 w \<Longrightarrow> svc w0 (snd (handle_ChangePassword E claims r body2 w))"
  unfolding handle_GetStatus_def handle_GetMe_def handle_GetUsers_def handle_CreateUser_def handle_DeleteUser_def
    handle_ChangePassword_def Let_def
  by (assumption | rule svc_flow svc_done svc_op)+

lemma svc_UpdateUser_handler: "svc w0 w \<Longrightarrow> svc w0 (snd (handle_UpdateUser E claims r body w))"
  using svc_Role [OF prod.collapse [symmetric]]
  by (auto simp: handle_UpdateUser_def intro: svc_audit split: prod.splits sum.splits option.splits) (metis snd_conv svc_audit)+

lemma svc_mfa_handlers:
  "svc w0 w \<Longrightarrow> svc w0 (snd (handle_Enroll E claims w))"
  "svc w0 w \<Longrightarrow> svc w0 (snd (handle_Disable E claims body w))"
  "svc w0 w \<Longrightarrow> svc w0 (snd (handle_MfaStatus claims w))"
  unfolding handle_Enroll_def handle_Disable_def handle_MfaStatus_def Let_def
  by (assumption | rule svc_flow svc_done svc_op)+

lemma svc_EnrollConfirm: "handle_EnrollConfirm E claims body w = Some (resp, w') \<Longrightarrow> svc w0 w \<Longrightarrow> svc w0 w'"
  by (auto simp: handle_EnrollConfirm_def split: prod.splits sum.splits option.splits if_splits intro: svc_Confirm svc_audit)

lemma svc_guarded:
  "guarded g h w = Some (resp, w') \<Longrightarrow> svc w0 w \<Longrightarrow> (\<And>v. svc w0 v \<Longrightarrow> svc w0 (snd (h v))) \<Longrightarrow> svc w0 w'"
  by (auto simp: guarded_def split: option.splits) (metis snd_conv)

lemmas svc_handlers = svc_Setup svc_Refresh svc_Logout svc_Verify svc_accounts svc_UpdateUser_handler svc_mfa_handlers

lemma svc_protected:
  assumes "serve_protected E r q claims w = Some (resp, w')" "svc w0 w"
  shows "svc w0 w'"
proof -
  have some: "Some p = Some (resp, w') \<Longrightarrow> svc w0 (snd p) \<Longrightarrow> svc w0 w'" for p by simp
  show ?thesis
    using assms unfolding serve_protected_def
    by (cases q) (auto simp only: auth_request.case intro: svc_EnrollConfirm elim!: svc_guarded some intro!: svc_handlers)
qed

text \<open>The login handler is the exception: it may open one challenge, for a user whose password it has
  just checked.\<close>

definition proven_password :: "auth_env \<Rightarrow> string \<Rightarrow> string \<Rightarrow> string \<Rightarrow> auth_world \<Rightarrow> bool" where
  "proven_password E name pw uid w \<longleftrightarrow>
     (\<exists>us u. users_file w = Some us \<and> u \<in> set us \<and> u_Username u = name \<and> u_ID u = uid \<and> VerifyPassword E (u_PasswordHash u) pw)"

definition needs_second_factor :: "string \<Rightarrow> auth_world \<Rightarrow> bool" where
  "needs_second_factor uid w \<longleftrightarrow>
     (\<exists>es row. mfa_file w = Some es \<and> findEnrollment es uid = Some row \<and> \<not> me_Pending row)"

lemma maybe_rehash_post:
  assumes "maybe_rehash E pw u (w :: auth_world) = (u', w')"
  shows "u_ID u' = u_ID u \<and> mfa_file w' = mfa_file w \<and> faults w' = faults w"
proof -
  obtain h v where h: "HashPassword E pw w = (h, v)" by force
  then have v: "mfa_file v = mfa_file w" "faults v = faults w" by (auto simp: HashPassword_def)
  have upd: "mfa_file w2 = mfa_file v \<and> faults w2 = faults v" if "UpdateUser i (Some m) v = (q, w2)" for i m q w2
    using that users.Update_post [of "[]" "update_user i m" v q w2]
    by (auto simp: UpdateUser_def js_Update_def js_Read_def js_Write_def sys_call_def put_users_def
        split: prod.splits sum.splits if_splits option.splits)
  obtain q w2 where q: "UpdateUser (u_ID u) (Some (rehash (case h of Inl _ \<Rightarrow> '''' | Inr x \<Rightarrow> x) (NowISO8601 E v))) v = (q, w2)" by force
  show ?thesis
    using assms h v q upd [OF q] by (cases h; cases q) (auto simp: maybe_rehash_def Let_def split: if_splits)
qed

lemma IsEnrolled_False:
  "IsEnrolled uid (w :: auth_world) = (False, w') \<Longrightarrow> needs_second_factor uid w \<Longrightarrow> \<exists>n e. faults w n = Some e"
  by (auto simp: IsEnrolled_def js_Read_def sys_call_def needs_second_factor_def split: option.splits)

lemma quiet_frames [simp]:
  "users_file (limiter_Reset k w) = users_file w" "mfa_file (limiter_Reset k w) = mfa_file w"
  "faults (limiter_Reset k w) = faults w" "pendingTokens (limiter_Reset k w) = pendingTokens w"
  "pendingTokens (audit_Log a b c d m w) = pendingTokens w" "pendingTokens (RecordLoginAttempt x w) = pendingTokens w"
  by (simp_all add: limiter_Reset_def audit_Log_def RecordLoginAttempt_def sys_call_def)

text \<open>Everything that follows a correct password.\<close>

lemma login_accepted_post:
  assumes "login_accepted E r name pw user w = (resp, w')"
  shows "svc w w' \<and> (\<forall>t. rs_data resp \<noteq> MfaLoginResponse t) \<or>
      (\<exists>v t p. svc w v \<and> rs_data resp = MfaLoginResponse t \<and> pm_userID p = u_ID user \<and> \<not> pm_used p \<and>
         pendingTokens w' = (pendingTokens v)(t \<mapsto> p) \<and> users_file w' = users_file v)"
    and "rs_data resp = AuthResponse tok pu \<Longrightarrow>
      p_ID pu = u_ID user \<and> (needs_second_factor (u_ID user) w \<longrightarrow> (\<exists>n e. faults w n = Some e))"
proof -
  define v1 where "v1 = limiter_Reset (AuthUserKey name) (limiter_Reset (AuthIPKey (rq_ip r)) w)"
  obtain u2 v2 where re: "maybe_rehash E pw user v1 = (u2, v2)" by force
  note re' = maybe_rehash_post [OF re]
  obtain b v3 where en: "IsEnrolled (u_ID u2) v2 = (b, v3)" by force
  obtain i v4 where is4: "IssueMfaToken (u_ID u2) v3 = (i, v4)" by force
  obtain s v5 where si: "sign_in E u2 (setRefreshCookie E r (u_ID u2)) v3 = (s, v5)" by force
  have sv1: "svc w v1" unfolding v1_def by (intro svc_Reset svc.refl)
  have sv3: "svc w v3" using svc_Enrolled [OF en] svc_rehash [OF re] sv1 by blast
  have "svc w (snd (sign_in E u2 (setRefreshCookie E r (u_ID u2)) v3))"
    unfolding setRefreshCookie_def [abs_def] by (assumption | rule sv3 svc_op svc_sign_in)+
  then have sv5: "svc w v5" using si by simp
  have eq: "(resp, w') = (if b then
       (case i of Inl _ \<Rightarrow> (RespondError 500 ''MFA_TOKEN_ERROR'', v4)
        | Inr t \<Rightarrow> (RespondJSON 200 (MfaLoginResponse t),
            audit_Log name ''LOGIN'' '''' ''ok'' [(''stage'', ''password''), (''mfa'', ''required'')] (RecordLoginAttempt True v4)))
     else (case s of Inl x \<Rightarrow> (x, v5)
        | Inr (token, ck) \<Rightarrow> (auth_ok 200 token u2 ck, audit_Log name ''LOGIN'' '''' ''ok'' [] (RecordLoginAttempt True v5))))"
    using assms re en is4 si unfolding login_accepted_def Let_def v1_def [symmetric]
    by (cases i; cases s) (auto split: if_splits)
  have err: "rs_data x = NoData" if "s = Inl x" for x
    using si that by (auto simp: sign_in_def RespondError_def split: prod.splits sum.splits)
  note defs = RespondJSON_def RespondError_def auth_ok_def public_def
  show "svc w w' \<and> (\<forall>t. rs_data resp \<noteq> MfaLoginResponse t) \<or>
      (\<exists>v t p. svc w v \<and> rs_data resp = MfaLoginResponse t \<and> pm_userID p = u_ID user \<and> \<not> pm_used p \<and>
         pendingTokens w' = (pendingTokens v)(t \<mapsto> p) \<and> users_file w' = users_file v)"
  proof (cases b)
    case False
    then show ?thesis using eq sv5 err by (cases s) (auto simp: defs intro: svc_audit svc_logins)
  next
    case True
    show ?thesis
    proof (cases i)
      case (Inl e)
      then have "pendingTokens v4 = pendingTokens v3" "same_stores v3 v4"
        using IssueMfaToken_post [OF is4] by (auto simp: same_stores_def)
      then show ?thesis using True Inl eq svc.quiet [OF sv3] by (auto simp: defs)
    next
      case (Inr t)
      then obtain u :: CCUser where u: "pendingTokens v4 = (pendingTokens v3)(t \<mapsto> \<lparr>pm_userID = u_ID u2, pm_username = u_Username u,
          pm_expiresAt = clock v3 + MfaTokenTTL, pm_used = False\<rparr>)" "users_file v4 = users_file v3"
        using IssueMfaToken_post [OF is4] unfolding Inr sum.case by blast
      define p where "p = \<lparr>pm_userID = u_ID u2, pm_username = u_Username u, pm_expiresAt = clock v3 + MfaTokenTTL, pm_used = False\<rparr>"
      have p: "pm_userID p = u_ID user" "\<not> pm_used p" "pendingTokens v4 = (pendingTokens v3)(t \<mapsto> p)"
        using u(1) re' by (simp_all add: p_def)
      show ?thesis
        by (rule disjI2, rule exI [of _ v3], rule exI [of _ t], rule exI [of _ p])
          (use True Inr eq p u(2) sv3 in \<open>simp add: defs audit_Log_def RecordLoginAttempt_def\<close>)
    qed
  qed
  show "p_ID pu = u_ID user \<and> (needs_second_factor (u_ID user) w \<longrightarrow> (\<exists>n e. faults w n = Some e))"
    if "rs_data resp = AuthResponse tok pu"
  proof -
    have b: "\<not> b" "u_ID u2 = u_ID user" "pu = public u2"
      using that eq re' err by (cases b; cases i; cases s; auto simp: defs)+
    moreover have "needs_second_factor (u_ID user) v2 = needs_second_factor (u_ID user) w" "faults v2 = faults w"
      using re' by (simp_all add: needs_second_factor_def v1_def)
    ultimately show ?thesis using IsEnrolled_False [of "u_ID u2" v2 v3] en by (auto simp: public_def)
  qed
qed

lemma limiter_Check_frames:
  "limiter_Check k (w :: auth_world) = (x, w') \<Longrightarrow> users_file w' = users_file w \<and> mfa_file w' = mfa_file w \<and>
     pendingTokens w' = pendingTokens w \<and> faults w' = faults w \<and> clock w' = clock w \<and> sessions_file w' = sessions_file w"
  by (auto simp: limiter_Check_def sys_call_def split: prod.splits)

lemma GetUserByUsername_post:
  "GetUserByUsername n (w :: auth_world) = (r, w') \<Longrightarrow> w' = tick w \<and>
     (\<forall>u. r = Some u \<longrightarrow> (\<exists>us. users_file w = Some us \<and> u \<in> set us \<and> u_Username u = n))"
proof -
  assume a: "GetUserByUsername n w = (r, w')"
  obtain q v where q: "js_Read users_file w = (q, v)" by force
  from users.Read_post [OF q] a q show ?thesis
    by (cases q) (auto simp: GetUserByUsername_def find_Some_iff)
qed

lemma login_failed_data: "rs_data (fst (login_failed r n reason w)) = NoData" "svc w0 w \<Longrightarrow> svc w0 (snd (login_failed r n reason w))"
  by (auto simp: login_failed_def RespondError_def intro!: svc_audit svc_logins svc_Record)

text \<open>The login handler before it accepts a password answers with an error and takes service steps.\<close>

lemma Login_cases:
  assumes "handle_Login E r body w = (resp, w')"
  obtains (refused) "svc w w'" "rs_data resp = NoData"
  | (accepted) cr user v where "body = Decoded cr" "svc w v" "mfa_file v = mfa_file w" "faults v = faults w"
      "proven_password E (cr_Username cr) (cr_Password cr) (u_ID user) w"
      "login_accepted E r (cr_Username cr) (cr_Password cr) user v = (resp, w')"
proof -
  obtain b1 t1 v1 where c1: "limiter_Check (AuthIPKey (rq_ip r)) w = ((b1, t1), v1)" by (metis surj_pair)
  note f1 = limiter_Check_frames [OF c1] and s1 = svc_Check [OF c1 svc.refl]
  show ?thesis
  proof (cases "b1 \<or> (\<exists>x. DecodeJSON body = Inl x)")
    case True
    then show ?thesis
      using refused assms c1 s1
      by (cases body) (auto simp: handle_Login_def DecodeJSON_def RespondTooManyRequests_def RespondError_def split: bool.splits)
  next
    case False
    then obtain cr where cr: "body = Decoded cr" "\<not> b1" by (cases body) (auto simp: DecodeJSON_def)
    obtain b2 t2 v2 where c2: "limiter_Check (AuthUserKey (cr_Username cr)) v1 = ((b2, t2), v2)" by (metis surj_pair)
    note f2 = limiter_Check_frames [OF c2] and s2 = svc_Check [OF c2 s1]
    obtain g v3 where g: "GetUserByUsername (cr_Username cr) v2 = (g, v3)" by force
    note f3 = GetUserByUsername_post [OF g] and s3 = svc_GetUserByUsername [OF g s2]
    have eq: "(resp, w') = (if cr_Username cr = '''' \<or> cr_Password cr = '''' then (RespondError 400 ''INVALID_REQUEST'', v1)
        else if b2 then (RespondTooManyRequests t2, v2)
        else case g of None \<Rightarrow> login_failed r (cr_Username cr) ''unknown_user'' v3
          | Some user \<Rightarrow> if \<not> VerifyPassword E (u_PasswordHash user) (cr_Password cr)
              then login_failed r (cr_Username cr) ''bad_password'' v3
              else login_accepted E r (cr_Username cr) (cr_Password cr) user v3)"
      using assms c1 c2 g cr by (auto simp: handle_Login_def DecodeJSON_def split: option.splits)
    show ?thesis
    proof (cases "\<exists>user. g = Some user \<and> VerifyPassword E (u_PasswordHash user) (cr_Password cr) \<and>
        cr_Username cr \<noteq> '''' \<and> cr_Password cr \<noteq> '''' \<and> \<not> b2")
      case True
      then obtain user where user: "g = Some user" "VerifyPassword E (u_PasswordHash user) (cr_Password cr)"
        "login_accepted E r (cr_Username cr) (cr_Password cr) user v3 = (resp, w')" using eq by auto
      moreover have "proven_password E (cr_Username cr) (cr_Password cr) (u_ID user) w"
        using user f3 f2 f1 unfolding proven_password_def by auto
      moreover have "mfa_file v3 = mfa_file w" "faults v3 = faults w" using f1 f2 f3 by auto
      ultimately show ?thesis using accepted cr(1) s3 by blast
    next
      case no: False
      have "(resp, w') \<in> {(RespondError 400 ''INVALID_REQUEST'', v1), (RespondTooManyRequests t2, v2),
          login_failed r (cr_Username cr) ''unknown_user'' v3, login_failed r (cr_Username cr) ''bad_password'' v3}"
        using eq no by (cases g) (auto split: if_splits)
      then have "svc w w' \<and> rs_data resp = NoData"
        using s1 s2 login_failed_data(1) [of r "cr_Username cr" _ v3] login_failed_data(2) [OF s3, of r "cr_Username cr"]
        by (auto simp: RespondTooManyRequests_def RespondError_def) (metis fst_conv snd_conv)+
      then show ?thesis using refused by blast
    qed
  qed
qed

text \<open>The code is a current TOTP code of the committed enrolment or one of its unused recovery codes.\<close>

definition proven_code :: "auth_env \<Rightarrow> string \<Rightarrow> string \<Rightarrow> auth_world \<Rightarrow> bool" where
  "proven_code E uid code w \<longleftrightarrow>
     (\<exists>es row. mfa_file w = Some es \<and> findEnrollment es uid = Some row \<and>
       (\<not> me_Pending row \<and> validCodeFormat code \<and> ae_totp E (clock w) code (me_Secret row) \<or>
        recoveryCodePattern code \<and>
        (\<exists>c\<in>set (me_RecoveryCodes row). ae_compare E (rc_Hash c) (normalizeRecoveryCode code) \<and> rc_UsedAt c = '''')))"

lemma use_code_found: "use_code E code now cs = Inr cs' \<Longrightarrow> \<exists>c\<in>set cs. ae_compare E (rc_Hash c) code \<and> rc_UsedAt c = ''''"
  by (induction cs arbitrary: cs') (auto split: if_splits sum.splits)

lemma on_row_found: "on_row u m f es = Inr es' \<Longrightarrow> \<exists>row row'. findEnrollment es u = Some row \<and> f row = Inr row'"
  by (induction es arbitrary: es') (auto simp: findEnrollment_def split: if_splits sum.splits)

lemma verifyCode_proven:
  assumes "verifyCodeForUser E uid code w = (Inr m, w')"
  shows "proven_code E uid code w"
proof (cases "recoveryCodePattern code")
  case True
  let ?fn = "\<lambda>es. with_unit (on_row uid (Sentinel ErrMfaNotEnrolled)
             (consume_row E (normalizeRecoveryCode code) (NowISO8601 E w)) es)"
  obtain v where "ConsumeRecoveryCode E uid code w = (Inr True, v)"
    using assms True by (auto simp: verifyCodeForUser_def split: prod.splits sum.splits if_splits)
  then have "mfa_Update ?fn w = (Inr (), v)" using ConsumeRecoveryCode_Update by blast
  from mfa.Update_post [OF this] obtain es' where
    "?fn (case mfa_file w of None \<Rightarrow> [] | Some d \<Rightarrow> d) = Inr (es', ())" by auto
  then obtain row row' where "findEnrollment (case mfa_file w of None \<Rightarrow> [] | Some d \<Rightarrow> d) uid = Some row"
      "consume_row E (normalizeRecoveryCode code) (NowISO8601 E w) row = Inr row'"
    using on_row_found unfolding with_unit_Inr by blast
  then show ?thesis
    using True use_code_found by (cases "mfa_file w") (fastforce simp: proven_code_def findEnrollment_def consume_row_def split: sum.splits)+
next
  case False
  obtain b v where t: "VerifyTotp E uid code w = (b, v)" by force
  then have "b" "validCodeFormat code" using assms False by (auto simp: verifyCodeForUser_def split: if_splits)
  then show ?thesis using VerifyTotp_post [OF t] by (auto simp: proven_code_def)
qed

lemma VerifyAndIssue_proven:
  assumes "VerifyAndIssueSession E tok code w = (Inr (user, m), w')"
  shows "\<exists>p. pendingTokens w tok = Some p \<and> clock w \<le> pm_expiresAt p \<and> pm_userID p = u_ID user \<and>
     proven_code E (u_ID user) (TrimSpace code) w"
proof -
  obtain p where p: "pendingTokens w tok = Some p" using assms by (auto simp: VerifyAndIssueSession_def split: option.splits)
  define v where "v = w\<lparr>pendingTokens := (pendingTokens w)(tok := None)\<rparr>"
  obtain g v1 where g: "GetUserByID (pm_userID p) v = (g, v1)" by force
  note g' = GetUserByID_post [OF g]
  have ok: "clock w \<le> pm_expiresAt p" "g = Some user" "verifyCodeForUser E (pm_userID p) (TrimSpace code) v1 = (Inr m, w')"
    using assms p g by (auto simp: VerifyAndIssueSession_def v_def [symmetric] Let_def split: if_splits option.splits prod.splits sum.splits)
  have "proven_code E i c v1 = proven_code E i c w" for i c using g' by (simp add: proven_code_def v_def)
  then show ?thesis using ok p g' verifyCode_proven [OF ok(3)] by auto
qed

lemma sign_in_data: "sign_in E u f w = (Inl x, w') \<Longrightarrow> rs_data x = NoData"
  by (auto simp: sign_in_def RespondError_def split: prod.splits sum.splits)

lemma verify_failed_data: "rs_data (fst (verify_failed r n e w)) = NoData"
  by (simp add: verify_failed_def Let_def RespondError_def)

lemma verify_accepted_data:
  "rs_data (fst (verify_accepted E r n user m w)) = AuthResponse t pu \<Longrightarrow> pu = public user"
  by (auto simp: verify_accepted_def Let_def auth_ok_def RespondJSON_def dest: sign_in_data split: prod.splits sum.splits)

text \<open>A session from the verification handler: the challenge was open for that user and the code right.\<close>

lemma Verify_session:
  assumes "handle_Verify E r body w = (resp, w')" "rs_data resp = AuthResponse t pu"
  obtains req p where "body = Decoded req" "pendingTokens w (mv_MfaToken req) = Some p" "clock w \<le> pm_expiresAt p"
    "pm_userID p = p_ID pu" "proven_code E (p_ID pu) (TrimSpace (mv_Code req)) w"
proof -
  obtain b1 t1 v1 where c1: "limiter_Check (AuthIPKey (rq_ip r)) w = ((b1, t1), v1)" by (metis surj_pair)
  note f1 = limiter_Check_frames [OF c1]
  have "\<not> b1 \<and> (\<exists>req. body = Decoded req)"
    using assms c1 by (cases body; cases b1) (auto simp: handle_Verify_def DecodeJSON_def RespondTooManyRequests_def RespondError_def)
  then obtain req where req: "body = Decoded req" "\<not> b1" by blast
  define name where "name = LookupUsernameByMfaToken (mv_MfaToken req) v1"
  obtain b2 t2 v2 where c2: "(if name \<noteq> '''' then limiter_Check (AuthUserKey name) v1 else ((False, 0), v1)) = ((b2, t2), v2)"
    by (metis surj_pair)
  have f2: "mfa_file v2 = mfa_file v1" "pendingTokens v2 = pendingTokens v1" "clock v2 = clock v1"
    using c2 limiter_Check_frames [of "AuthUserKey name" v1] by (auto split: if_splits)
  obtain q v3 where q: "VerifyAndIssueSession E (mv_MfaToken req) (mv_Code req) v2 = (q, v3)" by force
  have eq: "(resp, w') = (if mv_MfaToken req = '''' \<or> mv_Code req = '''' then (RespondError 400 ''INVALID_REQUEST'', v1)
      else if b2 then (RespondTooManyRequests t2, v2)
      else case q of Inl e \<Rightarrow> verify_failed r name e v3 | Inr (user, meth) \<Rightarrow> verify_accepted E r name user meth v3)"
    using assms(1) c1 c2 q req by (auto simp: handle_Verify_def DecodeJSON_def name_def [symmetric] Let_def split: sum.splits prod.splits)
  have "\<exists>user m. q = Inr (user, m) \<and> pu = public user"
  proof (cases q)
    case (Inl e)
    then have "rs_data resp = NoData"
      using eq verify_failed_data [of r name e v3] by (auto simp: RespondError_def RespondTooManyRequests_def split: if_splits) (metis fst_conv)
    then show ?thesis using assms(2) by simp
  next
    case (Inr um)
    then show ?thesis
      using eq assms(2) verify_accepted_data [of E r name "fst um" "snd um" v3 t pu]
      by (cases um) (auto simp: RespondError_def RespondTooManyRequests_def split: if_splits dest: arg_cong [where f = fst])
  qed
  then obtain user m where um: "q = Inr (user, m)" "pu = public user" by blast
  from VerifyAndIssue_proven [OF q [unfolded um(1)]] f1 f2 have
    "\<exists>p. pendingTokens w (mv_MfaToken req) = Some p \<and> clock w \<le> pm_expiresAt p \<and> pm_userID p = u_ID user \<and>
       proven_code E (u_ID user) (TrimSpace (mv_Code req)) w" by (auto simp: proven_code_def)
  then show ?thesis using that [OF req(1)] um(2) by (auto simp: public_def)
qed

section \<open>Histories of requests\<close>

type_synonym event = "auth_world \<times> http_meta \<times> auth_request \<times> response"

text \<open>Requests are served one after the other, and time passes in between.\<close>

inductive history :: "auth_env \<Rightarrow> bool \<Rightarrow> auth_world \<Rightarrow> event list \<Rightarrow> auth_world \<Rightarrow> bool" for E tls w0 where
  start: "history E tls w0 [] w0"
| request: "history E tls w0 hs w \<Longrightarrow> serve E tls r q w = Some (resp, w') \<Longrightarrow> history E tls w0 (hs @ [(w, r, q, resp)]) w'"
| wait: "history E tls w0 hs w \<Longrightarrow> clock w \<le> t \<Longrightarrow> history E tls w0 hs (w\<lparr>clock := t\<rparr>)"

text \<open>A served request takes service steps, or it is a login that opened a challenge.\<close>

lemma serve_cases:
  assumes "serve E tls r q w = Some (resp, w')"
  obtains (steps) "svc w w'"
  | (challenge) cr v t p where "q = LoginReq (Decoded cr)" "svc w v" "rs_data resp = MfaLoginResponse t" "\<not> pm_used p"
      "proven_password E (cr_Username cr) (cr_Password cr) (pm_userID p) w"
      "pendingTokens w' = (pendingTokens v)(t \<mapsto> p)" "users_file w' = users_file v"
proof (cases "\<exists>b. q = LoginReq b")
  case True
  then obtain b where q: "q = LoginReq b" "handle_Login E r b w = (resp, w')" using assms by (auto simp: serve_def)
  from q(2) show ?thesis
  proof (cases rule: Login_cases)
    case refused
    then show ?thesis using steps by blast
  next
    case (accepted cr user v)
    from login_accepted_post(1) [OF accepted(6)] show ?thesis
    proof
      assume "svc v w' \<and> (\<forall>t. rs_data resp \<noteq> MfaLoginResponse t)"
      then show ?thesis using steps svc_trans accepted(2) by blast
    next
      assume "\<exists>va t p. svc v va \<and> rs_data resp = MfaLoginResponse t \<and> pm_userID p = u_ID user \<and> \<not> pm_used p \<and>
         pendingTokens w' = (pendingTokens va)(t \<mapsto> p) \<and> users_file w' = users_file va"
      then obtain va t p where c: "svc v va" "rs_data resp = MfaLoginResponse t" "pm_userID p = u_ID user" "\<not> pm_used p"
        "pendingTokens w' = (pendingTokens va)(t \<mapsto> p)" "users_file w' = users_file va" by blast
      show ?thesis using challenge [of cr va t p] q(1) accepted(1,2,5) c svc_trans by metis
    qed
  qed
next
  case False
  have "svc w w'"
    using assms False svc_accounts(1) [OF svc.refl, of w] svc_Setup [OF svc.refl, of w E tls r]
      svc_Refresh [OF svc.refl, of w E r] svc_Verify [OF svc.refl, of w E r] svc_protected [OF _ svc.refl, of E r q _ w resp w']
    unfolding serve_def by (cases q) (auto split: sum.splits intro: svc.refl, (metis snd_conv)+)
  then show ?thesis by (rule steps)
qed

text \<open>Every open challenge was opened by a login of the history with the right password.\<close>

definition origin :: "auth_env \<Rightarrow> event list \<Rightarrow> auth_world \<Rightarrow> bool" where
  "origin E hs w \<longleftrightarrow> (\<forall>t p. pendingTokens w t = Some p \<longrightarrow>
     (\<exists>v r cr resp. (v, r, LoginReq (Decoded cr), resp) \<in> set hs \<and> rs_data resp = MfaLoginResponse t \<and>
        proven_password E (cr_Username cr) (cr_Password cr) (pm_userID p) v))"

lemma history_origin: "history E tls w0 hs w \<Longrightarrow> pendingTokens w0 = Map.empty \<Longrightarrow> origin E hs w"
proof (induction rule: history.induct)
  case (request hs w r q resp w')
  have IH: "origin E (hs @ [(w, r, q, resp)]) w" using request unfolding origin_def by fastforce
  from request(2) show ?case
  proof (cases rule: serve_cases)
    case steps
    then show ?thesis using IH svc_pending unfolding origin_def by blast
  next
    case (challenge cr v t p)
    show ?thesis
      unfolding origin_def
    proof (intro allI impI)
      fix t' p' assume p': "pendingTokens w' t' = Some p'"
      show "\<exists>v r' cr resp'. (v, r', LoginReq (Decoded cr), resp') \<in> set (hs @ [(w, r, q, resp)]) \<and> rs_data resp' = MfaLoginResponse t' \<and>
        proven_password E (cr_Username cr) (cr_Password cr) (pm_userID p') v"
      proof (cases "t' = t")
        case True
        then have "p' = p" using p' challenge(6) by simp
        then show ?thesis using challenge True by (intro exI [of _ w] exI [of _ r] exI [of _ cr] exI [of _ resp]) simp
      next
        case False
        then have "pendingTokens w t' = Some p'" using p' challenge(2,6) svc_pending by simp
        then show ?thesis using IH unfolding origin_def by blast
      qed
    qed
  qed
qed (simp_all add: origin_def)

lemma history_ok:
  "history E tls w0 hs w \<Longrightarrow> users_file w0 = Some us \<Longrightarrow> accounts_ok us \<Longrightarrow> \<exists>us. users_file w = Some us \<and> accounts_ok us"
proof (induction rule: history.induct)
  case (request hs w r q resp w')
  then obtain us' where us': "users_file w = Some us'" "accounts_ok us'" by blast
  from request(2) show ?case
    by (cases rule: serve_cases) (use svc_keeps_ok us' in fastforce)+
qed auto

lemma history_split:
  "history E tls w0 hs w \<Longrightarrow> hs = xs @ e # ys \<Longrightarrow>
     \<exists>v r q resp v'. e = (v, r, q, resp) \<and> history E tls w0 xs v \<and> serve E tls r q v = Some (resp, v')"
proof (induction arbitrary: ys rule: history.induct)
  case (request hs w r q resp w')
  then show ?case by (cases ys rule: rev_cases) fastforce+
qed auto

section \<open>Properties\<close>

text \<open>C12. In every history of requests a session that was obtained by answering a challenge belongs to
  a user whose password an earlier login of the history proved, answered with that very challenge;
  and the code that was sent is a current TOTP code or an unused recovery code of that user.\<close>

theorem session_needs_both_factors:
  assumes "history E tls w0 (before @ (v, r, MfaVerifyReq body, resp) # rest) w" "pendingTokens w0 = Map.empty"
    and "rs_data resp = AuthResponse tok pu"
  shows "\<exists>req. body = Decoded req \<and> proven_code E (p_ID pu) (TrimSpace (mv_Code req)) v \<and>
     (\<exists>u r' cr resp'. (u, r', LoginReq (Decoded cr), resp') \<in> set before \<and> rs_data resp' = MfaLoginResponse (mv_MfaToken req) \<and>
        proven_password E (cr_Username cr) (cr_Password cr) (p_ID pu) u)"
proof -
  obtain v' where h: "history E tls w0 before v" "handle_Verify E r body v = (resp, v')"
    using history_split [OF assms(1) HOL.refl] by (auto simp: serve_def)
  note o = history_origin [OF h(1) assms(2)]
  from h(2) assms(3) obtain req p where "body = Decoded req" "pendingTokens v (mv_MfaToken req) = Some p"
    "pm_userID p = p_ID pu" "proven_code E (p_ID pu) (TrimSpace (mv_Code req)) v" by (rule Verify_session) blast
  then show ?thesis using o unfolding origin_def by metis
qed

text \<open>C14. A login hands out a session only for the right password, and a user with a committed second
  factor gets one directly only if a system call failed.\<close>

theorem login_needs_password:
  assumes "handle_Login E r body w = (resp, w')" "rs_data resp = AuthResponse tok pu"
  shows "\<exists>cr. body = Decoded cr \<and> proven_password E (cr_Username cr) (cr_Password cr) (p_ID pu) w \<and>
     (needs_second_factor (p_ID pu) w \<longrightarrow> (\<exists>n e. faults w n = Some e))"
  using assms(1)
proof (cases rule: Login_cases)
  case refused
  then show ?thesis using assms(2) by simp
next
  case (accepted cr user v)
  have "p_ID pu = u_ID user \<and> (needs_second_factor (u_ID user) v \<longrightarrow> (\<exists>n e. faults v n = Some e))"
    by (rule login_accepted_post(2) [OF accepted(6) assms(2)])
  then show ?thesis using accepted by (auto simp: needs_second_factor_def)
qed

text \<open>C13. Once the accounts hold an administrator and unique names, they do so for ever: no history of
  requests, whatever fails in it, removes the last administrator or duplicates a name.\<close>

theorem api_keeps_an_admin:
  assumes "history E tls w0 hs w" "users_file w0 = Some us" "1 \<le> admins us" "distinct (map u_Username us)"
  shows "\<exists>us. users_file w = Some us \<and> 1 \<le> admins us \<and> distinct (map u_Username us)"
  using history_ok [OF assms(1,2)] assms(3,4) by (simp add: accounts_ok_def)
section \<open>A run\<close>

text \<open>A user with a second factor logs in and answers the challenge.\<close>

definition sample_meta :: http_meta where
  "sample_meta = \<lparr>rq_ip = ''1'', rq_tls = False, rq_proto = '''', rq_auth = '''', rq_reset = '''', rq_cookie = None, rq_id = ''''\<rparr>"

definition sample_login :: "credentials decoded" where
  "sample_login = Decoded \<lparr>cr_Username = ''ada'', cr_Password = ''pw''\<rparr>"

definition sample_token :: string where
  "sample_token = base32_encode (map (\<lambda>i. (16 * 7 + i) mod 256) [0..<32])"

definition sample_code :: "MfaVerifyRequest decoded" where
  "sample_code = Decoded \<lparr>mv_MfaToken = sample_token, mv_Code = ''123456''\<rparr>"

definition sample_challenged :: auth_world where
  "sample_challenged = sample_mfa\<lparr>calls := 8, logins := [True],
     pendingTokens := [sample_token \<mapsto> \<lparr>pm_userID = ''u1'', pm_username = ''ada'', pm_expiresAt = MfaTokenTTL, pm_used = False\<rparr>],
     trail := [\<lparr>le_actor = ''ada'', le_action = ''LOGIN'', le_target = '''', le_result = ''ok'',
       le_meta = [(''stage'', ''password''), (''mfa'', ''required'')]\<rparr>]\<rparr>"

lemmas sample_defs = sample_meta_def sample_mfa_def sample_auth_def sample_user_def sample_row_def sample_auth_env_def

lemmas run_defs = sys_call_def tick_def js_Read_def js_Update_def js_Write_def limiter_Check_def limiter_Record_def limiter_Reset_def
  Check_def Record_def Reset_def persist_def load_def NewRateLimiter_def succeeded_def DecodeJSON_def audit_Log_def RecordLoginAttempt_def

lemma sample_Login:
  "handle_Login sample_auth_env sample_meta sample_login sample_mfa = (RespondJSON 200 (MfaLoginResponse sample_token), sample_challenged)"
  unfolding sample_login_def sample_challenged_def sample_token_def
  by (simp add: handle_Login_def sample_defs run_defs GetUserByUsername_def GetUserByID_def VerifyPassword_def login_accepted_def
      maybe_rehash_def NeedsRehash_def ProductionBcryptCost_def IsEnrolled_def IssueMfaToken_def findEnrollment_def rand_Read_def)

lemma sample_token_nonempty: "sample_token \<noteq> ''''"
  unfolding sample_token_def base32_encode_def by (subst base32_groups.simps) (simp add: upt_conv_Cons byte_bits_def)

lemma sample_code_text: "TrimSpace ''123456'' = ''123456''" "\<not> recoveryCodePattern ''123456''" "validCodeFormat ''123456''"
  by code_simp+

lemma sample_Verify:
  "rs_data (fst (handle_Verify sample_auth_env sample_meta sample_code sample_challenged)) = AuthResponse ''tok'' (public sample_user)"
  unfolding sample_code_def sample_challenged_def
  by (simp add: Let_def handle_Verify_def sample_defs run_defs sample_token_nonempty LookupUsernameByMfaToken_def MfaTokenTTL_def
      VerifyAndIssueSession_def GetUserByID_def sample_code_text verifyCodeForUser_def VerifyTotp_def findEnrollment_def
      verify_accepted_def sign_in_def GenerateToken_def sample_claims_def Unix_def AccessTokenLifetime_def
      setRefreshCookieFor_def CreateRefreshSession_def randomHex_def put_sessions_def auth_ok_def RespondJSON_def public_def)

lemma sample_history:
  "history sample_auth_env False sample_mfa
     ([(sample_mfa, sample_meta, LoginReq sample_login, RespondJSON 200 (MfaLoginResponse sample_token))] @
      (sample_challenged, sample_meta, MfaVerifyReq sample_code,
        fst (handle_Verify sample_auth_env sample_meta sample_code sample_challenged)) # [])
     (snd (handle_Verify sample_auth_env sample_meta sample_code sample_challenged))"
proof -
  have "history sample_auth_env False sample_mfa [] sample_mfa" by (rule history.start)
  then have "history sample_auth_env False sample_mfa
      ([] @ [(sample_mfa, sample_meta, LoginReq sample_login, RespondJSON 200 (MfaLoginResponse sample_token))]) sample_challenged"
    by (rule history.request) (simp add: serve_def sample_Login)
  then have "history sample_auth_env False sample_mfa
      (([] @ [(sample_mfa, sample_meta, LoginReq sample_login, RespondJSON 200 (MfaLoginResponse sample_token))]) @
       [(sample_challenged, sample_meta, MfaVerifyReq sample_code,
         fst (handle_Verify sample_auth_env sample_meta sample_code sample_challenged))])
      (snd (handle_Verify sample_auth_env sample_meta sample_code sample_challenged))"
    by (rule history.request) (simp add: serve_def)
  then show ?thesis by simp
qed

theorem session_needs_both_factors_witness:
  "\<exists>req. sample_code = Decoded req \<and> proven_code sample_auth_env ''u1'' (TrimSpace (mv_Code req)) sample_challenged \<and>
     (\<exists>u r' cr resp'. (u, r', LoginReq (Decoded cr), resp')
          \<in> set [(sample_mfa, sample_meta, LoginReq sample_login, RespondJSON 200 (MfaLoginResponse sample_token))] \<and>
        rs_data resp' = MfaLoginResponse (mv_MfaToken req) \<and>
        proven_password sample_auth_env (cr_Username cr) (cr_Password cr) ''u1'' u)"
  using session_needs_both_factors [OF sample_history _ sample_Verify]
  by (simp add: sample_mfa_def sample_auth_def public_def sample_user_def)

text \<open>A user without a second factor.\<close>

definition sample_single :: auth_world where
  "sample_single = sample_mfa\<lparr>mfa_file := None\<rparr>"

lemma sample_Login_single:
  "rs_data (fst (handle_Login sample_auth_env sample_meta sample_login sample_single)) = AuthResponse ''tok'' (public sample_user)"
  unfolding sample_login_def sample_single_def
  by (simp add: handle_Login_def sample_defs run_defs GetUserByUsername_def VerifyPassword_def login_accepted_def
      maybe_rehash_def NeedsRehash_def ProductionBcryptCost_def IsEnrolled_def sign_in_def GenerateToken_def sample_claims_def
      Unix_def AccessTokenLifetime_def setRefreshCookie_def setRefreshCookieWithSecure_def CreateRefreshSession_def randomHex_def
      put_sessions_def auth_ok_def RespondJSON_def public_def)

theorem login_needs_password_witness:
  "\<exists>cr. sample_login = Decoded cr \<and> proven_password sample_auth_env (cr_Username cr) (cr_Password cr) ''u1'' sample_single \<and>
     (needs_second_factor ''u1'' sample_single \<longrightarrow> (\<exists>n e. faults sample_single n = Some e))"
  using login_needs_password [OF prod.collapse [symmetric] sample_Login_single] by (simp add: public_def sample_user_def)

theorem api_keeps_an_admin_witness:
  "\<exists>us. users_file (snd (handle_Verify sample_auth_env sample_meta sample_code sample_challenged)) = Some us \<and>
     1 \<le> admins us \<and> distinct (map u_Username us)"
  by (rule api_keeps_an_admin [OF sample_history, of "[sample_user]"])
    (simp_all add: sample_mfa_def sample_user_def RoleAdmin_def)


section \<open>The budget of guesses and the rotation of refresh tokens\<close>

lemma limiter_Reset_None: "attempts (throttle (limiter_Reset k w)) = (attempts (throttle w))(k := None)"
  by (simp add: limiter_Reset_def sys_call_def Reset_def persist_def)

lemma maybe_rehash_throttle: "maybe_rehash E pw u (w :: auth_world) = (u', w') \<Longrightarrow> throttle w' = throttle w"
proof -
  assume m: "maybe_rehash E pw u w = (u', w')"
  have upd: "throttle w2 = throttle v" if "UpdateUser i (Some f) v = (q, w2)" for i f q and v w2 :: auth_world
    using that users.Update_post [of "[]" "update_user i f" v q w2] by (simp add: UpdateUser_def)
  show ?thesis
    using m by (auto simp: maybe_rehash_def HashPassword_def Let_def split: if_splits sum.splits prod.splits dest!: upd)
qed

lemma IssueMfaToken_throttle: "IssueMfaToken i (w :: auth_world) = (r, w') \<Longrightarrow> throttle w' = throttle w"
proof -
  assume i: "IssueMfaToken i w = (r, w')"
  obtain g v1 where g: "GetUserByID i w = (g, v1)" by force
  obtain q v2 where q: "rand_Read 32 v1 = (q, v2)" by force
  show ?thesis
    using i g q GetUserByID_post [OF g] rand_Read_post [OF q] by (cases g; cases q) (auto simp: IssueMfaToken_def)
qed

lemma limiter_Check_None: "attempts (throttle w) k = None \<Longrightarrow> limiter_Check k w = ((False, 0), tick w)"
  by (simp add: limiter_Check_def sys_call_def Check_def)

text \<open>What a login that opens a challenge leaves behind.\<close>

lemma login_challenge_state:
  assumes "login_accepted E r name pw user (w :: auth_world) = (resp, w')" "rs_data resp = MfaLoginResponse t"
  shows "attempts (throttle w') (AuthIPKey (rq_ip r)) = None \<and> attempts (throttle w') (AuthUserKey name) = None"
proof -
  define v1 where "v1 = limiter_Reset (AuthUserKey name) (limiter_Reset (AuthIPKey (rq_ip r)) w)"
  obtain u2 v2 where re: "maybe_rehash E pw user v1 = (u2, v2)" by force
  obtain b v3 where en: "IsEnrolled (u_ID u2) v2 = (b, v3)" by force
  obtain i v4 where is4: "IssueMfaToken (u_ID u2) v3 = (i, v4)" by force
  obtain s v5 where si: "sign_in E u2 (setRefreshCookie E r (u_ID u2)) v3 = (s, v5)" by force
  have "\<exists>m. w' = audit_Log name ''LOGIN'' '''' ''ok'' m (RecordLoginAttempt True v4)"
    using assms re en is4 si sign_in_data [of E u2 _ v3 _ v5] unfolding login_accepted_def Let_def v1_def [symmetric]
    by (cases i; cases s) (auto simp: RespondError_def RespondJSON_def auth_ok_def split: if_splits)
  then have "throttle w' = throttle v1"
    using maybe_rehash_throttle [OF re] IsEnrolled_post [OF en] IssueMfaToken_throttle [OF is4]
    by (auto simp: audit_Log_def RecordLoginAttempt_def)
  then show ?thesis by (simp add: v1_def limiter_Reset_None)
qed

text \<open>A login with the right password clears the failed verifications: after a login that opened a
  challenge neither the address nor the user name is blocked, however many codes were wrong before.
  Who knows the password can therefore guess codes without ever being locked out, by logging in
  before each guess.\<close>

theorem login_clears_failed_codes:
  assumes "handle_Login E r (Decoded cr) (w :: auth_world) = (resp, w')" "rs_data resp = MfaLoginResponse t"
  shows "\<not> fst (snd (Check (AuthIPKey (rq_ip r)) t1 t2 ok (throttle w'))) \<and>
     \<not> fst (snd (Check (AuthUserKey (cr_Username cr)) t1 t2 ok (throttle w')))"
  using assms(1)
proof (cases rule: Login_cases)
  case refused
  then show ?thesis using assms(2) by simp
next
  case (accepted cr' user v)
  then show ?thesis using login_challenge_state [OF accepted(6) assms(2)] by (simp add: Check_def)
qed

theorem login_clears_failed_codes_witness:
  "\<not> fst (snd (Check (AuthIPKey ''1'') 0 0 True (throttle sample_challenged))) \<and>
   \<not> fst (snd (Check (AuthUserKey ''ada'') 0 0 True (throttle sample_challenged)))"
  using login_clears_failed_codes [OF sample_Login [unfolded sample_login_def], of sample_token 0 0 True]
  by (simp add: RespondJSON_def sample_meta_def)


definition sample_refresh :: auth_world where
  "sample_refresh = sample_sessions\<lparr>users_file := Some [sample_user]\<rparr>"

definition sample_cookie :: "string \<Rightarrow> http_meta" where
  "sample_cookie ip = sample_meta\<lparr>rq_ip := ip, rq_cookie := Some ''t''\<rparr>"

lemmas refresh_defs = sample_refresh_def sample_sessions_def sample_session_def sample_cookie_def sample_defs run_defs
  ValidateRefreshSession_def check_session_def hashRefreshToken_def Unix_def refresh_rotate_def RevokeRefreshSession_def
  GetUserByID_def sign_in_def GenerateToken_def AccessTokenLifetime_def sample_claims_def setRefreshCookie_def
  setRefreshCookieWithSecure_def CreateRefreshSession_def randomHex_def put_sessions_def auth_ok_def RespondJSON_def public_def
  refresh_cookie_def

lemma sample_Refresh:
  "rs_data (fst (handle_Refresh sample_auth_env (sample_cookie ''a'') sample_refresh)) = AuthResponse ''tok'' (public sample_user)"
  "rs_cookie (fst (handle_Refresh sample_auth_env (sample_cookie ''a'') sample_refresh)) = Some ck \<Longrightarrow> length (ck_Value ck) = 64"
  by (auto simp: handle_Refresh_def refresh_defs hex_encode_length)


text \<open>The rotation is not atomic.  The lock a refresh holds depends on the client's address: two
  requests with the same token from two addresses may interleave, both validate the token before
  either revokes it, and both get a new session.\<close>

theorem rotation_race:
  "refreshLockIndex ''10.0.0.1'' \<noteq> refreshLockIndex ''10.0.0.2'' \<and>
   (let (s1, w1) = ValidateRefreshSession sample_auth_env ''t'' sample_refresh;
        (s2, w2) = ValidateRefreshSession sample_auth_env ''t'' w1;
        (r1, w3) = refresh_rotate sample_auth_env (sample_cookie ''10.0.0.1'') ''t'' sample_session w2;
        (r2, w4) = refresh_rotate sample_auth_env (sample_cookie ''10.0.0.2'') ''t'' sample_session w3
    in s1 = Inr sample_session \<and> s2 = Inr sample_session \<and>
       rs_data r1 = AuthResponse ''tok'' (public sample_user) \<and> rs_data r2 = AuthResponse ''tok'' (public sample_user))"
proof
  show "refreshLockIndex ''10.0.0.1'' \<noteq> refreshLockIndex ''10.0.0.2''" by code_simp
qed (simp add: refresh_defs)

end
