(* ===== verification/Crypto.thy ===== *)
theory Crypto
  imports FileSystem "HOL-Library.Word"
begin

text \<open>
  Encryption at rest and of downloads: src/internal/service/crypto.go.  Byte strings are \<^typ>\<open>string\<close>s.
  \<open>crypto_env\<close> is what the code gets from outside: AES-GCM (\<open>ce_seal\<close> and \<open>ce_open\<close> take the key and
  the nonce), SHA-256 and argon2id.  The key lengths are fixed, so building the cipher cannot fail.
  Base64 and the binary encodings are written out.
\<close>

record crypto_env =
  ce_seal :: "string \<Rightarrow> string \<Rightarrow> string \<Rightarrow> string"
  ce_open :: "string \<Rightarrow> string \<Rightarrow> string \<Rightarrow> string option"
  ce_sha256 :: "string \<Rightarrow> string"
  ce_argon2id :: "string \<Rightarrow> string \<Rightarrow> string"

definition encPrefix :: string where "encPrefix = ''enc:''"

definition encV2Magic :: string where "encV2Magic = ''enc:v2:''"

definition encV2Salt :: nat where "encV2Salt = 16"

definition encV2Nonce :: nat where "encV2Nonce = 12"

definition streamingChunk :: nat where "streamingChunk = 64 * 1024"

section \<open>Secrets\<close>

definition placeholderSecrets :: "string list" where
  "placeholderSecrets = [''cc-secret-change-in-production'', ''change-me-in-production'', ''dev-secret-not-for-production'']"

definition ValidateSecret :: "string \<Rightarrow> string \<Rightarrow> go_error option" where
  "ValidateSecret name value =
     (if value = '''' then None
      else if \<exists>p\<in>set placeholderSecrets. ToLower value = ToLower p
      then Some (ErrText (name @ '' is set to a known placeholder'')) else None)"

text \<open>\<open>rand.Read\<close> of \<open>n\<close> bytes.\<close>

definition rand_bytes :: "nat \<Rightarrow> 'w world_scheme \<Rightarrow> string result \<times> 'w world_scheme" where
  "rand_bytes n w =
     (case sys_call w of
        (Inl e, w') \<Rightarrow> (Inl e, w')
      | (Inr _, w') \<Rightarrow> (Inr (map (\<lambda>i. char_of (entropy w (calls w) i mod 256)) [0..<n]), w'))"

definition GenerateJWTSecret :: "'w world_scheme \<Rightarrow> string result \<times> 'w world_scheme" where
  "GenerateJWTSecret w =
     (case randomHex 32 w of (Inl e, w) \<Rightarrow> (Inl (ErrWrap ''failed to generate JWT secret'' e), w) | (Inr s, w) \<Rightarrow> (Inr s, w))"

definition deriveKey :: "crypto_env \<Rightarrow> string \<Rightarrow> string" where
  "deriveKey C passphrase = ce_sha256 C passphrase"

definition deriveKeyArgon2id :: "crypto_env \<Rightarrow> string \<Rightarrow> string \<Rightarrow> string" where
  "deriveKeyArgon2id C passphrase salt = ce_argon2id C passphrase salt"

section \<open>Base64\<close>

definition b64_alphabet :: string where
  "b64_alphabet = ''ABCDEFGHIJKLMNOPQRSTUVWXYZabcdefghijklmnopqrstuvwxyz0123456789+/''"

definition b64_char :: "nat \<Rightarrow> char" where
  "b64_char n = b64_alphabet ! (n mod 64)"

fun position :: "'a \<Rightarrow> 'a list \<Rightarrow> nat option" where
  "position x [] = None"
| "position x (y # ys) = (if x = y then Some 0 else map_option Suc (position x ys))"

definition b64_val :: "char \<Rightarrow> nat option" where
  "b64_val c = position c b64_alphabet"

abbreviation ord :: "char \<Rightarrow> nat" where "ord \<equiv> of_char"

fun b64_encode :: "string \<Rightarrow> string" where
  "b64_encode [] = []"
| "b64_encode [a] = [b64_char (ord a div 4), b64_char (ord a mod 4 * 16), CHR ''='', CHR ''='']"
| "b64_encode [a, b] =
     [b64_char (ord a div 4), b64_char (ord a mod 4 * 16 + ord b div 16), b64_char (ord b mod 16 * 4), CHR ''='']"
| "b64_encode (a # b # c # rest) =
     b64_char (ord a div 4) # b64_char (ord a mod 4 * 16 + ord b div 16) #
     b64_char (ord b mod 16 * 4 + ord c div 64) # b64_char (ord c mod 64) # b64_encode rest"

text \<open>The decoder: line breaks are skipped, the last group may be padded, left-over bits are ignored.\<close>

definition b64_two :: "char \<Rightarrow> char \<Rightarrow> string option" where
  "b64_two x y =
     (case (b64_val x, b64_val y) of
        (Some p, Some q) \<Rightarrow> Some [char_of ((p * 4 + q div 16) mod 256)] | _ \<Rightarrow> None)"

definition b64_three :: "char \<Rightarrow> char \<Rightarrow> char \<Rightarrow> string option" where
  "b64_three x y z =
     (case (b64_val x, b64_val y, b64_val z) of
        (Some p, Some q, Some r) \<Rightarrow>
          Some [char_of ((p * 4 + q div 16) mod 256), char_of ((q mod 16 * 16 + r div 4) mod 256)] | _ \<Rightarrow> None)"

definition b64_four :: "char \<Rightarrow> char \<Rightarrow> char \<Rightarrow> char \<Rightarrow> string option" where
  "b64_four x y z u =
     (case (b64_val x, b64_val y, b64_val z, b64_val u) of
        (Some p, Some q, Some r, Some s) \<Rightarrow>
          Some [char_of ((p * 4 + q div 16) mod 256), char_of ((q mod 16 * 16 + r div 4) mod 256),
                char_of ((r mod 4 * 64 + s) mod 256)] | _ \<Rightarrow> None)"

fun b64_groups :: "string \<Rightarrow> string option" where
  "b64_groups [] = Some []"
| "b64_groups (x # y # z # u # rest) =
     (if z = CHR ''='' \<and> u = CHR ''='' then (if rest = [] then b64_two x y else None)
      else if u = CHR ''='' then (if rest = [] then b64_three x y z else None)
      else case b64_four x y z u of
          None \<Rightarrow> None | Some p \<Rightarrow> (case b64_groups rest of None \<Rightarrow> None | Some q \<Rightarrow> Some (p @ q)))"
| "b64_groups _ = None"

definition b64_decode :: "string \<Rightarrow> string option" where
  "b64_decode s = b64_groups (filter (\<lambda>c. c \<noteq> CHR 0x0A \<and> c \<noteq> CHR 0x0D) s)"

section \<open>Values at rest\<close>

definition IsEncrypted :: "string \<Rightarrow> bool" where
  "IsEncrypted value \<longleftrightarrow> HasPrefix value encPrefix"

definition Encrypt :: "crypto_env \<Rightarrow> string \<Rightarrow> string \<Rightarrow> 'w world_scheme \<Rightarrow> string result \<times> 'w world_scheme" where
  "Encrypt C plaintext key w =
     (case rand_bytes encV2Nonce w of
        (Inl e, w) \<Rightarrow> (Inl (ErrWrap ''generate nonce'' e), w)
      | (Inr nonce, w) \<Rightarrow> (Inr (encPrefix @ b64_encode (nonce @ ce_seal C (deriveKey C key) nonce plaintext)), w))"

definition Decrypt :: "crypto_env \<Rightarrow> string \<Rightarrow> string \<Rightarrow> string result" where
  "Decrypt C encoded key =
     (if \<not> HasPrefix encoded encPrefix then Inr encoded
      else case b64_decode (TrimPrefix encoded encPrefix) of
          None \<Rightarrow> Inl (ErrText ''decode base64'')
        | Some data \<Rightarrow>
            if length data < encV2Nonce then Inl (ErrText ''ciphertext too short'')
            else case ce_open C (deriveKey C key) (take encV2Nonce data) (drop encV2Nonce data) of
                None \<Rightarrow> Inl (ErrText ''decrypt'') | Some plaintext \<Rightarrow> Inr plaintext)"

section \<open>Streams\<close>

definition be_bytes :: "nat \<Rightarrow> nat \<Rightarrow> string" where
  "be_bytes n v = map (\<lambda>i. char_of (v div 256 ^ (n - Suc i) mod 256)) [0..<n]"

definition be_value :: "string \<Rightarrow> nat" where
  "be_value s = foldl (\<lambda>v c. 256 * v + ord c) 0 s"

definition deriveChunkNonce :: "string \<Rightarrow> 64 word \<Rightarrow> string" where
  "deriveChunkNonce base counter = take 4 base @ be_bytes 8 (unat counter) @ drop 12 base"

text \<open>A write to the client appends to what was sent, or fails.\<close>

definition send :: "string \<Rightarrow> string \<times> 'w world_scheme \<Rightarrow> unit result \<times> string \<times> 'w world_scheme" where
  "send data ow =
     (case sys_call (snd ow) of (Inl e, w) \<Rightarrow> (Inl e, fst ow, w) | (Inr _, w) \<Rightarrow> (Inr (), fst ow @ data, w))"

text \<open>One sealed frame: its length in four bytes, then the ciphertext.\<close>

definition send_frame ::
    "crypto_env \<Rightarrow> string \<Rightarrow> string \<Rightarrow> 64 word \<Rightarrow> string \<Rightarrow> string \<times> 'w world_scheme \<Rightarrow> unit result \<times> string \<times> 'w world_scheme" where
  "send_frame C key base counter chunk ow =
     (let sealed = ce_seal C key (deriveChunkNonce base counter) chunk in
      case send (be_bytes 4 (length sealed mod 2 ^ 32)) ow of
        (Inl e, ow) \<Rightarrow> (Inl (ErrWrap ''write chunk len'' e), ow)
      | (Inr _, ow) \<Rightarrow>
          (case send sealed ow of (Inl e, ow) \<Rightarrow> (Inl (ErrWrap ''write chunk'' e), ow) | (Inr _, ow) \<Rightarrow> (Inr (), ow)))"

text \<open>The loop over the plaintext that is left.  \<open>broken\<close> says that the reader fails after it instead
  of reporting its end.\<close>

function send_chunks ::
    "crypto_env \<Rightarrow> string \<Rightarrow> string \<Rightarrow> 64 word \<Rightarrow> string \<Rightarrow> go_error option \<Rightarrow> string \<times> 'w world_scheme \<Rightarrow>
     unit result \<times> string \<times> 'w world_scheme" where
  "send_chunks C key base counter data broken ow =
     (if streamingChunk \<le> length data then
        (case send_frame C key base counter (take streamingChunk data) ow of
           (Inl e, ow) \<Rightarrow> (Inl e, ow)
         | (Inr _, ow) \<Rightarrow> send_chunks C key base (counter + 1) (drop streamingChunk data) broken ow)
      else case broken of
          Some e \<Rightarrow> (Inl (ErrWrap ''read plaintext'' e), ow)
        | None \<Rightarrow> if data = '''' then (Inr (), ow) else send_frame C key base counter data ow)"
  by pat_completeness auto
termination by (relation "measure (\<lambda>(_, _, _, _, data, _, _). length data)") (auto simp: streamingChunk_def)

declare send_chunks.simps [simp del]

definition EncryptStream ::
    "crypto_env \<Rightarrow> string \<Rightarrow> go_error option \<Rightarrow> string \<Rightarrow> 'w world_scheme \<Rightarrow> unit result \<times> string \<times> 'w world_scheme" where
  "EncryptStream C data broken password w =
     (case rand_bytes encV2Salt w of
        (Inl e, w) \<Rightarrow> (Inl (ErrWrap ''generate salt'' e), '''', w)
      | (Inr salt, w) \<Rightarrow>
          (case send (encV2Magic @ salt) ('''', w) of
             (Inl e, ow) \<Rightarrow> (Inl (ErrWrap ''write header'' e), ow)
           | (Inr _, ow) \<Rightarrow>
               (case rand_bytes encV2Nonce (snd ow) of
                  (Inl e, w) \<Rightarrow> (Inl (ErrWrap ''generate nonce'' e), fst ow, w)
                | (Inr baseNonce, w) \<Rightarrow>
                    (case send baseNonce (fst ow, w) of
                       (Inl e, ow) \<Rightarrow> (Inl (ErrWrap ''write nonce'' e), ow)
                     | (Inr _, ow) \<Rightarrow>
                         (case send_chunks C (deriveKeyArgon2id C password salt) baseNonce 0 data broken ow of
                            (Inl e, ow) \<Rightarrow> (Inl e, ow)
                          | (Inr _, ow) \<Rightarrow>
                              (case send (be_bytes 4 0) ow of
                                 (Inl e, ow) \<Rightarrow> (Inl (ErrWrap ''write EOF marker'' e), ow) | (Inr _, ow) \<Rightarrow> (Inr (), ow)))))))"

text \<open>The reader of the envelope gives the bytes of \<open>input\<close> and then its end.  The result carries the
  plaintext written so far.\<close>

function open_chunks :: "crypto_env \<Rightarrow> string \<Rightarrow> string \<Rightarrow> 64 word \<Rightarrow> string \<Rightarrow> string \<Rightarrow> unit result \<times> string" where
  "open_chunks C key base counter input out =
     (if length input < 4 then (Inl (ErrText ''read chunk len''), out)
      else let chunkLen = be_value (take 4 input); rest = drop 4 input in
        if chunkLen = 0 then (Inr (), out)
        else if length rest < chunkLen then (Inl (ErrText ''read chunk''), out)
        else case ce_open C key (deriveChunkNonce base counter) (take chunkLen rest) of
            None \<Rightarrow> (Inl (ErrText ''decrypt chunk''), out)
          | Some plain \<Rightarrow> open_chunks C key base (counter + 1) (drop chunkLen rest) (out @ plain))"
  by pat_completeness auto
termination by (relation "measure (\<lambda>(_, _, _, _, input, _). length input)") auto

declare open_chunks.simps [simp del]

definition DecryptStream :: "crypto_env \<Rightarrow> string \<Rightarrow> string \<Rightarrow> unit result \<times> string" where
  "DecryptStream C input password =
     (let n = length encV2Magic in
      if length input < n + encV2Salt + encV2Nonce then (Inl (ErrText ''read header''), '''')
      else if take n input \<noteq> encV2Magic then (Inl (ErrText ''not a streaming envelope''), '''')
      else let salt = take encV2Salt (drop n input); baseNonce = take encV2Nonce (drop (n + encV2Salt) input) in
        open_chunks C (deriveKeyArgon2id C password salt) baseNonce 0 (drop (n + encV2Salt + encV2Nonce) input) '''')"

end
