(* ===== verification/CryptoSafety.thy ===== *)
theory CryptoSafety
  imports Crypto "HOL-Library.Sublist"
begin

text \<open>
  What encryption guarantees over any authenticated cipher: values and streams decrypt to what was
  encrypted, no two chunks of a stream share a nonce, and a truncated download is noticed.
\<close>

section \<open>Base64\<close>

lemma position_nth: "distinct xs \<Longrightarrow> i < length xs \<Longrightarrow> position (xs ! i) xs = Some i"
proof (induction xs arbitrary: i)
  case (Cons x xs)
  then show ?case by (cases i) auto
qed simp

lemma b64_distinct: "distinct b64_alphabet" "length b64_alphabet = 64"
    "CHR ''='' \<notin> set b64_alphabet" "CHR 0x0A \<notin> set b64_alphabet" "CHR 0x0D \<notin> set b64_alphabet"
  by code_simp+

lemma b64_val_char [simp]: "b64_val (b64_char n) = Some (n mod 64)"
  unfolding b64_val_def b64_char_def by (rule position_nth) (simp_all add: b64_distinct)

lemma b64_char_set: "b64_char n \<in> set b64_alphabet"
  unfolding b64_char_def by (rule nth_mem) (simp add: b64_distinct)

lemma b64_char_neq [simp]: "b64_char n \<noteq> CHR ''=''" "b64_char n \<noteq> CHR 0x0A" "b64_char n \<noteq> CHR 0x0D"
  using b64_char_set [of n] b64_distinct by metis+

lemma char_of_ord: "n = ord c \<Longrightarrow> char_of (n mod 256) = c"
  by simp

lemma ord_less: "ord c < 256" by (rule nat_of_char_less_256)

lemma six_bits: "a < 256 \<Longrightarrow> b < 16 \<Longrightarrow> a div 4 mod 64 * 4 + (a mod 4 * 16 + b) mod 64 div 16 = (a :: nat)"
proof -
  assume "a < 256" "b < 16"
  then have "a div 4 < 64" "a mod 4 * 16 + b < 64" "(a mod 4 * 16 + b) div 16 = a mod 4" by auto
  then show ?thesis by simp
qed

lemma four_bits: "b < 256 \<Longrightarrow> c < 4 \<Longrightarrow> a < 4 \<Longrightarrow>
    (a * 16 + b div 16) mod 64 mod 16 * 16 + (b mod 16 * 4 + c) mod 64 div 4 = (b :: nat)"
proof -
  assume "b < 256" "c < 4" "a < 4"
  then have "a * 16 + b div 16 < 64" "(a * 16 + b div 16) mod 16 = b div 16" "b mod 16 * 4 + c < 64" "(b mod 16 * 4 + c) div 4 = b mod 16"
    by auto
  then show ?thesis by simp
qed

lemma two_bits: "c < 256 \<Longrightarrow> b < 16 \<Longrightarrow> (b * 4 + c div 64) mod 64 mod 4 * 64 + c mod 64 mod 64 = (c :: nat)"
proof -
  assume "c < 256" "b < 16"
  then have "b * 4 + c div 64 < 64" "(b * 4 + c div 64) mod 4 = c div 64" by auto
  then show ?thesis by simp
qed

lemma b64_back:
  "b64_two (b64_char (ord a div 4)) (b64_char (ord a mod 4 * 16)) = Some [a]"
  "b64_three (b64_char (ord a div 4)) (b64_char (ord a mod 4 * 16 + ord b div 16)) (b64_char (ord b mod 16 * 4)) = Some [a, b]"
  "b64_four (b64_char (ord a div 4)) (b64_char (ord a mod 4 * 16 + ord b div 16)) (b64_char (ord b mod 16 * 4 + ord c div 64))
     (b64_char (ord c mod 64)) = Some [a, b, c]"
proof -
  have lt: "ord a < 256" "ord b < 256" "ord c < 256" by (rule ord_less)+
  have "ord b div 16 < 16" "ord c div 64 < 4" "ord a mod 4 < 4" "ord b mod 16 < 16"
    using lt by (simp_all add: less_mult_imp_div_less)
  note six = six_bits [OF lt(1) this(1)] and four = four_bits [OF lt(2) this(2,3)] and two = two_bits [OF lt(3) this(4)]
  have six0: "ord a div 4 mod 64 * 4 + (ord a mod 4 * 16) mod 64 div 16 = ord a" using six_bits [OF lt(1), of 0] by simp
  have four0: "(ord a mod 4 * 16 + ord b div 16) mod 64 mod 16 * 16 + (ord b mod 16 * 4) mod 64 div 4 = ord b"
    using four_bits [OF lt(2), of 0 "ord a mod 4"] by simp
  note s = b64_val_char option.case prod.case char_of_mod_256 char_of_char
  show "b64_two (b64_char (ord a div 4)) (b64_char (ord a mod 4 * 16)) = Some [a]"
    unfolding b64_two_def by (simp only: s six0)
  show "b64_three (b64_char (ord a div 4)) (b64_char (ord a mod 4 * 16 + ord b div 16)) (b64_char (ord b mod 16 * 4)) = Some [a, b]"
    unfolding b64_three_def by (simp only: s six four0)
  show "b64_four (b64_char (ord a div 4)) (b64_char (ord a mod 4 * 16 + ord b div 16)) (b64_char (ord b mod 16 * 4 + ord c div 64))
     (b64_char (ord c mod 64)) = Some [a, b, c]"
    unfolding b64_four_def by (simp only: s six four two)
qed

lemma b64_groups_encode: "b64_groups (b64_encode s) = Some s"
  by (induction s rule: b64_encode.induct) (simp_all add: b64_back)

lemma b64_encode_set: "set (b64_encode s) \<subseteq> insert (CHR ''='') (set b64_alphabet)"
  by (induction s rule: b64_encode.induct) (auto simp: b64_char_set)

lemma base64_round_trip: "b64_decode (b64_encode s) = Some s"
proof -
  have "filter (\<lambda>c. c \<noteq> CHR 0x0A \<and> c \<noteq> CHR 0x0D) (b64_encode s) = b64_encode s"
    using b64_encode_set [of s] b64_distinct by (intro filter_True) auto
  then show ?thesis by (simp add: b64_decode_def b64_groups_encode)
qed

section \<open>The cipher\<close>

text \<open>What AES-GCM documents: opening with the same key and nonce gives back what was sealed, and the
  sealed text is sixteen bytes longer.\<close>

definition aead_lawful :: "crypto_env \<Rightarrow> bool" where
  "aead_lawful C \<longleftrightarrow> (\<forall>k n p. ce_open C k n (ce_seal C k n p) = Some p \<and> length (ce_seal C k n p) = length p + 16)"

lemma rand_bytes_post:
  "rand_bytes n w = (r, w') \<Longrightarrow> w' = tick w \<and> (\<forall>bs. r = Inr bs \<longrightarrow> length bs = n)"
  by (auto simp: rand_bytes_def dest!: sys_call_tick split: prod.splits sum.splits)

lemma Encrypt_post:
  assumes "Encrypt C p key w = (Inr v, w')" "aead_lawful C"
  shows "IsEncrypted v \<and> Decrypt C v key = Inr p"
proof -
  obtain nonce where n: "v = encPrefix @ b64_encode (nonce @ ce_seal C (deriveKey C key) nonce p)" "length nonce = encV2Nonce"
    using assms(1) rand_bytes_post [of encV2Nonce w] by (auto simp: Encrypt_def split: prod.splits sum.splits)
  then show ?thesis
    using assms(2) by (simp add: IsEncrypted_def Decrypt_def HasPrefix_def TrimPrefix_def base64_round_trip aead_lawful_def)
qed

text \<open>A value encrypted at rest carries the prefix and decrypts, with the same key, to the
  plaintext.\<close>

theorem encrypt_round_trip:
  assumes "aead_lawful C" "Encrypt C p key w = (Inr v, w')"
  shows "IsEncrypted v \<and> Decrypt C v key = Inr p"
  using Encrypt_post [OF assms(2,1)] .

section \<open>Binary encodings\<close>

lemma be_bytes_length [simp]: "length (be_bytes n v) = n"
  by (simp add: be_bytes_def)

lemma be_bytes_Suc: "be_bytes (Suc n) v = be_bytes n (v div 256) @ [char_of (v mod 256)]"
proof -
  have "v div 256 ^ (Suc n - Suc i) mod 256 = v div 256 div 256 ^ (n - Suc i) mod 256" if "i < n" for i
  proof -
    have "Suc n - Suc i = Suc (n - Suc i)" using that by simp
    then show ?thesis by (simp add: div_mult2_eq)
  qed
  then show ?thesis unfolding be_bytes_def by simp
qed

lemma be_value_snoc: "be_value (s @ [c]) = 256 * be_value s + ord c"
  by (simp add: be_value_def)

lemma be_round_trip: "v < 256 ^ n \<Longrightarrow> be_value (be_bytes n v) = v"
proof (induction n arbitrary: v)
  case 0
  then show ?case by (simp add: be_bytes_def be_value_def)
next
  case (Suc n)
  then have "v div 256 < 256 ^ n" by (simp add: less_mult_imp_div_less mult.commute)
  then show ?case using Suc.IH by (simp add: be_bytes_Suc be_value_snoc)
qed

text \<open>The nonces of a stream's chunks are twelve bytes, and two chunks share one only if their
  64-bit counters are equal.\<close>

theorem chunk_nonces_distinct:
  assumes "length base = encV2Nonce"
  shows "length (deriveChunkNonce base i) = encV2Nonce \<and> (deriveChunkNonce base i = deriveChunkNonce base j \<longleftrightarrow> i = j)"
proof -
  have "unat x < 256 ^ 8" for x :: "64 word" by (rule order_less_le_trans [OF unsigned_less]) simp
  then have v: "be_value (be_bytes 8 (unat x)) = unat x" for x :: "64 word" by (rule be_round_trip)
  have "unat i = unat j" if "be_bytes 8 (unat i) = be_bytes 8 (unat j)" using that v by metis
  then have "i = j" if "be_bytes 8 (unat i) = be_bytes 8 (unat j)" using that word_eq_iff_unsigned by blast
  then show ?thesis using assms by (auto simp: deriveChunkNonce_def encV2Nonce_def)
qed

theorem chunk_nonces_distinct_witness:
  "deriveChunkNonce ''abcdefghijkl'' 1 \<noteq> deriveChunkNonce ''abcdefghijkl'' 2"
  using chunk_nonces_distinct [of "''abcdefghijkl''" 1 2] by (simp add: encV2Nonce_def)

section \<open>Streams\<close>

text \<open>The frames of a plaintext, without the writes.\<close>

definition frame :: "crypto_env \<Rightarrow> string \<Rightarrow> string \<Rightarrow> 64 word \<Rightarrow> string \<Rightarrow> string" where
  "frame C key base counter chunk =
     (let sealed = ce_seal C key (deriveChunkNonce base counter) chunk in be_bytes 4 (length sealed mod 2 ^ 32) @ sealed)"

function frames :: "crypto_env \<Rightarrow> string \<Rightarrow> string \<Rightarrow> 64 word \<Rightarrow> string \<Rightarrow> string" where
  "frames C key base counter data =
     (if data = '''' then '''' else frame C key base counter (take streamingChunk data) @ frames C key base (counter + 1) (drop streamingChunk data))"
  by pat_completeness auto
termination by (relation "measure (\<lambda>(_, _, _, _, data). length data)") (auto simp: streamingChunk_def)

declare frames.simps [simp del]

lemma send_post:
  "send d ow = (r, ow') \<Longrightarrow> snd ow' = tick (snd ow) \<and> (r = Inr () \<longrightarrow> fst ow' = fst ow @ d)"
  by (cases ow) (auto simp: send_def dest!: sys_call_tick split: prod.splits sum.splits)

lemma send_frame_post: "send_frame C key base c chunk ow = (Inr (), ow') \<Longrightarrow> fst ow' = fst ow @ frame C key base c chunk"
  by (auto simp: send_frame_def frame_def Let_def dest!: send_post split: prod.splits sum.splits)

lemma send_chunks_post:
  "send_chunks C key base c data broken ow = (Inr (), ow') \<Longrightarrow> fst ow' = fst ow @ frames C key base c data"
proof (induction C key base c data broken ow rule: send_chunks.induct)
  case (1 C key base c data broken ow)
  show ?case
  proof (cases "streamingChunk \<le> length data")
    case True
    then obtain ow1 where s: "send_frame C key base c (take streamingChunk data) ow = (Inr (), ow1)"
        "send_chunks C key base (c + 1) (drop streamingChunk data) broken ow1 = (Inr (), ow')"
      using 1(2) by (subst (asm) send_chunks.simps) (auto split: prod.splits sum.splits)
    have "data \<noteq> ''''" using True by (auto simp: streamingChunk_def)
    then show ?thesis
      using 1(1) [OF True s(1) [symmetric] HOL.refl s(2)] send_frame_post [OF s(1)] by (subst frames.simps) (cases ow1, simp)
  next
    case False
    then have s: "broken = None" "if data = '''' then ow' = ow else send_frame C key base c data ow = (Inr (), ow')"
      using 1(2) by (subst (asm) send_chunks.simps, auto split: option.splits if_splits)+
    show ?thesis
    proof (cases "data = ''''")
      case True
      then show ?thesis using s(2) by (simp add: frames.simps)
    next
      case no: False
      have "frames C key base c data = frame C key base c data"
        using no False by (subst frames.simps) (simp add: frames.simps)
      then show ?thesis using s(2) no send_frame_post by fastforce
    qed
  qed
qed

lemma EncryptStream_post:
  assumes "EncryptStream C data broken password w = (Inr (), out, w')"
  shows "\<exists>salt base. length salt = encV2Salt \<and> length base = encV2Nonce \<and>
     out = encV2Magic @ salt @ base @ frames C (deriveKeyArgon2id C password salt) base 0 data @ be_bytes 4 0"
proof -
  obtain salt w1 where a: "rand_bytes encV2Salt w = (Inr salt, w1)"
    using assms by (cases "rand_bytes encV2Salt w"; cases "fst (rand_bytes encV2Salt w)") (auto simp: EncryptStream_def)
  obtain r2 o2 w2 where b: "send (encV2Magic @ salt) ('''', w1) = (r2, o2, w2)" by (metis surj_pair)
  obtain r3 w3 where c: "rand_bytes encV2Nonce w2 = (r3, w3)" by force
  have r: "r2 = Inr ()" "\<exists>base. r3 = Inr base" using assms a b c by (cases r2; cases r3; auto simp: EncryptStream_def)+
  then obtain base where base: "r3 = Inr base" by blast
  obtain r4 ow4 where d: "send base (o2, w3) = (r4, ow4)" by (meson prod.exhaust)
  obtain r5 ow5 where e: "send_chunks C (deriveKeyArgon2id C password salt) base 0 data broken ow4 = (r5, ow5)" by (meson prod.exhaust)
  obtain r6 ow6 where f: "send (be_bytes 4 0) ow5 = (r6, ow6)" by (meson prod.exhaust)
  have "r4 = Inr ()" "r5 = Inr ()" "r6 = Inr ()" "ow6 = (out, w')"
    using assms a b c d e f r base by (cases r4; cases r5; cases r6; auto simp: EncryptStream_def)+
  then have "out = (encV2Magic @ salt) @ base @ frames C (deriveKeyArgon2id C password salt) base 0 data @ be_bytes 4 0"
    using send_post [OF b] send_post [OF d] send_chunks_post [of C _ base 0 data broken ow4 ow5] e send_post [OF f] r(1) by auto
  then show ?thesis using rand_bytes_post [OF a] rand_bytes_post [OF c] base by auto
qed

lemma take_drop_frame:
  assumes "aead_lawful C" "0 < length chunk" "length chunk \<le> streamingChunk"
  shows "open_chunks C key base c (frame C key base c chunk @ rest) out = open_chunks C key base (c + 1) rest (out @ chunk)"
proof -
  let ?s = "ce_seal C key (deriveChunkNonce base c) chunk"
  have l: "length ?s = length chunk + 16" "ce_open C key (deriveChunkNonce base c) ?s = Some chunk"
    using assms(1) unfolding aead_lawful_def by blast+
  have lt: "length ?s < 2 ^ 32" using l(1) assms(3) by (simp add: streamingChunk_def)
  then have "be_value (be_bytes 4 (length ?s mod 2 ^ 32)) = length ?s" using be_round_trip [of "length ?s" 4] by simp
  then show ?thesis
    using l assms(2) by (subst open_chunks.simps) (simp add: frame_def Let_def)
qed

lemma open_frames:
  "aead_lawful C \<Longrightarrow> open_chunks C key base c (frames C key base c data @ be_bytes 4 0) out = (Inr (), out @ data)"
proof (induction C key base c data arbitrary: out rule: frames.induct)
  case (1 C key base c data)
  show ?case
  proof (cases "data = ''''")
    case True
    have "be_value (be_bytes 4 0) = 0" by (rule be_round_trip) simp
    then show ?thesis using True by (subst open_chunks.simps) (simp add: frames.simps)
  next
    case False
    then have "0 < length (take streamingChunk data)" "length (take streamingChunk data) \<le> streamingChunk"
      by (auto simp: streamingChunk_def)
    from take_drop_frame [OF 1(2) this] 1(1) [OF False 1(2)] show ?thesis
      using False by (subst frames.simps) simp
  qed
qed

lemma DecryptStream_split:
  "length salt = encV2Salt \<Longrightarrow> length base = encV2Nonce \<Longrightarrow>
   DecryptStream C (encV2Magic @ salt @ base @ rest) password = open_chunks C (deriveKeyArgon2id C password salt) base 0 rest ''''"
  by (simp add: DecryptStream_def Let_def)

text \<open>Without a failing call and with a reader that delivers everything the encryption succeeds.\<close>

lemma send_ok: "(\<And>n. faults (snd ow) n = None) \<Longrightarrow> send d ow = (Inr (), fst ow @ d, tick (snd ow))"
  by (simp add: send_def sys_call_def)

lemma send_frame_ok:
  assumes "\<And>n. faults (snd ow) n = None"
  shows "\<exists>o' w'. send_frame C key base c chunk ow = (Inr (), o', w') \<and> (\<forall>n. faults w' n = None)"
  using assms by (simp add: send_frame_def Let_def send_ok)

lemma send_chunks_ok:
  "(\<And>n. faults (snd ow) n = None) \<Longrightarrow> broken = None \<Longrightarrow>
   \<exists>o' w'. send_chunks C key base c data broken ow = (Inr (), o', w') \<and> (\<forall>n. faults w' n = None)"
proof (induction C key base c data broken ow rule: send_chunks.induct)
  case (1 C key base c data broken ow)
  show ?case
  proof (cases "streamingChunk \<le> length data")
    case True
    obtain o1 w1 where s: "send_frame C key base c (take streamingChunk data) ow = (Inr (), o1, w1)" "\<forall>n. faults w1 n = None"
      using send_frame_ok [OF 1(2)] by blast
    have "\<exists>o' w'. send_chunks C key base (c + 1) (drop streamingChunk data) broken (o1, w1) = (Inr (), o', w') \<and> (\<forall>n. faults w' n = None)"
      by (rule 1(1) [OF True s(1) [symmetric] HOL.refl _ 1(3)]) (use s(2) in simp)
    then show ?thesis using s True by (subst send_chunks.simps) simp
  next
    case False
    then show ?thesis
      using send_frame_ok [OF 1(2), of C key base c data] 1(2,3) by (cases ow) (subst send_chunks.simps, simp)
  qed
qed

lemma EncryptStream_ok:
  assumes "\<And>n. faults w n = None"
  shows "\<exists>out w'. EncryptStream C data None password w = (Inr (), out, w')"
proof -
  have rnd: "\<exists>b. rand_bytes n v = (Inr b, tick v)" if "faults v = faults w" for n v
    using that assms by (simp add: rand_bytes_def sys_call_def)
  obtain salt where a: "rand_bytes encV2Salt w = (Inr salt, tick w)" using rnd by blast
  obtain base where b: "rand_bytes encV2Nonce (tick (tick w)) = (Inr base, tick (tick (tick w)))"
    using rnd [of "tick (tick w)" encV2Nonce] by auto
  obtain o' w' where c: "send_chunks C (deriveKeyArgon2id C password salt) base 0 data None
      ((encV2Magic @ salt) @ base, tick (tick (tick (tick w)))) = (Inr (), o', w')" "\<forall>n. faults w' n = None"
    using send_chunks_ok [of "((encV2Magic @ salt) @ base, tick (tick (tick (tick w))))" None] assms by fastforce
  show ?thesis using assms a b c by (simp add: EncryptStream_def send_ok)
qed

text \<open>C22. A download decrypts to the archive: when the encryption of a stream succeeds, decrypting what
  was sent, with the same password, succeeds and writes exactly the plaintext; and the encryption
  succeeds when no call fails and the archive can be read.\<close>

theorem stream_round_trip:
  assumes "aead_lawful C"
  shows "(EncryptStream C data broken password w = (Inr (), out, w') \<longrightarrow> DecryptStream C out password = (Inr (), data)) \<and>
     ((\<forall>n. faults v n = None) \<longrightarrow> (\<exists>out v'. EncryptStream C data None password v = (Inr (), out, v')))"
proof (intro conjI impI)
  assume "EncryptStream C data broken password w = (Inr (), out, w')"
  then obtain salt base where s: "length salt = encV2Salt" "length base = encV2Nonce"
    "out = encV2Magic @ salt @ base @ frames C (deriveKeyArgon2id C password salt) base 0 data @ be_bytes 4 0"
    using EncryptStream_post by blast
  then show "DecryptStream C out password = (Inr (), data)"
    using open_frames [OF assms, of "deriveKeyArgon2id C password salt" base 0 data "''''"] by (simp add: DecryptStream_split)
qed (use EncryptStream_ok in blast)

definition sample_crypto :: crypto_env where
  "sample_crypto = \<lparr>ce_seal = (\<lambda>k n p. replicate 16 (CHR ''x'') @ p), ce_open = (\<lambda>k n c. Some (drop 16 c)),
     ce_sha256 = (\<lambda>p. p), ce_argon2id = (\<lambda>p s. p)\<rparr>"

definition sample_disk :: world where
  "sample_disk = \<lparr>files = Map.empty, links = (\<lambda>_. False), faults = (\<lambda>_. None), torn = (\<lambda>_. 0), entropy = (\<lambda>n i. n), calls = 0\<rparr>"

lemma sample_lawful: "aead_lawful sample_crypto"
  by (simp add: aead_lawful_def sample_crypto_def)

theorem stream_round_trip_witness:
  "\<exists>out v'. EncryptStream sample_crypto ''ab'' None ''pw'' sample_disk = (Inr (), out, v') \<and>
     DecryptStream sample_crypto out ''pw'' = (Inr (), ''ab'')"
proof -
  have ok: "\<forall>n. faults sample_disk n = None" by (simp add: sample_disk_def)
  note rt = stream_round_trip [OF sample_lawful, where data = "''ab''" and password = "''pw''" and w = sample_disk and v = sample_disk]
  from rt ok obtain out v' where "EncryptStream sample_crypto ''ab'' None ''pw'' sample_disk = (Inr (), out, v')" by blast
  with rt show ?thesis by blast
qed

theorem encrypt_round_trip_witness:
  "\<exists>v w'. Encrypt sample_crypto ''ab'' ''pw'' sample_disk = (Inr v, w') \<and> IsEncrypted v \<and> Decrypt sample_crypto v ''pw'' = Inr ''ab''"
proof -
  obtain v w' where "Encrypt sample_crypto ''ab'' ''pw'' sample_disk = (Inr v, w')"
    using that by (simp add: Encrypt_def rand_bytes_def sys_call_def sample_disk_def)
  then show ?thesis using encrypt_round_trip [OF sample_lawful] by blast
qed

lemma open_truncated:
  "aead_lawful C \<Longrightarrow> k < length (frames C key base c data @ be_bytes 4 0) \<Longrightarrow>
   \<exists>e. fst (open_chunks C key base c (take k (frames C key base c data @ be_bytes 4 0)) out) = Inl e"
proof (induction C key base c data arbitrary: k out rule: frames.induct)
  case (1 C key base c data)
  show ?case
  proof (cases "data = ''''")
    case True
    then show ?thesis using 1(3) by (subst open_chunks.simps) (simp add: frames.simps)
  next
    case False
    let ?chunk = "take streamingChunk data"
    let ?f = "frame C key base c ?chunk" and ?r = "frames C key base (c + 1) (drop streamingChunk data) @ be_bytes 4 0"
    let ?s = "ce_seal C key (deriveChunkNonce base c) ?chunk"
    have e: "frames C key base c data @ be_bytes 4 0 = ?f @ ?r" using False by (subst frames.simps) simp
    have chunk: "0 < length ?chunk" "length ?chunk \<le> streamingChunk" using False by (auto simp: streamingChunk_def)
    have l: "length ?s = length ?chunk + 16" using 1(2) unfolding aead_lawful_def by blast
    then have v: "be_value (be_bytes 4 (length ?s mod 2 ^ 32)) = length ?s"
      using be_round_trip [of "length ?s" 4] chunk(2) by (simp add: streamingChunk_def)
    have f: "?f = be_bytes 4 (length ?s mod 2 ^ 32) @ ?s" by (simp add: frame_def Let_def)
    show ?thesis
    proof (cases "k < length ?f")
      case True
      then have t: "take k (?f @ ?r) = take k (be_bytes 4 (length ?s mod 2 ^ 32) @ ?s)" by (simp add: f)
      show ?thesis
        unfolding e t
      proof (cases "k < 4")
        case True
        then show "\<exists>e. fst (open_chunks C key base c (take k (be_bytes 4 (length ?s mod 2 ^ 32) @ ?s)) out) = Inl e"
          by (subst open_chunks.simps) simp
      next
        case k: False
        have "take 4 (take k (be_bytes 4 (length ?s mod 2 ^ 32) @ ?s)) = be_bytes 4 (length ?s mod 2 ^ 32)" using k by simp
        moreover have "length (drop 4 (take k (be_bytes 4 (length ?s mod 2 ^ 32) @ ?s))) < length ?s" using True k f by simp
        moreover have "\<not> length (take k (be_bytes 4 (length ?s mod 2 ^ 32) @ ?s)) < 4" using k by simp
        ultimately show "\<exists>e. fst (open_chunks C key base c (take k (be_bytes 4 (length ?s mod 2 ^ 32) @ ?s)) out) = Inl e"
          using v l chunk(1) unfolding open_chunks.simps [of C key base c "take k (be_bytes 4 (length ?s mod 2 ^ 32) @ ?s)"]
          by (simp only: Let_def if_False if_True fst_conv) auto
      qed
    next
      case k: False
      then have "take k (?f @ ?r) = ?f @ take (k - length ?f) ?r" by simp
      moreover have "k - length ?f < length ?r" using 1(3) k e by simp
      ultimately show ?thesis
        unfolding e using 1(1) [OF False 1(2), of "k - length ?f" "out @ ?chunk"] by (simp only: take_drop_frame [OF 1(2) chunk])
    qed
  qed
qed

text \<open>C23. A truncated download is noticed: no proper prefix of an encrypted stream decrypts
  successfully.\<close>

theorem truncation_detected:
  assumes "aead_lawful C" "EncryptStream C data broken password w = (Inr (), out, w')" "k < length out"
  shows "\<exists>e. fst (DecryptStream C (take k out) password) = Inl e"
proof -
  obtain salt base where s: "length salt = encV2Salt" "length base = encV2Nonce"
    "out = encV2Magic @ salt @ base @ frames C (deriveKeyArgon2id C password salt) base 0 data @ be_bytes 4 0"
    using EncryptStream_post [OF assms(2)] by blast
  let ?n = "length encV2Magic + encV2Salt + encV2Nonce"
  show ?thesis
  proof (cases "k < ?n")
    case True
    then have "length (take k out) < ?n" using assms(3) by simp
    then show ?thesis unfolding DecryptStream_def Let_def by (simp only: if_True fst_conv) blast
  next
    case False
    then have "take k out = encV2Magic @ salt @ base @ take (k - ?n) (frames C (deriveKeyArgon2id C password salt) base 0 data @ be_bytes 4 0)"
      using s by simp
    moreover have "k - ?n < length (frames C (deriveKeyArgon2id C password salt) base 0 data @ be_bytes 4 0)"
      using assms(3) s False by simp
    ultimately show ?thesis using open_truncated [OF assms(1)] s(1,2) by (simp only: DecryptStream_split)
  qed
qed

theorem truncation_detected_witness:
  "\<exists>out w'. EncryptStream sample_crypto ''ab'' None ''pw'' sample_disk = (Inr (), out, w') \<and>
     (\<exists>e. fst (DecryptStream sample_crypto (take (length out - 1) out) ''pw'') = Inl e)"
proof -
  obtain out w' where o: "EncryptStream sample_crypto ''ab'' None ''pw'' sample_disk = (Inr (), out, w')"
    using EncryptStream_ok [of sample_disk sample_crypto "''ab''" "''pw''"] by (auto simp: sample_disk_def)
  have "length out - 1 < length out" using EncryptStream_post [OF o] by auto
  then show ?thesis using truncation_detected [OF sample_lawful o] o by blast
qed

end
