(* ===== verification/Http.thy ===== *)
theory Http
  imports Errors
begin

text \<open>
  Request plumbing shared by the handlers: the body cap of src/internal/middleware/bodycap.go, the per-IP
  throttle of src/internal/middleware/throttle.go and the decoders of src/internal/handler/decode.go.
\<close>

section \<open>Body limits\<close>

record BodyLimitConfig =
  bc_DefaultLimit :: int
  bc_Overrides :: "string \<rightharpoonup> int"

definition DefaultBodyLimit :: int where "DefaultBodyLimit = 2 ^ 20"

definition DefaultBodyLimitConfig :: BodyLimitConfig where
  "DefaultBodyLimitConfig = \<lparr>bc_DefaultLimit = DefaultBodyLimit,
     bc_Overrides = [''POST /api/env/bulk'' \<mapsto> 5 * 2 ^ 20, ''PUT /api/env/dotenv'' \<mapsto> 5 * 2 ^ 20,
       ''POST /api/settings/raw'' \<mapsto> 2 * 2 ^ 20, ''POST /api/ai/analyze/flow'' \<mapsto> 5 * 2 ^ 20]\<rparr>"

text \<open>\<open>BodyLimitMiddleware\<close>: the number of bytes the handler may read, or none for a multipart body.\<close>

definition BodyLimitMiddleware :: "BodyLimitConfig \<Rightarrow> string \<Rightarrow> string \<Rightarrow> string \<Rightarrow> int option" where
  "BodyLimitMiddleware cfg meth path contentType =
     (let defaultLimit = (if bc_DefaultLimit cfg \<le> 0 then DefaultBodyLimit else bc_DefaultLimit cfg) in
      if HasPrefix (ToLower (TrimSpace contentType)) ''multipart/'' then None
      else case bc_Overrides cfg (meth @ '' '' @ path) of
          Some limit \<Rightarrow> Some (if limit > 0 then limit else defaultLimit)
        | None \<Rightarrow> Some defaultLimit)"

section \<open>Decoding\<close>

text \<open>A body as a JSON decoder meets it: how many bytes it has to see before it can answer, and the answer
  (nothing there, a syntax or type error, or a value).\<close>

datatype 'b answer = AtEOF | Garbled | Parsed 'b

record 'b body =
  bd_needs :: nat
  bd_answer :: "'b answer"

text \<open>What the decoders make of it: a value, the zero value of an empty body, or the response status they
  have written.\<close>

datatype 'b decoding = Value 'b | ZeroValue | Responded nat

definition too_large :: "int option \<Rightarrow> 'b body \<Rightarrow> bool" where
  "too_large limit b \<longleftrightarrow> (case limit of None \<Rightarrow> False | Some n \<Rightarrow> int (bd_needs b) > n)"

definition DecodeJSON_limited :: "int option \<Rightarrow> 'b body \<Rightarrow> 'b decoding" where
  "DecodeJSON_limited limit b =
     (if too_large limit b then Responded 413
      else case bd_answer b of Parsed x \<Rightarrow> Value x | _ \<Rightarrow> Responded 400)"

definition DecodeJSONOptional :: "int option \<Rightarrow> 'b body \<Rightarrow> 'b decoding" where
  "DecodeJSONOptional limit b =
     (if too_large limit b then Responded 413
      else case bd_answer b of Parsed x \<Rightarrow> Value x | AtEOF \<Rightarrow> ZeroValue | Garbled \<Rightarrow> Responded 400)"

definition DecodeJSONBestEffort :: "int option \<Rightarrow> 'b body \<Rightarrow> 'b decoding" where
  "DecodeJSONBestEffort limit b =
     (if too_large limit b then Responded 413
      else case bd_answer b of Parsed x \<Rightarrow> Value x | _ \<Rightarrow> ZeroValue)"

section \<open>The throttle\<close>

record window =
  wi_count :: int
  wi_start :: int

record throttle =
  th_hits :: "string \<rightharpoonup> window"
  th_limit :: int
  th_period :: int

text \<open>\<open>allow\<close>: windows that are over are swept, then the client's window counts the request.  The result says
  whether it is blocked and for how long.\<close>

definition sweep :: "int \<Rightarrow> int \<Rightarrow> (string \<rightharpoonup> window) \<Rightarrow> (string \<rightharpoonup> window)" where
  "sweep now period hits = (\<lambda>k. case hits k of None \<Rightarrow> None | Some win \<Rightarrow> if now - wi_start win \<ge> period then None else Some win)"

definition allow :: "int \<Rightarrow> string \<Rightarrow> throttle \<Rightarrow> (bool \<times> int) \<times> throttle" where
  "allow now ip t =
     (let hits = sweep now (th_period t) (th_hits t) in
      case hits ip of
        None \<Rightarrow> ((False, 0), t\<lparr>th_hits := hits(ip \<mapsto> \<lparr>wi_count = 1, wi_start = now\<rparr>)\<rparr>)
      | Some win \<Rightarrow>
          (let win = win\<lparr>wi_count := wi_count win + 1\<rparr>; t = t\<lparr>th_hits := hits(ip \<mapsto> win)\<rparr> in
           if wi_count win > th_limit t then ((True, th_period t - (now - wi_start win)), t) else ((False, 0), t)))"

text \<open>\<open>RateLimitIP\<close>: a request of \<open>ip\<close> at \<open>now\<close> passes or is answered 429.\<close>

definition RateLimitIP :: "int \<Rightarrow> string \<Rightarrow> throttle \<Rightarrow> int option \<times> throttle" where
  "RateLimitIP now ip t = (case allow now ip t of ((blocked, retry), t) \<Rightarrow> (if blocked then Some retry else None, t))"

definition new_throttle :: "int \<Rightarrow> int \<Rightarrow> throttle" where
  "new_throttle limit period = \<lparr>th_hits = Map.empty, th_limit = limit, th_period = period\<rparr>"

text \<open>The verdicts on a sequence of requests (time and client): which ones pass.\<close>

fun passes :: "(int \<times> string) list \<Rightarrow> throttle \<Rightarrow> bool list" where
  "passes [] t = []"
| "passes ((now, ip) # rs) t = (case RateLimitIP now ip t of (r, t') \<Rightarrow> (r = None) # passes rs t')"

section \<open>What the throttle admits\<close>

text \<open>A reference: the windows of one client, from its own requests alone.  \<open>w\<close> is the start of the current
  window and the requests counted in it.\<close>

fun reference :: "int \<Rightarrow> int \<Rightarrow> (int \<times> int) option \<Rightarrow> int list \<Rightarrow> bool list" where
  "reference limit period cur [] = []"
| "reference limit period cur (now # ts) =
     (case cur of
        None \<Rightarrow> True # reference limit period (Some (now, 1)) ts
      | Some (st, n) \<Rightarrow>
          if now - st \<ge> period then True # reference limit period (Some (now, 1)) ts
          else (n + 1 \<le> limit) # reference limit period (Some (st, n + 1)) ts)"

definition window_of :: "window option \<Rightarrow> (int \<times> int) option" where
  "window_of win = map_option (\<lambda>w. (wi_start w, wi_count w)) win"

text \<open>The verdicts for one client among those for everybody.\<close>

definition verdicts_of :: "string \<Rightarrow> (int \<times> string) list \<Rightarrow> bool list \<Rightarrow> bool list" where
  "verdicts_of ip rs vs = map snd (filter (\<lambda>(r, _). snd r = ip) (zip rs vs))"

text \<open>A window that is over at the current time counts as none.\<close>

definition effective :: "int \<Rightarrow> int \<Rightarrow> (int \<times> int) option \<Rightarrow> (int \<times> int) option" where
  "effective now period cur = (case cur of None \<Rightarrow> None | Some (st, n) \<Rightarrow> if now - st \<ge> period then None else Some (st, n))"

lemma reference_effective:
  "sorted ts \<Longrightarrow> (\<forall>t\<in>set ts. now \<le> t) \<Longrightarrow> reference limit period (effective now period cur) ts = reference limit period cur ts"
  by (cases ts; cases cur) (auto simp: effective_def)

lemma allow_fields: "allow now ip t = (v, t') \<Longrightarrow> th_limit t' = th_limit t \<and> th_period t' = th_period t"
  by (auto simp: allow_def Let_def split: option.splits if_splits)

lemma allow_other: "allow now ip t = (v, t') \<Longrightarrow> k \<noteq> ip \<Longrightarrow>
    window_of (th_hits t' k) = effective now (th_period t) (window_of (th_hits t k))"
  by (auto simp: allow_def Let_def sweep_def window_of_def effective_def split: option.splits if_splits)

lemma allow_self:
  assumes "allow now ip t = ((blocked, retry), t')"
  shows "reference (th_limit t) (th_period t) (window_of (th_hits t ip)) (now # ts) =
     (\<not> blocked) # reference (th_limit t) (th_period t) (window_of (th_hits t' ip)) ts"
  using assms
  by (auto simp: allow_def Let_def sweep_def window_of_def not_less not_le split: option.splits if_splits)

lemma throttle_reference:
  assumes "sorted (map fst rs)" "\<forall>r\<in>set rs. now \<le> fst r"
  shows "verdicts_of ip rs (passes rs t) =
     reference (th_limit t) (th_period t) (window_of (th_hits t ip)) (map fst (filter (\<lambda>r. snd r = ip) rs))"
  using assms
proof (induction rs arbitrary: t now)
  case Nil then show ?case by (simp add: verdicts_of_def)
next
  case (Cons r rs)
  obtain tm k where r: "r = (tm, k)" by (cases r)
  obtain blocked retry t' where a: "allow tm k t = ((blocked, retry), t')" by (metis prod.exhaust)
  have later: "\<forall>x\<in>set (map fst (filter (\<lambda>r. snd r = ip) rs)). tm \<le> x" "sorted (map fst (filter (\<lambda>r. snd r = ip) rs))"
    using Cons.prems(1) by (auto simp: r sorted_filter)
  have ih: "verdicts_of ip rs (passes rs t') =
     reference (th_limit t) (th_period t) (window_of (th_hits t' ip)) (map fst (filter (\<lambda>r. snd r = ip) rs))"
    using Cons.IH [of tm t'] Cons.prems(1) allow_fields [OF a] by (auto simp: r)
  show ?case
  proof (cases "k = ip")
    case True
    then show ?thesis using ih allow_self [OF a [unfolded True]] a by (simp add: r verdicts_of_def RateLimitIP_def)
  next
    case False
    then have "window_of (th_hits t' ip) = effective tm (th_period t) (window_of (th_hits t ip))"
      using allow_other [OF a, of ip] by simp
    then show ?thesis
      using ih False a reference_effective [OF later(2,1)] by (simp add: r verdicts_of_def RateLimitIP_def)
  qed
qed

text \<open>C30. The throttle with its shared table and its sweep answers every client as if it were alone: the
  verdicts on its requests are those of a fixed-window counter that starts with the first request after
  the previous window ended and admits \<open>limit\<close> requests per window (and always the first).\<close>

theorem throttle_is_fixed_window:
  assumes "sorted (map fst rs)"
  shows "verdicts_of ip rs (passes rs (new_throttle limit period)) =
     reference limit period None (map fst (filter (\<lambda>r. snd r = ip) rs))"
proof (cases rs)
  case Nil then show ?thesis by (simp add: verdicts_of_def)
next
  case (Cons r rs')
  then have "\<forall>x\<in>set rs. fst r \<le> fst x" using assms by auto
  from throttle_reference [OF assms this] show ?thesis by (simp add: new_throttle_def window_of_def)
qed

theorem throttle_is_fixed_window_witness:
  "verdicts_of ''a'' [(0, ''a''), (1, ''b''), (2, ''a''), (3, ''a''), (60, ''a'')]
     (passes [(0, ''a''), (1, ''b''), (2, ''a''), (3, ''a''), (60, ''a'')] (new_throttle 2 60)) = [True, True, False, True]"
  using throttle_is_fixed_window [of "[(0, ''a''), (1, ''b''), (2, ''a''), (3, ''a''), (60, ''a'')]" "''a''" 2 60] by simp

end
