(* ===== verification/EnvTypes.thy ===== *)
theory EnvTypes
  imports ConfigService Crypto
begin

text \<open>
  Environment variables, first part: src/internal/service/env_linux.go without its writers.  The value
  types and their validation, the lazy migration of old entries, masking, the decrypted view, and the
  \<open>.env\<close> file.

  \<open>EnvService\<close> collects the fields of the service and what it gets from outside: the configuration
  service's platform, the cipher, the encryption key, \<open>strconv.ParseFloat\<close> (its error, if any), the
  process environment and working directory, the identifiers of \<open>google/uuid\<close>, and \<open>encoding/json\<close> on
  the flow file.
\<close>

record EnvService =
  es_pf :: platform
  es_crypto :: crypto_env
  es_encryptionKey :: string
  es_ParseFloat :: "string \<Rightarrow> go_error option"
  es_environ :: "string list"
  es_cwd :: string
  es_uuid :: "nat \<Rightarrow> string"
  es_Unmarshal :: "string \<Rightarrow> json option"
  es_MarshalIndent :: "json \<Rightarrow> string"

definition EncryptionKeyConfigured :: "EnvService \<Rightarrow> bool" where
  "EncryptionKeyConfigured s \<longleftrightarrow> es_encryptionKey s \<noteq> ''''"

section \<open>Keys, types and values\<close>

definition ValidateEnvKey :: "string \<Rightarrow> go_error option" where
  "ValidateEnvKey key =
     (if key = '''' then Some (ErrText ''key is required'')
      else if \<exists>c\<in>set key. c \<in> {CHR 0x00, CHR 0x0D, CHR 0x0A, CHR ''=''}
      then Some (ErrText (''key cannot contain NUL, newline, or '' @ [CHR 0x27, CHR ''='', CHR 0x27]))
      else None)"

definition boolean_error :: string where
  "boolean_error = ''boolean values must be '' @ [CHR 0x27] @ ''true'' @ [CHR 0x27] @ '' or '' @ [CHR 0x27] @ ''false'' @ [CHR 0x27]"

definition ValidateValue :: "EnvService \<Rightarrow> string \<Rightarrow> string \<Rightarrow> go_error option" where
  "ValidateValue s v typ =
     (if typ = ''string'' \<or> typ = ''secret'' then None
      else if typ = ''number'' then
        (if v = '''' then Some (ErrText ''number values cannot be empty'')
         else map_option (ErrWrap ''invalid number format'') (es_ParseFloat s v))
      else if typ = ''boolean'' then
        (let lower = ToLower (TrimSpace v) in
         if lower \<noteq> ''true'' \<and> lower \<noteq> ''false'' then Some (ErrText boolean_error) else None)
      else Some (ErrText (''unknown type: '' @ typ)))"

definition NormalizeValue :: "EnvService \<Rightarrow> string \<Rightarrow> string \<Rightarrow> string result" where
  "NormalizeValue s v typ =
     (if typ = ''string'' \<or> typ = ''secret'' then Inr v
      else if typ = ''number'' then
        (if v = '''' then Inl (ErrText ''number values cannot be empty'')
         else case es_ParseFloat s v of Some e \<Rightarrow> Inl (ErrWrap ''invalid number format'' e) | None \<Rightarrow> Inr v)
      else if typ = ''boolean'' then
        (let lower = ToLower (TrimSpace v) in
         if lower = ''true'' then Inr ''true'' else if lower = ''false'' then Inr ''false''
         else Inl (ErrText boolean_error))
      else Inl (ErrText (''unknown type: '' @ typ)))"

section \<open>Migration\<close>

definition MigrateEnvTypes :: "EnvVar \<Rightarrow> EnvVar" where
  "MigrateEnvTypes ev =
     (let ev = (if ev_Type ev = '''' \<or> ev_Type ev = ''plain'' then ev\<lparr>ev_Type := ''string''\<rparr> else ev)
      in if ev_Encrypted ev \<and> ev_Type ev \<noteq> ''secret'' then ev\<lparr>ev_Type := ''secret''\<rparr> else ev)"

definition entry_needs_migration :: "string \<Rightarrow> EnvVar \<Rightarrow> bool" where
  "entry_needs_migration key ev \<longleftrightarrow>
     ev_Type ev = '''' \<or> ev_Type ev = ''plain'' \<or> ev_Encrypted ev \<and> ev_Type ev \<noteq> ''secret'' \<or>
     ev_Encrypted ev \<and> key \<noteq> '''' \<and> \<not> IsEncrypted (ev_Value ev)"

definition envMigrationNeeded :: "EnvVar list \<Rightarrow> string \<Rightarrow> bool" where
  "envMigrationNeeded evs key \<longleftrightarrow> (\<exists>ev\<in>set evs. entry_needs_migration key ev)"

text \<open>The staged ciphertexts, keyed by the variable's name and its plaintext.\<close>

type_synonym staged = "string \<times> string \<rightharpoonup> string"

fun stage_loop :: "EnvService \<Rightarrow> EnvVar list \<Rightarrow> staged \<Rightarrow> 'w world_scheme \<Rightarrow> staged result \<times> 'w world_scheme" where
  "stage_loop s [] staged w = (Inr staged, w)"
| "stage_loop s (ev # evs) staged w =
     (if \<not> ev_Encrypted ev \<or> es_encryptionKey s = '''' \<or> IsEncrypted (ev_Value ev) then stage_loop s evs staged w
      else case Encrypt (es_crypto s) (ev_Value ev) (es_encryptionKey s) w of
          (Inl e, w) \<Rightarrow> (Inl (ErrWrap (''encrypt migrated environment variable '' @ ev_Key ev) e), w)
        | (Inr encrypted, w) \<Rightarrow> stage_loop s evs (staged((ev_Key ev, ev_Value ev) \<mapsto> encrypted)) w)"

definition stageEnvMigration :: "EnvService \<Rightarrow> EnvVar list \<Rightarrow> 'w world_scheme \<Rightarrow> staged result \<times> 'w world_scheme" where
  "stageEnvMigration s evs w = stage_loop s evs Map.empty w"

text \<open>The loop of the migration callback; a plaintext nobody staged makes the update stale.\<close>

fun migrate_loop :: "EnvService \<Rightarrow> staged \<Rightarrow> EnvVar list \<Rightarrow> EnvVar list result" where
  "migrate_loop s staged [] = Inr []"
| "migrate_loop s staged (ev # evs) =
     (let m = MigrateEnvTypes ev;
          sealed = (if ev_Encrypted m \<and> es_encryptionKey s \<noteq> '''' \<and> \<not> IsEncrypted (ev_Value m)
                    then map_option (\<lambda>v. m\<lparr>ev_Value := v\<rparr>) (staged (ev_Key m, ev_Value m)) else Some m)
      in case sealed of
           None \<Rightarrow> Inl (Sentinel ErrEnvMigrationStale)
         | Some m \<Rightarrow> (case migrate_loop s staged evs of Inl e \<Rightarrow> Inl e | Inr ms \<Rightarrow> Inr (m # ms)))"

definition migrate_callback :: "EnvService \<Rightarrow> staged \<Rightarrow> NodeRedConfig \<Rightarrow> NodeRedConfig result" where
  "migrate_callback s staged current =
     (if \<not> envMigrationNeeded (EnvVars current) (es_encryptionKey s) then Inl (Sentinel ErrEnvMigrationAlreadyDone)
      else case migrate_loop s staged (EnvVars current) of
          Inl e \<Rightarrow> Inl e | Inr ms \<Rightarrow> Inr (current\<lparr>EnvVars := ms\<rparr>))"

section \<open>What callers see\<close>

definition envVarSource :: "EnvVar \<Rightarrow> string" where
  "envVarSource ev = (if ev_Source ev = ''node-red'' then ''node-red'' else ''nrcc'')"

definition mask_entry :: "EnvVar \<Rightarrow> EnvVar" where
  "mask_entry ev = \<lparr>ev_Key = ev_Key ev, ev_Value = (if ev_Encrypted ev then '''' else ev_Value ev), ev_Type = ev_Type ev,
     ev_Description = ev_Description ev, ev_Encrypted = ev_Encrypted ev, ev_Source = envVarSource ev\<rparr>"

definition maskEnvVars :: "EnvVar list \<Rightarrow> EnvVar list" where
  "maskEnvVars evs = map mask_entry evs"

text \<open>\<open>ConfigService.Update\<close>: the callback's result is what was committed.\<close>

definition cs_Update ::
    "(NodeRedConfig \<Rightarrow> NodeRedConfig result) \<Rightarrow> 'w svc_world_scheme \<Rightarrow> NodeRedConfig result \<times> 'w svc_world_scheme" where
  "cs_Update fn w = store_Update (\<lambda>c. map_sum (\<lambda>e. e) (\<lambda>c. (c, c)) (fn c)) w"

text \<open>The decrypted map; a later entry of a key replaces an earlier one.\<close>

definition reveal :: "EnvService \<Rightarrow> EnvVar \<Rightarrow> string result" where
  "reveal s ev =
     (if ev_Encrypted ev \<and> es_encryptionKey s \<noteq> '''' \<and> IsEncrypted (ev_Value ev)
      then (case Decrypt (es_crypto s) (ev_Value ev) (es_encryptionKey s) of
              Inl e \<Rightarrow> Inl (ErrWrap (''decrypt '' @ ev_Key ev) e) | Inr v \<Rightarrow> Inr v)
      else Inr (ev_Value ev))"

fun reveal_all :: "EnvService \<Rightarrow> EnvVar list \<Rightarrow> (string \<rightharpoonup> string) \<Rightarrow> (string \<rightharpoonup> string) result" where
  "reveal_all s [] m = Inr m"
| "reveal_all s (ev # evs) m =
     (case reveal s ev of Inl e \<Rightarrow> Inl e | Inr v \<Rightarrow> reveal_all s evs (m(ev_Key ev \<mapsto> v)))"

definition GetAll :: "EnvService \<Rightarrow> 'w svc_world_scheme \<Rightarrow> (string \<rightharpoonup> string) result \<times> 'w svc_world_scheme" where
  "GetAll s w =
     (case Get (es_pf s) w of
        (Inl e, w) \<Rightarrow> (Inl (ErrWrap ''failed to get config'' e), w)
      | (Inr config, w) \<Rightarrow> (reveal_all s (EnvVars config) Map.empty, w))"

section \<open>The .env file\<close>

text \<open>\<open>bufio.Scanner\<close> with \<open>ScanLines\<close>: the lines without their line ends; text after the last line break
  counts when it is not empty.\<close>

definition drop_CR :: "string \<Rightarrow> string" where
  "drop_CR l = (if l \<noteq> [] \<and> last l = CHR 0x0D then butlast l else l)"

definition raw_lines :: "string \<Rightarrow> string list" where
  "raw_lines s = (let ls = Split s (CHR 0x0A) in if last ls = [] then butlast ls else ls)"

definition scan_lines :: "string \<Rightarrow> string list" where
  "scan_lines s = map drop_CR (raw_lines s)"

text \<open>With the default buffer a line of \<open>MaxScanTokenSize\<close> bytes or more ends the scan with an error.\<close>

definition MaxScanTokenSize :: nat where "MaxScanTokenSize = 64 * 1024"

definition scan_default :: "string \<Rightarrow> string list \<times> go_error option" where
  "scan_default s =
     (let ls = raw_lines s; short = takeWhile (\<lambda>l. length l < MaxScanTokenSize) ls
      in (map drop_CR short, if length short = length ls then None else Some (ErrText ''bufio.Scanner: token too long'')))"

definition dotenv_line :: "string \<Rightarrow> (string \<rightharpoonup> string) \<Rightarrow> (string \<rightharpoonup> string)" where
  "dotenv_line raw m =
     (let line = TrimSpace raw in
      if line = '''' \<or> HasPrefix line ''#'' then m
      else case IndexByte line (CHR ''='') of
          None \<Rightarrow> m
        | Some i \<Rightarrow>
            (let key = TrimSpace (take i line); v = drop (i + 1) line;
                 v = (if length v \<ge> 2 \<and> hd v = CHR 0x22 \<and> last v = CHR 0x22 then butlast (tl v) else v)
             in m(key \<mapsto> v)))"

definition parseEnvFile :: "string \<Rightarrow> 'w world_scheme \<Rightarrow> ((string \<rightharpoonup> string) \<times> go_error option) \<times> 'w world_scheme" where
  "parseEnvFile path w =
     (case ReadFile path w of
        (Inl e, w) \<Rightarrow>
          ((Map.empty, if e = Sentinel ErrNotExist then None else Some (ErrWrap ''failed to read .env file'' e)), w)
      | (Inr data, w) \<Rightarrow>
          (let (ls, err) = scan_default data in ((fold dotenv_line ls Map.empty, err), w)))"

definition GetAllMerged :: "EnvService \<Rightarrow> string \<Rightarrow> 'w svc_world_scheme \<Rightarrow> (string \<rightharpoonup> string) result \<times> 'w svc_world_scheme" where
  "GetAllMerged s dotenvPath w =
     (case GetAll s w of
        (Inl e, w) \<Rightarrow> (Inl e, w)
      | (Inr result, w) \<Rightarrow>
          (case parseEnvFile dotenvPath w of
             ((_, Some e), w) \<Rightarrow> (Inl e, w)
           | ((dotenvVars, None), w) \<Rightarrow> (Inr (result ++ dotenvVars), w)))"

definition ReadDotenv :: "string \<Rightarrow> 'w world_scheme \<Rightarrow> string result \<times> 'w world_scheme" where
  "ReadDotenv dataDir w =
     (case ReadFile (JoinPath [dataDir, ''.env'']) w of
        (Inl e, w) \<Rightarrow> (if e = Sentinel ErrNotExist then Inr '''' else Inl (ErrWrap ''failed to read .env file'' e), w)
      | (Inr content, w) \<Rightarrow> (Inr content, w))"

definition WriteDotenv :: "string \<Rightarrow> string \<Rightarrow> 'w world_scheme \<Rightarrow> unit result \<times> 'w world_scheme" where
  "WriteDotenv dataDir content w =
     (case WriteFile (JoinPath [dataDir, ''.env'']) content w of
        (Inl e, w) \<Rightarrow> (Inl (ErrWrap ''failed to write .env file'' e), w) | (Inr _, w) \<Rightarrow> (Inr (), w))"

end
