(* ===== verification/NodeRedEnv.thy ===== *)
theory NodeRedEnv
  imports EnvTypes
begin

text \<open>
  The Node-RED side of the environment variables: the layers of the child's environment and the runtime
  contract (\<open>mergeEnvLayers\<close>, \<open>resolveNodeRedRuntime\<close> of src/internal/service/process_linux.go), the lock
  of src/internal/service/flowlock_linux.go, and the global-config node of the flow file
  (src/internal/service/env_nodered_linux.go up to \<open>nodeRedGlobalEnvList\<close>).

  A flow file is the JSON value \<open>es_Unmarshal\<close> reads from its text; a Go map is the association list of a
  \<^const>\<open>JObj\<close>, whose order \<open>es_MarshalIndent\<close> does not depend on.
\<close>

section \<open>The runtime contract\<close>

text \<open>\<open>strings.SplitN(pair, "=", 2)\<close> with two parts.\<close>

definition environ_pair :: "string \<Rightarrow> (string \<rightharpoonup> string) \<Rightarrow> (string \<rightharpoonup> string)" where
  "environ_pair pair m =
     (case IndexByte pair (CHR ''='') of None \<Rightarrow> m | Some i \<Rightarrow> m(take i pair \<mapsto> drop (i + 1) pair))"

definition mergeEnvLayers :: "string list \<Rightarrow> (string \<rightharpoonup> string) \<Rightarrow> (string \<rightharpoonup> string) \<Rightarrow> (string \<rightharpoonup> string)" where
  "mergeEnvLayers osEnviron st dotenvVars = fold environ_pair osEnviron Map.empty ++ st ++ dotenvVars"

definition IsAbs :: "string \<Rightarrow> bool" where
  "IsAbs path \<longleftrightarrow> HasPrefix path ''/''"

text \<open>\<open>filepath.Abs\<close> in the working directory \<open>cwd\<close>, which is known.\<close>

definition Abs :: "string \<Rightarrow> string \<Rightarrow> string" where
  "Abs cwd path = (if IsAbs path then Clean path else JoinPath [cwd, path])"

record nodeRedRuntime =
  rt_Port :: string
  rt_UserDir :: string
  rt_SettingsPath :: string

text \<open>A variable that is not set reads as the empty string.\<close>

definition env_get :: "(string \<rightharpoonup> string) \<Rightarrow> string \<Rightarrow> string" where
  "env_get env k = (case env k of None \<Rightarrow> '''' | Some v \<Rightarrow> v)"

text \<open>\<open>strconv.Atoi\<close>: an optional sign and decimal digits within the range of a 64-bit integer.\<close>

definition Atoi :: "string \<Rightarrow> int option" where
  "Atoi v =
     (let digits = (case v of [] \<Rightarrow> [] | c # cs \<Rightarrow> if c = CHR ''+'' \<or> c = CHR ''-'' then cs else v) in
      if digits = [] \<or> (\<exists>c\<in>set digits. \<not> (CHR ''0'' \<le> c \<and> c \<le> CHR ''9'')) then None
      else let n = int (digits_value digits); n = (if HasPrefix v ''-'' then - n else n)
           in if - (2 ^ 63) \<le> n \<and> n < 2 ^ 63 then Some n else None)"

definition resolveNodeRedRuntime :: "string \<Rightarrow> (string \<rightharpoonup> string) \<Rightarrow> string \<Rightarrow> nodeRedRuntime result" where
  "resolveNodeRedRuntime cwd env dataDir =
     (let dataDir = Abs cwd dataDir;
          p = TrimSpace (env_get env ''NODE_RED_PORT'');
          d = TrimSpace (env_get env ''NODE_RED_USER_DIR'');
          st = TrimSpace (env_get env ''NODE_RED_SETTINGS'')
      in if p \<noteq> '''' \<and> (case Atoi p of None \<Rightarrow> True | Some n \<Rightarrow> n < 1 \<or> n > 65535)
         then Inl (ErrText (''invalid NODE_RED_PORT '' @ p))
         else let userDir = (if d = '''' then dataDir else if IsAbs d then d else Abs cwd d)
              in Inr \<lparr>rt_Port = (if p = '''' then ''1880'' else p), rt_UserDir = userDir,
                   rt_SettingsPath = (if st = '''' then JoinPath [userDir, ''settings.js'']
                                      else if IsAbs st then st else JoinPath [userDir, st])\<rparr>)"

definition activeNodeRedUserDir :: "EnvService \<Rightarrow> 'w svc_world_scheme \<Rightarrow> string result \<times> 'w svc_world_scheme" where
  "activeNodeRedUserDir s w =
     (let base = pf_dataDir (es_pf s);
          (st, w) = GetAll s w;
          ((dotenvVars, _), w) = parseEnvFile (JoinPath [base, ''.env'']) w;
          envMap = mergeEnvLayers (es_environ s) (case st of Inl _ \<Rightarrow> Map.empty | Inr m \<Rightarrow> m) dotenvVars
      in case resolveNodeRedRuntime (es_cwd s) envMap base of
           Inl e \<Rightarrow> (Inl (ErrWrap ''resolve Node-RED runtime'' e), w)
         | Inr rt \<Rightarrow> (Inr (rt_UserDir rt), w))"

section \<open>Staying inside the data directory\<close>

text \<open>\<open>filepath.Rel\<close>, on the components of the two clean paths.\<close>

fun strip_common :: "'a list \<Rightarrow> 'a list \<Rightarrow> 'a list \<times> 'a list" where
  "strip_common (x # xs) (y # ys) = (if x = y then strip_common xs ys else (x # xs, y # ys))"
| "strip_common xs ys = (xs, ys)"

definition path_comps :: "string \<Rightarrow> string list" where
  "path_comps p = clean_comps (HasPrefix p ''/'') [] (Split p SLASH)"

definition Rel :: "string \<Rightarrow> string \<Rightarrow> string option" where
  "Rel base targ =
     (if Clean base = Clean targ then Some ''.''
      else if IsAbs base \<noteq> IsAbs targ then None
      else let (bs, ts) = strip_common (path_comps base) (path_comps targ)
           in if bs \<noteq> [] \<and> hd bs = ''..'' then None else Some (Join (replicate (length bs) ''..'' @ ts) ''/''))"

definition flow_escapes :: "string \<Rightarrow> string \<Rightarrow> bool" where
  "flow_escapes dataRoot flowPath \<longleftrightarrow>
     (case Rel dataRoot flowPath of
        None \<Rightarrow> True
      | Some rel \<Rightarrow> rel = ''..'' \<or> IsAbs rel \<or> (length rel > 3 \<and> take 3 rel = ''../''))"

definition flow_path :: "EnvService \<Rightarrow> NodeRedConfig \<Rightarrow> 'w svc_world_scheme \<Rightarrow> string result \<times> 'w svc_world_scheme" where
  "flow_path s cfg w =
     (let flowFile = (if FlowFile cfg = '''' then ''flows.json'' else FlowFile cfg) in
      case activeNodeRedUserDir s w of
        (Inl e, w) \<Rightarrow> (Inl e, w)
      | (Inr flowDir, w) \<Rightarrow>
          (let path = Abs (es_cwd s) (Clean (JoinPath [flowDir, flowFile])) in
           if flow_escapes (Abs (es_cwd s) (pf_dataDir (es_pf s))) path
           then (Inl (ErrText ''flow file must stay inside Node-RED data directory''), w) else (Inr path, w)))"

section \<open>The flow file\<close>

text \<open>\<open>flockExclusive\<close>: the lock file is created when missing; a held lock is a failing call.  Closing it
  cannot change a file.\<close>

definition flockExclusive :: "string \<Rightarrow> 'w world_scheme \<Rightarrow> unit result \<times> 'w world_scheme" where
  "flockExclusive path w =
     (let lockPath = path @ ''.lock'' in
      case sys_call w of
        (Inl e, w) \<Rightarrow> (Inl (ErrWrap (''open lock file '' @ lockPath) e), w)
      | (Inr _, w) \<Rightarrow>
          (let w = (if files w lockPath = None then w\<lparr>files := (files w)(lockPath \<mapsto> [])\<rparr> else w) in
           case sys_call w of
             (Inl e, w) \<Rightarrow> (Inl (ErrWrap (''acquire lock on '' @ lockPath) e), snd (sys_call w))
           | (Inr _, w) \<Rightarrow> (Inr (), w)))"

text \<open>\<open>os.CreateTemp\<close>: random names until one is free, at most ten thousand.\<close>

fun create_temp :: "nat \<Rightarrow> string \<Rightarrow> string \<Rightarrow> 'w world_scheme \<Rightarrow> string result \<times> 'w world_scheme" where
  "create_temp 0 prefix suffix w = (Inl (Sentinel ErrExist), w)"
| "create_temp (Suc n) prefix suffix w =
     (let name = prefix @ nat_text (entropy w (calls w) 0) @ suffix in
      case OpenExcl name w of
        (Inr _, w) \<Rightarrow> (Inr name, w)
      | (Inl e, w) \<Rightarrow> if e = Sentinel ErrExist then create_temp n prefix suffix w else (Inl e, w))"

definition CreateTemp :: "string \<Rightarrow> string \<Rightarrow> string \<Rightarrow> 'w world_scheme \<Rightarrow> string result \<times> 'w world_scheme" where
  "CreateTemp dir prefix suffix w = create_temp 10000 (JoinPath [dir, prefix]) suffix w"

text \<open>Decoding into \<open>[]map[string]json.RawMessage\<close>: an array of objects and nulls, or null.\<close>

definition as_maps :: "json \<Rightarrow> json list option" where
  "as_maps j =
     (case j of JNull \<Rightarrow> Some []
      | JArr js \<Rightarrow> if \<forall>x\<in>set js. x = JNull \<or> as_object x \<noteq> None then Some js else None
      | _ \<Rightarrow> None)"

definition map_entry :: "json \<Rightarrow> string \<Rightarrow> json option" where
  "map_entry j k = (case j of JObj fs \<Rightarrow> map_of fs k | _ \<Rightarrow> None)"

definition entry_string :: "json \<Rightarrow> string \<Rightarrow> string" where
  "entry_string j k = (case map_entry j k of Some (JStr v) \<Rightarrow> v | _ \<Rightarrow> '''')"

definition hasNodeRedGlobalEnvType :: "json \<Rightarrow> bool" where
  "hasNodeRedGlobalEnvType j \<longleftrightarrow> map_entry j ''type'' = Some (JStr ''global-config'')"

definition map_put :: "json \<Rightarrow> string \<Rightarrow> json \<Rightarrow> json" where
  "map_put j k v = JObj (AList.update k v (case j of JObj fs \<Rightarrow> fs | _ \<Rightarrow> []))"

definition nodeRedGlobalEnvType :: "string \<Rightarrow> string" where
  "nodeRedGlobalEnvType typ = (if typ = ''number'' then ''num'' else if typ = ''boolean'' then ''bool'' else ''str'')"

definition nodeRedTypeToValueType :: "string \<Rightarrow> string" where
  "nodeRedTypeToValueType typ = (if typ = ''num'' then ''number'' else if typ = ''bool'' then ''boolean'' else ''string'')"

definition global_item :: "EnvVar \<Rightarrow> json" where
  "global_item ev = JObj [(''name'', JStr (ev_Key ev)), (''value'', JStr (ev_Value ev)),
     (''type'', JStr (nodeRedGlobalEnvType (ev_Type ev)))]"

text \<open>The list of environment items after the change: items of the wanted names go, the non-nil changes
  are appended in the order of the keys.\<close>

definition updated_items :: "string list \<Rightarrow> (string \<Rightarrow> EnvVar option) \<Rightarrow> json list \<Rightarrow> json list" where
  "updated_items keys changes items =
     filter (\<lambda>item. entry_string item ''name'' \<notin> set keys) items @ map global_item (List.map_filter changes keys)"

text \<open>The new flows; \<open>Inr None\<close> says there is nothing to write.\<close>

definition new_flows ::
    "string \<Rightarrow> string list \<Rightarrow> (string \<Rightarrow> EnvVar option) \<Rightarrow> json list \<Rightarrow> json list option result" where
  "new_flows ident keys changes flows =
     (let globals = filter (\<lambda>i. hasNodeRedGlobalEnvType (flows ! i)) [0..<length flows] in
      if length globals > 1 then Inl (ErrText ''multiple Node-RED global-config nodes found'')
      else if globals = [] \<and> (\<forall>k\<in>set keys. changes k = None) then Inr None
      else let flows = (if globals = [] then flows @ [JObj [(''id'', JStr ident), (''type'', JStr ''global-config''), (''modules'', JObj [])]]
                        else flows);
               g = (if globals = [] then length flows - 1 else hd globals);
               items = (case map_entry (flows ! g) ''env'' of None \<Rightarrow> Some [] | Some raw \<Rightarrow> as_maps raw)
           in case items of
                None \<Rightarrow> Inl (ErrText ''parse Node-RED global environment'')
              | Some items \<Rightarrow>
                  Inr (Some (flows[g := map_put (flows ! g) ''env'' (JArr (updated_items keys changes items))])))"

text \<open>The temporary file and the rename that publishes it; the deferred removal of the temporary file
  follows on every path.\<close>

definition publish_flows :: "string \<Rightarrow> string \<Rightarrow> 'w world_scheme \<Rightarrow> unit result \<times> 'w world_scheme" where
  "publish_flows flowPath output w =
     (case sys_call w of
        (Inl e, w) \<Rightarrow> (Inl (ErrWrap ''create Node-RED flow directory'' e), w)
      | (Inr _, w) \<Rightarrow>
          (case CreateTemp (Dir flowPath) ''.flows-'' ''.tmp'' w of
             (Inl e, w) \<Rightarrow> (Inl (ErrWrap ''create temporary Node-RED flow file'' e), w)
           | (Inr tmpPath, w) \<Rightarrow>
               (let (r, w) =
                  (case sys_call w of
                     (Inl e, w) \<Rightarrow> (Inl (ErrWrap ''set temporary Node-RED flow permissions'' e), snd (sys_call w))
                   | (Inr _, w) \<Rightarrow>
                       (case WriteTo tmpPath output w of
                          (Inl e, w) \<Rightarrow> (Inl (ErrWrap ''write temporary Node-RED flows'' e), snd (sys_call w))
                        | (Inr _, w) \<Rightarrow>
                            (case sys_call w of
                               (Inl e, w) \<Rightarrow> (Inl (ErrWrap ''sync temporary Node-RED flows'' e), snd (sys_call w))
                             | (Inr _, w) \<Rightarrow>
                                 (case sys_call w of
                                    (Inl e, w) \<Rightarrow> (Inl (ErrWrap ''close temporary Node-RED flows'' e), w)
                                  | (Inr _, w) \<Rightarrow>
                                      (case Rename tmpPath flowPath w of
                                         (Inl e, w) \<Rightarrow> (Inl (ErrWrap ''publish Node-RED flows'' e), w)
                                       | (Inr _, w) \<Rightarrow> (Inr (), w))))))
                in (r, snd (Remove tmpPath w)))))"

definition syncNodeRedGlobalEnvValues ::
    "EnvService \<Rightarrow> NodeRedConfig \<Rightarrow> string list \<Rightarrow> (string \<Rightarrow> EnvVar option) \<Rightarrow> 'w svc_world_scheme \<Rightarrow> unit result \<times> 'w svc_world_scheme" where
  "syncNodeRedGlobalEnvValues s cfg keys changes w =
     (case flow_path s cfg w of
        (Inl e, w) \<Rightarrow> (Inl e, w)
      | (Inr flowPath, w) \<Rightarrow>
          (case flockExclusive flowPath w of
             (Inl e, w) \<Rightarrow> (Inl (ErrWrap ''acquire flow file lock'' e), w)
           | (Inr _, w) \<Rightarrow>
               (case (case ReadFile flowPath w of
                        (Inl e, w) \<Rightarrow> (if e = Sentinel ErrNotExist then Inr ''[]'' else Inl (ErrWrap ''read Node-RED flows'' e), w)
                      | (Inr data, w) \<Rightarrow> (Inr data, snd (Stat flowPath w))) of
                  (Inl e, w) \<Rightarrow> (Inl e, w)
                | (Inr data, w) \<Rightarrow>
                    (case Option.bind (es_Unmarshal s data) as_maps of
                       None \<Rightarrow> (Inl (ErrText ''parse Node-RED flows''), w)
                     | Some flows \<Rightarrow>
                         (case new_flows (es_uuid s (calls w)) keys changes flows of
                            Inl e \<Rightarrow> (Inl e, w)
                          | Inr None \<Rightarrow> (Inr (), w)
                          | Inr (Some flows') \<Rightarrow>
                              (let output = es_MarshalIndent s (JArr flows') @ [CHR 0x0A] in
                               if data = output then (Inr (), w) else publish_flows flowPath output w))))))"

definition syncNodeRedGlobalEnv ::
    "EnvService \<Rightarrow> string \<Rightarrow> EnvVar option \<Rightarrow> 'w svc_world_scheme \<Rightarrow> unit result \<times> 'w svc_world_scheme" where
  "syncNodeRedGlobalEnv s key ev w =
     (case ValidateEnvKey key of
        Some e \<Rightarrow> (Inl e, w)
      | None \<Rightarrow>
          (case Get (es_pf s) w of
             (Inl e, w) \<Rightarrow> (Inl (ErrWrap ''read Node-RED config'' e), w)
           | (Inr cfg, w) \<Rightarrow> syncNodeRedGlobalEnvValues s cfg [key] (\<lambda>k. if k = key then ev else None) w))"

text \<open>The variables Node-RED may see: neither encrypted nor secret.  The last entry of a key counts.\<close>

definition node_red_visible :: "EnvVar \<Rightarrow> bool" where
  "node_red_visible ev \<longleftrightarrow> \<not> ev_Encrypted ev \<and> ev_Type ev \<noteq> ''secret''"

definition global_changes :: "string list \<Rightarrow> EnvVar list \<Rightarrow> string \<Rightarrow> EnvVar option" where
  "global_changes keys evs k = (if k \<in> set keys then find (\<lambda>ev. ev_Key ev = k \<and> node_red_visible ev) (rev evs) else None)"

definition syncNodeRedGlobalEnvs :: "EnvService \<Rightarrow> string list \<Rightarrow> 'w svc_world_scheme \<Rightarrow> unit result \<times> 'w svc_world_scheme" where
  "syncNodeRedGlobalEnvs s keys w =
     (case Get (es_pf s) w of
        (Inl e, w) \<Rightarrow> (Inl (ErrWrap ''read Node-RED config'' e), w)
      | (Inr cfg, w) \<Rightarrow>
          (case find (\<lambda>k. ValidateEnvKey k \<noteq> None) keys of
             Some k \<Rightarrow> (Inl (the (ValidateEnvKey k)), w)
           | None \<Rightarrow> syncNodeRedGlobalEnvValues s cfg keys (global_changes keys (EnvVars cfg)) w))"

record nodeRedGlobalEnv =
  ng_Name :: string
  ng_Value :: string
  ng_Type :: string

text \<open>Decoding one item into the struct: a missing or null field is empty, a field that is not a string an
  error.  The field names are those Node-RED writes (\<open>encoding/json\<close> would also accept them in another
  case).\<close>

definition struct_field :: "json \<Rightarrow> string \<Rightarrow> string option" where
  "struct_field j k = (case map_entry j k of None \<Rightarrow> Some '''' | Some JNull \<Rightarrow> Some '''' | Some (JStr v) \<Rightarrow> Some v | _ \<Rightarrow> None)"

definition decode_global :: "json \<Rightarrow> nodeRedGlobalEnv option" where
  "decode_global j =
     (case (struct_field j ''name'', struct_field j ''value'', struct_field j ''type'') of
        (Some n, Some v, Some t) \<Rightarrow> Some \<lparr>ng_Name = n, ng_Value = v, ng_Type = t\<rparr> | _ \<Rightarrow> None)"

fun global_entries :: "json list \<Rightarrow> nodeRedGlobalEnv list result" where
  "global_entries [] = Inr []"
| "global_entries (j # js) =
     (if \<not> hasNodeRedGlobalEnvType j then global_entries js
      else case map_entry j ''env'' of
          None \<Rightarrow> global_entries js
        | Some raw \<Rightarrow>
            (case Option.bind (as_maps raw) (\<lambda>items. those (map decode_global items)) of
               None \<Rightarrow> Inl (ErrText ''parse global-config env'')
             | Some es \<Rightarrow> (case global_entries js of Inl e \<Rightarrow> Inl e | Inr rest \<Rightarrow> Inr (es @ rest))))"

definition nodeRedGlobalEnvList :: "EnvService \<Rightarrow> 'w svc_world_scheme \<Rightarrow> nodeRedGlobalEnv list result \<times> 'w svc_world_scheme" where
  "nodeRedGlobalEnvList s w =
     (case Get (es_pf s) w of
        (Inl e, w) \<Rightarrow> (Inl (ErrWrap ''read Node-RED config'' e), w)
      | (Inr cfg, w) \<Rightarrow>
          (case flow_path s cfg w of
             (Inl e, w) \<Rightarrow> (Inl e, w)
           | (Inr flowPath, w) \<Rightarrow>
               (case ReadFile flowPath w of
                  (Inl e, w) \<Rightarrow> (if e = Sentinel ErrNotExist then Inr [] else Inl (ErrWrap ''read Node-RED flows'' e), w)
                | (Inr data, w) \<Rightarrow>
                    (case Option.bind (es_Unmarshal s data) as_maps of
                       None \<Rightarrow> (Inl (ErrText ''parse Node-RED flows''), w)
                     | Some flows \<Rightarrow> (global_entries flows, w)))))"

end
