(* ===== verification/Env.thy ===== *)
theory Env
  imports NodeRedEnv
begin

text \<open>
  The writers of the environment variables: \<open>List\<close> with its migration, \<open>Set\<close> and \<open>Delete\<close> of
  src/internal/service/env_linux.go, the bulk import of env_bulk_linux.go and env_bulk_limits.go, and
  \<open>ImportFromNodeRed\<close> of env_nodered_linux.go.

  Each \<open>ConfigService.Update\<close> is atomic, so what the other goroutines do shows only between calls.  \<open>List\<close>
  is the one operation that reads and then updates: \<open>others n\<close> is what happens to the store between the
  two in its \<open>n\<close>-th round.
\<close>

section \<open>Listing\<close>

partial_function (option) list_loop ::
    "EnvService \<Rightarrow> (nat \<Rightarrow> 'w svc_world_scheme \<Rightarrow> 'w svc_world_scheme) \<Rightarrow> nat \<Rightarrow> 'w svc_world_scheme \<Rightarrow>
     (EnvVar list result \<times> 'w svc_world_scheme) option" where
  "list_loop s others n w =
     (case Get (es_pf s) w of
        (Inl e, w) \<Rightarrow> Some (Inl (ErrWrap ''failed to get config'' e), w)
      | (Inr config, w) \<Rightarrow>
          if \<not> envMigrationNeeded (EnvVars config) (es_encryptionKey s) then Some (Inr (maskEnvVars (EnvVars config)), w)
          else case stageEnvMigration s (EnvVars config) w of
              (Inl e, w) \<Rightarrow> Some (Inl e, w)
            | (Inr staged, w) \<Rightarrow>
                (case cs_Update (migrate_callback s staged) (others n w) of
                   (Inr committed, w) \<Rightarrow> Some (Inr (maskEnvVars (EnvVars committed)), w)
                 | (Inl e, w) \<Rightarrow>
                     if errors_is e ErrEnvMigrationStale then list_loop s others (Suc n) w
                     else if errors_is e ErrEnvMigrationAlreadyDone then
                       (case Get (es_pf s) w of
                          (Inl e, w) \<Rightarrow> Some (Inl (ErrWrap ''read migrated environment config'' e), w)
                        | (Inr current, w) \<Rightarrow> Some (Inr (maskEnvVars (EnvVars current)), w))
                     else Some (Inl (ErrWrap ''migrate environment config'' e), w)))"

definition List ::
    "EnvService \<Rightarrow> (nat \<Rightarrow> 'w svc_world_scheme \<Rightarrow> 'w svc_world_scheme) \<Rightarrow> 'w svc_world_scheme \<Rightarrow>
     (EnvVar list result \<times> 'w svc_world_scheme) option" where
  "List s others w = list_loop s others 0 w"

section \<open>Setting and deleting\<close>

text \<open>The first entry of the key is replaced, or a new one appended.  An empty value keeps what an
  encrypted entry holds.  The flag says whether the replaced entry was visible to Node-RED.\<close>

fun put_entry :: "string \<Rightarrow> EnvVar \<Rightarrow> EnvVar list \<Rightarrow> EnvVar list \<times> bool" where
  "put_entry v new [] = ([new], False)"
| "put_entry v new (ev # evs) =
     (if ev_Key ev = ev_Key new
      then (new\<lparr>ev_Value := (if v = '''' \<and> ev_Encrypted ev then ev_Value ev else ev_Value new)\<rparr> # evs, node_red_visible ev)
      else let (rest, p) = put_entry v new evs in (ev # rest, p))"

definition set_callback :: "string \<Rightarrow> EnvVar \<Rightarrow> NodeRedConfig \<Rightarrow> (NodeRedConfig \<times> bool) result" where
  "set_callback v new current =
     (let (evs, previous) = put_entry v new (EnvVars current) in Inr (current\<lparr>EnvVars := evs\<rparr>, previous))"

definition currentNodeRedGlobal :: "EnvService \<Rightarrow> string \<Rightarrow> 'w svc_world_scheme \<Rightarrow> EnvVar option result \<times> 'w svc_world_scheme" where
  "currentNodeRedGlobal s key w =
     (case Get (es_pf s) w of
        (Inl e, w) \<Rightarrow> (Inl e, w)
      | (Inr config, w) \<Rightarrow> (Inr (find (\<lambda>ev. ev_Key ev = key \<and> node_red_visible ev) (EnvVars config)), w))"

definition sync_key :: "EnvService \<Rightarrow> string \<Rightarrow> 'w svc_world_scheme \<Rightarrow> unit result \<times> 'w svc_world_scheme" where
  "sync_key s key w =
     (case currentNodeRedGlobal s key w of
        (Inl e, w) \<Rightarrow> (Inl (ErrWrap ''environment JSON committed but current value reload failed'' e), w)
      | (Inr ev, w) \<Rightarrow>
          (case syncNodeRedGlobalEnv s key ev w of
             (Inl e, w) \<Rightarrow> (Inl (ErrWrap ''environment JSON committed but Node-RED global sync failed'' e), w)
           | (Inr _, w) \<Rightarrow> (Inr (), w)))"

definition env_entry :: "string \<Rightarrow> string \<Rightarrow> string \<Rightarrow> string \<Rightarrow> bool \<Rightarrow> string \<Rightarrow> EnvVar" where
  "env_entry key v typ description encrypted source =
     \<lparr>ev_Key = key, ev_Value = v, ev_Type = typ, ev_Description = description, ev_Encrypted = encrypted, ev_Source = source\<rparr>"

definition stage_value :: "EnvService \<Rightarrow> string \<Rightarrow> bool \<Rightarrow> 'w world_scheme \<Rightarrow> string result \<times> 'w world_scheme" where
  "stage_value s v encrypted w =
     (if encrypted \<and> v \<noteq> '''' \<and> es_encryptionKey s = '''' then (Inl (Sentinel ErrEncryptionKeyRequired), w)
      else if encrypted \<and> v \<noteq> '''' then Encrypt (es_crypto s) v (es_encryptionKey s) w
      else (Inr v, w))"

definition set_env ::
    "EnvService \<Rightarrow> string \<Rightarrow> string \<Rightarrow> string \<Rightarrow> string \<Rightarrow> bool \<Rightarrow> string \<Rightarrow> bool \<Rightarrow> 'w svc_world_scheme \<Rightarrow> unit result \<times> 'w svc_world_scheme" where
  "set_env s key v typ description encrypted source syncGlobal w =
     (case ValidateEnvKey key of
        Some e \<Rightarrow> (Inl e, w)
      | None \<Rightarrow>
          (case stage_value s v encrypted w of
             (Inl e, w) \<Rightarrow> (Inl (if e = Sentinel ErrEncryptionKeyRequired then e else ErrWrap ''encrypt value'' e), w)
           | (Inr stagedValue, w) \<Rightarrow>
               (case store_Update (set_callback v (env_entry key stagedValue typ description encrypted source)) w of
                  (Inl e, w) \<Rightarrow> (Inl (ErrWrap ''update environment config'' e), w)
                | (Inr previousNodeRedGlobal, w) \<Rightarrow>
                    if syncGlobal \<and> (previousNodeRedGlobal \<or> \<not> encrypted \<and> typ \<noteq> ''secret'') then sync_key s key w
                    else (Inr (), w))))"

definition Set :: "EnvService \<Rightarrow> string \<Rightarrow> string \<Rightarrow> string \<Rightarrow> string \<Rightarrow> bool \<Rightarrow> 'w svc_world_scheme \<Rightarrow> unit result \<times> 'w svc_world_scheme" where
  "Set s key v typ description encrypted w = set_env s key v typ description encrypted ''nrcc'' True w"

text \<open>Every entry of the key goes; the flag is that of the last one.\<close>

definition delete_callback :: "string \<Rightarrow> NodeRedConfig \<Rightarrow> (NodeRedConfig \<times> bool) result" where
  "delete_callback key current =
     Inr (current\<lparr>EnvVars := filter (\<lambda>ev. ev_Key ev \<noteq> key) (EnvVars current)\<rparr>,
          case filter (\<lambda>ev. ev_Key ev = key) (EnvVars current) of [] \<Rightarrow> False | evs \<Rightarrow> node_red_visible (last evs))"

definition Delete :: "EnvService \<Rightarrow> string \<Rightarrow> 'w svc_world_scheme \<Rightarrow> unit result \<times> 'w svc_world_scheme" where
  "Delete s key w =
     (case ValidateEnvKey key of
        Some e \<Rightarrow> (Inl e, w)
      | None \<Rightarrow>
          (case store_Update (delete_callback key) w of
             (Inl e, w) \<Rightarrow> (Inl (ErrWrap ''update environment config'' e), w)
           | (Inr managed, w) \<Rightarrow> if managed then sync_key s key w else (Inr (), w)))"

section \<open>Bulk import\<close>

record BulkLimits =
  bl_MaxEntries :: int
  bl_MaxEntryBytes :: int

definition DefaultBulkLimits :: BulkLimits where
  "DefaultBulkLimits = \<lparr>bl_MaxEntries = 1000, bl_MaxEntryBytes = 8192\<rparr>"

definition resolved :: "BulkLimits \<Rightarrow> BulkLimits result" where
  "resolved l =
     (if bl_MaxEntries l < 0 \<or> bl_MaxEntryBytes l < 0 then Inl (ErrText ''bulk limits cannot be negative'')
      else Inr \<lparr>bl_MaxEntries = (if bl_MaxEntries l = 0 then bl_MaxEntries DefaultBulkLimits else bl_MaxEntries l),
             bl_MaxEntryBytes = (if bl_MaxEntryBytes l = 0 then bl_MaxEntryBytes DefaultBulkLimits else bl_MaxEntryBytes l)\<rparr>)"

definition parseBulkLimit :: "string \<Rightarrow> string \<Rightarrow> int result" where
  "parseBulkLimit name raw =
     (if raw = '''' then Inr 0
      else case Atoi raw of None \<Rightarrow> Inl (ErrWrap (''parse '' @ name) (ErrText ''strconv.Atoi'')) | Some n \<Rightarrow> Inr n)"

definition BulkLimitsFromEnv :: "(string \<rightharpoonup> string) \<Rightarrow> BulkLimits result" where
  "BulkLimitsFromEnv env =
     (case parseBulkLimit ''NRCC_BULK_MAX_ENTRIES'' (env_get env ''NRCC_BULK_MAX_ENTRIES'') of
        Inl e \<Rightarrow> Inl e
      | Inr maxEntries \<Rightarrow>
          (case parseBulkLimit ''NRCC_BULK_MAX_ENTRY_BYTES'' (env_get env ''NRCC_BULK_MAX_ENTRY_BYTES'') of
             Inl e \<Rightarrow> Inl e
           | Inr maxEntryBytes \<Rightarrow> resolved \<lparr>bl_MaxEntries = maxEntries, bl_MaxEntryBytes = maxEntryBytes\<rparr>))"

record BulkEnvLine =
  be_Line :: nat
  be_Key :: string
  be_Value :: string
  be_Type :: string

record BulkEnvIssue =
  bi_Line :: nat
  bi_Key :: string
  bi_Reason :: string

record BulkEnvResult =
  br_Lines :: "BulkEnvLine list"
  br_Issues :: "BulkEnvIssue list"
  br_Valid :: bool
  br_Summary :: string

definition validBulkType :: "string \<Rightarrow> bool" where
  "validBulkType typ \<longleftrightarrow> typ \<in> set [''string'', ''number'', ''boolean'', ''secret'']"

text \<open>The message of a validation error.\<close>

fun error_message :: "go_error \<Rightarrow> string" where
  "error_message (ErrText m) = m"
| "error_message (ErrWrap m e) = m @ '': '' @ error_message e"
| "error_message _ = ''''"

text \<open>What one record contributes: a line, an issue after which the scan goes on, or one that ends it.\<close>

datatype bulk_step = Accept BulkEnvLine | Issue BulkEnvIssue | Abort BulkEnvIssue

definition issue :: "nat \<Rightarrow> string \<Rightarrow> string \<Rightarrow> BulkEnvIssue" where
  "issue n key reason = \<lparr>bi_Line = n, bi_Key = key, bi_Reason = reason\<rparr>"

text \<open>The suffix after the last \<open>#\<close> is a type, unless it is empty.\<close>

definition split_type :: "string \<Rightarrow> (string \<times> string) + string" where
  "split_type rest =
     (case LastIndexByte rest (CHR ''#'') of
        None \<Rightarrow> Inl (''string'', rest)
      | Some h \<Rightarrow>
          (let candidate = TrimSpace (drop (h + 1) rest) in
           if candidate = '''' then Inl (''string'', rest)
           else if validBulkType candidate then Inl (candidate, take h rest) else Inr candidate))"

definition check_entry :: "EnvService \<Rightarrow> BulkLimits \<Rightarrow> BulkEnvLine list \<Rightarrow> nat \<Rightarrow> string \<Rightarrow> string \<Rightarrow> string \<Rightarrow> bulk_step" where
  "check_entry s limits ls n key typ v =
     (if int (length key + length v) > bl_MaxEntryBytes limits
      then Abort (issue n key (''maximum '' @ int_text (bl_MaxEntryBytes limits) @ '' bytes per entry exceeded (received '' @
             nat_text (length key + length v) @ '')''))
      else case ValidateEnvKey key of
          Some e \<Rightarrow> Issue (issue n key (error_message e))
        | None \<Rightarrow>
            (case ValidateValue s v typ of
               Some e \<Rightarrow> Issue (issue n key (error_message e))
             | None \<Rightarrow>
                 (case find (\<lambda>l. be_Key l = key) ls of
                    Some l \<Rightarrow> Issue (issue n key (''duplicate key (first seen on line '' @ nat_text (be_Line l) @ '')''))
                  | None \<Rightarrow> Accept \<lparr>be_Line = n, be_Key = key, be_Value = v, be_Type = typ\<rparr>)))"

definition bulk_record :: "EnvService \<Rightarrow> BulkLimits \<Rightarrow> BulkEnvLine list \<Rightarrow> nat \<Rightarrow> string \<Rightarrow> bulk_step" where
  "bulk_record s limits ls n trimmed =
     (case IndexByte trimmed (CHR ''='') of
        None \<Rightarrow> Issue (issue n '''' (''missing '' @ [CHR 0x27, CHR ''='', CHR 0x27] @ '' between key and value''))
      | Some eq \<Rightarrow>
          if eq = 0 then Issue (issue n '''' (''missing '' @ [CHR 0x27, CHR ''='', CHR 0x27] @ '' between key and value''))
          else let key = TrimSpace (take eq trimmed) in
               case split_type (drop (eq + 1) trimmed) of
                 Inr candidate \<Rightarrow>
                   Issue (issue n key (''unknown type '' @ Quote (pf_print (es_pf s)) candidate @ '' (expected string|number|boolean|secret)''))
               | Inl (typ, v) \<Rightarrow> check_entry s limits ls n key typ v)"

fun bulk_loop ::
    "EnvService \<Rightarrow> BulkLimits \<Rightarrow> string list \<Rightarrow> nat \<Rightarrow> nat \<Rightarrow> BulkEnvLine list \<Rightarrow> BulkEnvIssue list \<Rightarrow> BulkEnvLine list \<times> BulkEnvIssue list" where
  "bulk_loop s limits [] n records ls issues = (ls, issues)"
| "bulk_loop s limits (raw # raws) n records ls issues =
     (let trimmed = TrimSpace raw in
      if trimmed = '''' \<or> HasPrefix trimmed ''#'' then bulk_loop s limits raws (Suc n) records ls issues
      else if int (Suc records) > bl_MaxEntries limits
      then (ls, issues @ [issue (Suc n) '''' (''maximum '' @ int_text (bl_MaxEntries limits) @ '' entries exceeded'')])
      else case bulk_record s limits ls (Suc n) trimmed of
          Accept l \<Rightarrow> bulk_loop s limits raws (Suc n) (Suc records) (ls @ [l]) issues
        | Issue i \<Rightarrow> bulk_loop s limits raws (Suc n) (Suc records) ls (issues @ [i])
        | Abort i \<Rightarrow> (ls, issues @ [i]))"

definition ParseBulkEnvWithLimits :: "EnvService \<Rightarrow> string \<Rightarrow> BulkLimits \<Rightarrow> BulkEnvResult result" where
  "ParseBulkEnvWithLimits s content limits =
     (case resolved limits of
        Inl e \<Rightarrow> Inl e
      | Inr limits \<Rightarrow>
          (let (ls, issues) = bulk_loop s limits (scan_lines content) 0 0 [] [] in
           Inr \<lparr>br_Lines = ls, br_Issues = issues, br_Valid = (issues = [] \<and> ls \<noteq> []),
             br_Summary = (if ls = [] \<and> issues = [] then ''empty input''
                           else if issues \<noteq> [] then nat_text (length issues) @ '' invalid line(s)''
                           else nat_text (length ls) @ '' variable(s) ready'')\<rparr>))"

definition ParseBulkEnv :: "EnvService \<Rightarrow> string \<Rightarrow> BulkEnvResult" where
  "ParseBulkEnv s content =
     (case ParseBulkEnvWithLimits s content DefaultBulkLimits of
        Inr r \<Rightarrow> r | Inl _ \<Rightarrow> \<lparr>br_Lines = [], br_Issues = [], br_Valid = False, br_Summary = ''''\<rparr>)"

text \<open>Staging of a direct batch; an error declines it.\<close>

fun stage_lines :: "EnvService \<Rightarrow> BulkEnvLine list \<Rightarrow> 'w world_scheme \<Rightarrow> EnvVar list result \<times> 'w world_scheme" where
  "stage_lines s [] w = (Inr [], w)"
| "stage_lines s (l # ls) w =
     (case ValidateEnvKey (be_Key l) of
        Some e \<Rightarrow> (Inl (ErrWrap ''validate env key'' e), w)
      | None \<Rightarrow>
          (case ValidateValue s (be_Value l) (be_Type l) of
             Some e \<Rightarrow> (Inl (ErrWrap ''validate env value'' e), w)
           | None \<Rightarrow>
               (case stage_value s (be_Value l) (be_Type l = ''secret'') w of
                  (Inl e, w) \<Rightarrow> (Inl (ErrWrap ''line'' e), w)
                | (Inr v, w) \<Rightarrow>
                    (case stage_lines s ls w of
                       (Inl e, w) \<Rightarrow> (Inl e, w)
                     | (Inr evs, w) \<Rightarrow>
                         (Inr (env_entry (be_Key l) v (be_Type l) ''bulk import'' (be_Type l = ''secret'') '''' # evs), w)))))"

text \<open>The index map points to the last entry of a key; a key without one is appended.\<close>

definition put_last :: "string \<Rightarrow> EnvVar \<Rightarrow> EnvVar list \<Rightarrow> EnvVar list" where
  "put_last v new evs =
     (if ev_Key new \<in> ev_Key ` set evs then rev (fst (put_entry v new (rev evs))) else evs @ [new])"

definition bulk_callback :: "(BulkEnvLine \<times> EnvVar) list \<Rightarrow> NodeRedConfig \<Rightarrow> (NodeRedConfig \<times> unit) result" where
  "bulk_callback staged current =
     Inr (current\<lparr>EnvVars := fold (\<lambda>(l, ev). put_last (be_Value l) ev) staged (EnvVars current)\<rparr>, ())"

text \<open>The first component says whether the batch was taken; the error of a declined batch is not looked
  at.\<close>

definition applyBulkEnvDirect :: "EnvService \<Rightarrow> BulkEnvLine list \<Rightarrow> 'w svc_world_scheme \<Rightarrow> (bool \<times> unit result) \<times> 'w svc_world_scheme" where
  "applyBulkEnvDirect s ls w =
     (case stage_lines s ls w of
        (Inl e, w) \<Rightarrow> ((False, Inl e), w)
      | (Inr staged, w) \<Rightarrow>
          (case store_Update (bulk_callback (zip ls staged)) w of
             (Inl e, w) \<Rightarrow> ((True, Inl (ErrWrap ''update environment config'' e)), w)
           | (Inr _, w) \<Rightarrow> ((True, Inr ()), w)))"

text \<open>One entry at a time.  With \<open>restart\<close> every \<open>set\<close> runs inside it, and the last one also synchronises.\<close>

type_synonym 'w action = "'w svc_world_scheme \<Rightarrow> unit result \<times> 'w svc_world_scheme"

type_synonym 'w envelope = "'w action \<Rightarrow> 'w svc_world_scheme \<Rightarrow> (bool \<times> unit result) \<times> 'w svc_world_scheme"

definition bulk_line :: "EnvService \<Rightarrow> BulkEnvLine \<Rightarrow> 'w action" where
  "bulk_line s l w = set_env s (be_Key l) (be_Value l) (be_Type l) ''bulk import'' (be_Type l = ''secret'') ''nrcc'' False w"

fun bulk_lines :: "EnvService \<Rightarrow> 'w envelope option \<Rightarrow> string list \<Rightarrow> BulkEnvLine list \<Rightarrow> 'w action" where
  "bulk_lines s restart keys [] w = (Inr (), w)"
| "bulk_lines s restart keys (l # ls) w =
     (let run = (case restart of
            None \<Rightarrow> bulk_line s l w
          | Some envelope \<Rightarrow>
              (case envelope (\<lambda>w. case bulk_line s l w of
                                    (Inl e, w) \<Rightarrow> (Inl e, w)
                                  | (Inr _, w) \<Rightarrow> if ls = [] then syncNodeRedGlobalEnvs s keys w else (Inr (), w)) w of
                 ((_, r), w) \<Rightarrow> (r, w)))
      in case run of
           (Inl e, w) \<Rightarrow> (Inl (ErrWrap (''line '' @ nat_text (be_Line l) @ '' ('' @ be_Key l @ '')'') e), w)
         | (Inr _, w) \<Rightarrow> bulk_lines s restart keys ls w)"

definition final_sync :: "EnvService \<Rightarrow> string list \<Rightarrow> 'w action" where
  "final_sync s keys w =
     (case syncNodeRedGlobalEnvs s keys w of
        (Inl e, w) \<Rightarrow> (Inl (ErrWrap ''environment JSON committed but final Node-RED global sync failed'' e), w)
      | (Inr _, w) \<Rightarrow> (Inr (), w))"

definition ApplyBulkEnv :: "EnvService \<Rightarrow> BulkEnvResult \<Rightarrow> 'w envelope option \<Rightarrow> 'w action" where
  "ApplyBulkEnv s parsed restart w =
     (if \<not> br_Valid parsed then (Inl (ErrText ''bulk payload failed validation''), w)
      else
        let keys = map be_Key (br_Lines parsed);
            one_by_one = (\<lambda>w. case bulk_lines s restart keys (br_Lines parsed) w of
                (Inl e, w) \<Rightarrow> (Inl e, w)
              | (Inr _, w) \<Rightarrow> if Option.is_none restart then final_sync s keys w else (Inr (), w))
        in if Option.is_none restart
           then (case applyBulkEnvDirect s (br_Lines parsed) w of
                   ((True, Inl e), w) \<Rightarrow> (Inl e, w)
                 | ((True, Inr _), w) \<Rightarrow> final_sync s keys w
                 | ((False, _), w) \<Rightarrow> one_by_one w)
           else one_by_one w)"

section \<open>Import from Node-RED\<close>

definition last_entry :: "EnvVar list \<Rightarrow> string \<Rightarrow> EnvVar option" where
  "last_entry evs k = find (\<lambda>ev. ev_Key ev = k) (rev evs)"

definition protected_entry :: "EnvVar \<Rightarrow> bool" where
  "protected_entry ev \<longleftrightarrow> envVarSource ev \<noteq> ''node-red'' \<or> ev_Encrypted ev \<or> ev_Type ev = ''secret''"

text \<open>One entry of the loop: nothing, a line to import, or an issue; the flag says whether the name now
  counts as seen.\<close>

definition import_entry ::
    "EnvService \<Rightarrow> EnvVar list \<Rightarrow> string list \<Rightarrow> nat \<Rightarrow> nodeRedGlobalEnv \<Rightarrow> (BulkEnvLine list \<times> BulkEnvIssue list) \<times> bool" where
  "import_entry s managed seen n e =
     (let typ = nodeRedTypeToValueType (ng_Type e); name = ng_Name e in
      if name = '''' then (([], [issue n '''' ''entry is missing a name'']), False)
      else if name \<in> set seen then (([], []), False)
      else case ValidateEnvKey name of
          Some err \<Rightarrow> (([], [issue n name (error_message err)]), False)
        | None \<Rightarrow>
            (case ValidateValue s (ng_Value e) typ of
               Some err \<Rightarrow> (([], [issue n name (error_message err)]), False)
             | None \<Rightarrow>
                 (let line = \<lparr>be_Line = n, be_Key = name, be_Value = ng_Value e, be_Type = typ\<rparr> in
                  case last_entry managed name of
                    None \<Rightarrow> (([line], []), True)
                  | Some existing \<Rightarrow>
                      if protected_entry existing then (([], [issue n name ''NRCC-managed value takes precedence'']), True)
                      else if ev_Value existing = ng_Value e \<and> ev_Type existing = typ then (([], []), True)
                      else (([line], []), True))))"

fun import_loop ::
    "EnvService \<Rightarrow> EnvVar list \<Rightarrow> string list \<Rightarrow> nat \<Rightarrow> nodeRedGlobalEnv list \<Rightarrow> BulkEnvLine list \<times> BulkEnvIssue list" where
  "import_loop s managed seen n [] = ([], [])"
| "import_loop s managed seen n (e # es) =
     (let ((ls, is), mark) = import_entry s managed seen n e;
          (ls', is') = import_loop s managed (if mark then ng_Name e # seen else seen) (Suc n) es
      in (ls @ ls', is @ is'))"

fun import_lines :: "EnvService \<Rightarrow> BulkEnvLine list \<Rightarrow> 'w action" where
  "import_lines s [] w = (Inr (), w)"
| "import_lines s (l # ls) w =
     (case set_env s (be_Key l) (be_Value l) (be_Type l) ''imported from Node-RED'' False ''node-red'' False w of
        (Inl e, w) \<Rightarrow> (Inl (ErrWrap (''line '' @ nat_text (be_Line l) @ '' ('' @ be_Key l @ '')'') e), w)
      | (Inr _, w) \<Rightarrow> import_lines s ls w)"

definition import_report :: "BulkEnvLine list \<Rightarrow> BulkEnvIssue list \<Rightarrow> BulkEnvResult" where
  "import_report ls issues =
     \<lparr>br_Lines = ls, br_Issues = issues, br_Valid = (ls \<noteq> []),
      br_Summary = (if ls = [] \<and> issues = [] then ''no new entries to import''
                    else if issues \<noteq> [] then nat_text (length issues) @ '' skipped by NRCC precedence, '' @ nat_text (length ls) @ '' ready''
                    else nat_text (length ls) @ '' variable(s) ready'')\<rparr>"

text \<open>\<open>List\<close> runs first for its migration; \<open>others\<close> is the interference it sees.  The report is returned
  beside an error.\<close>

definition ImportFromNodeRed ::
    "EnvService \<Rightarrow> (nat \<Rightarrow> 'w svc_world_scheme \<Rightarrow> 'w svc_world_scheme) \<Rightarrow> bool \<Rightarrow> 'w envelope option \<Rightarrow> 'w svc_world_scheme \<Rightarrow>
     ((BulkEnvResult option \<times> unit result) \<times> 'w svc_world_scheme) option" where
  "ImportFromNodeRed s others commit stopAndRestart w =
     (case nodeRedGlobalEnvList s w of
        (Inl e, w) \<Rightarrow> Some ((None, Inl e), w)
      | (Inr entries, w) \<Rightarrow>
          if entries = []
          then Some ((Some \<lparr>br_Lines = [], br_Issues = [], br_Valid = True,
                       br_Summary = ''no global-config entries in Node-RED''\<rparr>, Inr ()), w)
          else
            (case List s others w of
               None \<Rightarrow> None
             | Some (Inl e, w) \<Rightarrow> Some ((None, Inl e), w)
             | Some (Inr _, w) \<Rightarrow>
                 (case Get (es_pf s) w of
                    (Inl e, w) \<Rightarrow> Some ((None, Inl e), w)
                  | (Inr config, w) \<Rightarrow>
                      (let (ls, issues) = import_loop s (EnvVars config) [] 1 entries;
                           report = import_report ls issues
                       in if \<not> commit \<or> ls = [] then Some ((Some report, Inr ()), w)
                          else case stopAndRestart of
                              None \<Rightarrow> (case import_lines s ls w of (r, w) \<Rightarrow> Some ((Some report, r), w))
                            | Some envelope \<Rightarrow> (case envelope (import_lines s ls) w of ((_, r), w) \<Rightarrow> Some ((Some report, r), w))))))"

end
