(* ===== verification/Process.thy ===== *)
theory Process
  imports NodeRedEnv RingBuffer
begin

text \<open>
  The supervisor of the Node-RED child: \<open>ProcessManager\<close> of src/internal/service/process_linux.go and
  the durable counter of src/internal/service/restart_count_store.go.

  Every start of a child makes a generation: its two channels and the \<open>waitForExit\<close> goroutine that owns
  them.  The code takes the mutex for short sections and releases it around waiting, so each section is
  one definition and the goroutines interleave between them; \<open>pm_step\<close> below is the transition system.
  A Go panic is the error \<open>GoPanic\<close>.
\<close>

section \<open>State\<close>

text \<open>Where a \<open>waitForExit\<close> goroutine is: in \<open>cmd.Wait\<close> (the child lives), after its first critical section
  (with the restart count it read), asleep before the restart, or gone.\<close>

datatype waiter = Waiting | Exited nat | Sleeping nat | Finished

record child =
  ch_stopClosed :: bool
  ch_doneClosed :: bool
  ch_waiter :: waiter

record ProcessManager =
  pm_running :: bool
  pm_externalMode :: bool
  pm_currentCmd :: "nat option"
  pm_restartCount :: nat
  pm_cumulativeRestarts :: int
  pm_lastError :: "go_error option"
  pm_tracker :: restartTracker
  pm_children :: "child list"

definition maxRestarts :: nat where "maxRestarts = 10"

text \<open>Durations are nanoseconds in Go; here they are seconds.\<close>

definition restartDelay :: nat where "restartDelay = 2"

definition backoff :: "nat \<Rightarrow> nat" where
  "backoff restartCount = (let delay = restartDelay * 2 ^ restartCount in if delay > 60 then 60 else delay)"

text \<open>What a start depends on besides the state: the wired environment service, the data directory, the
  working directory, and which ports are taken at which time.\<close>

record start_env =
  se_envSvc :: "EnvService option"
  se_dataDir :: string
  se_cwd :: string
  se_environ :: "string list"
  se_portInUse :: "nat \<Rightarrow> string \<Rightarrow> bool"

section \<open>The durable counter\<close>

definition restartCountFile :: "string \<Rightarrow> string" where
  "restartCountFile dataDir = JoinPath [dataDir, ''restart_count.json'']"

text \<open>\<open>Load\<close>: \<open>decode\<close> is \<open>json.Unmarshal\<close> into the payload.\<close>

definition count_Load :: "(string \<Rightarrow> int option) \<Rightarrow> string \<Rightarrow> 'w world_scheme \<Rightarrow> int \<times> 'w world_scheme" where
  "count_Load decode path w =
     (case ReadFile path w of
        (Inl _, w) \<Rightarrow> (0, w)
      | (Inr data, w) \<Rightarrow> (case decode data of None \<Rightarrow> 0 | Some n \<Rightarrow> n, w))"

definition count_text :: "int \<Rightarrow> string" where
  "count_text n = [CHR ''{'', CHR 0x22] @ ''cumulativeRestarts'' @ [CHR 0x22, CHR '':''] @ int_text n @ ''}''"

definition count_Save :: "string \<Rightarrow> int \<Rightarrow> 'w world_scheme \<Rightarrow> unit result \<times> 'w world_scheme" where
  "count_Save path n w =
     (let tmpPath = path @ ''.tmp'' in
      case WriteFile tmpPath (count_text n) w of (Inl e, w) \<Rightarrow> (Inl e, w) | (Inr _, w) \<Rightarrow> Rename tmpPath path w)"

section \<open>Starting\<close>

definition NewProcessManager :: "int \<Rightarrow> ProcessManager" where
  "NewProcessManager loaded =
     \<lparr>pm_running = False, pm_externalMode = False, pm_currentCmd = None, pm_restartCount = 0,
      pm_cumulativeRestarts = loaded, pm_lastError = None,
      pm_tracker = \<lparr>rt_entries = replicate 50 zeroRestartEvent, rt_head = 0, rt_count = 0, rt_capacity = 50\<rparr>,
      pm_children = []\<rparr>"

definition envForChild :: "start_env \<Rightarrow> 'w svc_world_scheme \<Rightarrow> (string \<rightharpoonup> string) \<times> 'w svc_world_scheme" where
  "envForChild E w =
     (let (st, w) = (case se_envSvc E of
            None \<Rightarrow> (Map.empty, w)
          | Some s \<Rightarrow> (case GetAll s w of (Inl _, w) \<Rightarrow> (Map.empty, w) | (Inr m, w) \<Rightarrow> (m, w)));
          ((dotenvVars, _), w) = parseEnvFile (JoinPath [se_dataDir E, ''.env'']) w
      in (mergeEnvLayers (se_environ E) st dotenvVars, w))"

definition defaultSettings :: string where
  "defaultSettings = Join
     [''module.exports = {'',
      ''    // Node-RED settings '' @ [CHR 0xE2, CHR 0x80, CHR 0x94] @ '' managed by nrcc'',
      ''    // See https://nodered.org/docs/user-guide/runtime/configuration'',
      ''    flowFile: '' @ [CHR 0x27] @ ''flows.json'' @ [CHR 0x27, CHR '',''],
      ''    credentialSecret: false,'',
      ''    flowFilePretty: true,'',
      ''    adminAuth: null,'',
      ''    editorTheme: {'',
      ''        projects: { enabled: false }'',
      ''    },'',
      ''    logging: {'',
      ''        console: { level: '' @ [CHR 0x27] @ ''info'' @ [CHR 0x27] @ '', metrics: false, audit: false }'',
      ''    },'',
      ''    exportGlobalContextKeys: false,'',
      ''    externalModules: {}'',
      ''}'', ''''] [CHR 0x0A]"

definition ensureSettings :: "string \<Rightarrow> 'w world_scheme \<Rightarrow> unit result \<times> 'w world_scheme" where
  "ensureSettings path w =
     (case Stat path w of (Inr _, w) \<Rightarrow> (Inr (), w) | (Inl _, w) \<Rightarrow> WriteFile path defaultSettings w)"

definition fresh_child :: child where
  "fresh_child = \<lparr>ch_stopClosed = False, ch_doneClosed = False, ch_waiter = Waiting\<rparr>"

text \<open>The child was started: fresh channels, and the goroutine waits for it.\<close>

definition adopt_child :: "bool \<Rightarrow> ProcessManager \<Rightarrow> ProcessManager" where
  "adopt_child resetCounter pm =
     pm\<lparr>pm_currentCmd := Some (length (pm_children pm)), pm_children := pm_children pm @ [fresh_child],
        pm_running := True, pm_lastError := None,
        pm_restartCount := (if resetCounter then 0 else pm_restartCount pm)\<rparr>"

text \<open>\<open>startLocked\<close>.  While \<open>running\<close> is set the code reads the process id through \<open>currentCmd\<close>, a panic when
  that is nil.  The two pipes and the start of the child are system calls.\<close>

definition startLocked ::
    "start_env \<Rightarrow> bool \<Rightarrow> ProcessManager \<Rightarrow> 'w svc_world_scheme \<Rightarrow> (unit result \<times> ProcessManager) \<times> 'w svc_world_scheme" where
  "startLocked E resetCounter pm w =
     (if pm_running pm
      then ((Inl (case pm_currentCmd pm of None \<Rightarrow> Sentinel GoPanic | Some _ \<Rightarrow> ErrText ''process already running''), pm), w)
      else
        let (env, w) = envForChild E w in
        case resolveNodeRedRuntime (se_cwd E) env (se_dataDir E) of
          Inl e \<Rightarrow> ((Inl (ErrWrap ''invalid Node-RED runtime'' e), pm), w)
        | Inr rt \<Rightarrow>
            if se_portInUse E (calls w) (rt_Port rt)
            then ((Inr (), pm\<lparr>pm_externalMode := True, pm_running := True\<rparr>), w)
            else
              let pm = pm\<lparr>pm_externalMode := False\<rparr> in
              case ensureSettings (rt_SettingsPath rt) w of
                (Inl e, w) \<Rightarrow> ((Inl (ErrWrap ''failed to create settings.js'' e), pm), w)
              | (Inr _, w) \<Rightarrow>
                  (let (_, w) = envForChild E w in
                   case sys_call w of
                     (Inl e, w) \<Rightarrow> ((Inl (ErrWrap ''stdout pipe'' e), pm), w)
                   | (Inr _, w) \<Rightarrow>
                       (case sys_call w of
                          (Inl e, w) \<Rightarrow> ((Inl (ErrWrap ''stderr pipe'' e), pm), w)
                        | (Inr _, w) \<Rightarrow>
                            (case sys_call w of
                               (Inl e, w) \<Rightarrow> ((Inl (ErrWrap ''failed to start node-red'' e), pm), w)
                             | (Inr _, w) \<Rightarrow> ((Inr (), adopt_child resetCounter pm), w)))))"

definition Start :: "start_env \<Rightarrow> ProcessManager \<Rightarrow> 'w svc_world_scheme \<Rightarrow> (unit result \<times> ProcessManager) \<times> 'w svc_world_scheme" where
  "Start E pm w = startLocked E True pm w"

section \<open>Stopping\<close>

text \<open>The critical section of \<open>Stop\<close>: it returns, or goes on with the channels of a generation.\<close>

datatype stop_section = StopReturns | StopChild nat

definition stop_lock :: "ProcessManager \<Rightarrow> stop_section \<times> ProcessManager" where
  "stop_lock pm =
     (if \<not> pm_running pm \<or> pm_currentCmd pm = None then (StopReturns, pm)
      else if pm_externalMode pm then (StopReturns, pm\<lparr>pm_running := False, pm_externalMode := False\<rparr>)
      else (StopChild (the (pm_currentCmd pm)), pm))"

text \<open>\<open>close(stopCh)\<close>; closing it twice panics.\<close>

definition stop_close :: "nat \<Rightarrow> ProcessManager \<Rightarrow> unit result \<times> ProcessManager" where
  "stop_close g pm =
     (if ch_stopClosed (pm_children pm ! g) then (Inl (Sentinel GoPanic), pm)
      else (Inr (), pm\<lparr>pm_children := (pm_children pm)[g := (pm_children pm ! g)\<lparr>ch_stopClosed := True\<rparr>]\<rparr>))"

section \<open>The end of a child\<close>

text \<open>\<open>cmd.Wait\<close> returned: the first critical section of \<open>waitForExit\<close> and \<open>close(doneCh)\<close>.\<close>

definition exit_lock :: "nat \<Rightarrow> go_error option \<Rightarrow> ProcessManager \<Rightarrow> ProcessManager" where
  "exit_lock g err pm =
     pm\<lparr>pm_running := False, pm_currentCmd := None, pm_lastError := err,
        pm_children := (pm_children pm)[g := (pm_children pm ! g)\<lparr>ch_doneClosed := True, ch_waiter := Exited (pm_restartCount pm)\<rparr>]\<rparr>"

definition set_waiter :: "nat \<Rightarrow> waiter \<Rightarrow> ProcessManager \<Rightarrow> ProcessManager" where
  "set_waiter g p pm = pm\<lparr>pm_children := (pm_children pm)[g := (pm_children pm ! g)\<lparr>ch_waiter := p\<rparr>]\<rparr>"

definition exit_event :: "string \<Rightarrow> int \<Rightarrow> nat \<Rightarrow> RestartEvent" where
  "exit_event now exitCode restartCount =
     \<lparr>EvTimestamp = now, ExitCode = exitCode, Attempt = int restartCount + 1, MaxAttempts = int maxRestarts\<rparr>"

text \<open>The decision after the exit: an intentional stop ends the goroutine; otherwise the event is recorded,
  and the goroutine gives up or sleeps \<^term>\<open>backoff n\<close> seconds.\<close>

definition exit_decide :: "nat \<Rightarrow> nat \<Rightarrow> string \<Rightarrow> int \<Rightarrow> ProcessManager \<Rightarrow> ProcessManager" where
  "exit_decide g n now exitCode pm =
     (if ch_stopClosed (pm_children pm ! g) then set_waiter g Finished pm
      else let pm = pm\<lparr>pm_tracker := (case rt_push (pm_tracker pm) (exit_event now exitCode n) of None \<Rightarrow> pm_tracker pm | Some t \<Rightarrow> t)\<rparr>
           in set_waiter g (if n \<ge> maxRestarts then Finished else Sleeping n) pm)"

text \<open>The automatic restart after the sleep.  A failed save is only logged; a failed start is only recorded.\<close>

definition woken :: "nat \<Rightarrow> ProcessManager \<Rightarrow> ProcessManager" where
  "woken g pm = set_waiter g Finished (pm\<lparr>pm_restartCount := Suc (pm_restartCount pm),
     pm_cumulativeRestarts := pm_cumulativeRestarts pm + 1\<rparr>)"

definition wake :: "start_env \<Rightarrow> nat \<Rightarrow> ProcessManager \<Rightarrow> 'w svc_world_scheme \<Rightarrow> (unit result \<times> ProcessManager) \<times> 'w svc_world_scheme" where
  "wake E g pm w =
     (let pm = woken g pm;
          (_, w) = count_Save (restartCountFile (se_dataDir E)) (pm_cumulativeRestarts pm) w
      in case startLocked E False pm w of
           ((Inl e, pm), w) \<Rightarrow>
             if e = Sentinel GoPanic then ((Inl e, pm), w) else ((Inr (), pm\<lparr>pm_lastError := Some e\<rparr>), w)
         | ((Inr _, pm), w) \<Rightarrow> ((Inr (), pm), w))"

section \<open>Sequential use\<close>

text \<open>\<open>Stop\<close> when no other goroutine interferes and the child ends on the signal, and \<open>Restart\<close> on top of it.\<close>

definition Stop :: "ProcessManager \<Rightarrow> unit result \<times> ProcessManager" where
  "Stop pm =
     (case stop_lock pm of
        (StopReturns, pm) \<Rightarrow> (Inr (), pm)
      | (StopChild g, pm) \<Rightarrow>
          (case stop_close g pm of
             (Inl e, pm) \<Rightarrow> (Inl e, pm)
           | (Inr _, pm) \<Rightarrow> (let pm = exit_lock g None pm in (Inr (), exit_decide g (pm_restartCount pm) '''' 0 pm))))"

definition Restart :: "start_env \<Rightarrow> ProcessManager \<Rightarrow> 'w svc_world_scheme \<Rightarrow> (unit result \<times> ProcessManager) \<times> 'w svc_world_scheme" where
  "Restart E pm w =
     (if pm_externalMode pm then ((Inl (ErrText ''cannot restart an externally managed Node-RED instance''), pm), w)
      else case Stop pm of
          (Inl e, pm) \<Rightarrow> ((Inl (if e = Sentinel GoPanic then e else ErrWrap ''stop failed'' e), pm), w)
        | (Inr _, pm) \<Rightarrow> Start E pm w)"

definition Status :: "ProcessManager \<Rightarrow> string" where
  "Status pm =
     (if pm_running pm \<and> pm_currentCmd pm \<noteq> None then ''running''
      else if pm_externalMode pm then ''running (external)'' else ''stopped'')"

section \<open>The transition system\<close>

text \<open>The calls of \<open>Stop\<close> that are under way: before \<open>close(stopCh)\<close>, and waiting for \<open>doneCh\<close>.\<close>

datatype stopper = Closing nat | AwaitingDone nat

record 'w supervisor =
  sv_pm :: ProcessManager
  sv_world :: "'w svc_world_scheme"
  sv_stops :: "stopper list"
  sv_panics :: nat
  sv_dead :: bool

text \<open>The steps of callers and goroutines.  A child may exit at any time.  A panic in a request handler
  (\<open>Start\<close>, \<open>Stop\<close>) is recovered by the server and only counted; one in a \<open>waitForExit\<close> goroutine ends NRCC.\<close>

datatype pm_event =
    UserStart
  | StopCall
  | StopClose nat
  | StopReturn nat
  | ChildExit nat
  | Decide nat
  | AutoRestart nat

definition panicked :: "unit result \<Rightarrow> bool" where
  "panicked r \<longleftrightarrow> r = Inl (Sentinel GoPanic)"

inductive pm_step :: "start_env \<Rightarrow> 'w supervisor \<Rightarrow> pm_event \<Rightarrow> 'w supervisor \<Rightarrow> bool" for E where
  user_start: "\<not> sv_dead S \<Longrightarrow> Start E (sv_pm S) (sv_world S) = ((r, pm), w) \<Longrightarrow>
     pm_step E S UserStart (S\<lparr>sv_pm := pm, sv_world := w, sv_panics := sv_panics S + of_bool (panicked r)\<rparr>)"
| stop_returns: "\<not> sv_dead S \<Longrightarrow> stop_lock (sv_pm S) = (StopReturns, pm) \<Longrightarrow>
     pm_step E S StopCall (S\<lparr>sv_pm := pm\<rparr>)"
| stop_child: "\<not> sv_dead S \<Longrightarrow> stop_lock (sv_pm S) = (StopChild g, pm) \<Longrightarrow>
     pm_step E S StopCall (S\<lparr>sv_pm := pm, sv_stops := sv_stops S @ [Closing g]\<rparr>)"
| stop_closes: "\<not> sv_dead S \<Longrightarrow> sv_stops S = xs @ Closing g # ys \<Longrightarrow> stop_close g (sv_pm S) = (r, pm) \<Longrightarrow>
     pm_step E S (StopClose g) (S\<lparr>sv_pm := pm, sv_stops := xs @ (if panicked r then [] else [AwaitingDone g]) @ ys,
       sv_panics := sv_panics S + of_bool (panicked r)\<rparr>)"
| stop_done: "\<not> sv_dead S \<Longrightarrow> sv_stops S = xs @ AwaitingDone g # ys \<Longrightarrow> ch_doneClosed (pm_children (sv_pm S) ! g) \<Longrightarrow>
     pm_step E S (StopReturn g) (S\<lparr>sv_stops := xs @ ys\<rparr>)"
| child_exits: "\<not> sv_dead S \<Longrightarrow> g < length (pm_children (sv_pm S)) \<Longrightarrow> ch_waiter (pm_children (sv_pm S) ! g) = Waiting \<Longrightarrow>
     pm_step E S (ChildExit g) (S\<lparr>sv_pm := exit_lock g err (sv_pm S)\<rparr>)"
| decides: "\<not> sv_dead S \<Longrightarrow> g < length (pm_children (sv_pm S)) \<Longrightarrow> ch_waiter (pm_children (sv_pm S) ! g) = Exited n \<Longrightarrow>
     pm_step E S (Decide g) (S\<lparr>sv_pm := exit_decide g n now exitCode (sv_pm S)\<rparr>)"
| restarts: "\<not> sv_dead S \<Longrightarrow> g < length (pm_children (sv_pm S)) \<Longrightarrow> ch_waiter (pm_children (sv_pm S) ! g) = Sleeping n \<Longrightarrow>
     wake E g (sv_pm S) (sv_world S) = ((r, pm), w) \<Longrightarrow>
     pm_step E S (AutoRestart g) (S\<lparr>sv_pm := pm, sv_world := w, sv_dead := panicked r\<rparr>)"

inductive pm_run :: "start_env \<Rightarrow> 'w supervisor \<Rightarrow> pm_event list \<Rightarrow> 'w supervisor \<Rightarrow> bool" for E where
  run_nil: "pm_run E S [] S"
| run_snoc: "pm_run E S es T \<Longrightarrow> pm_step E T e U \<Longrightarrow> pm_run E S (es @ [e]) U"

definition initial_supervisor :: "int \<Rightarrow> 'w svc_world_scheme \<Rightarrow> 'w supervisor" where
  "initial_supervisor n w = \<lparr>sv_pm = NewProcessManager n, sv_world = w, sv_stops = [], sv_panics = 0, sv_dead = False\<rparr>"

end
