(* ===== verification/EnvHandler.thy ===== *)
theory EnvHandler
  imports Env Process Http
begin

text \<open>
  The \<open>/api/env\<close> endpoints: src/internal/handler/env.go.  The state is the configuration store, the
  process manager and the audit trail; \<open>EnvHandler\<close> holds what the server wired in.  A body arrives
  decoded; a response is its status, its error code and its data (messages are left out).
\<close>

record env_world = svc_world +
  ew_pm :: ProcessManager
  ew_trail :: "(string \<times> string \<times> (string \<times> string) list) list"

record EnvHandler =
  eh_svc :: EnvService
  eh_pm :: "start_env option"
  eh_managed :: bool
  eh_dataDir :: string
  eh_environ :: "string \<rightharpoonup> string"

datatype env_data =
    NoContent
  | EnvList "EnvVar list"
  | Restarted bool
  | BulkReport BulkEnvResult
  | DotenvContent string

record env_response =
  er_status :: nat
  er_code :: string
  er_data :: env_data

definition env_ok :: "env_data \<Rightarrow> env_response" where
  "env_ok d = \<lparr>er_status = 200, er_code = '''', er_data = d\<rparr>"

definition env_error :: "nat \<Rightarrow> string \<Rightarrow> env_response" where
  "env_error status code = \<lparr>er_status = status, er_code = code, er_data = NoContent\<rparr>"

definition env_audit :: "string \<Rightarrow> string \<Rightarrow> (string \<times> string) list \<Rightarrow> 'w env_world_scheme \<Rightarrow> 'w env_world_scheme" where
  "env_audit action target meta w = w\<lparr>ew_trail := ew_trail w @ [(action, target, meta)]\<rparr>"

section \<open>The stop and restart envelope\<close>

text \<open>\<open>withManagedNodeRedStopped\<close> runs under the handler's mutex.  The stop is that of an undisturbed
  manager (see \<^const>\<open>Stop\<close>); it fails only by a panic.\<close>

definition start_node_red :: "start_env \<Rightarrow> 'w env_world_scheme \<Rightarrow> unit result \<times> 'w env_world_scheme" where
  "start_node_red E w = (case Start E (ew_pm w) w of ((r, pm), w) \<Rightarrow> (r, w\<lparr>ew_pm := pm\<rparr>))"

definition withManagedNodeRedStopped ::
    "EnvHandler \<Rightarrow> ('w env_world_scheme \<Rightarrow> unit result \<times> 'w env_world_scheme) \<Rightarrow> 'w env_world_scheme \<Rightarrow>
     (bool \<times> unit result) \<times> 'w env_world_scheme" where
  "withManagedNodeRedStopped h change w =
     (if \<not> eh_managed h
      then ((False, Inl (ErrText ''cannot synchronize environment variables when Node-RED management is disabled'')), w)
      else case eh_pm h of
          None \<Rightarrow> (case change w of (r, w) \<Rightarrow> ((False, r), w))
        | Some E \<Rightarrow>
            if pm_externalMode (ew_pm w)
            then ((False, Inl (ErrText ''cannot synchronize environment variables for externally managed Node-RED'')), w)
            else
              let wasRunning = (Status (ew_pm w) = ''running'');
                  (stopped, w) = (if wasRunning then case Stop (ew_pm w) of (r, pm) \<Rightarrow> (r, w\<lparr>ew_pm := pm\<rparr>) else (Inr (), w))
              in case stopped of
                   Inl e \<Rightarrow> ((False, Inl (ErrWrap ''stop Node-RED before environment update'' e)), w)
                 | Inr _ \<Rightarrow>
                     (case change w of
                        (Inl e, w) \<Rightarrow>
                          if wasRunning
                          then (case start_node_red E w of
                                  (Inl restartErr, w) \<Rightarrow> ((True, Inl (ErrJoin e restartErr)), w)
                                | (Inr _, w) \<Rightarrow> ((True, Inl e), w))
                          else ((False, Inl e), w)
                      | (Inr _, w) \<Rightarrow>
                          if wasRunning
                          then (case start_node_red E w of
                                  (Inl e, w) \<Rightarrow> ((True, Inl (ErrWrap ''restart Node-RED after environment update'' e)), w)
                                | (Inr _, w) \<Rightarrow> ((True, Inr ()), w))
                          else ((False, Inr ()), w)))"

section \<open>Single entries\<close>

record env_request =
  rq_Key :: string
  rq_Value :: string
  rq_Type :: string
  rq_Description :: string
  rq_Encrypted :: bool

definition GetEnv ::
    "EnvHandler \<Rightarrow> (nat \<Rightarrow> 'w env_world_scheme \<Rightarrow> 'w env_world_scheme) \<Rightarrow> 'w env_world_scheme \<Rightarrow> (env_response \<times> 'w env_world_scheme) option" where
  "GetEnv h others w =
     (case List (eh_svc h) others w of
        None \<Rightarrow> None
      | Some (Inl e, w) \<Rightarrow> Some (env_error 500 ''ENV_ERROR'', w)
      | Some (Inr evs, w) \<Rightarrow> Some (env_ok (EnvList evs), w))"

text \<open>The answer to a failed change.\<close>

definition env_failure :: "string \<Rightarrow> go_error \<Rightarrow> env_response" where
  "env_failure code e =
     (if errors_is e ErrEncryptionKeyRequired then env_error 503 ''ENCRYPTION_KEY_REQUIRED'' else env_error 500 code)"

definition PostEnv :: "EnvHandler \<Rightarrow> env_request decoding \<Rightarrow> 'w env_world_scheme \<Rightarrow> env_response \<times> 'w env_world_scheme" where
  "PostEnv h body w =
     (case body of
        Responded status \<Rightarrow> (env_error status '''', w)
      | ZeroValue \<Rightarrow> (env_error 400 ''INVALID_REQUEST'', w)
      | Value req \<Rightarrow>
          if ValidateEnvKey (rq_Key req) \<noteq> None then (env_error 400 ''INVALID_REQUEST'', w)
          else
            let typ = (if rq_Type req = '''' then ''string'' else rq_Type req) in
            if ValidateValue (eh_svc h) (rq_Value req) typ \<noteq> None then (env_error 400 ''INVALID_VALUE'', w)
            else case NormalizeValue (eh_svc h) (rq_Value req) typ of
                Inl _ \<Rightarrow> (env_error 400 ''INVALID_VALUE'', w)
              | Inr v \<Rightarrow>
                  (case withManagedNodeRedStopped h
                          (Set (eh_svc h) (rq_Key req) v typ (rq_Description req) (typ = ''secret'')) w of
                     ((_, Inl e), w) \<Rightarrow> (env_failure ''ENV_ERROR'' e, w)
                   | ((restarted, Inr _), w) \<Rightarrow>
                       (env_ok (Restarted restarted), env_audit ''ENV_SET'' (rq_Key req) [(''type'', typ)] w)))"

definition DeleteEnv :: "EnvHandler \<Rightarrow> string \<Rightarrow> 'w env_world_scheme \<Rightarrow> env_response \<times> 'w env_world_scheme" where
  "DeleteEnv h key w =
     (case withManagedNodeRedStopped h (Delete (eh_svc h) key) w of
        ((_, Inl e), w) \<Rightarrow> (env_error 500 ''ENV_ERROR'', w)
      | ((restarted, Inr _), w) \<Rightarrow>
          (if restarted then env_ok (Restarted True) else \<lparr>er_status = 204, er_code = '''', er_data = NoContent\<rparr>,
           env_audit ''ENV_DELETE'' key [] w))"

section \<open>Bulk changes\<close>

definition limits_report :: "go_error \<Rightarrow> env_response" where
  "limits_report e =
     \<lparr>er_status = 400, er_code = '''',
      er_data = BulkReport \<lparr>br_Lines = [], br_Issues = [issue 0 '''' (error_message e)], br_Valid = False,
        br_Summary = ''invalid bulk import limits''\<rparr>\<rparr>"

definition BulkEnv :: "EnvHandler \<Rightarrow> (string \<times> bool) decoding \<Rightarrow> 'w env_world_scheme \<Rightarrow> env_response \<times> 'w env_world_scheme" where
  "BulkEnv h body w =
     (case body of
        Responded status \<Rightarrow> (env_error status '''', w)
      | ZeroValue \<Rightarrow> (env_error 400 ''INVALID_REQUEST'', w)
      | Value (content, commit) \<Rightarrow>
          (case BulkLimitsFromEnv (eh_environ h) of
             Inl e \<Rightarrow> (limits_report e, w)
           | Inr limits \<Rightarrow>
               (case ParseBulkEnvWithLimits (eh_svc h) content limits of
                  Inl e \<Rightarrow> (limits_report e, w)
                | Inr parsed \<Rightarrow>
                    if \<not> br_Valid parsed then (\<lparr>er_status = 400, er_code = '''', er_data = BulkReport parsed\<rparr>, w)
                    else if \<not> commit then (env_ok (BulkReport parsed), w)
                    else case withManagedNodeRedStopped h (ApplyBulkEnv (eh_svc h) parsed None) w of
                        ((_, Inl e), w) \<Rightarrow> (env_failure ''BULK_IMPORT_FAILED'' e, w)
                      | ((_, Inr _), w) \<Rightarrow>
                          (env_ok (BulkReport parsed),
                           env_audit ''ENV_BULK_IMPORT'' '''' [(''lines'', nat_text (length (br_Lines parsed)))] w))))"

definition ImportFromNodeRedEnv ::
    "EnvHandler \<Rightarrow> (nat \<Rightarrow> 'w env_world_scheme \<Rightarrow> 'w env_world_scheme) \<Rightarrow> bool decoding \<Rightarrow> 'w env_world_scheme \<Rightarrow>
     (env_response \<times> 'w env_world_scheme) option" where
  "ImportFromNodeRedEnv h others body w =
     (case body of
        Responded status \<Rightarrow> Some (env_error status '''', w)
      | _ \<Rightarrow>
          let commit = (case body of Value c \<Rightarrow> c | _ \<Rightarrow> False) in
          if \<not> eh_managed h \<or> eh_pm h \<noteq> None \<and> pm_externalMode (ew_pm w)
          then Some (env_error 503 ''NODE_RED_SYNC_UNAVAILABLE'', w)
          else case ImportFromNodeRed (eh_svc h) others commit (Some (withManagedNodeRedStopped h)) w of
              None \<Rightarrow> None
            | Some ((_, Inl e), w) \<Rightarrow> Some (env_error 500 ''IMPORT_FAILED'', w)
            | Some ((None, Inr _), w) \<Rightarrow> Some (env_error 500 ''IMPORT_FAILED'', w)
            | Some ((Some result, Inr _), w) \<Rightarrow>
                Some (env_ok (BulkReport result),
                      env_audit ''ENV_IMPORT_FROM_NODE_RED'' '''' [(''lines'', nat_text (length (br_Lines result)))] w))"

section \<open>The .env file\<close>

definition GetDotenv :: "EnvHandler \<Rightarrow> 'w env_world_scheme \<Rightarrow> env_response \<times> 'w env_world_scheme" where
  "GetDotenv h w =
     (case ReadDotenv (eh_dataDir h) w of
        (Inl e, w) \<Rightarrow> (env_error 500 ''DOTENV_ERROR'', w) | (Inr content, w) \<Rightarrow> (env_ok (DotenvContent content), w))"

text \<open>\<open>restartIfRunning\<close>; the restart it starts in the background is not part of the request.\<close>

definition restartIfRunning :: "EnvHandler \<Rightarrow> 'w env_world_scheme \<Rightarrow> bool" where
  "restartIfRunning h w \<longleftrightarrow> eh_pm h \<noteq> None \<and> Status (ew_pm w) = ''running''"

definition PutDotenv :: "EnvHandler \<Rightarrow> string decoding \<Rightarrow> 'w env_world_scheme \<Rightarrow> env_response \<times> 'w env_world_scheme" where
  "PutDotenv h body w =
     (case body of
        Responded status \<Rightarrow> (env_error status '''', w)
      | ZeroValue \<Rightarrow> (env_error 400 ''INVALID_REQUEST'', w)
      | Value content \<Rightarrow>
          (case WriteDotenv (eh_dataDir h) content w of
             (Inl e, w) \<Rightarrow> (env_error 500 ''DOTENV_ERROR'', w)
           | (Inr _, w) \<Rightarrow> (env_ok (Restarted (restartIfRunning h w)), env_audit ''DOTENV_UPDATE'' '''' [] w)))"

end
