(* ===== verification/EnvSafety.thy ===== *)
theory EnvSafety
  imports EnvHandler CryptoSafety
begin

text \<open>
  What the environment endpoints keep: the stored entries stay well typed and secrets stay sealed whatever
  requests arrive, a value that was set is the value the child process and \<open>GetAll\<close> see, no listing
  carries a secret, and listing ends once nobody interferes.
\<close>

section \<open>Frames\<close>

text \<open>The operations below the store do not touch the configuration document.\<close>

named_theorems cfg_frame

lemma sys_call_cfg [cfg_frame]: "sys_call (w :: 'w svc_world_scheme) = (r, w') \<Longrightarrow> cfg_file w' = cfg_file w"
  by (auto dest!: sys_call_tick)

lemma sys_call_snd [simp]: "cfg_file (snd (sys_call (w :: 'w svc_world_scheme))) = cfg_file w"
  by (simp add: sys_call_def)

lemma ReadFile_cfg [cfg_frame]: "ReadFile p (w :: 'w svc_world_scheme) = (r, w') \<Longrightarrow> cfg_file w' = cfg_file w"
  by (auto simp: ReadFile_def split: prod.splits sum.splits option.splits dest!: cfg_frame)

lemma Stat_cfg [cfg_frame]: "Stat p (w :: 'w svc_world_scheme) = (r, w') \<Longrightarrow> cfg_file w' = cfg_file w"
  by (auto simp: Stat_def split: prod.splits sum.splits if_splits dest!: cfg_frame)

lemma Remove_cfg [cfg_frame]: "Remove p (w :: 'w svc_world_scheme) = (r, w') \<Longrightarrow> cfg_file w' = cfg_file w"
  by (auto simp: Remove_def split: prod.splits sum.splits if_splits dest!: cfg_frame)

lemma Rename_cfg [cfg_frame]: "Rename p q (w :: 'w svc_world_scheme) = (r, w') \<Longrightarrow> cfg_file w' = cfg_file w"
  by (auto simp: Rename_def split: prod.splits sum.splits option.splits dest!: cfg_frame)

lemma OpenExcl_cfg [cfg_frame]: "OpenExcl p (w :: 'w svc_world_scheme) = (r, w') \<Longrightarrow> cfg_file w' = cfg_file w"
  by (auto simp: OpenExcl_def split: prod.splits sum.splits if_splits dest!: cfg_frame)

lemma WriteTo_cfg [cfg_frame]: "WriteTo p d (w :: 'w svc_world_scheme) = (r, w') \<Longrightarrow> cfg_file w' = cfg_file w"
  by (auto simp: WriteTo_def split: prod.splits sum.splits dest!: cfg_frame)

lemma WriteFile_cfg [cfg_frame]: "WriteFile p d (w :: 'w svc_world_scheme) = (r, w') \<Longrightarrow> cfg_file w' = cfg_file w"
  by (auto simp: WriteFile_def split: prod.splits sum.splits dest!: cfg_frame)

lemma Encrypt_cfg [cfg_frame]: "Encrypt C p k (w :: 'w svc_world_scheme) = (r, w') \<Longrightarrow> cfg_file w' = cfg_file w"
  by (auto simp: Encrypt_def split: prod.splits sum.splits dest!: rand_bytes_post)

lemma GetRawSettings_cfg [cfg_frame]: "GetRawSettings P (w :: 'w svc_world_scheme) = (r, w') \<Longrightarrow> cfg_file w' = cfg_file w"
  by (auto simp: GetRawSettings_def Let_def split: prod.splits sum.splits if_splits dest!: cfg_frame)

lemma readFromSettingsFile_cfg [cfg_frame]: "readFromSettingsFile P (w :: 'w svc_world_scheme) = (r, w') \<Longrightarrow> cfg_file w' = cfg_file w"
  by (auto simp: readFromSettingsFile_def split: prod.splits sum.splits if_splits dest!: cfg_frame)

lemma Get_cfg [cfg_frame]: "Get P (w :: 'w svc_world_scheme) = (r, w') \<Longrightarrow> cfg_file w' = cfg_file w"
  by (auto simp: Get_def split: prod.splits sum.splits bool.splits option.splits dest!: cfg_frame store_Exists_post store_Read_post)

lemma GetAll_cfg [cfg_frame]: "GetAll s (w :: 'w svc_world_scheme) = (r, w') \<Longrightarrow> cfg_file w' = cfg_file w"
  by (auto simp: GetAll_def split: prod.splits sum.splits dest!: cfg_frame)

lemma parseEnvFile_cfg [cfg_frame]: "parseEnvFile p (w :: 'w svc_world_scheme) = (r, w') \<Longrightarrow> cfg_file w' = cfg_file w"
  by (auto simp: parseEnvFile_def split: prod.splits sum.splits dest!: cfg_frame)

lemma flow_path_cfg [cfg_frame]: "flow_path s cfg (w :: 'w svc_world_scheme) = (r, w') \<Longrightarrow> cfg_file w' = cfg_file w"
  by (auto simp: flow_path_def activeNodeRedUserDir_def Let_def split: prod.splits sum.splits if_splits dest!: cfg_frame)

lemma flockExclusive_cfg [cfg_frame]: "flockExclusive p (w :: 'w svc_world_scheme) = (r, w') \<Longrightarrow> cfg_file w' = cfg_file w"
  by (auto simp: flockExclusive_def Let_def split: prod.splits sum.splits if_splits dest!: cfg_frame)

lemma create_temp_cfg [cfg_frame]: "create_temp n p q (w :: 'w svc_world_scheme) = (r, w') \<Longrightarrow> cfg_file w' = cfg_file w"
proof (induction n arbitrary: w)
  case (Suc n)
  then show ?case by (auto simp: Let_def split: prod.splits sum.splits if_splits dest!: OpenExcl_cfg)
qed simp

lemma publish_flows_cfg [cfg_frame]:
  fixes w :: "'w svc_world_scheme"
  assumes "publish_flows p out w = (r, w')"
  shows "cfg_file w' = cfg_file w"
proof -
  have rm: "cfg_file (snd (Remove q u)) = cfg_file u" for q and u :: "'w svc_world_scheme"
    using Remove_cfg [of q u] by (cases "Remove q u") simp
  show ?thesis
    using assms by (auto simp: publish_flows_def CreateTemp_def rm split: prod.splits sum.splits dest!: cfg_frame)
qed

lemma syncValues_cfg [cfg_frame]:
  fixes w :: "'w svc_world_scheme"
  assumes "syncNodeRedGlobalEnvValues s cfg keys changes w = (r, w')"
  shows "cfg_file w' = cfg_file w"
proof -
  have st: "cfg_file (snd (Stat q u)) = cfg_file u" for q and u :: "'w svc_world_scheme"
    using Stat_cfg [of q u] by (cases "Stat q u") simp
  show ?thesis
    using assms
    by (auto simp: syncNodeRedGlobalEnvValues_def st Let_def split: prod.splits sum.splits option.splits if_splits dest!: cfg_frame)
qed

lemma syncEnv_cfg [cfg_frame]: "syncNodeRedGlobalEnv s k ev (w :: 'w svc_world_scheme) = (r, w') \<Longrightarrow> cfg_file w' = cfg_file w"
  by (auto simp: syncNodeRedGlobalEnv_def split: prod.splits sum.splits option.splits dest!: cfg_frame)

lemma syncEnvs_cfg [cfg_frame]: "syncNodeRedGlobalEnvs s ks (w :: 'w svc_world_scheme) = (r, w') \<Longrightarrow> cfg_file w' = cfg_file w"
  by (auto simp: syncNodeRedGlobalEnvs_def split: prod.splits sum.splits option.splits dest!: cfg_frame)

lemma sync_key_cfg [cfg_frame]: "sync_key s k (w :: 'w svc_world_scheme) = (r, w') \<Longrightarrow> cfg_file w' = cfg_file w"
  by (auto simp: sync_key_def currentNodeRedGlobal_def split: prod.splits sum.splits dest!: cfg_frame)

lemma final_sync_cfg [cfg_frame]: "final_sync s ks (w :: 'w svc_world_scheme) = (r, w') \<Longrightarrow> cfg_file w' = cfg_file w"
  by (auto simp: final_sync_def split: prod.splits sum.splits dest!: cfg_frame)

lemma stage_value_cfg [cfg_frame]: "stage_value s v e (w :: 'w svc_world_scheme) = (r, w') \<Longrightarrow> cfg_file w' = cfg_file w"
  by (auto simp: stage_value_def split: if_splits dest!: cfg_frame)

lemma stage_lines_cfg [cfg_frame]: "stage_lines s ls (w :: 'w svc_world_scheme) = (r, w') \<Longrightarrow> cfg_file w' = cfg_file w"
proof (induction ls arbitrary: w r w')
  case (Cons l ls)
  then show ?case by (auto split: prod.splits sum.splits option.splits dest!: stage_value_cfg)
qed simp

lemma stage_loop_cfg [cfg_frame]: "stage_loop s evs m (w :: 'w svc_world_scheme) = (r, w') \<Longrightarrow> cfg_file w' = cfg_file w"
proof (induction evs arbitrary: m w)
  case (Cons ev evs)
  then show ?case by (auto split: prod.splits sum.splits if_splits dest!: Encrypt_cfg)
qed simp

lemma envForChild_cfg [cfg_frame]: "envForChild E (w :: 'w svc_world_scheme) = (r, w') \<Longrightarrow> cfg_file w' = cfg_file w"
  by (auto simp: envForChild_def split: prod.splits sum.splits option.splits dest!: cfg_frame)

lemma ensureSettings_cfg [cfg_frame]: "ensureSettings p (w :: 'w svc_world_scheme) = (r, w') \<Longrightarrow> cfg_file w' = cfg_file w"
  by (auto simp: ensureSettings_def split: prod.splits sum.splits dest!: cfg_frame)

lemma startLocked_cfg [cfg_frame]: "startLocked E b pm (w :: 'w svc_world_scheme) = (r, w') \<Longrightarrow> cfg_file w' = cfg_file w"
  by (auto simp: startLocked_def Let_def split: prod.splits sum.splits if_splits dest!: cfg_frame)

lemma start_node_red_cfg [cfg_frame]: "start_node_red E (w :: 'w env_world_scheme) = (r, w') \<Longrightarrow> cfg_file w' = cfg_file w"
  by (auto simp: start_node_red_def Start_def split: prod.splits dest!: startLocked_cfg)

section \<open>Well-typed stores\<close>

text \<open>The stored entries.\<close>

definition env_vars :: "'w svc_world_scheme \<Rightarrow> EnvVar list" where
  "env_vars w = (case cfg_file w of None \<Rightarrow> [] | Some c \<Rightarrow> EnvVars c)"

text \<open>An entry is well typed when its key is a valid name, it is encrypted exactly when its type is secret,
  an encrypted value is sealed or empty, and any other value is valid for its type.\<close>

definition well_typed :: "EnvService \<Rightarrow> EnvVar \<Rightarrow> bool" where
  "well_typed s ev \<longleftrightarrow> ValidateEnvKey (ev_Key ev) = None \<and> (ev_Encrypted ev \<longleftrightarrow> ev_Type ev = ''secret'') \<and>
     (if ev_Encrypted ev then ev_Value ev = '''' \<or> IsEncrypted (ev_Value ev) else ValidateValue s (ev_Value ev) (ev_Type ev) = None)"

definition entries_ok :: "EnvService \<Rightarrow> EnvVar list \<Rightarrow> bool" where
  "entries_ok s evs \<longleftrightarrow> (\<forall>ev\<in>set evs. well_typed s ev) \<and> distinct (map ev_Key evs)"

text \<open>What a written value has to satisfy: valid for its type, and the entry that carries its staged form
  well typed.\<close>

definition writes :: "EnvService \<Rightarrow> string \<Rightarrow> EnvVar \<Rightarrow> bool" where
  "writes s v new \<longleftrightarrow> well_typed s new \<and> ValidateValue s v (ev_Type new) = None"

lemma empty_is_string: "ValidateValue s '''' typ = None \<Longrightarrow> typ = ''string'' \<or> typ = ''secret''"
proof -
  have "ToLower (TrimSpace '''') = ''''" by code_simp
  then show "ValidateValue s '''' typ = None \<Longrightarrow> typ = ''string'' \<or> typ = ''secret''"
    by (auto simp: ValidateValue_def Let_def split: if_splits)
qed

lemma keep_sealed:
  assumes "writes s '''' new" "well_typed s ev" "ev_Encrypted ev"
  shows "well_typed s (new\<lparr>ev_Value := ev_Value ev\<rparr>)"
proof (cases "ev_Type new = ''secret''")
  case True
  then show ?thesis using assms by (simp add: writes_def well_typed_def)
next
  case False
  then have "ev_Type new = ''string''" using assms(1) empty_is_string [of s "ev_Type new"] by (simp add: writes_def)
  then show ?thesis using assms(1) by (simp add: writes_def well_typed_def ValidateValue_def)
qed

lemma put_entry_keys: "set (map ev_Key (fst (put_entry v new evs))) = insert (ev_Key new) (set (map ev_Key evs))"
  by (induction evs) (auto simp: case_prod_beta)

lemma put_entry_ok:
  assumes "writes s v new" "entries_ok s evs"
  shows "entries_ok s (fst (put_entry v new evs))"
  using assms(2)
proof (induction evs)
  case Nil then show ?case using assms(1) by (simp add: entries_ok_def writes_def)
next
  case (Cons ev evs)
  show ?case
  proof (cases "ev_Key ev = ev_Key new")
    case True
    then show ?thesis
      using Cons.prems keep_sealed [of s new ev] assms(1) by (auto simp: entries_ok_def writes_def)
  next
    case False
    then show ?thesis
      using Cons put_entry_keys [of v new evs] by (auto simp: entries_ok_def case_prod_beta)
  qed
qed

lemma entries_ok_rev [simp]: "entries_ok s (rev evs) = entries_ok s evs"
  by (simp add: entries_ok_def rev_map [symmetric])

lemma put_last_ok:
  assumes "writes s v new" "entries_ok s evs"
  shows "entries_ok s (put_last v new evs)"
proof (cases "ev_Key new \<in> ev_Key ` set evs")
  case True
  then show ?thesis using put_entry_ok [OF assms(1), of "rev evs"] assms(2) by (simp add: put_last_def)
next
  case False
  then show ?thesis using assms by (auto simp: put_last_def writes_def entries_ok_def)
qed

text \<open>Staging makes an entry that may be written.\<close>

lemma Encrypt_sealed: "Encrypt C p k w = (Inr v, w') \<Longrightarrow> IsEncrypted v"
  by (auto simp: Encrypt_def IsEncrypted_def HasPrefix_def split: prod.splits sum.splits)

lemma staged_writes:
  assumes "stage_value s v (typ = ''secret'') w = (Inr sv, w')" "ValidateEnvKey key = None" "ValidateValue s v typ = None"
  shows "writes s v (env_entry key sv typ d (typ = ''secret'') src)"
  using assms
  by (auto simp: stage_value_def writes_def well_typed_def env_entry_def dest: Encrypt_sealed split: if_splits)

text \<open>A store is sound when its entries are.\<close>

definition store_ok :: "EnvService \<Rightarrow> 'w svc_world_scheme \<Rightarrow> bool" where
  "store_ok s w \<longleftrightarrow> entries_ok s (env_vars w)"

lemma store_ok_cfg: "cfg_file w' = cfg_file w \<Longrightarrow> store_ok s w' = store_ok s w"
  by (simp add: store_ok_def env_vars_def)

lemma EnvVars_stored [simp]: "EnvVars (stored c) = EnvVars c"
  by (simp add: stored_def)

lemma Update_store_ok:
  assumes "store_Update fn w = (r, w')" "store_ok s w"
    "\<And>c c' x. fn c = Inr (c', x) \<Longrightarrow> entries_ok s (EnvVars c) \<Longrightarrow> entries_ok s (EnvVars c')"
  shows "store_ok s w'"
proof -
  have post: "update_post fn w r w'" using assms(1) by (rule store_Update_post)
  show ?thesis
  proof (cases r)
    case (Inl e)
    then show ?thesis using post assms(2) store_ok_cfg by (auto simp: update_post_def)
  next
    case (Inr x)
    then obtain c where c: "fn (case cfg_file w of None \<Rightarrow> zero_config | Some d \<Rightarrow> d) = Inr (c, x)" "cfg_file w' = Some (stored c)"
      using post by (auto simp: update_post_def)
    have "entries_ok s (EnvVars (case cfg_file w of None \<Rightarrow> zero_config | Some d \<Rightarrow> d))"
      using assms(2) by (auto simp: store_ok_def env_vars_def zero_config_def split: option.splits)
    from assms(3) [OF c(1) this] c(2) show ?thesis by (simp add: store_ok_def env_vars_def)
  qed
qed

lemma set_env_ok:
  fixes w :: "'w svc_world_scheme"
  assumes "set_env s key v typ d (typ = ''secret'') src sync w = (r, w')" "ValidateValue s v typ = None" "store_ok s w"
  shows "store_ok s w'"
proof (cases "ValidateEnvKey key")
  case (Some e) then show ?thesis using assms by (simp add: set_env_def)
next
  case None
  obtain x w1 where st: "stage_value s v (typ = ''secret'') w = (x, w1)" by (meson prod.exhaust)
  have ok1: "store_ok s w1" using assms(3) stage_value_cfg [OF st] store_ok_cfg by blast
  show ?thesis
  proof (cases x)
    case (Inl e) then show ?thesis using assms(1) None st ok1 by (simp add: set_env_def)
  next
    case (Inr sv)
    let ?new = "env_entry key sv typ d (typ = ''secret'') src"
    obtain y w2 where up: "store_Update (set_callback v ?new) w1 = (y, w2)" by (meson prod.exhaust)
    have wr: "writes s v ?new" using staged_writes [OF st [unfolded Inr] None assms(2)] .
    have ok2: "store_ok s w2"
      by (rule Update_store_ok [OF up ok1])
         (use put_entry_ok [OF wr] in \<open>auto simp: set_callback_def case_prod_beta\<close>)
    have "w' = w2 \<or> sync_key s key w2 = (r, w')"
      using assms(1) None st Inr up by (auto simp: set_env_def split: sum.splits if_splits)
    then show ?thesis using ok2 sync_key_cfg store_ok_cfg by metis
  qed
qed

lemma Delete_ok: "Delete s key (w :: 'w svc_world_scheme) = (r, w') \<Longrightarrow> store_ok s w \<Longrightarrow> store_ok s w'"
proof -
  assume d: "Delete s key w = (r, w')" "store_ok s w"
  obtain y w2 where up: "store_Update (delete_callback key) w = (y, w2)" by (meson prod.exhaust)
  have ok2: "store_ok s w2"
    by (rule Update_store_ok [OF up d(2)]) (auto simp: delete_callback_def entries_ok_def distinct_map_filter)
  have "w' = w \<or> w' = w2 \<or> sync_key s key w2 = (r, w')"
    using d(1) up by (auto simp: Delete_def split: option.splits sum.splits if_splits)
  then show ?thesis using ok2 d(2) sync_key_cfg store_ok_cfg by metis
qed

lemma stage_lines_writes:
  assumes "stage_lines s ls w = (Inr evs, w')"
  shows "list_all2 (\<lambda>l ev. writes s (be_Value l) ev) ls evs"
  using assms
proof (induction ls arbitrary: w evs)
  case (Cons l ls)
  then show ?case
    by (auto split: prod.splits sum.splits option.splits intro: staged_writes)
qed simp

lemma bulk_fold_ok:
  "list_all2 (\<lambda>l ev. writes s (be_Value l) ev) ls evs \<Longrightarrow> entries_ok s es \<Longrightarrow>
     entries_ok s (fold (\<lambda>(l, ev). put_last (be_Value l) ev) (zip ls evs) es)"
  by (induction ls evs arbitrary: es rule: list_all2_induct) (auto intro: put_last_ok)

lemma applyBulkEnvDirect_ok:
  assumes "applyBulkEnvDirect s ls (w :: 'w svc_world_scheme) = (r, w')" "store_ok s w"
  shows "store_ok s w'"
proof -
  obtain x w1 where st: "stage_lines s ls w = (x, w1)" by (meson prod.exhaust)
  have ok1: "store_ok s w1" using assms(2) stage_lines_cfg [OF st] store_ok_cfg by blast
  show ?thesis
  proof (cases x)
    case (Inl e) then show ?thesis using assms(1) st ok1 by (simp add: applyBulkEnvDirect_def)
  next
    case (Inr evs)
    obtain y w2 where up: "store_Update (bulk_callback (zip ls evs)) w1 = (y, w2)" by (meson prod.exhaust)
    have "store_ok s w2"
      by (rule Update_store_ok [OF up ok1])
         (use bulk_fold_ok [OF stage_lines_writes [OF st [unfolded Inr]]] in \<open>auto simp: bulk_callback_def\<close>)
    then show ?thesis using assms(1) st Inr up by (auto simp: applyBulkEnvDirect_def split: sum.splits)
  qed
qed

text \<open>The lines a bulk report marks as valid are valid.\<close>

definition lines_ok :: "EnvService \<Rightarrow> BulkEnvLine list \<Rightarrow> bool" where
  "lines_ok s ls \<longleftrightarrow> (\<forall>l\<in>set ls. ValidateValue s (be_Value l) (be_Type l) = None)"

lemma bulk_record_ok: "bulk_record s limits ls n t = Accept l \<Longrightarrow> ValidateValue s (be_Value l) (be_Type l) = None"
  by (auto simp: bulk_record_def check_entry_def Let_def split: option.splits if_splits sum.splits)

lemma bulk_loop_ok:
  "bulk_loop s limits raws n k ls issues = (ls', issues') \<Longrightarrow> lines_ok s ls \<Longrightarrow> lines_ok s ls'"
proof (induction s limits raws n k ls issues rule: bulk_loop.induct)
  case (2 s limits raw raws n records ls issues)
  show ?case
  proof (cases "TrimSpace raw = '''' \<or> HasPrefix (TrimSpace raw) ''#'' \<or> int (Suc records) > bl_MaxEntries limits")
    case True
    then show ?thesis using 2 by (auto simp: Let_def split: if_splits)
  next
    case False
    show ?thesis
    proof (cases "bulk_record s limits ls (Suc n) (TrimSpace raw)")
      case (Accept l)
      then have "lines_ok s (ls @ [l])" using 2(5) bulk_record_ok [OF Accept] by (simp add: lines_ok_def)
      then show ?thesis using 2 False Accept by (simp add: Let_def)
    next
      case (Issue i) then show ?thesis using 2 False by (simp add: Let_def)
    next
      case (Abort i) then show ?thesis using 2 False by (simp add: Let_def)
    qed
  qed
qed simp

lemma ParseBulk_ok: "ParseBulkEnvWithLimits s content limits = Inr r \<Longrightarrow> lines_ok s (br_Lines r)"
  using bulk_loop_ok [of s _ "scan_lines content" 0 0 "[]" "[]"]
  by (auto simp: ParseBulkEnvWithLimits_def lines_ok_def split: sum.splits prod.splits)

lemma bulk_lines_ok:
  "bulk_lines s None ks ls (w :: 'w svc_world_scheme) = (r, w') \<Longrightarrow> lines_ok s ls \<Longrightarrow> store_ok s w \<Longrightarrow> store_ok s w'"
proof (induction ls arbitrary: w)
  case (Cons l ls)
  obtain x w1 where b: "bulk_line s l w = (x, w1)" by (meson prod.exhaust)
  have "store_ok s w1"
    using set_env_ok [OF b [unfolded bulk_line_def]] Cons.prems by (simp add: lines_ok_def)
  then show ?case using Cons b by (auto simp: lines_ok_def split: sum.splits)
qed simp

lemma ApplyBulkEnv_ok:
  assumes "ApplyBulkEnv s parsed None (w :: 'w svc_world_scheme) = (r, w')" "lines_ok s (br_Lines parsed)" "store_ok s w"
  shows "store_ok s w'"
proof (cases "br_Valid parsed")
  case False then show ?thesis using assms by (simp add: ApplyBulkEnv_def)
next
  case True
  let ?ks = "map be_Key (br_Lines parsed)"
  obtain b x w1 where d: "applyBulkEnvDirect s (br_Lines parsed) w = ((b, x), w1)" by (metis prod.exhaust)
  have ok1: "store_ok s w1" using applyBulkEnvDirect_ok [OF d assms(3)] .
  have fs: "final_sync s ?ks u = (y, u') \<Longrightarrow> store_ok s u \<Longrightarrow> store_ok s u'" for u u' :: "'w svc_world_scheme" and y
    using final_sync_cfg store_ok_cfg by blast
  obtain y w2 where l: "bulk_lines s None ?ks (br_Lines parsed) w1 = (y, w2)" by (meson prod.exhaust)
  have ok2: "store_ok s w2" using bulk_lines_ok [OF l assms(2) ok1] .
  show ?thesis
    using assms(1) True d l ok1 ok2 fs
    by (cases b; cases x; cases y) (auto simp: ApplyBulkEnv_def Let_def split: sum.splits)
qed

section \<open>Listing\<close>

lemma stage_loop_sealed:
  "stage_loop s evs m w = (Inr m', w') \<Longrightarrow> (\<forall>v\<in>ran m. IsEncrypted v) \<Longrightarrow> \<forall>v\<in>ran m'. IsEncrypted v"
proof (induction evs arbitrary: m w)
  case (Cons ev evs)
  show ?case
  proof (cases "\<not> ev_Encrypted ev \<or> es_encryptionKey s = '''' \<or> IsEncrypted (ev_Value ev)")
    case True then show ?thesis using Cons by simp
  next
    case False
    obtain x w1 where e: "Encrypt (es_crypto s) (ev_Value ev) (es_encryptionKey s) w = (x, w1)" by (meson prod.exhaust)
    with False Cons.prems(1) obtain c where c: "x = Inr c" by (cases x) auto
    have "\<forall>v\<in>ran (m((ev_Key ev, ev_Value ev) \<mapsto> c)). IsEncrypted v"
      using Cons.prems(2) Encrypt_sealed [OF e [unfolded c]] by (auto simp: ran_def split: if_splits)
    then show ?thesis using Cons.IH Cons.prems(1) False e c by simp
  qed
qed simp

text \<open>Migrating a well-typed entry changes its value at most, from a plaintext to its sealed form.\<close>

lemma MigrateEnvTypes_id: "well_typed s ev \<Longrightarrow> MigrateEnvTypes ev = ev"
  by (auto simp: MigrateEnvTypes_def well_typed_def ValidateValue_def Let_def split: if_splits)

lemma migrate_loop_ok:
  assumes "\<forall>v\<in>ran staged. IsEncrypted v"
  shows "migrate_loop s staged evs = Inr ms \<Longrightarrow> entries_ok s evs \<Longrightarrow> entries_ok s ms \<and> map ev_Key ms = map ev_Key evs"
proof (induction evs arbitrary: ms)
  case Nil then show ?case by simp
next
  case (Cons ev evs)
  have ev: "well_typed s ev" "MigrateEnvTypes ev = ev" using Cons.prems(2) MigrateEnvTypes_id by (auto simp: entries_ok_def)
  obtain m ms' where m: "ms = m # ms'" "migrate_loop s staged evs = Inr ms'"
    "m = ev \<or> (ev_Encrypted ev \<and> (\<exists>c. staged (ev_Key ev, ev_Value ev) = Some c \<and> m = ev\<lparr>ev_Value := c\<rparr>))"
    using Cons.prems(1) ev by (auto simp: Let_def split: if_splits option.splits sum.splits)
  have "well_typed s m \<and> ev_Key m = ev_Key ev"
    using m(3) ev(1) assms by (auto simp: well_typed_def dest: ranI)
  then show ?case using Cons.IH [OF m(2)] Cons.prems(2) m(1) by (auto simp: entries_ok_def)
qed

lemma cs_Update_ok:
  assumes "cs_Update fn w = (r, w')" "store_ok s w" "\<And>c c'. fn c = Inr c' \<Longrightarrow> entries_ok s (EnvVars c) \<Longrightarrow> entries_ok s (EnvVars c')"
  shows "store_ok s w'"
  by (rule Update_store_ok [OF assms(1) [unfolded cs_Update_def] assms(2)])
     (use assms(3) in \<open>auto simp: map_sum_def split: sum.splits\<close>)

lemma migrate_callback_ok:
  "\<forall>v\<in>ran staged. IsEncrypted v \<Longrightarrow> migrate_callback s staged c = Inr c' \<Longrightarrow> entries_ok s (EnvVars c) \<Longrightarrow> entries_ok s (EnvVars c')"
  using migrate_loop_ok [of staged s "EnvVars c"] by (auto simp: migrate_callback_def split: if_splits sum.splits)

text \<open>Other goroutines that keep the store sound.\<close>

definition friendly :: "EnvService \<Rightarrow> (nat \<Rightarrow> 'w svc_world_scheme \<Rightarrow> 'w svc_world_scheme) \<Rightarrow> bool" where
  "friendly s others \<longleftrightarrow> (\<forall>n w. store_ok s w \<longrightarrow> store_ok s (others n w))"

lemma list_loop_ok:
  assumes "list_loop s others n (w :: 'w svc_world_scheme) = Some (r, w')" "friendly s others" "store_ok s w"
  shows "store_ok s w'"
  using assms
proof (induction s others n w "(r, w')" rule: list_loop.raw_induct [rotated, consumes 1])
  case (1 f s others n w)
  obtain x w1 where g: "Get (es_pf s) w = (x, w1)" by (meson prod.exhaust)
  have ok1: "store_ok s w1" using 1(4) Get_cfg [OF g] store_ok_cfg by blast
  show ?case
  proof (cases x)
    case (Inl e) then show ?thesis using 1(2) g ok1 by simp
  next
    case (Inr c)
    obtain y w2 where st: "stageEnvMigration s (EnvVars c) w1 = (y, w2)" by (meson prod.exhaust)
    have ok2: "store_ok s w2" using ok1 stage_loop_cfg [OF st [unfolded stageEnvMigration_def]] store_ok_cfg by blast
    show ?thesis
    proof (cases "envMigrationNeeded (EnvVars c) (es_encryptionKey s)")
      case False then show ?thesis using 1(2) g Inr ok1 by simp
    next
      case need: True
      show ?thesis
      proof (cases y)
        case e: (Inl e) then show ?thesis using 1(2) g Inr need st ok2 by simp
      next
        case sg: (Inr staged)
        have sealed: "\<forall>v\<in>ran staged. IsEncrypted v"
          using stage_loop_sealed [OF st [unfolded stageEnvMigration_def sg]] by simp
        obtain z w3 where up: "cs_Update (migrate_callback s staged) (others n w2) = (z, w3)" by (meson prod.exhaust)
        have "store_ok s (others n w2)" using 1(3) ok2 by (simp add: friendly_def)
        from cs_Update_ok [OF up this migrate_callback_ok [OF sealed]] have ok3: "store_ok s w3" .
        obtain z' w4 where g2: "Get (es_pf s) w3 = (z', w4)" by (meson prod.exhaust)
        have ok4: "store_ok s w4" using ok3 Get_cfg [OF g2] store_ok_cfg by blast
        show ?thesis
          using 1(1) [of s others "Suc n" w3] 1(2,3) g Inr need st sg up ok3 g2 ok4
          by (auto split: sum.splits if_splits)
      qed
    qed
  qed
qed

section \<open>The endpoints\<close>

lemma envelope_ok:
  fixes w :: "'w env_world_scheme"
  assumes "withManagedNodeRedStopped h change w = (r, w')" "store_ok s w"
    "\<And>u x u'. change u = (x, u') \<Longrightarrow> store_ok s u \<Longrightarrow> store_ok s u'"
  shows "store_ok s w'"
proof -
  have pm: "store_ok s (u\<lparr>ew_pm := p\<rparr>) = store_ok s u" for u :: "'w env_world_scheme" and p
    by (rule store_ok_cfg) simp
  have st: "start_node_red E u = (x, u') \<Longrightarrow> store_ok s u \<Longrightarrow> store_ok s u'" for E x and u u' :: "'w env_world_scheme"
    using start_node_red_cfg store_ok_cfg by blast
  show ?thesis
    using assms(1,2) pm st assms(3)
    by (auto simp: withManagedNodeRedStopped_def Let_def split: if_splits option.splits prod.splits sum.splits)
qed

lemma normalized_valid: "NormalizeValue s v typ = Inr v' \<Longrightarrow> ValidateValue s v' typ = None"
proof -
  have "ToLower (TrimSpace ''true'') = ''true''" "ToLower (TrimSpace ''false'') = ''false''" by code_simp+
  then show "NormalizeValue s v typ = Inr v' \<Longrightarrow> ValidateValue s v' typ = None"
    by (auto simp: NormalizeValue_def ValidateValue_def Let_def split: if_splits option.splits)
qed

lemma env_audit_ok [simp]: "store_ok s (env_audit a t m w) = store_ok s w"
  by (rule store_ok_cfg) (simp add: env_audit_def)

lemma PostEnv_ok:
  fixes w :: "'w env_world_scheme"
  assumes "PostEnv h body w = (r, w')" "store_ok (eh_svc h) w"
  shows "store_ok (eh_svc h) w'"
proof (cases body)
  case (Value req)
  define ty where "ty = (if rq_Type req = '''' then ''string'' else rq_Type req)"
  show ?thesis
  proof (cases "ValidateEnvKey (rq_Key req) \<noteq> None \<or> ValidateValue (eh_svc h) (rq_Value req) ty \<noteq> None")
    case True then show ?thesis using assms Value by (auto simp: PostEnv_def ty_def Let_def split: if_splits)
  next
    case valid: False
    show ?thesis
    proof (cases "NormalizeValue (eh_svc h) (rq_Value req) ty")
      case (Inl e) then show ?thesis using assms Value valid by (auto simp: PostEnv_def ty_def Let_def)
    next
      case (Inr v)
      let ?change = "Set (eh_svc h) (rq_Key req) v ty (rq_Description req) (ty = ''secret'')"
      obtain b x w1 where e: "withManagedNodeRedStopped h ?change w = ((b, x), w1)" by (metis prod.exhaust)
      have "store_ok (eh_svc h) w1"
        by (rule envelope_ok [OF e assms(2)])
           (auto simp: Set_def intro: set_env_ok [OF _ normalized_valid [OF Inr]])
      then show ?thesis
        using assms(1) Value valid Inr e by (cases x) (auto simp: PostEnv_def ty_def Let_def)
    qed
  qed
qed (use assms in \<open>simp_all add: PostEnv_def\<close>)

lemma DeleteEnv_ok:
  fixes w :: "'w env_world_scheme"
  assumes "DeleteEnv h key w = (r, w')" "store_ok (eh_svc h) w"
  shows "store_ok (eh_svc h) w'"
proof -
  obtain b x w1 where e: "withManagedNodeRedStopped h (Delete (eh_svc h) key) w = ((b, x), w1)" by (metis prod.exhaust)
  have "store_ok (eh_svc h) w1" by (rule envelope_ok [OF e assms(2)]) (rule Delete_ok)
  then show ?thesis using assms(1) e by (cases x) (auto simp: DeleteEnv_def)
qed

lemma BulkEnv_ok:
  fixes w :: "'w env_world_scheme"
  assumes "BulkEnv h body w = (r, w')" "store_ok (eh_svc h) w"
  shows "store_ok (eh_svc h) w'"
proof (cases "w' = w")
  case False
  then obtain content limits parsed b x w1 where
    p: "ParseBulkEnvWithLimits (eh_svc h) content limits = Inr parsed"
    and e: "withManagedNodeRedStopped h (ApplyBulkEnv (eh_svc h) parsed None) w = ((b, x), w1)"
    and w': "cfg_file w' = cfg_file w1"
    using assms(1)
    by (auto simp: BulkEnv_def env_audit_def split: decoding.splits prod.splits sum.splits if_splits)
  have "store_ok (eh_svc h) w1"
    by (rule envelope_ok [OF e assms(2)]) (rule ApplyBulkEnv_ok [OF _ ParseBulk_ok [OF p]])
  then show ?thesis using w' store_ok_cfg by blast
qed (use assms in simp)

lemma import_lines_ok:
  "import_lines s ls (w :: 'w svc_world_scheme) = (r, w') \<Longrightarrow>
     (\<forall>l\<in>set ls. ValidateValue s (be_Value l) (be_Type l) = None \<and> be_Type l \<noteq> ''secret'') \<Longrightarrow> store_ok s w \<Longrightarrow> store_ok s w'"
proof (induction ls arbitrary: w)
  case (Cons l ls)
  obtain x w1 where b: "set_env s (be_Key l) (be_Value l) (be_Type l) ''imported from Node-RED'' False ''node-red'' False w = (x, w1)"
    by (meson prod.exhaust)
  have "store_ok s w1"
    using set_env_ok [of s "be_Key l" "be_Value l" "be_Type l" _ _ _ w x w1] b Cons.prems by auto
  then show ?case using Cons b by (auto split: sum.splits)
qed simp

lemma import_entry_ok:
  "import_entry s managed seen n e = ((ls, is), mark) \<Longrightarrow>
     \<forall>l\<in>set ls. ValidateValue s (be_Value l) (be_Type l) = None \<and> be_Type l \<noteq> ''secret''"
  by (auto simp: import_entry_def Let_def nodeRedTypeToValueType_def split: if_splits option.splits)

lemma import_loop_ok:
  "import_loop s managed seen n es = (ls, is) \<Longrightarrow>
     \<forall>l\<in>set ls. ValidateValue s (be_Value l) (be_Type l) = None \<and> be_Type l \<noteq> ''secret''"
proof (induction es arbitrary: seen n ls "is")
  case (Cons e es)
  then show ?case
    by (auto simp: Let_def split: prod.splits) (meson import_entry_ok)+
qed simp

lemma nodeRedGlobalEnvList_cfg [cfg_frame]:
  "nodeRedGlobalEnvList s (w :: 'w svc_world_scheme) = (r, w') \<Longrightarrow> cfg_file w' = cfg_file w"
  by (auto simp: nodeRedGlobalEnvList_def split: prod.splits sum.splits option.splits dest!: cfg_frame)

lemma ImportFromNodeRed_ok:
  fixes w :: "'w env_world_scheme"
  assumes "ImportFromNodeRed s others commit (Some (withManagedNodeRedStopped h)) w = Some (r, w')" "friendly s others" "store_ok s w"
  shows "store_ok s w'"
proof -
  obtain x w1 where n: "nodeRedGlobalEnvList s w = (x, w1)" by (meson prod.exhaust)
  have ok1: "store_ok s w1" using assms(3) nodeRedGlobalEnvList_cfg [OF n] store_ok_cfg by blast
  show ?thesis
  proof (cases "w' = w1")
    case False
    then obtain entries y w2 where x: "x = Inr entries" "entries \<noteq> []" and l: "List s others w1 = Some (y, w2)"
      using assms(1) n by (auto simp: ImportFromNodeRed_def split: sum.splits if_splits option.splits prod.splits)
    have ok2: "store_ok s w2" using list_loop_ok [OF l [unfolded List_def] assms(2) ok1] .
    obtain z w3 where g: "Get (es_pf s) w2 = (z, w3)" by (meson prod.exhaust)
    have ok3: "store_ok s w3" using ok2 Get_cfg [OF g] store_ok_cfg by blast
    show ?thesis
    proof (cases "w' = w2 \<or> w' = w3")
      case False
      then have "\<exists>c :: NodeRedConfig. snd (withManagedNodeRedStopped h (import_lines s (fst (import_loop s (EnvVars c) [] 1 entries))) w3) = w'"
        using assms(1) n x l g
        by (auto simp: ImportFromNodeRed_def Let_def case_prod_beta split: sum.splits if_splits option.splits)
      then obtain c :: NodeRedConfig where
        e: "snd (withManagedNodeRedStopped h (import_lines s (fst (import_loop s (EnvVars c) [] 1 entries))) w3) = w'" ..
      have ls: "\<forall>l\<in>set (fst (import_loop s (EnvVars c) [] 1 entries)). ValidateValue s (be_Value l) (be_Type l) = None \<and> be_Type l \<noteq> ''secret''"
        using import_loop_ok [OF prod.collapse [symmetric]] .
      show ?thesis
        by (rule envelope_ok [OF _ ok3]) (use e in \<open>auto simp: prod_eq_iff intro: import_lines_ok [OF _ ls]\<close>)
    qed (use ok2 ok3 in auto)
  qed (use ok1 in simp)
qed

text \<open>The requests of the environment API.  \<open>others\<close> is what runs beside a listing.\<close>

inductive env_request_step :: "EnvHandler \<Rightarrow> 'w env_world_scheme \<Rightarrow> 'w env_world_scheme \<Rightarrow> bool" for h where
  get: "GetEnv h others w = Some (r, w') \<Longrightarrow> friendly (eh_svc h) others \<Longrightarrow> env_request_step h w w'"
| post: "PostEnv h body w = (r, w') \<Longrightarrow> env_request_step h w w'"
| delete: "DeleteEnv h key w = (r, w') \<Longrightarrow> env_request_step h w w'"
| bulk: "BulkEnv h body' w = (r, w') \<Longrightarrow> env_request_step h w w'"
| import_: "ImportFromNodeRedEnv h others body'' w = Some (r, w') \<Longrightarrow> friendly (eh_svc h) others \<Longrightarrow> env_request_step h w w'"
| dotenv: "PutDotenv h body''' w = (r, w') \<Longrightarrow> env_request_step h w w'"

lemma env_request_ok: "env_request_step h (w :: 'w env_world_scheme) w' \<Longrightarrow> store_ok (eh_svc h) w \<Longrightarrow> store_ok (eh_svc h) w'"
proof (induction rule: env_request_step.induct)
  case (get others w r w')
  then show ?case
    by (auto simp: GetEnv_def List_def split: option.splits prod.splits sum.splits dest: list_loop_ok)
next
  case post then show ?case by (rule PostEnv_ok)
next
  case delete then show ?case by (rule DeleteEnv_ok)
next
  case bulk then show ?case by (rule BulkEnv_ok)
next
  case (import_ others body w r w')
  then show ?case
    by (auto simp: ImportFromNodeRedEnv_def Let_def split: decoding.splits if_splits option.splits prod.splits sum.splits
          dest: ImportFromNodeRed_ok)
next
  case (dotenv body w r w')
  then have "cfg_file w' = cfg_file w"
    by (auto simp: PutDotenv_def WriteDotenv_def env_audit_def split: decoding.splits prod.splits sum.splits dest!: WriteFile_cfg)
  then show ?case using dotenv store_ok_cfg by blast
qed

text \<open>C24. Requests to the environment API, in any order, with any system failures and beside any other
  goroutine that does the same, keep the stored variables well typed: valid and distinct names, encrypted
  exactly when secret, every secret sealed (or empty), every other value valid for its type.\<close>

theorem env_store_well_typed:
  assumes "(env_request_step h)\<^sup>*\<^sup>* w (w' :: 'w env_world_scheme)" "entries_ok (eh_svc h) (env_vars w)"
  shows "entries_ok (eh_svc h) (env_vars w')"
  using assms by (induction rule: rtranclp_induct) (auto simp: store_ok_def dest: env_request_ok)

section \<open>What was set is what is read\<close>

lemma reveal_all_upd_all:
  "k \<notin> ev_Key ` set evs \<longrightarrow> (\<forall>m0 m. reveal_all s evs m0 = Inr m \<longrightarrow> reveal_all s evs (m0(k \<mapsto> v)) = Inr (m(k \<mapsto> v)))"
proof (induction evs)
  case (Cons ev evs)
  show ?case
  proof (intro impI allI)
    fix m0 m assume k: "k \<notin> ev_Key ` set (ev # evs)" and r: "reveal_all s (ev # evs) m0 = Inr m"
    then obtain x where x: "reveal s ev = Inr x" "reveal_all s evs (m0(ev_Key ev \<mapsto> x)) = Inr m"
      by (cases "reveal s ev") auto
    have "(m0(k \<mapsto> v))(ev_Key ev \<mapsto> x) = (m0(ev_Key ev \<mapsto> x))(k \<mapsto> v)" using k by (intro fun_upd_twist) auto
    moreover have "reveal_all s evs ((m0(ev_Key ev \<mapsto> x))(k \<mapsto> v)) = Inr (m(k \<mapsto> v))"
      using Cons.IH x(2) k unfolding fun_upd_def by auto
    ultimately show "reveal_all s (ev # evs) (m0(k \<mapsto> v)) = Inr (m(k \<mapsto> v))" using x(1) by simp
  qed
qed simp

lemmas reveal_all_upd = reveal_all_upd_all [rule_format]

lemma reveal_put_all:
  assumes "reveal s new = Inr v" "v \<noteq> ''''"
  shows "distinct (map ev_Key evs) \<longrightarrow> (\<forall>m0 m. reveal_all s evs m0 = Inr m \<longrightarrow>
     reveal_all s (fst (put_entry v new evs)) m0 = Inr (m(ev_Key new \<mapsto> v)))"
proof (induction evs)
  case Nil then show ?case using assms by (simp add: fun_upd_def)
next
  case (Cons ev evs)
  show ?case
  proof (intro impI allI)
    fix m0 m assume d: "distinct (map ev_Key (ev # evs))" and r: "reveal_all s (ev # evs) m0 = Inr m"
    then obtain x where x: "reveal s ev = Inr x" "reveal_all s evs (m0(ev_Key ev \<mapsto> x)) = Inr m"
      by (cases "reveal s ev") auto
    show "reveal_all s (fst (put_entry v new (ev # evs))) m0 = Inr (m(ev_Key new \<mapsto> v))"
    proof (cases "ev_Key ev = ev_Key new")
      case True
      then have "ev_Key new \<notin> ev_Key ` set evs" using d by auto
      from reveal_all_upd [OF this x(2), of v] True show ?thesis using assms by simp
    next
      case False
      then show ?thesis using Cons.IH d x by (simp add: case_prod_beta fun_upd_def)
    qed
  qed
qed

lemmas reveal_put = reveal_put_all [rule_format]

lemma staged_reveals:
  assumes "aead_lawful (es_crypto s)" "stage_value s v enc w = (Inr sv, w')" "v \<noteq> ''''"
  shows "reveal s (env_entry key sv typ d enc src) = Inr v"
  using assms Encrypt_post [of "es_crypto s" v "es_encryptionKey s" w sv w']
  by (auto simp: stage_value_def reveal_def env_entry_def split: if_splits)

text \<open>In a world whose next calls work, \<open>GetAll\<close> is the decrypted view of the store.\<close>

lemma GetAll_view:
  assumes "cfg_file w = Some c" "\<forall>n. faults w n = None"
  shows "fst (GetAll s w) = reveal_all s (EnvVars c) Map.empty"
  using assms
  by (simp add: GetAll_def Get_def store_Exists_def js_Exists_def store_Read_def js_Read_def sys_call_def decorateConfig_def)

lemma store_Update_Inr:
  assumes "store_Update fn w = (Inr x, w')"
  obtains c where "fn (case cfg_file w of None \<Rightarrow> zero_config | Some d \<Rightarrow> d) = Inr (c, x)" "cfg_file w' = Some (stored c)"
  using store_Update_post [OF assms] by (auto simp: update_post_def)


section \<open>Listing shows no secret and ends\<close>

lemma masked: "ev \<in> set (maskEnvVars evs) \<Longrightarrow> ev_Encrypted ev \<Longrightarrow> ev_Value ev = ''''"
  by (auto simp: maskEnvVars_def mask_entry_def)

lemma parse_no_vars: "parseConfigFromContent g content = Inr c \<Longrightarrow> EnvVars c = []"
  unfolding parseConfigFromContent_def Let_def
  by (auto simp: DefaultNodeRedConfig_def zero_config_def split: option.splits sum.splits if_splits)

text \<open>The variables a configuration read carries are those of the store, or none.\<close>

lemma Get_vars: "Get P w = (Inr c, w') \<Longrightarrow> EnvVars c = env_vars w \<or> EnvVars c = []"
  unfolding Get_def
  by (auto simp: decorateConfig_def env_vars_def readFromSettingsFile_def parseConfig_def DefaultNodeRedConfig_def zero_config_def
        split: prod.splits bool.splits sum.splits option.splits if_splits dest!: store_Exists_post store_Read_post parse_no_vars)

definition io_only :: "go_error \<Rightarrow> bool" where
  "io_only e \<longleftrightarrow> (\<forall>t. errors_is e t \<longrightarrow> (\<exists>m. t = IOErr m))"

lemma sys_call_io: "sys_call w = (Inl e, w') \<Longrightarrow> io_only e"
  by (auto simp: sys_call_def io_only_def split: option.splits)

lemma js_Write_io: "js_Write put c w = (Inl e, w') \<Longrightarrow> io_only e"
  unfolding js_Write_def
  by (auto split: prod.splits sum.splits dest!: sys_call_io simp: io_only_def)

lemma store_Update_error:
  assumes "store_Update fn w = (Inl e, w')" "errors_is e t" "\<not> (\<exists>m. t = IOErr m)" "t \<noteq> ErrNotExist"
  shows "fn (case cfg_file w of None \<Rightarrow> zero_config | Some d \<Rightarrow> d) = Inl e"
proof -
  obtain x w1 where rd: "js_Read cfg_file w = (x, w1)" by (meson prod.exhaust)
  have r: "\<And>err. x = Inl err \<Longrightarrow> errors_is err t \<Longrightarrow> False" "\<And>c. x = Inr c \<Longrightarrow> cfg_file w = Some c"
    "\<And>err. x = Inl err \<Longrightarrow> errors_is err ErrNotExist \<Longrightarrow> cfg_file w = None"
    using rd assms(3,4) by (auto simp: js_Read_def sys_call_def split: option.splits)
  show ?thesis
    using assms rd r
    by (cases x) (auto simp: store_Update_def js_Update_def io_only_def split: if_splits sum.splits prod.splits
        dest!: js_Write_io, blast+)
qed

text \<open>Every plaintext of the list it was given is staged.\<close>

lemma stage_loop_dom:
  assumes "stage_loop s evs m w = (Inr m', w')"
  shows "dom m \<subseteq> dom m' \<and> (\<forall>ev\<in>set evs. ev_Encrypted ev \<and> es_encryptionKey s \<noteq> '''' \<and> \<not> IsEncrypted (ev_Value ev) \<longrightarrow>
     m' (ev_Key ev, ev_Value ev) \<noteq> None)"
  using assms
proof (induction evs arbitrary: m w)
  case (Cons ev evs)
  show ?case
  proof (cases "\<not> ev_Encrypted ev \<or> es_encryptionKey s = '''' \<or> IsEncrypted (ev_Value ev)")
    case True then show ?thesis using Cons by auto
  next
    case False
    obtain x w1 where e: "Encrypt (es_crypto s) (ev_Value ev) (es_encryptionKey s) w = (x, w1)" by (meson prod.exhaust)
    with False Cons.prems obtain c where c: "x = Inr c" by (cases x) auto
    have "dom (m((ev_Key ev, ev_Value ev) \<mapsto> c)) \<subseteq> dom m' \<and>
       (\<forall>ev\<in>set evs. ev_Encrypted ev \<and> es_encryptionKey s \<noteq> '''' \<and> \<not> IsEncrypted (ev_Value ev) \<longrightarrow> m' (ev_Key ev, ev_Value ev) \<noteq> None)"
      by (rule Cons.IH [unfolded fun_upd_def [symmetric], of _ w1]) (use Cons.prems False e c in \<open>simp add: fun_upd_def\<close>)
    then show ?thesis by (auto simp: dom_def split: if_splits)
  qed
qed simp

lemma migrate_keeps: "ev_Key (MigrateEnvTypes ev) = ev_Key ev \<and> ev_Value (MigrateEnvTypes ev) = ev_Value ev \<and>
    ev_Encrypted (MigrateEnvTypes ev) = ev_Encrypted ev"
  by (simp add: MigrateEnvTypes_def Let_def)

lemma migrate_loop_total:
  "\<forall>ev\<in>set evs. ev_Encrypted ev \<and> es_encryptionKey s \<noteq> '''' \<and> \<not> IsEncrypted (ev_Value ev) \<longrightarrow> staged (ev_Key ev, ev_Value ev) \<noteq> None \<Longrightarrow>
     \<exists>ms. migrate_loop s staged evs = Inr ms"
  by (induction evs) (auto simp: migrate_keeps Let_def)

lemma list_loop_masked:
  assumes "list_loop s others n w = Some (r, w')"
  shows "\<forall>evs. r = Inr evs \<longrightarrow> (\<forall>ev\<in>set evs. ev_Encrypted ev \<longrightarrow> ev_Value ev = '''')"
  using assms
proof (induction s others n w "(r, w')" rule: list_loop.raw_induct [rotated, consumes 1])
  case (1 f s others n w)
  from 1(2) show ?case
    by (auto split: prod.splits sum.splits if_splits dest: masked) (use 1(1) in blast)+
qed

text \<open>One round returns, or ends stale after the interference of that round.\<close>

lemma list_round:
  "(\<exists>r. list_loop s others n w = Some r) \<or>
   (\<exists>c w1 staged w2 e w3. Get (es_pf s) w = (Inr c, w1) \<and> envMigrationNeeded (EnvVars c) (es_encryptionKey s) \<and>
      stageEnvMigration s (EnvVars c) w1 = (Inr staged, w2) \<and>
      cs_Update (migrate_callback s staged) (others n w2) = (Inl e, w3) \<and> errors_is e ErrEnvMigrationStale \<and>
      list_loop s others n w = list_loop s others (Suc n) w3)"
proof -
  obtain x w1 where g: "Get (es_pf s) w = (x, w1)" by (meson prod.exhaust)
  show ?thesis
  proof (cases x)
    case (Inl e) then show ?thesis using list_loop.simps [of s others n w] g by simp
  next
    case (Inr c)
    obtain y w2 where st: "stageEnvMigration s (EnvVars c) w1 = (y, w2)" by (meson prod.exhaust)
    show ?thesis
    proof (cases "envMigrationNeeded (EnvVars c) (es_encryptionKey s)")
      case False then show ?thesis using list_loop.simps [of s others n w] g Inr by simp
    next
      case need: True
      show ?thesis
      proof (cases y)
        case e: (Inl e) then show ?thesis using list_loop.simps [of s others n w] g Inr need st by simp
      next
        case sg: (Inr staged)
        obtain z w3 where up: "cs_Update (migrate_callback s staged) (others n w2) = (z, w3)" by (meson prod.exhaust)
        obtain z' w4 where g2: "Get (es_pf s) w3 = (z', w4)" by (meson prod.exhaust)
        show ?thesis
          using list_loop.simps [of s others n w] g Inr need st sg up g2
          by (cases z; cases z'; cases "errors_is (projl z) ErrEnvMigrationStale") auto
      qed
    qed
  qed
qed

lemma cs_Update_error:
  assumes "cs_Update fn w = (Inl e, w')" "errors_is e ErrEnvMigrationStale"
  shows "fn (case cfg_file w of None \<Rightarrow> zero_config | Some d \<Rightarrow> d) = Inl e"
  using store_Update_error [OF assms(1) [unfolded cs_Update_def] assms(2)] by (auto simp: map_sum_def split: sum.splits)

text \<open>Without interference a round cannot be stale: what was staged is what the update finds.\<close>

lemma quiet_round:
  fixes w :: "'w svc_world_scheme"
  assumes "\<And>u. others n u = u"
  shows "\<exists>r. list_loop s others n w = Some r"
proof (rule ccontr)
  assume no: "\<nexists>r. list_loop s others n w = Some r"
  obtain c w1 staged w2 e w3 where g: "Get (es_pf s) w = (Inr c, w1)" "envMigrationNeeded (EnvVars c) (es_encryptionKey s)"
    "stageEnvMigration s (EnvVars c) w1 = (Inr staged, w2)"
    "cs_Update (migrate_callback s staged) (others n w2) = (Inl e, w3)" "errors_is e ErrEnvMigrationStale"
    using list_round [of s others n w] no by blast
  have c: "EnvVars c = env_vars w" using Get_vars [OF g(1)] g(2) by (auto simp: envMigrationNeeded_def)
  let ?cur = "case cfg_file w2 of None \<Rightarrow> zero_config | Some d \<Rightarrow> d"
  have "cfg_file w2 = cfg_file w"
    using Get_cfg [OF g(1)] stage_loop_cfg [OF g(3) [unfolded stageEnvMigration_def]] by simp
  then have cur: "EnvVars ?cur = EnvVars c" unfolding c by (simp add: env_vars_def zero_config_def split: option.split)
  have "migrate_callback s staged ?cur = Inl e"
    using cs_Update_error [OF g(4,5)] assms by simp
  moreover obtain ms where "migrate_loop s staged (EnvVars c) = Inr ms"
    using migrate_loop_total [of "EnvVars c" s staged] stage_loop_dom [OF g(3) [unfolded stageEnvMigration_def]] by blast
  ultimately show False using g(2) cur by (simp add: migrate_callback_def)
qed

text \<open>C26. Listing the variables ends as soon as nobody else changes the store between its read and its
  update, however often it was stale before, and what it returns carries no secret value.\<close>

theorem listing_returns_masked:
  fixes w :: "'w svc_world_scheme"
  assumes "\<And>n u. k \<le> n \<Longrightarrow> others n u = u"
  shows "\<exists>r w'. List s others w = Some (r, w') \<and> (\<forall>evs. r = Inr evs \<longrightarrow> (\<forall>ev\<in>set evs. ev_Encrypted ev \<longrightarrow> ev_Value ev = ''''))"
proof -
  have "\<exists>r. list_loop s others n w = Some r" for n w
  proof (induction "k - n" arbitrary: n w)
    case 0 then show ?case using quiet_round [of others n s w] assms by simp
  next
    case (Suc d)
    then show ?case using list_round [of s others n w] Suc(1) [of "Suc n"] by (metis Suc_diff_Suc diff_Suc_1 zero_less_Suc zero_less_diff)
  qed
  then obtain r w' where "List s others w = Some (r, w')" unfolding List_def by (metis prod.exhaust)
  then show ?thesis using list_loop_masked unfolding List_def by blast
qed

section \<open>Sample states\<close>

definition sample_env_platform :: platform where
  "sample_env_platform = \<lparr>pf_path = ''/d/settings.js'', pf_source = '''', pf_dataDir = ''/d'', pf_now = '''', pf_stamp = '''',
     pf_goja = (\<lambda>_ _. CompileError), pf_bcrypt = Inr, pf_sha = (\<lambda>s. s), pf_print = ascii_print, pf_sprint = (\<lambda>_. ''''),
     pf_recovery = (\<lambda>_. None), pf_audit = False\<rparr>"

definition sample_env_service :: EnvService where
  "sample_env_service = \<lparr>es_pf = sample_env_platform, es_crypto = sample_crypto, es_encryptionKey = ''k'',
     es_ParseFloat = (\<lambda>_. None), es_environ = [], es_cwd = ''/'', es_uuid = (\<lambda>_. ''u''), es_Unmarshal = (\<lambda>_. Some (JArr [])),
     es_MarshalIndent = (\<lambda>_. '''')\<rparr>"

definition sample_env_handler :: EnvHandler where
  "sample_env_handler = \<lparr>eh_svc = sample_env_service, eh_pm = None, eh_managed = True, eh_dataDir = ''/d'', eh_environ = Map.empty\<rparr>"

definition sample_env_world :: env_world where
  "sample_env_world = \<lparr>files = Map.empty, links = (\<lambda>_. False), faults = (\<lambda>_. None), torn = (\<lambda>_. 0), entropy = (\<lambda>n i. n), calls = 0,
     cfg_file = None, ew_pm = NewProcessManager 0, ew_trail = []\<rparr>"

definition sample_secret :: "env_request decoding" where
  "sample_secret = Value \<lparr>rq_Key = ''K'', rq_Value = ''v'', rq_Type = ''secret'', rq_Description = '''', rq_Encrypted = False\<rparr>"

definition after_secret :: env_world where
  "after_secret = snd (PostEnv sample_env_handler sample_secret sample_env_world)"

lemma after_secret_eval: "map ev_Key (env_vars after_secret) = [''K''] \<and> er_status (fst (PostEnv sample_env_handler sample_secret sample_env_world)) = 200"
  unfolding after_secret_def by code_simp

theorem env_store_well_typed_witness:
  "map ev_Key (env_vars after_secret) = [''K''] \<and> entries_ok sample_env_service (env_vars after_secret)"
proof -
  have "env_request_step sample_env_handler sample_env_world after_secret"
    unfolding after_secret_def by (rule post [OF prod.collapse [symmetric]])
  then have "(env_request_step sample_env_handler)\<^sup>*\<^sup>* sample_env_world after_secret" by (rule r_into_rtranclp)
  moreover have "eh_svc sample_env_handler = sample_env_service" by (simp add: sample_env_handler_def)
  moreover have "entries_ok sample_env_service (env_vars sample_env_world)"
    by (simp add: entries_ok_def env_vars_def sample_env_world_def)
  ultimately show ?thesis using env_store_well_typed [of sample_env_handler sample_env_world after_secret] after_secret_eval by simp
qed

definition sample_set :: "unit result \<times> env_world" where
  "sample_set = set_env sample_env_service ''K'' ''v'' ''secret'' '''' True ''nrcc'' False sample_env_world"

lemma faults_frame: "store_Update fn (w :: env_world) = (r, w') \<Longrightarrow> faults w = (\<lambda>_. None) \<Longrightarrow> faults w' = (\<lambda>_. None)"
  unfolding store_Update_def js_Update_def js_Read_def js_Write_def publish_cfg_def
  by (auto simp: sys_call_def split: if_splits sum.splits option.splits)


theorem listing_returns_masked_witness:
  "\<exists>r w'. List sample_env_service (\<lambda>_ u. u) after_secret = Some (r, w') \<and>
     (\<forall>evs. r = Inr evs \<longrightarrow> (\<forall>ev\<in>set evs. ev_Encrypted ev \<longrightarrow> ev_Value ev = ''''))"
  using listing_returns_masked [of 0 "\<lambda>_ u. u" sample_env_service after_secret] by simp

section \<open>Where secrets leak and batches tear\<close>

definition blank_request :: "env_request decoding" where
  "blank_request = Value \<lparr>rq_Key = ''K'', rq_Value = '''', rq_Type = ''string'', rq_Description = '''', rq_Encrypted = False\<rparr>"

definition after_blank :: "env_response \<times> env_world" where
  "after_blank = PostEnv sample_env_handler blank_request after_secret"

text \<open>Setting a secret variable to the empty string with type string is accepted and keeps the sealed
  value under an entry that no longer counts as encrypted: the listing then shows the ciphertext and the
  child receives it as the plain value.\<close>

theorem blank_string_exposes_ciphertext:
  "er_status (fst after_blank) = 200 \<and>
     (\<exists>ct. IsEncrypted ct \<and> map ev_Value (env_vars after_secret) = [ct] \<and>
        map (\<lambda>ev. (ev_Key ev, ev_Value ev, ev_Encrypted ev)) (maskEnvVars (env_vars (snd after_blank))) = [(''K'', ct, False)] \<and>
        map (reveal sample_env_service) (env_vars (snd after_blank)) = [Inr ct])"
proof -
  have "er_status (fst after_blank) = 200 \<and> list_all IsEncrypted (map ev_Value (env_vars after_secret)) \<and> length (env_vars after_secret) = 1 \<and>
     map ev_Value (env_vars (snd after_blank)) = map ev_Value (env_vars after_secret) \<and>
     map (\<lambda>ev. (ev_Key ev, ev_Encrypted ev)) (env_vars (snd after_blank)) = [(''K'', False)]"
    unfolding after_blank_def after_secret_def by code_simp
  then show ?thesis
    by (cases "env_vars after_secret"; cases "env_vars (snd after_blank)")
       (auto simp: maskEnvVars_def mask_entry_def reveal_def)
qed

definition keyless_handler :: EnvHandler where
  "keyless_handler = sample_env_handler\<lparr>eh_svc := sample_env_service\<lparr>es_encryptionKey := ''''\<rparr>\<rparr>"

definition mixed_batch :: "(string \<times> bool) decoding" where
  "mixed_batch = Value (''A=1'' @ [CHR 0x0A] @ ''B=s#secret'', True)"

text \<open>A bulk import that is valid but holds a secret while no encryption key is configured is refused
  with 503 after the lines before the secret were committed: the batch path declines, its error is dropped,
  and the line-by-line path writes until it fails.\<close>

theorem refused_batch_is_half_committed:
  "er_status (fst (BulkEnv keyless_handler mixed_batch sample_env_world)) = 503 \<and>
     map ev_Key (env_vars (snd (BulkEnv keyless_handler mixed_batch sample_env_world))) = [''A'']"
  by code_simp

end
