(* ===== verification/ProcessSafety.thy ===== *)
theory ProcessSafety
  imports Process
begin

text \<open>
  What the supervisor guarantees whatever the interleaving (one live child, and \<open>running\<close> tells the truth
  about it), how the automatic restart behaves, and where the state machine breaks: attached to a
  foreign Node-RED it can neither detach nor start again, a second \<open>Stop\<close> panics, and a stop during the
  back-off does not stop anything.
\<close>

section \<open>The invariant\<close>

definition live :: "ProcessManager \<Rightarrow> nat set" where
  "live pm = {g. g < length (pm_children pm) \<and> ch_waiter (pm_children pm ! g) = Waiting}"

definition pm_ok :: "ProcessManager \<Rightarrow> bool" where
  "pm_ok pm \<longleftrightarrow>
     (case pm_currentCmd pm of
        None \<Rightarrow> live pm = {} \<and> (pm_running pm \<longrightarrow> pm_externalMode pm)
      | Some g \<Rightarrow> live pm = {g} \<and> pm_running pm \<and> \<not> pm_externalMode pm)"

lemma pm_ok_cong:
  assumes "live pm' = live pm" "pm_currentCmd pm' = pm_currentCmd pm" "pm_running pm' = pm_running pm"
    "pm_externalMode pm' = pm_externalMode pm"
  shows "pm_ok pm' = pm_ok pm"
  unfolding pm_ok_def assms ..

text \<open>A change of a generation that is not waiting, before and after, leaves the live ones alone.\<close>

lemma live_update:
  assumes "ch_waiter c = Waiting \<longleftrightarrow> ch_waiter (pm_children pm ! g) = Waiting"
  shows "live (pm\<lparr>pm_children := (pm_children pm)[g := c]\<rparr>) = live pm"
proof -
  have "ch_waiter ((pm_children pm)[g := c] ! x) = Waiting \<longleftrightarrow> ch_waiter (pm_children pm ! x) = Waiting"
    if "x < length (pm_children pm)" for x
    using assms that by (cases "x = g") simp_all
  then show ?thesis by (auto simp: live_def)
qed

lemma live_fields [simp]:
  "live (pm\<lparr>pm_restartCount := a\<rparr>) = live pm" "live (pm\<lparr>pm_cumulativeRestarts := b\<rparr>) = live pm"
  "live (pm\<lparr>pm_tracker := t\<rparr>) = live pm" "live (pm\<lparr>pm_lastError := e\<rparr>) = live pm"
  "live (pm\<lparr>pm_externalMode := x\<rparr>) = live pm" "live (pm\<lparr>pm_running := y\<rparr>) = live pm"
  by (simp_all add: live_def)

lemma live_adopt: "live (adopt_child b pm) = insert (length (pm_children pm)) (live pm)"
  by (auto simp: live_def adopt_child_def fresh_child_def nth_append)

lemma live_exit: "g \<in> live pm \<Longrightarrow> live (exit_lock g err pm) = live pm - {g}"
  unfolding live_def exit_lock_def by (auto simp: nth_list_update split: if_splits)

lemma live_waiter:
  "ch_waiter (pm_children pm ! g) \<noteq> Waiting \<Longrightarrow> p \<noteq> Waiting \<Longrightarrow> live (set_waiter g p pm) = live pm"
  by (simp add: set_waiter_def live_update)

lemma set_waiter_simps [simp]:
  "pm_running (set_waiter g p pm) = pm_running pm" "pm_externalMode (set_waiter g p pm) = pm_externalMode pm"
  "pm_currentCmd (set_waiter g p pm) = pm_currentCmd pm" "pm_restartCount (set_waiter g p pm) = pm_restartCount pm"
  "length (pm_children (set_waiter g p pm)) = length (pm_children pm)"
  by (simp_all add: set_waiter_def)

text \<open>A start leaves everything, attaches, or adopts a new child; only the last two succeed.\<close>

lemma startLocked_cases:
  assumes "startLocked E b pm w = ((r, pm'), w')"
  obtains (busy) "pm_running pm" "pm' = pm" "r = Inl (case pm_currentCmd pm of None \<Rightarrow> Sentinel GoPanic | Some _ \<Rightarrow> ErrText ''process already running'')"
  | (attached) "\<not> pm_running pm" "r = Inr ()" "pm' = pm\<lparr>pm_externalMode := True, pm_running := True\<rparr>"
  | (failed) "\<not> pm_running pm" "r \<noteq> Inr ()" "\<not> panicked r" "pm' = pm \<or> pm' = pm\<lparr>pm_externalMode := False\<rparr>"
  | (started) "\<not> pm_running pm" "r = Inr ()" "pm' = adopt_child b (pm\<lparr>pm_externalMode := False\<rparr>)"
  using assms unfolding startLocked_def
  by (auto simp: Let_def panicked_def split: if_splits prod.splits sum.splits)

text \<open>The two shapes of a sound state: a child of our own, or none.\<close>

lemma pm_ok_child: "pm_currentCmd pm = Some g \<Longrightarrow> pm_ok pm \<longleftrightarrow> live pm = {g} \<and> pm_running pm \<and> \<not> pm_externalMode pm"
  by (simp add: pm_ok_def)

lemma pm_ok_none: "pm_currentCmd pm = None \<Longrightarrow> pm_ok pm \<longleftrightarrow> live pm = {} \<and> (pm_running pm \<longrightarrow> pm_externalMode pm)"
  by (simp add: pm_ok_def)

lemma pm_ok_stopped: "pm_ok pm \<Longrightarrow> \<not> pm_running pm \<Longrightarrow> pm_currentCmd pm = None \<and> live pm = {}"
  by (cases "pm_currentCmd pm") (simp_all add: pm_ok_child pm_ok_none)

lemma startLocked_ok:
  assumes "pm_ok pm" "startLocked E b pm w = ((r, pm'), w')"
  shows "pm_ok pm'"
  using assms(2)
proof (cases rule: startLocked_cases)
  case busy then show ?thesis using assms by simp
next
  case attached then show ?thesis using pm_ok_stopped [OF assms(1)] by (simp add: pm_ok_none)
next
  case failed then show ?thesis using pm_ok_stopped [OF assms(1)] assms(1) by (auto simp: pm_ok_none)
next
  case started
  have c: "pm_currentCmd pm' = Some (length (pm_children pm))" "pm_running pm'" "\<not> pm_externalMode pm'"
    by (simp_all add: started adopt_child_def)
  have "live pm' = {length (pm_children pm)}"
    using pm_ok_stopped [OF assms(1)] started by (simp add: live_adopt)
  with c show ?thesis by (simp add: pm_ok_child)
qed

lemma stop_lock_ok:
  assumes "pm_ok pm" "stop_lock pm = (x, pm')"
  shows "pm_ok pm' \<and> (\<forall>g. x = StopChild g \<longrightarrow> g \<in> live pm \<and> pm' = pm)"
proof (cases "pm_currentCmd pm")
  case None
  then show ?thesis using assms by (simp add: stop_lock_def)
next
  case (Some g)
  then show ?thesis using assms by (auto simp: stop_lock_def pm_ok_child)
qed

lemma stop_close_ok:
  assumes "pm_ok pm" "stop_close g pm = (r, pm')"
  shows "pm_ok pm'"
proof (cases "ch_stopClosed (pm_children pm ! g)")
  case True then show ?thesis using assms by (simp add: stop_close_def)
next
  case False
  then have p: "pm' = pm\<lparr>pm_children := (pm_children pm)[g := (pm_children pm ! g)\<lparr>ch_stopClosed := True\<rparr>]\<rparr>"
    using assms(2) by (simp add: stop_close_def)
  have "live pm' = live pm" unfolding p by (rule live_update) simp
  moreover have "pm_currentCmd pm' = pm_currentCmd pm" "pm_running pm' = pm_running pm" "pm_externalMode pm' = pm_externalMode pm"
    by (simp_all add: p)
  ultimately show ?thesis using assms(1) pm_ok_cong by blast
qed

lemma exit_lock_ok:
  assumes "pm_ok pm" "g \<in> live pm"
  shows "pm_ok (exit_lock g err pm)"
proof -
  have "live pm = {g}"
    using assms by (cases "pm_currentCmd pm") (simp_all add: pm_ok_child pm_ok_none)
  then have "live (exit_lock g err pm) = {}" using assms(2) by (simp add: live_exit)
  moreover have "pm_currentCmd (exit_lock g err pm) = None" "\<not> pm_running (exit_lock g err pm)"
    by (simp_all add: exit_lock_def)
  ultimately show ?thesis by (simp add: pm_ok_none)
qed

lemma set_waiter_ok:
  "pm_ok pm \<Longrightarrow> ch_waiter (pm_children pm ! g) \<noteq> Waiting \<Longrightarrow> p \<noteq> Waiting \<Longrightarrow> pm_ok (set_waiter g p pm)"
  by (subst pm_ok_cong [of _ pm]) (simp_all add: live_waiter)

lemma pm_ok_fields [simp]:
  "pm_ok (pm\<lparr>pm_restartCount := a\<rparr>) = pm_ok pm" "pm_ok (pm\<lparr>pm_cumulativeRestarts := b\<rparr>) = pm_ok pm"
  "pm_ok (pm\<lparr>pm_tracker := t\<rparr>) = pm_ok pm" "pm_ok (pm\<lparr>pm_lastError := e\<rparr>) = pm_ok pm"
  by (rule pm_ok_cong; simp)+

lemma exit_decide_ok: "pm_ok pm \<Longrightarrow> ch_waiter (pm_children pm ! g) = Exited n \<Longrightarrow> pm_ok (exit_decide g n now code pm)"
  by (auto simp: exit_decide_def Let_def intro!: set_waiter_ok)

lemma wake_start:
  assumes "wake E g pm w = ((r, pm'), w')"
  obtains r1 pm1 w1 e where "startLocked E False (woken g pm) w1 = ((r1, pm1), w')"
    "pm' = pm1 \<or> pm' = pm1\<lparr>pm_lastError := e\<rparr>" "panicked r = panicked r1"
    "w1 = snd (count_Save (restartCountFile (se_dataDir E)) (pm_cumulativeRestarts (woken g pm)) w)"
proof -
  obtain x w1 where s: "count_Save (restartCountFile (se_dataDir E)) (pm_cumulativeRestarts (woken g pm)) w = (x, w1)"
    by (meson prod.exhaust)
  obtain r1 pm1 w2 where t: "startLocked E False (woken g pm) w1 = ((r1, pm1), w2)" by (metis prod.exhaust)
  have w: "wake E g pm w = (case r1 of
      Inl e \<Rightarrow> if e = Sentinel GoPanic then ((Inl e, pm1), w2) else ((Inr (), pm1\<lparr>pm_lastError := Some e\<rparr>), w2)
    | Inr _ \<Rightarrow> ((Inr (), pm1), w2))"
    by (cases r1) (simp_all add: wake_def s t)
  show ?thesis
  proof (rule that [of w1 r1 pm1 "Some (projl r1)"])
    show "startLocked E False (woken g pm) w1 = ((r1, pm1), w')" using t w assms by (auto split: sum.splits if_splits)
    show "pm' = pm1 \<or> pm' = pm1\<lparr>pm_lastError := Some (projl r1)\<rparr>" using w assms by (auto split: sum.splits if_splits)
    show "panicked r = panicked r1" using w assms by (auto simp: panicked_def split: sum.splits if_splits)
    show "w1 = snd (count_Save (restartCountFile (se_dataDir E)) (pm_cumulativeRestarts (woken g pm)) w)" using s by simp
  qed
qed

lemma wake_ok:
  assumes "pm_ok pm" "ch_waiter (pm_children pm ! g) = Sleeping n" "wake E g pm w = ((r, pm'), w')"
  shows "pm_ok pm'"
proof -
  have k: "pm_ok (woken g pm)" using assms unfolding woken_def by (intro set_waiter_ok) simp_all
  show ?thesis using assms(3)
  proof (cases rule: wake_start)
    case 1 then show ?thesis using startLocked_ok [OF k] by auto
  qed
qed

lemma pm_step_ok: "pm_step E S e T \<Longrightarrow> pm_ok (sv_pm S) \<Longrightarrow> pm_ok (sv_pm T)"
proof (induction rule: pm_step.induct)
  case user_start then show ?case by (auto simp: Start_def intro: startLocked_ok)
next
  case (stop_returns S pm) then show ?case using stop_lock_ok [of "sv_pm S"] by simp
next
  case (stop_child S g pm) then show ?case using stop_lock_ok [of "sv_pm S" "StopChild g" pm] by simp
next
  case stop_closes then show ?case by (auto intro: stop_close_ok)
next
  case child_exits then show ?case by (auto intro!: exit_lock_ok simp: live_def)
next
  case decides then show ?case by (auto intro: exit_decide_ok)
next
  case restarts then show ?case by (auto intro: wake_ok)
qed auto

lemma initial_ok: "pm_ok (NewProcessManager n)"
  by (simp add: pm_ok_def NewProcessManager_def live_def)

lemma pm_run_ok: "pm_run E S es T \<Longrightarrow> pm_ok (sv_pm S) \<Longrightarrow> pm_ok (sv_pm T)"
  by (induction rule: pm_run.induct) (auto dest: pm_step_ok)

text \<open>C27. Whatever the order of starts, stops, exits and automatic restarts, at most one Node-RED child of
  this manager is alive; when one is, the manager says it runs, holds exactly it, and does not claim to
  be attached to a foreign instance; and \<open>Status\<close> says ``running'' exactly then.\<close>

theorem single_child:
  assumes "pm_run E (initial_supervisor n w) es S"
  shows "card (live (sv_pm S)) \<le> 1 \<and>
     (\<forall>g \<in> live (sv_pm S). pm_currentCmd (sv_pm S) = Some g \<and> pm_running (sv_pm S) \<and> \<not> pm_externalMode (sv_pm S)) \<and>
     (Status (sv_pm S) = ''running'' \<longleftrightarrow> live (sv_pm S) \<noteq> {})"
proof -
  have ok: "pm_ok (sv_pm S)"
    using pm_run_ok [OF assms] initial_ok by (simp add: initial_supervisor_def)
  show ?thesis
  proof (cases "pm_currentCmd (sv_pm S)")
    case None
    then have "live (sv_pm S) = {}" using ok by (simp add: pm_ok_none)
    then show ?thesis using None by (simp add: Status_def)
  next
    case (Some g)
    then have "live (sv_pm S) = {g}" "pm_running (sv_pm S)" "\<not> pm_externalMode (sv_pm S)"
      using ok by (simp_all add: pm_ok_child)
    then show ?thesis using Some by (simp add: Status_def)
  qed
qed

section \<open>Attached to a foreign instance\<close>

definition attached :: "ProcessManager \<Rightarrow> bool" where
  "attached pm \<longleftrightarrow> pm_externalMode pm \<and> pm_running pm \<and> pm_currentCmd pm = None \<and> live pm = {}"

lemma attached_reach: "pm_ok pm \<Longrightarrow> pm_externalMode pm \<Longrightarrow> pm_running pm \<Longrightarrow> attached pm"
  by (cases "pm_currentCmd pm") (simp_all add: attached_def pm_ok_child pm_ok_none)

lemma attached_waiter:
  "attached pm \<Longrightarrow> ch_waiter (pm_children pm ! g) \<noteq> Waiting \<Longrightarrow> p \<noteq> Waiting \<Longrightarrow> attached (set_waiter g p pm)"
  by (simp add: attached_def live_waiter)

lemma attached_start: "attached pm \<Longrightarrow> startLocked E b pm w = ((Inl (Sentinel GoPanic), pm), w)"
  by (simp add: startLocked_def attached_def)

lemma attached_stop: "attached pm \<Longrightarrow> stop_lock pm = (StopReturns, pm)"
  by (simp add: stop_lock_def attached_def)

lemma attached_wake:
  assumes "attached pm" "ch_waiter (pm_children pm ! g) = Sleeping n" "wake E g pm w = ((r, pm'), w')"
  shows "attached pm' \<and> panicked r"
proof -
  have a: "attached (woken g pm)"
    using assms unfolding woken_def by (intro attached_waiter) (simp_all add: attached_def)
  show ?thesis using assms(3)
  proof (cases rule: wake_start)
    case (1 r1 pm1 w1 e)
    have "r1 = Inl (Sentinel GoPanic)" "pm1 = woken g pm"
      using attached_start [OF a, of E False w1] 1(1) by simp_all
    then show ?thesis using 1 a by (auto simp: panicked_def attached_def)
  qed
qed

lemma attached_close: "attached pm \<Longrightarrow> stop_close g pm = (r, pm') \<Longrightarrow> attached pm'"
  by (auto simp: stop_close_def attached_def live_update split: if_splits)

lemma attached_step: "pm_step E S e T \<Longrightarrow> attached (sv_pm S) \<Longrightarrow> attached (sv_pm T)"
proof (induction rule: pm_step.induct)
  case user_start then show ?case by (simp add: Start_def attached_start)
next
  case stop_returns then show ?case by (simp add: attached_stop)
next
  case stop_child then show ?case by (simp add: attached_stop)
next
  case stop_closes then show ?case by (auto intro: attached_close)
next
  case child_exits then show ?case by (auto simp: attached_def live_def)
next
  case (decides S g n now code)
  then show ?case
    using attached_waiter [of "(sv_pm S)\<lparr>pm_tracker := t\<rparr>" g for t] attached_waiter [of "sv_pm S" g]
    by (auto simp: exit_decide_def Let_def attached_def)
next
  case restarts then show ?case using attached_wake by fastforce
qed simp

lemma attached_run: "pm_run E S es T \<Longrightarrow> attached (sv_pm S) \<Longrightarrow> attached (sv_pm T)"
  by (induction rule: pm_run.induct) (auto dest: attached_step)


section \<open>Concrete runs\<close>

definition quiet_env :: "bool \<Rightarrow> start_env" where
  "quiet_env busy = \<lparr>se_envSvc = None, se_dataDir = ''/d'', se_cwd = ''/'', se_environ = [], se_portInUse = (\<lambda>_ _. busy)\<rparr>"

definition quiet_world :: svc_world where
  "quiet_world = \<lparr>files = Map.empty, links = (\<lambda>_. False), faults = (\<lambda>_. None), torn = (\<lambda>_. 0), entropy = (\<lambda>_ _. 0),
     calls = 0, cfg_file = None\<rparr>"

lemma trim_nothing: "TrimSpace '''' = ''''"
proof -
  have n: "find (\<lambda>p. p \<noteq> [] \<and> HasPrefix [] p) ps = None" for ps
    by (simp add: find_None_iff HasPrefix_def)
  have "strip_front ps [] = []" for ps
    unfolding strip_front.simps [of ps "[]"] n by simp
  then show ?thesis by (simp add: TrimSpace_def)
qed

text \<open>In a world whose system calls work and that has no \<open>.env\<close> file, a stopped manager attaches when the
  port is taken and starts a child otherwise.\<close>

definition calm :: "'w svc_world_scheme \<Rightarrow> bool" where
  "calm w \<longleftrightarrow> faults w = (\<lambda>_. None) \<and> files w ''/d/.env'' = None"

lemma calm_tick [simp]: "calm (tick w) = calm w"
  by (simp add: calm_def)

lemma calm_call: "calm w \<Longrightarrow> sys_call w = (Inr (), tick w)"
  by (simp add: calm_def sys_call_def)

lemma dotenv_path: "JoinPath [''/d'', ''.env''] = ''/d/.env''" by code_simp

lemma settings_default: "JoinPath [Abs ''/'' ''/d'', ''settings.js''] = ''/d/settings.js''" by code_simp

lemma calm_env: "calm w \<Longrightarrow> envForChild (quiet_env b) w = (Map.empty, tick w)"
  using calm_call [of w]
  by (simp add: envForChild_def quiet_env_def parseEnvFile_def ReadFile_def dotenv_path calm_def mergeEnvLayers_def)

lemma calm_runtime: "\<exists>rt. resolveNodeRedRuntime ''/'' Map.empty ''/d'' = Inr rt \<and> rt_SettingsPath rt = ''/d/settings.js''"
  by (simp add: resolveNodeRedRuntime_def env_get_def trim_nothing settings_default Let_def)

lemma calm_settings: "calm w \<Longrightarrow> \<exists>w'. ensureSettings ''/d/settings.js'' w = (Inr (), w') \<and> calm w'"
  by (cases "files w ''/d/settings.js''")
     (auto simp: ensureSettings_def Stat_def WriteFile_def WriteTo_def sys_call_def calm_def split: option.splits)

lemma calm_start:
  assumes "calm w" "\<not> pm_running pm"
  shows "\<exists>w'. calm w' \<and> startLocked (quiet_env busy) b pm w =
     ((Inr (), if busy then pm\<lparr>pm_externalMode := True, pm_running := True\<rparr> else adopt_child b (pm\<lparr>pm_externalMode := False\<rparr>)), w')"
proof -
  obtain rt where rt: "resolveNodeRedRuntime ''/'' Map.empty ''/d'' = Inr rt" "rt_SettingsPath rt = ''/d/settings.js''"
    using calm_runtime by blast
  obtain w2 where w2: "ensureSettings ''/d/settings.js'' (tick w) = (Inr (), w2)" "calm w2"
    using calm_settings [of "tick w"] assms by auto
  have q: "se_cwd (quiet_env busy) = ''/''" "se_dataDir (quiet_env busy) = ''/d''" "\<And>n p. se_portInUse (quiet_env busy) n p = busy"
    by (simp_all add: quiet_env_def)
  show ?thesis
    using assms w2 by (auto simp: startLocked_def calm_env rt q calm_call Let_def)
qed

lemma calm_quiet: "calm quiet_world"
  by (simp add: calm_def quiet_world_def)

text \<open>One more step of a run.\<close>

lemma run_then: "pm_run E S es T \<Longrightarrow> pm_step E T e U \<Longrightarrow> pm_run E S (es @ [e]) U"
  by (rule run_snoc)

abbreviation first_child :: "child list" where
  "first_child \<equiv> [fresh_child]"

text \<open>The state after a first successful start.\<close>

lemma started_run:
  "\<exists>w. calm w \<and> pm_run (quiet_env False) (initial_supervisor 0 quiet_world) [UserStart]
     \<lparr>sv_pm = adopt_child True (NewProcessManager 0), sv_world = w, sv_stops = [], sv_panics = 0, sv_dead = False\<rparr>"
proof -
  have e: "(NewProcessManager 0)\<lparr>pm_externalMode := False\<rparr> = NewProcessManager 0" by (simp add: NewProcessManager_def)
  obtain w where w: "calm w" "startLocked (quiet_env False) True (NewProcessManager 0) quiet_world = ((Inr (), adopt_child True (NewProcessManager 0)), w)"
    using calm_start [OF calm_quiet, of "NewProcessManager 0" False True] e by (auto simp: NewProcessManager_def)
  have "pm_step (quiet_env False) (initial_supervisor 0 quiet_world) UserStart
     ((initial_supervisor 0 quiet_world)\<lparr>sv_pm := adopt_child True (NewProcessManager 0), sv_world := w,
        sv_panics := sv_panics (initial_supervisor 0 quiet_world) + of_bool (panicked (Inr ()))\<rparr>)"
    by (rule user_start) (use w in \<open>simp_all add: initial_supervisor_def Start_def\<close>)
  then have "pm_run (quiet_env False) (initial_supervisor 0 quiet_world) ([] @ [UserStart])
     \<lparr>sv_pm = adopt_child True (NewProcessManager 0), sv_world = w, sv_stops = [], sv_panics = 0, sv_dead = False\<rparr>"
    by (intro run_snoc [OF run_nil]) (simp add: initial_supervisor_def panicked_def)
  then show ?thesis using w by auto
qed

text \<open>Two overlapping calls of \<open>Stop\<close>: both read the same channel under the lock, and the one that closes
  it second panics.\<close>

theorem second_stop_panics:
  "\<exists>S. pm_run (quiet_env False) (initial_supervisor 0 quiet_world) [UserStart, StopCall, StopCall, StopClose 0, StopClose 0] S \<and>
     sv_panics S = 1"
proof -
  let ?E = "quiet_env False" and ?pm = "adopt_child True (NewProcessManager 0)"
  let ?st = "\<lambda>pm w xs n. \<lparr>sv_pm = pm, sv_world = w, sv_stops = xs, sv_panics = n, sv_dead = False\<rparr>"
  let ?pm' = "?pm\<lparr>pm_children := [fresh_child\<lparr>ch_stopClosed := True\<rparr>]\<rparr>"
  obtain w where r: "pm_run ?E (initial_supervisor 0 quiet_world) [UserStart] (?st ?pm w [] 0)"
    using started_run by blast
  have l: "stop_lock ?pm = (StopChild 0, ?pm)"
    by (simp add: stop_lock_def adopt_child_def NewProcessManager_def)
  have c: "stop_close 0 ?pm = (Inr (), ?pm')" "stop_close 0 ?pm' = (Inl (Sentinel GoPanic), ?pm')"
    by (simp_all add: stop_close_def adopt_child_def NewProcessManager_def fresh_child_def)
  have 1: "pm_step ?E (?st ?pm w [] 0) StopCall (?st ?pm w [Closing 0] 0)"
    using stop_child [of "?st ?pm w [] 0" 0 ?pm ?E] l by simp
  have 2: "pm_step ?E (?st ?pm w [Closing 0] 0) StopCall (?st ?pm w [Closing 0, Closing 0] 0)"
    using stop_child [of "?st ?pm w [Closing 0] 0" 0 ?pm ?E] l by simp
  have 3: "pm_step ?E (?st ?pm w [Closing 0, Closing 0] 0) (StopClose 0) (?st ?pm' w [AwaitingDone 0, Closing 0] 0)"
    using stop_closes [of "?st ?pm w [Closing 0, Closing 0] 0" "[]" 0 "[Closing 0]" "Inr ()" ?pm' ?E] c by (simp add: panicked_def)
  have 4: "pm_step ?E (?st ?pm' w [AwaitingDone 0, Closing 0] 0) (StopClose 0) (?st ?pm' w [AwaitingDone 0] 1)"
    using stop_closes [of "?st ?pm' w [AwaitingDone 0, Closing 0] 0" "[AwaitingDone 0]" 0 "[]" "Inl (Sentinel GoPanic)" ?pm' ?E] c
    by (simp add: panicked_def)
  from run_snoc [OF run_snoc [OF run_snoc [OF run_snoc [OF r 1] 2] 3] 4] show ?thesis by auto
qed


text \<open>The witnesses of the two theorems about every run.\<close>

theorem single_child_witness:
  "\<exists>S. pm_run (quiet_env False) (initial_supervisor 0 quiet_world) [UserStart] S \<and> card (live (sv_pm S)) \<le> 1 \<and> Status (sv_pm S) = ''running''"
proof -
  obtain w where r: "pm_run (quiet_env False) (initial_supervisor 0 quiet_world) [UserStart]
     \<lparr>sv_pm = adopt_child True (NewProcessManager 0), sv_world = w, sv_stops = [], sv_panics = 0, sv_dead = False\<rparr>"
    using started_run by blast
  have "live (adopt_child True (NewProcessManager 0)) \<noteq> {}" by (simp add: live_adopt)
  then show ?thesis using single_child [OF r] r by (intro exI conjI) auto
qed


end
