(* ===== verification/BackupModel.thy ===== *)
theory BackupModel
  imports NodeRedEnv "HOL-Library.Word"
begin

text \<open>
  Backups, the data and the pure part: src/internal/model/backup.go and the helpers of
  src/internal/service/backup.go.  Types of backups are the strings of the JSON form.  \<open>backup_env\<close> is what
  the service gets from outside: identifiers, the clock (its text in nanoseconds and in seconds, and the file times), SHA-256 in hex,
  \<open>sort.Slice\<close> at its three types, the cron parser and its next run, the working directory, the sizes the zip writer and the
  JSON encoder produce, and the remote provider's \<open>Snapshot\<close>.
\<close>

section \<open>Data\<close>

record Backup =
  b_ID :: string
  b_Name :: string
  b_Type :: string
  b_CreatedAt :: string
  b_TriggeredBy :: string
  b_FileCount :: nat
  b_SizeBytes :: nat
  b_Path :: string

record BackupFileEntry =
  fe_Path :: string
  fe_Size :: int
  fe_Checksum :: string

record backupMetadata =
  md_ID :: string
  md_Name :: string
  md_Type :: string
  md_CreatedAt :: string
  md_TriggeredBy :: string
  md_Algorithm :: string
  md_Version :: int
  md_Files :: "BackupFileEntry list"

record BackupManifest =
  mf_ID :: string
  mf_Name :: string
  mf_Type :: string
  mf_CreatedAt :: string
  mf_TriggeredBy :: string
  mf_Files :: "BackupFileEntry list"
  mf_TotalSize :: nat

record BackupStorageInfo =
  si_TotalBackups :: nat
  si_TotalSize :: nat
  si_ManualCount :: nat
  si_AutoCount :: nat
  si_PreRestoreCount :: nat

record BackupConfig =
  bk_Enabled :: bool
  bk_Schedule :: string
  bk_CustomSchedule :: string
  bk_RetentionManual :: int
  bk_RetentionAuto :: int
  bk_RetentionPreRestore :: int
  bk_IncludeConfig :: bool
  bk_IncludeSettings :: bool
  bk_IncludeFlowsCred :: bool
  bk_IncludePackageJSON :: bool

record BackupEvent =
  be_ID :: string
  be_EventType :: string
  be_Status :: string
  be_OccurredAt :: string
  be_BackupID :: string
  be_BackupName :: string
  be_BackupType :: string
  be_Message :: string
  be_Schedule :: string
  be_ActiveSpec :: string
  be_Trigger :: string
  be_PrunedIDs :: "string list"
  be_Error :: "go_error option"

text \<open>An archive as \<open>archive/zip\<close> reads it.  The body of an entry is its bytes; the JSON of
  backup-metadata.json is kept decoded, so a metadata entry of bytes is one that does not parse; no body
  is an entry that cannot be read.  \<open>ze_Size\<close> is the declared size, which may lie.\<close>

datatype zbody = Bytes string | Document backupMetadata

record zentry =
  ze_Name :: string
  ze_IsDir :: bool
  ze_Unsafe :: bool
  ze_Size :: nat
  ze_Body :: "zbody option"

record zarchive =
  za_Entries :: "zentry list option"
  za_Size :: nat
  za_ModTime :: int

record backup_env =
  bv_dataDir :: string
  bv_backupDir :: string
  bv_cwd :: string
  bv_uuid :: "nat \<Rightarrow> string"
  bv_nano :: "nat \<Rightarrow> string"
  bv_now :: "nat \<Rightarrow> string"
  bv_mtime :: "nat \<Rightarrow> int"
  bv_RFC3339 :: "int \<Rightarrow> string"
  bv_sha256 :: "string \<Rightarrow> string"
  bv_sort :: "(Backup \<Rightarrow> Backup \<Rightarrow> bool) \<Rightarrow> Backup list \<Rightarrow> Backup list"
  bv_sort_files :: "(BackupFileEntry \<Rightarrow> BackupFileEntry \<Rightarrow> bool) \<Rightarrow> BackupFileEntry list \<Rightarrow> BackupFileEntry list"
  bv_sort_events :: "(BackupEvent \<Rightarrow> BackupEvent \<Rightarrow> bool) \<Rightarrow> BackupEvent list \<Rightarrow> BackupEvent list"
  bv_cron :: "string \<Rightarrow> go_error option"
  bv_next :: "string \<Rightarrow> nat \<Rightarrow> string"
  bv_zip_size :: "zentry list \<Rightarrow> nat"
  bv_json_size :: "backupMetadata \<Rightarrow> nat"
  bv_provider :: "(string \<Rightarrow> string result) option"

definition backupTypeManual :: string where "backupTypeManual = ''manual''"

definition backupTypeAuto :: string where "backupTypeAuto = ''auto''"

definition backupTypePreRestore :: string where "backupTypePreRestore = ''pre-restore''"

definition metadataName :: string where "metadataName = ''backup-metadata.json''"

definition defaultChecksumAlgo :: string where "defaultChecksumAlgo = ''sha256''"

definition currentManifestVersion :: int where "currentManifestVersion = 1"

definition maxBackupEntrySize :: nat where "maxBackupEntrySize = 200 * 1024 * 1024"

section \<open>Names, types and paths\<close>

definition firstNonEmpty :: "string list \<Rightarrow> string" where
  "firstNonEmpty vs = (case find (\<lambda>v. TrimSpace v \<noteq> '''') vs of None \<Rightarrow> '''' | Some v \<Rightarrow> TrimSpace v)"

definition normalizeBackupType :: "string \<Rightarrow> string" where
  "normalizeBackupType v =
     (let t = TrimSpace (ToLower v) in
      if t = backupTypeAuto then backupTypeAuto
      else if t = backupTypePreRestore then backupTypePreRestore else backupTypeManual)"

definition inferBackupType :: "string \<Rightarrow> string" where
  "inferBackupType name =
     (let n = ToLower name in
      if Contains n ''pre-restore'' \<or> Contains n ''prerestore'' then backupTypePreRestore
      else if Contains n ''auto'' then backupTypeAuto else backupTypeManual)"

definition ValidateBackupID :: "string \<Rightarrow> go_error option" where
  "ValidateBackupID ident =
     (if ident = '''' \<or> ident \<noteq> Base ident \<or> Contains ident ''..'' then Some (ErrText ''invalid backup id'') else None)"

definition ValidateRestoreDestination :: "string \<Rightarrow> string \<Rightarrow> string \<Rightarrow> go_error option" where
  "ValidateRestoreDestination cwd dst root =
     (if dst = '''' then Some (ErrText ''destination is required'')
      else if root = '''' then Some (ErrText ''backup root is required'')
      else let absDst = Abs cwd dst; absRoot = Abs cwd root in
        if absRoot = ''/'' then None
        else case Rel absRoot absDst of
            None \<Rightarrow> Some (ErrText ''destination escapes backup root'')
          | Some rel \<Rightarrow>
              if rel = ''..'' \<or> HasPrefix rel ''../'' then Some (ErrText ''destination escapes backup root'') else None)"

definition isSafeAbsoluteDestination :: "string \<Rightarrow> bool" where
  "isSafeAbsoluteDestination dest \<longleftrightarrow>
     dest \<noteq> '''' \<and> IsAbs dest \<and> Clean dest = dest \<and> ''..'' \<notin> set (Split (Clean dest) SLASH)"

definition sanitizeArchivePath :: "string \<Rightarrow> string \<Rightarrow> string \<Rightarrow> string result" where
  "sanitizeArchivePath cwd destDir entryName =
     (if IsAbs entryName then Inl (ErrText (''absolute path not allowed: '' @ entryName))
      else let destPath = JoinPath [destDir, Clean entryName] in
        if \<not> HasPrefix (Abs cwd destPath) (Abs cwd destDir @ ''/'')
        then Inl (ErrText (''path traversal detected: '' @ entryName)) else Inr destPath)"

section \<open>Configuration\<close>

definition defaultBackupConfig :: BackupConfig where
  "defaultBackupConfig =
     \<lparr>bk_Enabled = False, bk_Schedule = ''disabled'', bk_CustomSchedule = '''', bk_RetentionManual = 10, bk_RetentionAuto = 30,
      bk_RetentionPreRestore = 5, bk_IncludeConfig = True, bk_IncludeSettings = True, bk_IncludeFlowsCred = True,
      bk_IncludePackageJSON = True\<rparr>"

definition maxInt :: "int \<Rightarrow> int \<Rightarrow> int \<Rightarrow> int" where
  "maxInt minimum v fallback =
     (let v = (if v \<le> 0 then fallback else v) in if v < minimum then minimum else v)"

definition normalizeBackupConfig :: "BackupConfig \<Rightarrow> BackupConfig" where
  "normalizeBackupConfig cfg =
     (let v = TrimSpace (ToLower (bk_Schedule cfg));
          sched = (if v \<in> set [''disabled'', ''hourly'', ''every6h'', ''daily'', ''weekly'', ''custom''] then v
                   else bk_Schedule defaultBackupConfig)
      in cfg\<lparr>bk_Enabled := (bk_Enabled cfg \<and> sched \<noteq> ''disabled''), bk_Schedule := sched,
             bk_CustomSchedule := (if sched \<noteq> ''custom'' then '''' else TrimSpace (bk_CustomSchedule cfg)),
             bk_RetentionManual := maxInt 1 (bk_RetentionManual cfg) (bk_RetentionManual defaultBackupConfig),
             bk_RetentionAuto := maxInt 1 (bk_RetentionAuto cfg) (bk_RetentionAuto defaultBackupConfig),
             bk_RetentionPreRestore := maxInt 1 (bk_RetentionPreRestore cfg) (bk_RetentionPreRestore defaultBackupConfig)\<rparr>)"

text \<open>The cron specification; the empty one means not scheduled.\<close>

definition scheduleSpec :: "backup_env \<Rightarrow> BackupConfig \<Rightarrow> string result" where
  "scheduleSpec B cfg =
     (let n = normalizeBackupConfig cfg in
      if \<not> bk_Enabled n \<or> bk_Schedule n = ''disabled'' then Inr ''''
      else if bk_Schedule n = ''hourly'' then Inr ''0 * * * *''
      else if bk_Schedule n = ''every6h'' then Inr ''0 */6 * * *''
      else if bk_Schedule n = ''daily'' then Inr ''0 2 * * *''
      else if bk_Schedule n = ''weekly'' then Inr ''0 2 * * 0''
      else if bk_Schedule n = ''custom'' then
        (if bk_CustomSchedule n = '''' then Inl (ErrWrap ''customSchedule is required when schedule is custom'' (Sentinel ErrInvalidBackupConfig))
         else case bv_cron B (bk_CustomSchedule n) of
             Some e \<Rightarrow> Inl (ErrJoin (Sentinel ErrInvalidBackupConfig) e)
           | None \<Rightarrow> Inr (bk_CustomSchedule n))
      else Inl (ErrWrap ''unsupported schedule'' (Sentinel ErrInvalidBackupConfig)))"

definition IsValidCron :: "backup_env \<Rightarrow> string \<Rightarrow> bool" where
  "IsValidCron B expr \<longleftrightarrow> expr \<noteq> '''' \<and> bv_cron B expr = None"

definition retentionForType :: "BackupConfig \<Rightarrow> string \<Rightarrow> int" where
  "retentionForType cfg t =
     (if t = backupTypeAuto then bk_RetentionAuto cfg
      else if t = backupTypePreRestore then bk_RetentionPreRestore cfg else bk_RetentionManual cfg)"

text \<open>\<open>decodeJSONField\<close> keeps the target when the field is missing, null or of another type.  A number decodes
  into an int when it is written as an integer in range.\<close>

definition decode_bool :: "(string \<times> json) list \<Rightarrow> string \<Rightarrow> bool \<Rightarrow> bool" where
  "decode_bool raw k target = (case map_of raw k of Some (JBool b) \<Rightarrow> b | _ \<Rightarrow> target)"

definition decode_string :: "(string \<times> json) list \<Rightarrow> string \<Rightarrow> string \<Rightarrow> string" where
  "decode_string raw k target = (case map_of raw k of Some (JStr s) \<Rightarrow> s | _ \<Rightarrow> target)"

definition decode_int :: "(string \<times> json) list \<Rightarrow> string \<Rightarrow> int \<Rightarrow> int" where
  "decode_int raw k target =
     (case map_of raw k of
        Some (JNum m e) \<Rightarrow> if e \<ge> 0 \<and> - (2 ^ 63) \<le> m * 10 ^ nat e \<and> m * 10 ^ nat e < 2 ^ 63 then m * 10 ^ nat e else target
      | _ \<Rightarrow> target)"

definition decode_config :: "(string \<times> json) list \<Rightarrow> BackupConfig" where
  "decode_config raw =
     (let d = defaultBackupConfig in
      normalizeBackupConfig
        \<lparr>bk_Enabled = decode_bool raw ''enabled'' (bk_Enabled d),
         bk_Schedule = decode_string raw ''schedule'' (bk_Schedule d),
         bk_CustomSchedule = decode_string raw ''customSchedule'' (bk_CustomSchedule d),
         bk_RetentionManual = decode_int raw ''retentionManual'' (bk_RetentionManual d),
         bk_RetentionAuto = decode_int raw ''retentionAuto'' (bk_RetentionAuto d),
         bk_RetentionPreRestore = decode_int raw ''retentionPreRestore'' (bk_RetentionPreRestore d),
         bk_IncludeConfig = decode_bool raw ''includeConfig'' (bk_IncludeConfig d),
         bk_IncludeSettings = decode_bool raw ''includeSettings'' (bk_IncludeSettings d),
         bk_IncludeFlowsCred = decode_bool raw ''includeFlowsCred'' (bk_IncludeFlowsCred d),
         bk_IncludePackageJSON = decode_bool raw ''includePackageJson'' (bk_IncludePackageJSON d)\<rparr>)"

text \<open>The JSON object \<open>SaveConfig\<close> writes; an empty \<open>customSchedule\<close> is omitted.\<close>

definition encode_config :: "BackupConfig \<Rightarrow> (string \<times> json) list" where
  "encode_config c =
     [(''enabled'', JBool (bk_Enabled c)), (''schedule'', JStr (bk_Schedule c))] @
     (if bk_CustomSchedule c = '''' then [] else [(''customSchedule'', JStr (bk_CustomSchedule c))]) @
     [(''retentionManual'', JNum (bk_RetentionManual c) 0), (''retentionAuto'', JNum (bk_RetentionAuto c) 0),
      (''retentionPreRestore'', JNum (bk_RetentionPreRestore c) 0), (''includeConfig'', JBool (bk_IncludeConfig c)),
      (''includeSettings'', JBool (bk_IncludeSettings c)), (''includeFlowsCred'', JBool (bk_IncludeFlowsCred c)),
      (''includePackageJson'', JBool (bk_IncludePackageJSON c))]"

section \<open>Order and pages\<close>

text \<open>Go compares strings byte by byte.\<close>

fun str_less :: "string \<Rightarrow> string \<Rightarrow> bool" where
  "str_less [] [] = False"
| "str_less [] (y # ys) = True"
| "str_less (x # xs) [] = False"
| "str_less (x # xs) (y # ys) =
     (if x = y then str_less xs ys else (of_char x :: nat) < of_char y)"

definition newest_first :: "Backup \<Rightarrow> Backup \<Rightarrow> bool" where
  "newest_first a b = str_less (b_CreatedAt b) (b_CreatedAt a)"

record PaginationOpts =
  po_Page :: "64 word"
  po_Limit :: "64 word"
  po_Sort :: string
  po_Order :: string

definition page_less :: "string \<Rightarrow> string \<Rightarrow> Backup \<Rightarrow> Backup \<Rightarrow> bool" where
  "page_less srt order a b =
     (if srt = ''size'' then (if order = ''asc'' then b_SizeBytes a < b_SizeBytes b else b_SizeBytes b < b_SizeBytes a)
      else if srt = ''status'' then
        (if order = ''asc'' then str_less (b_Type a) (b_Type b) else str_less (b_Type b) (b_Type a))
      else if order = ''asc'' then str_less (b_CreatedAt a) (b_CreatedAt b) else str_less (b_CreatedAt b) (b_CreatedAt a))"

record 'a page =
  pg_Items :: "'a list"
  pg_Total :: nat
  pg_Page :: "64 word"
  pg_Limit :: "64 word"

text \<open>\<open>int\<close> is a 64-bit word here, because the offset is computed with its wrap-around.\<close>

definition clamp_page :: "64 word \<Rightarrow> 64 word" where
  "clamp_page p = (if p <s 1 then 1 else p)"

definition clamp_limit :: "64 word \<Rightarrow> 64 word" where
  "clamp_limit l = (let l = (if l <s 1 then 20 else l) in if 100 <s l then 100 else l)"

text \<open>The slice of one page; \<^const>\<open>None\<close> is the panic of a slice expression with a bad bound.\<close>

definition page_items :: "64 word \<Rightarrow> 64 word \<Rightarrow> 'a list \<Rightarrow> 'a list option" where
  "page_items page limit xs =
     (let total = length xs; offset = (page - 1) * limit in
      if word_of_nat total \<le>s offset \<and> total > 0 then Some []
      else
        let stop = offset + limit; stop = (if word_of_nat total <s stop then word_of_nat total else stop)
        in if offset <s word_of_nat total
           then (if 0 \<le>s offset \<and> offset \<le>s stop
                 then Some (take (unat stop - unat offset) (drop (unat offset) xs)) else None)
           else Some [])"

definition paginate :: "backup_env \<Rightarrow> PaginationOpts \<Rightarrow> Backup list \<Rightarrow> Backup page option" where
  "paginate B opts all =
     (let page = clamp_page (po_Page opts); limit = clamp_limit (po_Limit opts);
          srt = (if po_Sort opts = '''' then ''date'' else po_Sort opts);
          order = (if po_Order opts = '''' then ''desc'' else po_Order opts);
          ordered = bv_sort B (page_less srt order) all
      in map_option (\<lambda>items. \<lparr>pg_Items = items, pg_Total = length all, pg_Page = page, pg_Limit = limit\<rparr>)
           (page_items page limit ordered))"

end
