(* ===== verification/BackupService.thy ===== *)
theory BackupService
  imports BackupModel
begin

text \<open>
  The backup service: src/internal/service/backup.go, backup_observability.go and backup_scheduler.go.  The
  world is the file system with the archives of the backup directory beside it (decoded, by path), the backup
  configuration and the event log (a missing file, one that does not parse, or its content), the staging
  directories, the scheduler, and the uploads that wait for their goroutine.  Every system call may fail.
  The comparison of file times inside the sort of \<open>pruneBackups\<close> does not fail, and nobody else changes a
  file while it is being copied.
\<close>

section \<open>State\<close>

record BackupSchedulerStatus =
  ss_Enabled :: bool
  ss_Scheduled :: bool
  ss_Schedule :: string
  ss_CustomSchedule :: string
  ss_ActiveSpec :: string
  ss_NextRunAt :: string
  ss_LastRunAt :: string
  ss_LastSuccessAt :: string
  ss_LastBackupID :: string
  ss_LastError :: "go_error option"

record backupScheduler =
  sc_entry :: "string option"
  sc_started :: bool
  sc_status :: BackupSchedulerStatus

record bk_world = world +
  archives :: "(string \<times> zarchive) list"
  config_doc :: "(string \<times> json) list option option"
  event_log :: "BackupEvent list option option"
  staging :: "string list"
  scheduler :: backupScheduler
  uploads :: "Backup list"

definition empty_status :: BackupSchedulerStatus where
  "empty_status = \<lparr>ss_Enabled = False, ss_Scheduled = False, ss_Schedule = '''', ss_CustomSchedule = '''', ss_ActiveSpec = '''',
     ss_NextRunAt = '''', ss_LastRunAt = '''', ss_LastSuccessAt = '''', ss_LastBackupID = '''', ss_LastError = None\<rparr>"

definition newBackupScheduler :: backupScheduler where
  "newBackupScheduler = \<lparr>sc_entry = None, sc_started = False,
     sc_status = empty_status\<lparr>ss_Schedule := bk_Schedule defaultBackupConfig\<rparr>\<rparr>"

definition empty_event :: BackupEvent where
  "empty_event = \<lparr>be_ID = '''', be_EventType = '''', be_Status = '''', be_OccurredAt = '''', be_BackupID = '''', be_BackupName = '''',
     be_BackupType = '''', be_Message = '''', be_Schedule = '''', be_ActiveSpec = '''', be_Trigger = '''', be_PrunedIDs = [], be_Error = None\<rparr>"

section \<open>Sequencing\<close>

definition and_then :: "('w \<Rightarrow> 'a result \<times> 'w) \<Rightarrow> ('a \<Rightarrow> 'w \<Rightarrow> 'b result \<times> 'w) \<Rightarrow> 'w \<Rightarrow> 'b result \<times> 'w" where
  "and_then m f w = (case m w of (Inl e, w) \<Rightarrow> (Inl e, w) | (Inr x, w) \<Rightarrow> f x w)"

definition wrapped :: "string \<Rightarrow> ('w \<Rightarrow> 'a result \<times> 'w) \<Rightarrow> 'w \<Rightarrow> 'a result \<times> 'w" where
  "wrapped msg m w = (case m w of (Inl e, w) \<Rightarrow> (Inl (ErrWrap msg e), w) | (Inr x, w) \<Rightarrow> (Inr x, w))"

definition on_error :: "('w \<Rightarrow> 'a result \<times> 'w) \<Rightarrow> ('w \<Rightarrow> 'w) \<Rightarrow> 'w \<Rightarrow> 'a result \<times> 'w" where
  "on_error m cleanup w = (case m w of (Inl e, w) \<Rightarrow> (Inl e, cleanup w) | (Inr x, w) \<Rightarrow> (Inr x, w))"

section \<open>The backup directory\<close>

definition arch_Stat :: "string \<Rightarrow> 'w bk_world_scheme \<Rightarrow> zarchive result \<times> 'w bk_world_scheme" where
  "arch_Stat path w =
     (case sys_call w of
        (Inl e, w) \<Rightarrow> (Inl e, w)
      | (Inr _, w) \<Rightarrow> (case map_of (archives w) path of None \<Rightarrow> (Inl (Sentinel ErrNotExist), w) | Some a \<Rightarrow> (Inr a, w)))"

definition arch_put :: "string \<Rightarrow> zarchive \<Rightarrow> 'w bk_world_scheme \<Rightarrow> 'w bk_world_scheme" where
  "arch_put path a w = w\<lparr>archives := (path, a) # filter (\<lambda>x. fst x \<noteq> path) (archives w)\<rparr>"

definition arch_del :: "string \<Rightarrow> 'w bk_world_scheme \<Rightarrow> 'w bk_world_scheme" where
  "arch_del path w = w\<lparr>archives := filter (\<lambda>x. fst x \<noteq> path) (archives w)\<rparr>"

definition arch_Remove :: "string \<Rightarrow> 'w bk_world_scheme \<Rightarrow> unit result \<times> 'w bk_world_scheme" where
  "arch_Remove path w =
     (case sys_call w of
        (Inl e, w) \<Rightarrow> (Inl e, w)
      | (Inr _, w) \<Rightarrow> (if map_of (archives w) path = None then (Inl (Sentinel ErrNotExist), w) else (Inr (), arch_del path w)))"

definition arch_Rename :: "string \<Rightarrow> string \<Rightarrow> 'w bk_world_scheme \<Rightarrow> unit result \<times> 'w bk_world_scheme" where
  "arch_Rename old new w =
     (case sys_call w of
        (Inl e, w) \<Rightarrow> (Inl e, w)
      | (Inr _, w) \<Rightarrow> (case map_of (archives w) old of
            None \<Rightarrow> (Inl (Sentinel ErrNotExist), w)
          | Some a \<Rightarrow> (Inr (), arch_put new a (arch_del old w))))"

text \<open>A file that is being written is no archive until the zip writer was closed.\<close>

definition arch_Create :: "backup_env \<Rightarrow> string \<Rightarrow> 'w bk_world_scheme \<Rightarrow> unit result \<times> 'w bk_world_scheme" where
  "arch_Create B path w =
     (case sys_call w of
        (Inl e, w) \<Rightarrow> (Inl e, w)
      | (Inr _, w) \<Rightarrow> (Inr (), arch_put path \<lparr>za_Entries = None, za_Size = 0, za_ModTime = bv_mtime B (calls w)\<rparr> w))"

definition finish_zip :: "backup_env \<Rightarrow> string \<Rightarrow> zentry list \<Rightarrow> 'w bk_world_scheme \<Rightarrow> unit result \<times> 'w bk_world_scheme" where
  "finish_zip B path entries w =
     (case sys_call w of
        (Inl e, w) \<Rightarrow> (Inl e, w)
      | (Inr _, w) \<Rightarrow>
          (Inr (), arch_put path \<lparr>za_Entries = Some entries, za_Size = bv_zip_size B entries, za_ModTime = bv_mtime B (calls w)\<rparr> w))"

fun temp_archive :: "nat \<Rightarrow> backup_env \<Rightarrow> string \<Rightarrow> 'w bk_world_scheme \<Rightarrow> string result \<times> 'w bk_world_scheme" where
  "temp_archive 0 B prefix w = (Inl (Sentinel ErrExist), w)"
| "temp_archive (Suc n) B prefix w =
     (let name = prefix @ nat_text (entropy w (calls w) 0) in
      if map_of (archives w) name \<noteq> None then temp_archive n B prefix (tick w)
      else case arch_Create B name w of (Inl e, w) \<Rightarrow> (Inl e, w) | (Inr _, w) \<Rightarrow> (Inr name, w))"

definition arch_CreateTemp :: "backup_env \<Rightarrow> string \<Rightarrow> 'w bk_world_scheme \<Rightarrow> string result \<times> 'w bk_world_scheme" where
  [simp]: "arch_CreateTemp = temp_archive 10000"

lemma arch_CreateTemp_code [code]:
  "arch_CreateTemp B prefix w =
     (let name = prefix @ nat_text (entropy w (calls w) 0) in
      if map_of (archives w) name \<noteq> None then temp_archive 9999 B prefix (tick w)
      else case arch_Create B name w of (Inl e, w) \<Rightarrow> (Inl e, w) | (Inr _, w) \<Rightarrow> (Inr name, w))"
  using temp_archive.simps(2) [of 9999] by (simp del: temp_archive.simps)

text \<open>\<open>os.ReadDir\<close> sorts by name.\<close>

fun insert_name :: "string \<Rightarrow> string list \<Rightarrow> string list" where
  "insert_name x [] = [x]"
| "insert_name x (y # ys) = (if str_less y x then y # insert_name x ys else x # y # ys)"

definition arch_ReadDir :: "'w bk_world_scheme \<Rightarrow> string list result \<times> 'w bk_world_scheme" where
  "arch_ReadDir w =
     (case sys_call w of
        (Inl e, w) \<Rightarrow> (Inl e, w)
      | (Inr _, w) \<Rightarrow> (Inr (foldr insert_name (map fst (archives w)) []), w))"

section \<open>Reading archives\<close>

definition read_entry :: "zentry \<Rightarrow> 'w bk_world_scheme \<Rightarrow> zbody result \<times> 'w bk_world_scheme" where
  "read_entry f w =
     (case sys_call w of
        (Inl e, w) \<Rightarrow> (Inl e, w)
      | (Inr _, w) \<Rightarrow> (case ze_Body f of None \<Rightarrow> (Inl (ErrText ''zip: checksum error''), w) | Some b \<Rightarrow> (Inr b, w)))"

definition decode_manifest :: "zentry \<Rightarrow> 'w bk_world_scheme \<Rightarrow> backupMetadata result \<times> 'w bk_world_scheme" where
  "decode_manifest f =
     and_then (read_entry f) (\<lambda>b w. case b of Bytes _ \<Rightarrow> (Inl (ErrText ''invalid character''), w) | Document m \<Rightarrow> (Inr m, w))"

definition readBackupMetadata :: "zentry \<Rightarrow> 'w bk_world_scheme \<Rightarrow> backupMetadata result \<times> 'w bk_world_scheme" where
  "readBackupMetadata f = and_then (decode_manifest f) (\<lambda>m w. (Inr (m\<lparr>md_Type := normalizeBackupType (md_Type m)\<rparr>), w))"

definition checksumZipFile :: "backup_env \<Rightarrow> zentry \<Rightarrow> 'w bk_world_scheme \<Rightarrow> string result \<times> 'w bk_world_scheme" where
  "checksumZipFile B f =
     and_then (read_entry f) (\<lambda>b w. case b of Bytes s \<Rightarrow> (Inr (bv_sha256 B s), w) | Document _ \<Rightarrow> (Inl (ErrText ''not a payload''), w))"

text \<open>\<open>int64(UncompressedSize64)\<close>.\<close>

definition declared_size :: "zentry \<Rightarrow> int" where
  "declared_size f = sint (word_of_nat (ze_Size f) :: 64 word)"

lemma declared_size_small: "ze_Size f < 2 ^ 63 \<Longrightarrow> declared_size f = int (ze_Size f)"
  unfolding declared_size_def by (simp add: sint_uint signed_take_bit_int_eq_self unsigned_of_nat take_bit_nat_eq_self nat_less_iff)

lemma declared_size_code [code]:
  "declared_size f = (if int (ze_Size f) < 9223372036854775808 then int (ze_Size f) else sint (word_of_nat (ze_Size f) :: 64 word))"
  using declared_size_small by (simp add: declared_size_def)

fun inspect_entries ::
  "backup_env \<Rightarrow> zentry list \<Rightarrow> BackupManifest \<Rightarrow> 'w bk_world_scheme \<Rightarrow> BackupManifest \<times> 'w bk_world_scheme" where
  "inspect_entries B [] mf w = (mf, w)"
| "inspect_entries B (f # fs) mf w =
     (if ze_IsDir f then inspect_entries B fs mf w
      else if ze_Name f = metadataName then
        (case readBackupMetadata f w of
           (Inl _, w) \<Rightarrow> inspect_entries B fs mf w
         | (Inr md, w) \<Rightarrow>
             inspect_entries B fs
               (mf\<lparr>mf_ID := firstNonEmpty [md_ID md, mf_ID mf], mf_Name := firstNonEmpty [md_Name md, mf_Name mf],
                   mf_CreatedAt := firstNonEmpty [md_CreatedAt md, mf_CreatedAt mf],
                   mf_TriggeredBy := firstNonEmpty [md_TriggeredBy md, md_Name md],
                   mf_Type := normalizeBackupType (md_Type md)\<rparr>) w)
      else case checksumZipFile B f w of
          (r, w) \<Rightarrow>
            inspect_entries B fs
              (mf\<lparr>mf_Files := mf_Files mf @ [\<lparr>fe_Path = ze_Name f, fe_Size = declared_size f,
                 fe_Checksum = (case r of Inl _ \<Rightarrow> '''' | Inr c \<Rightarrow> c)\<rparr>]\<rparr>) w)"

definition open_zip :: "string \<Rightarrow> string \<Rightarrow> 'w bk_world_scheme \<Rightarrow> (zarchive \<times> zentry list) result \<times> 'w bk_world_scheme" where
  "open_zip parse_msg path =
     and_then (wrapped ''backup not found'' (arch_Stat path)) (\<lambda>info.
     and_then (wrapped ''failed to open backup'' (arch_Stat path)) (\<lambda>a w.
       case za_Entries a of
         None \<Rightarrow> (Inl (ErrWrap parse_msg (ErrText ''zip: not a valid zip file'')), w)
       | Some fs \<Rightarrow> (Inr (info, fs), w)))"

definition inspectBackup :: "backup_env \<Rightarrow> string \<Rightarrow> 'w bk_world_scheme \<Rightarrow> BackupManifest result \<times> 'w bk_world_scheme" where
  "inspectBackup B path =
     and_then (open_zip ''failed to inspect backup'' path) (\<lambda>(info, fs) w.
       let ident = TrimSuffix (Base path) ''.zip'';
           (mf, w) = inspect_entries B fs
             \<lparr>mf_ID = ident, mf_Name = ident, mf_Type = inferBackupType ident, mf_CreatedAt = bv_RFC3339 B (za_ModTime info),
              mf_TriggeredBy = '''', mf_Files = [], mf_TotalSize = za_Size info\<rparr> w;
           mf = (if mf_Type mf = '''' then mf\<lparr>mf_Type := inferBackupType (mf_Name mf)\<rparr> else mf);
           mf = (if mf_TriggeredBy mf = '''' then mf\<lparr>mf_TriggeredBy := mf_Name mf\<rparr> else mf)
       in (Inr (mf\<lparr>mf_Files := bv_sort_files B (\<lambda>a b. str_less (fe_Path a) (fe_Path b)) (mf_Files mf)\<rparr>), w))"

definition describeBackup :: "backup_env \<Rightarrow> string \<Rightarrow> 'w bk_world_scheme \<Rightarrow> Backup result \<times> 'w bk_world_scheme" where
  "describeBackup B path =
     and_then (inspectBackup B path) (\<lambda>mf w.
       (Inr \<lparr>b_ID = mf_ID mf, b_Name = mf_Name mf, b_Type = mf_Type mf, b_CreatedAt = mf_CreatedAt mf,
             b_TriggeredBy = mf_TriggeredBy mf, b_FileCount = length (mf_Files mf), b_SizeBytes = mf_TotalSize mf,
             b_Path = path\<rparr>, w))"

definition is_archive_name :: "string \<Rightarrow> bool" where
  "is_archive_name n \<longleftrightarrow> HasSuffix n ''.zip'' \<and> \<not> HasSuffix n ''.zip.tmp''"

fun describe_all :: "backup_env \<Rightarrow> string list \<Rightarrow> 'w bk_world_scheme \<Rightarrow> Backup list \<times> 'w bk_world_scheme" where
  "describe_all B [] w = ([], w)"
| "describe_all B (p # ps) w =
     (if \<not> is_archive_name p then describe_all B ps w
      else case describeBackup B p w of
          (Inl _, w) \<Rightarrow> describe_all B ps w
        | (Inr b, w) \<Rightarrow> (let (bs, w) = describe_all B ps w in (b # bs, w)))"

definition bk_List :: "backup_env \<Rightarrow> 'w bk_world_scheme \<Rightarrow> Backup list result \<times> 'w bk_world_scheme" where
  "bk_List B =
     and_then (wrapped ''failed to create backups directory'' sys_call) (\<lambda>_.
     and_then (wrapped ''failed to read backups directory'' arch_ReadDir) (\<lambda>ps w.
       let (bs, w) = describe_all B ps w in (Inr (bv_sort B newest_first bs), w)))"

text \<open>The result is \<^const>\<open>None\<close> inside when the slice expression panics.\<close>

definition ListPaginated ::
  "backup_env \<Rightarrow> PaginationOpts \<Rightarrow> 'w bk_world_scheme \<Rightarrow> Backup page result \<times> 'w bk_world_scheme" where
  "ListPaginated B opts =
     and_then (bk_List B) (\<lambda>all w.
       case paginate B opts all of None \<Rightarrow> (Inl (Sentinel GoPanic), w) | Some p \<Rightarrow> (Inr p, w))"

definition backup_path :: "backup_env \<Rightarrow> string \<Rightarrow> string" where
  "backup_path B ident = JoinPath [bv_backupDir B, ident @ ''.zip'']"

definition Detail :: "backup_env \<Rightarrow> string \<Rightarrow> 'w bk_world_scheme \<Rightarrow> BackupManifest result \<times> 'w bk_world_scheme" where
  "Detail B ident w =
     (case ValidateBackupID ident of Some e \<Rightarrow> (Inl e, w) | None \<Rightarrow> inspectBackup B (backup_path B ident) w)"

definition count_backup :: "BackupStorageInfo \<Rightarrow> Backup \<Rightarrow> BackupStorageInfo" where
  "count_backup s b =
     (let s = s\<lparr>si_TotalBackups := si_TotalBackups s + 1, si_TotalSize := si_TotalSize s + b_SizeBytes b\<rparr> in
      if b_Type b = backupTypeAuto then s\<lparr>si_AutoCount := si_AutoCount s + 1\<rparr>
      else if b_Type b = backupTypePreRestore then s\<lparr>si_PreRestoreCount := si_PreRestoreCount s + 1\<rparr>
      else s\<lparr>si_ManualCount := si_ManualCount s + 1\<rparr>)"

definition Storage :: "backup_env \<Rightarrow> 'w bk_world_scheme \<Rightarrow> BackupStorageInfo result \<times> 'w bk_world_scheme" where
  "Storage B =
     and_then (bk_List B) (\<lambda>bs w.
       (Inr (foldl count_backup \<lparr>si_TotalBackups = 0, si_TotalSize = 0, si_ManualCount = 0, si_AutoCount = 0, si_PreRestoreCount = 0\<rparr> bs), w))"

section \<open>Events\<close>

definition maxBackupEvents :: nat where "maxBackupEvents = 40"

text \<open>\<open>sort.SliceStable\<close>.\<close>

fun stable_insert :: "('a \<Rightarrow> 'a \<Rightarrow> bool) \<Rightarrow> 'a \<Rightarrow> 'a list \<Rightarrow> 'a list" where
  "stable_insert lt x [] = [x]"
| "stable_insert lt x (y # ys) = (if lt y x then y # stable_insert lt x ys else x # y # ys)"

definition stable_sort :: "('a \<Rightarrow> 'a \<Rightarrow> bool) \<Rightarrow> 'a list \<Rightarrow> 'a list" where
  "stable_sort lt xs = foldr (stable_insert lt) xs []"

definition event_newer :: "BackupEvent \<Rightarrow> BackupEvent \<Rightarrow> bool" where
  "event_newer a b = str_less (be_OccurredAt b) (be_OccurredAt a)"

definition loadLocked :: "'w bk_world_scheme \<Rightarrow> BackupEvent list result \<times> 'w bk_world_scheme" where
  "loadLocked w =
     (case sys_call w of
        (Inl e, w) \<Rightarrow> (Inl (ErrWrap ''read backup event log'' e), w)
      | (Inr _, w) \<Rightarrow>
          (case event_log w of
             None \<Rightarrow> (Inr [], w)
           | Some None \<Rightarrow> (Inl (ErrWrap ''parse backup event log'' (ErrText ''invalid JSON'')), w)
           | Some (Some es) \<Rightarrow> (Inr (take maxBackupEvents (stable_sort event_newer es)), w)))"

text \<open>\<open>os.WriteFile\<close> truncates the file before it writes: a failing write leaves a document that does not
  parse.\<close>

definition write_document ::
  "('a option option \<Rightarrow> 'w bk_world_scheme \<Rightarrow> 'w bk_world_scheme) \<Rightarrow> 'a \<Rightarrow> 'w bk_world_scheme \<Rightarrow> unit result \<times> 'w bk_world_scheme" where
  "write_document put doc w =
     (case sys_call w of
        (Inl e, w) \<Rightarrow> (Inl e, w)
      | (Inr _, w) \<Rightarrow>
          (case sys_call w of
             (Inl e, w) \<Rightarrow> (Inl e, put (Some None) w)
           | (Inr _, w) \<Rightarrow> (Inr (), put (Some (Some doc)) w)))"

definition saveLocked :: "BackupEvent list \<Rightarrow> 'w bk_world_scheme \<Rightarrow> unit result \<times> 'w bk_world_scheme" where
  "saveLocked es =
     and_then (wrapped ''create data dir for backup event log'' sys_call) (\<lambda>_.
     wrapped ''write backup event log'' (write_document (\<lambda>d w. w\<lparr>event_log := d\<rparr>) es))"

definition complete_event :: "backup_env \<Rightarrow> nat \<Rightarrow> BackupEvent \<Rightarrow> BackupEvent" where
  "complete_event B n ev =
     ev\<lparr>be_ID := firstNonEmpty [be_ID ev, bv_uuid B n], be_OccurredAt := firstNonEmpty [be_OccurredAt ev, bv_now B n],
        be_Status := (if be_Status ev = '''' then ''info'' else be_Status ev)\<rparr>"

definition Append :: "backup_env \<Rightarrow> BackupEvent \<Rightarrow> 'w bk_world_scheme \<Rightarrow> unit result \<times> 'w bk_world_scheme" where
  "Append B ev =
     and_then loadLocked (\<lambda>es w. saveLocked (take maxBackupEvents (complete_event B (calls w) ev # es)) w)"

definition recordEvent :: "backup_env \<Rightarrow> BackupEvent \<Rightarrow> 'w bk_world_scheme \<Rightarrow> 'w bk_world_scheme" where
  "recordEvent B ev w = snd (Append B ev w)"

section \<open>Configuration\<close>

definition GetConfig :: "'w bk_world_scheme \<Rightarrow> BackupConfig result \<times> 'w bk_world_scheme" where
  "GetConfig w =
     (case sys_call w of
        (Inl e, w) \<Rightarrow> (Inl (ErrWrap ''failed to read backup config'' e), w)
      | (Inr _, w) \<Rightarrow>
          (case config_doc w of
             None \<Rightarrow> (Inr defaultBackupConfig, w)
           | Some None \<Rightarrow> (Inl (ErrWrap ''failed to parse backup config'' (ErrText ''invalid JSON'')), w)
           | Some (Some raw) \<Rightarrow> (Inr (decode_config raw), w)))"

section \<open>Creating\<close>

definition filesForBackup :: "backup_env \<Rightarrow> BackupConfig \<Rightarrow> (string \<times> string) list" where
  "filesForBackup B cfg =
     map (\<lambda>n. (JoinPath [bv_dataDir B, n], n))
       ([''flows.json'', ''cc-users.json''] @
        (if bk_IncludeConfig cfg then [''config.json''] else []) @
        (if bk_IncludeSettings cfg then [''settings.js''] else []) @
        (if bk_IncludeFlowsCred cfg then [''flows_cred.json''] else []) @
        (if bk_IncludePackageJSON cfg then [''package.json''] else []))"

definition metadata_entry :: "backup_env \<Rightarrow> backupMetadata \<Rightarrow> zentry" where
  "metadata_entry B m =
     \<lparr>ze_Name = metadataName, ze_IsDir = False, ze_Unsafe = False, ze_Size = bv_json_size B m, ze_Body = Some (Document m)\<rparr>"

text \<open>Creating the entry and writing it.\<close>

definition addMetadataToZip :: "backup_env \<Rightarrow> backupMetadata \<Rightarrow> 'w bk_world_scheme \<Rightarrow> zentry result \<times> 'w bk_world_scheme" where
  "addMetadataToZip B m =
     and_then (wrapped ''failed to create backup metadata'' sys_call) (\<lambda>_.
     and_then (wrapped ''failed to write backup metadata'' sys_call) (\<lambda>_ w. (Inr (metadata_entry B m), w)))"

definition addFileToZip ::
  "backup_env \<Rightarrow> string \<Rightarrow> string \<Rightarrow> 'w bk_world_scheme \<Rightarrow> (zentry \<times> BackupFileEntry) option result \<times> 'w bk_world_scheme" where
  "addFileToZip B src dst w =
     (case ReadFile src w of
        (Inl e, w) \<Rightarrow> (if errors_is e ErrNotExist then (Inr None, w) else (Inl (ErrWrap (''failed to open '' @ src) e), w))
      | (Inr data, w) \<Rightarrow>
          and_then (wrapped (''failed to stat '' @ src) sys_call) (\<lambda>_.
          and_then (wrapped (''failed to add '' @ src @ '' to zip'') sys_call) (\<lambda>_.
          and_then (wrapped (''failed to write '' @ src @ '' to zip'') sys_call) (\<lambda>_ w.
            (Inr (Some (\<lparr>ze_Name = dst, ze_IsDir = False, ze_Unsafe = False, ze_Size = length data, ze_Body = Some (Bytes data)\<rparr>,
                        \<lparr>fe_Path = dst, fe_Size = int (length data), fe_Checksum = bv_sha256 B data\<rparr>)), w)))) w)"

fun add_files ::
  "backup_env \<Rightarrow> (string \<times> string) list \<Rightarrow> 'w bk_world_scheme \<Rightarrow> (zentry \<times> BackupFileEntry) list result \<times> 'w bk_world_scheme" where
  "add_files B [] w = (Inr [], w)"
| "add_files B ((src, dst) # fs) w =
     and_then (addFileToZip B src dst) (\<lambda>x.
     and_then (add_files B fs) (\<lambda>xs w. (Inr (case x of None \<Rightarrow> xs | Some p \<Rightarrow> p # xs), w))) w"

text \<open>The copy of one entry into the rewritten archive: the new header has a name and a method only.\<close>

definition rewrite_entry :: "backup_env \<Rightarrow> backupMetadata \<Rightarrow> zentry \<Rightarrow> 'w bk_world_scheme \<Rightarrow> zentry result \<times> 'w bk_world_scheme" where
  "rewrite_entry B m f =
     and_then sys_call (\<lambda>_.
       if ze_Name f = metadataName then and_then sys_call (\<lambda>_ w. (Inr (metadata_entry B m), w))
       else and_then (read_entry f) (\<lambda>b.
            and_then sys_call (\<lambda>_ w.
              (Inr \<lparr>ze_Name = ze_Name f, ze_IsDir = HasSuffix (ze_Name f) ''/'', ze_Unsafe = False,
                    ze_Size = (case b of Bytes s \<Rightarrow> length s | Document d \<Rightarrow> bv_json_size B d), ze_Body = Some b\<rparr>, w))))"

fun rewrite_entries :: "backup_env \<Rightarrow> backupMetadata \<Rightarrow> zentry list \<Rightarrow> 'w bk_world_scheme \<Rightarrow> zentry list result \<times> 'w bk_world_scheme" where
  "rewrite_entries B m [] w = (Inr [], w)"
| "rewrite_entries B m (f # fs) w =
     and_then (rewrite_entry B m f) (\<lambda>g. and_then (rewrite_entries B m fs) (\<lambda>gs w. (Inr (g # gs), w))) w"

definition patchManifestChecksums :: "backup_env \<Rightarrow> string \<Rightarrow> backupMetadata \<Rightarrow> 'w bk_world_scheme \<Rightarrow> unit result \<times> 'w bk_world_scheme" where
  "patchManifestChecksums B zipPath m =
     and_then (arch_Stat zipPath) (\<lambda>_.
     and_then (arch_Stat zipPath) (\<lambda>a.
       case za_Entries a of
         None \<Rightarrow> (\<lambda>w. (Inl (ErrText ''zip: not a valid zip file''), w))
       | Some fs \<Rightarrow>
           and_then (arch_CreateTemp B (zipPath @ ''.rewriting-'')) (\<lambda>tmpOut w.
             let (r, w) = and_then (rewrite_entries B m fs) (\<lambda>gs.
                          and_then (finish_zip B tmpOut gs) (\<lambda>_.
                          and_then sys_call (\<lambda>_. arch_Rename tmpOut zipPath))) w
             in (r, snd (arch_Remove tmpOut w)))))"

text \<open>The name of a backup the caller did not name.\<close>

definition default_name :: "string \<Rightarrow> string \<Rightarrow> string" where
  "default_name t createdAt =
     (let suffix = TrimSuffix (map (\<lambda>c. if c = CHR ''T'' then CHR ''_'' else if c = CHR '':'' then CHR ''-'' else c) createdAt) ''Z''
      in (if t = backupTypeManual then ''manual-'' else t @ ''-'') @ suffix)"

definition write_archive ::
  "backup_env \<Rightarrow> BackupConfig \<Rightarrow> backupMetadata \<Rightarrow> string \<Rightarrow> 'w bk_world_scheme \<Rightarrow> backupMetadata result \<times> 'w bk_world_scheme" where
  "write_archive B cfg m tmpPath =
     and_then (addMetadataToZip B m) (\<lambda>e.
     and_then (add_files B (filesForBackup B cfg)) (\<lambda>xs.
     and_then (wrapped ''failed to finalize backup'' (finish_zip B tmpPath (e # map fst xs))) (\<lambda>_.
     and_then (wrapped ''failed to flush backup'' sys_call) (\<lambda>_.
     and_then (wrapped ''failed to close backup file'' sys_call) (\<lambda>_ w. (Inr (m\<lparr>md_Files := map snd xs\<rparr>), w))))))"

definition publish_archive ::
  "backup_env \<Rightarrow> backupMetadata \<Rightarrow> string \<Rightarrow> string \<Rightarrow> 'w bk_world_scheme \<Rightarrow> unit result \<times> 'w bk_world_scheme" where
  "publish_archive B m tmpPath backupPath =
     and_then (wrapped ''failed to write manifest checksums'' (patchManifestChecksums B tmpPath m)) (\<lambda>_.
     wrapped ''failed to publish backup'' (arch_Rename tmpPath backupPath))"

section \<open>Retention\<close>

definition prune_less :: "'w bk_world_scheme \<Rightarrow> Backup \<Rightarrow> Backup \<Rightarrow> bool" where
  "prune_less w a b =
     (if b_CreatedAt a = b_CreatedAt b then
        (case (map_of (archives w) (b_Path a), map_of (archives w) (b_Path b)) of
           (Some x, Some y) \<Rightarrow>
             if za_ModTime x \<noteq> za_ModTime y then za_ModTime y < za_ModTime x else str_less (b_ID b) (b_ID a)
         | _ \<Rightarrow> str_less (b_ID b) (b_ID a))
      else str_less (b_CreatedAt b) (b_CreatedAt a))"

fun remove_backups :: "string \<Rightarrow> Backup list \<Rightarrow> 'w bk_world_scheme \<Rightarrow> (string list \<times> go_error option) \<times> 'w bk_world_scheme" where
  "remove_backups keepID [] w = (([], None), w)"
| "remove_backups keepID (b # bs) w =
     (if b_ID b = keepID then remove_backups keepID bs w
      else case arch_Remove (b_Path b) w of
          (r, w) \<Rightarrow>
            (case r of
               Inl e \<Rightarrow> if errors_is e ErrNotExist
                         then (let ((ids, x), w) = remove_backups keepID bs w in ((b_ID b # ids, x), w))
                         else (([], Some (ErrWrap (''prune backup '' @ b_ID b) e)), w)
             | Inr _ \<Rightarrow> (let ((ids, x), w) = remove_backups keepID bs w in ((b_ID b # ids, x), w))))"

definition pruneBackups ::
  "backup_env \<Rightarrow> BackupConfig \<Rightarrow> string \<Rightarrow> string \<Rightarrow> 'w bk_world_scheme \<Rightarrow> (string list \<times> go_error option) \<times> 'w bk_world_scheme" where
  "pruneBackups B cfg t keepID w =
     (let limit = retentionForType cfg t in
      if limit \<le> 0 then (([], None), w)
      else case bk_List B w of
          (Inl e, w) \<Rightarrow> (([], Some (ErrWrap ''prune backups'' e)), w)
        | (Inr all, w) \<Rightarrow>
            (let matching = filter (\<lambda>b. b_Type b = t) all in
             if length matching \<le> nat limit then (([], None), w)
             else remove_backups keepID (drop (nat limit) (bv_sort B (prune_less w) matching)) w))"

definition recordBackupCreated :: "backup_env \<Rightarrow> Backup \<Rightarrow> string list \<Rightarrow> 'w bk_world_scheme \<Rightarrow> 'w bk_world_scheme" where
  "recordBackupCreated B b pruned w =
     (let (ty, trigger, msg) =
        (if b_Type b = backupTypeAuto then (''auto-create'', ''scheduler'', ''Automatic backup created'')
         else if b_Type b = backupTypePreRestore then (''pre-restore-create'', ''pre-restore'', ''Pre-restore safety backup created'')
         else (''manual-create'', ''manual'', ''Manual backup created''));
        w = recordEvent B (empty_event\<lparr>be_EventType := ty, be_Status := ''success'', be_OccurredAt := b_CreatedAt b,
              be_BackupID := b_ID b, be_BackupName := b_Name b, be_BackupType := b_Type b, be_Message := msg, be_Trigger := trigger\<rparr>) w
      in if pruned = [] then w
         else recordEvent B (empty_event\<lparr>be_EventType := ''prune'', be_Status := ''success'', be_BackupType := b_Type b,
                be_Message := ''Retention policy pruned older backups'', be_Trigger := ''retention'', be_PrunedIDs := pruned\<rparr>) w)"

text \<open>A failing prune makes the call fail although the backup was published; every caller drops the
  backup then.\<close>

definition create_archive ::
  "backup_env \<Rightarrow> BackupConfig \<Rightarrow> backupMetadata \<Rightarrow> 'w bk_world_scheme \<Rightarrow> Backup result \<times> 'w bk_world_scheme" where
  "create_archive B cfg manifest =
     (let backupPath = backup_path B (md_ID manifest); tmpPath = backupPath @ ''.tmp'' in
      and_then (wrapped ''failed to create backup file'' (arch_Create B tmpPath)) (\<lambda>_.
      and_then (on_error (and_then (write_archive B cfg manifest tmpPath) (\<lambda>m.
                          and_then (publish_archive B m tmpPath backupPath) (\<lambda>_ w. (Inr m, w))))
                  (\<lambda>w. snd (arch_Remove tmpPath w))) (\<lambda>m.
      and_then (wrapped ''failed to stat backup'' (arch_Stat backupPath)) (\<lambda>info w.
        let b = \<lparr>b_ID = md_ID m, b_Name = md_Name m, b_Type = md_Type m, b_CreatedAt = md_CreatedAt m, b_TriggeredBy = md_TriggeredBy m,
                 b_FileCount = Suc (length (md_Files m)), b_SizeBytes = za_Size info, b_Path = backupPath\<rparr>;
            ((pruned, pruneErr), w) = pruneBackups B cfg (md_Type m) (md_ID m) w;
            w = recordBackupCreated B b pruned w;
            w = w\<lparr>uploads := uploads w @ [b]\<rparr>
        in (case pruneErr of None \<Rightarrow> Inr b | Some e \<Rightarrow> Inl e, w)))))"

definition createBackup :: "backup_env \<Rightarrow> string \<Rightarrow> string \<Rightarrow> 'w bk_world_scheme \<Rightarrow> Backup result \<times> 'w bk_world_scheme" where
  "createBackup B optType optName =
     and_then (wrapped ''failed to create backups directory'' sys_call) (\<lambda>_ w.
       let (c, w) = GetConfig w;
           cfg = (case c of Inl _ \<Rightarrow> defaultBackupConfig | Inr x \<Rightarrow> x);
           t = (if optType = '''' then backupTypeManual else optType);
           createdAt = bv_nano B (calls w);
           name = (if TrimSpace optName = '''' then default_name t createdAt else TrimSpace optName)
       in create_archive B cfg
            \<lparr>md_ID = bv_uuid B (calls w), md_Name = name, md_Type = t, md_CreatedAt = createdAt, md_TriggeredBy = name,
             md_Algorithm = defaultChecksumAlgo, md_Version = currentManifestVersion, md_Files = []\<rparr> w)"

definition Create :: "backup_env \<Rightarrow> string \<Rightarrow> 'w bk_world_scheme \<Rightarrow> Backup result \<times> 'w bk_world_scheme" where
  "Create B name = createBackup B backupTypeManual name"

definition CreateTyped :: "backup_env \<Rightarrow> string \<Rightarrow> string \<Rightarrow> 'w bk_world_scheme \<Rightarrow> Backup result \<times> 'w bk_world_scheme" where
  "CreateTyped B t name = createBackup B (normalizeBackupType t) name"

definition pushToProviderIfConfigured :: "backup_env \<Rightarrow> Backup \<Rightarrow> 'w bk_world_scheme \<Rightarrow> 'w bk_world_scheme" where
  "pushToProviderIfConfigured B b w =
     (case bv_provider B of
        None \<Rightarrow> w
      | Some snapshot \<Rightarrow>
          let ev = empty_event\<lparr>be_EventType := ''provider-push'', be_BackupID := b_ID b, be_BackupName := b_Name b,
                be_BackupType := b_Type b, be_Trigger := ''provider-push''\<rparr>
          in case snapshot (b_Path b) of
               Inl e \<Rightarrow> recordEvent B (ev\<lparr>be_Status := ''error'', be_Error := Some e\<rparr>) w
             | Inr _ \<Rightarrow> recordEvent B (ev\<lparr>be_Status := ''success''\<rparr>) w)"

section \<open>Restoring\<close>

fun verify_entries ::
  "backup_env \<Rightarrow> backupMetadata \<Rightarrow> zentry list \<Rightarrow> string list \<Rightarrow> 'w bk_world_scheme \<Rightarrow> string list result \<times> 'w bk_world_scheme" where
  "verify_entries B m [] seen w = (Inr seen, w)"
| "verify_entries B m (f # fs) seen w =
     (if ze_IsDir f \<or> ze_Name f = metadataName then verify_entries B m fs seen w
      else case find (\<lambda>x. fe_Path x = ze_Name f) (rev (md_Files m)) of
          None \<Rightarrow> (Inl (ErrText (''unexpected entry '' @ ze_Name f @ '' not in manifest'')), w)
        | Some x \<Rightarrow>
            if ze_Size f \<noteq> 0 \<and> fe_Size x \<noteq> 0 \<and> declared_size f \<noteq> fe_Size x
            then (Inl (ErrText (''size mismatch for '' @ ze_Name f)), w)
            else (case checksumZipFile B f w of
                (Inl e, w) \<Rightarrow> (Inl (ErrWrap (''checksum '' @ ze_Name f) e), w)
              | (Inr got, w) \<Rightarrow>
                  if got \<noteq> fe_Checksum x then (Inl (ErrText (''checksum mismatch for '' @ ze_Name f)), w)
                  else verify_entries B m fs (ze_Name f # seen) w))"

definition verifyArchiveManifest :: "backup_env \<Rightarrow> zentry list \<Rightarrow> 'w bk_world_scheme \<Rightarrow> backupMetadata result \<times> 'w bk_world_scheme" where
  "verifyArchiveManifest B fs w =
     (case find (\<lambda>f. ze_Name f = metadataName) fs of
        None \<Rightarrow> (Inl (ErrText ''missing backup-metadata.json''), w)
      | Some f \<Rightarrow>
          and_then (wrapped ''decode manifest'' (decode_manifest f)) (\<lambda>m w.
            if md_Version m \<noteq> currentManifestVersion then (Inl (ErrText ''unsupported manifest version''), w)
            else if md_Algorithm m \<noteq> defaultChecksumAlgo then (Inl (ErrText ''unsupported checksum algorithm''), w)
            else and_then (verify_entries B m fs []) (\<lambda>seen w.
                case find (\<lambda>x. fe_Path x \<notin> set seen) (md_Files m) of
                  Some x \<Rightarrow> (Inl (ErrText (''manifest entry '' @ fe_Path x @ '' missing from archive'')), w)
                | None \<Rightarrow> (Inr m, w)) w) w)"

fun mkdir_temp :: "nat \<Rightarrow> string \<Rightarrow> 'w bk_world_scheme \<Rightarrow> string result \<times> 'w bk_world_scheme" where
  "mkdir_temp 0 prefix w = (Inl (Sentinel ErrExist), w)"
| "mkdir_temp (Suc n) prefix w =
     (let name = prefix @ nat_text (entropy w (calls w) 0) in
      case sys_call w of
        (Inl e, w) \<Rightarrow> (Inl e, w)
      | (Inr _, w) \<Rightarrow> if name \<in> set (staging w) then mkdir_temp n prefix w
                       else (Inr name, w\<lparr>staging := name # staging w\<rparr>))"

definition MkdirTemp :: "string \<Rightarrow> 'w bk_world_scheme \<Rightarrow> string result \<times> 'w bk_world_scheme" where
  [simp]: "MkdirTemp = mkdir_temp 10000"

lemma MkdirTemp_code [code]:
  "MkdirTemp prefix w =
     (let name = prefix @ nat_text (entropy w (calls w) 0) in
      case sys_call w of
        (Inl e, w) \<Rightarrow> (Inl e, w)
      | (Inr _, w) \<Rightarrow> if name \<in> set (staging w) then mkdir_temp 9999 prefix w
                       else (Inr name, w\<lparr>staging := name # staging w\<rparr>))"
  using mkdir_temp.simps(2) [of 9999] by (simp del: mkdir_temp.simps)

text \<open>The limit of an extracted entry, and a reader cut off one byte after it.\<close>

definition over_limit :: "nat \<Rightarrow> bool" where
  [simp]: "over_limit n \<longleftrightarrow> n > maxBackupEntrySize"

lemma over_limit_code [code]: "over_limit n \<longleftrightarrow> int n > 200 * 1024 * 1024"
  by (simp add: maxBackupEntrySize_def)

definition LimitReader :: "string \<Rightarrow> string" where
  [simp]: "LimitReader data = take (Suc maxBackupEntrySize) data"

lemma LimitReader_code [code]: "LimitReader data = (if over_limit (length data) then take (Suc maxBackupEntrySize) data else data)"
  by simp

definition staging_prefix :: "backup_env \<Rightarrow> string" where
  "staging_prefix B = JoinPath [bv_dataDir B, ''restore-staging-'']"

definition RemoveAll :: "string \<Rightarrow> 'w bk_world_scheme \<Rightarrow> 'w bk_world_scheme" where
  "RemoveAll dir w =
     (case sys_call w of
        (Inl _, w) \<Rightarrow> w
      | (Inr _, w) \<Rightarrow> w\<lparr>files := (\<lambda>p. if HasPrefix p (dir @ ''/'') then None else files w p),
                        staging := filter (\<lambda>d. d \<noteq> dir) (staging w)\<rparr>)"

definition CreateFile :: "string \<Rightarrow> 'w bk_world_scheme \<Rightarrow> unit result \<times> 'w bk_world_scheme" where
  "CreateFile path w =
     (case sys_call w of (Inl e, w) \<Rightarrow> (Inl e, w) | (Inr _, w) \<Rightarrow> (Inr (), w\<lparr>files := (files w)(path \<mapsto> [])\<rparr>))"

definition too_big :: "zentry \<Rightarrow> go_error" where
  "too_big f = ErrText (''archive entry '' @ ze_Name f @ '' exceeds maximum allowed size'')"

definition extractFileFromZip :: "backup_env \<Rightarrow> zentry \<Rightarrow> string \<Rightarrow> 'w bk_world_scheme \<Rightarrow> unit result \<times> 'w bk_world_scheme" where
  "extractFileFromZip B f destDir w =
     (if ze_IsDir f \<or> ze_Name f = metadataName then (Inr (), w)
      else if ze_Unsafe f then (Inl (ErrText (''unsafe archive entry type: '' @ ze_Name f)), w)
      else if over_limit (ze_Size f) then (Inl (too_big f), w)
      else case sanitizeArchivePath (bv_cwd B) destDir (ze_Name f) of
          Inl e \<Rightarrow> (Inl e, w)
        | Inr destPath \<Rightarrow>
            and_then sys_call (\<lambda>_.
            and_then (read_entry f) (\<lambda>b.
            and_then (CreateFile destPath) (\<lambda>_.
              case b of
                Document _ \<Rightarrow> (\<lambda>w. (Inl (ErrText ''not a payload''), w))
              | Bytes data \<Rightarrow>
                  and_then (WriteTo destPath (LimitReader data)) (\<lambda>_ w.
                    if over_limit (length data) then (Inl (too_big f), snd (Remove destPath w)) else (Inr (), w))))) w)"

fun stage_entries :: "backup_env \<Rightarrow> backupMetadata \<Rightarrow> string \<Rightarrow> zentry list \<Rightarrow> 'w bk_world_scheme \<Rightarrow> unit result \<times> 'w bk_world_scheme" where
  "stage_entries B m dir [] w = (Inr (), w)"
| "stage_entries B m dir (f # fs) w =
     (if ze_IsDir f \<or> ze_Name f = metadataName \<or> ze_Name f \<notin> fe_Path ` set (md_Files m) then stage_entries B m dir fs w
      else and_then (wrapped (''extract '' @ ze_Name f) (extractFileFromZip B f dir)) (\<lambda>_. stage_entries B m dir fs) w)"

definition stageRestore :: "backup_env \<Rightarrow> zentry list \<Rightarrow> backupMetadata \<Rightarrow> 'w bk_world_scheme \<Rightarrow> string result \<times> 'w bk_world_scheme" where
  "stageRestore B fs m =
     and_then (wrapped ''create staging dir'' (MkdirTemp (staging_prefix B))) (\<lambda>dir.
     and_then (on_error (stage_entries B m dir fs) (RemoveAll dir)) (\<lambda>_ w.
       if md_Files m = [] then (Inr '''', RemoveAll dir w) else (Inr dir, w)))"

fun swap_files :: "backup_env \<Rightarrow> string \<Rightarrow> BackupFileEntry list \<Rightarrow> 'w bk_world_scheme \<Rightarrow> unit result \<times> 'w bk_world_scheme" where
  "swap_files B dir [] w = (Inr (), w)"
| "swap_files B dir (x # xs) w =
     (let rel = fe_Path x in
      if rel = '''' \<or> CHR 0x00 \<in> set rel then (Inl (ErrText ''manifest entry has invalid path''), w)
      else
        let srcPath = JoinPath [dir, rel]; dstPath = JoinPath [bv_dataDir B, rel] in
        and_then (wrapped (''swap '' @ rel @ '': missing in staging'') (Stat srcPath)) (\<lambda>_.
        and_then (wrapped (''swap '' @ rel @ '': mkdir'') sys_call) (\<lambda>_.
        and_then (wrapped (''swap '' @ rel) (Rename srcPath dstPath)) (\<lambda>_. swap_files B dir xs))) w)"

definition swapStagingIntoDataDir :: "backup_env \<Rightarrow> string \<Rightarrow> backupMetadata \<Rightarrow> 'w bk_world_scheme \<Rightarrow> unit result \<times> 'w bk_world_scheme" where
  "swapStagingIntoDataDir B dir m w =
     (if dir = '''' then (Inr (), w)
      else and_then (swap_files B dir (md_Files m)) (\<lambda>_ w. (Inr (), RemoveAll dir w)) w)"

text \<open>The verification of the archive, with the sentinel the errors of it carry.\<close>

definition verified :: "backup_env \<Rightarrow> zentry list \<Rightarrow> 'w bk_world_scheme \<Rightarrow> backupMetadata result \<times> 'w bk_world_scheme" where
  "verified B fs w =
     (case verifyArchiveManifest B fs w of
        (Inl e, w) \<Rightarrow> (Inl (ErrJoin (Sentinel ErrBackupCorrupt) e), w)
      | (Inr m, w) \<Rightarrow> (Inr m, w))"

definition bk_Restore :: "backup_env \<Rightarrow> string \<Rightarrow> 'w bk_world_scheme \<Rightarrow> unit result \<times> 'w bk_world_scheme" where
  "bk_Restore B ident w =
     (case ValidateBackupID ident of
        Some e \<Rightarrow> (Inl e, w)
      | None \<Rightarrow>
          and_then (open_zip ''failed to parse backup'' (backup_path B ident)) (\<lambda>(_, fs).
          and_then (verified B fs) (\<lambda>m.
          and_then (stageRestore B fs m) (\<lambda>dir.
            on_error (swapStagingIntoDataDir B dir m) (RemoveAll dir)))) w)"

section \<open>Restoring with a safety backup\<close>

text \<open>The hooks are those of \<open>SetRestoreHooks\<close>; the deferred restart follows on every path after the
  quiescing.\<close>

definition restore_event :: "string \<Rightarrow> string \<Rightarrow> BackupEvent" where
  "restore_event status msg =
     empty_event\<lparr>be_EventType := ''restore'', be_Status := status, be_Message := msg, be_Trigger := ''restore''\<rparr>"

definition run_restart ::
  "backup_env \<Rightarrow> ('w bk_world_scheme \<Rightarrow> unit result \<times> 'w bk_world_scheme) option \<Rightarrow> 'w bk_world_scheme \<Rightarrow> 'w bk_world_scheme" where
  "run_restart B restart w =
     (case restart of
        None \<Rightarrow> w
      | Some f \<Rightarrow> (case f w of
            (Inl e, w) \<Rightarrow> recordEvent B ((restore_event ''error'' ''Failed to restart Node-RED after restore'')\<lparr>be_Error := Some e\<rparr>) w
          | (Inr _, w) \<Rightarrow> w))"

definition safe_restore :: "backup_env \<Rightarrow> string \<Rightarrow> Backup option \<Rightarrow> 'w bk_world_scheme \<Rightarrow> string result \<times> 'w bk_world_scheme" where
  "safe_restore B ident described =
     and_then (CreateTyped B backupTypePreRestore ''pre-restore'') (\<lambda>pre w.
       let about = (\<lambda>ev. ev\<lparr>be_BackupID := ident, be_BackupName := (case described of None \<Rightarrow> '''' | Some b \<Rightarrow> b_Name b),
             be_BackupType := (case described of None \<Rightarrow> '''' | Some b \<Rightarrow> b_Type b)\<rparr>)
       in case bk_Restore B ident w of
            (Inl e, w) \<Rightarrow> (Inl e, recordEvent B ((about (restore_event ''error'' ''Backup restore failed''))\<lparr>be_Error := Some e\<rparr>) w)
          | (Inr _, w) \<Rightarrow> (Inr (b_ID pre), recordEvent B (about (restore_event ''success'' ''Backup restored successfully'')) w))"

definition RestoreWithSafetyBackup ::
  "backup_env \<Rightarrow> ('w bk_world_scheme \<Rightarrow> unit result \<times> 'w bk_world_scheme) option \<Rightarrow>
   ('w bk_world_scheme \<Rightarrow> unit result \<times> 'w bk_world_scheme) option \<Rightarrow> string \<Rightarrow> 'w bk_world_scheme \<Rightarrow> string result \<times> 'w bk_world_scheme" where
  "RestoreWithSafetyBackup B quiesce restart ident w =
     (case ValidateBackupID ident of
        Some e \<Rightarrow> (Inl e, w)
      | None \<Rightarrow>
          and_then (wrapped ''backup not found'' (arch_Stat (backup_path B ident))) (\<lambda>_ w.
            let (d, w) = describeBackup B (backup_path B ident) w;
                (q, w) = (case quiesce of None \<Rightarrow> (Inr (), w) | Some f \<Rightarrow> f w)
            in case q of
                 Inl e \<Rightarrow> (Inl (ErrWrap ''quiesce before restore'' e),
                    recordEvent B ((restore_event ''error'' ''Failed to quiesce Node-RED before restore'')\<lparr>be_Error := Some e\<rparr>) w)
               | Inr _ \<Rightarrow>
                   (let (r, w) = safe_restore B ident (case d of Inl _ \<Rightarrow> None | Inr b \<Rightarrow> Some b) w
                    in (r, run_restart B restart w))) w)"

section \<open>Deleting\<close>

definition atomicRemove :: "string \<Rightarrow> 'w bk_world_scheme \<Rightarrow> unit result \<times> 'w bk_world_scheme" where
  "atomicRemove path w =
     (let tmp = path @ ''.deleted'' in
      case arch_Stat tmp w of
        (Inr _, w) \<Rightarrow> arch_Remove tmp w
      | (Inl _, w) \<Rightarrow>
          and_then (arch_Rename path tmp) (\<lambda>_ w.
            let w = (case sys_call w of (Inl _, w) \<Rightarrow> w | (Inr _, w) \<Rightarrow> snd (sys_call w))
            in wrapped ''unlink after rename'' (arch_Remove tmp) w) w)"

definition bk_Delete :: "backup_env \<Rightarrow> string \<Rightarrow> 'w bk_world_scheme \<Rightarrow> unit result \<times> 'w bk_world_scheme" where
  "bk_Delete B ident w =
     (case ValidateBackupID ident of
        Some e \<Rightarrow> (Inl e, w)
      | None \<Rightarrow>
          let path = backup_path B ident; (d, w) = describeBackup B path w
          in and_then (wrapped ''failed to delete backup'' (atomicRemove path)) (\<lambda>_ w.
               (Inr (), recordEvent B (empty_event\<lparr>be_EventType := ''delete'', be_Status := ''success'', be_BackupID := ident,
                  be_BackupName := (case d of Inl _ \<Rightarrow> '''' | Inr b \<Rightarrow> b_Name b),
                  be_BackupType := (case d of Inl _ \<Rightarrow> '''' | Inr b \<Rightarrow> b_Type b),
                  be_Message := ''Backup deleted'', be_Trigger := ''delete''\<rparr>) w)) w)"

section \<open>The scheduler\<close>

definition set_status :: "(BackupSchedulerStatus \<Rightarrow> BackupSchedulerStatus) \<Rightarrow> 'w bk_world_scheme \<Rightarrow> 'w bk_world_scheme" where
  "set_status f w = w\<lparr>scheduler := (scheduler w)\<lparr>sc_status := f (sc_status (scheduler w))\<rparr>\<rparr>"

definition nextRunAtLocked :: "backup_env \<Rightarrow> 'w bk_world_scheme \<Rightarrow> string" where
  "nextRunAtLocked B w = (case sc_entry (scheduler w) of None \<Rightarrow> '''' | Some spec \<Rightarrow> bv_next B spec (calls w))"

definition ApplyConfig :: "backup_env \<Rightarrow> BackupConfig \<Rightarrow> 'w bk_world_scheme \<Rightarrow> unit result \<times> 'w bk_world_scheme" where
  "ApplyConfig B cfg w =
     (let n = normalizeBackupConfig cfg;
          previous = sc_status (scheduler w);
          w = w\<lparr>scheduler := (scheduler w)\<lparr>sc_entry := None,
                sc_status := empty_status\<lparr>ss_Enabled := bk_Enabled n, ss_Schedule := bk_Schedule n, ss_CustomSchedule := bk_CustomSchedule n,
                  ss_LastRunAt := ss_LastRunAt previous, ss_LastSuccessAt := ss_LastSuccessAt previous,
                  ss_LastBackupID := ss_LastBackupID previous\<rparr>\<rparr>\<rparr>;
          ev = empty_event\<lparr>be_Schedule := bk_Schedule n, be_Trigger := ''config-apply''\<rparr>;
          bad = ev\<lparr>be_EventType := ''scheduler-error'', be_Status := ''error''\<rparr>
      in case scheduleSpec B n of
           Inl e \<Rightarrow>
             (Inl e, recordEvent B (bad\<lparr>be_Message := ''Backup scheduler configuration is invalid'', be_Error := Some e\<rparr>)
                       (set_status (\<lambda>s. s\<lparr>ss_LastError := Some e\<rparr>) w))
         | Inr spec \<Rightarrow>
             if spec = '''' then (Inr (), w)
             else case bv_cron B spec of
                 Some e \<Rightarrow>
                   (let wr = ErrWrap ''failed to schedule automatic backup'' e
                    in (Inl wr, recordEvent B (bad\<lparr>be_Message := ''Automatic backup scheduling failed'', be_ActiveSpec := spec, be_Error := Some wr\<rparr>)
                                  (set_status (\<lambda>s. s\<lparr>ss_LastError := Some wr\<rparr>) w)))
               | None \<Rightarrow>
                   (let w = w\<lparr>scheduler := (scheduler w)\<lparr>sc_entry := Some spec\<rparr>\<rparr>;
                        w = set_status (\<lambda>s. s\<lparr>ss_Scheduled := True, ss_ActiveSpec := spec, ss_NextRunAt := nextRunAtLocked B w\<rparr>) w
                    in (Inr (), recordEvent B (ev\<lparr>be_EventType := ''scheduler-config'', be_Status := ''success'',
                          be_Message := ''Backup scheduler armed'', be_ActiveSpec := spec\<rparr>) w)))"

definition SaveConfig :: "backup_env \<Rightarrow> BackupConfig \<Rightarrow> 'w bk_world_scheme \<Rightarrow> BackupConfig result \<times> 'w bk_world_scheme" where
  "SaveConfig B cfg w =
     (let n = normalizeBackupConfig cfg in
      case scheduleSpec B n of
        Inl e \<Rightarrow> (Inl e, w)
      | Inr _ \<Rightarrow>
          and_then (wrapped ''failed to create data directory'' sys_call) (\<lambda>_.
          and_then (wrapped ''failed to save backup config'' (write_document (\<lambda>d w. w\<lparr>config_doc := d\<rparr>) (encode_config n))) (\<lambda>_.
          and_then (ApplyConfig B n) (\<lambda>_ w.
            (Inr n, recordEvent B (empty_event\<lparr>be_EventType := ''scheduler-config'', be_Status := ''success'',
               be_Message := ''Backup scheduler configuration updated'', be_Schedule := bk_Schedule n,
               be_ActiveSpec := ss_ActiveSpec (sc_status (scheduler w)), be_Trigger := ''config-save''\<rparr>) w)))) w)"

definition sched_Start :: "backup_env \<Rightarrow> 'w bk_world_scheme \<Rightarrow> 'w bk_world_scheme" where
  "sched_Start B w =
     (if sc_started (scheduler w) then w
      else let w = w\<lparr>scheduler := (scheduler w)\<lparr>sc_started := True\<rparr>\<rparr> in
        case GetConfig w of
          (Inl e, w) \<Rightarrow>
            (let wr = ErrWrap ''failed to load backup config'' e
             in recordEvent B (empty_event\<lparr>be_EventType := ''scheduler-error'', be_Status := ''error'',
                  be_Message := ''Backup scheduler failed to load config'', be_Trigger := ''startup'', be_Error := Some e\<rparr>)
                  (set_status (\<lambda>s. s\<lparr>ss_LastError := Some wr\<rparr>) w))
        | (Inr cfg, w) \<Rightarrow>
            (case ApplyConfig B cfg w of
               (Inl e, w) \<Rightarrow> set_status (\<lambda>s. s\<lparr>ss_LastError := Some e\<rparr>) w
             | (Inr _, w) \<Rightarrow> w))"

definition runAutomaticBackup :: "backup_env \<Rightarrow> 'w bk_world_scheme \<Rightarrow> 'w bk_world_scheme" where
  "runAutomaticBackup B w =
     (let now = bv_now B (calls w);
          w = set_status (\<lambda>s. s\<lparr>ss_LastRunAt := now, ss_LastError := None\<rparr>) w;
          ev = empty_event\<lparr>be_EventType := ''scheduler-run'', be_OccurredAt := now, be_Trigger := ''scheduler''\<rparr>
      in case CreateTyped B backupTypeAuto '''' w of
           (Inl e, w) \<Rightarrow>
             (let w = set_status (\<lambda>s. s\<lparr>ss_LastError := Some (ErrWrap ''automatic backup failed'' e), ss_NextRunAt := nextRunAtLocked B w\<rparr>) w;
                  st = sc_status (scheduler w)
              in recordEvent B (ev\<lparr>be_Status := ''error'', be_Message := ''Automatic backup run failed'', be_Schedule := ss_Schedule st,
                   be_ActiveSpec := ss_ActiveSpec st, be_Error := Some e\<rparr>) w)
         | (Inr b, w) \<Rightarrow>
             (let w = set_status (\<lambda>s. s\<lparr>ss_LastSuccessAt := now, ss_LastBackupID := b_ID b, ss_NextRunAt := nextRunAtLocked B w\<rparr>) w;
                  st = sc_status (scheduler w)
              in recordEvent B (ev\<lparr>be_Status := ''success'', be_BackupID := b_ID b, be_BackupName := b_Name b, be_BackupType := b_Type b,
                   be_Message := ''Automatic backup run completed'', be_Schedule := ss_Schedule st, be_ActiveSpec := ss_ActiveSpec st\<rparr>) w))"

record BackupObservability =
  bo_Scheduler :: BackupSchedulerStatus
  bo_Storage :: BackupStorageInfo
  bo_LatestBackup :: "Backup option"
  bo_RecentEvents :: "BackupEvent list"

definition Observability :: "backup_env \<Rightarrow> 'w bk_world_scheme \<Rightarrow> BackupObservability result \<times> 'w bk_world_scheme" where
  "Observability B =
     and_then (Storage B) (\<lambda>st.
     and_then (bk_List B) (\<lambda>bs.
     and_then loadLocked (\<lambda>es w.
       (Inr \<lparr>bo_Scheduler = sc_status (scheduler w), bo_Storage = st,
             bo_LatestBackup = (case bs of [] \<Rightarrow> None | b # _ \<Rightarrow> Some b), bo_RecentEvents = es\<rparr>, w))))"

record SchedulerHistoryEntry =
  sh_Timestamp :: string
  sh_Status :: string
  sh_Error :: "go_error option"

definition history_page :: "64 word \<Rightarrow> 64 word \<Rightarrow> 'a list \<Rightarrow> 'a list" where
  "history_page page limit xs =
     (let total = word_of_nat (length xs);
          start = (page - 1) * limit;
          start = (if start <s 0 then 0 else start);
          start = (if total \<le>s start then total else start);
          stop = start + limit;
          stop = (if total <s stop then total else stop)
      in if start <s stop then take (unat stop - unat start) (drop (unat start) xs) else [])"

definition GetSchedulerHistory ::
  "backup_env \<Rightarrow> PaginationOpts \<Rightarrow> 'w bk_world_scheme \<Rightarrow> SchedulerHistoryEntry page result \<times> 'w bk_world_scheme" where
  "GetSchedulerHistory B opts =
     and_then loadLocked (\<lambda>es w.
       let runs = bv_sort_events B event_newer (filter (\<lambda>e. be_EventType e \<in> set [''scheduler-run'', ''scheduler-error'']) es)
       in (Inr \<lparr>pg_Items = map (\<lambda>e. \<lparr>sh_Timestamp = be_OccurredAt e, sh_Status = be_Status e, sh_Error = be_Error e\<rparr>)
                  (history_page (po_Page opts) (po_Limit opts) runs),
                pg_Total = length runs, pg_Page = po_Page opts, pg_Limit = po_Limit opts\<rparr>, w))"


definition RecordSchedulerEvent :: "backup_env \<Rightarrow> SchedulerHistoryEntry \<Rightarrow> 'w bk_world_scheme \<Rightarrow> 'w bk_world_scheme" where
  "RecordSchedulerEvent B e w =
     recordEvent B (empty_event\<lparr>be_ID := bv_uuid B (calls w), be_EventType := ''scheduler-run'', be_Status := sh_Status e,
       be_OccurredAt := sh_Timestamp e, be_Error := sh_Error e\<rparr>) w"

definition SchedulerStatus :: "'w bk_world_scheme \<Rightarrow> BackupSchedulerStatus" where
  "SchedulerStatus w = sc_status (scheduler w)"

end
