(* ===== verification/PathFacts.thy ===== *)
theory PathFacts
  imports NodeRedEnv
begin

text \<open>
  Clean absolute paths as lists of components, and how \<open>filepath.Join\<close>, \<open>Clean\<close> and \<open>Abs\<close> act on them: what the
  containment checks of the restore rest on.
\<close>

definition comp_ok :: "string \<Rightarrow> bool" where
  "comp_ok c \<longleftrightarrow> c \<noteq> '''' \<and> c \<noteq> ''.'' \<and> c \<noteq> ''..'' \<and> SLASH \<notin> set c"

definition abs_path :: "string list \<Rightarrow> string" where
  "abs_path cs = SLASH # Join cs ''/''"

definition clean_dir :: "string \<Rightarrow> bool" where
  "clean_dir d \<longleftrightarrow> IsAbs d \<and> Clean d = d \<and> d \<noteq> ''/''"

lemma clean_comps_append: "clean_comps r out (cs @ ds) = clean_comps r (clean_comps r out cs) ds"
  by (induction r out cs rule: clean_comps.induct) auto

lemma clean_comps_set: "set (clean_comps r out cs) \<subseteq> set out \<union> set cs"
proof (induction r out cs rule: clean_comps.induct)
  case (2 r out c cs)
  have "set (butlast out) \<subseteq> set out" by (auto dest: in_set_butlastD)
  then show ?case using 2 by (auto split: if_splits) (blast+)
qed simp

lemma clean_comps_ok: "list_all comp_ok cs \<Longrightarrow> clean_comps r out cs = out @ cs"
  by (induction cs arbitrary: out) (auto simp: comp_ok_def)

lemma clean_comps_rooted_ok:
  "list_all comp_ok out \<Longrightarrow> \<forall>c\<in>set cs. SLASH \<notin> set c \<Longrightarrow> list_all comp_ok (clean_comps True out cs)"
proof (induction "True" out cs rule: clean_comps.induct)
  case (2 out c cs)
  have "list_all comp_ok (butlast out)" using 2(6) by (auto simp: list_all_iff dest: in_set_butlastD)
  then show ?case using 2 by (auto simp: comp_ok_def)
qed simp

lemma Split_append: "Split (a @ SLASH # b) SLASH = Split a SLASH @ Split b SLASH"
proof (induction a)
  case (Cons x a)
  obtain l ls where "Split a SLASH = l # ls" by (cases "Split a SLASH") auto
  then show ?case using Cons by auto
qed simp

lemma Split_abs_path: "cs \<noteq> [] \<Longrightarrow> list_all comp_ok cs \<Longrightarrow> Split (abs_path cs) SLASH = '''' # cs"
  unfolding abs_path_def by (auto simp: list_all_iff comp_ok_def intro!: Split_Join)

lemma abs_path_inject: "xs \<noteq> [] \<Longrightarrow> ys \<noteq> [] \<Longrightarrow> list_all comp_ok xs \<Longrightarrow> list_all comp_ok ys \<Longrightarrow>
    abs_path xs = abs_path ys \<longleftrightarrow> xs = ys"
  using Split_abs_path by (metis list.inject)

lemma Join_append: "xs \<noteq> [] \<Longrightarrow> ys \<noteq> [] \<Longrightarrow> Join (xs @ ys) ''/'' = Join xs ''/'' @ SLASH # Join ys ''/''"
proof (induction xs)
  case (Cons x xs)
  then show ?case by (cases "xs = []") (auto simp: Join_Cons)
qed simp

lemma abs_path_append: "xs \<noteq> [] \<Longrightarrow> ys \<noteq> [] \<Longrightarrow> abs_path (xs @ ys) = abs_path xs @ SLASH # Join ys ''/''"
  by (simp add: abs_path_def Join_append)

text \<open>A path lies below another iff its list of components extends the other's.\<close>

lemma below_abs_path:
  assumes "xs \<noteq> []" "ys \<noteq> []" "list_all comp_ok xs" "list_all comp_ok ys"
  shows "HasPrefix (abs_path ys) (abs_path xs @ ''/'') \<longleftrightarrow> (\<exists>zs. zs \<noteq> [] \<and> ys = xs @ zs)"
proof
  assume "HasPrefix (abs_path ys) (abs_path xs @ ''/'')"
  then obtain r where r: "abs_path ys = abs_path xs @ SLASH # r" by (auto simp: HasPrefix_iff)
  have "'''' # ys = ('''' # xs) @ Split r SLASH"
    using arg_cong [OF r, of "\<lambda>s. Split s SLASH"] Split_append [of "abs_path xs" r] Split_abs_path assms by simp
  then show "\<exists>zs. zs \<noteq> [] \<and> ys = xs @ zs" using Split_nonempty by auto
next
  assume "\<exists>zs. zs \<noteq> [] \<and> ys = xs @ zs"
  then show "HasPrefix (abs_path ys) (abs_path xs @ ''/'')"
    using abs_path_append [OF assms(1)] by (auto simp: HasPrefix_iff)
qed

lemma Clean_rooted:
  assumes "HasPrefix p ''/''"
  shows "Clean p = abs_path (clean_comps True [] (Split p SLASH))"
  using assms by (simp add: Clean_def Let_def abs_path_def)

lemma Clean_abs_path: "list_all comp_ok cs \<Longrightarrow> Clean (abs_path cs) = abs_path cs"
proof (cases "cs = []")
  case False
  assume ok: "list_all comp_ok cs"
  have "HasPrefix (abs_path cs) ''/''" by (simp add: abs_path_def HasPrefix_def)
  then show ?thesis using Clean_rooted Split_abs_path [OF False ok] clean_comps_ok [OF ok] by simp
qed (simp add: abs_path_def Clean_def HasPrefix_def Let_def)

lemma clean_dir_comps:
  assumes "clean_dir d"
  obtains cs where "cs \<noteq> []" "list_all comp_ok cs" "d = abs_path cs"
proof -
  have p: "HasPrefix d ''/''" and c: "Clean d = d" "d \<noteq> ''/''" using assms by (auto simp: clean_dir_def IsAbs_def)
  let ?cs = "clean_comps True [] (Split d SLASH)"
  have d: "d = abs_path ?cs" using Clean_rooted [OF p] c by simp
  moreover have "list_all comp_ok ?cs" using clean_comps_rooted_ok [of "[]"] Split_no_sep by auto
  moreover have "?cs \<noteq> []" using d c(2) by (metis Join.simps(1) abs_path_def)
  ultimately show thesis using that by blast
qed

lemma clean_dir_abs_path: "cs \<noteq> [] \<Longrightarrow> list_all comp_ok cs \<Longrightarrow> clean_dir (abs_path cs)"
  by (cases cs; cases "tl cs") (auto simp: clean_dir_def IsAbs_def Clean_abs_path, auto simp: abs_path_def HasPrefix_def comp_ok_def)

lemma Abs_abs_path: "list_all comp_ok cs \<Longrightarrow> Abs cwd (abs_path cs) = abs_path cs"
  by (simp add: Abs_def Clean_abs_path) (simp add: IsAbs_def abs_path_def HasPrefix_def)

lemma JoinPath_abs_path:
  assumes "cs \<noteq> []" "list_all comp_ok cs" "n \<noteq> ''''"
  shows "JoinPath [abs_path cs, n] = abs_path (clean_comps True cs (Split n SLASH))"
proof -
  have ne: "abs_path cs \<noteq> ''''" by (simp add: abs_path_def)
  have "JoinPath [abs_path cs, n] = Clean (abs_path cs @ SLASH # n)" using ne assms(3) by (simp add: JoinPath_def)
  also have "\<dots> = abs_path (clean_comps True [] (('''' # cs) @ Split n SLASH))"
    using Clean_rooted [of "abs_path cs @ SLASH # n"] Split_append [of "abs_path cs" n] Split_abs_path [OF assms(1,2)]
    by (simp add: abs_path_def HasPrefix_def)
  also have "\<dots> = abs_path (clean_comps True cs (Split n SLASH))"
    using clean_comps_ok [OF assms(2), of True "[]"] by (simp add: clean_comps_append)
  finally show ?thesis .
qed

lemma JoinPath_name:
  assumes "cs \<noteq> []" "list_all comp_ok cs" "comp_ok n"
  shows "JoinPath [abs_path cs, n] = abs_path (cs @ [n])"
  using assms JoinPath_abs_path [OF assms(1,2), of n] by (simp add: comp_ok_def Split_no_occ)

lemma abs_path_name: "cs \<noteq> [] \<Longrightarrow> abs_path (cs @ [n]) = abs_path cs @ SLASH # n"
  by (simp add: abs_path_append)

text \<open>Cleaning a relative name first makes no difference below a root.\<close>

lemma clean_comps_twice:
  "\<forall>c\<in>set out. c \<noteq> '''' \<and> c \<noteq> ''.'' \<Longrightarrow> clean_comps True S (clean_comps False out cs) = clean_comps True S (out @ cs)"
proof (induction "False" out cs rule: clean_comps.induct)
  case (2 out c cs)
  consider (skip) "c = '''' \<or> c = ''.''" | (pop) "c = ''..''" "out \<noteq> []" "last out \<noteq> ''..''"
    | (keep) "c \<noteq> ''''" "c \<noteq> ''.''" "\<not> (c = ''..'' \<and> out \<noteq> [] \<and> last out \<noteq> ''..'')" by blast
  then show ?case
  proof cases
    case skip
    then show ?thesis using 2(1) 2(6) by (auto simp: clean_comps_append)
  next
    case pop
    then obtain o' x where o: "out = o' @ [x]" "x \<noteq> ''..''" by (metis append_butlast_last_id)
    then have "x \<noteq> ''''" "x \<noteq> ''.''" using 2(6) by auto
    then show ?thesis using pop 2(2) 2(6) o by (simp add: clean_comps_append)
  next
    case keep
    then show ?thesis using 2(4,5) 2(6) by (auto simp: clean_comps_append)
  qed
qed simp

lemma Clean_relative:
  assumes "\<not> IsAbs n"
  shows "clean_comps True S (Split (Clean n) SLASH) = clean_comps True S (Split n SLASH)"
proof -
  let ?k = "clean_comps False [] (Split n SLASH)"
  have sl: "\<forall>c\<in>set ?k. SLASH \<notin> set c"
    using clean_comps_set [of False "[]" "Split n SLASH"] Split_no_sep by auto
  have t: "clean_comps True S ?k = clean_comps True S (Split n SLASH)" using clean_comps_twice [of "[]"] by simp
  show ?thesis
  proof (cases "?k = []")
    case True
    then show ?thesis using assms t by (simp add: Clean_def IsAbs_def Let_def)
  next
    case False
    then have "Split (Join ?k ''/'') SLASH = ?k" using sl by (intro Split_Join) auto
    moreover have "Join ?k ''/'' \<noteq> '''' \<or> ?k = ['''']"
      using False by (cases ?k rule: list.exhaust; cases "tl ?k") auto
    ultimately show ?thesis using assms t by (auto simp: Clean_def IsAbs_def Let_def)
  qed
qed

end
