(* ===== verification/BackupArchive.thy ===== *)
theory BackupArchive
  imports BackupService PathFacts "HOL-Library.Multiset"
begin

text \<open>
  What a backup holds: reads leave the world alone, the archive that writing, patching
  and publishing a backup leaves, and that retention keeps the backup just made.
\<close>

section \<open>Sequencing\<close>

lemma and_then_Inr: "and_then m f w = (Inr y, w') \<longleftrightarrow> (\<exists>x v. m w = (Inr x, v) \<and> f x v = (Inr y, w'))"
  by (auto simp: and_then_def split: prod.splits sum.splits)

lemma and_then_Inl:
  "and_then m f w = (Inl e, w') \<longleftrightarrow> m w = (Inl e, w') \<or> (\<exists>x v. m w = (Inr x, v) \<and> f x v = (Inl e, w'))"
  by (auto simp: and_then_def split: prod.splits sum.splits)

lemma wrapped_Inr [simp]: "wrapped msg m w = (Inr y, w') \<longleftrightarrow> m w = (Inr y, w')"
  by (auto simp: wrapped_def split: prod.splits sum.splits)

lemma wrapped_Inl: "wrapped msg m w = (Inl e, w') \<longleftrightarrow> (\<exists>e'. e = ErrWrap msg e' \<and> m w = (Inl e', w'))"
  by (auto simp: wrapped_def split: prod.splits sum.splits)

lemma on_error_Inr [simp]: "on_error m c w = (Inr y, w') \<longleftrightarrow> m w = (Inr y, w')"
  by (auto simp: on_error_def split: prod.splits sum.splits)

lemma on_error_Inl: "on_error m c w = (Inl e, w') \<longleftrightarrow> (\<exists>v. m w = (Inl e, v) \<and> w' = c v)"
  by (auto simp: on_error_def split: prod.splits sum.splits)

definition calm :: "'w bk_world_scheme \<Rightarrow> bool" where
  "calm w \<longleftrightarrow> (\<forall>n. faults w n = None)"

lemma sys_call_calm [simp]: "calm w \<Longrightarrow> sys_call w = (Inr (), tick w)"
  by (simp add: calm_def sys_call_def)

text \<open>The part of the world a read leaves alone.\<close>

lemma bk_more_tick [simp]: "bk_world.more (tick w) = bk_world.more w"
  by (cases w) (simp add: tick_def)

definition same :: "'w bk_world_scheme \<Rightarrow> 'w bk_world_scheme \<Rightarrow> bool" where
  "same w w' \<longleftrightarrow> files w' = files w \<and> archives w' = archives w \<and> faults w' = faults w \<and> staging w' = staging w \<and>
     config_doc w' = config_doc w \<and> bk_world.more w' = bk_world.more w"

lemma same_refl [simp]: "same w w" by (simp add: same_def)

lemma same_trans: "same u v \<Longrightarrow> same v w \<Longrightarrow> same u w" by (simp add: same_def)

lemma same_tick [simp]: "same w (tick w)"
  by (simp add: same_def) (simp add: tick_def)

lemma same_calm: "same w w' \<Longrightarrow> calm w' = calm w" by (simp add: same_def calm_def)

named_theorems reads

lemma sys_call_same [reads]: "sys_call w = (r, w') \<Longrightarrow> same w w'"
  by (auto dest: sys_call_tick)

lemma arch_Stat_same [reads]: "arch_Stat p w = (r, w') \<Longrightarrow> same w w'"
  by (auto simp: arch_Stat_def split: prod.splits sum.splits option.splits dest!: reads)

lemma and_then_same:
  assumes "\<And>r v. m w = (r, v) \<Longrightarrow> same w v" "\<And>x v r u. f x v = (r, u) \<Longrightarrow> same v u" "and_then m f w = (r, w')"
  shows "same w w'"
  using assms by (auto simp: and_then_def split: prod.splits sum.splits intro: same_trans)

lemma wrapped_same: "(\<And>r v. m w = (r, v) \<Longrightarrow> same w v) \<Longrightarrow> wrapped msg m w = (r, w') \<Longrightarrow> same w w'"
  by (auto simp: wrapped_def split: prod.splits sum.splits)

lemma ReadFile_same [reads]: "ReadFile p w = (r, w') \<Longrightarrow> same w w'"
  by (auto simp: ReadFile_def split: prod.splits sum.splits option.splits dest!: reads)

lemma read_entry_same [reads]: "read_entry f w = (r, w') \<Longrightarrow> same w w'"
  by (auto simp: read_entry_def split: prod.splits sum.splits option.splits dest!: reads)

lemma decode_manifest_same [reads]: "decode_manifest f w = (r, w') \<Longrightarrow> same w w'"
  unfolding decode_manifest_def by (erule and_then_same [rotated 2]) (auto split: zbody.splits dest: reads)

lemma readBackupMetadata_same [reads]: "readBackupMetadata f w = (r, w') \<Longrightarrow> same w w'"
  unfolding readBackupMetadata_def by (erule and_then_same [rotated 2]) (auto dest: reads)

lemma checksumZipFile_same [reads]: "checksumZipFile B f w = (r, w') \<Longrightarrow> same w w'"
  unfolding checksumZipFile_def by (erule and_then_same [rotated 2]) (auto split: zbody.splits dest: reads)

lemma inspect_entries_same [reads]: "inspect_entries B fs mf w = (r, w') \<Longrightarrow> same w w'"
  by (induction fs arbitrary: mf w)
     (auto split: if_splits prod.splits sum.splits dest!: reads intro: same_trans)

lemma open_zip_same [reads]: "open_zip msg p w = (r, w') \<Longrightarrow> same w w'"
  unfolding open_zip_def
  by (erule and_then_same [rotated 2], erule wrapped_same [rotated], erule reads,
      erule and_then_same [rotated 2], erule wrapped_same [rotated], erule reads, auto split: option.splits)

lemma inspectBackup_same [reads]: "inspectBackup B p w = (r, w') \<Longrightarrow> same w w'"
  unfolding inspectBackup_def
  by (erule and_then_same [rotated 2], erule reads) (auto simp: Let_def split: prod.splits dest: reads)

lemma describeBackup_same [reads]: "describeBackup B p w = (r, w') \<Longrightarrow> same w w'"
  unfolding describeBackup_def by (erule and_then_same [rotated 2], erule reads) auto

lemma describe_all_same [reads]: "describe_all B ps w = (r, w') \<Longrightarrow> same w w'"
  by (induction ps arbitrary: w r)
     (auto split: if_splits prod.splits sum.splits dest!: reads intro: same_trans)

lemma arch_ReadDir_same [reads]: "arch_ReadDir w = (r, w') \<Longrightarrow> same w w'"
  by (auto simp: arch_ReadDir_def split: prod.splits sum.splits dest!: reads)

lemma bk_List_same [reads]: "bk_List B w = (r, w') \<Longrightarrow> same w w'"
  unfolding bk_List_def
  by (erule and_then_same [rotated 2], erule wrapped_same [rotated], erule reads,
      erule and_then_same [rotated 2], erule wrapped_same [rotated], erule reads) (auto split: prod.splits dest: reads)

lemma GetConfig_same [reads]: "GetConfig w = (r, w') \<Longrightarrow> same w w'"
  by (auto simp: GetConfig_def split: prod.splits sum.splits option.splits dest!: reads)

section \<open>The archive of a backup\<close>

definition file_entry :: "string \<times> string \<Rightarrow> zentry" where
  "file_entry p = \<lparr>ze_Name = fst p, ze_IsDir = False, ze_Unsafe = False, ze_Size = length (snd p), ze_Body = Some (Bytes (snd p))\<rparr>"

definition file_record :: "backup_env \<Rightarrow> string \<times> string \<Rightarrow> BackupFileEntry" where
  "file_record B p = \<lparr>fe_Path = fst p, fe_Size = int (length (snd p)), fe_Checksum = bv_sha256 B (snd p)\<rparr>"

lemma file_entry_simps [simp]:
  "ze_Name (file_entry p) = fst p" "\<not> ze_IsDir (file_entry p)" "\<not> ze_Unsafe (file_entry p)"
  "ze_Size (file_entry p) = length (snd p)" "ze_Body (file_entry p) = Some (Bytes (snd p))"
  by (simp_all add: file_entry_def)

lemma file_record_simps [simp]:
  "fe_Path (file_record B p) = fst p" "fe_Size (file_record B p) = int (length (snd p))"
  "fe_Checksum (file_record B p) = bv_sha256 B (snd p)"
  by (simp_all add: file_record_def)

text \<open>The files that exist, by their names in the archive.\<close>

fun payload :: "(string \<rightharpoonup> string) \<Rightarrow> (string \<times> string) list \<Rightarrow> (string \<times> string) list" where
  "payload m [] = []"
| "payload m ((src, dst) # fs) = (case m src of None \<Rightarrow> payload m fs | Some d \<Rightarrow> (dst, d) # payload m fs)"

lemma in_payload: "(n, d) \<in> set (payload m fs) \<longleftrightarrow> (\<exists>src. (src, n) \<in> set fs \<and> m src = Some d)"
  by (induction m fs rule: payload.induct) (auto split: option.splits)

lemma payload_names: "fst ` set (payload m fs) \<subseteq> snd ` set fs"
  by (induction m fs rule: payload.induct) (auto split: option.splits)

lemma payload_distinct: "distinct (map snd fs) \<Longrightarrow> distinct (map fst (payload m fs))"
proof (induction m fs rule: payload.induct)
  case (2 m src dst fs)
  have "dst \<notin> fst ` set (payload m fs)" using payload_names [of m fs] 2(3) by auto
  then show ?case using 2 by (auto split: option.splits)
qed simp

text \<open>All but the archives.\<close>

definition kept :: "'w bk_world_scheme \<Rightarrow> 'w bk_world_scheme \<Rightarrow> bool" where
  "kept w w' \<longleftrightarrow> files w' = files w \<and> faults w' = faults w \<and> staging w' = staging w \<and> config_doc w' = config_doc w"

lemma kept_refl [simp]: "kept w w" by (simp add: kept_def)
lemma kept_trans: "kept u v \<Longrightarrow> kept v w \<Longrightarrow> kept u w" by (simp add: kept_def)
lemma same_kept: "same w w' \<Longrightarrow> kept w w'" by (simp add: same_def kept_def)
lemma kept_put [simp]: "kept w (arch_put p a w)" "kept w (arch_del p w)"
  by (simp_all add: kept_def arch_put_def arch_del_def)

lemma map_of_filter_fst: "map_of (filter (\<lambda>x. fst x \<noteq> p) xs) q = (if q = p then None else map_of xs q)"
  by (induction xs) auto

lemma map_of_put [simp]: "map_of (archives (arch_put p a w)) q = (if q = p then Some a else map_of (archives w) q)"
  by (simp add: arch_put_def map_of_filter_fst)

lemma map_of_del [simp]: "map_of (archives (arch_del p w)) q = (if q = p then None else map_of (archives w) q)"
  by (simp add: arch_del_def map_of_filter_fst)

lemma archives_tick [simp]: "archives (tick w) = archives w" by (simp add: tick_def)

lemma arch_Stat_Inr: "arch_Stat p w = (Inr a, w') \<Longrightarrow> same w w' \<and> map_of (archives w) p = Some a"
  by (auto simp: arch_Stat_def split: prod.splits sum.splits option.splits dest!: sys_call_tick)

lemma arch_Create_Inr:
  "arch_Create B p w = (Inr x, w') \<Longrightarrow> kept w w' \<and> (\<forall>q. q \<noteq> p \<longrightarrow> map_of (archives w') q = map_of (archives w) q)"
  by (auto simp: arch_Create_def split: prod.splits sum.splits dest!: sys_call_same intro: kept_trans [OF same_kept]) (auto simp: same_def)

lemma finish_zip_Inr:
  "finish_zip B p es w = (Inr x, w') \<Longrightarrow> kept w w' \<and> (\<exists>a. map_of (archives w') p = Some a \<and> za_Entries a = Some es) \<and>
     (\<forall>q. q \<noteq> p \<longrightarrow> map_of (archives w') q = map_of (archives w) q)"
  by (auto simp: finish_zip_def split: prod.splits sum.splits dest!: sys_call_same intro: kept_trans [OF same_kept]) (auto simp: same_def)

lemma arch_Rename_Inr:
  "arch_Rename old new w = (Inr x, w') \<Longrightarrow> kept w w' \<and> map_of (archives w') new = map_of (archives w) old \<and>
     (\<forall>q. q \<noteq> old \<longrightarrow> q \<noteq> new \<longrightarrow> map_of (archives w') q = map_of (archives w) q)"
  by (auto simp: arch_Rename_def split: prod.splits sum.splits option.splits dest!: sys_call_same simp: same_def kept_def)
     (auto simp: arch_put_def arch_del_def)

lemma arch_Remove_any:
  "arch_Remove p w = (r, w') \<Longrightarrow> kept w w' \<and> (\<forall>q. q \<noteq> p \<longrightarrow> map_of (archives w') q = map_of (archives w) q)"
  by (auto simp: arch_Remove_def split: prod.splits sum.splits if_splits dest!: sys_call_same intro: kept_trans [OF same_kept]) (auto simp: same_def)

lemma temp_archive_Inr:
  "temp_archive n B prefix w = (Inr t, w') \<Longrightarrow> (\<exists>s. t = prefix @ s) \<and> kept w w' \<and> (\<forall>q. q \<noteq> t \<longrightarrow> map_of (archives w') q = map_of (archives w) q)"
proof (induction n B prefix w rule: temp_archive.induct)
  case (2 n B prefix w)
  then show ?case
    by (auto simp: Let_def split: if_splits prod.splits sum.splits dest!: arch_Create_Inr intro: kept_trans [OF same_kept [OF same_tick]])
qed simp

lemma addFileToZip_Inr:
  assumes "addFileToZip B src dst w = (Inr x, w')"
  shows "same w w' \<and> x = map_option (\<lambda>d. (file_entry (dst, d), file_record B (dst, d))) (files w src)"
proof (cases "ReadFile src w")
  case (Pair r v)
  note p = ReadFile_post [OF Pair] ReadFile_same [OF Pair]
  show ?thesis
  proof (cases r)
    case (Inl e)
    moreover have "e = Sentinel ErrNotExist" using assms Pair Inl
      by (auto simp: addFileToZip_def ReadFile_def sys_call_def split: if_splits option.splits)
    ultimately show ?thesis using assms Pair p by (auto simp: addFileToZip_def)
  next
    case (Inr data)
    then show ?thesis using assms Pair p
      by (auto simp: addFileToZip_def and_then_Inr file_entry_def file_record_def dest!: sys_call_same intro: same_trans)
  qed
qed

lemma add_files_Inr:
  "add_files B fs w = (Inr xs, w') \<Longrightarrow> same w w' \<and> xs = map (\<lambda>p. (file_entry p, file_record B p)) (payload (files w) fs)"
proof (induction B fs w arbitrary: xs rule: add_files.induct)
  case (2 B src dst fs w)
  then obtain x v ys where x: "addFileToZip B src dst w = (Inr x, v)" and ys: "add_files B fs v = (Inr ys, w')"
    "xs = (case x of None \<Rightarrow> ys | Some p \<Rightarrow> p # ys)"
    by (auto simp: and_then_Inr)
  note a = addFileToZip_Inr [OF x]
  have "same v w' \<and> ys = map (\<lambda>p. (file_entry p, file_record B p)) (payload (files v) fs)"
    using 2(1) ys(1) by blast
  then show ?case using a ys(2) by (auto simp: same_def split: option.splits)
qed simp

lemma read_entry_Inr: "read_entry f w = (Inr b, w') \<Longrightarrow> same w w' \<and> ze_Body f = Some b"
  by (auto simp: read_entry_def split: prod.splits sum.splits option.splits dest!: sys_call_same)

lemma rewrite_entries_Inr:
  assumes "rewrite_entries B m (map file_entry ps) w = (Inr gs, w')" "\<forall>p\<in>set ps. fst p \<noteq> metadataName \<and> \<not> HasSuffix (fst p) ''/''"
  shows "same w w' \<and> gs = map file_entry ps"
  using assms
proof (induction ps arbitrary: w gs)
  case (Cons p ps)
  then obtain g v gs' where g: "rewrite_entry B m (file_entry p) w = (Inr g, v)" "rewrite_entries B m (map file_entry ps) v = (Inr gs', w')"
    "gs = g # gs'" by (auto simp: and_then_Inr)
  have "same w v \<and> g = file_entry p" using g(1) Cons.prems(2)
    by (auto simp: rewrite_entry_def and_then_Inr file_entry_def dest!: sys_call_same read_entry_Inr intro: same_trans)
  then show ?case using Cons.IH [OF g(2)] Cons.prems(2) g(3) by (auto intro: same_trans)
qed simp

lemma patchManifestChecksums_Inr:
  assumes "patchManifestChecksums B z m w = (Inr x, w')" "map_of (archives w) z = Some a"
    "za_Entries a = Some (metadata_entry B m0 # map file_entry ps)" "\<forall>p\<in>set ps. fst p \<noteq> metadataName \<and> \<not> HasSuffix (fst p) ''/''"
  shows "kept w w' \<and> (\<exists>a. map_of (archives w') z = Some a \<and> za_Entries a = Some (metadata_entry B m # map file_entry ps))"
proof -
  let ?body = "\<lambda>t. and_then (rewrite_entries B m (metadata_entry B m0 # map file_entry ps)) (\<lambda>gs.
              and_then (finish_zip B t gs) (\<lambda>_. and_then sys_call (\<lambda>_. arch_Rename t z)))"
  obtain v1 v2 t v3 where 1: "same w v1" "same v1 v2"
    and t: "temp_archive 10000 B (z @ ''.rewriting-'') v2 = (Inr t, v3)"
    and b: "(case ?body t v3 of (r, w) \<Rightarrow> (r, snd (arch_Remove t w))) = (Inr x, w')"
    using assms(1,2,3) unfolding patchManifestChecksums_def
    by (auto simp: and_then_Inr [where m = "arch_Stat z"] and_then_Inr [where m = "temp_archive 10000 B (z @ ''.rewriting-'')"]
          Let_def same_def simp del: rewrite_entries.simps dest!: arch_Stat_Inr)
  obtain v4 where r: "?body t v3 = (Inr x, v4)" and w': "w' = snd (arch_Remove t v4)"
    using b by (cases "?body t v3") (simp del: rewrite_entries.simps)
  note T = temp_archive_Inr [OF t]
  have tz: "t \<noteq> z" using T by auto
  obtain g v5 gs v6 v7 v8 where g: "rewrite_entry B m (metadata_entry B m0) v3 = (Inr g, v5)"
    "rewrite_entries B m (map file_entry ps) v5 = (Inr gs, v6)" "finish_zip B t (g # gs) v6 = (Inr (), v7)"
    "sys_call v7 = (Inr (), v8)" "arch_Rename t z v8 = (Inr x, v4)"
    using r by (auto simp: and_then_Inr)
  have "same v3 v5 \<and> g = metadata_entry B m"
    using g(1) by (auto simp: rewrite_entry_def and_then_Inr metadata_entry_def dest!: sys_call_same intro: same_trans)
  moreover note rewrite_entries_Inr [OF g(2) assms(4)] finish_zip_Inr [OF g(3)] sys_call_same [OF g(4)] arch_Rename_Inr [OF g(5)]
    arch_Remove_any [of t v4 "fst (arch_Remove t v4)" "snd (arch_Remove t v4)"]
  ultimately show ?thesis using w' tz 1 T unfolding kept_def same_def by auto
qed

lemma addMetadataToZip_Inr: "addMetadataToZip B m w = (Inr e, w') \<Longrightarrow> same w w' \<and> e = metadata_entry B m"
  by (auto simp: addMetadataToZip_def and_then_Inr dest!: sys_call_same intro: same_trans)

lemma write_archive_Inr:
  assumes "write_archive B cfg m tmp w = (Inr m', w')"
  shows "kept w w' \<and> m' = m\<lparr>md_Files := map (file_record B) (payload (files w) (filesForBackup B cfg))\<rparr> \<and>
     (\<exists>a. map_of (archives w') tmp = Some a \<and>
          za_Entries a = Some (metadata_entry B m # map file_entry (payload (files w) (filesForBackup B cfg))))"
proof -
  obtain e v1 xs v2 v3 v4 where s: "addMetadataToZip B m w = (Inr e, v1)" "add_files B (filesForBackup B cfg) v1 = (Inr xs, v2)"
    "finish_zip B tmp (e # map fst xs) v2 = (Inr (), v3)" "sys_call v3 = (Inr (), v4)" "sys_call v4 = (Inr (), w')"
    "m' = m\<lparr>md_Files := map snd xs\<rparr>"
    using assms unfolding write_archive_def by (auto simp: and_then_Inr)
  note addMetadataToZip_Inr [OF s(1)] add_files_Inr [OF s(2)] finish_zip_Inr [OF s(3)] sys_call_same [OF s(4)] sys_call_same [OF s(5)]
  then show ?thesis using s(6) by (auto simp: kept_def same_def comp_def)
qed

lemma write_archive_others:
  assumes "write_archive B cfg m tmp w = (Inr m', w')" "q \<noteq> tmp"
  shows "map_of (archives w') q = map_of (archives w) q"
proof -
  obtain e v1 xs v2 v3 v4 where s: "addMetadataToZip B m w = (Inr e, v1)" "add_files B (filesForBackup B cfg) v1 = (Inr xs, v2)"
    "finish_zip B tmp (e # map fst xs) v2 = (Inr (), v3)" "sys_call v3 = (Inr (), v4)" "sys_call v4 = (Inr (), w')"
    using assms(1) by (auto simp: write_archive_def and_then_Inr)
  show ?thesis using addMetadataToZip_Inr [OF s(1)] add_files_Inr [OF s(2)] finish_zip_Inr [OF s(3)] sys_call_same [OF s(4)]
      sys_call_same [OF s(5)] assms(2) by (simp add: same_def)
qed

lemma names_of_backup: "snd ` set (filesForBackup B cfg) \<subseteq> set [''flows.json'', ''cc-users.json'', ''config.json'', ''settings.js'', ''flows_cred.json'', ''package.json'']"
  by (auto simp: filesForBackup_def)

lemma names_distinct: "distinct (map snd (filesForBackup B cfg))"
  by (auto simp: filesForBackup_def)

lemma backup_name_ok:
  assumes "n \<in> snd ` set (filesForBackup B cfg)"
  shows "n \<noteq> metadataName \<and> \<not> HasSuffix n ''/'' \<and> comp_ok n \<and> CHR 0x00 \<notin> set n"
proof -
  have "list_all (\<lambda>n. n \<noteq> metadataName \<and> \<not> HasSuffix n ''/'' \<and> comp_ok n \<and> CHR 0x00 \<notin> set n)
    [''flows.json'', ''cc-users.json'', ''config.json'', ''settings.js'', ''flows_cred.json'', ''package.json'']"
    by (simp add: metadataName_def HasSuffix_def comp_ok_def)
  then show ?thesis using assms names_of_backup unfolding list_all_iff by blast
qed

lemma payload_name_ok:
  "p \<in> set (payload m (filesForBackup B cfg)) \<Longrightarrow> fst p \<noteq> metadataName \<and> \<not> HasSuffix (fst p) ''/'' \<and> comp_ok (fst p) \<and> CHR 0x00 \<notin> set (fst p)"
  using payload_names [of m "filesForBackup B cfg"] backup_name_ok by blast

section \<open>Retention keeps the new backup\<close>

lemma write_document_same:
  "write_document (\<lambda>d w. w\<lparr>event_log := d\<rparr>) x w = (r, w') \<Longrightarrow> same w w'"
  by (auto simp: write_document_def same_def split: prod.splits sum.splits dest!: sys_call_same)

lemma recordEvent_same: "same w (recordEvent B ev w)"
proof -
  have l: "loadLocked w = (r, w') \<Longrightarrow> same w w'" for r w'
    by (auto simp: loadLocked_def split: prod.splits sum.splits option.splits dest!: sys_call_same)
  have s: "saveLocked es v = (r, w') \<Longrightarrow> same v w'" for es v r w'
    unfolding saveLocked_def
    by (erule and_then_same [rotated 2], erule wrapped_same [rotated], erule reads, erule wrapped_same [rotated], erule write_document_same)
  have "Append B ev w = (r, w') \<Longrightarrow> same w w'" for r w'
    unfolding Append_def by (erule and_then_same [rotated 2], erule l, erule s)
  then show ?thesis unfolding recordEvent_def by (metis prod.collapse)
qed

lemma recordBackupCreated_same: "same w (recordBackupCreated B b ids w)"
  unfolding recordBackupCreated_def Let_def by (auto intro: recordEvent_same same_trans split: prod.splits)

lemma inspect_files_ID:
  "\<forall>f\<in>set fs. ze_Name f \<noteq> metadataName \<Longrightarrow> mf_ID (fst (inspect_entries B fs mf w)) = mf_ID mf"
  by (induction fs arbitrary: mf w) (auto split: prod.splits)

lemma open_zip_Inr:
  "open_zip msg p w = (Inr (info, fs), w') \<Longrightarrow> same w w' \<and> map_of (archives w) p = Some info \<and> za_Entries info = Some fs"
  by (auto simp: open_zip_def and_then_Inr split: option.splits dest!: arch_Stat_Inr intro: same_trans) (auto simp: same_def)

lemma describe_own_ID:
  assumes "calm w" "map_of (archives w) p = Some a" "za_Entries a = Some (metadata_entry B m # map file_entry ps)"
    "\<forall>q\<in>set ps. fst q \<noteq> metadataName" "md_ID m \<noteq> ''''" "TrimSpace (md_ID m) = md_ID m" "describeBackup B p w = (Inr b, w')"
  shows "b_ID b = md_ID m"
proof -
  obtain mf where mf: "inspectBackup B p w = (Inr mf, w')" "b_ID b = mf_ID mf"
    using assms(7) by (auto simp: describeBackup_def and_then_Inr)
  obtain info fs v where v: "open_zip ''failed to inspect backup'' p w = (Inr (info, fs), v)"
    using mf(1) by (auto simp: inspectBackup_def and_then_Inr)
  then have fs: "fs = metadata_entry B m # map file_entry ps" and c: "calm v"
    using open_zip_Inr [OF v] assms same_calm by auto
  have r: "readBackupMetadata (metadata_entry B m) v = (Inr (m\<lparr>md_Type := normalizeBackupType (md_Type m)\<rparr>), tick v)"
    using c by (simp add: readBackupMetadata_def decode_manifest_def and_then_def read_entry_def metadata_entry_def)
  have n: "ze_Name (metadata_entry B m) = metadataName" "\<not> ze_IsDir (metadata_entry B m)" by (simp_all add: metadata_entry_def)
  show ?thesis using mf v assms(4-6) unfolding inspectBackup_def
    by (auto simp: and_then_def fs r n Let_def case_prod_beta inspect_files_ID firstNonEmpty_def split: if_splits)
qed

lemma describeBackup_path: "describeBackup B p w = (Inr b, w') \<Longrightarrow> b_Path b = p"
  by (auto simp: describeBackup_def and_then_Inr)

lemma describe_all_in:
  "describe_all B ps w = (bs, w') \<Longrightarrow> b \<in> set bs \<Longrightarrow> b_Path b \<in> set ps \<and> (\<exists>v v'. same w v \<and> describeBackup B (b_Path b) v = (Inr b, v'))"
proof (induction ps arbitrary: w bs w')
  case (Cons p ps)
  obtain r v where d: "describeBackup B p w = (r, v)" by (meson prod.exhaust)
  obtain cs u where a: "describe_all B ps v = (cs, u)" by (meson prod.exhaust)
  note s = describeBackup_same [OF d]
  show ?case
  proof (cases "is_archive_name p")
    case True
    have "b = (case r of Inr x \<Rightarrow> x | Inl _ \<Rightarrow> b) \<and> r = Inr b \<or> b \<in> set cs"
      using Cons.prems True d a by (auto split: sum.splits)
    then show ?thesis using Cons.IH [OF a] d s describeBackup_path same_trans by (metis list.set_intros same_refl)
  next
    case False
    then show ?thesis using Cons by auto
  qed
qed simp

text \<open>What \<open>sort.Slice\<close> promises: a permutation, and a sorted one when the comparison is a strict weak
  order on the elements.\<close>

definition weak_order_on :: "'a set \<Rightarrow> ('a \<Rightarrow> 'a \<Rightarrow> bool) \<Rightarrow> bool" where
  "weak_order_on S lt \<longleftrightarrow> (\<forall>x\<in>S. \<not> lt x x) \<and> (\<forall>x\<in>S. \<forall>y\<in>S. \<forall>z\<in>S. lt x y \<longrightarrow> lt y z \<longrightarrow> lt x z) \<and>
     (\<forall>x\<in>S. \<forall>y\<in>S. \<forall>z\<in>S. \<not> lt x y \<longrightarrow> \<not> lt y z \<longrightarrow> \<not> lt x z)"

definition lawful_sort :: "backup_env \<Rightarrow> bool" where
  "lawful_sort B \<longleftrightarrow> (\<forall>lt xs. mset (bv_sort B lt xs) = mset xs) \<and>
     (\<forall>lt xs. weak_order_on (set xs) lt \<longrightarrow> sorted_wrt (\<lambda>x y. \<not> lt y x) (bv_sort B lt xs))"

lemma lawful_sort_set: "lawful_sort B \<Longrightarrow> set (bv_sort B lt xs) = set xs"
  unfolding lawful_sort_def by (metis set_mset_mset)

lemma bk_List_in:
  assumes "lawful_sort B" "bk_List B w = (Inr bs, w')" "b \<in> set bs"
  shows "\<exists>v v'. same w v \<and> describeBackup B (b_Path b) v = (Inr b, v')"
proof -
  obtain v1 ps v2 cs where v: "sys_call w = (Inr (), v1)" "arch_ReadDir v1 = (Inr ps, v2)" "describe_all B ps v2 = (cs, w')"
    "bs = bv_sort B newest_first cs"
    using assms(2) unfolding bk_List_def
    by (auto simp: and_then_Inr case_prod_beta Let_def) (metis prod.collapse)
  have "b \<in> set cs" using assms(1,3) v(4) lawful_sort_set by simp
  then show ?thesis using describe_all_in [OF v(3)] same_trans sys_call_same [OF v(1)] arch_ReadDir_same [OF v(2)] by blast
qed

lemma remove_backups_kept:
  "remove_backups kid bs w = (r, w') \<Longrightarrow> kept w w' \<and>
     (\<forall>q. (\<forall>b\<in>set bs. b_Path b = q \<longrightarrow> b_ID b = kid) \<longrightarrow> map_of (archives w') q = map_of (archives w) q)"
proof (induction kid bs w arbitrary: r rule: remove_backups.induct)
  case (2 kid b bs w)
  show ?case
  proof (cases "b_ID b = kid")
    case False
    obtain x v where x: "arch_Remove (b_Path b) w = (x, v)" by (meson prod.exhaust)
    obtain y u where y: "remove_backups kid bs v = (y, u)" by (meson prod.exhaust)
    note a = arch_Remove_any [OF x]
    let ?keeps = "\<lambda>v u. kept v u \<and> (\<forall>q. (\<forall>b\<in>set bs. b_Path b = q \<longrightarrow> b_ID b = kid) \<longrightarrow> map_of (archives u) q = map_of (archives v) q)"
    have "w' = v \<or> ?keeps v w'"
    proof (cases x)
      case (Inl e)
      then show ?thesis using 2(2) [OF False x [symmetric] Inl] 2(4) False x y by (cases y) (auto split: if_splits)
    next
      case (Inr z)
      then show ?thesis using 2(3) [OF False x [symmetric] Inr] 2(4) False x y by (cases y) auto
    qed
    then show ?thesis using a False kept_trans by fastforce
  qed (use 2 in auto)
qed simp

lemma pruneBackups_keeps_new:
  assumes "lawful_sort B" "calm w" "pruneBackups B cfg t ident w = (r, w')"
    "map_of (archives w) p = Some a" "za_Entries a = Some (metadata_entry B m # map file_entry ps)"
    "\<forall>q\<in>set ps. fst q \<noteq> metadataName" "md_ID m = ident" "ident \<noteq> ''''" "TrimSpace ident = ident"
  shows "kept w w' \<and> map_of (archives w') p = Some a"
proof -
  consider (none) "w' = w" | (listed) l v where "bk_List B w = (l, v)" "w' = v"
    | (removed) all v where "bk_List B w = (Inr all, v)"
       "remove_backups ident (drop (nat (retentionForType cfg t)) (bv_sort B (prune_less v) (filter (\<lambda>b. b_Type b = t) all))) v = (r, w')"
    using assms(3) by (cases "bk_List B w"; cases "fst (bk_List B w)") (auto simp: pruneBackups_def Let_def split: if_splits)
  then show ?thesis
  proof cases
    case listed
    then show ?thesis using bk_List_same same_kept assms(4) by (metis same_def)
  next
    case removed
    have s: "same w v" using bk_List_same [OF removed(1)] .
    have "b_ID b = ident" if b: "b \<in> set (drop (nat (retentionForType cfg t)) (bv_sort B (prune_less v) (filter (\<lambda>b. b_Type b = t) all)))"
      "b_Path b = p" for b
    proof -
      have "b \<in> set all" using b(1) lawful_sort_set [OF assms(1)] by (auto dest: in_set_dropD)
      then obtain u u' where u: "same w u" "describeBackup B p u = (Inr b, u')" using bk_List_in [OF assms(1) removed(1)] b(2) by blast
      have "map_of (archives u) p = Some a" "calm u" using u(1) assms(2,4) same_calm by (auto simp: same_def)
      from describe_own_ID [OF this(2,1) assms(5,6) _ _ u(2)] show ?thesis using assms(7,8,9) by simp
    qed
    then show ?thesis using remove_backups_kept [OF removed(2)] s assms(4) kept_trans [OF same_kept [OF s]] by (auto simp: same_def)
  qed (use assms in simp)
qed


section \<open>What an operation keeps\<close>

text \<open>\<open>keeper g m\<close>: whatever its result, \<open>m\<close> does not change the part \<open>g\<close> of the world.\<close>

definition keeper :: "('s \<Rightarrow> 'b) \<Rightarrow> ('s \<Rightarrow> 'a \<times> 's) \<Rightarrow> bool" where
  "keeper g m \<longleftrightarrow> (\<forall>w. g (snd (m w)) = g w)"

named_theorems keepers

lemma keeperI: "(\<And>w. g (snd (m w)) = g w) \<Longrightarrow> keeper g m" by (simp add: keeper_def)

lemma keeperD: "keeper g m \<Longrightarrow> g (snd (m w)) = g w" by (simp add: keeper_def)

lemma keeper_eq: "keeper g m \<Longrightarrow> m w = (r, w') \<Longrightarrow> g w' = g w"
  unfolding keeper_def by (metis snd_conv)

lemma same_keeper:
  assumes "\<And>w r w'. m w = (r, w') \<Longrightarrow> same w w'" "\<And>v w. same v w \<Longrightarrow> g w = g v"
  shows "keeper g m"
  unfolding keeper_def using assms by (metis prod.collapse)

lemma keeper_and_then [keepers]:
  assumes "keeper g m" "\<And>x. keeper g (f x)"
  shows "keeper g (and_then m f)"
proof (rule keeperI)
  fix w
  obtain r v where m: "m w = (r, v)" by (meson prod.exhaust)
  then show "g (snd (and_then m f w)) = g w"
    using keeper_eq [OF assms(1) m] keeperD [OF assms(2)] by (cases r) (simp_all add: and_then_def)
qed

lemma keeper_wrapped [keepers]: "keeper g m \<Longrightarrow> keeper g (wrapped msg m)"
  by (auto simp: keeper_def wrapped_def split: prod.splits sum.splits) (metis snd_conv)+

lemma keeper_on_error [keepers]: "keeper g m \<Longrightarrow> (\<And>v. g (c v) = g v) \<Longrightarrow> keeper g (on_error m c)"
  by (auto simp: keeper_def on_error_def split: prod.splits sum.splits) (metis snd_conv)+

lemma keeper_return [keepers]: "(\<And>w. g (f w) = g w) \<Longrightarrow> keeper g (\<lambda>w. (x, f w))"
  by (simp add: keeper_def)

lemma keeper_pair [keepers]: "keeper g (Pair x)"
  by (simp add: keeper_def)

lemma keeper_if [keepers]: "(b \<Longrightarrow> keeper g m) \<Longrightarrow> (\<not> b \<Longrightarrow> keeper g n) \<Longrightarrow> keeper g (\<lambda>w. if b then m w else n w)"
  by (simp add: keeper_def)

lemma keeper_reads:
  assumes "\<And>v w. same v w \<Longrightarrow> g w = g v"
  shows "keeper g sys_call" "keeper g (read_entry f)" "keeper g (ReadFile p)" "keeper g (arch_Stat p)" "keeper g (GetConfig)"
    "keeper g (open_zip msg p)" "keeper g (bk_List B)"
  by (rule same_keeper; (erule reads | erule assms))+

section \<open>Evaluation\<close>

text \<open>The continuations of the sequencing operators and the bodies of \<open>let\<close> are evaluated only once their
  argument is a value.\<close>

lemma and_then_inline [code_unfold]: "and_then m f = (\<lambda>w. case m w of (Inl e, v) \<Rightarrow> (Inl e, v) | (Inr x, v) \<Rightarrow> f x v)"
  by (simp add: fun_eq_iff and_then_def)

lemma wrapped_inline [code_unfold]: "wrapped msg m = (\<lambda>w. case m w of (Inl e, v) \<Rightarrow> (Inl (ErrWrap msg e), v) | (Inr x, v) \<Rightarrow> (Inr x, v))"
  by (simp add: fun_eq_iff wrapped_def)

lemma on_error_inline [code_unfold]: "on_error m c = (\<lambda>w. case m w of (Inl e, v) \<Rightarrow> (Inl e, c v) | (Inr x, v) \<Rightarrow> (Inr x, v))"
  by (simp add: fun_eq_iff on_error_def)

lemma Let_inline [code_unfold]: "Let s f = (case (s, ()) of (x, _) \<Rightarrow> f x)"
  by simp

section \<open>A sample service\<close>

text \<open>Insertion sort is a \<open>sort.Slice\<close>; the witnesses use it.\<close>

lemma stable_insert_mset [simp]: "mset (stable_insert lt x xs) = add_mset x (mset xs)"
  by (induction xs) auto

lemma stable_sort_mset: "mset (stable_sort lt xs) = mset xs"
  unfolding stable_sort_def by (induction xs) auto

lemma stable_insert_sorted:
  assumes "weak_order_on S lt" "x \<in> S" "set xs \<subseteq> S" "sorted_wrt (\<lambda>x y. \<not> lt y x) xs"
  shows "sorted_wrt (\<lambda>x y. \<not> lt y x) (stable_insert lt x xs)"
  using assms(3,4)
proof (induction xs)
  case (Cons y ys)
  have s: "set (stable_insert lt x ys) = insert x (set ys)" by (metis stable_insert_mset set_mset_add_mset_insert set_mset_mset)
  have y: "y \<in> S" using Cons.prems(1) by simp
  have asym: "lt y x \<Longrightarrow> \<not> lt x y" using assms(1,2) y unfolding weak_order_on_def by blast
  have neg: "\<And>z. z \<in> S \<Longrightarrow> \<not> lt z y \<Longrightarrow> \<not> lt y x \<Longrightarrow> \<not> lt z x"
    using assms(1,2) y unfolding weak_order_on_def by blast
  show ?case using Cons s asym neg by auto
qed simp

lemma stable_sort_sorted:
  assumes "weak_order_on (set xs) lt"
  shows "sorted_wrt (\<lambda>x y. \<not> lt y x) (stable_sort lt xs)"
proof -
  have "set ys \<subseteq> set xs \<Longrightarrow> sorted_wrt (\<lambda>x y. \<not> lt y x) (stable_sort lt ys)" for ys
  proof (induction ys)
    case (Cons y ys)
    have "set (stable_sort lt ys) = set ys" by (metis stable_sort_mset set_mset_mset)
    then show ?case using Cons stable_insert_sorted [OF assms, of y "stable_sort lt ys"] by (simp add: stable_sort_def)
  qed (simp add: stable_sort_def)
  then show ?thesis by simp
qed

definition sample_backup_env :: "(nat \<Rightarrow> string) \<Rightarrow> backup_env" where
  "sample_backup_env uuid =
     \<lparr>bv_dataDir = ''/data'', bv_backupDir = ''/data/backups'', bv_cwd = ''/'', bv_uuid = uuid, bv_nano = (\<lambda>_. ''2024-05-01''),
      bv_now = (\<lambda>_. ''2024-05-01''), bv_mtime = (\<lambda>_. 0), bv_RFC3339 = (\<lambda>_. ''2024-05-01''), bv_sha256 = (\<lambda>s. s),
      bv_sort = stable_sort, bv_sort_files = stable_sort, bv_sort_events = stable_sort, bv_cron = (\<lambda>_. None), bv_next = (\<lambda>_ _. ''''),
      bv_zip_size = length, bv_json_size = (\<lambda>_. 1), bv_provider = None\<rparr>"

lemma sample_backup_lawful: "lawful_sort (sample_backup_env uuid)"
  by (simp add: lawful_sort_def sample_backup_env_def stable_sort_mset stable_sort_sorted)

definition sample_backup_world :: bk_world where
  "sample_backup_world =
     \<lparr>files = [''/data/flows.json'' \<mapsto> ''[1]''], links = (\<lambda>_. False), faults = (\<lambda>_. None), torn = (\<lambda>_. 0), entropy = (\<lambda>_ _. 0), calls = 0,
      archives = [], config_doc = None, event_log = None, staging = [], scheduler = newBackupScheduler, uploads = []\<rparr>"


text \<open>A sample archive, of one file.\<close>

definition sample_manifest :: backupMetadata where
  "sample_manifest = \<lparr>md_ID = ''b1'', md_Name = ''nightly'', md_Type = ''manual'', md_CreatedAt = ''2024-04-30'', md_TriggeredBy = ''nightly'',
     md_Algorithm = defaultChecksumAlgo, md_Version = currentManifestVersion,
     md_Files = [\<lparr>fe_Path = ''flows.json'', fe_Size = 3, fe_Checksum = ''[2]''\<rparr>]\<rparr>"

definition sample_archive :: "string \<Rightarrow> string \<Rightarrow> int \<Rightarrow> zarchive" where
  "sample_archive ident t mtime =
     \<lparr>za_Entries = Some [metadata_entry (sample_backup_env (\<lambda>_. '''')) (sample_manifest\<lparr>md_ID := ident, md_Type := t\<rparr>),
        file_entry (''flows.json'', ''[2]'')], za_Size = 2, za_ModTime = mtime\<rparr>"

end
