(* ===== verification/BackupRestore.thy ===== *)
theory BackupRestore
  imports BackupArchive
begin

text \<open>
  What a restore does with an archive: the verification, staging and swap of the archive of a backup, the
  round trip, and that a restore publishes authentic content only.
\<close>

section \<open>The backup that was created\<close>

definition config_in_force :: "'w bk_world_scheme \<Rightarrow> BackupConfig" where
  "config_in_force w = (case config_doc w of Some (Some raw) \<Rightarrow> decode_config raw | _ \<Rightarrow> defaultBackupConfig)"

definition archive_of :: "backup_env \<Rightarrow> backupMetadata \<Rightarrow> (string \<times> string) list \<Rightarrow> zentry list \<Rightarrow> bool" where
  "archive_of B m ps fs \<longleftrightarrow> fs = metadata_entry B m # map file_entry ps \<and> md_Files m = map (file_record B) ps \<and>
     md_Version m = currentManifestVersion \<and> md_Algorithm m = defaultChecksumAlgo"

text \<open>A generated identifier is a plain file name without surrounding blanks.\<close>

definition lawful_uuid :: "backup_env \<Rightarrow> bool" where
  "lawful_uuid B \<longleftrightarrow> (\<forall>n. ValidateBackupID (bv_uuid B n) = None \<and> TrimSpace (bv_uuid B n) = bv_uuid B n)"

lemma GetConfig_calm: "calm w \<Longrightarrow> \<exists>c v. GetConfig w = (c, v) \<and> same w v \<and> (case c of Inl _ \<Rightarrow> defaultBackupConfig | Inr x \<Rightarrow> x) = config_in_force w"
  by (auto simp: GetConfig_def config_in_force_def tick_def same_def split: option.splits)

lemma publish_archive_Inr:
  assumes "publish_archive B m tmp bp w = (Inr x, w')" "map_of (archives w) tmp = Some a"
    "za_Entries a = Some (metadata_entry B m0 # map file_entry ps)" "\<forall>p\<in>set ps. fst p \<noteq> metadataName \<and> \<not> HasSuffix (fst p) ''/''"
  shows "kept w w' \<and> (\<exists>a. map_of (archives w') bp = Some a \<and> za_Entries a = Some (metadata_entry B m # map file_entry ps))"
proof -
  obtain v where v: "patchManifestChecksums B tmp m w = (Inr (), v)" "arch_Rename tmp bp v = (Inr x, w')"
    using assms(1) by (auto simp: publish_archive_def and_then_Inr)
  show ?thesis using patchManifestChecksums_Inr [OF v(1) assms(2-4)] arch_Rename_Inr [OF v(2)] kept_trans by metis
qed

lemma create_archive_Inr:
  fixes w :: "'w bk_world_scheme"
  assumes "lawful_sort B" "calm w" "create_archive B cfg m0 w = (Inr b, w1)"
    "md_ID m0 \<noteq> ''''" "TrimSpace (md_ID m0) = md_ID m0"
    "md_Version m0 = currentManifestVersion" "md_Algorithm m0 = defaultChecksumAlgo"
  shows "files w1 = files w \<and> b_ID b = md_ID m0 \<and> b_Path b = backup_path B (md_ID m0) \<and>
     (\<exists>a m fs. map_of (archives w1) (b_Path b) = Some a \<and> za_Entries a = Some fs \<and>
        archive_of B m (payload (files w) (filesForBackup B cfg)) fs)"
proof -
  let ?ps = "payload (files w) (filesForBackup B cfg)"
  define bp where "bp = backup_path B (md_ID m0)"
  define prune :: "backupMetadata \<Rightarrow> 'w bk_world_scheme \<Rightarrow> _" where "prune = (\<lambda>m. pruneBackups B cfg (md_Type m) (md_ID m))"
  define fin where "fin = (\<lambda>m (v :: 'w bk_world_scheme). recordBackupCreated B b (fst (fst (prune m v))) (snd (prune m v)))"
  obtain v2 m v3 v4 v5 info where s: "arch_Create B (bp @ ''.tmp'') w = (Inr (), v2)"
    "write_archive B cfg m0 (bp @ ''.tmp'') v2 = (Inr m, v3)" "publish_archive B m (bp @ ''.tmp'') bp v3 = (Inr (), v4)"
    "arch_Stat bp v4 = (Inr info, v5)"
    and e: "b_ID b = md_ID m" "b_Path b = bp" "w1 = (fin m v5)\<lparr>uploads := uploads (fin m v5) @ [b]\<rparr>"
    using assms(3) unfolding create_archive_def fin_def prune_def bp_def Let_def
    by (auto simp: and_then_Inr case_prod_beta split: option.splits)
  have k2: "kept w v2" using arch_Create_Inr [OF s(1)] by blast
  note wa = write_archive_Inr [OF s(2)]
  have ps: "payload (files v2) (filesForBackup B cfg) = ?ps" using k2 by (simp add: kept_def)
  have names: "\<forall>p\<in>set ?ps. fst p \<noteq> metadataName \<and> \<not> HasSuffix (fst p) ''/''" using payload_name_ok by blast
  obtain a0 where a0: "map_of (archives v3) (bp @ ''.tmp'') = Some a0" "za_Entries a0 = Some (metadata_entry B m0 # map file_entry ?ps)"
    using wa ps by auto
  obtain a where a: "kept v3 v4" "map_of (archives v4) bp = Some a" "za_Entries a = Some (metadata_entry B m # map file_entry ?ps)"
    using publish_archive_Inr [OF s(3) a0 names] by blast
  have m: "m = m0\<lparr>md_Files := map (file_record B) ?ps\<rparr>" using wa ps by simp
  have s5: "same v4 v5" using arch_Stat_same [OF s(4)] .
  have k5: "kept w v5" using k2 wa a(1) same_kept [OF s5] kept_trans by blast
  have c5: "calm v5" using k5 assms(2) by (simp add: kept_def calm_def)
  have p: "kept v5 (snd (prune m v5)) \<and> map_of (archives (snd (prune m v5))) bp = Some a"
    by (rule pruneBackups_keeps_new [OF assms(1) c5 _ _ a(3), where cfg = cfg and t = "md_Type m" and ident = "md_ID m" and r = "fst (prune m v5)"])
       (use a(2) s5 names m assms(4,5) in \<open>auto simp: same_def prune_def\<close>)
  have "files w1 = files w \<and> map_of (archives w1) bp = Some a"
    using p k5 recordBackupCreated_same [of "snd (prune m v5)" B b "fst (fst (prune m v5))"] unfolding e(3) fin_def by (simp add: same_def kept_def)
  then show ?thesis using a(3) e m assms(6,7) by (auto simp: archive_of_def bp_def intro!: exI [of _ a])
qed

lemma valid_id_nonempty: "ValidateBackupID u = None \<Longrightarrow> u \<noteq> ''''"
  by (auto simp: ValidateBackupID_def)

lemma createBackup_Inr:
  assumes "lawful_sort B" "lawful_uuid B" "calm w" "createBackup B t nm w = (Inr b, w1)"
  shows "files w1 = files w \<and> ValidateBackupID (b_ID b) = None \<and> b_Path b = backup_path B (b_ID b) \<and>
     (\<exists>a m fs. map_of (archives w1) (b_Path b) = Some a \<and> za_Entries a = Some fs \<and>
        archive_of B m (payload (files w) (filesForBackup B (config_in_force w))) fs)"
proof -
  let ?ps = "payload (files w) (filesForBackup B (config_in_force w))"
  obtain v0 where v0: "sys_call w = (Inr (), v0)" using assms(3) by simp
  have s0: "same w v0" "calm v0" using sys_call_same [OF v0] assms(3) same_calm by blast+
  obtain c v1 where c: "GetConfig v0 = (c, v1)" "same v0 v1"
    "(case c of Inl _ \<Rightarrow> defaultBackupConfig | Inr x \<Rightarrow> x) = config_in_force w"
    using GetConfig_calm [OF s0(2)] s0(1) by (auto simp: config_in_force_def same_def)
  define m0 where "m0 = (let ty = (if t = '''' then backupTypeManual else t);
       name = (if TrimSpace nm = '''' then default_name ty (bv_nano B (calls v1)) else TrimSpace nm)
     in \<lparr>md_ID = bv_uuid B (calls v1), md_Name = name, md_Type = ty, md_CreatedAt = bv_nano B (calls v1), md_TriggeredBy = name,
         md_Algorithm = defaultChecksumAlgo, md_Version = currentManifestVersion, md_Files = []\<rparr>)"
  have cr: "create_archive B (config_in_force w) m0 v1 = (Inr b, w1)"
    using assms(4) v0 c(1,3) unfolding createBackup_def m0_def by (simp add: and_then_def wrapped_def Let_def)
  have m0: "md_ID m0 = bv_uuid B (calls v1)" "md_Version m0 = currentManifestVersion" "md_Algorithm m0 = defaultChecksumAlgo"
    by (simp_all add: m0_def Let_def)
  have id: "md_ID m0 \<noteq> ''''" "TrimSpace (md_ID m0) = md_ID m0" "ValidateBackupID (md_ID m0) = None"
    using assms(2) valid_id_nonempty unfolding m0(1) lawful_uuid_def by auto
  have s1: "same w v1" "calm v1" using s0 c(2) same_trans same_calm by blast+
  show ?thesis using create_archive_Inr [OF assms(1) s1(2) cr id(1,2) m0(2,3)] id(3) s1(1) by (auto simp: same_def)
qed

section \<open>Verification of that archive\<close>

lemma find_record:
  assumes "distinct (map fst qs)" "p \<in> set qs"
  shows "find (\<lambda>x. fe_Path x = fst p) (rev (map (file_record B) qs)) = Some (file_record B p)"
proof -
  have "find (\<lambda>x. fe_Path x = fst p) (map (file_record B) rs) = Some (file_record B p)"
    if "distinct (map fst rs)" "p \<in> set rs" for rs
    using that by (induction rs) auto
  from this [of "rev qs"] show ?thesis using assms by (simp add: rev_map distinct_rev flip: rev_map)
qed


lemma read_entry_calm: "calm w \<Longrightarrow> ze_Body f = Some b \<Longrightarrow> read_entry f w = (Inr b, tick w)"
  by (simp add: read_entry_def)

lemma checksum_calm: "calm w \<Longrightarrow> checksumZipFile B (file_entry p) w = (Inr (bv_sha256 B (snd p)), tick w)"
  by (simp add: checksumZipFile_def and_then_def read_entry_calm)

lemma verify_own_entries:
  assumes "calm w" "distinct (map fst qs)" "md_Files m = map (file_record B) qs" "set ps \<subseteq> set qs"
    "\<forall>p\<in>set ps. fst p \<noteq> metadataName \<and> length (snd p) < 2 ^ 63"
  shows "\<exists>seen' w'. verify_entries B m (map file_entry ps) seen w = (Inr seen', w') \<and> same w w' \<and> set seen' = fst ` set ps \<union> set seen"
  using assms
proof (induction ps arbitrary: w seen)
  case (Cons p ps)
  have "calm (tick w)" using Cons.prems(1) same_calm [OF same_tick] by blast
  from Cons.IH [OF this Cons.prems(2,3), of "fst p # seen"] Cons.prems obtain s' w' where
    ih: "verify_entries B m (map file_entry ps) (fst p # seen) (tick w) = (Inr s', w')" "same (tick w) w'"
      "set s' = fst ` set ps \<union> set (fst p # seen)" by auto
  have "verify_entries B m (map file_entry (p # ps)) seen w = (Inr s', w')"
    using ih(1) Cons.prems find_record [OF Cons.prems(2), of p B] declared_size_small [of "file_entry p"]
    by (simp add: checksum_calm)
  then show ?case using ih same_trans [OF same_tick] by auto
qed simp

lemma verify_own_archive:
  assumes "calm w" "archive_of B m ps fs" "distinct (map fst ps)" "\<forall>p\<in>set ps. fst p \<noteq> metadataName \<and> length (snd p) < 2 ^ 63"
  shows "\<exists>w'. verifyArchiveManifest B fs w = (Inr m, w') \<and> same w w'"
proof -
  have fs: "fs = metadata_entry B m # map file_entry ps" and m: "md_Files m = map (file_record B) ps"
    "md_Version m = currentManifestVersion" "md_Algorithm m = defaultChecksumAlgo" using assms(2) by (auto simp: archive_of_def)
  have c: "calm (tick w)" using assms(1) same_calm [OF same_tick] by blast
  obtain s' w' where v: "verify_entries B m (map file_entry ps) [] (tick w) = (Inr s', w')" "same (tick w) w'" "set s' = fst ` set ps"
    using verify_own_entries [OF c assms(3) m(1), of ps "[]"] assms(4) by auto
  have n: "ze_Name (metadata_entry B m) = metadataName" "ze_Body (metadata_entry B m) = Some (Document m)" by (simp_all add: metadata_entry_def)
  have d: "decode_manifest (metadata_entry B m) w = (Inr m, tick w)"
    using assms(1) n by (simp add: decode_manifest_def and_then_def read_entry_calm)
  have "find (\<lambda>x. fe_Path x \<notin> set s') (md_Files m) = None" using v(3) m(1) by (auto simp: find_None_iff)
  then have "verifyArchiveManifest B fs w = (Inr m, w')"
    using v(1) d n m by (simp add: verifyArchiveManifest_def fs and_then_def wrapped_def)
  then show ?thesis using v(2) same_trans [OF same_tick] by blast
qed

section \<open>Creating a backup succeeds when nothing fails\<close>

lemma calm_upd [simp]: "calm (w\<lparr>files := f\<rparr>) = calm w" "calm (tick w) = calm w"
  using same_calm [OF same_tick, of w] by (auto simp: calm_def)

lemma kept_calm: "kept w w' \<Longrightarrow> calm w' = calm w" by (simp add: kept_def calm_def)

lemma arch_Create_calm: "calm w \<Longrightarrow> \<exists>w'. arch_Create B p w = (Inr (), w')"
  by (simp add: arch_Create_def)

lemma finish_zip_calm: "calm w \<Longrightarrow> \<exists>w'. finish_zip B p es w = (Inr (), w')"
  by (simp add: finish_zip_def)

lemma arch_Stat_calm: "calm w \<Longrightarrow> map_of (archives w) p = Some a \<Longrightarrow> arch_Stat p w = (Inr a, tick w)"
  by (simp add: arch_Stat_def)

lemma arch_Rename_calm: "calm w \<Longrightarrow> map_of (archives w) p = Some a \<Longrightarrow> \<exists>w'. arch_Rename p q w = (Inr (), w')"
  by (simp add: arch_Rename_def)

lemma addFileToZip_calm: "calm w \<Longrightarrow> \<exists>x w'. addFileToZip B src dst w = (Inr x, w')"
  by (cases "files w src") (auto simp: addFileToZip_def ReadFile_def and_then_def wrapped_def)

lemma add_files_calm: "calm w \<Longrightarrow> \<exists>xs w'. add_files B fs w = (Inr xs, w')"
proof (induction fs arbitrary: w)
  case (Cons f fs)
  obtain src dst where f: "f = (src, dst)" by (cases f)
  obtain x v where x: "addFileToZip B src dst w = (Inr x, v)" using addFileToZip_calm [OF Cons.prems] by blast
  have "calm v" using addFileToZip_Inr [OF x] Cons.prems same_calm by blast
  then obtain xs w' where "add_files B fs v = (Inr xs, w')" using Cons.IH by blast
  then show ?case using x by (simp add: f and_then_def)
qed simp

lemma write_archive_calm:
  assumes "calm w"
  shows "\<exists>m' w'. write_archive B cfg m tmp w = (Inr m', w')"
proof -
  have e: "addMetadataToZip B m w = (Inr (metadata_entry B m), tick (tick w))" using assms by (simp add: addMetadataToZip_def and_then_def wrapped_def)
  obtain xs v where xs: "add_files B (filesForBackup B cfg) (tick (tick w)) = (Inr xs, v)"
    using add_files_calm [of "tick (tick w)"] assms by fastforce
  have "calm v" using add_files_Inr [OF xs] assms same_calm by fastforce
  moreover obtain u where u: "finish_zip B tmp (metadata_entry B m # map fst xs) v = (Inr (), u)" using finish_zip_calm calculation by blast
  ultimately have "calm u" using finish_zip_Inr [OF u] kept_calm by blast
  then show ?thesis using e xs u by (simp add: write_archive_def and_then_def wrapped_def)
qed

lemma rewrite_entries_calm:
  assumes "calm w" "\<forall>f\<in>set fs. ze_Body f \<noteq> None"
  shows "\<exists>gs w'. rewrite_entries B m fs w = (Inr gs, w') \<and> calm w' \<and> archives w' = archives w"
  using assms
proof (induction fs arbitrary: w)
  case (Cons f fs)
  obtain b where b: "ze_Body f = Some b" using Cons.prems(2) by auto
  obtain g v where g: "rewrite_entry B m f w = (Inr g, v)" "calm v" "archives v = archives w"
  proof (cases "ze_Name f = metadataName")
    case True
    then show thesis using that Cons.prems(1) by (simp add: rewrite_entry_def and_then_def)
  next
    case False
    then show thesis using that Cons.prems(1) b by (simp add: rewrite_entry_def and_then_def read_entry_calm)
  qed
  obtain gs w' where "rewrite_entries B m fs v = (Inr gs, w')" "calm w'" "archives w' = archives v"
    using Cons.IH [OF g(2)] Cons.prems(2) by auto
  then show ?case using g by (simp add: and_then_def)
qed simp

definition no_leftovers :: "'w bk_world_scheme \<Rightarrow> bool" where
  "no_leftovers w \<longleftrightarrow> (\<forall>p s. map_of (archives w) (p @ ''.rewriting-'' @ s) = None)"

lemma temp_archive_free:
  "calm w \<Longrightarrow> \<forall>s. map_of (archives w) (prefix @ s) = None \<Longrightarrow> n \<noteq> 0 \<Longrightarrow> \<exists>t w'. temp_archive n B prefix w = (Inr t, w')"
  by (cases n) (auto simp: arch_Create_def Let_def)

lemma patch_calm:
  assumes "calm w" "map_of (archives w) z = Some a" "za_Entries a = Some fs" "\<forall>f\<in>set fs. ze_Body f \<noteq> None"
    "\<forall>s. map_of (archives w) (z @ ''.rewriting-'' @ s) = None"
  shows "\<exists>w'. patchManifestChecksums B z m w = (Inr (), w')"
proof -
  have c: "calm (tick (tick w))" using assms(1) by simp
  obtain t v where t: "temp_archive 10000 B (z @ ''.rewriting-'') (tick (tick w)) = (Inr t, v)"
    using temp_archive_free [OF c, of "z @ ''.rewriting-''" 10000 B] assms(5) by auto
  have cv: "calm v" using temp_archive_Inr [OF t] kept_calm c by blast
  obtain gs u where u: "rewrite_entries B m fs v = (Inr gs, u)" "calm u" using rewrite_entries_calm [OF cv assms(4)] by blast
  obtain x where x: "finish_zip B t gs u = (Inr (), x)" using finish_zip_calm [OF u(2)] by blast
  note fz = finish_zip_Inr [OF x]
  obtain a' where cx: "calm x" "map_of (archives (tick x)) t = Some a'" using fz u(2) kept_calm by auto
  then obtain y where "arch_Rename t z (tick x) = (Inr (), y)" using arch_Rename_calm [of "tick x" t a' z] by auto
  then show ?thesis using assms(1-3) t u(1) x \<open>calm x\<close> by (simp add: patchManifestChecksums_def and_then_def arch_Stat_calm)
qed

lemma remove_backups_calm: "calm w \<Longrightarrow> snd (fst (remove_backups kid bs w)) = None"
proof (induction kid bs w rule: remove_backups.induct)
  case (2 kid b bs w)
  obtain r v where r: "arch_Remove (b_Path b) w = (r, v)" by (meson prod.exhaust)
  have c: "calm v" using arch_Remove_any [OF r] kept_calm 2(4) by blast
  have e: "r = Inr () \<or> r = Inl (Sentinel ErrNotExist)" using r 2(4) by (auto simp: arch_Remove_def split: if_splits)
  show ?case using 2 r c e by (auto simp: Let_def split: prod.splits)
qed simp

lemma bk_List_calm: "calm w \<Longrightarrow> \<exists>bs w'. bk_List B w = (Inr bs, w')"
  by (simp add: bk_List_def and_then_def wrapped_def arch_ReadDir_def split: prod.splits)

lemma pruneBackups_calm:
  assumes "calm w"
  shows "snd (fst (pruneBackups B cfg t kid w)) = None"
proof -
  obtain bs v where l: "bk_List B w = (Inr bs, v)" using bk_List_calm [OF assms] by blast
  have "calm v" using bk_List_same [OF l] same_calm assms by blast
  then show ?thesis using l remove_backups_calm by (auto simp: pruneBackups_def Let_def)
qed

lemma create_archive_calm:
  assumes "calm w" "no_leftovers w"
  shows "\<exists>b w'. create_archive B cfg m0 w = (Inr b, w')"
proof -
  define bp where "bp = backup_path B (md_ID m0)"
  let ?ps = "payload (files w) (filesForBackup B cfg)"
  obtain v2 where v2: "arch_Create B (bp @ ''.tmp'') w = (Inr (), v2)" using arch_Create_calm [OF assms(1)] by blast
  have k2: "kept w v2" "calm v2" using arch_Create_Inr [OF v2] assms(1) kept_calm by blast+
  obtain m v3 where v3: "write_archive B cfg m0 (bp @ ''.tmp'') v2 = (Inr m, v3)" using write_archive_calm [OF k2(2)] by blast
  note wa = write_archive_Inr [OF v3]
  obtain a where a: "map_of (archives v3) (bp @ ''.tmp'') = Some a" "za_Entries a = Some (metadata_entry B m0 # map file_entry ?ps)"
    using wa k2(1) by (auto simp: kept_def)
  have c3: "calm v3" using wa k2(2) kept_calm by blast
  have free: "\<forall>s. map_of (archives v3) ((bp @ ''.tmp'') @ ''.rewriting-'' @ s) = None"
  proof
    fix s
    define q where "q = (bp @ ''.tmp'') @ ''.rewriting-'' @ s"
    have "q \<noteq> bp @ ''.tmp''" "map_of (archives w) q = None"
      using assms(2) unfolding q_def no_leftovers_def by (simp, blast)
    then show "map_of (archives v3) ((bp @ ''.tmp'') @ ''.rewriting-'' @ s) = None"
      using write_archive_others [OF v3] arch_Create_Inr [OF v2] unfolding q_def [symmetric] by simp
  qed
  have bodies: "\<forall>f\<in>set (metadata_entry B m0 # map file_entry ?ps). ze_Body f \<noteq> None" by (auto simp: metadata_entry_def)
  obtain v4 where v4: "patchManifestChecksums B (bp @ ''.tmp'') m v3 = (Inr (), v4)" using patch_calm [OF c3 a bodies free] by blast
  have names: "\<forall>p\<in>set ?ps. fst p \<noteq> metadataName \<and> \<not> HasSuffix (fst p) ''/''" using payload_name_ok by blast
  note pa = patchManifestChecksums_Inr [OF v4 a names]
  have c4: "calm v4" using pa c3 kept_calm by blast
  obtain v5 where v5: "arch_Rename (bp @ ''.tmp'') bp v4 = (Inr (), v5)" using arch_Rename_calm [OF c4] pa by blast
  have c5: "calm v5" "\<exists>a. map_of (archives v5) bp = Some a" using arch_Rename_Inr [OF v5] pa c4 kept_calm by auto
  then obtain a' where a': "arch_Stat bp v5 = (Inr a', tick v5)" using arch_Stat_calm by blast
  have "snd (fst (pruneBackups B cfg (md_Type m) (md_ID m) (tick v5))) = None" using pruneBackups_calm [of "tick v5"] c5(1) by simp
  then show ?thesis using v2 v3 v4 v5 a' unfolding create_archive_def publish_archive_def bp_def Let_def
    by (auto simp: and_then_def wrapped_def on_error_def case_prod_beta)
qed

lemma createBackup_calm:
  assumes "calm w" "no_leftovers w"
  shows "\<exists>b w'. createBackup B t nm w = (Inr b, w')"
proof -
  obtain c v1 where c: "GetConfig (tick w) = (c, v1)" "same (tick w) v1" using GetConfig_calm [of "tick w"] assms(1) by auto
  have "calm v1" "no_leftovers v1" using c(2) assms by (auto simp: same_def calm_def no_leftovers_def)
  then have "\<exists>b w'. create_archive B cfg m0 v1 = (Inr b, w')" for cfg m0 by (rule create_archive_calm)
  then show ?thesis using c(1) assms(1) unfolding createBackup_def by (simp add: and_then_def wrapped_def Let_def)
qed

section \<open>Staging and swapping\<close>

lemma Clean_nonempty: "Clean n \<noteq> ''''"
  by (simp add: Clean_def Let_def)

lemma sanitize_below:
  assumes "cs \<noteq> []" "list_all comp_ok cs" "sanitizeArchivePath cwd (abs_path cs) n = Inr p"
  shows "\<exists>zs. zs \<noteq> [] \<and> list_all comp_ok (cs @ zs) \<and> p = abs_path (cs @ zs) \<and> clean_comps True cs (Split n SLASH) = cs @ zs"
proof -
  let ?ys = "clean_comps True cs (Split n SLASH)"
  have n: "\<not> IsAbs n" using assms(3) by (auto simp: sanitizeArchivePath_def split: if_splits)
  have j: "JoinPath [abs_path cs, Clean n] = abs_path ?ys"
    using JoinPath_abs_path [OF assms(1,2) Clean_nonempty] Clean_relative [OF n] by simp
  have ok: "list_all comp_ok ?ys" using clean_comps_rooted_ok [OF assms(2)] Split_no_sep by blast
  have h: "HasPrefix (abs_path ?ys) (abs_path cs @ ''/'')" "p = abs_path ?ys"
    using assms(3) n j Abs_abs_path [OF ok] Abs_abs_path [OF assms(2)] by (auto simp: sanitizeArchivePath_def Let_def split: if_splits)
  have "?ys \<noteq> []"
  proof
    assume "?ys = []"
    then have "HasPrefix ''/'' (abs_path cs @ ''/'')" using h(1) by (simp add: abs_path_def)
    then show False using assms(1) by (auto simp: HasPrefix_iff abs_path_def)
  qed
  then show ?thesis using below_abs_path [OF assms(1) _ assms(2) ok] h ok by auto
qed

lemma sanitize_name:
  assumes "cs \<noteq> []" "list_all comp_ok cs" "comp_ok n"
  shows "sanitizeArchivePath cwd (abs_path cs) n = Inr (abs_path (cs @ [n]))"
proof -
  have n: "\<not> IsAbs n" using assms(3) by (cases n) (auto simp: IsAbs_def HasPrefix_def comp_ok_def)
  have s: "Split n SLASH = [n]" using assms(3) by (simp add: comp_ok_def Split_no_occ)
  have j: "JoinPath [abs_path cs, Clean n] = abs_path (cs @ [n])"
    using JoinPath_abs_path [OF assms(1,2) Clean_nonempty] Clean_relative [OF n, of cs] s assms(3) by (simp add: comp_ok_def)
  have ok: "list_all comp_ok (cs @ [n])" using assms by simp
  have "HasPrefix (abs_path (cs @ [n])) (abs_path cs @ ''/'')" using assms(1) by (simp add: abs_path_name HasPrefix_iff)
  then show ?thesis using n j Abs_abs_path [OF ok] Abs_abs_path [OF assms(2)] by (simp add: sanitizeArchivePath_def Let_def)
qed

lemma WriteTo_calm: "calm w \<Longrightarrow> WriteTo p d w = (Inr (), (tick w)\<lparr>files := (files w)(p \<mapsto> d)\<rparr>)"
  by (simp add: WriteTo_def)

text \<open>All but the files.\<close>

definition still :: "'w bk_world_scheme \<Rightarrow> 'w bk_world_scheme \<Rightarrow> bool" where
  "still w w' \<longleftrightarrow> archives w' = archives w \<and> faults w' = faults w \<and> staging w' = staging w"

lemma still_trans: "still u v \<Longrightarrow> still v w \<Longrightarrow> still u w" by (simp add: still_def)

lemma tick_fields [simp]: "archives (tick w) = archives w" "staging (tick w) = staging w"
  by (simp_all add: tick_def)

lemma extract_own:
  assumes "calm w" "cs \<noteq> []" "list_all comp_ok cs" "comp_ok (fst p)" "fst p \<noteq> metadataName" "length (snd p) \<le> maxBackupEntrySize"
  shows "\<exists>w'. extractFileFromZip B (file_entry p) (abs_path cs) w = (Inr (), w') \<and> still w w' \<and>
     files w' = (files w)(abs_path (cs @ [fst p]) \<mapsto> snd p)"
  using assms sanitize_name [OF assms(2-4)]
  by (simp add: extractFileFromZip_def and_then_def read_entry_calm CreateFile_def WriteTo_calm still_def)

definition staged_files :: "string list \<Rightarrow> (string \<times> string) list \<Rightarrow> (string \<rightharpoonup> string)" where
  "staged_files cs ps = map_of (map (\<lambda>p. (abs_path (cs @ [fst p]), snd p)) ps)"

lemma name_inject: "cs \<noteq> [] \<Longrightarrow> abs_path (cs @ [m]) = abs_path (cs @ [n]) \<longleftrightarrow> m = n"
  by (simp add: abs_path_name)

lemma staged_dom: "dom (staged_files cs ps) = (\<lambda>p. abs_path (cs @ [fst p])) ` set ps"
  by (simp add: staged_files_def dom_map_of_conv_image_fst image_image)

lemma staged_None: "cs \<noteq> [] \<Longrightarrow> n \<notin> fst ` set ps \<Longrightarrow> staged_files cs ps (abs_path (cs @ [n])) = None"
  unfolding staged_files_def by (force simp: map_of_eq_None_iff name_inject)

lemma stage_own:
  assumes "calm w" "cs \<noteq> []" "list_all comp_ok cs" "distinct (map fst ps)"
    "\<forall>p\<in>set ps. comp_ok (fst p) \<and> fst p \<noteq> metadataName \<and> length (snd p) \<le> maxBackupEntrySize \<and> fst p \<in> fe_Path ` set (md_Files m)"
  shows "\<exists>w'. stage_entries B m (abs_path cs) (map file_entry ps) w = (Inr (), w') \<and> still w w' \<and> files w' = files w ++ staged_files cs ps"
  using assms
proof (induction ps arbitrary: w)
  case Nil
  then show ?case by (simp add: staged_files_def still_def)
next
  case (Cons p ps)
  obtain v where v: "extractFileFromZip B (file_entry p) (abs_path cs) w = (Inr (), v)" "still w v"
    "files v = (files w)(abs_path (cs @ [fst p]) \<mapsto> snd p)"
    using extract_own [OF Cons.prems(1-3), of p B] Cons.prems(5) by auto
  have "calm v" using v(2) Cons.prems(1) by (simp add: still_def calm_def)
  from Cons.IH [OF this Cons.prems(2,3)] Cons.prems(4,5) obtain w' where
    w': "stage_entries B m (abs_path cs) (map file_entry ps) v = (Inr (), w')" "still v w'" "files w' = files v ++ staged_files cs ps" by auto
  have "staged_files cs ps (abs_path (cs @ [fst p])) = None" using staged_None [OF Cons.prems(2)] Cons.prems(4) by simp
  then have "files w' = files w ++ staged_files cs (p # ps)"
    using w'(3) v(3) by (simp add: map_add_upd_left domIff) (simp add: staged_files_def)
  moreover have "stage_entries B m (abs_path cs) (map file_entry (p # ps)) w = (Inr (), w')"
    using v(1) w'(1) Cons.prems(5) by (simp add: and_then_def wrapped_def)
  ultimately show ?case using still_trans [OF v(2) w'(2)] by blast
qed

lemma Rename_calm:
  "calm w \<Longrightarrow> files w p = Some d \<Longrightarrow> \<exists>w'. Rename p q w = (Inr (), w') \<and> still w w' \<and> files w' = ((files w)(p := None))(q \<mapsto> d)"
  by (simp add: Rename_def still_def)

lemma Stat_calm: "calm w \<Longrightarrow> files w p = Some d \<Longrightarrow> Stat p w = (Inr (), tick w)"
  by (simp add: Stat_def)

lemma swap_own:
  assumes "calm w" "cs \<noteq> []" "list_all comp_ok (cs @ [s])" "bv_dataDir B = abs_path cs" "distinct (map fst ps)"
    "\<forall>p\<in>set ps. comp_ok (fst p) \<and> CHR 0x00 \<notin> set (fst p) \<and> files w (abs_path (cs @ [s, fst p])) = Some (snd p)"
  shows "\<exists>w'. swap_files B (abs_path (cs @ [s])) (map (file_record B) ps) w = (Inr (), w') \<and> still w w' \<and>
     (\<forall>q. files w' q = (case staged_files cs ps q of Some d \<Rightarrow> Some d
        | None \<Rightarrow> if q \<in> dom (staged_files (cs @ [s]) ps) then None else files w q))"
  using assms
proof (induction ps arbitrary: w)
  case Nil
  then show ?case by (simp add: staged_files_def still_def)
next
  case (Cons p ps)
  let ?src = "abs_path (cs @ [s, fst p])" and ?dst = "abs_path (cs @ [fst p])"
  have ok: "list_all comp_ok cs" "comp_ok s" "comp_ok (fst p)" using Cons.prems(3,6) by auto
  have j: "JoinPath [abs_path (cs @ [s]), fst p] = ?src" "JoinPath [bv_dataDir B, fst p] = ?dst"
    using JoinPath_name [of "cs @ [s]" "fst p"] JoinPath_name [of cs "fst p"] Cons.prems(2-4) ok by simp_all
  obtain v where v: "Rename ?src ?dst (tick (tick w)) = (Inr (), v)" "still (tick (tick w)) v" "files v = ((files w)(?src := None))(?dst \<mapsto> snd p)"
    using Rename_calm [of "tick (tick w)" ?src "snd p" ?dst] Cons.prems(1,6) by auto
  have cv: "calm v" using v(2) Cons.prems(1) by (simp add: still_def calm_def)
  have ne: "abs_path (cs @ [s, m]) \<noteq> abs_path (cs @ [n])" if "comp_ok m" "comp_ok n" for m n
    using abs_path_inject [of "cs @ [s, m]" "cs @ [n]"] ok that by simp
  have "files v (abs_path (cs @ [s, fst q])) = Some (snd q)" if "q \<in> set ps" for q
  proof -
    have "fst p \<notin> fst ` set ps" using Cons.prems(5) by simp
    then have "fst q \<noteq> fst p" using that by (metis imageI)
    then have "abs_path (cs @ [s, fst q]) \<noteq> ?src" using name_inject [of "cs @ [s]" "fst q" "fst p"] by simp
    moreover have "abs_path (cs @ [s, fst q]) \<noteq> ?dst" using ne [of "fst q" "fst p"] ok(3) that Cons.prems(6) by simp
    ultimately show ?thesis using that Cons.prems(6) v(3) by simp
  qed
  with Cons.IH [OF cv Cons.prems(2-4)] Cons.prems(5,6) obtain w' where
    w': "swap_files B (abs_path (cs @ [s])) (map (file_record B) ps) v = (Inr (), w')" "still v w'"
      "\<And>q. files w' q = (case staged_files cs ps q of Some d \<Rightarrow> Some d | None \<Rightarrow> if q \<in> dom (staged_files (cs @ [s]) ps) then None else files v q)"
    by auto
  have e: "fst p \<noteq> ''''" using ok(3) by (simp add: comp_ok_def)
  have "swap_files B (abs_path (cs @ [s])) (map (file_record B) (p # ps)) w = (Inr (), w')"
    using j v(1) w'(1) e Cons.prems(1,6) Stat_calm [of w ?src "snd p"] by (simp add: and_then_def wrapped_def)
  moreover have "still w w'" using v(2) w'(2) by (simp add: still_def)
  moreover have "files w' q = (case staged_files cs (p # ps) q of Some d \<Rightarrow> Some d
      | None \<Rightarrow> if q \<in> dom (staged_files (cs @ [s]) (p # ps)) then None else files w q)" for q
  proof -
    have s: "staged_files cs (p # ps) = (staged_files cs ps)(?dst \<mapsto> snd p)" "staged_files (cs @ [s]) (p # ps) = (staged_files (cs @ [s]) ps)(?src \<mapsto> snd p)"
      by (simp_all add: staged_files_def)
    have "staged_files cs ps ?dst = None" using staged_None [OF Cons.prems(2)] Cons.prems(5) by simp
    moreover have "?dst \<notin> dom (staged_files (cs @ [s]) ps)"
    proof
      assume "?dst \<in> dom (staged_files (cs @ [s]) ps)"
      then obtain r where "r \<in> set ps" "?dst = abs_path (cs @ [s, fst r])" by (auto simp: staged_dom)
      then show False using ne [of "fst r" "fst p"] ok(3) Cons.prems(6) by simp
    qed
    ultimately show ?thesis using w'(3) [of q] v(3) s by (auto split: option.splits)
  qed
  ultimately show ?case by blast
qed

section \<open>The round trip\<close>

lemma mkdir_temp_fresh:
  assumes "calm w" "staging w = []" "n \<noteq> 0"
  shows "mkdir_temp n prefix w =
     (Inr (prefix @ nat_text (entropy w (calls w) 0)), (tick w)\<lparr>staging := [prefix @ nat_text (entropy w (calls w) 0)]\<rparr>)"
  using assms by (cases n) (simp_all add: Let_def)

lemma staging_name:
  assumes "cs \<noteq> []" "list_all comp_ok cs" "bv_dataDir B = abs_path cs"
  shows "staging_prefix B @ nat_text k = abs_path (cs @ [''restore-staging-'' @ nat_text k]) \<and>
     staging_prefix B = abs_path cs @ ''/restore-staging-'' \<and> comp_ok (''restore-staging-'' @ nat_text k)"
proof -
  have "SLASH \<notin> set (nat_text k)" using nat_text_dec [of SLASH k] by auto
  then have "comp_ok (''restore-staging-'' @ nat_text k)" "comp_ok ''restore-staging-''" by (auto simp: comp_ok_def)
  then show ?thesis using assms JoinPath_name [OF assms(1,2), of "''restore-staging-''"] by (simp add: staging_prefix_def abs_path_name)
qed

lemma RemoveAll_calm:
  "calm w \<Longrightarrow> files (RemoveAll dir w) q = (if HasPrefix q (dir @ ''/'') then None else files w q)"
  by (simp add: RemoveAll_def)

lemma open_zip_calm:
  assumes "calm w" "map_of (archives w) p = Some a" "za_Entries a = Some fs"
  shows "open_zip msg p w = (Inr (a, fs), tick (tick w))"
  using assms by (simp add: open_zip_def and_then_def wrapped_def arch_Stat_def)

text \<open>A payload that may be restored, and the names of the staging directories.\<close>

definition restorable :: "(string \<times> string) list \<Rightarrow> bool" where
  "restorable ps \<longleftrightarrow> distinct (map fst ps) \<and>
     (\<forall>p\<in>set ps. comp_ok (fst p) \<and> CHR 0x00 \<notin> set (fst p) \<and> fst p \<noteq> metadataName \<and> length (snd p) \<le> maxBackupEntrySize)"

lemma staged_key: "cs \<noteq> [] \<Longrightarrow> distinct (map fst ps) \<Longrightarrow> p \<in> set ps \<Longrightarrow> staged_files cs ps (abs_path (cs @ [fst p])) = Some (snd p)"
proof -
  assume a: "cs \<noteq> []" "distinct (map fst ps)" "p \<in> set ps"
  then have "distinct (map fst (map (\<lambda>p. (abs_path (cs @ [fst p]), snd p)) ps))"
    by (simp add: distinct_map comp_def inj_on_def name_inject)
  then show ?thesis using a(3) unfolding staged_files_def by (intro map_of_is_SomeI) auto
qed

lemma stage_archive:
  assumes "calm w" "staging w = []" "cs \<noteq> []" "list_all comp_ok cs" "bv_dataDir B = abs_path cs" "archive_of B m ps fs" "restorable ps"
  shows "\<exists>s v. comp_ok s \<and> HasPrefix (abs_path (cs @ [s])) (staging_prefix B) \<and> calm v \<and> files v = files w ++ staged_files (cs @ [s]) ps \<and>
     stageRestore B fs m w = (if ps = [] then (Inr '''', RemoveAll (abs_path (cs @ [s])) v) else (Inr (abs_path (cs @ [s])), v))"
proof -
  define s where "s = ''restore-staging-'' @ nat_text (entropy w (calls w) 0)"
  define st where "st = abs_path (cs @ [s])"
  have n: "staging_prefix B @ nat_text (entropy w (calls w) 0) = st" "comp_ok s"
    using staging_name [OF assms(3-5), of "entropy w (calls w) 0"] unfolding s_def st_def by blast+
  define v2 where "v2 = (tick w)\<lparr>staging := [st]\<rparr>"
  have mk: "mkdir_temp 10000 (staging_prefix B) w = (Inr st, v2)"
    using mkdir_temp_fresh [OF assms(1,2), of 10000 "staging_prefix B"] n(1) by (simp add: v2_def)
  have c2: "calm v2" "files v2 = files w" using assms(1) by (simp_all add: v2_def calm_def)
  have cso: "cs @ [s] \<noteq> []" "list_all comp_ok (cs @ [s])" using assms(3,4) n(2) by auto
  have fs: "fs = metadata_entry B m # map file_entry ps" "md_Files m = map (file_record B) ps" using assms(6) by (auto simp: archive_of_def)
  have paths: "fe_Path ` set (md_Files m) = fst ` set ps" unfolding fs(2) by (simp add: image_image)
  have d: "distinct (map fst ps)" using assms(7) by (simp add: restorable_def)
  have each: "\<forall>p\<in>set ps. comp_ok (fst p) \<and> fst p \<noteq> metadataName \<and> length (snd p) \<le> maxBackupEntrySize \<and> fst p \<in> fe_Path ` set (md_Files m)"
    unfolding paths using assms(7) by (simp add: restorable_def)
  obtain v where v: "stage_entries B m st (map file_entry ps) v2 = (Inr (), v)" "still v2 v" "files v = files w ++ staged_files (cs @ [s]) ps"
    using stage_own [OF c2(1) cso d each, of B] c2(2) unfolding st_def by auto
  have "stage_entries B m st fs v2 = (Inr (), v)" using v(1) by (simp add: fs(1) metadata_entry_def)
  then have "stageRestore B fs m w = (if ps = [] then (Inr '''', RemoveAll st v) else (Inr st, v))"
    using mk fs(2) unfolding stageRestore_def by (simp add: and_then_def wrapped_def on_error_def)
  moreover have "calm v" using v(2) c2(1) by (simp add: still_def calm_def)
  moreover have "HasPrefix st (staging_prefix B)" using n(1) by (auto simp: HasPrefix_iff)
  ultimately show ?thesis using v(3) n(2) unfolding st_def by blast
qed

lemma below_staging:
  assumes "HasPrefix st (staging_prefix B)" "\<not> HasPrefix q (staging_prefix B)"
  shows "\<not> HasPrefix q (st @ x)"
  using assms by (auto simp: HasPrefix_iff)

lemma swap_archive:
  assumes "calm v" "cs \<noteq> []" "list_all comp_ok (cs @ [s])" "bv_dataDir B = abs_path cs" "restorable ps" "md_Files m = map (file_record B) ps"
    "files v = f ++ staged_files (cs @ [s]) ps" "HasPrefix (abs_path (cs @ [s])) (staging_prefix B)"
  shows "\<exists>w'. swapStagingIntoDataDir B (abs_path (cs @ [s])) m v = (Inr (), w') \<and>
     (\<forall>p\<in>set ps. files w' (JoinPath [bv_dataDir B, fst p]) = Some (snd p)) \<and>
     (\<forall>q. \<not> HasPrefix q (staging_prefix B) \<longrightarrow> q \<notin> (\<lambda>p. JoinPath [bv_dataDir B, fst p]) ` set ps \<longrightarrow> files w' q = f q)"
proof -
  let ?st = "abs_path (cs @ [s])"
  have ok: "list_all comp_ok cs" "comp_ok s" "distinct (map fst ps)" using assms(3,5) by (auto simp: restorable_def)
  have each: "\<forall>p\<in>set ps. comp_ok (fst p) \<and> CHR 0x00 \<notin> set (fst p) \<and> files v (abs_path (cs @ [s, fst p])) = Some (snd p)"
    using assms(5,7) staged_key [of "cs @ [s]" ps] by (auto simp: restorable_def)
  obtain v4 where v4: "swap_files B ?st (map (file_record B) ps) v = (Inr (), v4)" "still v v4"
    "\<And>q. files v4 q = (case staged_files cs ps q of Some d \<Rightarrow> Some d | None \<Rightarrow> if q \<in> dom (staged_files (cs @ [s]) ps) then None else files v q)"
    using swap_own [OF assms(1-4) ok(3) each] by blast
  have c4: "calm v4" using v4(2) assms(1) by (simp add: still_def calm_def)
  have "?st \<noteq> ''''" by (simp add: abs_path_def)
  then have r: "swapStagingIntoDataDir B ?st m v = (Inr (), RemoveAll ?st v4)"
    using v4(1) assms(6) by (simp add: swapStagingIntoDataDir_def and_then_def)
  have j: "JoinPath [bv_dataDir B, fst p] = abs_path (cs @ [fst p])" if "p \<in> set ps" for p
    using JoinPath_name [OF assms(2) ok(1), of "fst p"] assms(4) each that by simp
  have 1: "files (RemoveAll ?st v4) (JoinPath [bv_dataDir B, fst p]) = Some (snd p)" if p: "p \<in> set ps" for p
  proof -
    have "\<not> HasPrefix (abs_path (cs @ [fst p])) (?st @ ''/'')"
      using below_abs_path [of "cs @ [s]" "cs @ [fst p]"] ok each p by auto
    then show ?thesis using v4(3) [of "abs_path (cs @ [fst p])"] staged_key [OF assms(2) ok(3) p] j [OF p] by (simp add: RemoveAll_calm [OF c4])
  qed
  have 2: "files (RemoveAll ?st v4) q = f q"
    if q: "\<not> HasPrefix q (staging_prefix B)" "q \<notin> (\<lambda>p. JoinPath [bv_dataDir B, fst p]) ` set ps" for q
  proof -
    have "abs_path ((cs @ [s]) @ [n]) = ?st @ SLASH # n" for n using abs_path_name [of "cs @ [s]" n] by simp
    then have "q = abs_path ((cs @ [s]) @ [n]) \<Longrightarrow> False" for n using below_staging [OF assms(8) q(1), of "SLASH # n"] by (simp add: HasPrefix_iff)
    then have "q \<notin> dom (staged_files (cs @ [s]) ps)" unfolding staged_dom by blast
    moreover have "staged_files cs ps q = None" using q(2) j staged_dom [of cs ps] by (force simp: image_iff)
    ultimately show ?thesis using v4(3) [of q] assms(7) below_staging [OF assms(8) q(1), of "''/''"]
      by (simp add: RemoveAll_calm [OF c4] map_add_def domIff)
  qed
  show ?thesis using r 1 2 by blast
qed

lemma restore_own:
  assumes "calm w" "staging w = []" "clean_dir (bv_dataDir B)" "ValidateBackupID ident = None"
    "map_of (archives w) (backup_path B ident) = Some a" "za_Entries a = Some fs" "archive_of B m ps fs" "restorable ps"
  shows "\<exists>w'. bk_Restore B ident w = (Inr (), w') \<and>
     (\<forall>p\<in>set ps. files w' (JoinPath [bv_dataDir B, fst p]) = Some (snd p)) \<and>
     (\<forall>q. \<not> HasPrefix q (staging_prefix B) \<longrightarrow> q \<notin> (\<lambda>p. JoinPath [bv_dataDir B, fst p]) ` set ps \<longrightarrow> files w' q = files w q)"
proof -
  obtain cs where cs: "cs \<noteq> []" "list_all comp_ok cs" "bv_dataDir B = abs_path cs" using clean_dir_comps [OF assms(3)] by blast
  have "(maxBackupEntrySize :: nat) < 2 ^ 63" by (simp add: maxBackupEntrySize_def)
  then have small: "\<forall>p\<in>set ps. fst p \<noteq> metadataName \<and> length (snd p) < 2 ^ 63" "distinct (map fst ps)"
    using assms(8) by (auto simp: restorable_def intro: le_less_trans)
  have "calm (tick (tick w))" using assms(1) by simp
  then obtain v where v: "verified B fs (tick (tick w)) = (Inr m, v)" "same (tick (tick w)) v"
    using verify_own_archive [OF _ assms(7) small(2,1)] by (fastforce simp: verified_def)
  have sv: "calm v" "staging v = []" "files v = files w" using v(2) assms(1,2) by (auto simp: same_def calm_def)
  obtain s u where u: "comp_ok s" "HasPrefix (abs_path (cs @ [s])) (staging_prefix B)" "calm u" "files u = files w ++ staged_files (cs @ [s]) ps"
    "stageRestore B fs m v = (if ps = [] then (Inr '''', RemoveAll (abs_path (cs @ [s])) u) else (Inr (abs_path (cs @ [s])), u))"
    using stage_archive [OF sv(1,2) cs assms(7,8)] sv(3) by auto
  have r: "bk_Restore B ident w = (case stageRestore B fs m v of (Inl e, w) \<Rightarrow> (Inl e, w)
      | (Inr dir, w) \<Rightarrow> on_error (swapStagingIntoDataDir B dir m) (RemoveAll dir) w)"
    using assms(4) open_zip_calm [OF assms(1,5,6)] v(1) by (simp add: bk_Restore_def and_then_def)
  have m: "md_Files m = map (file_record B) ps" using assms(7) by (simp add: archive_of_def)
  have oks: "list_all comp_ok (cs @ [s])" using cs(2) u(1) by simp
  show ?thesis
  proof (cases "ps = []")
    case True
    then have "bk_Restore B ident w = (Inr (), RemoveAll (abs_path (cs @ [s])) u)"
      using r u(5) by (simp add: on_error_def swapStagingIntoDataDir_def)
    moreover have "files (RemoveAll (abs_path (cs @ [s])) u) q = files w q" if "\<not> HasPrefix q (staging_prefix B)" for q
      using True u(4) below_staging [OF u(2) that, of "''/''"] by (simp add: RemoveAll_calm [OF u(3)] staged_files_def)
    ultimately show ?thesis using True by auto
  next
    case False
    obtain w' where w': "swapStagingIntoDataDir B (abs_path (cs @ [s])) m u = (Inr (), w')"
      "\<forall>p\<in>set ps. files w' (JoinPath [bv_dataDir B, fst p]) = Some (snd p)"
      "\<forall>q. \<not> HasPrefix q (staging_prefix B) \<longrightarrow> q \<notin> (\<lambda>p. JoinPath [bv_dataDir B, fst p]) ` set ps \<longrightarrow> files w' q = files w q"
      using swap_archive [OF u(3) cs(1) oks cs(3) assms(8) m u(4,2)] by blast
    then have "bk_Restore B ident w = (Inr (), w')" using r u(5) False by (simp add: on_error_def)
    then show ?thesis using w'(2,3) by blast
  qed
qed

lemma restore_of_backup:
  assumes "clean_dir (bv_dataDir B)" "calm w2" "staging w2 = []" "ValidateBackupID ident = None"
    "map_of (archives w2) (backup_path B ident) = Some a" "za_Entries a = Some fs"
    "archive_of B m (payload M (filesForBackup B cfg)) fs"
    "\<forall>(src, n) \<in> set (filesForBackup B cfg). \<forall>d. M src = Some d \<longrightarrow> length d \<le> maxBackupEntrySize"
  shows "\<exists>w3. bk_Restore B ident w2 = (Inr (), w3) \<and>
     (\<forall>(src, n) \<in> set (filesForBackup B cfg). \<forall>d. M src = Some d \<longrightarrow> files w3 src = Some d) \<and>
     (\<forall>q. \<not> HasPrefix q (staging_prefix B) \<longrightarrow> q \<notin> fst ` set (filesForBackup B cfg) \<longrightarrow> files w3 q = files w2 q)"
proof -
  let ?F = "filesForBackup B cfg" and ?ps = "payload M (filesForBackup B cfg)"
  have "length d \<le> maxBackupEntrySize" if "(n, d) \<in> set ?ps" for n d using that assms(8) unfolding in_payload by auto
  then have names: "restorable ?ps"
    using payload_name_ok [of _ M B cfg] payload_distinct [OF names_distinct] unfolding restorable_def by auto
  obtain w3 where w3: "bk_Restore B ident w2 = (Inr (), w3)" "\<forall>p\<in>set ?ps. files w3 (JoinPath [bv_dataDir B, fst p]) = Some (snd p)"
    "\<forall>q. \<not> HasPrefix q (staging_prefix B) \<longrightarrow> q \<notin> (\<lambda>p. JoinPath [bv_dataDir B, fst p]) ` set ?ps \<longrightarrow> files w3 q = files w2 q"
    using restore_own [OF assms(2,3,1,4-7) names] by blast
  have src: "src = JoinPath [bv_dataDir B, n]" if "(src, n) \<in> set ?F" for src n using that by (auto simp: filesForBackup_def)
  have A: "files w3 src = Some d" if "(src, n) \<in> set ?F" "M src = Some d" for src n d
  proof -
    have "(n, d) \<in> set ?ps" using that unfolding in_payload by blast
    then show ?thesis using w3(2) src [OF that(1)] by (metis fst_conv snd_conv)
  qed
  have "(\<lambda>p. JoinPath [bv_dataDir B, fst p]) ` set ?ps \<subseteq> fst ` set ?F"
  proof
    fix q assume "q \<in> (\<lambda>p. JoinPath [bv_dataDir B, fst p]) ` set ?ps"
    then obtain n d where q: "(n, d) \<in> set ?ps" "q = JoinPath [bv_dataDir B, n]" by auto
    then obtain s where "(s, n) \<in> set ?F" unfolding in_payload by blast
    then show "q \<in> fst ` set ?F" using src q(2) by (metis fst_conv image_eqI)
  qed
  then have "\<forall>q. \<not> HasPrefix q (staging_prefix B) \<longrightarrow> q \<notin> fst ` set ?F \<longrightarrow> files w3 q = files w2 q" using w3(3) by blast
  moreover have "\<forall>(src, n) \<in> set ?F. \<forall>d. M src = Some d \<longrightarrow> files w3 src = Some d" using A by auto
  ultimately show ?thesis using w3(1) by (intro exI [of _ w3] conjI)
qed

text \<open>C34. A backup that was created restores to what was backed up: whatever happened to the data directory
  since, as long as the archive is still there, the restore succeeds, every file that existed when the backup
  was made (flows, accounts and what the backup configuration includes) has the bytes it had then, and no
  other file changes but below the staging directories.\<close>

theorem backup_round_trip:
  fixes w :: "'w bk_world_scheme"
  assumes "lawful_sort B" "lawful_uuid B" "clean_dir (bv_dataDir B)" "calm w" "createBackup B t name w = (Inr b, w1)"
    and "\<forall>(src, n) \<in> set (filesForBackup B (config_in_force w)). \<forall>d. files w src = Some d \<longrightarrow> length d \<le> maxBackupEntrySize"
    and "calm w2" "staging w2 = []" "map_of (archives w2) (b_Path b) = map_of (archives w1) (b_Path b)"
  shows "\<exists>w3. bk_Restore B (b_ID b) w2 = (Inr (), w3) \<and>
     (\<forall>(src, n) \<in> set (filesForBackup B (config_in_force w)). \<forall>d. files w src = Some d \<longrightarrow> files w3 src = Some d) \<and>
     (\<forall>q. \<not> HasPrefix q (staging_prefix B) \<longrightarrow> q \<notin> fst ` set (filesForBackup B (config_in_force w)) \<longrightarrow> files w3 q = files w2 q)"
proof -
  obtain a m fs where c: "ValidateBackupID (b_ID b) = None" "b_Path b = backup_path B (b_ID b)"
    "map_of (archives w1) (b_Path b) = Some a" "za_Entries a = Some fs"
    "archive_of B m (payload (files w) (filesForBackup B (config_in_force w))) fs"
    using createBackup_Inr [OF assms(1,2,4,5)] by auto
  have a: "map_of (archives w2) (backup_path B (b_ID b)) = Some a" using assms(9) c(2,3) by simp
  show ?thesis by (rule restore_of_backup [OF assms(3,7,8) c(1) a c(4,5) assms(6)])
qed

theorem backup_round_trip_witness:
  "\<exists>b w1 w3. createBackup (sample_backup_env (\<lambda>_. ''b1'')) ''manual'' ''nightly'' sample_backup_world = (Inr b, w1) \<and>
     bk_Restore (sample_backup_env (\<lambda>_. ''b1'')) (b_ID b) (sample_backup_world\<lparr>files := Map.empty, archives := archives w1\<rparr>) = (Inr (), w3) \<and>
     files w3 ''/data/flows.json'' = Some ''[1]''"
proof -
  let ?B = "sample_backup_env (\<lambda>_. ''b1'')" and ?w = sample_backup_world
  have "calm ?w" "no_leftovers ?w" by (simp_all add: calm_def no_leftovers_def sample_backup_world_def)
  then obtain b w1 where c: "createBackup ?B ''manual'' ''nightly'' ?w = (Inr b, w1)" using createBackup_calm by blast
  let ?w2 = "?w\<lparr>files := Map.empty, archives := archives w1\<rparr>"
  have calm: "calm ?w" "calm ?w2" "staging ?w2 = []" by (simp_all add: calm_def sample_backup_world_def)
  have u: "lawful_uuid ?B" unfolding lawful_uuid_def sample_backup_env_def by simp code_simp
  have dir: "clean_dir (bv_dataDir ?B)" by code_simp
  have cfg: "(''/data/flows.json'', ''flows.json'') \<in> set (filesForBackup ?B (config_in_force ?w))" by code_simp
  have small: "\<forall>(src, n) \<in> set (filesForBackup ?B (config_in_force ?w)). \<forall>d. files ?w src = Some d \<longrightarrow> length d \<le> maxBackupEntrySize"
    by (auto simp: sample_backup_world_def maxBackupEntrySize_def split: if_splits)
  obtain w3 where w3: "bk_Restore ?B (b_ID b) ?w2 = (Inr (), w3)"
    "\<forall>(src, n) \<in> set (filesForBackup ?B (config_in_force ?w)). \<forall>d. files ?w src = Some d \<longrightarrow> files w3 src = Some d"
    using backup_round_trip [OF sample_backup_lawful u dir calm(1) c small calm(2,3)] by auto
  have "files ?w ''/data/flows.json'' = Some ''[1]''" by (simp add: sample_backup_world_def)
  then have "files w3 ''/data/flows.json'' = Some ''[1]''" using w3(2) cfg by fastforce
  then show ?thesis using c w3(1) by blast
qed

end
