(* ===== verification/BackupSafety.thy ===== *)
theory BackupSafety
  imports BackupRestore
begin

text \<open>
  Safety of backups under every pattern of failures: a restore publishes content the manifest vouches for and
  nothing else, retention removes old backups of its type only, and where the code loses a backup or panics.
\<close>

section \<open>What verification guarantees\<close>

definition payload_entry :: "zentry \<Rightarrow> bool" where
  "payload_entry f \<longleftrightarrow> \<not> ze_IsDir f \<and> ze_Name f \<noteq> metadataName"

text \<open>Content whose checksum the manifest records.\<close>

definition vouched :: "backup_env \<Rightarrow> backupMetadata \<Rightarrow> string \<Rightarrow> bool" where
  "vouched B m d \<longleftrightarrow> bv_sha256 B d \<in> fe_Checksum ` set (md_Files m)"

definition authentic :: "backup_env \<Rightarrow> backupMetadata \<Rightarrow> zentry \<Rightarrow> bool" where
  "authentic B m f \<longleftrightarrow> (\<exists>d. ze_Body f = Some (Bytes d) \<and> vouched B m d)"

lemma checksum_Inr:
  assumes "checksumZipFile B f w = (Inr c, w')"
  shows "\<exists>d. ze_Body f = Some (Bytes d) \<and> c = bv_sha256 B d"
proof -
  obtain b v where b: "read_entry f w = (Inr b, v)"
    "(case b of Bytes s \<Rightarrow> (Inr (bv_sha256 B s), v) | Document _ \<Rightarrow> (Inl (ErrText ''not a payload''), v)) = (Inr c, w')"
    using assms by (auto simp: checksumZipFile_def and_then_Inr)
  then show ?thesis using read_entry_Inr [OF b(1)] by (cases b) auto
qed

lemma find_in: "find P xs = Some x \<Longrightarrow> x \<in> set xs"
  by (auto simp: find_Some_iff)

lemma verify_entries_sound:
  "verify_entries B m fs seen w = (r, w') \<Longrightarrow> same w w' \<and>
     (\<forall>s. r = Inr s \<longrightarrow> set s = ze_Name ` {f \<in> set fs. payload_entry f} \<union> set seen \<and> (\<forall>f\<in>set fs. payload_entry f \<longrightarrow> authentic B m f))"
proof (induction B m fs seen w rule: verify_entries.induct)
  case (2 B m f fs seen w)
  show ?case
  proof (cases "payload_entry f")
    case False
    then have i: "ze_IsDir f \<or> ze_Name f = metadataName" by (auto simp: payload_entry_def)
    then have "verify_entries B m fs seen w = (r, w')" using 2(3) by simp
    from 2(1) [OF i this] show ?thesis using False by auto
  next
    case True
    then have i: "\<not> (ze_IsDir f \<or> ze_Name f = metadataName)" by (auto simp: payload_entry_def)
    show ?thesis
    proof (cases "find (\<lambda>x. fe_Path x = ze_Name f) (rev (md_Files m))")
      case None
      then show ?thesis using 2(3) i by auto
    next
      case (Some x)
      then have x: "x \<in> set (md_Files m)" using find_in by force
      obtain c v where c: "checksumZipFile B f w = (c, v)" by (meson prod.exhaust)
      note s = checksumZipFile_same [OF c]
      show ?thesis
      proof (cases "ze_Size f \<noteq> 0 \<and> fe_Size x \<noteq> 0 \<and> declared_size f \<noteq> fe_Size x")
        case ok: False
        show ?thesis
        proof (cases "c = Inr (fe_Checksum x)")
          case good: True
          then have v: "verify_entries B m fs (ze_Name f # seen) v = (r, w')" using 2(3) i Some ok c by auto
          obtain d where "ze_Body f = Some (Bytes d)" "fe_Checksum x = bv_sha256 B d" using checksum_Inr c good by blast
          then have "authentic B m f" using x unfolding authentic_def vouched_def by (metis imageI)
          then show ?thesis using 2(2) [OF i Some ok c [symmetric] good _ v] s True same_trans by auto
        qed (use 2(3) i Some ok c s in \<open>auto split: sum.splits if_splits\<close>)
      qed (use 2(3) i Some in auto)
    qed
  qed
qed auto

lemma verified_sound:
  assumes "verified B fs w = (r, w')"
  shows "same w w' \<and> (\<forall>m. r = Inr m \<longrightarrow> (\<forall>f\<in>set fs. payload_entry f \<longrightarrow> authentic B m f) \<and>
     fe_Path ` set (md_Files m) \<subseteq> ze_Name ` {f \<in> set fs. payload_entry f})"
proof -
  obtain x where x: "verifyArchiveManifest B fs w = (x, w')" and xr: "\<And>m. r = Inr m \<Longrightarrow> x = Inr m"
    using assms by (auto simp: verified_def split: prod.splits sum.splits)
  show ?thesis
  proof (cases "find (\<lambda>f. ze_Name f = metadataName) fs")
    case None
    then show ?thesis using x xr by (auto simp: verifyArchiveManifest_def)
  next
    case (Some f)
    obtain y v where y: "decode_manifest f w = (y, v)" by (meson prod.exhaust)
    note s = decode_manifest_same [OF y]
    show ?thesis
    proof (cases y)
      case (Inl e)
      then show ?thesis using x xr Some y s by (auto simp: verifyArchiveManifest_def and_then_def wrapped_def)
    next
      case (Inr m)
      obtain z u where z: "verify_entries B m fs [] v = (z, u)" by (meson prod.exhaust)
      note e = verify_entries_sound [OF z]
      have "(w' = v \<and> (\<exists>e. x = Inl e)) \<or> (w' = u \<and> (\<forall>m'. x = Inr m' \<longrightarrow> m' = m \<and> (\<exists>sn. z = Inr sn \<and> fe_Path ` set (md_Files m) \<subseteq> set sn)))"
        using x Some y Inr z
        by (auto simp: verifyArchiveManifest_def and_then_def wrapped_def find_None_iff split: if_splits sum.splits option.splits)
      then show ?thesis using xr s e same_trans by fastforce
    qed
  qed
qed

section \<open>Staging\<close>

definition below :: "string \<Rightarrow> string \<Rightarrow> bool" where
  "below d p \<longleftrightarrow> HasPrefix p (d @ ''/'')"

text \<open>Outside the directory nothing changes, and what lies in it is vouched for.\<close>

definition outside_same :: "string \<Rightarrow> (string \<rightharpoonup> string) \<Rightarrow> (string \<rightharpoonup> string) \<Rightarrow> bool" where
  "outside_same d f g \<longleftrightarrow> (\<forall>p. \<not> below d p \<longrightarrow> g p = f p)"

definition inside_vouched :: "backup_env \<Rightarrow> backupMetadata \<Rightarrow> string \<Rightarrow> (string \<rightharpoonup> string) \<Rightarrow> bool" where
  "inside_vouched B m d f \<longleftrightarrow> (\<forall>p c. below d p \<longrightarrow> f p = Some c \<longrightarrow> vouched B m c)"

lemma outside_same_trans: "outside_same d f g \<Longrightarrow> outside_same d g h \<Longrightarrow> outside_same d f h"
  by (simp add: outside_same_def)

lemma outside_same_refl [simp]: "outside_same d f f" by (simp add: outside_same_def)

lemma outside_same_upd: "below d p \<Longrightarrow> outside_same d f (f(p := x))"
  by (simp add: outside_same_def)

lemma sanitized_below:
  assumes "cs \<noteq> []" "list_all comp_ok cs" "sanitizeArchivePath cwd (abs_path cs) n = Inr p"
  shows "below (abs_path cs) p" "n \<noteq> '''' \<Longrightarrow> JoinPath [abs_path cs, n] = p"
  using sanitize_below [OF assms] JoinPath_abs_path [OF assms(1,2), of n] abs_path_append [OF assms(1)]
  by (auto simp: below_def HasPrefix_iff)

lemma write_outside: "below d p \<Longrightarrow> WriteTo p x w = (r, w') \<Longrightarrow> outside_same d (files w) (files w')"
  using WriteTo_post outside_same_upd by metis

lemma CreateFile_outside: "below d p \<Longrightarrow> CreateFile p w = (r, w') \<Longrightarrow> outside_same d (files w) (files w')"
  by (auto simp: CreateFile_def split: prod.splits sum.splits dest!: sys_call_same intro: outside_same_upd) (auto simp: same_def outside_same_upd)

lemma Remove_outside: "below d p \<Longrightarrow> outside_same d (files w) (files (snd (Remove p w)))"
  using Remove_post [of p w "fst (Remove p w)" "snd (Remove p w)"] outside_same_upd by simp

lemma extract_sound:
  assumes "extractFileFromZip B f (abs_path cs) w = (r, w')" "cs \<noteq> []" "list_all comp_ok cs" "payload_entry f \<Longrightarrow> authentic B m f"
  shows "outside_same (abs_path cs) (files w) (files w') \<and>
     (r = Inr () \<longrightarrow> inside_vouched B m (abs_path cs) (files w) \<longrightarrow> inside_vouched B m (abs_path cs) (files w')) \<and>
     (r = Inr () \<longrightarrow> payload_entry f \<longrightarrow> (\<exists>p. sanitizeArchivePath (bv_cwd B) (abs_path cs) (ze_Name f) = Inr p))"
proof (cases "payload_entry f \<and> \<not> ze_Unsafe f \<and> \<not> ze_Size f > maxBackupEntrySize \<and> (\<exists>p. sanitizeArchivePath (bv_cwd B) (abs_path cs) (ze_Name f) = Inr p)")
  case False
  then show ?thesis using assms(1) by (auto simp: extractFileFromZip_def payload_entry_def split: if_splits sum.splits)
next
  case True
  then obtain p where p: "sanitizeArchivePath (bv_cwd B) (abs_path cs) (ze_Name f) = Inr p" by blast
  have b: "below (abs_path cs) p" using sanitized_below [OF assms(2,3) p] by simp
  obtain d where d: "ze_Body f = Some (Bytes d)" "vouched B m d" using assms(4) True by (auto simp: authentic_def)

  have e: "and_then sys_call (\<lambda>_. and_then (read_entry f) (\<lambda>b. and_then (CreateFile p) (\<lambda>_. case b of
        Document _ \<Rightarrow> (\<lambda>w. (Inl (ErrText ''not a payload''), w))
      | Bytes data \<Rightarrow> and_then (WriteTo p (LimitReader data)) (\<lambda>_ w.
          if over_limit (length data) then (Inl (too_big f), snd (Remove p w)) else (Inr (), w))))) w = (r, w')"
    using assms(1) True p by (simp add: extractFileFromZip_def payload_entry_def)
  obtain x1 v1 where 1: "sys_call w = (x1, v1)" by (meson prod.exhaust)
  obtain x2 v2 where 2: "read_entry f v1 = (x2, v2)" by (meson prod.exhaust)
  obtain x3 v3 where 3: "CreateFile p v2 = (x3, v3)" by (meson prod.exhaust)
  obtain x4 v4 where 4: "WriteTo p (take (Suc maxBackupEntrySize) d) v3 = (x4, v4)" by (meson prod.exhaust)
  have fs: "files v1 = files w" "files v2 = files w" using sys_call_same [OF 1] read_entry_same [OF 2] by (simp_all add: same_def)
  have o3: "outside_same (abs_path cs) (files w) (files v3)" using CreateFile_outside [OF b 3] fs by simp
  have o4: "outside_same (abs_path cs) (files w) (files v4)" using outside_same_trans [OF o3 write_outside [OF b 4]] .
  have x2: "bb = Bytes d" if "x2 = Inr bb" for bb using that read_entry_Inr [of f v1 bb v2] d(1) 2 by simp
  have "w' \<in> {v1, v2, v3, v4, snd (Remove p v4)} \<and> (r = Inr () \<longrightarrow> x4 = Inr () \<and> w' = v4 \<and> length d \<le> maxBackupEntrySize)"
    using e 1 2 3 4 x2 by (auto simp: and_then_def split: sum.splits if_splits)
  moreover have "inside_vouched B m (abs_path cs) (files v4)" if "x4 = Inr ()" "length d \<le> maxBackupEntrySize" "inside_vouched B m (abs_path cs) (files w)"
  proof -
    have "files v4 = (files v3)(p \<mapsto> d)" using WriteTo_post [OF 4] that by simp
    moreover have "files v3 = files w \<or> files v3 = (files w)(p \<mapsto> [])"
      using 3 fs by (auto simp: CreateFile_def split: prod.splits sum.splits dest!: sys_call_same) (auto simp: same_def)
    ultimately show ?thesis using that(3) d(2) by (auto simp: inside_vouched_def)
  qed
  ultimately show ?thesis using fs o3 o4 outside_same_trans [OF o4 Remove_outside [OF b]] p by auto
qed

lemma stage_entries_sound:
  assumes "stage_entries B m (abs_path cs) fs w = (r, w')" "cs \<noteq> []" "list_all comp_ok cs" "\<forall>f\<in>set fs. payload_entry f \<longrightarrow> authentic B m f"
  shows "outside_same (abs_path cs) (files w) (files w') \<and>
     (r = Inr () \<longrightarrow> inside_vouched B m (abs_path cs) (files w) \<longrightarrow> inside_vouched B m (abs_path cs) (files w')) \<and>
     (r = Inr () \<longrightarrow> (\<forall>f\<in>set fs. payload_entry f \<longrightarrow> ze_Name f \<in> fe_Path ` set (md_Files m) \<longrightarrow>
        (\<exists>p. sanitizeArchivePath (bv_cwd B) (abs_path cs) (ze_Name f) = Inr p)))"
  using assms
proof (induction fs arbitrary: w)
  case (Cons f fs)
  show ?case
  proof (cases "payload_entry f \<and> ze_Name f \<in> fe_Path ` set (md_Files m)")
    case False
    then have "stage_entries B m (abs_path cs) fs w = (r, w')" using Cons.prems(1) by (auto simp: payload_entry_def split: if_splits)
    from Cons.IH [OF this assms(2,3)] Cons.prems(4) False show ?thesis by auto
  next
    case True
    obtain x v where x: "extractFileFromZip B f (abs_path cs) w = (x, v)" by (meson prod.exhaust)
    have s: "and_then (wrapped (''extract '' @ ze_Name f) (extractFileFromZip B f (abs_path cs))) (\<lambda>_. stage_entries B m (abs_path cs) fs) w = (r, w')"
      using Cons.prems(1) True by (auto simp: payload_entry_def)
    note e = extract_sound [OF x assms(2,3), of m]
    show ?thesis
    proof (cases x)
      case (Inl err)
      then show ?thesis using s x e Cons.prems(4) by (auto simp: and_then_def wrapped_def)
    next
      case (Inr u)
      then have "stage_entries B m (abs_path cs) fs v = (r, w')" using s x by (simp add: and_then_def wrapped_def)
      from Cons.IH [OF this assms(2,3)] Cons.prems(4) e Inr True show ?thesis by (auto intro: outside_same_trans)
    qed
  qed
qed auto

section \<open>The swap\<close>

text \<open>Every file outside the directory is as it was, or holds vouched content under a name of the manifest.\<close>

definition published :: "backup_env \<Rightarrow> backupMetadata \<Rightarrow> string \<Rightarrow> (string \<rightharpoonup> string) \<Rightarrow> (string \<rightharpoonup> string) \<Rightarrow> bool" where
  "published B m d f g \<longleftrightarrow> (\<forall>q. \<not> below d q \<longrightarrow> g q = f q \<or>
     (\<exists>x\<in>set (md_Files m). q = JoinPath [bv_dataDir B, fe_Path x] \<and> (\<exists>c. g q = Some c \<and> vouched B m c)))"

lemma outside_published: "outside_same d f g \<Longrightarrow> published B m d f g"
  by (simp add: outside_same_def published_def)

lemma published_same: "published B m d f g \<Longrightarrow> outside_same d g h \<Longrightarrow> published B m d f h"
  by (simp add: outside_same_def published_def)

lemma rename_step:
  assumes "Rename (JoinPath [d, fe_Path x]) (JoinPath [bv_dataDir B, fe_Path x]) w = (r, w')" "x \<in> set (md_Files m)"
    "below d (JoinPath [d, fe_Path x])" "published B m d f (files w)" "inside_vouched B m d (files w)"
  shows "published B m d f (files w') \<and> inside_vouched B m d (files w')"
proof (cases r)
  case (Inl e)
  then have "files w' = files w" using Rename_post [OF assms(1)] by simp
  then show ?thesis using assms(4,5) by simp
next
  case (Inr u)
  then obtain c where c: "files w (JoinPath [d, fe_Path x]) = Some c"
    "files w' = ((files w)(JoinPath [d, fe_Path x] := None))(JoinPath [bv_dataDir B, fe_Path x] := Some c)"
    using Rename_post [OF assms(1)] by auto
  have v: "vouched B m c" using assms(3,5) c(1) by (auto simp: inside_vouched_def)
  have "published B m d f (files w')"
    unfolding published_def
  proof (intro allI impI)
    fix q assume q: "\<not> below d q"
    show "files w' q = f q \<or> (\<exists>x\<in>set (md_Files m). q = JoinPath [bv_dataDir B, fe_Path x] \<and> (\<exists>c. files w' q = Some c \<and> vouched B m c))"
    proof (cases "q = JoinPath [bv_dataDir B, fe_Path x]")
      case True
      then show ?thesis using c(2) v assms(2) by auto
    next
      case False
      then have "files w' q = files w q" using c(2) q assms(3) by auto
      then show ?thesis using assms(4) q by (simp add: published_def)
    qed
  qed
  moreover have "inside_vouched B m d (files w')" using assms(5) v c(2) by (auto simp: inside_vouched_def)
  ultimately show ?thesis by blast
qed

lemma swap_files_sound:
  assumes "swap_files B d xs w = (r, w')" "set xs \<subseteq> set (md_Files m)" "\<forall>x\<in>set xs. fe_Path x \<noteq> '''' \<longrightarrow> below d (JoinPath [d, fe_Path x])"
    "published B m d f (files w)" "inside_vouched B m d (files w)"
  shows "published B m d f (files w')"
  using assms
proof (induction xs arbitrary: w)
  case (Cons x xs)
  show ?case
  proof (cases "fe_Path x = '''' \<or> CHR 0x00 \<in> set (fe_Path x)")
    case True
    then show ?thesis using Cons.prems by auto
  next
    case False
    let ?src = "JoinPath [d, fe_Path x]" and ?dst = "JoinPath [bv_dataDir B, fe_Path x]"
    obtain y1 v1 where 1: "Stat ?src w = (y1, v1)" by (meson prod.exhaust)
    obtain y2 v2 where 2: "sys_call v1 = (y2, v2)" by (meson prod.exhaust)
    obtain y3 v3 where 3: "Rename ?src ?dst v2 = (y3, v3)" by (meson prod.exhaust)
    have fs: "files v1 = files w" "files v2 = files w" using Stat_post [OF 1] sys_call_files [OF 2] by simp_all
    have p3: "published B m d f (files v3) \<and> inside_vouched B m d (files v3)"
      by (rule rename_step [OF 3]) (use Cons.prems False fs in auto)
    have "w' \<in> {v1, v2, v3} \<or> swap_files B d xs v3 = (r, w')"
      using Cons.prems(1) False 1 2 3 by (auto simp: Let_def and_then_def wrapped_def split: sum.splits)
    then show ?thesis using fs Cons.prems(4) p3 Cons.IH [of v3] Cons.prems(2,3) by auto
  qed
qed simp

lemma RemoveAll_outside: "outside_same d (files w) (files (RemoveAll d w))"
  by (auto simp: RemoveAll_def outside_same_def below_def split: prod.splits sum.splits dest!: sys_call_same) (auto simp: same_def)

lemma mkdir_temp_sound: "mkdir_temp n prefix w = (r, w') \<Longrightarrow> files w' = files w \<and> (\<forall>d. r = Inr d \<longrightarrow> (\<exists>k. d = prefix @ nat_text k))"
proof (induction n prefix w rule: mkdir_temp.induct)
  case (2 n prefix w)
  obtain x v where x: "sys_call w = (x, v)" by (meson prod.exhaust)
  have "files v = files w" using sys_call_files [OF x] .
  then show ?case using 2 x by (auto simp: Let_def split: sum.splits if_splits)
qed auto

lemma restore_from_stage:
  assumes "cs \<noteq> []" "list_all comp_ok cs" "bv_dataDir B = abs_path cs" "\<forall>p. HasPrefix p (staging_prefix B) \<longrightarrow> files w p = None"
    "\<forall>f\<in>set fs. payload_entry f \<longrightarrow> authentic B m f" "fe_Path ` set (md_Files m) \<subseteq> ze_Name ` {f \<in> set fs. payload_entry f}"
    "and_then (stageRestore B fs m) (\<lambda>dir. on_error (swapStagingIntoDataDir B dir m) (RemoveAll dir)) w = (r, w')"
  shows "files w' = files w \<or> (\<exists>d. HasPrefix d (staging_prefix B) \<and> published B m d (files w) (files w'))"
proof -
  obtain x v where x: "mkdir_temp 10000 (staging_prefix B) w = (x, v)" by (meson prod.exhaust)
  note mk = mkdir_temp_sound [OF x]
  show ?thesis
  proof (cases x)
    case (Inl e)
    then show ?thesis using assms(7) x mk by (auto simp: stageRestore_def and_then_def wrapped_def)
  next
    case (Inr d)
    then obtain k where d: "d = staging_prefix B @ nat_text k" using mk by blast
    define cs' where "cs' = cs @ [''restore-staging-'' @ nat_text k]"
    have cs': "d = abs_path cs'" "cs' \<noteq> []" "list_all comp_ok cs'" using staging_name [OF assms(1-3), of k] d assms(2) by (auto simp: cs'_def)
    have pre: "HasPrefix d (staging_prefix B)" using d by (simp add: HasPrefix_iff)
    have "HasPrefix p (staging_prefix B)" if "below d p" for p using that pre by (auto simp: below_def HasPrefix_iff)
    then have iv: "inside_vouched B m d (files v)" using assms(4) mk by (auto simp: inside_vouched_def)
    obtain y u where y: "stage_entries B m d fs v = (y, u)" by (meson prod.exhaust)
    note st = stage_entries_sound [OF y [unfolded cs'(1)] cs'(2,3) assms(5), folded cs'(1)]
    have pu: "published B m d (files w) (files u)" using st mk outside_published by simp
    have pr: "published B m d (files w) (files (RemoveAll d u))" using published_same [OF pu RemoveAll_outside] .
    show ?thesis
    proof (cases "y = Inr () \<and> md_Files m \<noteq> []")
      case False
      then have "w' = RemoveAll d u" using assms(7) x Inr y
        by (auto simp: stageRestore_def and_then_def wrapped_def on_error_def swapStagingIntoDataDir_def split: sum.splits)
      then show ?thesis using pr pre by blast
    next
      case True
      obtain z t where z: "swap_files B d (md_Files m) u = (z, t)" by (meson prod.exhaust)
      have "below d (JoinPath [d, fe_Path e])" if "e \<in> set (md_Files m)" "fe_Path e \<noteq> ''''" for e
      proof -
        have e: "fe_Path e \<in> fe_Path ` set (md_Files m)" using that(1) by blast
        then obtain f where f: "f \<in> set fs" "payload_entry f" "fe_Path e = ze_Name f" using assms(6) by blast
        have "\<forall>f\<in>set fs. payload_entry f \<longrightarrow> ze_Name f \<in> fe_Path ` set (md_Files m) \<longrightarrow> (\<exists>p. sanitizeArchivePath (bv_cwd B) d (ze_Name f) = Inr p)"
          using st True by blast
        then obtain p where "sanitizeArchivePath (bv_cwd B) d (fe_Path e) = Inr p" using f e by metis
        then show ?thesis using sanitized_below [OF cs'(2,3)] cs'(1) that(2) by metis
      qed
      then have pt: "published B m d (files w) (files t)" using swap_files_sound [OF z subset_refl _ pu] st iv True by blast
      have "d \<noteq> ''''" using cs'(1) by (simp add: abs_path_def)
      then have "w' = RemoveAll d t" using assms(7) x Inr y True z
        by (auto simp: stageRestore_def and_then_def wrapped_def on_error_def swapStagingIntoDataDir_def split: sum.splits)
      then show ?thesis using published_same [OF pt RemoveAll_outside] pre by blast
    qed
  qed
qed

text \<open>C36. Whatever an archive contains and whatever fails, a restore changes a file outside the staging
  directories only to content whose SHA-256 the manifest of that archive records, under a name of the manifest
  in the data directory; an archive that fails its verification changes no file at all.\<close>

theorem restore_publishes_verified:
  fixes w :: "'w bk_world_scheme"
  assumes "clean_dir (bv_dataDir B)" "\<forall>p. HasPrefix p (staging_prefix B) \<longrightarrow> files w p = None" "bk_Restore B ident w = (r, w')"
  shows "files w' = files w \<or>
     (\<exists>a fs m. map_of (archives w) (backup_path B ident) = Some a \<and> za_Entries a = Some fs \<and>
        (\<exists>(v :: 'w bk_world_scheme) v'. verified B fs v = (Inr m, v')) \<and>
        (\<forall>q. \<not> HasPrefix q (staging_prefix B) \<longrightarrow> files w' q = files w q \<or>
           (\<exists>x\<in>set (md_Files m). q = JoinPath [bv_dataDir B, fe_Path x] \<and>
              (\<exists>c. files w' q = Some c \<and> bv_sha256 B c \<in> fe_Checksum ` set (md_Files m)))))"
proof (cases "ValidateBackupID ident")
  case (Some e)
  then show ?thesis using assms(3) by (simp add: bk_Restore_def)
next
  case None
  obtain cs where cs: "cs \<noteq> []" "list_all comp_ok cs" "bv_dataDir B = abs_path cs" using clean_dir_comps [OF assms(1)] by blast
  obtain x v where x: "open_zip ''failed to parse backup'' (backup_path B ident) w = (x, v)" by (meson prod.exhaust)
  note s = open_zip_same [OF x]
  show ?thesis
  proof (cases x)
    case (Inl e)
    then show ?thesis using assms(3) None x s by (auto simp: bk_Restore_def and_then_def same_def)
  next
    case (Inr af)
    obtain a fs where af: "af = (a, fs)" by (cases af)
    have ar: "map_of (archives w) (backup_path B ident) = Some a" "za_Entries a = Some fs" using open_zip_Inr x Inr af by blast+
    obtain y u where y: "verified B fs v = (y, u)" by (meson prod.exhaust)
    note ve = verified_sound [OF y]
    have fu: "files u = files w" using s ve by (simp add: same_def)
    show ?thesis
    proof (cases y)
      case (Inl e)
      then show ?thesis using assms(3) None x Inr af y fu by (auto simp: bk_Restore_def and_then_def)
    next
      case m: (Inr m)
      have "and_then (stageRestore B fs m) (\<lambda>dir. on_error (swapStagingIntoDataDir B dir m) (RemoveAll dir)) u = (r, w')"
        using assms(3) None x Inr af y m by (simp add: bk_Restore_def and_then_def)
      from restore_from_stage [OF cs _ _ _ this] assms(2) ve m fu
      have "files w' = files w \<or> (\<exists>d. HasPrefix d (staging_prefix B) \<and> published B m d (files w) (files w'))" by simp
      then show ?thesis
      proof
        assume "\<exists>d. HasPrefix d (staging_prefix B) \<and> published B m d (files w) (files w')"
        then obtain d where d: "HasPrefix d (staging_prefix B)" "published B m d (files w) (files w')" by blast
        have "\<forall>q. \<not> HasPrefix q (staging_prefix B) \<longrightarrow> files w' q = files w q \<or>
           (\<exists>x\<in>set (md_Files m). q = JoinPath [bv_dataDir B, fe_Path x] \<and>
              (\<exists>c. files w' q = Some c \<and> bv_sha256 B c \<in> fe_Checksum ` set (md_Files m)))"
          using d(2) below_staging [OF d(1)] unfolding published_def below_def vouched_def by blast
        then show ?thesis using ar y m by blast
      qed simp
    qed
  qed
qed


theorem restore_publishes_verified_witness:
  "\<exists>w' m v v'. bk_Restore (sample_backup_env (\<lambda>_. ''b2'')) ''b1''
       (sample_backup_world\<lparr>archives := [(''/data/backups/b1.zip'', sample_archive ''b1'' ''manual'' 0)]\<rparr>) = (Inr (), w') \<and>
     files w' ''/data/flows.json'' = Some ''[2]'' \<and> ''[2]'' \<in> fe_Checksum ` set (md_Files m) \<and>
     verified (sample_backup_env (\<lambda>_. ''b2'')) (the (za_Entries (sample_archive ''b1'' ''manual'' 0))) (v :: bk_world) = (Inr m, v')"
proof -
  let ?B = "sample_backup_env (\<lambda>_. ''b2'')" and ?q = "''/data/flows.json''"
  let ?w = "sample_backup_world\<lparr>archives := [(''/data/backups/b1.zip'', sample_archive ''b1'' ''manual'' 0)]\<rparr>"
  have e: "fst (bk_Restore ?B ''b1'' ?w) = Inr () \<and> files (snd (bk_Restore ?B ''b1'' ?w)) ?q = Some ''[2]''" by code_simp
  then obtain w' where r: "bk_Restore ?B ''b1'' ?w = (Inr (), w')" "files w' ?q = Some ''[2]''" by (metis prod.collapse)
  have dir: "clean_dir (bv_dataDir ?B)" by code_simp
  have pre: "staging_prefix ?B = ''/data/restore-staging-''" by code_simp
  have clean: "\<forall>p. HasPrefix p (staging_prefix ?B) \<longrightarrow> files ?w p = None"
    unfolding pre by (auto simp: sample_backup_world_def HasPrefix_iff)
  have old: "files ?w ?q = Some ''[1]''" "map_of (archives ?w) (backup_path ?B ''b1'') = Some (sample_archive ''b1'' ''manual'' 0)"
    by (simp add: sample_backup_world_def) code_simp
  have out: "\<not> HasPrefix ?q (staging_prefix ?B)" unfolding pre by (simp add: HasPrefix_iff)
  have "files w' \<noteq> files ?w" using r(2) old(1) by auto
  with restore_publishes_verified [OF dir clean r(1)] obtain fs m and v v' :: bk_world where x:
    "za_Entries (sample_archive ''b1'' ''manual'' 0) = Some fs" "verified ?B fs v = (Inr m, v')"
    "\<And>q. \<not> HasPrefix q (staging_prefix ?B) \<Longrightarrow> files w' q \<noteq> files ?w q \<Longrightarrow>
       \<exists>c. files w' q = Some c \<and> bv_sha256 ?B c \<in> fe_Checksum ` set (md_Files m)"
    using old(2) by (metis option.sel)
  have "files w' ?q \<noteq> files ?w ?q" using r(2) old(1) by simp
  then obtain c where "files w' ?q = Some c" "bv_sha256 ?B c \<in> fe_Checksum ` set (md_Files m)" using x(3) out by blast
  moreover have "bv_sha256 ?B c = c" by (simp add: sample_backup_env_def)
  ultimately have "''[2]'' \<in> fe_Checksum ` set (md_Files m)" using r(2) by simp
  moreover have "verified ?B (the (za_Entries (sample_archive ''b1'' ''manual'' 0))) v = (Inr m, v')" using x(1,2) by simp
  ultimately show ?thesis using r by blast
qed

end
