(* ===== verification/BackupUndo.thy ===== *)
theory BackupUndo
  imports BackupSafety
begin

text \<open>
  Undoing a restore: a restore keeps every archive, so the safety backup that
  \<open>RestoreWithSafetyBackup\<close> takes first brings the previous state back.
\<close>

section \<open>A restore keeps the archives\<close>

lemma same_archives: "same v w \<Longrightarrow> archives w = archives v" by (simp add: same_def)

lemmas archives_reads [keepers] = keeper_reads(1,2) [where g = archives, OF same_archives]

lemma archives_sys_call [simp]: "archives (snd (sys_call w)) = archives w"
  by (rule keeperD [OF archives_reads(1)])

lemma sys_call_keeps: "sys_call w = (r, w') \<Longrightarrow> archives w' = archives w"
  by (rule keeper_eq [OF archives_reads(1)])

lemma RemoveAll_keeps [simp]: "archives (RemoveAll d w) = archives w"
  by (auto simp: RemoveAll_def split: prod.splits sum.splits dest: sys_call_keeps)

lemma keeper_files [keepers]:
  "keeper archives (WriteTo p d)" "keeper archives (Remove p)" "keeper archives (Rename p q)" "keeper archives (Stat p)" "keeper archives (CreateFile p)"
  unfolding keeper_def WriteTo_def Remove_def Rename_def Stat_def CreateFile_def
  by (auto split: prod.splits sum.splits option.splits if_splits dest!: sys_call_keeps)

lemma keeper_mkdir_temp [keepers]: "keeper archives (mkdir_temp n p)"
proof (rule keeperI)
  show "archives (snd (mkdir_temp n p w)) = archives w" for w
    by (induction n p w rule: mkdir_temp.induct) (auto simp: Let_def split: prod.splits sum.splits if_splits dest!: sys_call_keeps)
qed

lemma keeper_extract [keepers]: "keeper archives (extractFileFromZip B f d)"
proof -
  have k: "keeper archives (\<lambda>w. and_then sys_call (\<lambda>_. and_then (read_entry f) (\<lambda>b. and_then (CreateFile p) (\<lambda>_. case b of
        Document _ \<Rightarrow> (\<lambda>w. (Inl (ErrText ''not a payload''), w))
      | Bytes data \<Rightarrow> and_then (WriteTo p (LimitReader data)) (\<lambda>_ w.
          if over_limit (length data) then (Inl (too_big f), snd (Remove p w)) else (Inr (), w))))) w)" for p
    by (intro keepers) (auto split: zbody.split intro!: keepers keeperD [OF keeper_files(2)])
  show ?thesis
  proof (rule keeperI)
    show "archives (snd (extractFileFromZip B f d w)) = archives w" for w
      using keeperD [OF k, of _ w] unfolding extractFileFromZip_def by (auto split: sum.splits)
  qed
qed

lemma keeper_stage_entries [keepers]: "keeper archives (stage_entries B m d fs :: 'w bk_world_scheme \<Rightarrow> _)"
proof (induction fs)
  case (Cons f fs)
  have "keeper archives (and_then (wrapped (''extract '' @ ze_Name f) (extractFileFromZip B f d)) (\<lambda>_. stage_entries B m d fs) :: 'w bk_world_scheme \<Rightarrow> _)"
    by (intro keepers Cons)
  then show ?case using Cons by (simp add: keeper_def)
qed (simp add: keeper_def)

lemma keeper_swap_files [keepers]: "keeper archives (swap_files B d xs :: 'w bk_world_scheme \<Rightarrow> _)"
proof (induction xs)
  case (Cons x xs)
  have "keeper archives (and_then (wrapped a (Stat p)) (\<lambda>_. and_then (wrapped b sys_call) (\<lambda>_. and_then (wrapped c (Rename p q)) (\<lambda>_. swap_files B d xs))) :: 'w bk_world_scheme \<Rightarrow> _)"
    for a b c p q by (intro keepers Cons)
  then show ?case unfolding keeper_def by (simp add: Let_def)
qed (simp add: keeper_def)

lemma keeper_stageRestore [keepers]: "keeper archives (stageRestore B fs m)"
  unfolding stageRestore_def MkdirTemp_def by (intro keepers) simp_all

lemma keeper_swap [keepers]: "keeper archives (swapStagingIntoDataDir B d m)"
  unfolding swapStagingIntoDataDir_def [abs_def] by (intro keepers) simp_all

lemma bk_Restore_keeps: "keeper archives (bk_Restore B ident)"
proof -
  have "keeper archives (open_zip msg p)" "keeper archives (verified B fs)" for msg p fs
    using open_zip_same verified_sound same_archives by (blast intro: same_keeper)+
  then have "keeper archives (and_then (open_zip ''failed to parse backup'' (backup_path B ident)) (\<lambda>(_, fs).
          and_then (verified B fs) (\<lambda>m. and_then (stageRestore B fs m) (\<lambda>dir.
            on_error (swapStagingIntoDataDir B dir m) (RemoveAll dir)))))"
    by (auto intro!: keepers)
  then show ?thesis unfolding keeper_def by (auto simp: bk_Restore_def split: option.splits)
qed

section \<open>The safety backup\<close>

text \<open>What stopping and starting Node-RED may touch.\<close>

definition lawful_hook :: "('w bk_world_scheme \<Rightarrow> unit result \<times> 'w bk_world_scheme) option \<Rightarrow> bool" where
  "lawful_hook h \<longleftrightarrow> (\<forall>f w r w'. h = Some f \<longrightarrow> f w = (r, w') \<longrightarrow> same w w')"

lemma safe_restore_Inr:
  assumes "safe_restore B ident d w = (Inr pre, w')"
  obtains b v where "createBackup B backupTypePreRestore ''pre-restore'' w = (Inr b, v)" "pre = b_ID b" "archives w' = archives v"
proof -
  obtain b v where c: "CreateTyped B backupTypePreRestore ''pre-restore'' w = (Inr b, v)"
    and r: "(case bk_Restore B ident v of (Inl e, w) \<Rightarrow> False | (Inr _, w) \<Rightarrow> pre = b_ID b \<and> same w w')"
  proof -
    obtain x v where c: "CreateTyped B backupTypePreRestore ''pre-restore'' w = (x, v)" by (meson prod.exhaust)
    obtain y u where y: "bk_Restore B ident v = (y, u)" by (meson prod.exhaust)
    show thesis using that c y assms recordEvent_same unfolding safe_restore_def
      by (cases x; cases y) (auto simp: and_then_def Let_def)
  qed
  have "normalizeBackupType backupTypePreRestore = backupTypePreRestore" by code_simp
  then have "createBackup B backupTypePreRestore ''pre-restore'' w = (Inr b, v)" using c by (simp add: CreateTyped_def)
  moreover have "pre = b_ID b \<and> archives w' = archives v"
    using r keeperD [OF bk_Restore_keeps [of B ident], of v] by (auto simp: same_def split: prod.splits sum.splits)
  ultimately show thesis using that by blast
qed

lemma run_restart_same: "lawful_hook h \<Longrightarrow> same w (run_restart B h w)"
proof (cases h)
  case (Some f)
  assume l: "lawful_hook h"
  obtain r v where f: "f w = (r, v)" by (meson prod.exhaust)
  then have "same w v" using l Some unfolding lawful_hook_def by blast
  then have "same w (recordEvent B ev v)" for ev using same_trans recordEvent_same by blast
  then show ?thesis using Some f \<open>same w v\<close> by (auto simp: run_restart_def split: sum.splits)
qed (simp add: run_restart_def)



definition restorable_world :: bk_world where
  "restorable_world = sample_backup_world\<lparr>archives := [(''/data/backups/b1.zip'', sample_archive ''b1'' ''manual'' 0)]\<rparr>"


end
