(* ===== verification/BackupHandler.thy ===== *)
theory BackupHandler
  imports BackupService Http
begin

text \<open>
  The \<open>/api/backups\<close>, \<open>/api/scheduler\<close> and \<open>/api/storage\<close> endpoints: src/internal/handler/backup.go, and
  \<open>OpenForDownload\<close> and \<open>Download\<close> of src/internal/service/backup_linux.go.  A response is its status, its error
  code and its data; a download carries the archive and, when a password was given, that it is sealed
  under it (the stream itself is \<open>EncryptStream\<close> of the theory Crypto).  A panic of a handler is answered 500 by
  the server's recovery middleware.
\<close>

datatype backup_data =
    NoData
  | StatusData BackupSchedulerStatus
  | ObservabilityData BackupObservability
  | PageData "Backup page"
  | BackupData Backup
  | ManifestData BackupManifest
  | RawArchive string nat
  | SealedArchive string string
  | Truncated
  | RestoredData string
  | StorageData BackupStorageInfo
  | ConfigData BackupConfig
  | CronData string
  | HistoryData "SchedulerHistoryEntry page"
  | RetentionData int
  | ProviderData "string option"
  | SnapshotsData "string list"
  | ProviderRestored string string

record backup_response =
  br_status :: nat
  br_code :: string
  br_data :: backup_data

record bh_world = bk_world +
  bh_trail :: "(string \<times> string \<times> string) list"
  bh_created :: "string list"
  bh_restores :: "bool list"

text \<open>What the server wired in; the provider is a parameter with its own failures.\<close>

record provider =
  pr_Name :: string
  pr_List :: "string list result"
  pr_Restore :: "string \<Rightarrow> string \<Rightarrow> string \<Rightarrow> unit result"

record 'w BackupHandler =
  bh_env :: backup_env
  bh_quiesce :: "('w \<Rightarrow> unit result \<times> 'w) option"
  bh_restart :: "('w \<Rightarrow> unit result \<times> 'w) option"
  bh_metrics :: bool
  bh_provider :: "provider option"
  bh_root :: string

definition bh_ok :: "backup_data \<Rightarrow> backup_response" where
  "bh_ok d = \<lparr>br_status = 200, br_code = '''', br_data = d\<rparr>"

definition bh_error :: "nat \<Rightarrow> string \<Rightarrow> backup_response" where
  "bh_error status code = \<lparr>br_status = status, br_code = code, br_data = NoData\<rparr>"

definition bh_audit :: "string \<Rightarrow> string \<Rightarrow> string \<Rightarrow> 'w bh_world_scheme \<Rightarrow> 'w bh_world_scheme" where
  "bh_audit action target outcome w = w\<lparr>bh_trail := bh_trail w @ [(action, target, outcome)]\<rparr>"

text \<open>The answer of the handlers that report every error as 500.\<close>

definition plain_answer :: "('a \<Rightarrow> backup_data) \<Rightarrow> 'a result \<times> 'w \<Rightarrow> backup_response \<times> 'w" where
  "plain_answer f r =
     (case r of (Inl _, w) \<Rightarrow> (bh_error 500 ''BACKUP_ERROR'', w) | (Inr x, w) \<Rightarrow> (bh_ok (f x), w))"

section \<open>Reading\<close>

definition GetBackupStatus :: "'w bh_world_scheme \<Rightarrow> backup_response \<times> 'w bh_world_scheme" where
  "GetBackupStatus w = (bh_ok (StatusData (sc_status (scheduler w))), w)"

definition GetBackupObservability :: "'w bh_world_scheme BackupHandler \<Rightarrow> 'w bh_world_scheme \<Rightarrow> backup_response \<times> 'w bh_world_scheme" where
  "GetBackupObservability h w = plain_answer ObservabilityData (Observability (bh_env h) w)"

text \<open>A positive integer of the query, or the default.\<close>

definition query_int :: "string \<Rightarrow> int \<Rightarrow> (int \<Rightarrow> bool) \<Rightarrow> 64 word" where
  "query_int raw dflt admissible =
     word_of_int (case Atoi raw of None \<Rightarrow> dflt | Some n \<Rightarrow> if 0 < n \<and> admissible n then n else dflt)"

definition GetBackups ::
  "'w bh_world_scheme BackupHandler \<Rightarrow> string \<Rightarrow> string \<Rightarrow> string \<Rightarrow> string \<Rightarrow> 'w bh_world_scheme \<Rightarrow> backup_response \<times> 'w bh_world_scheme" where
  "GetBackups h page limit srt order w =
     plain_answer PageData
       (ListPaginated (bh_env h)
          \<lparr>po_Page = query_int page 1 (\<lambda>_. True), po_Limit = query_int limit 20 (\<lambda>_. True),
           po_Sort = (if srt = '''' then ''date'' else srt), po_Order = (if order = '''' then ''desc'' else order)\<rparr> w)"

definition GetBackupDetail :: "'w bh_world_scheme BackupHandler \<Rightarrow> string \<Rightarrow> 'w bh_world_scheme \<Rightarrow> backup_response \<times> 'w bh_world_scheme" where
  "GetBackupDetail h ident w = plain_answer ManifestData (Detail (bh_env h) ident w)"

definition GetBackupStorage :: "'w bh_world_scheme BackupHandler \<Rightarrow> 'w bh_world_scheme \<Rightarrow> backup_response \<times> 'w bh_world_scheme" where
  "GetBackupStorage h w = plain_answer StorageData (Storage (bh_env h) w)"

definition GetBackupConfig :: "'w bh_world_scheme \<Rightarrow> backup_response \<times> 'w bh_world_scheme" where
  "GetBackupConfig w = plain_answer ConfigData (GetConfig w)"

definition handle_SchedulerHistory ::
  "'w bh_world_scheme BackupHandler \<Rightarrow> string \<Rightarrow> string \<Rightarrow> 'w bh_world_scheme \<Rightarrow> backup_response \<times> 'w bh_world_scheme" where
  "handle_SchedulerHistory h page limit w =
     plain_answer HistoryData
       (GetSchedulerHistory (bh_env h)
          \<lparr>po_Page = query_int page 1 (\<lambda>_. True), po_Limit = query_int limit 10 (\<lambda>n. n \<le> 50), po_Sort = '''', po_Order = ''''\<rparr> w)"

section \<open>Changing\<close>

definition PostBackup ::
  "'w bh_world_scheme BackupHandler \<Rightarrow> (string \<times> string) decoding \<Rightarrow> 'w bh_world_scheme \<Rightarrow> backup_response \<times> 'w bh_world_scheme" where
  "PostBackup h body w =
     (case body of
        Responded status \<Rightarrow> (bh_error status '''', w)
      | _ \<Rightarrow>
          let (name, ty) = (case body of Value x \<Rightarrow> x | _ \<Rightarrow> ('''', ''''))
          in case CreateTyped (bh_env h) ty name w of
               (Inl _, w) \<Rightarrow> (bh_error 500 ''BACKUP_ERROR'', w)
             | (Inr b, w) \<Rightarrow>
                 (let w = (if bh_metrics h then w\<lparr>bh_created := bh_created w @ [b_Type b]\<rparr> else w)
                  in (\<lparr>br_status = 201, br_code = '''', br_data = BackupData b\<rparr>, bh_audit ''BACKUP_CREATE'' (b_ID b) ''ok'' w)))"

definition DeleteBackup :: "'w bh_world_scheme BackupHandler \<Rightarrow> string \<Rightarrow> 'w bh_world_scheme \<Rightarrow> backup_response \<times> 'w bh_world_scheme" where
  "DeleteBackup h ident w =
     (case bk_Delete (bh_env h) ident w of
        (Inl e, w) \<Rightarrow> (if errors_is e ErrNotExist then bh_error 404 ''BACKUP_NOT_FOUND'' else bh_error 500 ''BACKUP_ERROR'', w)
      | (Inr _, w) \<Rightarrow> (\<lparr>br_status = 204, br_code = '''', br_data = NoData\<rparr>, bh_audit ''BACKUP_DELETE'' ident ''ok'' w))"

definition OpenForDownload :: "backup_env \<Rightarrow> string \<Rightarrow> 'w bk_world_scheme \<Rightarrow> nat result \<times> 'w bk_world_scheme" where
  "OpenForDownload B ident w =
     (case ValidateBackupID ident of
        Some e \<Rightarrow> (Inl e, w)
      | None \<Rightarrow>
          and_then (wrapped ''backup not found'' (arch_Stat (backup_path B ident))) (\<lambda>info.
          and_then (wrapped ''failed to open backup'' (arch_Stat (backup_path B ident))) (\<lambda>_ w. (Inr (za_Size info), w))) w)"

text \<open>The copy may fail after the headers were sent: the client sees a truncated body under 200.\<close>

definition bk_Download :: "backup_env \<Rightarrow> string \<Rightarrow> 'w bk_world_scheme \<Rightarrow> unit result \<times> 'w bk_world_scheme" where
  "bk_Download B ident =
     and_then (OpenForDownload B ident) (\<lambda>_. wrapped ''failed to stream encrypted backup'' sys_call)"

definition DownloadBackup ::
  "'w bh_world_scheme BackupHandler \<Rightarrow> string \<Rightarrow> string \<Rightarrow> string \<Rightarrow> 'w bh_world_scheme \<Rightarrow> backup_response \<times> 'w bh_world_scheme" where
  "DownloadBackup h ident headerPw queryPw w =
     (let legacy = (headerPw = '''' \<and> queryPw \<noteq> '''');
          w = (if legacy then bh_audit ''BACKUP_DOWNLOAD_PASSWORD_QUERY_DEPRECATED'' ident ''warn'' w else w);
          password = (if legacy then queryPw else headerPw)
      in if ValidateBackupID ident \<noteq> None then (bh_error 400 ''INVALID_ID'', w)
         else case OpenForDownload (bh_env h) ident w of
             (Inl e, w) \<Rightarrow> (if errors_is e ErrNotExist then bh_error 404 ''BACKUP_NOT_FOUND'' else bh_error 500 ''BACKUP_ERROR'', w)
           | (Inr sz, w) \<Rightarrow>
               if password = ''''
               then (case sys_call w of
                       (Inl _, w) \<Rightarrow> (bh_ok Truncated, w)
                     | (Inr _, w) \<Rightarrow> (bh_ok (RawArchive (backup_path (bh_env h) ident) sz), w))
               else (case bk_Download (bh_env h) ident w of
                       (Inl _, w) \<Rightarrow> (bh_ok Truncated, w)
                     | (Inr _, w) \<Rightarrow> (bh_ok (SealedArchive (backup_path (bh_env h) ident) password), w)))"

definition RestoreBackup :: "'w bh_world_scheme BackupHandler \<Rightarrow> string \<Rightarrow> 'w bh_world_scheme \<Rightarrow> backup_response \<times> 'w bh_world_scheme" where
  "RestoreBackup h ident w =
     (case RestoreWithSafetyBackup (bh_env h) (bh_quiesce h) (bh_restart h) ident w of
        (Inl _, w) \<Rightarrow>
          (let w = (if bh_metrics h then w\<lparr>bh_restores := bh_restores w @ [False]\<rparr> else w)
           in (bh_error 500 ''BACKUP_ERROR'', bh_audit ''BACKUP_RESTORE'' ident ''fail'' w))
      | (Inr pre, w) \<Rightarrow>
          (let w = (if bh_metrics h then w\<lparr>bh_restores := bh_restores w @ [True]\<rparr> else w)
           in (bh_ok (RestoredData pre), bh_audit ''BACKUP_RESTORE'' ident ''ok'' w)))"

definition PostBackupConfig ::
  "'w bh_world_scheme BackupHandler \<Rightarrow> BackupConfig decoding \<Rightarrow> 'w bh_world_scheme \<Rightarrow> backup_response \<times> 'w bh_world_scheme" where
  "PostBackupConfig h body w =
     (case body of
        Value req \<Rightarrow>
          (case SaveConfig (bh_env h) req w of
             (Inl e, w) \<Rightarrow>
               (if errors_is e ErrInvalidBackupConfig then bh_error 400 ''INVALID_REQUEST'' else bh_error 500 ''BACKUP_ERROR'', w)
           | (Inr cfg, w) \<Rightarrow> (bh_ok (ConfigData cfg), w))
      | Responded status \<Rightarrow> (bh_error status '''', w)
      | ZeroValue \<Rightarrow> (bh_error 400 '''', w))"

definition update_config ::
  "backup_env \<Rightarrow> (BackupConfig \<Rightarrow> BackupConfig) \<Rightarrow> backup_data \<Rightarrow> 'w bh_world_scheme \<Rightarrow> backup_response \<times> 'w bh_world_scheme" where
  "update_config B f d w =
     plain_answer (\<lambda>_. d) (and_then GetConfig (\<lambda>cfg. SaveConfig B (f cfg)) w)"

definition PostSchedulerConfig ::
  "'w bh_world_scheme BackupHandler \<Rightarrow> string decoding \<Rightarrow> 'w bh_world_scheme \<Rightarrow> backup_response \<times> 'w bh_world_scheme" where
  "PostSchedulerConfig h body w =
     (case body of
        Value cron \<Rightarrow>
          if \<not> IsValidCron (bh_env h) cron then (bh_error 400 ''INVALID_CRON'', w)
          else update_config (bh_env h) (\<lambda>c. c\<lparr>bk_Schedule := ''custom'', bk_CustomSchedule := cron\<rparr>) (CronData cron) w
      | Responded status \<Rightarrow> (bh_error status '''', w)
      | ZeroValue \<Rightarrow> (bh_error 400 '''', w))"

definition PatchStorageRetention ::
  "'w bh_world_scheme BackupHandler \<Rightarrow> int decoding \<Rightarrow> 'w bh_world_scheme \<Rightarrow> backup_response \<times> 'w bh_world_scheme" where
  "PatchStorageRetention h body w =
     (case body of
        Value days \<Rightarrow>
          if days < 1 \<or> days > 3650 then (bh_error 400 ''INVALID_REQUEST'', w)
          else update_config (bh_env h)
                 (\<lambda>c. c\<lparr>bk_RetentionManual := days, bk_RetentionAuto := days, bk_RetentionPreRestore := days\<rparr>) (RetentionData days) w
      | Responded status \<Rightarrow> (bh_error status '''', w)
      | ZeroValue \<Rightarrow> (bh_error 400 '''', w))"

section \<open>The remote provider\<close>

definition provider_name :: "'w BackupHandler \<Rightarrow> string" where
  "provider_name h = (case bh_provider h of None \<Rightarrow> ''local'' | Some p \<Rightarrow> pr_Name p)"

definition GetBackupProvider :: "'w BackupHandler \<Rightarrow> string option \<Rightarrow> 'w \<Rightarrow> backup_response \<times> 'w" where
  "GetBackupProvider h role w =
     (case role of
        None \<Rightarrow> (bh_error 401 ''UNAUTHORIZED'', w)
      | Some r \<Rightarrow> if r \<noteq> ''admin'' then (bh_ok (ProviderData None), w) else (bh_ok (ProviderData (Some (provider_name h))), w))"

definition ListProviderSnapshots :: "'w BackupHandler \<Rightarrow> 'w \<Rightarrow> backup_response \<times> 'w" where
  "ListProviderSnapshots h w =
     (case bh_provider h of
        None \<Rightarrow> (bh_error 503 ''PROVIDER_DISABLED'', w)
      | Some p \<Rightarrow> (case pr_List p of Inl _ \<Rightarrow> (bh_error 502 ''PROVIDER_ERROR'', w) | Inr xs \<Rightarrow> (bh_ok (SnapshotsData xs), w)))"

text \<open>The root is \<open>NRCC_BACKUP_ROOT\<close>, or the data directory.\<close>

definition RestoreProviderSnapshot :: "'w BackupHandler \<Rightarrow> (string \<times> string) decoding \<Rightarrow> 'w \<Rightarrow> backup_response \<times> 'w" where
  "RestoreProviderSnapshot h body w =
     (case body of
        Value (ident, dest) \<Rightarrow>
          let root = (if bh_root h = '''' then bv_dataDir (bh_env h) else bh_root h) in
          if ident = '''' then (bh_error 400 ''INVALID_REQUEST'', w)
          else if \<not> isSafeAbsoluteDestination dest then (bh_error 400 ''INVALID_REQUEST'', w)
          else if ValidateRestoreDestination (bv_cwd (bh_env h)) dest root \<noteq> None then (bh_error 400 ''INVALID_REQUEST'', w)
          else (case bh_provider h of
              None \<Rightarrow> (bh_error 503 ''PROVIDER_DISABLED'', w)
            | Some p \<Rightarrow> (case pr_Restore p ident dest root of
                  Inl _ \<Rightarrow> (bh_error 502 ''PROVIDER_ERROR'', w)
                | Inr _ \<Rightarrow> (bh_ok (ProviderRestored ident dest), w)))
      | Responded status \<Rightarrow> (bh_error status '''', w)
      | ZeroValue \<Rightarrow> (bh_error 400 '''', w))"

end
