(* ===== verification/NameOrder.thy ===== *)
theory NameOrder
  imports BackupService
begin

text \<open>
  The order of byte strings is strict and total, and \<open>insert_name\<close>, with which \<open>os.ReadDir\<close> and \<open>sort.Strings\<close> are modelled,
  sorts by it.
\<close>

lemma str_less_irrefl [simp]: "\<not> str_less s s"
  by (induction s) auto

lemma str_less_trans: "str_less a b \<Longrightarrow> str_less b c \<Longrightarrow> str_less a c"
proof (induction a b arbitrary: c rule: str_less.induct)
  case (2 y ys)
  then show ?case by (cases c) auto
next
  case (4 x xs y ys)
  then show ?case by (cases c) (auto split: if_splits)
qed auto

lemma str_less_total: "a \<noteq> b \<Longrightarrow> str_less a b \<or> str_less b a"
proof (induction a b rule: str_less.induct)
  case (4 x xs y ys)
  show ?case
  proof (cases "x = y")
    case False
    then have "(of_char x :: nat) \<noteq> of_char y" by simp
    then have "(of_char x :: nat) < of_char y \<or> (of_char y :: nat) < of_char x" by (simp only: neq_iff)
    then show ?thesis using False by auto
  qed (use 4 in auto)
qed auto

section \<open>The order of names\<close>

abbreviation "name_sorted \<equiv> sorted_wrt (\<lambda>a b. \<not> str_less b a)"

lemma insert_name_set [simp]: "set (insert_name x xs) = insert x (set xs)"
  by (induction xs) auto

lemma insert_name_length [simp]: "length (insert_name x xs) = Suc (length xs)"
  by (induction xs) auto

lemma insert_name_sorted: "name_sorted xs \<Longrightarrow> name_sorted (insert_name x xs)"
proof (induction xs)
  case (Cons y ys)
  have "\<not> str_less z x" if "\<not> str_less y x" "\<not> str_less z y" for z
    using that str_less_trans [of z x y] str_less_total [of x y] by blast
  then show ?case using Cons by (auto dest: str_less_trans simp: str_less_irrefl)
qed simp

lemma sort_names [simp]:
  "set (foldr insert_name xs []) = set xs" "length (foldr insert_name xs []) = length xs" "name_sorted (foldr insert_name xs [])"
  by (induction xs) (auto intro: insert_name_sorted)

lemma sort_distinct: "distinct xs \<Longrightarrow> distinct (foldr insert_name xs [])"
  by (simp add: distinct_card card_distinct)

text \<open>The first names of a sorted list: the least name is among them, the greatest is not.\<close>

lemma newest_kept:
  assumes "name_sorted xs" "distinct xs" "\<forall>y\<in>set xs. y = x \<or> str_less y x" "k < length xs"
  shows "x \<notin> set (take k xs)"
proof
  assume "x \<in> set (take k xs)"
  then obtain i where i: "i < k" "i < length xs" "xs ! i = x" by (auto simp: in_set_conv_nth)
  have "\<not> str_less (xs ! k) (xs ! i)" using sorted_wrt_nth_less [OF assms(1) i(1) assms(4)] .
  moreover have "xs ! k \<noteq> x" using assms(2,4) i by (metis less_irrefl nth_eq_iff_index_eq)
  ultimately show False using assms(3,4) i by auto
qed

lemma oldest_first:
  assumes "name_sorted xs" "x \<in> set xs" "\<forall>y\<in>set xs. y = x \<or> str_less x y" "0 < k"
  shows "x \<in> set (take k xs)"
proof (cases xs)
  case (Cons y ys)
  then have "y = x" using assms(1-3) by auto
  then show ?thesis using Cons assms(4) by (cases k) auto
qed (use assms in simp)

end
