(* ===== verification/BackupRetention.thy ===== *)
theory BackupRetention
  imports BackupSafety BackupHandler NameOrder
begin

text \<open>
  Retention and pages: the order \<open>pruneBackups\<close> sorts by, that it removes only backups beyond the limit, the
  pages of a listing, and the requests that lose a backup or panic.
\<close>

section \<open>The order of backups\<close>

definition prune_key :: "'w bk_world_scheme \<Rightarrow> Backup \<Rightarrow> string \<times> int \<times> string" where
  "prune_key w b = (b_CreatedAt b, za_ModTime (the (map_of (archives w) (b_Path b))), b_ID b)"

definition key_less :: "string \<times> int \<times> string \<Rightarrow> string \<times> int \<times> string \<Rightarrow> bool" where
  "key_less x y \<longleftrightarrow> (case (x, y) of ((c, m, i), (c', m', i')) \<Rightarrow>
     str_less c c' \<or> (c = c' \<and> (m < m' \<or> (m = m' \<and> str_less i i'))))"

lemma prune_less_key:
  assumes "map_of (archives w) (b_Path a) \<noteq> None" "map_of (archives w) (b_Path b) \<noteq> None"
  shows "prune_less w a b = key_less (prune_key w b) (prune_key w a)"
  using assms by (auto simp: prune_less_def prune_key_def key_less_def)

lemma key_less_order:
  "\<not> key_less x x" "key_less x y \<Longrightarrow> key_less y z \<Longrightarrow> key_less x z" "x \<noteq> y \<Longrightarrow> key_less x y \<or> key_less y x"
proof -
  show "\<not> key_less x x" by (simp add: key_less_def split: prod.splits)
  show "key_less x y \<Longrightarrow> key_less y z \<Longrightarrow> key_less x z"
    by (auto simp: key_less_def split: prod.splits intro: str_less_trans)
  show "x \<noteq> y \<Longrightarrow> key_less x y \<or> key_less y x"
    using str_less_total by (cases x; cases y) (auto simp: key_less_def)
qed

lemma prune_weak_order:
  assumes "\<forall>b\<in>S. map_of (archives w) (b_Path b) \<noteq> None"
  shows "weak_order_on S (prune_less w)"
proof -
  have n: "\<not> key_less y x \<Longrightarrow> \<not> key_less z y \<Longrightarrow> \<not> key_less z x" for x y z using key_less_order by metis
  show ?thesis unfolding weak_order_on_def
  proof (intro conjI ballI impI)
    fix x assume "x \<in> S"
    then show "\<not> prune_less w x x" using assms key_less_order(1) by (simp add: prune_less_key)
  next
    fix x y z assume "x \<in> S" "y \<in> S" "z \<in> S" "prune_less w x y" "prune_less w y z"
    then show "prune_less w x z" using assms key_less_order(2) by (simp add: prune_less_key)
  next
    fix x y z assume "x \<in> S" "y \<in> S" "z \<in> S" "\<not> prune_less w x y" "\<not> prune_less w y z"
    then show "\<not> prune_less w x z" using assms n by (simp add: prune_less_key)
  qed
qed

section \<open>The listing\<close>

lemma insert_name_mset [simp]: "mset (insert_name x xs) = add_mset x (mset xs)"
  by (induction xs) auto

lemma read_dir_mset: "mset (foldr insert_name ns []) = mset ns"
  by (induction ns) auto

lemma describe_all_paths:
  "describe_all B ps w = (bs, w') \<Longrightarrow> distinct ps \<Longrightarrow> distinct (map b_Path bs) \<and> b_Path ` set bs \<subseteq> set ps"
proof (induction ps arbitrary: w bs w')
  case (Cons p ps)
  obtain r v where d: "describeBackup B p w = (r, v)" by (meson prod.exhaust)
  obtain cs u where a: "describe_all B ps v = (cs, u)" by (meson prod.exhaust)
  show ?case
  proof (cases "is_archive_name p")
    case True
    then have "bs = (case r of Inl _ \<Rightarrow> cs | Inr b \<Rightarrow> b # cs)" using Cons.prems(1) d a by (auto split: sum.splits)
    then show ?thesis using Cons.IH [OF a] Cons.prems(2) describeBackup_path [of B p w] d by (auto split: sum.splits)
  next
    case False
    then have "distinct (map b_Path bs) \<and> b_Path ` set bs \<subseteq> set ps" using Cons.IH [of w bs w'] Cons.prems by simp
    then show ?thesis by auto
  qed
qed simp

lemma describe_exists: "describeBackup B p w = (Inr b, w') \<Longrightarrow> map_of (archives w) p \<noteq> None"
  by (auto simp: describeBackup_def inspectBackup_def and_then_Inr dest!: open_zip_Inr)

lemma bk_List_props:
  assumes "lawful_sort B" "bk_List B w = (Inr bs, w')" "distinct (map fst (archives w))"
  shows "distinct (map b_Path bs) \<and> (\<forall>b\<in>set bs. map_of (archives w) (b_Path b) \<noteq> None)"
proof
  obtain v1 ps v2 cs where v: "sys_call w = (Inr (), v1)" "arch_ReadDir v1 = (Inr ps, v2)" "describe_all B ps v2 = (cs, w')"
    "bs = bv_sort B newest_first cs"
    using assms(2) unfolding bk_List_def by (auto simp: and_then_Inr case_prod_beta Let_def) (metis prod.collapse)
  have "ps = foldr insert_name (map fst (archives v1)) []" "archives v1 = archives w"
    using v(2) sys_call_same [OF v(1)] by (auto simp: arch_ReadDir_def same_def split: prod.splits sum.splits dest!: sys_call_same)
  then have "mset ps = mset (map fst (archives w))" using read_dir_mset by metis
  then have "distinct ps" using assms(3) by (metis distinct_count_atmost_1 set_mset_mset)
  then have "distinct (map b_Path cs)" using describe_all_paths [OF v(3)] by blast
  moreover have "mset bs = mset cs" using assms(1) v(4) by (simp add: lawful_sort_def)
  ultimately show "distinct (map b_Path bs)" by (metis distinct_count_atmost_1 mset_map set_mset_mset)
  show "\<forall>b\<in>set bs. map_of (archives w) (b_Path b) \<noteq> None"
  proof
    fix b assume "b \<in> set bs"
    from bk_List_in [OF assms(1,2) this] obtain v v' where "same w v" "describeBackup B (b_Path b) v = (Inr b, v')" by blast
    then show "map_of (archives w) (b_Path b) \<noteq> None" using describe_exists by (fastforce simp: same_def)
  qed
qed

section \<open>Retention\<close>

lemma remove_backups_removed:
  assumes "remove_backups kid bs w = (r, w')" "map_of (archives w) p \<noteq> None" "map_of (archives w') p = None"
  shows "\<exists>b\<in>set bs. b_Path b = p \<and> b_ID b \<noteq> kid"
  using remove_backups_kept [OF assms(1)] assms(2,3) by metis


definition retaining :: "int \<Rightarrow> BackupConfig" where
  "retaining n = defaultBackupConfig\<lparr>bk_RetentionManual := n, bk_RetentionPreRestore := n\<rparr>"

definition two_backups :: bk_world where
  "two_backups = sample_backup_world\<lparr>archives := [(''/data/backups/b1.zip'', sample_archive ''b1'' ''manual'' 0),
     (''/data/backups/b2.zip'', sample_archive ''b2'' ''manual'' 1)]\<rparr>"


section \<open>What a restore can lose\<close>

text \<open>Restoring the oldest pre-restore backup, when the configuration retains one, fails and loses that backup:
  the safety backup is created first, its retention removes the archive that is to be restored, and
  the restore then reports that it does not exist.  No data file changes.\<close>

theorem restore_loses_its_backup:
  "case RestoreWithSafetyBackup (sample_backup_env (\<lambda>_. ''new'')) None None ''old''
       (sample_backup_world\<lparr>archives := [(''/data/backups/old.zip'', sample_archive ''old'' ''pre-restore'' 0)],
          config_doc := Some (Some [(''retentionPreRestore'', JNum 1 0), (''includeConfig'', JBool False), (''includeSettings'', JBool False),
            (''includeFlowsCred'', JBool False), (''includePackageJson'', JBool False)])\<rparr>) of
     (r, w') \<Rightarrow> (case r of Inl e \<Rightarrow> errors_is e ErrNotExist | Inr _ \<Rightarrow> False) \<and>
       map_of (archives w') ''/data/backups/old.zip'' = None \<and> files w' ''/data/flows.json'' = Some ''[1]''"
  by code_simp

section \<open>Pages\<close>

lemma sint_word_of_nat: "n < 2 ^ 63 \<Longrightarrow> sint (word_of_nat n :: 64 word) = int n"
  by (simp add: sint_uint signed_take_bit_int_eq_self unsigned_of_nat take_bit_nat_eq_self nat_less_iff)

lemma sless_word_of_nat: "a < 2 ^ 63 \<Longrightarrow> b < 2 ^ 63 \<Longrightarrow> (word_of_nat a <s (word_of_nat b :: 64 word)) = (a < b)"
  by (simp add: word_sless_alt sint_word_of_nat)

lemma sle_word_of_nat: "a < 2 ^ 63 \<Longrightarrow> b < 2 ^ 63 \<Longrightarrow> (word_of_nat a \<le>s (word_of_nat b :: 64 word)) = (a \<le> b)"
  by (simp add: word_sle_eq sint_word_of_nat)

lemma page_items_small:
  assumes "length xs < 2 ^ 62" "p \<noteq> 0" "unat p * unat l < 2 ^ 62" "l \<noteq> 0"
  shows "page_items p l xs = Some (take (unat l) (drop ((unat p - 1) * unat l) xs))"
proof -
  define P L where "P = unat p" and "L = unat l"
  have P: "P \<ge> 1" "L \<ge> 1" using assms(2,4) by (simp_all add: P_def L_def Suc_le_eq unat_gt_0)
  define k where "k = (P - 1) * L"
  have k: "k + L = P * L" using P by (cases P) (simp_all add: k_def)
  have b: "k + L < 2 ^ 62" "k < 2 ^ 63" "k + L < 2 ^ 63" "length xs < 2 ^ 63" using assms(1,3) k by (simp_all add: P_def L_def)
  have pw: "p = word_of_nat P" "l = word_of_nat L" by (simp_all add: P_def L_def)
  have "p - 1 = word_of_nat (P - 1)" using P by (simp add: pw of_nat_diff)
  then have off: "(p - 1) * l = word_of_nat k" by (simp add: pw(2) k_def)
  define m where "m = k + L"
  have stop: "(word_of_nat k :: 64 word) + l = word_of_nat m" by (simp add: pw(2) m_def)
  have un: "n < 2 ^ 63 \<Longrightarrow> unat (word_of_nat n :: 64 word) = n" for n by (simp add: unsigned_of_nat take_bit_nat_eq_self)
  have z: "0 \<le>s (word_of_nat k :: 64 word)" using sle_word_of_nat [of 0 k] b by simp
  have mb: "m < 2 ^ 63" "k \<le> m" using b by (simp_all add: m_def)
  have km: "m - k = L" "length xs \<le> m \<Longrightarrow> take L (drop k xs) = drop k xs" by (simp_all add: m_def)
  note cmp = sle_word_of_nat [OF b(4,2)] sless_word_of_nat [OF b(4) mb(1)] sless_word_of_nat [OF b(2,4)]
    sle_word_of_nat [OF b(2) mb(1)] sle_word_of_nat [OF b(2,4)] un [OF b(2)] un [OF mb(1)] un [OF b(4)]
  have "page_items p l xs = Some (take L (drop k xs))"
    unfolding page_items_def Let_def off stop if_distrib [of unat] cmp using z mb km by (auto simp: cmp)
  then show ?thesis by (simp add: k_def P_def L_def)
qed

lemma clamped: "clamp_page q \<noteq> 0" "clamp_limit q \<noteq> 0"
  by (auto simp: clamp_page_def clamp_limit_def Let_def word_sless_alt)

lemma page_items_wraps:
  assumes "length xs < 2 ^ 62"
  shows "page_items (2 ^ 62 + 1) 2 xs = None"
proof -
  have off: "((2 ^ 62 + 1) - 1) * 2 = (9223372036854775808 :: 64 word)" by simp
  have "sint (9223372036854775808 :: 64 word) = - 9223372036854775808" by code_simp
  then have "\<not> word_of_nat (length xs) \<le>s (9223372036854775808 :: 64 word)" "(9223372036854775808 :: 64 word) <s word_of_nat (length xs)"
    "\<not> 0 \<le>s (9223372036854775808 :: 64 word)"
    using assms by (simp_all add: word_sle_eq word_sless_alt sint_word_of_nat)
  then show ?thesis unfolding page_items_def Let_def off by simp
qed

lemma clamp_last: "clamp_page (2 ^ 62 + 1) = 2 ^ 62 + 1" "clamp_limit 2 = 2"
  by (simp_all add: clamp_page_def clamp_limit_def word_sless_alt)

definition sorted_listing :: "backup_env \<Rightarrow> PaginationOpts \<Rightarrow> Backup list \<Rightarrow> Backup list" where
  "sorted_listing B opts all =
     bv_sort B (page_less (if po_Sort opts = '''' then ''date'' else po_Sort opts) (if po_Order opts = '''' then ''desc'' else po_Order opts)) all"

lemma paginate_items:
  "paginate B opts all = map_option (\<lambda>items. \<lparr>pg_Items = items, pg_Total = length all, pg_Page = clamp_page (po_Page opts),
     pg_Limit = clamp_limit (po_Limit opts)\<rparr>) (page_items (clamp_page (po_Page opts)) (clamp_limit (po_Limit opts)) (sorted_listing B opts all))"
  by (simp add: paginate_def Let_def sorted_listing_def)

lemma sorted_listing_upd [simp]: "sorted_listing B (opts\<lparr>po_Page := p, po_Limit := l\<rparr>) all = sorted_listing B opts all"
  by (simp add: sorted_listing_def)


definition sample_listed :: Backup where
  "sample_listed = \<lparr>b_ID = ''b1'', b_Name = '''', b_Type = ''manual'', b_CreatedAt = '''', b_TriggeredBy = '''', b_FileCount = 0,
     b_SizeBytes = 0, b_Path = ''''\<rparr>"


end
