(* ===== verification/Update.thy ===== *)
theory Update
  imports BackupService Regex JsonStore Json
begin

text \<open>
  Updates of Node-RED: src/internal/service/version.go, managed_runtime.go, update.go, src/internal/model/update.go and the
  handlers of src/internal/handler/updates.go.  The programs that are run (the managed executable and npm) are the
  parameter \<open>ue_runner\<close>: their output and error depend on the command and the moment.  \<open>up_trace\<close> lists what an observer sees: the
  commands and the backups taken.  A flow that applies an update runs in a goroutine of its own; \<open>update_step\<close> interleaves
  the flows with every other operation of the service.
\<close>

section \<open>Versions\<close>

definition ansiSequencePattern :: re where
  "ansiSequencePattern = seqs [Cls (\<lambda>c. c = CHR 0x1B), Lit ''['', Star (Cls (\<lambda>c. CHR ''0'' \<le> c \<and> c \<le> CHR ''?'')),
     Star (Cls (\<lambda>c. CHR '' '' \<le> c \<and> c \<le> CHR ''/'')), Cls (\<lambda>c. CHR ''@'' \<le> c \<and> c \<le> CHR ''~'')]"

text \<open>\<open>^\s*Node-RED\s+(.*?)\s*$\<close> without case: the text after the label, without the blanks around it.\<close>

definition nodeREDLabel :: "string \<Rightarrow> string option" where
  "nodeREDLabel ln =
     (let l = dropWhile is_space ln; rest = drop 8 l in
      if ToLower (take 8 l) = ''node-red'' \<and> rest \<noteq> [] \<and> is_space (hd rest)
      then Some (rev (dropWhile is_space (rev (dropWhile is_space rest)))) else None)"

definition is_ident :: "char \<Rightarrow> bool" where
  "is_ident c \<longleftrightarrow> CHR ''0'' \<le> c \<and> c \<le> CHR ''9'' \<or> CHR ''A'' \<le> c \<and> c \<le> CHR ''Z'' \<or> CHR ''a'' \<le> c \<and> c \<le> CHR ''z'' \<or> c = CHR ''-''"

definition numeric_re :: re where
  "numeric_re = Alt (Lit ''0'') (Seq (Cls (\<lambda>c. CHR ''1'' \<le> c \<and> c \<le> CHR ''9'')) (Star (Cls is_dec)))"

definition idents_re :: re where
  "idents_re = Seq (Plus (Cls is_ident)) (Star (Seq (Lit ''.'') (Plus (Cls is_ident))))"

definition semanticVersionPattern :: re where
  "semanticVersionPattern = seqs [Opt (Lit ''v''), Grp 1 numeric_re, Lit ''.'', Grp 2 numeric_re, Lit ''.'', Grp 3 numeric_re,
     Opt (Seq (Lit ''-'') (Grp 4 idents_re)), Opt (Seq (Lit ''+'') (Grp 5 idents_re)), TextEnd]"

text \<open>The pattern starts at the beginning of the text only.\<close>

definition anchored :: "re \<Rightarrow> string \<Rightarrow> (nat \<Rightarrow> string) option" where
  "anchored r s = (case rmatch r s 0 [] of [] \<Rightarrow> None | (j, cs) # _ \<Rightarrow> Some (group s \<lparr>m_start = 0, m_end = j, m_caps = cs\<rparr>))"

definition allDigits :: "string \<Rightarrow> bool" where
  "allDigits v \<longleftrightarrow> (\<forall>c\<in>set v. CHR ''0'' \<le> c \<and> c \<le> CHR ''9'') \<and> v \<noteq> ''''"

definition validatedNodeREDVersion :: "string \<Rightarrow> string" where
  "validatedNodeREDVersion v =
     (case anchored semanticVersionPattern (TrimSpace v) of
        None \<Rightarrow> ''''
      | Some g \<Rightarrow>
          if g 4 \<noteq> '''' \<and> (\<exists>i\<in>set (Split (g 4) (CHR ''.'')). length i > 1 \<and> hd i = CHR ''0'' \<and> allDigits i) then ''''
          else TrimPrefix (TrimSpace v) ''v'')"

fun no_CRLF :: "string \<Rightarrow> string" where
  "no_CRLF (c # d # s) = (if c = CR \<and> d = NL then NL # no_CRLF s else c # no_CRLF (d # s))"
| "no_CRLF s = s"

definition nodeREDVersionFromOutput :: "string \<Rightarrow> string" where
  "nodeREDVersionFromOutput output =
     (let lines = Split (no_CRLF (TrimSpace (ReplaceAll ansiSequencePattern '''' output))) NL
      in case find (\<lambda>l. nodeREDLabel l \<noteq> None) lines of
           Some l \<Rightarrow> validatedNodeREDVersion (the (nodeREDLabel l))
         | None \<Rightarrow> if length lines \<noteq> 1 then '''' else validatedNodeREDVersion (TrimSpace (hd lines)))"

text \<open>\<open>fmt.Sscanf(s, "%d", &n)\<close> with \<open>n\<close> zero before: blanks but no line end, a sign, digits; without digits, or out of
  the range of a 64-bit integer, \<open>n\<close> stays zero.\<close>

definition scan_int :: "string \<Rightarrow> int" where
  "scan_int s =
     (let blanks = takeWhile is_space s; t = dropWhile is_space s;
          digits = takeWhile is_dec (case t of [] \<Rightarrow> [] | c # cs \<Rightarrow> if c = CHR ''+'' \<or> c = CHR ''-'' then cs else t);
          n = int (digits_value digits); n = (if HasPrefix t ''-'' then - n else n)
      in if NL \<in> set blanks \<or> digits = [] \<or> n < - (2 ^ 63) \<or> n \<ge> 2 ^ 63 then 0 else n)"

fun compare_parts :: "string list \<Rightarrow> string list \<Rightarrow> int" where
  "compare_parts (a # as) (b # bs) =
     (if scan_int a < scan_int b then - 1 else if scan_int a > scan_int b then 1 else compare_parts as bs)"
| "compare_parts _ _ = 0"

definition padded :: "nat \<Rightarrow> string list \<Rightarrow> string list" where
  "padded n ps = ps @ replicate (n - length ps) ''0''"

definition compareVersions :: "string \<Rightarrow> string \<Rightarrow> int" where
  "compareVersions v1 v2 =
     (let p1 = Split (TrimPrefix v1 ''v'') (CHR ''.''); p2 = Split (TrimPrefix v2 ''v'') (CHR ''.'')
      in compare_parts (padded (length p2) p1) (padded (length p1) p2))"

section \<open>Data\<close>

datatype RuntimeStrategy = StrategyImageLocal | StrategyNpmGlobal | StrategyExternal

record ManagedRuntime =
  mr_Executable :: string
  mr_TreeRoot :: string
  mr_Strategy :: RuntimeStrategy

datatype UpdateState = StateIdle | StateBackingUp | StateApplying | StateCompleted | StateFailed

record UpdateFlowState =
  fs_State :: UpdateState
  fs_Phase :: string
  fs_BackupID :: string
  fs_Error :: string
  fs_AvailableVersion :: string

record BackupEntry =
  bt_ID :: string
  bt_Path :: string
  bt_SizeBytes :: nat
  bt_Timestamp :: string
  bt_FromVersion :: string
  bt_Status :: string

record UpdateCacheEntry =
  uc_CurrentVersion :: string
  uc_LatestVersion :: string
  uc_UpdateAvailable :: bool
  uc_Strategy :: RuntimeStrategy
  uc_CanInplaceApply :: bool
  uc_CheckedAt :: string
  uc_Error :: string

datatype observed = Ran "string list" | Archived string

record update_env =
  ue_backup :: "backup_env option"
  ue_runner :: "string list \<Rightarrow> nat \<Rightarrow> string \<times> go_error option"
  ue_json :: "string \<Rightarrow> json option"
  ue_report :: "string \<Rightarrow> int option"
  ue_Error :: "go_error \<Rightarrow> string"
  ue_LookPath :: "string \<Rightarrow> string option"
  ue_EvalSymlinks :: "string \<Rightarrow> string option"
  ue_cwd :: string
  ue_tmp :: string
  ue_command :: string
  ue_clock :: "nat \<Rightarrow> string"

record update_world = bk_world +
  up_cache :: UpdateCacheEntry
  up_cache_file :: "UpdateCacheEntry option"
  up_catalog :: "BackupEntry list option"
  up_flow :: UpdateFlowState
  up_cancelled :: bool
  up_trace :: "observed list"

definition flow_state :: "UpdateState \<Rightarrow> string \<Rightarrow> UpdateFlowState" where
  "flow_state st phase = \<lparr>fs_State = st, fs_Phase = phase, fs_BackupID = '''', fs_Error = '''', fs_AvailableVersion = ''''\<rparr>"

definition empty_cache :: UpdateCacheEntry where
  "empty_cache = \<lparr>uc_CurrentVersion = '''', uc_LatestVersion = '''', uc_UpdateAvailable = False, uc_Strategy = StrategyExternal,
     uc_CanInplaceApply = False, uc_CheckedAt = '''', uc_Error = ''''\<rparr>"

section \<open>The managed runtime\<close>

definition resolveExecutable :: "update_env \<Rightarrow> string \<Rightarrow> string" where
  "resolveExecutable U command =
     (let c = TrimSpace command in
      if c = '''' then ''''
      else let c = (if IsAbs c then c else case ue_LookPath U c of None \<Rightarrow> c | Some found \<Rightarrow> found)
           in Clean (Abs (ue_cwd U) c))"

definition pathThroughMarker :: "string \<Rightarrow> string \<Rightarrow> string option" where
  "pathThroughMarker path marker =
     map_option (\<lambda>i. take (i + length (''/'' @ marker)) (Clean path)) (Index (Clean path) (''/'' @ marker))"

definition nodeRedPackageRoot :: "string \<Rightarrow> string option" where
  "nodeRedPackageRoot path = pathThroughMarker (Clean path) (JoinPath [''lib'', ''node_modules'', ''node-red''])"

definition ResolveManagedRuntime :: "update_env \<Rightarrow> string \<Rightarrow> ManagedRuntime" where
  "ResolveManagedRuntime U cmd =
     (let executable = resolveExecutable U cmd;
          managed = \<lparr>mr_Executable = executable, mr_TreeRoot = '''', mr_Strategy = StrategyExternal\<rparr>;
          marker = JoinPath [''usr'', ''src'', ''node-red'']
      in if executable = '''' then managed
         else let resolved = (case ue_EvalSymlinks U executable of None \<Rightarrow> executable | Some t \<Rightarrow> t);
                  image = (\<lambda>root. managed\<lparr>mr_TreeRoot := JoinPath [root, ''node_modules'', ''node-red''], mr_Strategy := StrategyImageLocal\<rparr>)
              in case pathThroughMarker executable marker of
                   Some root \<Rightarrow> image root
                 | None \<Rightarrow>
                     (case pathThroughMarker resolved marker of
                        Some root \<Rightarrow> image root
                      | None \<Rightarrow>
                          (case nodeRedPackageRoot resolved of
                             Some root \<Rightarrow> managed\<lparr>mr_TreeRoot := root, mr_Strategy := StrategyNpmGlobal\<rparr>
                           | None \<Rightarrow> managed)))"

definition managedRuntime :: "update_env \<Rightarrow> ManagedRuntime" where
  "managedRuntime U = ResolveManagedRuntime U (ue_command U)"

section \<open>Checks\<close>

text \<open>A command whose context was cancelled before is not started.\<close>

definition run_command :: "update_env \<Rightarrow> bool \<Rightarrow> string list \<Rightarrow> 'w update_world_scheme \<Rightarrow> (string \<times> go_error option) \<times> 'w update_world_scheme" where
  "run_command U cancelled cmd w =
     (if cancelled then (('''', Some (Sentinel CtxErr)), w)
      else (ue_runner U cmd (calls w), (tick w)\<lparr>up_trace := up_trace w @ [Ran cmd]\<rparr>))"

definition sanitizeErrorMessage :: "update_env \<Rightarrow> go_error \<Rightarrow> string" where
  "sanitizeErrorMessage U e =
     (let s = ue_Error U e in
      if Contains s ''context deadline exceeded'' \<or> Contains s ''i/o timeout'' then ''Update check timed out. Please try again.''
      else if Contains s ''exit status'' then ''Update check failed. Please ensure npm is properly installed and Node-RED is accessible.''
      else if Contains s ''connection refused'' \<or> Contains s ''network''
        then ''Network error while checking for updates. Please check your internet connection.''
      else ''Unable to check for updates at this time.'')"

definition versionFromExecutable ::
  "update_env \<Rightarrow> bool \<Rightarrow> ManagedRuntime \<Rightarrow> 'w update_world_scheme \<Rightarrow> string result \<times> 'w update_world_scheme" where
  "versionFromExecutable U cancelled managed w =
     (if mr_Executable managed = '''' then (Inl (Sentinel ErrVersionUndetectable), w)
      else case run_command U cancelled [mr_Executable managed, ''--version''] w of
          ((_, Some e), w) \<Rightarrow> (Inl e, w)
        | ((output, None), w) \<Rightarrow>
            (let v = nodeREDVersionFromOutput output in (if v = '''' then Inl (Sentinel ErrVersionUndetectable) else Inr v, w)))"

definition npm_list_version :: "json option \<Rightarrow> string result" where
  "npm_list_version doc =
     (case Option.bind doc (\<lambda>d. if d = JNull then Some [] else as_object d) of
        None \<Rightarrow> Inl (ErrWrap ''invalid npm response'' (Sentinel ErrVersionUndetectable))
      | Some fs \<Rightarrow>
          (case Option.bind (as_object (field fs ''dependencies'')) (\<lambda>deps.
                Option.bind (as_object (field deps ''node-red'')) (\<lambda>nr. as_string (field nr ''version''))) of
             Some v \<Rightarrow> Inr v | None \<Rightarrow> Inl (Sentinel ErrVersionUndetectable)))"

definition getInstalledVersionInternal :: "update_env \<Rightarrow> 'w update_world_scheme \<Rightarrow> string result \<times> 'w update_world_scheme" where
  "getInstalledVersionInternal U w =
     (let managed = managedRuntime U in
      case versionFromExecutable U False managed w of
        (Inr v, w) \<Rightarrow> (Inr v, w)
      | (Inl e, w) \<Rightarrow>
          if mr_Strategy managed \<noteq> StrategyNpmGlobal then (Inl (ErrJoin (Sentinel ErrVersionUndetectable) e), w)
          else case run_command U False [''npm'', ''list'', ''-g'', ''node-red'', ''--json''] w of
              ((_, Some e'), w) \<Rightarrow> (Inl (ErrJoin (Sentinel ErrVersionUndetectable) (ErrJoin e e')), w)
            | ((output, None), w) \<Rightarrow> (npm_list_version (ue_json U output), w))"

definition getInstalledVersion :: "update_env \<Rightarrow> 'w update_world_scheme \<Rightarrow> string \<times> 'w update_world_scheme" where
  "getInstalledVersion U w =
     (case getInstalledVersionInternal U w of (Inl _, w) \<Rightarrow> (''unknown'', w) | (Inr v, w) \<Rightarrow> (v, w))"

text \<open>The single line of the output that is no notice.\<close>

definition version_lines :: "string \<Rightarrow> string list" where
  "version_lines output =
     filter (\<lambda>l. l \<noteq> '''' \<and> l \<noteq> ''npm notice'' \<and> \<not> HasPrefix l ''npm notice '') (map TrimSpace (Split (no_CRLF output) NL))"

definition unquoted :: "string \<Rightarrow> string" where
  "unquoted l = (if length l \<ge> 2 \<and> hd l = CHR 0x22 \<and> last l = CHR 0x22 then butlast (tl l) else l)"

definition getLatestVersionInternal :: "update_env \<Rightarrow> 'w update_world_scheme \<Rightarrow> string result \<times> 'w update_world_scheme" where
  "getLatestVersionInternal U w =
     (case run_command U False [''npm'', ''view'', ''node-red'', ''version''] w of
        ((_, Some e), w) \<Rightarrow> (Inl e, w)
      | ((output, None), w) \<Rightarrow>
          (let ls = version_lines output; v = validatedNodeREDVersion (unquoted (case ls of [] \<Rightarrow> '''' | l # _ \<Rightarrow> l))
           in (if length ls > 1 \<or> v = '''' then Inl (Sentinel ErrVersionUndetectable) else Inr v, w)))"

definition performCheckInternal :: "update_env \<Rightarrow> 'w update_world_scheme \<Rightarrow> UpdateCacheEntry \<times> 'w update_world_scheme" where
  "performCheckInternal U w =
     (let (current, w) = getInstalledVersion U w; e = empty_cache\<lparr>uc_CurrentVersion := current\<rparr>
      in case getLatestVersionInternal U w of
           (Inl err, w) \<Rightarrow> (e\<lparr>uc_Error := sanitizeErrorMessage U err\<rparr>, w)
         | (Inr latest, w) \<Rightarrow>
             (e\<lparr>uc_LatestVersion := latest,
                uc_UpdateAvailable := (validatedNodeREDVersion current \<noteq> '''' \<and> validatedNodeREDVersion latest \<noteq> '''' \<and>
                  compareVersions current latest < 0)\<rparr>, w))"

definition cache_put :: "UpdateCacheEntry \<Rightarrow> 'w update_world_scheme \<Rightarrow> 'w update_world_scheme" where
  "cache_put c w = w\<lparr>up_cache_file := Some c\<rparr>"

definition performCheck :: "update_env \<Rightarrow> 'w update_world_scheme \<Rightarrow> 'w update_world_scheme" where
  "performCheck U w =
     (let (e, w) = performCheckInternal U w; e = e\<lparr>uc_CheckedAt := ue_clock U (calls w)\<rparr>
      in snd (js_Write cache_put e (w\<lparr>up_cache := e\<rparr>)))"

definition GetCachedStatus :: "update_env \<Rightarrow> 'w update_world_scheme \<Rightarrow> UpdateCacheEntry" where
  "GetCachedStatus U w =
     (let s = up_cache w;
          current = validatedNodeREDVersion (uc_CurrentVersion s) \<noteq> '''';
          latest = validatedNodeREDVersion (uc_LatestVersion s) \<noteq> '''';
          st = mr_Strategy (managedRuntime U)
      in s\<lparr>uc_LatestVersion := (if latest then uc_LatestVersion s else ''''),
           uc_UpdateAvailable := (uc_UpdateAvailable s \<and> current \<and> latest),
           uc_Strategy := st, uc_CanInplaceApply := (st = StrategyNpmGlobal \<and> current)\<rparr>)"

text \<open>\<open>busy\<close>: another forced check is running.\<close>

definition ForceCheck :: "update_env \<Rightarrow> bool \<Rightarrow> 'w update_world_scheme \<Rightarrow> UpdateCacheEntry \<times> 'w update_world_scheme" where
  "ForceCheck U busy w =
     (if busy then (GetCachedStatus U w, w) else let w = performCheck U w in (GetCachedStatus U w, w))"

definition NewUpdateService :: "update_env \<Rightarrow> 'w update_world_scheme \<Rightarrow> 'w update_world_scheme" where
  "NewUpdateService U w =
     (let w = w\<lparr>up_cache := empty_cache, up_flow := flow_state StateIdle ''idle'', up_cancelled := False\<rparr>;
          (there, w) = js_Exists up_cache_file w;
          w = (if there then case js_Read up_cache_file w of (Inl _, w) \<Rightarrow> w | (Inr c, w) \<Rightarrow> w\<lparr>up_cache := c\<rparr> else w)
      in if uc_CurrentVersion (up_cache w) = '''' \<and> uc_LatestVersion (up_cache w) = '''' then performCheck U w else w)"

section \<open>The flow of an update\<close>

definition GetFlowState :: "update_env \<Rightarrow> 'w update_world_scheme \<Rightarrow> UpdateFlowState" where
  "GetFlowState U w =
     (let c = GetCachedStatus U w in
      if uc_UpdateAvailable c then (up_flow w)\<lparr>fs_AvailableVersion := uc_LatestVersion c\<rparr> else up_flow w)"

definition CreateBackup :: "update_env \<Rightarrow> string \<Rightarrow> 'w update_world_scheme \<Rightarrow> BackupEntry result \<times> 'w update_world_scheme" where
  "CreateBackup U fromVersion w =
     (case ue_backup U of
        None \<Rightarrow> (Inl (ErrText ''backup engine not configured: refusing to apply update without a real backup''), w)
      | Some B \<Rightarrow>
          (case CreateTyped B backupTypeManual (''Pre-update backup (from '' @ fromVersion @ '')'') w of
             (Inl e, w) \<Rightarrow> (Inl (ErrWrap ''failed to create pre-update backup'' e), w)
           | (Inr b, w) \<Rightarrow>
               (Inr \<lparr>bt_ID = b_ID b, bt_Path = b_Path b, bt_SizeBytes = b_SizeBytes b, bt_Timestamp = ue_clock U (calls w),
                     bt_FromVersion = fromVersion, bt_Status = ''completed''\<rparr>, w\<lparr>up_trace := up_trace w @ [Archived (b_ID b)]\<rparr>)))"

definition update_History :: "'w update_world_scheme \<Rightarrow> BackupEntry list \<times> 'w update_world_scheme" where
  "update_History w =
     (let (there, w) = js_Exists up_catalog w in
      if \<not> there then ([], w) else case js_Read up_catalog w of (Inl _, w) \<Rightarrow> ([], w) | (Inr es, w) \<Rightarrow> (es, w))"

definition append_entry :: "BackupEntry \<Rightarrow> BackupEntry list \<Rightarrow> (BackupEntry list \<times> unit) result" where
  "append_entry e es = Inr ((if length es \<ge> 5 then drop (length es - 4) es else es) @ [e], ())"

definition catalog_put :: "BackupEntry list \<Rightarrow> 'w update_world_scheme \<Rightarrow> 'w update_world_scheme" where
  "catalog_put es w = w\<lparr>up_catalog := Some es\<rparr>"

definition AppendBackup :: "BackupEntry \<Rightarrow> 'w update_world_scheme \<Rightarrow> unit result \<times> 'w update_world_scheme" where
  "AppendBackup e w =
     (case sys_call w of
        (Inl err, w) \<Rightarrow> (Inl (ErrWrap ''failed to create data directory'' err), w)
      | (Inr _, w) \<Rightarrow> js_Update up_catalog catalog_put [] (append_entry e) w)"

definition parseCriticalCount :: "update_env \<Rightarrow> string \<Rightarrow> int" where
  "parseCriticalCount U output = (case ue_report U output of None \<Rightarrow> 0 | Some n \<Rightarrow> n)"

definition truncateOutput :: "string \<Rightarrow> nat \<Rightarrow> string" where
  "truncateOutput b limit = (let s = TrimSpace b in if length s > limit then take limit s @ ''...'' else s)"

text \<open>A failure of the audit itself does not block the update.\<close>

definition postInstallAudit :: "update_env \<Rightarrow> bool \<Rightarrow> 'w update_world_scheme \<Rightarrow> unit result \<times> 'w update_world_scheme" where
  "postInstallAudit U cancelled w =
     (let dir = ue_tmp U @ ''/nrcc-audit-'' @ nat_text (entropy w (calls w) 0) in
      case sys_call w of
        (Inl _, w) \<Rightarrow> (Inr (), w)
      | (Inr _, w) \<Rightarrow>
          (case sys_call w of
             (Inl _, w) \<Rightarrow> (Inr (), snd (sys_call w))
           | (Inr _, w) \<Rightarrow>
               (case run_command U cancelled [''npm'', ''install'', ''--package-lock-only'', ''--prefix'', dir] w of
                  ((_, Some _), w) \<Rightarrow> (Inr (), snd (sys_call w))
                | ((_, None), w) \<Rightarrow>
                    (case run_command U cancelled [''npm'', ''audit'', ''--audit-level=critical'', ''--omit=dev'', ''--json'', ''--prefix'', dir] w of
                       ((output, _), w) \<Rightarrow>
                         (if parseCriticalCount U output > 0
                          then Inl (ErrText (''post-install audit found '' @ int_text (parseCriticalCount U output) @
                                 '' critical vulnerability(ies) - update blocked: '' @ truncateOutput output 200))
                          else Inr (), snd (sys_call w))))))"

text \<open>\<open>ctx_done\<close>: the caller's context is cancelled.\<close>

definition ApplyUpdate :: "update_env \<Rightarrow> bool \<Rightarrow> 'w update_world_scheme \<Rightarrow> unit result \<times> 'w update_world_scheme" where
  "ApplyUpdate U ctx_done w =
     (let cached = GetCachedStatus U w; managed = managedRuntime U; stopped = up_cancelled w in
      if uc_LatestVersion cached = '''' then (Inl (ErrText ''no resolved target version''), w)
      else case mr_Strategy managed of
          StrategyImageLocal \<Rightarrow> (Inl (ErrWrap (mr_Executable managed) (Sentinel ErrUpdateUnsupportedForImage)), w)
        | StrategyExternal \<Rightarrow> (Inl (ErrWrap (mr_Executable managed) (Sentinel ErrExternalRuntimeUnmanaged)), w)
        | StrategyNpmGlobal \<Rightarrow>
            if ctx_done then (Inl (Sentinel CtxErr), w)
            else case run_command U stopped [''npm'', ''install'', ''-g'', ''node-red@'' @ uc_LatestVersion cached] w of
                ((_, Some e), w) \<Rightarrow> (Inl (ErrText (sanitizeErrorMessage U e)), w)
              | ((_, None), w) \<Rightarrow>
                  (case versionFromExecutable U stopped managed w of
                     (Inl e, w) \<Rightarrow> (Inl (ErrWrap (mr_Executable managed) (Sentinel ErrUpdateVerificationFailed)), w)
                   | (Inr installed, w) \<Rightarrow>
                       if installed \<noteq> uc_LatestVersion cached
                       then (Inl (ErrWrap (mr_Executable managed) (Sentinel ErrUpdateVerificationFailed)), w)
                       else postInstallAudit U stopped w))"

definition fail_reason :: "go_error \<Rightarrow> string" where
  "fail_reason e =
     (if errors_is e ErrUpdateUnsupportedForImage then ''image_unsupported''
      else if errors_is e ErrExternalRuntimeUnmanaged then ''external_unsupported'' else ''update_failed'')"

text \<open>\<open>ApplyUpdateWithBackup\<close> behind its lock, in three parts: what it does before the backup, the backup, the
  installation.\<close>

definition begin_update :: "update_env \<Rightarrow> 'w update_world_scheme \<Rightarrow> UpdateCacheEntry result \<times> 'w update_world_scheme" where
  "begin_update U w =
     (if fs_State (up_flow w) \<noteq> StateIdle then (Inl (ErrText ''update cannot start''), w)
      else (Inr (GetCachedStatus U w), w\<lparr>up_flow := flow_state StateBackingUp ''backup''\<rparr>))"

definition backup_update :: "update_env \<Rightarrow> UpdateCacheEntry \<Rightarrow> 'w update_world_scheme \<Rightarrow> BackupEntry result \<times> 'w update_world_scheme" where
  "backup_update U pre w =
     (let from = (if uc_CurrentVersion pre = '''' then ''unknown'' else uc_CurrentVersion pre) in
      case CreateBackup U from w of
        (Inl e, w) \<Rightarrow> (Inl e, w\<lparr>up_flow := (flow_state StateFailed ''backup'')\<lparr>fs_Error := ''backup_failed''\<rparr>\<rparr>)
      | (Inr b, w) \<Rightarrow>
          (let w = snd (AppendBackup b w) in
           (Inr b, w\<lparr>up_flow := (flow_state StateApplying ''applying'')\<lparr>fs_BackupID := bt_ID b, fs_AvailableVersion := uc_LatestVersion pre\<rparr>\<rparr>)))"

definition install_update :: "update_env \<Rightarrow> BackupEntry \<Rightarrow> bool \<Rightarrow> 'w update_world_scheme \<Rightarrow> unit result \<times> 'w update_world_scheme" where
  "install_update U b ctx_done w =
     (case ApplyUpdate U ctx_done w of
        (Inl e, w) \<Rightarrow>
          (Inl e, w\<lparr>up_flow := (flow_state StateFailed ''applying'')\<lparr>fs_Error := fail_reason e, fs_BackupID := bt_ID b\<rparr>\<rparr>)
      | (Inr _, w) \<Rightarrow> (Inr (), w\<lparr>up_flow := (flow_state StateCompleted ''completed'')\<lparr>fs_BackupID := bt_ID b\<rparr>\<rparr>))"

definition ApplyUpdateWithBackup :: "update_env \<Rightarrow> bool \<Rightarrow> bool \<Rightarrow> 'w update_world_scheme \<Rightarrow> unit result \<times> 'w update_world_scheme" where
  "ApplyUpdateWithBackup U locked ctx_done w =
     (if locked then (Inl (ErrText ''update already in progress''), w)
      else and_then (begin_update U) (\<lambda>pre. and_then (backup_update U pre) (\<lambda>b. install_update U b ctx_done)) w)"

section \<open>The server\<close>

text \<open>The goroutines of the flows, each in the part it runs next; the lock of the running one is \<open>sv_lock\<close>.  An accepted request
  answers with the state, the backup and the versions it read; \<open>sv_trail\<close> are the audited versions, \<open>sv_attempts\<close> the outcomes
  the metrics are told.\<close>

datatype flow = Spawned | Backing UpdateCacheEntry | Installing BackupEntry | Ended "unit result"

datatype update_answer = Conflict409 | Started200 UpdateState string string string

record 'w update_server =
  sv_world :: 'w
  sv_lock :: "nat option"
  sv_flows :: "flow list"
  sv_answers :: "update_answer list"
  sv_trail :: "(string \<times> string) list"
  sv_attempts :: "bool list"

definition PostApply :: "update_env \<Rightarrow> 'w update_world_scheme update_server \<Rightarrow> 'w update_world_scheme update_server" where
  "PostApply U s =
     (let st = GetFlowState U (sv_world s); pre = GetCachedStatus U (sv_world s);
          to = (if uc_LatestVersion pre = '''' then ''latest'' else uc_LatestVersion pre)
      in if fs_State st \<noteq> StateIdle then s\<lparr>sv_answers := sv_answers s @ [Conflict409]\<rparr>
         else s\<lparr>sv_flows := sv_flows s @ [Spawned], sv_trail := sv_trail s @ [(uc_CurrentVersion pre, to)],
                sv_answers := sv_answers s @ [Started200 (fs_State st) (fs_BackupID st) (uc_CurrentVersion pre) to]\<rparr>)"

text \<open>\<open>Shutdown\<close> cancels behind the lock of the flow; until it is free the call waits.\<close>

definition update_Shutdown :: "'w update_world_scheme \<Rightarrow> 'w update_world_scheme" where
  "update_Shutdown w = w\<lparr>up_cancelled := True\<rparr>"

datatype update_event = Post | Begin nat | Backup_part nat | Install_part nat | Check bool | Poll | Shutdown_call

definition finished :: "nat \<Rightarrow> unit result \<Rightarrow> 'w update_world_scheme update_server \<Rightarrow> 'w update_world_scheme update_server" where
  "finished i r s = s\<lparr>sv_flows := (sv_flows s)[i := Ended r],
     sv_attempts := sv_attempts s @ [r = Inr () \<and> fs_State (up_flow (sv_world s)) = StateCompleted]\<rparr>"

inductive update_step :: "update_env \<Rightarrow> update_event \<Rightarrow> 'w update_world_scheme update_server \<Rightarrow> 'w update_world_scheme update_server \<Rightarrow> bool"
  for U where
  post: "update_step U Post s (PostApply U s)"
| locked: "\<lbrakk>i < length (sv_flows s); sv_flows s ! i = Spawned; sv_lock s \<noteq> None\<rbrakk> \<Longrightarrow>
    update_step U (Begin i) s (finished i (Inl (ErrText ''update already in progress'')) s)"
| refused: "\<lbrakk>i < length (sv_flows s); sv_flows s ! i = Spawned; sv_lock s = None; begin_update U (sv_world s) = (Inl e, w)\<rbrakk> \<Longrightarrow>
    update_step U (Begin i) s (finished i (Inl e) (s\<lparr>sv_world := w, sv_lock := None\<rparr>))"
| begun: "\<lbrakk>i < length (sv_flows s); sv_flows s ! i = Spawned; sv_lock s = None; begin_update U (sv_world s) = (Inr pre, w)\<rbrakk> \<Longrightarrow>
    update_step U (Begin i) s (s\<lparr>sv_world := w, sv_lock := Some i, sv_flows := (sv_flows s)[i := Backing pre]\<rparr>)"
| not_backed: "\<lbrakk>i < length (sv_flows s); sv_flows s ! i = Backing pre; backup_update U pre (sv_world s) = (Inl e, w)\<rbrakk> \<Longrightarrow>
    update_step U (Backup_part i) s (finished i (Inl e) (s\<lparr>sv_world := w, sv_lock := None\<rparr>))"
| backed: "\<lbrakk>i < length (sv_flows s); sv_flows s ! i = Backing pre; backup_update U pre (sv_world s) = (Inr b, w)\<rbrakk> \<Longrightarrow>
    update_step U (Backup_part i) s (s\<lparr>sv_world := w, sv_flows := (sv_flows s)[i := Installing b]\<rparr>)"
| installed: "\<lbrakk>i < length (sv_flows s); sv_flows s ! i = Installing b; install_update U b False (sv_world s) = (r, w)\<rbrakk> \<Longrightarrow>
    update_step U (Install_part i) s (finished i r (s\<lparr>sv_world := w, sv_lock := None\<rparr>))"
| check: "update_step U (Check busy) s (s\<lparr>sv_world := snd (ForceCheck U busy (sv_world s))\<rparr>)"
| poll: "update_step U Poll s (s\<lparr>sv_world := performCheck U (sv_world s)\<rparr>)"
| shutdown: "sv_lock s = None \<Longrightarrow> update_step U Shutdown_call s (s\<lparr>sv_world := update_Shutdown (sv_world s)\<rparr>)"

inductive update_run :: "update_env \<Rightarrow> 'w update_world_scheme update_server \<Rightarrow> update_event list \<Rightarrow> 'w update_world_scheme update_server \<Rightarrow> bool"
  for U where
  start: "update_run U s [] s"
| then_step: "update_run U s es t \<Longrightarrow> update_step U e t u \<Longrightarrow> update_run U s (es @ [e]) u"

definition started_server :: "update_env \<Rightarrow> 'w update_world_scheme \<Rightarrow> 'w update_world_scheme update_server" where
  "started_server U w = \<lparr>sv_world = NewUpdateService U (w\<lparr>up_trace := []\<rparr>), sv_lock = None, sv_flows = [],
     sv_answers = [], sv_trail = [], sv_attempts = []\<rparr>"

section \<open>The stores\<close>

interpretation checked: json_store up_cache_file cache_put "\<lambda>w. w\<lparr>up_cache_file := None\<rparr>" "\<lambda>c. c"
    "\<lambda>w. (files w, archives w, up_cache w, up_catalog w, up_flow w, up_cancelled w, up_trace w)"
  by unfold_locales (simp_all add: cache_put_def tick_def)

interpretation catalog: json_store up_catalog catalog_put "\<lambda>w. w\<lparr>up_catalog := None\<rparr>" "\<lambda>es. es"
    "\<lambda>w. (files w, archives w, up_cache w, up_cache_file w, up_flow w, up_cancelled w, up_trace w)"
  by unfold_locales (simp_all add: catalog_put_def tick_def)

end
