(* ===== verification/BackupFrame.thy ===== *)
theory BackupFrame
  imports BackupArchive
begin

text \<open>
  Creating a backup touches the backup service's part of the world only: whatever its result, the state of the component that
  asked for it (the extension of the record of the world) stays as it was.
\<close>

abbreviation outer :: "'w bk_world_scheme \<Rightarrow> 'w" where "outer \<equiv> bk_world.more"

lemma same_outer: "same v w \<Longrightarrow> outer w = outer v" by (simp add: same_def)

lemma outer_reads [keepers]:
  "keeper outer sys_call" "keeper outer (read_entry f)" "keeper outer (ReadFile p)" "keeper outer (arch_Stat p)" "keeper outer GetConfig"
  "keeper outer (open_zip msg p)" "keeper outer (bk_List B)"
  by (rule keeper_reads, erule same_outer)+

lemma outer_sys_call: "sys_call w = (r, w') \<Longrightarrow> outer w' = outer w"
  by (rule keeper_eq [OF outer_reads(1)])

lemma outer_changes [simp]:
  "outer (arch_put p a w) = outer w" "outer (arch_del p w) = outer w" "outer (w\<lparr>uploads := us\<rparr>) = outer w"
  by (simp_all add: arch_put_def arch_del_def)

lemma outer_primitives [keepers]:
  "keeper outer (arch_Create B p)" "keeper outer (finish_zip B p es)" "keeper outer (arch_Rename p q)" "keeper outer (arch_Remove p)"
  unfolding keeper_def arch_Create_def finish_zip_def arch_Rename_def arch_Remove_def
  by (auto split: prod.splits sum.splits option.splits if_splits dest!: outer_sys_call)

lemma outer_remove [simp]: "outer (snd (arch_Remove p w)) = outer w"
  by (rule keeperD [OF outer_primitives(4)])

lemma outer_temp [keepers]: "keeper outer (temp_archive n B prefix)"
proof (rule keeperI)
  show "outer (snd (temp_archive n B prefix w)) = outer w" for w
    by (induction n B prefix w rule: temp_archive.induct)
       (auto simp: Let_def split: prod.splits sum.splits dest!: keeper_eq [OF outer_primitives(1)])
qed

lemma outer_rewrite [keepers]: "keeper outer (rewrite_entries B m fs :: 'w bk_world_scheme \<Rightarrow> _)"
proof (induction fs)
  case (Cons f fs)
  have "keeper outer (rewrite_entry B m f :: 'w bk_world_scheme \<Rightarrow> _)" unfolding rewrite_entry_def by (auto intro!: keepers)
  then have "keeper outer (and_then (rewrite_entry B m f) (\<lambda>g. and_then (rewrite_entries B m fs) (\<lambda>gs w. (Inr (g # gs), w))) :: 'w bk_world_scheme \<Rightarrow> _)"
    by (intro keepers Cons) simp_all
  then show ?case by (simp add: keeper_def)
qed (simp add: keeper_def)

lemma outer_patch [keepers]: "keeper outer (patchManifestChecksums B z m :: 'w bk_world_scheme \<Rightarrow> _)"
proof -
  have k: "keeper outer (and_then (rewrite_entries B m fs) (\<lambda>gs. and_then (finish_zip B t gs) (\<lambda>_. and_then sys_call (\<lambda>_. arch_Rename t z))) :: 'w bk_world_scheme \<Rightarrow> _)"
    for fs t by (intro keepers)
  have "keeper outer (\<lambda>w :: 'w bk_world_scheme. let (r, w) = and_then (rewrite_entries B m fs) (\<lambda>gs. and_then (finish_zip B t gs) (\<lambda>_. and_then sys_call (\<lambda>_. arch_Rename t z))) w
      in (r, snd (arch_Remove t w)))" for fs t
    unfolding keeper_def using keeperD [OF k] by (simp add: case_prod_beta Let_def)
  then show ?thesis unfolding patchManifestChecksums_def arch_CreateTemp_def
    by (intro keepers) (auto split: option.split intro!: keepers)
qed

lemma outer_add_file: "keeper outer (addFileToZip B src dst :: 'w bk_world_scheme \<Rightarrow> _)"
proof -
  have k: "keeper outer (and_then (wrapped a sys_call) (\<lambda>_. and_then (wrapped b sys_call) (\<lambda>_. and_then (wrapped c sys_call) (\<lambda>_ w. (Inr x, w)))) :: 'w bk_world_scheme \<Rightarrow> _)"
    for a b c and x :: "(zentry \<times> BackupFileEntry) option" by (intro keepers) simp
  show ?thesis
    unfolding keeper_def addFileToZip_def using keeperD [OF k]
    by (auto split: prod.splits sum.splits dest!: keeper_eq [OF outer_reads(3)])
qed

lemma outer_add_files [keepers]: "keeper outer (add_files B fs :: 'w bk_world_scheme \<Rightarrow> _)"
proof (induction fs)
  case (Cons f fs)
  obtain src dst where f: "f = (src, dst)" by (cases f)
  have "keeper outer (and_then (addFileToZip B src dst) (\<lambda>x. and_then (add_files B fs)
      (\<lambda>xs w. (Inr (case x of None \<Rightarrow> xs | Some p \<Rightarrow> p # xs), w))) :: 'w bk_world_scheme \<Rightarrow> _)"
    by (intro keepers Cons outer_add_file) simp_all
  then show ?case by (simp add: keeper_def f)
qed (simp add: keeper_def)

lemma outer_write [keepers]: "keeper outer (write_archive B cfg m t)"
  unfolding write_archive_def addMetadataToZip_def by (intro keepers) simp_all

lemma outer_publish [keepers]: "keeper outer (publish_archive B m t p)"
  unfolding publish_archive_def by (intro keepers)

lemma outer_removals: "outer (snd (remove_backups kid bs w)) = outer w"
proof (induction kid bs w rule: remove_backups.induct)
  case (2 kid b bs w)
  obtain r v where r: "arch_Remove (b_Path b) w = (r, v)" by (cases "arch_Remove (b_Path b) w") simp
  have v: "outer v = outer w" by (rule keeper_eq [OF outer_primitives(4) r])
  show ?case
  proof (cases "b_ID b = kid")
    case True
    then show ?thesis using 2(1) by simp
  next
    case False
    obtain x u where x: "remove_backups kid bs v = (x, u)" by (cases "remove_backups kid bs v") simp
    have "outer u = outer v" if "\<forall>e. r = Inl e \<longrightarrow> errors_is e ErrNotExist"
      using 2(2-3) [OF False, of r v] that x r by (cases r) auto
    then show ?thesis using False r v x by (auto simp: Let_def split: sum.splits prod.splits)
  qed
qed simp

lemma outer_prune: "outer (snd (pruneBackups B cfg t kid w)) = outer w"
  by (auto simp: pruneBackups_def Let_def outer_removals split: prod.splits sum.splits dest!: keeper_eq [OF outer_reads(7)])

lemma outer_recorded: "outer (recordBackupCreated B b ids w) = outer w"
  using same_outer [OF recordBackupCreated_same] .

lemma outer_create_archive [keepers]: "keeper outer (create_archive B cfg m)"
proof -
  have e: "outer (snd (let b = b0; ((pruned, pruneErr), w) = pruneBackups B cfg t kid w; w = recordBackupCreated B b pruned w;
      w = w\<lparr>uploads := uploads w @ [b]\<rparr> in (case pruneErr of None \<Rightarrow> Inr b | Some e \<Rightarrow> Inl e, w))) = outer w" for b0 t kid w
    using outer_prune [of B cfg t kid w] by (simp add: Let_def case_prod_beta outer_recorded)
  show ?thesis unfolding create_archive_def Let_def
    by (intro keepers) (auto intro!: keepers keeperI simp: e [unfolded Let_def])
qed

lemma outer_createBackup: "keeper outer (createBackup B t nm)"
proof -
  have "keeper outer (\<lambda>w. let (c, w) = GetConfig w; cfg = (case c of Inl _ \<Rightarrow> defaultBackupConfig | Inr x \<Rightarrow> x);
           t = (if t = '''' then backupTypeManual else t);
           createdAt = bv_nano B (calls w);
           name = (if TrimSpace nm = '''' then default_name t createdAt else TrimSpace nm)
       in create_archive B cfg
            \<lparr>md_ID = bv_uuid B (calls w), md_Name = name, md_Type = t, md_CreatedAt = createdAt, md_TriggeredBy = name,
             md_Algorithm = defaultChecksumAlgo, md_Version = currentManifestVersion, md_Files = []\<rparr> w)"
    unfolding keeper_def by (auto simp: Let_def case_prod_beta keeperD [OF outer_create_archive] keeperD [OF outer_reads(5)])
  then show ?thesis unfolding createBackup_def by (intro keepers)
qed

lemma CreateTyped_outer: "CreateTyped B t nm w = (r, w') \<Longrightarrow> outer w' = outer w"
  unfolding CreateTyped_def by (rule keeper_eq [OF outer_createBackup])

end
