(* ===== verification/UpdateSafety.thy ===== *)
theory UpdateSafety
  imports Update BackupFrame BackupRestore
begin

text \<open>
  What updates guarantee: the comparison of released versions is the numerical order of their components; in the life of a
  server at most one installation is run, of a pinned version that was validated, after a backup; and once an update has left
  the state idle no other one is ever accepted.
\<close>

section \<open>The order of versions\<close>

text \<open>A version as its numbers, compared from the left; a missing number counts as zero.\<close>

fun version_order :: "nat list \<Rightarrow> nat list \<Rightarrow> int" where
  "version_order [] [] = 0"
| "version_order (a # as) [] = (if a = 0 then version_order as [] else 1)"
| "version_order [] (b # bs) = (if b = 0 then version_order [] bs else - 1)"
| "version_order (a # as) (b # bs) = (if a < b then - 1 else if b < a then 1 else version_order as bs)"

definition dotted :: "nat list \<Rightarrow> string" where
  "dotted ns = Join (map nat_text ns) ''.''"

lemma nat_text_is_dec: "c \<in> set (nat_text n) \<Longrightarrow> is_dec c"
  by (auto simp: is_dec_def Let_def dest: nat_text_dec)

lemma dec_no_space: "is_dec c \<Longrightarrow> \<not> is_space c \<and> c \<noteq> CHR ''+'' \<and> c \<noteq> CHR ''-'' \<and> c \<noteq> CHR ''v'' \<and> c \<noteq> CHR ''.''"
  by (auto simp: is_dec_def is_space_def Let_def)

lemma scan_nat_text: "n < 2 ^ 63 \<Longrightarrow> scan_int (nat_text n) = int n"
proof -
  assume n: "n < 2 ^ 63"
  obtain c cs where c: "nat_text n = c # cs" by (cases "nat_text n") simp_all
  have d: "\<forall>x\<in>set (nat_text n). is_dec x" using nat_text_is_dec by blast
  then have p: "\<not> is_space c" "c \<noteq> CHR ''+''" "c \<noteq> CHR ''-''" using dec_no_space [of c] c by auto
  have t: "is_dec c" "takeWhile is_dec cs = cs" using d c by (simp_all add: takeWhile_eq_all_conv)
  show ?thesis
    using n p t(1) digits_value_nat_text [of n] unfolding c by (simp add: scan_int_def Let_def HasPrefix_def t(2))
qed

lemma compare_padded:
  assumes "\<forall>n\<in>set ns \<union> set ms. n < 2 ^ 63"
  shows "compare_parts (padded (length ms) (map nat_text ns)) (padded (length ns) (map nat_text ms)) = version_order ns ms"
proof -
  have z: "scan_int ''0'' = 0" using scan_nat_text [of 0] by (simp add: nat_text.simps digit_char_def)
  show ?thesis using assms
    by (induction ns ms rule: version_order.induct) (simp_all add: padded_def scan_nat_text z)
qed

lemma TrimPrefix_dotted: "TrimPrefix (dotted ns) ''v'' = dotted ns"
proof (cases ns)
  case (Cons n ns')
  obtain c cs where c: "nat_text n = c # cs" by (cases "nat_text n") simp_all
  then have "c \<noteq> CHR ''v''" using dec_no_space nat_text_is_dec [of c n] by auto
  then show ?thesis using c Cons by (cases ns') (auto simp: dotted_def TrimPrefix_def HasPrefix_def Join_Cons)
qed (simp add: dotted_def TrimPrefix_def HasPrefix_def)

lemma Split_dotted: "ns \<noteq> [] \<Longrightarrow> Split (dotted ns) (CHR ''.'') = map nat_text ns"
  unfolding dotted_def using dec_no_space nat_text_is_dec by (intro Split_Join) auto

text \<open>C32. \<open>compareVersions\<close> is the numerical order of the components: on dotted numbers that fit a 64-bit integer, of any and of
  different lengths, it answers what comparing the lists of numbers from the left answers, a missing number counting as
  zero.\<close>

theorem compareVersions_is_numeric:
  assumes "ns \<noteq> []" "ms \<noteq> []" "\<forall>n\<in>set ns \<union> set ms. n < 2 ^ 63"
  shows "compareVersions (dotted ns) (dotted ms) = version_order ns ms"
  using compare_padded [OF assms(3)] assms(1,2) by (simp add: compareVersions_def TrimPrefix_dotted Split_dotted)

theorem compareVersions_is_numeric_witness: "compareVersions (dotted [4, 0, 9]) (dotted [4, 0, 10]) = - 1"
  by (subst compareVersions_is_numeric) simp_all

text \<open>The identifiers of a pre-release are not ordered as semantic versions are: \<open>4.0.0-beta.1\<close> counts as newer than
  \<open>4.0.0\<close>, so the release is not offered to an installation of the pre-release.\<close>

theorem prerelease_counts_as_newer:
  "validatedNodeREDVersion ''4.0.0-beta.1'' = ''4.0.0-beta.1'' \<and> compareVersions ''4.0.0-beta.1'' ''4.0.0'' = 1"
  by code_simp

section \<open>What the operations do to the flow\<close>

text \<open>The milestones of the trace: the backups taken and the installations run.\<close>

fun milestone :: "observed \<Rightarrow> bool" where
  "milestone (Archived _) = True"
| "milestone (Ran cmd) \<longleftrightarrow> take 3 cmd = [''npm'', ''install'', ''-g'']"

definition milestones :: "'w update_world_scheme \<Rightarrow> observed list" where
  "milestones w = filter milestone (up_trace w)"

text \<open>An operation that neither moves the flow nor reaches a milestone.\<close>

definition quiet :: "'w update_world_scheme \<Rightarrow> 'w update_world_scheme \<Rightarrow> bool" where
  "quiet v w \<longleftrightarrow> up_flow w = up_flow v \<and> up_cancelled w = up_cancelled v \<and> milestones w = milestones v"

named_theorems quiets

lemma quiet_refl [simp]: "quiet w w" by (simp add: quiet_def)

lemma quiet_trans [trans]: "quiet u v \<Longrightarrow> quiet v w \<Longrightarrow> quiet u w" by (simp add: quiet_def)

lemma quiet_outer: "outer w = outer v \<Longrightarrow> quiet v w"
  by (cases v; cases w) (simp add: quiet_def milestones_def)

lemma quiet_call [quiets]: "sys_call w = (r, w') \<Longrightarrow> quiet w w'"
  by (drule outer_sys_call, erule quiet_outer)

lemma quiet_snd_call [simp]: "quiet v (snd (sys_call w)) \<longleftrightarrow> quiet v w"
proof -
  obtain r w' where c: "sys_call w = (r, w')" by (cases "sys_call w") simp
  show ?thesis using quiet_call [OF c] c by (simp add: quiet_def)
qed

lemma quiet_tick [simp]: "quiet v (tick w) \<longleftrightarrow> quiet v w"
  by (simp add: quiet_def milestones_def tick_def)

lemma quiet_cache [simp]: "quiet v (w\<lparr>up_cache := c\<rparr>) \<longleftrightarrow> quiet v w"
  by (simp add: quiet_def milestones_def)

lemma quiet_run [quiets]:
  "run_command U c cmd w = (r, w') \<Longrightarrow> take 3 cmd \<noteq> [''npm'', ''install'', ''-g''] \<Longrightarrow> quiet w w'"
  by (auto simp: run_command_def quiet_def milestones_def tick_def split: if_splits)

lemma quiet_store [quiets]:
  "js_Write cache_put c w = (r, w') \<Longrightarrow> quiet w w'" "js_Update up_catalog catalog_put z f w = (r2, w') \<Longrightarrow> quiet w w'"
  "js_Exists get w = (b, w') \<Longrightarrow> quiet w w'" "js_Read get w = (r3, w') \<Longrightarrow> quiet w w'"
proof -
  show "js_Write cache_put c w = (r, w') \<Longrightarrow> quiet w w'" using checked.Write_post by (fastforce simp: quiet_def milestones_def)
  show "js_Update up_catalog catalog_put z f w = (r2, w') \<Longrightarrow> quiet w w'"
    using catalog.Update_post by (fastforce simp: quiet_def milestones_def)
  show "js_Exists get w = (b, w') \<Longrightarrow> quiet w w'" "js_Read get w = (r3, w') \<Longrightarrow> quiet w w'"
    by (auto simp: js_Exists_def js_Read_def split: prod.splits sum.splits option.splits dest: quiet_call)
qed

lemma quiet_version [quiets]: "versionFromExecutable U c m w = (r, w') \<Longrightarrow> quiet w w'"
  by (auto simp: versionFromExecutable_def Let_def split: if_splits prod.splits option.splits dest!: quiet_run)

lemma quiet_installed: "getInstalledVersion U w = (v, w') \<Longrightarrow> quiet w w'"
  unfolding getInstalledVersion_def getInstalledVersionInternal_def
  by (auto simp: Let_def split: if_splits prod.splits option.splits sum.splits dest!: quiet_version quiet_run intro: quiet_trans)

lemma quiet_latest: "getLatestVersionInternal U w = (v, w') \<Longrightarrow> quiet w w'"
  unfolding getLatestVersionInternal_def
  by (auto simp: Let_def split: if_splits prod.splits option.splits dest!: quiet_run)

lemma quiet_internal: "performCheckInternal U w = (e, w') \<Longrightarrow> quiet w w'"
  unfolding performCheckInternal_def
  by (auto simp: Let_def split: prod.splits sum.splits dest!: quiet_installed quiet_latest intro: quiet_trans)

lemma quiet_check: "quiet w (performCheck U w)"
proof -
  obtain e v where e: "performCheckInternal U w = (e, v)" by (cases "performCheckInternal U w") simp
  define c where "c = e\<lparr>uc_CheckedAt := ue_clock U (calls v)\<rparr>"
  obtain r u where u: "js_Write cache_put c (v\<lparr>up_cache := c\<rparr>) = (r, u)" by (cases "js_Write cache_put c (v\<lparr>up_cache := c\<rparr>)") simp
  have "quiet v (v\<lparr>up_cache := c\<rparr>)" by simp
  then have "quiet w u" using quiet_internal [OF e] quiet_store(1) [OF u] by (blast intro: quiet_trans)
  then show ?thesis using e u by (simp add: performCheck_def Let_def flip: c_def)
qed

lemma quiet_perform [simp]: "quiet v (performCheck U w) \<longleftrightarrow> quiet v w"
  using quiet_check [of w U] by (simp add: quiet_def)

lemma quiet_force: "quiet w (snd (ForceCheck U busy w))"
  by (simp add: ForceCheck_def Let_def quiet_check)

lemma quiet_audit [quiets]: "postInstallAudit U c w = (r, w') \<Longrightarrow> quiet w w'"
  unfolding postInstallAudit_def
  by (auto simp: Let_def split: if_splits prod.splits option.splits sum.splits dest!: quiet_call quiet_run)
     (simp_all add: quiet_def)

lemma new_service_idle:
  "fs_State (up_flow (NewUpdateService U w)) = StateIdle" "milestones (NewUpdateService U w) = milestones w"
proof -
  let ?w = "w\<lparr>up_cache := empty_cache, up_flow := flow_state StateIdle ''idle'', up_cancelled := False\<rparr>"
  have "quiet ?w (NewUpdateService U w)"
    unfolding NewUpdateService_def
    by (auto simp: Let_def split: prod.splits sum.splits dest!: quiet_store(3,4) intro: quiet_trans)
  then show "fs_State (up_flow (NewUpdateService U w)) = StateIdle" "milestones (NewUpdateService U w) = milestones w"
    by (simp_all add: quiet_def milestones_def flow_state_def)
qed

section \<open>The parts of the flow\<close>

definition installs :: "update_env \<Rightarrow> observed \<Rightarrow> bool" where
  "installs U x \<longleftrightarrow> mr_Strategy (managedRuntime U) = StrategyNpmGlobal \<and>
     (\<exists>v. x = Ran [''npm'', ''install'', ''-g'', ''node-red@'' @ v] \<and> validatedNodeREDVersion v \<noteq> '''')"

lemma cached_latest_valid: "uc_LatestVersion (GetCachedStatus U w) \<noteq> '''' \<Longrightarrow> validatedNodeREDVersion (uc_LatestVersion (GetCachedStatus U w)) \<noteq> ''''"
  by (auto simp: GetCachedStatus_def Let_def split: if_splits)

lemma apply_installs:
  assumes "ApplyUpdate U False w = (r, w')" "uc_LatestVersion (GetCachedStatus U w) \<noteq> ''''" "mr_Strategy (managedRuntime U) = StrategyNpmGlobal"
  shows "up_flow w' = up_flow w \<and> up_cancelled w' = up_cancelled w \<and>
     milestones w' = milestones w @
       (if up_cancelled w then [] else [Ran [''npm'', ''install'', ''-g'', ''node-red@'' @ uc_LatestVersion (GetCachedStatus U w)]])"
proof -
  let ?cmd = "[''npm'', ''install'', ''-g'', ''node-red@'' @ uc_LatestVersion (GetCachedStatus U w)]"
  obtain x e u where u: "run_command U (up_cancelled w) ?cmd w = ((x, e), u)"
    by (cases "run_command U (up_cancelled w) ?cmd w") auto
  have "quiet u w'"
    using assms u unfolding ApplyUpdate_def
    by (auto simp: Let_def split: if_splits prod.splits option.splits sum.splits dest!: quiet_version quiet_audit intro: quiet_trans)
  moreover have "up_flow u = up_flow w \<and> up_cancelled u = up_cancelled w \<and> milestones u = milestones w @ (if up_cancelled w then [] else [Ran ?cmd])"
    using u by (auto simp: run_command_def milestones_def tick_def split: if_splits)
  ultimately show ?thesis unfolding quiet_def by simp
qed

lemma apply_post:
  assumes "ApplyUpdate U d w = (r, w')"
  shows "up_flow w' = up_flow w \<and> up_cancelled w' = up_cancelled w \<and>
     (milestones w' = milestones w \<or> (\<exists>x. installs U x \<and> milestones w' = milestones w @ [x]))"
proof (cases "\<not> d \<and> uc_LatestVersion (GetCachedStatus U w) \<noteq> '''' \<and> mr_Strategy (managedRuntime U) = StrategyNpmGlobal")
  case True
  then have "installs U (Ran [''npm'', ''install'', ''-g'', ''node-red@'' @ uc_LatestVersion (GetCachedStatus U w)])"
    using cached_latest_valid [of U w] by (auto simp: installs_def)
  then show ?thesis using apply_installs [of U w r w'] assms True by auto
next
  case False
  then have "w' = w" using assms by (auto simp: ApplyUpdate_def Let_def split: if_splits RuntimeStrategy.splits)
  then show ?thesis by simp
qed

lemma create_post:
  assumes "CreateBackup U v w = (r, w')"
  shows "up_flow w' = up_flow w \<and> up_cancelled w' = up_cancelled w \<and> up_cache w' = up_cache w \<and>
     milestones w' = milestones w @ (case r of Inl _ \<Rightarrow> [] | Inr b \<Rightarrow> [Archived (bt_ID b)])"
proof (cases "ue_backup U")
  case (Some B)
  obtain x u where u: "CreateTyped B backupTypeManual (''Pre-update backup (from '' @ v @ '')'') w = (x, u)" by force
  have "quiet w u" by (rule quiet_outer [OF CreateTyped_outer [OF u]])
  moreover have "up_cache u = up_cache w" using CreateTyped_outer [OF u] by (cases w; cases u) simp
  ultimately show ?thesis using assms Some u by (auto simp: CreateBackup_def quiet_def milestones_def split: sum.splits)
qed (use assms in \<open>auto simp: CreateBackup_def\<close>)

lemma append_post: "AppendBackup b w = (r, w') \<Longrightarrow> quiet w w' \<and> up_cache w' = up_cache w"
  by (auto simp: AppendBackup_def quiet_def milestones_def tick_def split: prod.splits sum.splits
      dest!: sys_call_tick catalog.Update_post)

lemma backup_post:
  assumes "backup_update U pre w = (r, w')"
  shows "fs_State (up_flow w') = (case r of Inl _ \<Rightarrow> StateFailed | Inr _ \<Rightarrow> StateApplying) \<and> up_cancelled w' = up_cancelled w \<and>
     up_cache w' = up_cache w \<and> milestones w' = milestones w @ (case r of Inl _ \<Rightarrow> [] | Inr b \<Rightarrow> [Archived (bt_ID b)])"
proof -
  define v0 where "v0 = (if uc_CurrentVersion pre = '''' then ''unknown'' else uc_CurrentVersion pre)"
  obtain x u where u: "CreateBackup U v0 w = (x, u)" by force
  note c = create_post [OF u]
  show ?thesis
  proof (cases x)
    case (Inl e)
    then show ?thesis using assms u c by (auto simp: backup_update_def Let_def flow_state_def milestones_def simp flip: v0_def)
  next
    case (Inr b)
    obtain y v where v: "AppendBackup b u = (y, v)" by force
    have "quiet u v \<and> up_cache v = up_cache u" by (rule append_post [OF v])
    then show ?thesis using assms u c v Inr
      by (auto simp: backup_update_def Let_def flow_state_def milestones_def quiet_def simp flip: v0_def)
  qed
qed

lemma install_post:
  assumes "install_update U b d w = (r, w')"
  shows "fs_State (up_flow w') = (case r of Inl _ \<Rightarrow> StateFailed | Inr _ \<Rightarrow> StateCompleted) \<and>
     (milestones w' = milestones w \<or> (\<exists>x. installs U x \<and> milestones w' = milestones w @ [x]))"
proof -
  obtain x u where u: "ApplyUpdate U d w = (x, u)" by force
  have m: "milestones (u\<lparr>up_flow := f\<rparr>) = milestones u" for f by (simp add: milestones_def)
  show ?thesis using assms u apply_post [OF u] by (cases x) (auto simp: install_update_def flow_state_def m)
qed

lemma begin_post:
  assumes "begin_update U w = (r, w')"
  shows "case r of Inl _ \<Rightarrow> w' = w | Inr _ \<Rightarrow> fs_State (up_flow w) = StateIdle \<and> fs_State (up_flow w') = StateBackingUp \<and> milestones w' = milestones w"
  using assms by (auto simp: begin_update_def flow_state_def milestones_def split: if_splits)

section \<open>One update in the life of a server\<close>

text \<open>The milestones of a life: at most a backup, and after it at most an installation.\<close>

definition one_update :: "update_env \<Rightarrow> observed list \<Rightarrow> bool" where
  "one_update U ms \<longleftrightarrow> (case ms of [] \<Rightarrow> True | [Archived _] \<Rightarrow> True | [Archived _, x] \<Rightarrow> installs U x | _ \<Rightarrow> False)"

text \<open>A flow at work holds the lock; what was done so far depends on its part.\<close>

fun flow_ok :: "nat option \<Rightarrow> observed list \<Rightarrow> nat \<Rightarrow> flow \<Rightarrow> bool" where
  "flow_ok l ms i (Backing _) \<longleftrightarrow> l = Some i \<and> ms = []"
| "flow_ok l ms i (Installing b) \<longleftrightarrow> l = Some i \<and> ms = [Archived (bt_ID b)]"
| "flow_ok l ms i _ \<longleftrightarrow> l \<noteq> Some i"

definition server_inv :: "update_env \<Rightarrow> 'w update_world_scheme update_server \<Rightarrow> bool" where
  "server_inv U s \<longleftrightarrow>
     (fs_State (up_flow (sv_world s)) = StateIdle \<longrightarrow> sv_lock s = None \<and> milestones (sv_world s) = []) \<and>
     (\<forall>i. sv_lock s = Some i \<longrightarrow> i < length (sv_flows s)) \<and>
     (\<forall>i < length (sv_flows s). flow_ok (sv_lock s) (milestones (sv_world s)) i (sv_flows s ! i)) \<and>
     one_update U (milestones (sv_world s))"

lemma one_update_simps [simp]: "one_update U []" "one_update U [Archived i]" "one_update U [Archived i, x] \<longleftrightarrow> installs U x"
  by (simp_all add: one_update_def)

lemma flow_ok_other: "flow_ok l ms j f \<Longrightarrow> l \<noteq> Some j \<Longrightarrow> l' \<noteq> Some j \<Longrightarrow> flow_ok l' ms' j f"
  by (cases f) auto

lemma server_inv_quiet:
  "server_inv U s \<Longrightarrow> quiet (sv_world s) w \<Longrightarrow> server_inv U (s\<lparr>sv_world := w\<rparr>)"
  by (simp add: server_inv_def quiet_def)

lemma server_inv_attempts [simp]: "server_inv U (s\<lparr>sv_attempts := as\<rparr>) \<longleftrightarrow> server_inv U s"
  by (simp add: server_inv_def)

text \<open>A step of one flow: the others do not hold the lock.\<close>

lemma server_inv_flow:
  assumes "server_inv U s" "i < length (sv_flows s)" "sv_lock s \<in> {None, Some i}" "l \<in> {None, Some i}"
    and "fs_State (up_flow w) = StateIdle \<Longrightarrow> l = None \<and> milestones w = []"
    and "flow_ok l (milestones w) i f" "one_update U (milestones w)"
  shows "server_inv U (s\<lparr>sv_world := w, sv_lock := l, sv_flows := (sv_flows s)[i := f]\<rparr>)"
proof -
  have "flow_ok l (milestones w) j ((sv_flows s)[i := f] ! j)" if "j < length (sv_flows s)" for j
    using assms(1,3,4,6) that by (cases "i = j") (auto simp: server_inv_def intro: flow_ok_other)
  then show ?thesis using assms by (auto simp: server_inv_def)
qed

lemma flow_at: "server_inv U s \<Longrightarrow> i < length (sv_flows s) \<Longrightarrow> flow_ok (sv_lock s) (milestones (sv_world s)) i (sv_flows s ! i)"
  by (simp add: server_inv_def)

lemma idle_free: "server_inv U s \<Longrightarrow> fs_State (up_flow (sv_world s)) = StateIdle \<Longrightarrow> sv_lock s = None \<and> milestones (sv_world s) = []"
  by (simp add: server_inv_def)

lemma server_inv_step:
  assumes "update_step U e s t" "server_inv U s"
  shows "server_inv U t"
  using assms(1)
proof cases
  case post
  then show ?thesis using assms(2) by (auto simp: server_inv_def PostApply_def Let_def nth_append less_Suc_eq)
next
  case (locked i)
  have "flow_ok (sv_lock s) (milestones (sv_world s)) j ((sv_flows s)[i := Ended r] ! j)" if "j < length (sv_flows s)" for j r
    using flow_at [OF assms(2) that] locked(4) that by (cases "i = j") auto
  then show ?thesis using assms(2) locked by (simp add: server_inv_def finished_def)
next
  case (refused i err w)
  then have w: "w = sv_world s" using begin_post [OF refused(6)] by simp
  show ?thesis unfolding refused(2) finished_def
    using server_inv_flow [OF assms(2) refused(3), of None w "Ended (Inl err)"] idle_free [OF assms(2)] assms(2) refused(5) w
    by (simp add: server_inv_def)
next
  case (begun i pre w)
  then show ?thesis unfolding begun(2)
    using server_inv_flow [OF assms(2) begun(3), of "Some i" w "Backing pre"] begin_post [OF begun(6)] idle_free [OF assms(2)] by simp
next
  case (not_backed i pre err w)
  then show ?thesis unfolding not_backed(2) finished_def
    using server_inv_flow [OF assms(2) not_backed(3), of None w "Ended (Inl err)"] backup_post [OF not_backed(5)]
      flow_at [OF assms(2) not_backed(3)] by simp
next
  case (backed i pre b w)
  then have "sv_lock s = Some i" using flow_at [OF assms(2) backed(3)] by simp
  then have eq: "s\<lparr>sv_world := w, sv_flows := (sv_flows s)[i := Installing b]\<rparr> =
      s\<lparr>sv_world := w, sv_lock := Some i, sv_flows := (sv_flows s)[i := Installing b]\<rparr>" by (cases s) simp
  show ?thesis unfolding backed(2) eq
    using server_inv_flow [OF assms(2) backed(3), of "Some i" w "Installing b"] backup_post [OF backed(5)]
      flow_at [OF assms(2) backed(3)] backed(4) by simp
next
  case (installed i b r w)
  have "one_update U (milestones w)"
    using install_post [OF installed(5)] flow_at [OF assms(2) installed(3)] installed(4) by auto
  then show ?thesis unfolding installed(2) finished_def
    using server_inv_flow [OF assms(2) installed(3), of None w "Ended r"] install_post [OF installed(5)]
      flow_at [OF assms(2) installed(3)] installed(4) by (simp split: sum.splits)
next
  case (check busy)
  then show ?thesis using server_inv_quiet [OF assms(2) quiet_force] by simp
next
  case poll
  then show ?thesis using server_inv_quiet [OF assms(2) quiet_check] by simp
next
  case shutdown
  then show ?thesis using assms(2) by (simp add: server_inv_def milestones_def update_Shutdown_def)
qed

lemma server_inv_started: "server_inv U (started_server U w)"
  using new_service_idle [of U "w\<lparr>up_trace := []\<rparr>"] by (simp add: started_server_def server_inv_def milestones_def)

lemma server_inv_run: "update_run U s es t \<Longrightarrow> server_inv U s \<Longrightarrow> server_inv U t"
  by (induction rule: update_run.induct) (auto intro: server_inv_step)

text \<open>C31. In the life of a server, whatever the interleaving of its requests, flows, checks and shutdowns, at most one backup
  is taken for an update and at most one installation is run; the installation comes after the backup, names a pinned version
  that passed the validation, and is run only where the managed executable is a global npm package.\<close>

theorem one_update_after_a_backup:
  assumes "update_run U (started_server U w) es s"
  shows "case milestones (sv_world s) of [] \<Rightarrow> True | [Archived _] \<Rightarrow> True | [Archived _, x] \<Rightarrow> installs U x | _ \<Rightarrow> False"
  using server_inv_run [OF assms server_inv_started] by (simp add: server_inv_def one_update_def)

text \<open>A server whose cache offers 4.0.1 for an installed 4.0.0.\<close>

definition sample_update_env :: update_env where
  "sample_update_env =
     \<lparr>ue_backup = Some (sample_backup_env (\<lambda>_. ''b1'')), ue_runner = (\<lambda>cmd n. (''4.0.1'', None)), ue_json = (\<lambda>_. None), ue_report = (\<lambda>_. None),
      ue_Error = (\<lambda>_. ''''), ue_LookPath = (\<lambda>_. Some ''/usr/bin/node-red''),
      ue_EvalSymlinks = (\<lambda>_. Some ''/usr/lib/node_modules/node-red/red.js''), ue_cwd = ''/'', ue_tmp = ''/tmp'', ue_command = ''node-red'',
      ue_clock = (\<lambda>_. ''2024-05-01'')\<rparr>"

definition sample_update_world :: update_world where
  "sample_update_world = bk_world.extend sample_backup_world
     \<lparr>up_cache = empty_cache, up_cache_file = Some (empty_cache\<lparr>uc_CurrentVersion := ''4.0.0'', uc_LatestVersion := ''4.0.1'', uc_UpdateAvailable := True\<rparr>),
      up_catalog = None, up_flow = flow_state StateIdle ''idle'', up_cancelled = False, up_trace = []\<rparr>"

lemma sample_update_started:
  "NewUpdateService sample_update_env sample_update_world = (tick (tick sample_update_world))\<lparr>up_cache := the (up_cache_file sample_update_world)\<rparr>"
  by (simp add: NewUpdateService_def js_Exists_def js_Read_def sys_call_def sample_update_world_def sample_backup_world_def bk_world.defs
      Let_def tick_def empty_cache_def)

lemma sample_update_cached:
  "up_cache w = the (up_cache_file sample_update_world) \<Longrightarrow> uc_LatestVersion (GetCachedStatus sample_update_env w) = ''4.0.1''"
proof -
  have "validatedNodeREDVersion ''4.0.1'' \<noteq> ''''" by code_simp
  then show "up_cache w = the (up_cache_file sample_update_world) \<Longrightarrow> ?thesis"
    by (simp add: GetCachedStatus_def Let_def sample_update_world_def bk_world.defs empty_cache_def)
qed

lemma sample_update_strategy: "mr_Strategy (managedRuntime sample_update_env) = StrategyNpmGlobal"
  by code_simp

theorem one_update_after_a_backup_witness:
  "\<exists>es s a x. update_run sample_update_env (started_server sample_update_env sample_update_world) es s \<and>
     milestones (sv_world s) = [a, x] \<and> installs sample_update_env x"
proof -
  let ?U = sample_update_env and ?s = "started_server sample_update_env sample_update_world"
  define W where "W = NewUpdateService ?U sample_update_world"
  define V where "V = W\<lparr>up_flow := flow_state StateBackingUp ''backup''\<rparr>"
  have W: "fs_State (up_flow W) = StateIdle" "milestones W = []" "\<not> up_cancelled W" "up_cache W = the (up_cache_file sample_update_world)"
    unfolding W_def sample_update_started by (simp_all add: tick_def milestones_def sample_update_world_def bk_world.defs flow_state_def)
  have s: "?s = \<lparr>sv_world = W, sv_lock = None, sv_flows = [], sv_answers = [], sv_trail = [], sv_attempts = []\<rparr>"
    by (simp add: started_server_def W_def) (simp add: sample_update_world_def bk_world.defs)
  note start = update_run.start [of ?U ?s]
  let ?s1 = "PostApply ?U ?s"
  have f1: "sv_world ?s1 = W" "sv_lock ?s1 = None" "sv_flows ?s1 = [Spawned]"
    using W(1) by (simp_all add: PostApply_def GetFlowState_def Let_def s)
  have r1: "update_run ?U ?s [Post] ?s1" using update_run.then_step [OF start update_step.post] by simp
  have g: "begin_update ?U W = (Inr (GetCachedStatus ?U W), V)" using W(1) by (simp add: begin_update_def V_def)
  let ?s2 = "?s1\<lparr>sv_world := V, sv_lock := Some 0, sv_flows := (sv_flows ?s1)[0 := Backing (GetCachedStatus ?U W)]\<rparr>"
  have r2: "update_run ?U ?s ([Post] @ [Begin 0]) ?s2"
    by (rule update_run.then_step [OF r1], rule update_step.begun) (simp_all add: f1 g)
  have "calm V" "no_leftovers V"
    unfolding V_def W_def sample_update_started
    by (simp_all add: calm_def no_leftovers_def tick_def sample_update_world_def sample_backup_world_def bk_world.defs)
  note made = createBackup_calm [OF this, of "sample_backup_env (\<lambda>_. ''b1'')" "normalizeBackupType backupTypeManual"]
  have "\<exists>b w. CreateBackup ?U v V = (Inr b, w)" for v
    using made [of "''Pre-update backup (from '' @ v @ '')''"] by (auto simp: CreateBackup_def sample_update_env_def CreateTyped_def)
  then have "\<exists>b w. backup_update ?U pre V = (Inr b, w)" for pre
  proof -
    assume "\<And>v. \<exists>b w. CreateBackup ?U v V = (Inr b, w)"
    then obtain b w where "CreateBackup ?U (if uc_CurrentVersion pre = '''' then ''unknown'' else uc_CurrentVersion pre) V = (Inr b, w)"
      by blast
    then show ?thesis unfolding backup_update_def Let_def by simp
  qed
  then obtain b u where u: "backup_update ?U (GetCachedStatus ?U W) V = (Inr b, u)" by blast
  let ?s3 = "?s2\<lparr>sv_world := u, sv_flows := (sv_flows ?s2)[0 := Installing b]\<rparr>"
  have r3: "update_run ?U ?s (([Post] @ [Begin 0]) @ [Backup_part 0]) ?s3"
    by (rule update_run.then_step [OF r2], rule update_step.backed [where pre = "GetCachedStatus ?U W"]) (use u in \<open>simp_all add: f1\<close>)
  obtain r w where w: "install_update ?U b False u = (r, w)" by force
  let ?s4 = "finished 0 r (?s3\<lparr>sv_world := w, sv_lock := None\<rparr>)"
  have r4: "update_run ?U ?s ((([Post] @ [Begin 0]) @ [Backup_part 0]) @ [Install_part 0]) ?s4"
    by (rule update_run.then_step [OF r3], rule update_step.installed [where b = b]) (use w in \<open>simp_all add: f1\<close>)
  have u2: "milestones u = [Archived (bt_ID b)]" "\<not> up_cancelled u" "up_cache u = up_cache W"
    using backup_post [OF u] W(2,3) by (simp_all add: V_def milestones_def)
  obtain x v where v: "ApplyUpdate ?U False u = (x, v)" by force
  have "milestones v = [Archived (bt_ID b), Ran [''npm'', ''install'', ''-g'', ''node-red@4.0.1'']]"
    using apply_installs [OF v _ sample_update_strategy] sample_update_cached [of u] u2 W(4) by simp
  then have m: "milestones w = [Archived (bt_ID b), Ran [''npm'', ''install'', ''-g'', ''node-red@4.0.1'']]"
    using w v by (auto simp: install_update_def milestones_def split: sum.splits)
  then have "installs ?U (Ran [''npm'', ''install'', ''-g'', ''node-red@4.0.1''])"
    using one_update_after_a_backup [OF r4] by (simp add: finished_def)
  then show ?thesis using r4 m by (fastforce simp: finished_def)
qed

section \<open>No second update\<close>

lemma left_idle_step:
  assumes "update_step U e s t" "fs_State (up_flow (sv_world s)) \<noteq> StateIdle"
  shows "fs_State (up_flow (sv_world t)) \<noteq> StateIdle \<and> length (sv_flows t) = length (sv_flows s) \<and>
     sv_answers t = sv_answers s @ (if e = Post then [Conflict409] else [])"
  using assms(1)
proof cases
  case post
  then show ?thesis using assms(2) by (auto simp: PostApply_def GetFlowState_def Let_def)
next
  case (locked i)
  then show ?thesis using assms(2) by (simp add: finished_def)
next
  case (refused i err w)
  then show ?thesis using assms(2) begin_post [OF refused(6)] by (simp add: finished_def)
next
  case (begun i pre w)
  then show ?thesis using assms(2) begin_post [OF begun(6)] by simp
next
  case (not_backed i pre err w)
  then show ?thesis using assms(2) backup_post [OF not_backed(5)] by (simp add: finished_def)
next
  case (backed i pre b w)
  then show ?thesis using assms(2) backup_post [OF backed(5)] by simp
next
  case (installed i b r w)
  then show ?thesis using assms(2) install_post [OF installed(5)] by (simp add: finished_def split: sum.splits)
next
  case (check busy)
  then show ?thesis using assms(2) quiet_force [of "sv_world s" U busy] by (simp add: quiet_def)
next
  case poll
  then show ?thesis using assms(2) quiet_check [of "sv_world s" U] by (simp add: quiet_def)
next
  case shutdown
  then show ?thesis using assms(2) by (simp add: update_Shutdown_def)
qed

text \<open>C33. Nothing brings the service back to idle: once an update was begun, completed or failed, no flow is started any more
  and every later request to update is answered 409, until the server is restarted.\<close>

theorem second_update_is_refused:
  assumes "update_run U s es t" "fs_State (up_flow (sv_world s)) \<noteq> StateIdle"
  shows "fs_State (up_flow (sv_world t)) \<noteq> StateIdle \<and> length (sv_flows t) = length (sv_flows s) \<and>
     sv_answers t = sv_answers s @ replicate (count_list es Post) Conflict409"
  using assms
  by (induction rule: update_run.induct) (auto dest!: left_idle_step simp: replicate_append_same)


theorem second_update_is_refused_witness:
  "sv_answers (PostApply sample_update_env (started_server sample_update_env sample_update_world
     \<lparr>sv_world := sample_update_world\<lparr>up_flow := flow_state StateFailed ''backup''\<rparr>\<rparr>)) = [Conflict409]"
proof -
  let ?s = "started_server sample_update_env sample_update_world\<lparr>sv_world := sample_update_world\<lparr>up_flow := flow_state StateFailed ''backup''\<rparr>\<rparr>"
  have "update_run sample_update_env ?s ([] @ [Post]) (PostApply sample_update_env ?s)"
    by (rule update_run.then_step [OF update_run.start update_step.post])
  from second_update_is_refused [OF this] show ?thesis by (simp add: flow_state_def started_server_def)
qed

end
