(* ===== verification/FlowVersions.thy ===== *)
theory FlowVersions
  imports BackupService Json
begin

text \<open>
  Copies of flows.json: src/internal/service/flow_version.go and the version endpoints of src/internal/handler/flows.go.  The
  directory of the copies is a list of names with contents.  SHA-256 in hex, the stamp of the clock (as a function of the
  moment), its reading, JSON and the order in which Go ranges over a map are parameters.  The lock makes every capture one
  step; the polling goroutine repeats \<open>captureIfChanged\<close>.
\<close>

section \<open>Data\<close>

record FlowVersion =
  fv_ID :: string
  fv_Timestamp :: string
  fv_Hash :: string
  fv_NodeCount :: nat
  fv_Size :: nat

record FlowDiffEntry =
  fd_ID :: string
  fd_Type :: string
  fd_Label :: string

record FlowDiffMod =
  fm_ID :: string
  fm_Type :: string
  fm_Label :: string
  fm_Changed :: "string list"

record FlowDiff =
  df_Added :: "FlowDiffEntry list"
  df_Removed :: "FlowDiffEntry list"
  df_Modified :: "FlowDiffMod list"

type_synonym flow_node = "(string \<times> json) list"

record flow_env =
  fl_dataDir :: string
  fl_sha256 :: "string \<Rightarrow> string"
  fl_stamp :: "nat \<Rightarrow> string"
  fl_RFC3339 :: "string \<Rightarrow> string option"
  fl_json :: "string \<Rightarrow> json option"
  fl_marshal :: "json \<Rightarrow> string"
  fl_range :: "nat \<Rightarrow> string list \<Rightarrow> string list"

record flow_world = world +
  versions :: "(string \<times> string) list"
  lastHash :: string
  flow_trail :: "(string \<times> string) list"

definition maxVersions :: nat where "maxVersions = 100"

definition flowsPath :: "flow_env \<Rightarrow> string" where
  "flowsPath F = JoinPath [fl_dataDir F, ''flows.json'']"

section \<open>The directory of the copies\<close>

definition version_put :: "string \<Rightarrow> string \<Rightarrow> 'w flow_world_scheme \<Rightarrow> 'w flow_world_scheme" where
  "version_put name data w = w\<lparr>versions := filter (\<lambda>p. fst p \<noteq> name) (versions w) @ [(name, data)]\<rparr>"

definition version_ReadDir :: "'w flow_world_scheme \<Rightarrow> string list result \<times> 'w flow_world_scheme" where
  "version_ReadDir w =
     (case sys_call w of
        (Inl e, w) \<Rightarrow> (Inl e, w)
      | (Inr _, w) \<Rightarrow> (Inr (foldr insert_name (map fst (versions w)) []), w))"

definition version_ReadFile :: "string \<Rightarrow> 'w flow_world_scheme \<Rightarrow> string result \<times> 'w flow_world_scheme" where
  "version_ReadFile name w =
     (case sys_call w of
        (Inl e, w) \<Rightarrow> (Inl e, w)
      | (Inr _, w) \<Rightarrow> (case map_of (versions w) name of None \<Rightarrow> (Inl (Sentinel ErrNotExist), w) | Some data \<Rightarrow> (Inr data, w)))"

text \<open>\<open>os.WriteFile\<close>: open and truncate, write, close.\<close>

definition version_WriteFile :: "string \<Rightarrow> string \<Rightarrow> 'w flow_world_scheme \<Rightarrow> unit result \<times> 'w flow_world_scheme" where
  "version_WriteFile name data w =
     (case sys_call w of
        (Inl e, w) \<Rightarrow> (Inl e, w)
      | (Inr _, w) \<Rightarrow>
          (case sys_call w of
             (Inl e, v) \<Rightarrow> (Inl e, snd (sys_call (version_put name (take (torn w (calls w)) data) v)))
           | (Inr _, v) \<Rightarrow> sys_call (version_put name data v)))"

definition version_Remove :: "string \<Rightarrow> 'w flow_world_scheme \<Rightarrow> 'w flow_world_scheme" where
  "version_Remove name w =
     (case sys_call w of (Inl _, w) \<Rightarrow> w | (Inr _, w) \<Rightarrow> w\<lparr>versions := filter (\<lambda>p. fst p \<noteq> name) (versions w)\<rparr>)"

section \<open>Capturing\<close>

fun remove_versions :: "string list \<Rightarrow> 'w flow_world_scheme \<Rightarrow> 'w flow_world_scheme" where
  "remove_versions [] w = w"
| "remove_versions (n # ns) w = remove_versions ns (version_Remove n w)"

definition pruneOld :: "'w flow_world_scheme \<Rightarrow> 'w flow_world_scheme" where
  "pruneOld w =
     (case version_ReadDir w of
        (Inl _, w) \<Rightarrow> w
      | (Inr names, w) \<Rightarrow>
          (let fs = filter (\<lambda>n. HasSuffix n ''.json'') names in
           if length fs \<le> maxVersions then w
           else remove_versions (take (length fs - maxVersions) (foldr insert_name fs [])) w))"

definition version_name :: "flow_env \<Rightarrow> nat \<Rightarrow> string \<Rightarrow> string" where
  "version_name F n hash = fl_stamp F n @ ''_'' @ take 8 hash @ ''.json''"

definition saveVersion :: "flow_env \<Rightarrow> string \<Rightarrow> string \<Rightarrow> 'w flow_world_scheme \<Rightarrow> unit result \<times> 'w flow_world_scheme" where
  "saveVersion F data hash w =
     (case version_WriteFile (version_name F (calls w) hash) data w of
        (Inl e, w) \<Rightarrow> (Inl (ErrWrap ''write version'' e), w)
      | (Inr _, w) \<Rightarrow> (Inr (), pruneOld w))"

definition captureIfChanged :: "flow_env \<Rightarrow> 'w flow_world_scheme \<Rightarrow> 'w flow_world_scheme" where
  "captureIfChanged F w =
     (case ReadFile (flowsPath F) w of
        (Inl _, w) \<Rightarrow> w
      | (Inr data, w) \<Rightarrow>
          (let hash = fl_sha256 F data in
           if hash = lastHash w then w else snd (saveVersion F data hash (w\<lparr>lastHash := hash\<rparr>))))"

definition CaptureNow :: "flow_env \<Rightarrow> 'w flow_world_scheme \<Rightarrow> unit result \<times> 'w flow_world_scheme" where
  "CaptureNow F w =
     (case ReadFile (flowsPath F) w of
        (Inl e, w) \<Rightarrow> (Inl (ErrWrap ''read flows'' e), w)
      | (Inr data, w) \<Rightarrow> (let hash = fl_sha256 F data in saveVersion F data hash (w\<lparr>lastHash := hash\<rparr>)))"

section \<open>Reading copies\<close>

definition countNodes :: "flow_env \<Rightarrow> string \<Rightarrow> 'w flow_world_scheme \<Rightarrow> nat \<times> 'w flow_world_scheme" where
  "countNodes F name w =
     (case version_ReadFile name w of
        (Inl _, w) \<Rightarrow> (0, w)
      | (Inr data, w) \<Rightarrow> (case Option.bind (fl_json F data) as_array of None \<Rightarrow> 0 | Some xs \<Rightarrow> length xs, w))"

text \<open>The stamp and the hash in a name; a name without an underscore has neither.\<close>

definition name_parts :: "flow_env \<Rightarrow> string \<Rightarrow> string \<times> string" where
  "name_parts F name =
     (case IndexByte name (CHR ''_'') of
        None \<Rightarrow> ('''', '''')
      | Some i \<Rightarrow> (case fl_RFC3339 F (take i name) of None \<Rightarrow> '''' | Some t \<Rightarrow> t, drop (Suc i) name))"

fun list_versions :: "flow_env \<Rightarrow> string list \<Rightarrow> 'w flow_world_scheme \<Rightarrow> FlowVersion list \<times> 'w flow_world_scheme" where
  "list_versions F [] w = ([], w)"
| "list_versions F (n # ns) w =
     (if \<not> HasSuffix n ''.json'' then list_versions F ns w
      else case sys_call w of
          (Inl _, w) \<Rightarrow> list_versions F ns w
        | (Inr _, w) \<Rightarrow>
            (let bytes = (case map_of (versions w) n of None \<Rightarrow> 0 | Some data \<Rightarrow> length data);
                 (ts, hash) = name_parts F (TrimSuffix n ''.json'');
                 (count, w) = countNodes F n w;
                 (vs, w) = list_versions F ns w
             in (\<lparr>fv_ID = n, fv_Timestamp = ts, fv_Hash = hash, fv_NodeCount = count, fv_Size = bytes\<rparr> # vs, w)))"

definition ListVersions :: "flow_env \<Rightarrow> 'w flow_world_scheme \<Rightarrow> FlowVersion list result \<times> 'w flow_world_scheme" where
  "ListVersions F w =
     (case version_ReadDir w of
        (Inl e, w) \<Rightarrow> (if errors_is e ErrNotExist then Inr [] else Inl e, w)
      | (Inr names, w) \<Rightarrow>
          (let (vs, w) = list_versions F names w in (Inr (stable_sort (\<lambda>a b. str_less (fv_ID b) (fv_ID a)) vs), w)))"

definition GetVersion :: "string \<Rightarrow> 'w flow_world_scheme \<Rightarrow> string result \<times> 'w flow_world_scheme" where
  "GetVersion ident w =
     (if Contains ident ''..'' \<or> CHR ''/'' \<in> set ident \<or> CHR 0x5C \<in> set ident then (Inl (ErrText ''invalid version id''), w)
      else case version_ReadFile ident w of
          (Inl _, w) \<Rightarrow> (Inl (ErrText ''version not found''), w)
        | (Inr data, w) \<Rightarrow> (Inr data, w))"

section \<open>Differences\<close>

text \<open>\<open>json.Unmarshal\<close> into a slice of maps: \<open>null\<close> is the empty slice, a \<open>null\<close> element the empty map.\<close>

fun as_node :: "json \<Rightarrow> flow_node option" where
  "as_node JNull = Some []"
| "as_node x = as_object x"

fun as_nodes :: "json \<Rightarrow> flow_node list option" where
  "as_nodes JNull = Some []"
| "as_nodes (JArr xs) = those (map as_node xs)"
| "as_nodes _ = None"

definition put_node :: "flow_node \<Rightarrow> (string \<times> flow_node) list \<Rightarrow> (string \<times> flow_node) list" where
  "put_node n m = (case as_string (field n ''id'') of None \<Rightarrow> m | Some i \<Rightarrow> (i, n) # filter (\<lambda>p. fst p \<noteq> i) m)"

definition parseNodeMap :: "flow_env \<Rightarrow> string \<Rightarrow> (string \<times> flow_node) list" where
  "parseNodeMap F data =
     (case Option.bind (fl_json F data) as_nodes of None \<Rightarrow> [] | Some ns \<Rightarrow> fold put_node ns [])"

definition strField :: "flow_node \<Rightarrow> string \<Rightarrow> string" where
  "strField n key = (case as_string (field n key) of None \<Rightarrow> '''' | Some s \<Rightarrow> s)"

definition nodeEntry :: "string \<Rightarrow> flow_node \<Rightarrow> FlowDiffEntry" where
  "nodeEntry ident n = \<lparr>fd_ID = ident, fd_Type = strField n ''type'', fd_Label = strField n ''label''\<rparr>"

definition diffFields :: "flow_env \<Rightarrow> flow_node \<Rightarrow> flow_node \<Rightarrow> string list" where
  "diffFields F a b =
     foldr insert_name
       (filter (\<lambda>k. k \<noteq> ''id'' \<and> fl_marshal F (field a k) \<noteq> fl_marshal F (field b k)) (remdups (map fst a @ map fst b))) []"

definition diff_nodes :: "flow_env \<Rightarrow> (string \<times> flow_node) list \<Rightarrow> (string \<times> flow_node) list \<Rightarrow> FlowDiff" where
  "diff_nodes F old new =
     \<lparr>df_Added = map (\<lambda>i. nodeEntry i (the (map_of new i))) (filter (\<lambda>i. map_of old i = None) (fl_range F 0 (map fst new))),
       df_Removed = map (\<lambda>i. nodeEntry i (the (map_of old i))) (filter (\<lambda>i. map_of new i = None) (fl_range F 1 (map fst old))),
       df_Modified = map (\<lambda>i. let n = the (map_of new i) in
           \<lparr>fm_ID = i, fm_Type = strField n ''type'', fm_Label = strField n ''label'', fm_Changed = diffFields F (the (map_of old i)) n\<rparr>)
         (filter (\<lambda>i. map_of old i \<noteq> None \<and> diffFields F (the (map_of old i)) (the (map_of new i)) \<noteq> [])
           (fl_range F 2 (map fst new)))\<rparr>"

definition DiffVersions :: "flow_env \<Rightarrow> string \<Rightarrow> string \<Rightarrow> 'w flow_world_scheme \<Rightarrow> FlowDiff result \<times> 'w flow_world_scheme" where
  "DiffVersions F fromID toID =
     and_then (wrapped ''from version'' (GetVersion fromID)) (\<lambda>old.
     and_then (wrapped ''to version'' (GetVersion toID)) (\<lambda>new w.
       (Inr (diff_nodes F (parseNodeMap F old) (parseNodeMap F new)), w)))"

section \<open>Reverting\<close>

definition write_flows :: "flow_env \<Rightarrow> string \<Rightarrow> 'w flow_world_scheme \<Rightarrow> unit result \<times> 'w flow_world_scheme" where
  "write_flows F data w =
     (case sys_call w of
        (Inl e, w) \<Rightarrow> (Inl e, w)
      | (Inr _, w) \<Rightarrow>
          (case WriteTo (flowsPath F) data (w\<lparr>files := (files w)(flowsPath F \<mapsto> [])\<rparr>) of
             (Inl e, w) \<Rightarrow> (Inl e, snd (sys_call w))
           | (Inr _, w) \<Rightarrow> sys_call w))"

definition flow_Revert :: "flow_env \<Rightarrow> string \<Rightarrow> 'w flow_world_scheme \<Rightarrow> unit result \<times> 'w flow_world_scheme" where
  "flow_Revert F ident =
     and_then (GetVersion ident) (\<lambda>data.
     and_then (wrapped ''write flows.json'' (write_flows F data)) (\<lambda>_ w.
       (Inr (), w\<lparr>lastHash := fl_sha256 F data\<rparr>)))"

text \<open>The endpoints.  The managed process, when it is running, is the two operations the handler calls; the answer is the
  status and the code.\<close>

type_synonym 'w running = "(('w \<Rightarrow> unit result \<times> 'w) \<times> ('w \<Rightarrow> unit result \<times> 'w)) option"

definition started :: "'w running \<Rightarrow> 'w \<Rightarrow> unit result \<times> 'w" where
  "started pm w = (case pm of None \<Rightarrow> (Inr (), w) | Some (_, start) \<Rightarrow> start w)"

definition stopped :: "'w running \<Rightarrow> 'w \<Rightarrow> unit result \<times> 'w" where
  "stopped pm w = (case pm of None \<Rightarrow> (Inr (), w) | Some (stop, _) \<Rightarrow> stop w)"

definition PostRevert ::
  "flow_env \<Rightarrow> 'w flow_world_scheme running \<Rightarrow> string \<Rightarrow> 'w flow_world_scheme \<Rightarrow> (nat \<times> string) \<times> 'w flow_world_scheme" where
  "PostRevert F pm ident w =
     (case stopped pm w of
        (Inl _, w) \<Rightarrow> ((500, ''RUNTIME_QUIESCE_ERROR''), w)
      | (Inr _, w) \<Rightarrow>
          (case CaptureNow F w of
             (Inl _, w) \<Rightarrow> ((500, ''VERSION_ERROR''), snd (started pm w))
           | (Inr _, w) \<Rightarrow>
               (case flow_Revert F ident w of
                  (Inl _, w) \<Rightarrow> ((500, ''VERSION_ERROR''), snd (started pm w))
                | (Inr _, w) \<Rightarrow>
                    (case started pm w of
                       (Inl _, w) \<Rightarrow> ((500, ''FLOW_REVERTED_RESTART_FAILED''), w)
                     | (Inr _, w) \<Rightarrow> ((200, ''''), w\<lparr>flow_trail := flow_trail w @ [(''FLOW_REVERT'', ident)]\<rparr>)))))"

definition PostSnapshot :: "flow_env \<Rightarrow> 'w flow_world_scheme \<Rightarrow> (nat \<times> string) \<times> 'w flow_world_scheme" where
  "PostSnapshot F w =
     (case CaptureNow F w of (Inl _, w) \<Rightarrow> ((500, ''VERSION_ERROR''), w) | (Inr _, w) \<Rightarrow> ((201, ''''), w))"

definition GetVersionDiff :: "flow_env \<Rightarrow> string \<Rightarrow> string \<Rightarrow> 'w flow_world_scheme \<Rightarrow> ((nat \<times> string) \<times> FlowDiff option) \<times> 'w flow_world_scheme" where
  "GetVersionDiff F fromID toID w =
     (case DiffVersions F fromID toID w of
        (Inl _, w) \<Rightarrow> (((404, ''VERSION_ERROR''), None), w)
      | (Inr d, w) \<Rightarrow> (((200, ''''), Some d), w))"

end
