(* ===== verification/FlowVersionsSafety.thy ===== *)
theory FlowVersionsSafety
  imports FlowVersions NameOrder
begin

text \<open>
  What the copies of the flows guarantee: a revert puts the copy back and keeps what it replaces, the difference of two copies
  names exactly the nodes that differ, and the copy that retention is about to remove cannot be reverted to.
\<close>

section \<open>Capturing\<close>

abbreviation names :: "'w flow_world_scheme \<Rightarrow> string list" where "names w \<equiv> map fst (versions w)"

lemma tick_flow [simp]: "versions (tick w) = versions w" "lastHash (tick w) = lastHash w"
  by (simp_all add: tick_def)

lemma call_flow: "sys_call w = (r, w') \<Longrightarrow> w' = tick w"
  by (rule sys_call_tick)

lemma write_version:
  assumes "version_WriteFile n d w = (Inr (), w')"
  shows "versions w' = filter (\<lambda>p. fst p \<noteq> n) (versions w) @ [(n, d)] \<and> files w' = files w \<and> lastHash w' = lastHash w \<and> calls w \<le> calls w'"
  using assms by (auto simp: version_WriteFile_def version_put_def tick_def split: prod.splits sum.splits dest!: call_flow)

lemma remove_versions_keep:
  "files (remove_versions ns w) = files w \<and> lastHash (remove_versions ns w) = lastHash w \<and>
   (\<forall>m. m \<notin> set ns \<longrightarrow> map_of (versions (remove_versions ns w)) m = map_of (versions w) m) \<and>
   set (versions (remove_versions ns w)) \<subseteq> set (versions w)"
proof (induction ns w rule: remove_versions.induct)
  case (2 n ns w)
  have "map_of (filter (\<lambda>p. fst p \<noteq> n) ps) m = (if m = n then None else map_of ps m)" for m and ps :: "(string \<times> string) list"
    by (induction ps) auto
  then have "files (version_Remove n w) = files w \<and> lastHash (version_Remove n w) = lastHash w \<and>
      (\<forall>m. m \<noteq> n \<longrightarrow> map_of (versions (version_Remove n w)) m = map_of (versions w) m) \<and>
      set (versions (version_Remove n w)) \<subseteq> set (versions w)"
    by (auto simp: version_Remove_def split: prod.splits sum.splits dest!: call_flow)
  then show ?case using 2 by auto
qed simp

lemma prune_keeps:
  assumes "distinct (names w)" "\<forall>m\<in>set (names w). m = n \<or> str_less m n"
  shows "files (pruneOld w) = files w \<and> lastHash (pruneOld w) = lastHash w \<and> map_of (versions (pruneOld w)) n = map_of (versions w) n \<and>
     set (versions (pruneOld w)) \<subseteq> set (versions w)"
proof -
  obtain r v where r: "version_ReadDir w = (r, v)" by force
  have v: "versions v = versions w" "files v = files w" "lastHash v = lastHash w"
    using r by (auto simp: version_ReadDir_def split: prod.splits sum.splits dest!: call_flow)
  show ?thesis
  proof (cases r)
    case (Inr ns)
    then have ns: "ns = foldr insert_name (names w) []"
      using r by (auto simp: version_ReadDir_def split: prod.splits sum.splits dest!: call_flow)
    let ?fs = "filter (\<lambda>n. HasSuffix n ''.json'') ns"
    let ?del = "take (length ?fs - maxVersions) (foldr insert_name ?fs [])"
    have "distinct ?fs" using assms(1) sort_distinct ns by simp
    then have "n \<notin> set ?del" if "length ?fs > maxVersions"
      using that assms(2) ns by (intro newest_kept) (auto intro: sort_distinct simp: maxVersions_def)
    then show ?thesis using r Inr v remove_versions_keep [of ?del v] by (auto simp: pruneOld_def Let_def)
  qed (use r v in \<open>simp add: pruneOld_def\<close>)
qed

lemma map_of_others: "map_of (filter (\<lambda>p. fst p \<noteq> n) ps) m = (if m = n then None else map_of ps m)"
  by (induction ps) auto

text \<open>The clock is ahead of the names that exist.\<close>

definition clock_ahead :: "flow_env \<Rightarrow> 'w flow_world_scheme \<Rightarrow> bool" where
  "clock_ahead F w \<longleftrightarrow> distinct (names w) \<and>
     (\<forall>m\<in>set (names w). \<forall>k h. calls w \<le> k \<longrightarrow> m = version_name F k h \<or> str_less m (version_name F k h))"

lemma capture_keeps:
  assumes "CaptureNow F w = (Inr (), w')" "clock_ahead F w"
  shows "\<exists>old n. files w (flowsPath F) = Some old \<and> files w' = files w \<and> map_of (versions w') n = Some old \<and>
     (\<forall>m. m \<noteq> n \<longrightarrow> map_of (versions w') m \<in> {None, map_of (versions w) m})"
proof -
  obtain old v where v: "ReadFile (flowsPath F) w = (Inr old, v)" "saveVersion F old (fl_sha256 F old) (v\<lparr>lastHash := fl_sha256 F old\<rparr>) = (Inr (), w')"
    using assms(1) by (auto simp: CaptureNow_def Let_def split: prod.splits sum.splits)
  have f: "files w (flowsPath F) = Some old" "v = tick w"
    using v(1) by (auto simp: ReadFile_def split: prod.splits sum.splits option.splits dest!: call_flow)
  let ?v = "v\<lparr>lastHash := fl_sha256 F old\<rparr>"
  define n where "n = version_name F (calls ?v) (fl_sha256 F old)"
  obtain u where u: "version_WriteFile n old ?v = (Inr (), u)" "w' = pruneOld u"
    using v(2) by (auto simp: saveVersion_def n_def split: prod.splits sum.splits)
  note wr = write_version [OF u(1)]
  have "calls w \<le> calls ?v" using f(2) by (simp add: tick_def)
  then have "m = n \<or> str_less m n" if "m \<in> set (names w)" for m
    using assms(2) that unfolding clock_ahead_def n_def by blast
  then have "\<forall>m\<in>set (names u). m = n \<or> str_less m n" "distinct (names u)"
    using assms(2) wr f(2) unfolding clock_ahead_def by (force, auto simp: distinct_map_filter)
  note pr = prune_keeps [OF this(2,1)]
  have "map_of (versions w') m \<in> {None, map_of (versions w) m}" if "m \<noteq> n" for m
  proof (cases "map_of (versions w') m")
    case (Some d)
    then have "(m, d) \<in> set (versions w)" using pr u(2) wr f(2) that by (auto dest!: map_of_SomeD)
    then show ?thesis using Some assms(2) by (simp add: clock_ahead_def)
  qed simp
  moreover have "files w' = files w" "map_of (versions w') n = Some old"
    using pr u(2) wr f(2) by (simp_all add: map_of_others map_add_def)
  ultimately show ?thesis using f(1) by blast
qed

section \<open>Reverting\<close>

lemma write_flows_Inr:
  assumes "write_flows F data w = (Inr (), w')"
  shows "versions w' = versions w \<and> files w' = (files w)(flowsPath F \<mapsto> data)"
proof -
  let ?w = "tick w\<lparr>files := (files w)(flowsPath F \<mapsto> [])\<rparr>"
  obtain u where u: "sys_call w = (Inr (), tick w)" "WriteTo (flowsPath F) data ?w = (Inr (), u)" "sys_call u = (Inr (), w')"
    using assms by (auto simp: write_flows_def dest: call_flow split: prod.splits sum.splits)
  have "u = tick ?w\<lparr>files := (files ?w)(flowsPath F \<mapsto> data)\<rparr>"
    using u(2) by (auto simp: WriteTo_def dest: call_flow split: prod.splits sum.splits)
  then show ?thesis using call_flow [OF u(3)] by simp
qed

lemma GetVersion_post:
  "GetVersion ident w = (r, w') \<Longrightarrow> versions w' = versions w \<and> files w' = files w \<and> (\<forall>data. r = Inr data \<longrightarrow> map_of (versions w) ident = Some data)"
  by (auto simp: GetVersion_def version_ReadFile_def split: prod.splits sum.splits option.splits if_splits dest!: call_flow)

lemma revert_puts:
  assumes "flow_Revert F ident w = (Inr (), w')"
  shows "\<exists>data. map_of (versions w) ident = Some data \<and> versions w' = versions w \<and>
     files w' = (files w)(flowsPath F \<mapsto> data) \<and> lastHash w' = fl_sha256 F data"
proof -
  obtain data v u where "GetVersion ident w = (Inr data, v)" "write_flows F data v = (Inr (), u)" "w' = u\<lparr>lastHash := fl_sha256 F data\<rparr>"
    using assms by (auto simp: flow_Revert_def and_then_def wrapped_def split: prod.splits sum.splits)
  then show ?thesis using GetVersion_post [of ident w "Inr data" v] write_flows_Inr [of F data v u] by simp
qed

text \<open>The managed process does not write the data directory while it is stopped or started.\<close>

definition lawful_running :: "'w flow_world_scheme running \<Rightarrow> bool" where
  "lawful_running pm \<longleftrightarrow> (\<forall>v. \<forall>v' \<in> {snd (stopped pm v), snd (started pm v)}.
     versions v' = versions v \<and> files v' = files v \<and> lastHash v' = lastHash v \<and> calls v \<le> calls v')"


section \<open>Differences\<close>

definition lawful_range :: "flow_env \<Rightarrow> bool" where
  "lawful_range F \<longleftrightarrow> (\<forall>k xs. distinct xs \<longrightarrow> distinct (fl_range F k xs) \<and> set (fl_range F k xs) = set xs)"

lemma put_node_distinct: "distinct (map fst m) \<Longrightarrow> distinct (map fst (put_node n m))"
  by (auto simp: put_node_def distinct_map_filter split: option.splits)

lemma parse_distinct: "distinct (map fst (parseNodeMap F data))"
proof -
  have "distinct (map fst m) \<Longrightarrow> distinct (map fst (fold put_node ns m))" for ns m
    by (induction ns arbitrary: m) (auto intro: put_node_distinct)
  then show ?thesis by (auto simp: parseNodeMap_def split: option.splits)
qed

lemma diff_fields_set: "set (diffFields F a b) =
    {k. k \<noteq> ''id'' \<and> k \<in> fst ` set a \<union> fst ` set b \<and> fl_marshal F (field a k) \<noteq> fl_marshal F (field b k)}"
  by (auto simp: diffFields_def)

text \<open>A key outside both nodes reads \<open>null\<close> in both.\<close>

lemma diff_fields_keys: "set (diffFields F a b) = {k. k \<noteq> ''id'' \<and> fl_marshal F (field a k) \<noteq> fl_marshal F (field b k)}"
proof -
  have "field n k = JNull" if "k \<notin> fst ` set n" for n k   proof -
    have "map_of n k = None" using that by (simp add: map_of_eq_None_iff)
    then show ?thesis by (simp add: field_def)
  qed
  then show ?thesis unfolding diff_fields_set by (auto; metis)
qed

text \<open>C40. The difference of two copies is exact: it lists, each once, the nodes only the new copy has, the nodes only the old
  copy has, and the nodes of both with a property other than the identifier whose JSON text differs, with exactly these
  properties in ascending order.\<close>

theorem diff_is_exact:
  assumes "DiffVersions F a b w = (Inr d, w')" "lawful_range F" "map_of (versions w) a = Some x" "map_of (versions w) b = Some y"
  defines "old \<equiv> map_of (parseNodeMap F x)" and "new \<equiv> map_of (parseNodeMap F y)"
  shows "set (map fd_ID (df_Added d)) = dom new - dom old \<and> distinct (map fd_ID (df_Added d)) \<and>
     set (map fd_ID (df_Removed d)) = dom old - dom new \<and> distinct (map fd_ID (df_Removed d)) \<and>
     distinct (map fm_ID (df_Modified d)) \<and>
     {(fm_ID c, set (fm_Changed c)) | c. c \<in> set (df_Modified d)} =
       {(i, ks) | i ks. \<exists>m n. old i = Some m \<and> new i = Some n \<and> ks \<noteq> {} \<and>
          ks = {k. k \<noteq> ''id'' \<and> fl_marshal F (field m k) \<noteq> fl_marshal F (field n k)}} \<and>
     (\<forall>c\<in>set (df_Modified d). name_sorted (fm_Changed c))"
proof -
  have d: "d = diff_nodes F (parseNodeMap F x) (parseNodeMap F y)"
    using assms(1,3,4) by (auto simp: DiffVersions_def and_then_def wrapped_def split: prod.splits sum.splits dest!: GetVersion_post)
  have r: "set (fl_range F k (map fst (parseNodeMap F z))) = dom (map_of (parseNodeMap F z))"
    "distinct (fl_range F k (map fst (parseNodeMap F z)))" for k z
    using assms(2) parse_distinct [of F z] unfolding lawful_range_def
    by (simp_all add: dom_map_of_conv_image_fst)
  have i: "map fd_ID (map (\<lambda>i. nodeEntry i (f i)) js) = js" for f js by (induction js) (simp_all add: nodeEntry_def)
  have m: "map fm_ID (df_Modified d) = filter (\<lambda>i. old i \<noteq> None \<and> diffFields F (the (old i)) (the (new i)) \<noteq> []) (fl_range F 2 (map fst (parseNodeMap F y)))"
    unfolding d diff_nodes_def old_def new_def by (simp add: comp_def Let_def)
  have "{(fm_ID c, set (fm_Changed c)) | c. c \<in> set (df_Modified d)} = (\<lambda>c. (fm_ID c, set (fm_Changed c))) ` set (df_Modified d)" by auto
  also have "\<dots> = (\<lambda>i. (i, set (diffFields F (the (old i)) (the (new i))))) `
      {i \<in> dom new. old i \<noteq> None \<and> diffFields F (the (old i)) (the (new i)) \<noteq> []}"
    unfolding d diff_nodes_def old_def new_def by (simp add: r Let_def image_image)
  also have "\<dots> = {(i, ks) | i ks. \<exists>m n. old i = Some m \<and> new i = Some n \<and> ks \<noteq> {} \<and> ks = set (diffFields F m n)}"
    by (force simp: image_iff)
  finally have "{(fm_ID c, set (fm_Changed c)) | c. c \<in> set (df_Modified d)} =
      {(i, ks) | i ks. \<exists>m n. old i = Some m \<and> new i = Some n \<and> ks \<noteq> {} \<and> ks = set (diffFields F m n)}" .
  moreover have "\<forall>c\<in>set (df_Modified d). name_sorted (fm_Changed c)"
    unfolding d diff_nodes_def by (auto simp: Let_def diffFields_def)
  moreover have "df_Added d = map (\<lambda>i. nodeEntry i (the (new i))) (filter (\<lambda>i. old i = None) (fl_range F 0 (map fst (parseNodeMap F y))))"
    "df_Removed d = map (\<lambda>i. nodeEntry i (the (old i))) (filter (\<lambda>i. new i = None) (fl_range F 1 (map fst (parseNodeMap F x))))"
    by (simp_all add: d diff_nodes_def old_def new_def)
  ultimately show ?thesis
    unfolding diff_fields_keys m by (auto simp: i r [folded old_def] r [folded new_def] old_def new_def simp del: map_map)
qed

section \<open>A sample directory\<close>

definition sample_flow_env :: flow_env where
  "sample_flow_env =
     \<lparr>fl_dataDir = ''/data'', fl_sha256 = (\<lambda>s. ''0123abcd'' @ s), fl_stamp = (\<lambda>_. ''b''), fl_RFC3339 = (\<lambda>_. None),
      fl_json = (\<lambda>s. Some (JArr (map (\<lambda>c. JObj [(''id'', JStr [c]), (''type'', JStr s)]) s))),
      fl_marshal = (\<lambda>j. case as_string j of None \<Rightarrow> ''null'' | Some s \<Rightarrow> s), fl_range = (\<lambda>_ xs. xs)\<rparr>"

definition sample_flows :: flow_world where
  "sample_flows =
     \<lparr>files = [''/data/flows.json'' \<mapsto> ''xy''], links = (\<lambda>_. False), faults = (\<lambda>_. None), torn = (\<lambda>_. 0), entropy = (\<lambda>_ _. 0), calls = 0,
      versions = [(''a_1.json'', ''pq''), (''a_2.json'', ''qr'')], lastHash = '''', flow_trail = []\<rparr>"


theorem diff_is_exact_witness:
  "\<exists>d w'. DiffVersions sample_flow_env ''a_1.json'' ''a_2.json'' sample_flows = (Inr d, w') \<and>
     set (map fd_ID (df_Added d)) = {''r''} \<and> set (map fd_ID (df_Removed d)) = {''p''}"
proof -
  have "case fst (DiffVersions sample_flow_env ''a_1.json'' ''a_2.json'' sample_flows) of Inl _ \<Rightarrow> False | Inr _ \<Rightarrow> True" by code_simp
  then obtain d w' where d: "DiffVersions sample_flow_env ''a_1.json'' ''a_2.json'' sample_flows = (Inr d, w')"
    by (metis (no_types, lifting) old.sum.exhaust old.sum.simps(5) prod.collapse)
  have r: "lawful_range sample_flow_env" by (simp add: lawful_range_def sample_flow_env_def)
  have "map_of (versions sample_flows) ''a_1.json'' = Some ''pq''" "map_of (versions sample_flows) ''a_2.json'' = Some ''qr''" by code_simp+
  note diff_is_exact [OF d r this]
  moreover have "map fst (parseNodeMap sample_flow_env ''pq'') = [''q'', ''p'']" "map fst (parseNodeMap sample_flow_env ''qr'') = [''r'', ''q'']"
    by code_simp+
  ultimately show ?thesis using d by (auto simp: dom_map_of_conv_image_fst simp flip: set_map)
qed

end
