(* ===== verification/Spec2Isabelle.thy ===== *)
theory Spec2Isabelle
  imports RingBuffer RateLimit ApplyLive SingleFlight Commits AuthFlow CryptoSafety Http EnvSafety ProcessSafety BackupUndo BackupRetention UpdateSafety FlowVersionsSafety
begin

text \<open>
  Verification of NRCC, the Node-RED control centre: a Go server that runs one Node-RED process, edits its settings.js and its
  environment, backs its data up and updates it.  The sources are under src/internal; every theory names its files.

  \<^bold>\<open>The program and its theories.\<close>  HTTP handlers (handler/) decode a request, call a service (service/), write the audit log
  and answer.  The services keep their documents in JSON stores (store/), the settings in settings.js, and the rest in memory
  behind a mutex.

  \<^item> Ground: Prelude, GoText, FilePath, Regex and Json model what the code uses of Go's library (strings, fmt, path/filepath,
    regexp, encoding/json values); Errors has the errors as values, with \<open>errors.Is\<close>; FileSystem is the operating system.
  \<^item> Stores: JsonStore is the generic store (store/json_store.go) with its contract as the locale \<open>json_store\<close>, interpreted on
    the documents of accounts, sessions, second factors (Auth), the configuration (ConfigStore), the cache of checks and the
    catalog of updates (Update).
  \<^item> Configuration: ConfigModel and ConfigPatch are the document, its JSON form and its patches; JsScan, SourcePatch, Logging
    and ConfigText read, write and edit settings.js; Sandbox evaluates it; Reconcile derives the document from it; ConfigService
    commits, saves and restores (service/config.go, config_reconcile.go, config_patch.go).
  \<^item> Apply: AtomicWrite replaces files (apply_atomic.go, apply_snapshot.go), Apply is the transaction, its recovery and the table
    of running transactions (apply.go, apply_rollback.go, apply_runtime.go, apply_coordinator.go), RedactDiff is what the audit
    shows of it (apply_diff.go).
  \<^item> Authentication: RateLimit and Http (middleware/), Auth, Mfa and SetupState (auth.go, password.go, mfa.go, setup/token.go),
    AuthHandler (handler/auth.go, mfa.go and the guards of server/server.go).
  \<^item> Environment: Crypto (crypto.go), EnvTypes, Env and NodeRedEnv (env_linux.go, env_bulk_linux.go, env_nodered_linux.go),
    EnvHandler (handler/env.go).  Process is the supervisor of the child (process_linux.go), RingBuffer its two histories.
  \<^item> Backups: BackupModel, BackupService and BackupHandler (backup.go, backup_observability.go, backup_scheduler.go,
    handler/backup.go).  Updates: Update (update.go, version.go, managed_runtime.go, handler/updates.go).
    Copies of the flows: FlowVersions (flow_version.go, handler/flows.go).  NameOrder has the order of file names, PathFacts clean
    paths.

  \<^bold>\<open>How state and operations correspond.\<close>  A struct is a record, a method a definition of its name (with a prefix such as
  \<open>js_\<close>, \<open>bk_\<close>, \<open>handle_\<close> where names clash) that takes the state and returns its result and the state after it; an error is the
  left side of a sum.  The records of state extend one another, from \<open>world\<close> (FileSystem) to the services' own: an operation is
  polymorphic in the extension, so a client calls it on its own state, and BackupFrame and the frame lemmas of the other theories
  say that what the caller added stays as it was.  Whether the \<open>n\<close>-th system call fails, what random bytes it yields and how much
  of a torn write reaches the disk are fields of \<open>world\<close>, so a theorem without a hypothesis on them holds for every pattern of
  failures.  Panics are values: \<open>GoPanic\<close> in Apply and Process, \<open>None\<close> where a slice expression is out of range.  Goroutines and
  requests interleave as steps of the inductive relations \<open>schedule\<close> (SingleFlight), \<open>pm_step\<close> (Process), \<open>update_step\<close> (Update)
  and, for requests only, \<open>history\<close> (AuthFlow) and the request sequences of EnvSafety; a critical section is one step.

  \<^bold>\<open>What the lemmas show.\<close>  ApplySafety, RollbackSafety, ApplyLive and SingleFlight: an apply leaves the old or the new document and
  a recovery point, recovers, succeeds on a working disk, and is exclusive per path.  Commits: what may enter the store.  AuthSafety,
  MfaSafety and AuthFlow: who gets a session, single use of codes and tokens, an administrator remains.  CryptoSafety: round
  trips and truncation over any authenticated cipher.  EnvSafety: types, sealed secrets, what the listing returns.  ProcessSafety:
  one child.  BackupArchive, BackupRestore, BackupSafety, BackupUndo and BackupRetention: the round trip of a backup, that a restore
  publishes authentic content only and can be undone, and what retention removes.  UpdateSafety: one installation per life of the
  server, after a backup, and the order of versions.  FlowVersionsSafety: a revert can be undone and a difference is exact.  Several properties show that the code does less than it means to; the
  comments before them say so.

  \<^bold>\<open>Bounds and fuel.\<close>  Loops over data are structural or have a measure.  The attempts at a free temporary name (10000, as in
  \<open>os.CreateTemp\<close>) and at a snapshot name are bounded by the code.  The rounds of the environment listing and the search for fresh
  recovery codes have no bound: they are \<open>partial_function\<close>s, and theorems say when they return.  The
  template scanner's fuel is the length of the text and is proved enough (\<open>template_fuel_enough\<close>).  Page offsets, Unix times and
  scanned version numbers keep their 64-bit width.

  \<^bold>\<open>Parameters.\<close>  Code that is not in the repository is an argument of the definitions: the JavaScript engine, bcrypt, SHA-256,
  AES-GCM, argon2id, JWT and TOTP, sort.Slice, zip sizes, the cron library, the clock, npm and the managed executable, the adapters
  that restart Node-RED.  What the theorems ask of them are named predicates (\<open>aead_lawful\<close>, \<open>jwt_lawful\<close>, \<open>lawful_sort\<close>,
  \<open>lawful_uuid\<close>, \<open>lawful_hook\<close>, \<open>quiet_adapter\<close>), which the witnesses instantiate with concrete functions.

  \<^bold>\<open>Not modelled.\<close>  The wiring and the static routes of the server, start-up and command line; the audit log's file and its
  rotation; the handlers that only translate between HTTP and the modelled configuration and apply services; detection of the
  host, Docker and systemd, readiness probes, and resource sampling, which are I/O with a result that is a parameter; summaries of
  the flows, libraries, presets, dashboards, files and the AI assistant, which the modelled services do not depend on; the
  restic provider; the byte syntax of JSON and zip.  Wall-clock timeouts occur only as contexts that are cancelled.
\<close>

end
